(* ===== verification/Go_Prelude.thy ===== *)
theory Go_Prelude
  imports Main "HOL-Library.Multiset"
begin

text \<open>
  Shared vocabulary of the development: the Go values the sources use (byte strings, maps that are
  iterated, instants, slices sorted with a comparison function) and the generic lemmas on them.

  \<^item> A Go \<^verbatim>\<open>map[string]*T\<close> is an association list with distinct keys (\<open>gomap\<close>). Go leaves the
    iteration order of a map unspecified; here it is the order of the list, and every theorem
    holds for every list, hence for every iteration order.
  \<^item> A pointer read from a map and written through updates the entry: \<open>gm_put\<close> at its key.
  \<^item> A loop that keeps the best element seen so far is \<open>pick_best\<close>, with the source's strict
    comparison.
  \<^item> \<^verbatim>\<open>slices.SortFunc(xs, cmp)\<close> is \<open>sort_by\<close>, an insertion sort over the same comparison
    function.
  \<^item> \<^verbatim>\<open>time.Time\<close> is an \<open>int\<close> number of nanoseconds; the zero time is \<open>0\<close>.
  \<^item> Go \<^verbatim>\<open>string\<close> and \<^verbatim>\<open>[]byte\<close> values are \<open>char list\<close>s (bytes). The case functions of the
    \<^verbatim>\<open>strings\<close> package are modelled on ASCII letters; all other bytes are left alone.
\<close>

named_theorems go_defs \<open>unfolding rules of the small helper operations\<close>

section \<open>Errors\<close>

text \<open>The sentinel errors of the storage package (validation errors wrap one of them), and the run-time
  panic of a nil dereference.\<close>

datatype store_error =
    ErrNotFound
  | ErrConflict
  | ErrInvalidInput
  | ErrDependencyExists
  | ErrDependencyCycle
  | ErrReopenCapExceeded
  | NilDereference

type_synonym 'a res = "store_error + 'a"
lemma result_ok: "\<not> isl (fst r) \<Longrightarrow> \<exists>x. r = (Inr x, snd r)"
  by (cases r; cases "fst r") auto

type_synonym instant = int
type_synonym duration = int

abbreviation (input) second :: int where "second \<equiv> 1000000000"
abbreviation (input) minute :: int where "minute \<equiv> 60 * second"
abbreviation (input) hour :: int where "hour \<equiv> 60 * minute"

section \<open>Maps that are iterated\<close>

type_synonym 'v gomap = "(string \<times> 'v) list"

definition gm_get :: "'v gomap \<Rightarrow> string \<Rightarrow> 'v option" where
  "gm_get m k = map_of m k"

fun gm_put :: "string \<Rightarrow> 'v \<Rightarrow> 'v gomap \<Rightarrow> 'v gomap" where
  "gm_put k v [] = [(k, v)]"
| "gm_put k v ((k', v') # m) = (if k' = k then (k, v) # m else (k', v') # gm_put k v m)"

definition gm_del :: "string \<Rightarrow> 'v gomap \<Rightarrow> 'v gomap" where
  "gm_del k m = filter (\<lambda>p. fst p \<noteq> k) m"

definition gm_vals :: "'v gomap \<Rightarrow> 'v list" where
  "gm_vals m = map snd m"

definition gm_wf :: "'v gomap \<Rightarrow> bool" where
  "gm_wf m \<longleftrightarrow> distinct (map fst m)"

text \<open>A loop that writes through every pointer of a map, and one that deletes entries.\<close>

definition gm_map :: "('v \<Rightarrow> 'w) \<Rightarrow> 'v gomap \<Rightarrow> 'w gomap" where
  "gm_map f m = map (\<lambda>(k, v). (k, f v)) m"

definition gm_delete_if :: "('v \<Rightarrow> bool) \<Rightarrow> 'v gomap \<Rightarrow> 'v gomap" where
  "gm_delete_if P m = filter (\<lambda>p. \<not> P (snd p)) m"

text \<open>The interface the stores rely on: what a lookup returns after each operation, and which
  values an iteration visits.\<close>

locale keyed_store =
  fixes get :: "'m \<Rightarrow> 'k \<Rightarrow> 'v option"
    and put :: "'k \<Rightarrow> 'v \<Rightarrow> 'm \<Rightarrow> 'm"
    and del :: "'k \<Rightarrow> 'm \<Rightarrow> 'm"
    and vals :: "'m \<Rightarrow> 'v list"
    and wf :: "'m \<Rightarrow> bool"
    and empty :: 'm
  assumes get_empty: "get empty k = None"
    and wf_empty: "wf empty"
    and get_put: "get (put k v m) k' = (if k' = k then Some v else get m k')"
    and get_del: "get (del k m) k' = (if k' = k then None else get m k')"
    and wf_put: "wf m \<Longrightarrow> wf (put k v m)"
    and wf_del: "wf m \<Longrightarrow> wf (del k m)"
    and vals_iff: "wf m \<Longrightarrow> v \<in> set (vals m) \<longleftrightarrow> (\<exists>k. get m k = Some v)"
begin

lemma vals_put:
  "wf m \<Longrightarrow> u \<in> set (vals (put k v m)) \<longleftrightarrow> u = v \<or> (\<exists>k'. k' \<noteq> k \<and> get m k' = Some u)"
  by (auto simp: vals_iff wf_put get_put)

lemma vals_put_fresh:
  "wf m \<Longrightarrow> get m k = None \<Longrightarrow> set (vals (put k v m)) = insert v (set (vals m))"
  by (rule set_eqI) (auto simp: vals_put vals_iff, metis option.distinct(1))

lemma vals_del:
  "wf m \<Longrightarrow> u \<in> set (vals (del k m)) \<longleftrightarrow> (\<exists>k'. k' \<noteq> k \<and> get m k' = Some u)"
  by (auto simp: vals_iff wf_del get_del)

lemma vals_del_subset: "wf m \<Longrightarrow> set (vals (del k m)) \<subseteq> set (vals m)"
  by (auto simp: vals_del vals_iff)

lemma vals_put_subset: "wf m \<Longrightarrow> set (vals (put k v m)) \<subseteq> insert v (set (vals m))"
  by (auto simp: vals_put vals_iff)

text \<open>An invariant of the entries survives a write that satisfies it and every deletion.\<close>

lemma ball_put: "wf m \<Longrightarrow> \<forall>u \<in> set (vals m). P u \<Longrightarrow> P v \<Longrightarrow> \<forall>u \<in> set (vals (put k v m)). P u"
  using vals_put_subset by fastforce

lemma ball_del: "wf m \<Longrightarrow> \<forall>u \<in> set (vals m). P u \<Longrightarrow> \<forall>u \<in> set (vals (del k m)). P u"
  using vals_del_subset by fastforce

end

lemma map_of_gm_put: "map_of (gm_put k v m) k' = (if k' = k then Some v else map_of m k')"
  by (induction m) auto

lemma map_of_gm_del: "map_of (gm_del k m) k' = (if k' = k then None else map_of m k')"
  by (induction m) (auto simp: gm_del_def)

lemma keys_gm_put: "fst ` set (gm_put k v m) = insert k (fst ` set m)"
proof (induction m)
  case (Cons p m)
  then show ?case by (cases p) (simp add: insert_commute)
qed simp

lemma distinct_gm_put: "distinct (map fst m) \<Longrightarrow> distinct (map fst (gm_put k v m))"
proof (induction m)
  case (Cons p m)
  then show ?case using keys_gm_put [of k v m] by (cases p) auto
qed simp

lemma gm_vals_iff: "gm_wf m \<Longrightarrow> v \<in> set (gm_vals m) \<longleftrightarrow> (\<exists>k. gm_get m k = Some v)"
  by (force simp: gm_wf_def gm_vals_def gm_get_def image_iff)

interpretation gm: keyed_store gm_get gm_put gm_del gm_vals gm_wf "[]"
proof unfold_locales
  show "gm_wf m \<Longrightarrow> gm_wf (gm_put k v m)" for m :: "'a gomap" and k v
    by (simp add: gm_wf_def distinct_gm_put)
  show "gm_wf m \<Longrightarrow> gm_wf (gm_del k m)" for m :: "'a gomap" and k
    by (auto simp: gm_wf_def gm_del_def intro: distinct_map_filter)
qed (simp_all add: gm_get_def gm_wf_def map_of_gm_put map_of_gm_del gm_vals_iff)

lemmas gm_lookup [simp] = gm.get_empty gm.get_put gm.get_del
lemma gm_put_fun: "gm_get (gm_put k v m) = (gm_get m)(k \<mapsto> v)"
  by (rule ext) simp

lemma gm_del_fun: "gm_get (gm_del k m) = (gm_get m)(k := None)"
  by (rule ext) simp

lemmas gm_fun = gm_put_fun gm_del_fun

lemmas gm_wf_intros [simp, intro] = gm.wf_empty gm.wf_put gm.wf_del

lemma gm_get_vals [intro]: "gm_get m k = Some v \<Longrightarrow> v \<in> set (gm_vals m)"
  by (auto simp: gm_get_def gm_vals_def dest: map_of_SomeD intro: rev_image_eqI)

lemma gm_get_map [simp]: "gm_get (gm_map f m) k = map_option f (gm_get m k)"
  by (induction m) (auto simp: gm_get_def gm_map_def)

lemma gm_vals_map [simp]: "gm_vals (gm_map f m) = map f (gm_vals m)"
  by (induction m) (auto simp: gm_vals_def gm_map_def)

lemma gm_wf_map [simp]: "gm_wf (gm_map f m) = gm_wf m"
  by (simp add: gm_wf_def gm_map_def comp_def case_prod_beta)

lemma gm_wf_delete_if [simp, intro]: "gm_wf m \<Longrightarrow> gm_wf (gm_delete_if P m)"
  by (auto simp: gm_wf_def gm_delete_if_def intro: distinct_map_filter)

lemma gm_vals_delete_if [simp]: "gm_vals (gm_delete_if P m) = filter (\<lambda>v. \<not> P v) (gm_vals m)"
  by (induction m) (auto simp: gm_vals_def gm_delete_if_def)

lemma gm_get_delete_if:
  "gm_wf m \<Longrightarrow> gm_get (gm_delete_if P m) k =
     (case gm_get m k of None \<Rightarrow> None | Some v \<Rightarrow> if P v then None else Some v)"
proof (induction m)
  case (Cons p m)
  moreover have "map_of (filter (\<lambda>p. \<not> P (snd p)) m) (fst p) = None" if "fst p \<notin> fst ` set m"
    using that by (auto simp: map_of_eq_None_iff)
  ultimately show ?case
    by (cases p) (auto simp: gm_get_def gm_delete_if_def gm_wf_def split: option.splits)
qed (simp add: gm_get_def gm_delete_if_def)

lemma gm_vals_del_le: "set (gm_vals (gm_del k m)) \<subseteq> set (gm_vals m)"
  by (auto simp: gm_vals_def gm_del_def)

section \<open>Tables without duplicates\<close>

text \<open>No two rows of a table agree under \<open>same\<close>.\<close>

definition unique_by :: "('v \<Rightarrow> 'v \<Rightarrow> bool) \<Rightarrow> (string \<Rightarrow> 'v option) \<Rightarrow> bool" where
  "unique_by same M \<longleftrightarrow> (\<forall>k1 k2 v1 v2. M k1 = Some v1 \<longrightarrow> M k2 = Some v2 \<longrightarrow> same v1 v2 \<longrightarrow> k1 = k2)"

lemma unique_by_empty [simp]: "unique_by same (\<lambda>k. None)"
  by (simp add: unique_by_def)

lemma unique_by_put:
  "unique_by same M \<Longrightarrow> (\<And>a b. same a b \<Longrightarrow> same b a) \<Longrightarrow> (\<And>k' v'. M k' = Some v' \<Longrightarrow> k' \<noteq> k \<Longrightarrow> \<not> same v' v) \<Longrightarrow>
   unique_by same (M(k \<mapsto> v))"
  unfolding unique_by_def by (metis fun_upd_apply option.inject)

lemma unique_by_del: "unique_by same M \<Longrightarrow> unique_by same (M(k := None))"
  unfolding unique_by_def by (metis fun_upd_apply option.distinct(1))

text \<open>A write that keeps what \<open>same\<close> looks at.\<close>

lemma unique_by_touch:
  "unique_by same M \<Longrightarrow> M k = Some old \<Longrightarrow> (\<And>a. same a v \<longleftrightarrow> same a old) \<Longrightarrow> (\<And>a. same v a \<longleftrightarrow> same old a) \<Longrightarrow>
   unique_by same (M(k \<mapsto> v))"
  unfolding unique_by_def by (metis fun_upd_apply option.inject)

section \<open>Loops that keep the best candidate\<close>

text \<open>\<^verbatim>\<open>if candidate == nil || better(x, candidate) { candidate = x }\<close> over a slice or a map.\<close>

definition keep_better :: "('a \<Rightarrow> 'a \<Rightarrow> bool) \<Rightarrow> 'a \<Rightarrow> 'a option \<Rightarrow> 'a option" where
  "keep_better better x c = (case c of None \<Rightarrow> Some x | Some y \<Rightarrow> if better x y then Some x else c)"

lemma keep_better_simps [simp]:
  "keep_better better x None = Some x"
  "keep_better better x (Some y) = (if better x y then Some x else Some y)"
  by (simp_all add: keep_better_def)

definition pick_best :: "('a \<Rightarrow> 'a \<Rightarrow> bool) \<Rightarrow> 'a list \<Rightarrow> 'a option" where
  "pick_best better xs = fold (keep_better better) xs None"

text \<open>The contract of the comparison: it is the strict part of a linear order on a key. The
  candidate left at the end is then an element that no other beats.\<close>

locale best_pick =
  fixes better :: "'a \<Rightarrow> 'a \<Rightarrow> bool"
  assumes asym: "better x y \<Longrightarrow> \<not> better y x"
    and trans_not: "\<not> better y x \<Longrightarrow> \<not> better z y \<Longrightarrow> \<not> better z x"
begin

lemma fold_keep_Some:
  "fold (keep_better better) xs (Some c) = Some b \<Longrightarrow>
   b \<in> insert c (set xs) \<and> (\<forall>x \<in> insert c (set xs). \<not> better x b)"
proof (induction xs arbitrary: c)
  case Nil
  then show ?case using asym by auto
next
  case (Cons x xs)
  show ?case
  proof (cases "better x c")
    case True
    with Cons.prems have "fold (keep_better better) xs (Some x) = Some b"
      by simp
    from Cons.IH [OF this] have b: "b \<in> insert x (set xs)" "\<forall>y \<in> insert x (set xs). \<not> better y b"
      by auto
    have "\<not> better c x" using True by (rule asym)
    with b have "\<not> better c b" using trans_not [of x b c] by simp
    with b show ?thesis by auto
  next
    case False
    with Cons.prems have "fold (keep_better better) xs (Some c) = Some b"
      by simp
    from Cons.IH [OF this] have b: "b \<in> insert c (set xs)" "\<forall>y \<in> insert c (set xs). \<not> better y b"
      by auto
    with False have "\<not> better x b" using trans_not [of c b x] by simp
    with b show ?thesis by auto
  qed
qed

lemma pick_Some:
  assumes "pick_best better xs = Some b"
  shows "b \<in> set xs" and "x \<in> set xs \<Longrightarrow> \<not> better x b"
proof -
  obtain y ys where xs: "xs = y # ys"
    using assms by (cases xs) (auto simp: pick_best_def)
  from assms have "fold (keep_better better) ys (Some y) = Some b"
    by (simp add: pick_best_def xs)
  from fold_keep_Some [OF this] show "b \<in> set xs" and "x \<in> set xs \<Longrightarrow> \<not> better x b"
    by (auto simp: xs)
qed

end

lemma fold_keep_not_None: "fold (keep_better better) xs (Some c) \<noteq> None"
  by (induction xs arbitrary: c) auto

lemma pick_best_None [simp]: "pick_best better xs = None \<longleftrightarrow> xs = []"
  by (cases xs) (simp_all add: pick_best_def fold_keep_not_None)

lemma pick_best_Nil [simp]: "pick_best better [] = None"
  by simp

text \<open>The two instances the sources use: the smallest and the largest integer key.\<close>

definition key_less :: "('a \<Rightarrow> int) \<Rightarrow> 'a \<Rightarrow> 'a \<Rightarrow> bool" where
  "key_less f x y \<longleftrightarrow> f x < f y"

definition key_greater :: "('a \<Rightarrow> int) \<Rightarrow> 'a \<Rightarrow> 'a \<Rightarrow> bool" where
  "key_greater f x y \<longleftrightarrow> f x > f y"

interpretation kless: best_pick "key_less f" for f
  by unfold_locales (auto simp: key_less_def)

interpretation kgreater: best_pick "key_greater f" for f
  by unfold_locales (auto simp: key_greater_def)

section \<open>Sorting with a comparison function\<close>

fun insert_by :: "('a \<Rightarrow> 'a \<Rightarrow> int) \<Rightarrow> 'a \<Rightarrow> 'a list \<Rightarrow> 'a list" where
  "insert_by cmp x [] = [x]"
| "insert_by cmp x (y # ys) = (if cmp x y \<le> 0 then x # y # ys else y # insert_by cmp x ys)"

definition sort_by :: "('a \<Rightarrow> 'a \<Rightarrow> int) \<Rightarrow> 'a list \<Rightarrow> 'a list" where
  "sort_by cmp xs = foldr (insert_by cmp) xs []"

lemma mset_insert_by [simp]: "mset (insert_by cmp x ys) = add_mset x (mset ys)"
  by (induction ys) auto

lemma mset_sort_by [simp]: "mset (sort_by cmp xs) = mset xs"
  by (induction xs) (auto simp: sort_by_def)

lemma set_sort_by [simp]: "set (sort_by cmp xs) = set xs"
  by (metis mset_sort_by set_mset_mset)

lemma length_sort_by [simp]: "length (sort_by cmp xs) = length xs"
  by (metis mset_sort_by size_mset)

text \<open>A comparison function whose non-positive results form a total preorder sorts.\<close>

locale total_cmp =
  fixes cmp :: "'a \<Rightarrow> 'a \<Rightarrow> int"
  assumes total: "cmp x y > 0 \<Longrightarrow> cmp y x \<le> 0"
    and trans: "cmp x y \<le> 0 \<Longrightarrow> cmp y z \<le> 0 \<Longrightarrow> cmp x z \<le> 0"
begin

lemma sorted_insert_by:
  "sorted_wrt (\<lambda>a b. cmp a b \<le> 0) ys \<Longrightarrow> sorted_wrt (\<lambda>a b. cmp a b \<le> 0) (insert_by cmp x ys)"
proof (induction ys)
  case (Cons y ys)
  have set_ins: "set (insert_by cmp x ys) = insert x (set ys)"
    by (metis mset_insert_by set_mset_add_mset_insert set_mset_mset)
  show ?case
  proof (cases "cmp x y \<le> 0")
    case True
    with Cons.prems show ?thesis by (auto intro: trans)
  next
    case False
    then have "cmp y x \<le> 0" using total by force
    with False Cons show ?thesis by (auto simp: set_ins)
  qed
qed simp

lemma sorted_sort_by: "sorted_wrt (\<lambda>a b. cmp a b \<le> 0) (sort_by cmp xs)"
  by (induction xs) (auto simp: sort_by_def sorted_insert_by)

text \<open>Cutting the sorted list at a limit keeps the smallest elements.\<close>

lemma take_sort_by_least:
  assumes "x \<in> set (take n (sort_by cmp xs))" and "y \<in> set (drop n (sort_by cmp xs))"
  shows "cmp x y \<le> 0"
proof -
  have "sorted_wrt (\<lambda>a b. cmp a b \<le> 0) (take n (sort_by cmp xs) @ drop n (sort_by cmp xs))"
    using sorted_sort_by by simp
  with assms show ?thesis
    unfolding sorted_wrt_append by blast
qed

end

definition cmp_key :: "('a \<Rightarrow> int) \<Rightarrow> 'a \<Rightarrow> 'a \<Rightarrow> int" where
  "cmp_key f a b = (if f a < f b then -1 else if f a = f b then 0 else 1)"

interpretation ckey: total_cmp "cmp_key f" for f
  by unfold_locales (auto simp: cmp_key_def split: if_splits)

section \<open>Counting loops and state machines\<close>

text \<open>\<^verbatim>\<open>next := 1; for x { if P(x) && f(x) >= next { next = f(x)+1 } }\<close>: the result is above every
  value of the selected elements.\<close>

definition next_above :: "('a \<Rightarrow> bool) \<Rightarrow> ('a \<Rightarrow> int) \<Rightarrow> 'a list \<Rightarrow> int \<Rightarrow> int" where
  "next_above P f xs n = fold (\<lambda>x next. if P x \<and> f x \<ge> next then f x + 1 else next) xs n"

lemma next_above_ge: "n \<le> next_above P f xs n"
proof (induction xs arbitrary: n)
  case (Cons x xs)
  from Cons.IH [of n] Cons.IH [of "f x + 1"] show ?case by (auto simp: next_above_def)
qed (simp add: next_above_def)

lemma next_above_gt: "x \<in> set xs \<Longrightarrow> P x \<Longrightarrow> f x < next_above P f xs n"
proof (induction xs arbitrary: n)
  case (Cons y ys)
  show ?case
  proof (cases "x = y")
    case True
    with Cons.prems show ?thesis
      using next_above_ge [of n P f ys] next_above_ge [of "f y + 1" P f ys]
      by (auto simp: next_above_def)
  next
    case False
    with Cons show ?thesis by (simp add: next_above_def)
  qed
qed simp

text \<open>An invariant of a step relation holds in every reachable state.\<close>

locale state_machine =
  fixes init :: "'s \<Rightarrow> bool" and step :: "'s \<Rightarrow> 's \<Rightarrow> bool" and inv :: "'s \<Rightarrow> bool"
  assumes init_inv: "init s \<Longrightarrow> inv s"
    and step_inv: "inv s \<Longrightarrow> step s t \<Longrightarrow> inv t"
begin

lemma steps_inv: "step\<^sup>*\<^sup>* s t \<Longrightarrow> inv s \<Longrightarrow> inv t"
  by (induction rule: rtranclp_induct) (auto intro: step_inv)

lemma reachable_inv: "init s \<Longrightarrow> step\<^sup>*\<^sup>* s t \<Longrightarrow> inv t"
  by (blast intro: steps_inv init_inv)

end

end
