(* ===== verification/Domain_Types.thy ===== *)
theory Domain_Types
  imports Go_Strings "HOL-Library.Word"
begin

text \<open>
  The entities of \<^verbatim>\<open>control-plane/internal/domain/types.go\<close> and the board-policy document of
  \<^verbatim>\<open>domain/board_policy.go\<close>. A struct is a record with the source's fields in the source's order; a
  string enumeration keeps its Go representation (a string) with one constant per name, because
  the code compares, defaults and sorts these values as strings; a pointer field that may be nil is
  an option; \<^verbatim>\<open>json.RawMessage\<close> is a byte string; a \<^verbatim>\<open>float64\<close> that the store only copies is its 64-bit
  pattern.
\<close>

section \<open>Users\<close>

definition RolePlatformAdmin :: string where [simp]: "RolePlatformAdmin = ''platform_admin''"
definition RoleUser :: string where [simp]: "RoleUser = ''user''"

definition Role_Valid :: "string \<Rightarrow> bool" where
  "Role_Valid r \<longleftrightarrow> r = RolePlatformAdmin \<or> r = RoleUser"

record User =
  User_ID :: string
  User_OIDCIssuer :: string
  User_OIDCSubject :: string
  User_Email :: string
  User_EmailVerified :: bool
  User_Name :: string
  User_Role :: string
  User_CreatedAt :: instant

section \<open>Board policy\<close>

record LeaderGrant =
  LG_CanPrioritize :: bool
  LG_CanAssignOthers :: bool

definition LeaderGrant_zero :: LeaderGrant where
  "LeaderGrant_zero = \<lparr>LG_CanPrioritize = False, LG_CanAssignOthers = False\<rparr>"

definition LeaderGrant_Any :: "LeaderGrant \<Rightarrow> bool" where
  "LeaderGrant_Any g \<longleftrightarrow> LG_CanPrioritize g \<or> LG_CanAssignOthers g"

record BoardPolicy =
  BP_ReopenCapPerDay :: "int option"
  BP_SelfApproveDefault :: "bool option"
  BP_LeaderApprovalAllowed :: "bool option"
  BP_LeaderGrants :: "LeaderGrant gomap"

definition PlatformReopenCapPerDay :: int where "PlatformReopenCapPerDay = 3"
definition PlatformSelfApproveDefault :: bool where "PlatformSelfApproveDefault = True"
definition PlatformLeaderApprovalAllowed :: bool where "PlatformLeaderApprovalAllowed = False"

section \<open>Squads, agents, identities\<close>

definition SquadActive :: string where [simp]: "SquadActive = ''active''"
definition SquadArchived :: string where [simp]: "SquadArchived = ''archived''"

record Squad =
  Squad_ID :: string
  Squad_Name :: string
  Squad_Mission :: string
  Squad_Prompt :: string
  Squad_OperatingModel :: string
  Squad_BoardPolicy :: BoardPolicy
  Squad_OwnerID :: string
  Squad_Namespace :: string
  Squad_Status :: string
  Squad_CreatedAt :: instant
  Squad_UpdatedAt :: instant

definition AgentIdle :: string where [simp]: "AgentIdle = ''idle''"
definition AgentBusy :: string where [simp]: "AgentBusy = ''busy''"
definition AgentError :: string where [simp]: "AgentError = ''error''"
definition AgentBlocked :: string where [simp]: "AgentBlocked = ''blocked''"

definition AgentStatus_Wakeable :: "string \<Rightarrow> bool" where
  "AgentStatus_Wakeable s \<longleftrightarrow> s = AgentIdle \<or> s = AgentBlocked"

record WorkspaceSecret =
  WS_ResourceID :: string
  WS_SecretName :: string

record Agent =
  Agent_ID :: string
  Agent_SquadID :: string
  Agent_Name :: string
  Agent_Role :: string
  Agent_SystemPrompt :: string
  Agent_IdentityID :: string
  Agent_AIModelID :: string
  Agent_FallbackAIModelID :: string
  Agent_Permissions :: string
  Agent_IdleTimeoutSec :: int
  Agent_ThinkingLevel :: string
  Agent_SelfApproveAllowed :: "bool option"
  Agent_TaskSubagentMaxTurns :: "int option"
  Agent_StorageEnabled :: bool
  Agent_StorageSize :: string
  Agent_DeploymentName :: string
  Agent_WorkspacePVCName :: string
  Agent_ChatResetAt :: instant
  Agent_Status :: string
  Agent_CreatedAt :: instant
  Agent_UpdatedAt :: instant
  Agent_WorkspaceSecrets :: "WorkspaceSecret list"
  Agent_AIModelName :: string
  Agent_FallbackAIModelName :: string

definition GatewayKeyNone :: string where [simp]: "GatewayKeyNone = ''none''"
definition GatewayKeyActive :: string where [simp]: "GatewayKeyActive = ''active''"
definition GatewayKeyRevoked :: string where [simp]: "GatewayKeyRevoked = ''revoked''"

record AgentIdentity =
  AI_ID :: string
  AI_AgentID :: string
  AI_CredentialRef :: string
  AI_CredentialHash :: string
  AI_VirtualKeyRef :: string
  AI_CreatedBy :: string
  AI_CreatedAt :: instant
  AI_RotatedAt :: instant
  AI_Generation :: int
  AI_GatewayKeyToken :: string
  AI_GatewayKeyStatus :: string

record Board =
  Board_ID :: string
  Board_SquadID :: string
  Board_CreatedAt :: instant

section \<open>The Kubernetes outbox\<close>

definition KubernetesOutboxPending :: string where [simp]: "KubernetesOutboxPending = ''pending''"
definition KubernetesOutboxApplied :: string where [simp]: "KubernetesOutboxApplied = ''applied''"
definition KubernetesOutboxFailed :: string where [simp]: "KubernetesOutboxFailed = ''failed''"

definition KubernetesAggregateSquad :: string where [simp]: "KubernetesAggregateSquad = ''squad''"
definition KubernetesAggregateAgent :: string where [simp]: "KubernetesAggregateAgent = ''agent''"
definition KubernetesOpUpsertSquad :: string where [simp]: "KubernetesOpUpsertSquad = ''upsert_squad''"
definition KubernetesOpDeleteSquad :: string where [simp]: "KubernetesOpDeleteSquad = ''delete_squad''"
definition KubernetesOpUpsertAgent :: string where [simp]: "KubernetesOpUpsertAgent = ''upsert_agent''"
definition KubernetesOpDeleteAgent :: string where [simp]: "KubernetesOpDeleteAgent = ''delete_agent''"

record KubernetesOutboxPayload =
  KP_Squad :: "Squad option"
  KP_Agent :: "Agent option"
  KP_Identity :: "AgentIdentity option"

text \<open>The stored payload is the JSON encoding of the structure. The model keeps the structure that
  decoding it gives back: the two identity fields tagged \<^verbatim>\<open>json:"-"\<close> are absent from the encoding
  and come back as zero values.\<close>

definition json_identity :: "AgentIdentity \<Rightarrow> AgentIdentity" where
  "json_identity i = i\<lparr>AI_CredentialHash := [], AI_GatewayKeyToken := []\<rparr>"

definition json_payload :: "KubernetesOutboxPayload \<Rightarrow> KubernetesOutboxPayload" where
  "json_payload p = p\<lparr>KP_Identity := map_option json_identity (KP_Identity p)\<rparr>"

record KubernetesOutboxEvent =
  KE_ID :: string
  KE_AggregateType :: string
  KE_AggregateID :: string
  KE_Operation :: string
  KE_Payload :: KubernetesOutboxPayload
  KE_Status :: string
  KE_Attempts :: int
  KE_LastError :: string
  KE_NextAttemptAt :: instant
  KE_LockedUntil :: instant
  KE_CreatedAt :: instant
  KE_UpdatedAt :: instant

section \<open>Tasks and executions\<close>

definition TaskBacklog :: string where [simp]: "TaskBacklog = ''backlog''"
definition TaskTodo :: string where [simp]: "TaskTodo = ''todo''"
definition TaskInProgress :: string where [simp]: "TaskInProgress = ''in-progress''"
definition TaskInReview :: string where [simp]: "TaskInReview = ''in-review''"
definition TaskDone :: string where [simp]: "TaskDone = ''done''"
definition TaskBlocked :: string where [simp]: "TaskBlocked = ''blocked''"

definition TaskStatus_Valid :: "string \<Rightarrow> bool" where
  "TaskStatus_Valid s \<longleftrightarrow>
     s \<in> {TaskBacklog, TaskTodo, TaskInProgress, TaskInReview, TaskDone, TaskBlocked}"

definition AgentPickupStatuses :: "string list" where
  "AgentPickupStatuses = [TaskTodo, TaskInProgress]"

definition IsAgentPickupStatus :: "string \<Rightarrow> bool" where
  "IsAgentPickupStatus s \<longleftrightarrow> list_ex (\<lambda>allowed. s = allowed) AgentPickupStatuses"

record Task =
  Task_ID :: string
  Task_BoardID :: string
  Task_SquadID :: string
  Task_Title :: string
  Task_Description :: string
  Task_Status :: string
  Task_AssigneeAgentID :: string
  Task_CreatedByType :: string
  Task_CreatedByID :: string
  Task_Position :: int
  Task_TaskNumber :: int
  Task_CreatedAt :: instant
  Task_UpdatedAt :: instant
  Task_OriginMessageID :: string
  Task_WorkspaceResourceID :: string
  Task_WorkspaceBranch :: string
  Task_WorkspaceCommitSHA :: string
  Task_PromptSHA :: string
  Task_ExecutionID :: string
  Task_WorkerID :: string
  Task_FencingToken :: string
  Task_LeaseExpiresAt :: instant
  Task_Result :: string
  Task_ResultStatus :: string
  Task_ResultAt :: instant
  Task_ReviewerFeedback :: string
  Task_BlockedByCount :: int

record TaskDependencyRef =
  TDR_TaskID :: string
  TDR_TaskNumber :: int
  TDR_Title :: string
  TDR_Status :: string
  TDR_AssigneeAgentID :: string
  TDR_Satisfied :: bool

record TaskDependencies =
  TD_DependsOn :: "TaskDependencyRef list"
  TD_Dependents :: "TaskDependencyRef list"

definition TaskExecutionActive :: string where [simp]: "TaskExecutionActive = ''active''"
definition TaskExecutionCompleted :: string where [simp]: "TaskExecutionCompleted = ''completed''"
definition TaskExecutionBlocked :: string where [simp]: "TaskExecutionBlocked = ''blocked''"
definition TaskExecutionExpired :: string where [simp]: "TaskExecutionExpired = ''expired''"

record TaskExecution =
  TE_ID :: string
  TE_TaskID :: string
  TE_AgentID :: string
  TE_WorkerID :: string
  TE_FencingToken :: string
  TE_Status :: string
  TE_LeaseExpiresAt :: instant
  TE_ResultStatus :: string
  TE_ResultSummary :: string
  TE_PromptSHA :: string
  TE_StartedAt :: instant
  TE_CompletedAt :: instant
  TE_UpdatedAt :: instant
  TE_ReviewerFeedback :: string
  TE_ReopenSeq :: bool
  TE_SubagentThread :: string

record ReapedExecution =
  RE_ExecutionID :: string
  RE_TaskID :: string
  RE_AgentID :: string

section \<open>Messages\<close>

definition MessageConsult :: string where [simp]: "MessageConsult = ''consult''"
definition MessageDelegate :: string where [simp]: "MessageDelegate = ''delegate''"
definition MessageHandoff :: string where [simp]: "MessageHandoff = ''handoff''"
definition MessagePing :: string where [simp]: "MessagePing = ''ping''"
definition MessageReply :: string where [simp]: "MessageReply = ''reply''"

definition MessageType_Valid :: "string \<Rightarrow> bool" where
  "MessageType_Valid t \<longleftrightarrow>
     t \<in> {MessageConsult, MessageDelegate, MessageHandoff, MessagePing, MessageReply}"

definition MessagePending :: string where [simp]: "MessagePending = ''pending''"
definition MessageDelivered :: string where [simp]: "MessageDelivered = ''delivered''"
definition MessageExpired :: string where [simp]: "MessageExpired = ''expired''"
definition MessageDead :: string where [simp]: "MessageDead = ''dead''"
definition MessageCancelled :: string where [simp]: "MessageCancelled = ''cancelled''"

record Message =
  Msg_ID :: string
  Msg_FromType :: string
  Msg_FromID :: string
  Msg_FromDisplay :: string
  Msg_ToAgentID :: string
  Msg_SquadID :: string
  Msg_Type :: string
  Msg_Payload :: string
  Msg_Status :: string
  Msg_CorrelationID :: string
  Msg_Attempts :: int
  Msg_MaxAttempts :: int
  Msg_NextRetryAt :: instant
  Msg_ExpiresAt :: instant
  Msg_TimeoutAt :: instant
  Msg_TimeoutNotifiedAt :: instant
  Msg_TerminalReason :: string
  Msg_CreatedAt :: instant
  Msg_DeliveredAt :: instant

record AgentInboxSnapshot =
  Snap_PendingCount :: int
  Snap_OldestPendingAt :: "instant option"
  Snap_RetryingCount :: int
  Snap_DeliveredCount :: int
  Snap_DeadCount :: int
  Snap_Pending :: "Message list"
  Snap_Retrying :: "Message list"
  Snap_Delivered :: "Message list"
  Snap_Dead :: "Message list"

record DeadLetterFilter =
  DLF_SquadID :: string
  DLF_AgentID :: string
  DLF_Type :: string
  DLF_Reason :: string
  DLF_Since :: "instant option"
  DLF_Until :: "instant option"
  DLF_Limit :: int

section \<open>Grants, permissions, audit, prompt revisions\<close>

definition ResAPI :: string where [simp]: "ResAPI = ''api''"
definition ResRest :: string where [simp]: "ResRest = ''rest''"

definition CanonicalResourceType :: "string \<Rightarrow> string" where
  "CanonicalResourceType t = (if t = ResAPI then ResRest else t)"

lemma CanonicalResourceType_idem [simp]:
  "CanonicalResourceType (CanonicalResourceType t) = CanonicalResourceType t"
  by (simp add: CanonicalResourceType_def)

record AgentPermission =
  AP_ID :: string
  AP_AgentID :: string
  AP_ResourceType :: string
  AP_ResourceID :: string
  AP_GrantedBy :: string
  AP_CreatedAt :: instant
  AP_Constraints :: string

definition GranteeUser :: string where [simp]: "GranteeUser = ''user''"
definition GranteeAgent :: string where [simp]: "GranteeAgent = ''agent''"

record AccessGrant =
  AG_ID :: string
  AG_SquadID :: string
  AG_GranteeType :: string
  AG_GranteeID :: string
  AG_Permissions :: string
  AG_GrantedBy :: string
  AG_CreatedAt :: instant

definition GrantRequestPendingOwner :: string where [simp]: "GrantRequestPendingOwner = ''pending_owner''"
definition GrantRequestPendingAdmin :: string where [simp]: "GrantRequestPendingAdmin = ''pending_admin''"
definition GrantRequestApproved :: string where [simp]: "GrantRequestApproved = ''approved''"
definition GrantRequestDenied :: string where [simp]: "GrantRequestDenied = ''denied''"

record GrantLintFinding =
  GLF_Code :: string
  GLF_Severity :: string
  GLF_Detail :: string

definition FindingsHaveBlock :: "GrantLintFinding list \<Rightarrow> bool" where
  "FindingsHaveBlock findings = list_ex (\<lambda>f. GLF_Severity f = ''block'') findings"

record GrantRequest =
  GR_ID :: string
  GR_ResourceID :: string
  GR_AgentID :: string
  GR_RequesterUserID :: string
  GR_Tier :: string
  GR_State :: string
  GR_RequestedScope :: string
  GR_Findings :: "GrantLintFinding list"
  GR_ApprovedByOwnerAt :: "instant option"
  GR_ApprovedByAdminAt :: "instant option"
  GR_DeniedReason :: string
  GR_Expiry :: "instant option"
  GR_CreatedAt :: instant
  GR_UpdatedAt :: instant

definition ConfirmationPending :: string where [simp]: "ConfirmationPending = ''pending''"
definition ConfirmationApprovedOnce :: string where [simp]: "ConfirmationApprovedOnce = ''approved_once''"
definition ConfirmationApprovedStanding :: string where [simp]: "ConfirmationApprovedStanding = ''approved_standing''"
definition ConfirmationDenied :: string where [simp]: "ConfirmationDenied = ''denied''"
definition ConfirmationExpired :: string where [simp]: "ConfirmationExpired = ''expired''"

record PendingConfirmation =
  PC_ID :: string
  PC_ResourceID :: string
  PC_AgentID :: string
  PC_Tool :: string
  PC_ArgsHash :: string
  PC_State :: string
  PC_InboxMessageID :: string
  PC_RequestedBy :: string
  PC_DeniedReason :: string
  PC_ApprovedAt :: "instant option"
  PC_ConsumedAt :: "instant option"
  PC_CreatedAt :: instant
  PC_UpdatedAt :: instant

record StandingGrant =
  SG_ID :: string
  SG_ResourceID :: string
  SG_AgentID :: string
  SG_Tool :: string
  SG_ExpiresAt :: instant
  SG_CreatedBy :: string
  SG_CreatedAt :: instant
  SG_RevokedAt :: "instant option"

record AuditEntry =
  AE_ID :: string
  AE_ActorType :: string
  AE_ActorID :: string
  AE_ActorDisplay :: string
  AE_Action :: string
  AE_ResourceType :: string
  AE_ResourceID :: string
  AE_SquadID :: string
  AE_Metadata :: string
  AE_Timestamp :: instant

record InstanceSettings =
  IS_OrgName :: string
  IS_OrgPrompt :: string
  IS_UpdatedAt :: instant
  IS_UpdatedBy :: string

record PromptRevision =
  PR_ID :: string
  PR_Scope :: string
  PR_ScopeID :: string
  PR_Content :: string
  PR_Tokens :: int
  PR_SHA256 :: string
  PR_SavedBy :: string
  PR_SavedAt :: instant

record PromptRevisionIntent =
  PRI_Scope :: string
  PRI_ScopeID :: string
  PRI_SavedBy :: string

section \<open>The registry: providers, models, resources\<close>

type_synonym float64 = "64 word"

definition ResourceActive :: string where [simp]: "ResourceActive = ''active''"
definition ResourceDeprecated :: string where [simp]: "ResourceDeprecated = ''deprecated''"
definition ResAIProvider :: string where [simp]: "ResAIProvider = ''ai_provider''"

record AIProvider =
  Prov_ID :: string
  Prov_Name :: string
  Prov_Kind :: string
  Prov_BaseURL :: string
  Prov_APIKeyRef :: string
  Prov_APIKeyMask :: string
  Prov_Status :: string
  Prov_RegisteredBy :: string
  Prov_CreatedAt :: instant

record AIModel =
  Mod_ID :: string
  Mod_ProviderID :: string
  Mod_DisplayName :: string
  Mod_ModelName :: string
  Mod_ContextWindow :: int
  Mod_SupportsTools :: bool
  Mod_SupportsVision :: bool
  Mod_Pricing :: string
  Mod_LongContextThresholdTokens :: int
  Mod_Status :: string
  Mod_RegisteredBy :: string
  Mod_CreatedAt :: instant
  Mod_UpdatedAt :: instant
  Mod_GatewayKeyFingerprint :: string

record UserModelGrant =
  UMG_ID :: string
  UMG_GranteeUserID :: string
  UMG_AIModelID :: string
  UMG_GrantedBy :: string
  UMG_CreatedAt :: instant

record MCPDriftState =
  Drift_Pending :: "string list"
  Drift_LastCheckedAt :: "instant option"
  Drift_Drifted :: bool

record RegistryResource =
  Res_ID :: string
  Res_Type :: string
  Res_Name :: string
  Res_Description :: string
  Res_Endpoint :: string
  Res_AuthRef :: string
  Res_Manifest :: string
  Res_Status :: string
  Res_RegisteredBy :: string
  Res_CreatedAt :: instant
  Res_EndpointConfig :: string
  Res_PolicyCeiling :: string
  Res_RiskTier :: string
  Res_EgressClass :: string
  Res_OwnerUserID :: string
  Res_Metered :: bool
  Res_PricePerCall :: "float64 option"
  Res_Currency :: string
  Res_ToolsSnapshot :: string
  Res_ToolsHash :: string
  Res_ToolsEnumeratedAt :: "instant option"
  Res_MCPDriftPending :: string
  Res_MCPDriftCheckedAt :: "instant option"
  Res_Drift :: "MCPDriftState option"

record AgentMemory =
  Mem_ID :: string
  Mem_AgentID :: string
  Mem_SquadID :: string
  Mem_Content :: string
  Mem_RawContent :: string
  Mem_TrustLevel :: string
  Mem_Provenance :: string
  Mem_ReviewStatus :: string
  Mem_Embedding :: "float64 list"
  Mem_EmbeddingModel :: string
  Mem_SourceTaskID :: string
  Mem_Metadata :: string
  Mem_CreatedAt :: instant

section \<open>Scheduled jobs\<close>

record ScheduledJob =
  Job_ID :: string
  Job_AgentID :: string
  Job_SquadID :: string
  Job_Title :: string
  Job_Message :: string
  Job_ScheduleKind :: string
  Job_ScheduleSpec :: string
  Job_Enabled :: bool
  Job_NextRunAt :: instant
  Job_LastRunAt :: instant
  Job_LastRunStatus :: string
  Job_FailCount :: int
  Job_DisabledReason :: string
  Job_CreatedByType :: string
  Job_CreatedByID :: string
  Job_CreatedAt :: instant

section \<open>Built-in tools and budget blocks\<close>

text \<open>\<^verbatim>\<open>domain/builtin_tools.go\<close>: the tools in canonical order, and those that ship enabled.\<close>

definition BuiltinToolCron :: string where "BuiltinToolCron = ''cron''"

definition BuiltinToolNames :: "string list" where
  "BuiltinToolNames =
     [''exec'', ''web_fetch'', ''web_search'', ''send_message'', ''send_inbox'', ''notify_owner'', ''memory_search'', ''spawn_subagent'',
      ''read'', ''write'', ''edit'', ''apply_patch'', ''process'', ''cron'', ''sessions_list'', ''sessions_history'',
      ''session_status'', ''browser'', ''board.create_task'', ''board.assign'', ''board.claim'', ''board.complete'', ''board.block'', ''board.reopen'',
      ''board.request_changes'', ''board.approve'']"

definition BuiltinToolDefaultEnabled :: "string \<Rightarrow> bool" where
  "BuiltinToolDefaultEnabled nm \<longleftrightarrow> nm \<in> set
     [''send_message'', ''send_inbox'', ''notify_owner'', ''memory_search'', ''spawn_subagent'', ''read'', ''write'', ''edit'',
      ''apply_patch'', ''process'', ''cron'', ''sessions_list'', ''sessions_history'', ''session_status'', ''browser'', ''board.create_task'',
      ''board.assign'', ''board.claim'', ''board.complete'', ''board.block'', ''board.reopen'', ''board.request_changes'', ''board.approve'']"

record BuiltinToolConfig =
  BT_Name :: string
  BT_Enabled :: bool
  BT_Policy :: string
  BT_UpdatedAt :: instant
  BT_UpdatedBy :: string

record BudgetBlock =
  BB_UserID :: string
  BB_Period :: string
  BB_BlockedByUser :: bool
  BB_BlockedByPlatform :: bool
  BB_UpdatedAt :: instant

section \<open>Owner inbox, notifications, templates, uploads, drift reports\<close>

definition InboxActionRequired :: string where [simp]: "InboxActionRequired = ''action_required''"
definition NotificationWarning :: string where [simp]: "NotificationWarning = ''warning''"

record InboxAttachment =
  Att_ID :: string
  Att_MessageID :: string
  Att_SquadID :: string
  Att_Filename :: string
  Att_ContentType :: string
  Att_SizeBytes :: int
  Att_SHA256 :: string
  Att_URL :: string
  Att_CreatedAt :: instant
  Att_Data :: string

record InboxMessage =
  Inb_ID :: string
  Inb_SquadID :: string
  Inb_UserID :: string
  Inb_FromAgentID :: string
  Inb_TaskID :: string
  Inb_Kind :: string
  Inb_Message :: string
  Inb_Subject :: string
  Inb_Body :: string
  Inb_ReadAt :: "instant option"
  Inb_CreatedAt :: instant
  Inb_Attachments :: "InboxAttachment list"

record Notification =
  Ntf_ID :: string
  Ntf_UserID :: string
  Ntf_SquadID :: string
  Ntf_TaskID :: string
  Ntf_AgentID :: string
  Ntf_Type :: string
  Ntf_Severity :: string
  Ntf_Message :: string
  Ntf_ReadAt :: "instant option"
  Ntf_CreatedAt :: instant

record DriftReport =
  DR_ID :: string
  DR_ResourceID :: string
  DR_HostGroup :: string
  DR_Playbook :: string
  DR_GitRev :: string
  DR_CheckedAt :: instant
  DR_DriftedHosts :: "string list"
  DR_InSync :: bool

record Upload =
  Upl_ID :: string
  Upl_SquadID :: string
  Upl_UploaderID :: string
  Upl_Filename :: string
  Upl_ContentType :: string
  Upl_SizeBytes :: int
  Upl_Data :: string
  Upl_CreatedAt :: instant

record PromptTemplate =
  PT_ID :: string
  PT_Name :: string
  PT_Description :: string
  PT_Content :: string
  PT_AppliesTo :: string
  PT_CreatedBy :: string
  PT_CreatedAt :: instant
  PT_UpdatedAt :: instant

section \<open>Zero values\<close>

text \<open>The zero value of each struct, as Go initialises it.\<close>

definition BoardPolicy_zero :: BoardPolicy where
  "BoardPolicy_zero = \<lparr>
     BP_ReopenCapPerDay = None, BP_SelfApproveDefault = None, BP_LeaderApprovalAllowed =
     None, BP_LeaderGrants = []\<rparr>"

definition Squad_zero :: Squad where
  "Squad_zero = \<lparr>
     Squad_ID = [], Squad_Name = [], Squad_Mission = [], Squad_Prompt = [],
     Squad_OperatingModel = [], Squad_BoardPolicy = BoardPolicy_zero, Squad_OwnerID = [],
     Squad_Namespace = [], Squad_Status = [], Squad_CreatedAt = 0, Squad_UpdatedAt = 0\<rparr>"

definition Agent_zero :: Agent where
  "Agent_zero = \<lparr>
     Agent_ID = [], Agent_SquadID = [], Agent_Name = [], Agent_Role = [], Agent_SystemPrompt
     = [], Agent_IdentityID = [], Agent_AIModelID = [], Agent_FallbackAIModelID = [],
     Agent_Permissions = [], Agent_IdleTimeoutSec = 0, Agent_ThinkingLevel = [],
     Agent_SelfApproveAllowed = None, Agent_TaskSubagentMaxTurns = None,
     Agent_StorageEnabled = False, Agent_StorageSize = [], Agent_DeploymentName = [],
     Agent_WorkspacePVCName = [], Agent_ChatResetAt = 0, Agent_Status = [], Agent_CreatedAt
     = 0, Agent_UpdatedAt = 0, Agent_WorkspaceSecrets = [], Agent_AIModelName = [],
     Agent_FallbackAIModelName = []\<rparr>"

definition AgentIdentity_zero :: AgentIdentity where
  "AgentIdentity_zero = \<lparr>
     AI_ID = [], AI_AgentID = [], AI_CredentialRef = [], AI_CredentialHash = [],
     AI_VirtualKeyRef = [], AI_CreatedBy = [], AI_CreatedAt = 0, AI_RotatedAt = 0,
     AI_Generation = 0, AI_GatewayKeyToken = [], AI_GatewayKeyStatus = []\<rparr>"

definition Task_zero :: Task where
  "Task_zero = \<lparr>
     Task_ID = [], Task_BoardID = [], Task_SquadID = [], Task_Title = [], Task_Description =
     [], Task_Status = [], Task_AssigneeAgentID = [], Task_CreatedByType = [],
     Task_CreatedByID = [], Task_Position = 0, Task_TaskNumber = 0, Task_CreatedAt = 0,
     Task_UpdatedAt = 0, Task_OriginMessageID = [], Task_WorkspaceResourceID = [],
     Task_WorkspaceBranch = [], Task_WorkspaceCommitSHA = [], Task_PromptSHA = [],
     Task_ExecutionID = [], Task_WorkerID = [], Task_FencingToken = [], Task_LeaseExpiresAt
     = 0, Task_Result = [], Task_ResultStatus = [], Task_ResultAt = 0, Task_ReviewerFeedback
     = [], Task_BlockedByCount = 0\<rparr>"

definition Message_zero :: Message where
  "Message_zero = \<lparr>
     Msg_ID = [], Msg_FromType = [], Msg_FromID = [], Msg_FromDisplay = [], Msg_ToAgentID =
     [], Msg_SquadID = [], Msg_Type = [], Msg_Payload = [], Msg_Status = [],
     Msg_CorrelationID = [], Msg_Attempts = 0, Msg_MaxAttempts = 0, Msg_NextRetryAt = 0,
     Msg_ExpiresAt = 0, Msg_TimeoutAt = 0, Msg_TimeoutNotifiedAt = 0, Msg_TerminalReason =
     [], Msg_CreatedAt = 0, Msg_DeliveredAt = 0\<rparr>"

definition User_zero :: User where
  "User_zero = \<lparr>
     User_ID = [], User_OIDCIssuer = [], User_OIDCSubject = [], User_Email = [],
     User_EmailVerified = False, User_Name = [], User_Role = [], User_CreatedAt = 0\<rparr>"

definition AuditEntry_zero :: AuditEntry where
  "AuditEntry_zero = \<lparr>
     AE_ID = [], AE_ActorType = [], AE_ActorID = [], AE_ActorDisplay = [], AE_Action = [],
     AE_ResourceType = [], AE_ResourceID = [], AE_SquadID = [], AE_Metadata = [],
     AE_Timestamp = 0\<rparr>"

definition AccessGrant_zero :: AccessGrant where
  "AccessGrant_zero = \<lparr>
     AG_ID = [], AG_SquadID = [], AG_GranteeType = [], AG_GranteeID = [], AG_Permissions =
     [], AG_GrantedBy = [], AG_CreatedAt = 0\<rparr>"

definition AgentPermission_zero :: AgentPermission where
  "AgentPermission_zero = \<lparr>
     AP_ID = [], AP_AgentID = [], AP_ResourceType = [], AP_ResourceID = [], AP_GrantedBy =
     [], AP_CreatedAt = 0, AP_Constraints = []\<rparr>"

definition AIProvider_zero :: AIProvider where
  "AIProvider_zero = \<lparr>
     Prov_ID = [], Prov_Name = [], Prov_Kind = [], Prov_BaseURL = [], Prov_APIKeyRef = [], Prov_APIKeyMask =
     [], Prov_Status = [], Prov_RegisteredBy = [], Prov_CreatedAt = 0\<rparr>"

definition AIModel_zero :: AIModel where
  "AIModel_zero = \<lparr>
     Mod_ID = [], Mod_ProviderID = [], Mod_DisplayName = [], Mod_ModelName = [], Mod_ContextWindow = 0,
     Mod_SupportsTools = False, Mod_SupportsVision = False, Mod_Pricing = [], Mod_LongContextThresholdTokens =
     0, Mod_Status = [], Mod_RegisteredBy = [], Mod_CreatedAt = 0, Mod_UpdatedAt = 0,
     Mod_GatewayKeyFingerprint = []\<rparr>"

definition UserModelGrant_zero :: UserModelGrant where
  "UserModelGrant_zero = \<lparr>
     UMG_ID = [], UMG_GranteeUserID = [], UMG_AIModelID = [], UMG_GrantedBy = [], UMG_CreatedAt = 0\<rparr>"

definition RegistryResource_zero :: RegistryResource where
  "RegistryResource_zero = \<lparr>
     Res_ID = [], Res_Type = [], Res_Name = [], Res_Description = [], Res_Endpoint = [], Res_AuthRef = [],
     Res_Manifest = [], Res_Status = [], Res_RegisteredBy = [], Res_CreatedAt = 0, Res_EndpointConfig = [],
     Res_PolicyCeiling = [], Res_RiskTier = [], Res_EgressClass = [], Res_OwnerUserID = [], Res_Metered =
     False, Res_PricePerCall = None, Res_Currency = [], Res_ToolsSnapshot = [], Res_ToolsHash = [],
     Res_ToolsEnumeratedAt = None, Res_MCPDriftPending = [], Res_MCPDriftCheckedAt = None, Res_Drift = None\<rparr>"

definition GrantRequest_zero :: GrantRequest where
  "GrantRequest_zero = \<lparr>
     GR_ID = [], GR_ResourceID = [], GR_AgentID = [], GR_RequesterUserID = [], GR_Tier = [], GR_State = [],
     GR_RequestedScope = [], GR_Findings = [], GR_ApprovedByOwnerAt = None, GR_ApprovedByAdminAt = None,
     GR_DeniedReason = [], GR_Expiry = None, GR_CreatedAt = 0, GR_UpdatedAt = 0\<rparr>"

definition PendingConfirmation_zero :: PendingConfirmation where
  "PendingConfirmation_zero = \<lparr>
     PC_ID = [], PC_ResourceID = [], PC_AgentID = [], PC_Tool = [], PC_ArgsHash = [], PC_State = [],
     PC_InboxMessageID = [], PC_RequestedBy = [], PC_DeniedReason = [], PC_ApprovedAt = None, PC_ConsumedAt =
     None, PC_CreatedAt = 0, PC_UpdatedAt = 0\<rparr>"

definition StandingGrant_zero :: StandingGrant where
  "StandingGrant_zero = \<lparr>
     SG_ID = [], SG_ResourceID = [], SG_AgentID = [], SG_Tool = [], SG_ExpiresAt = 0, SG_CreatedBy = [],
     SG_CreatedAt = 0, SG_RevokedAt = None\<rparr>"

definition InboxMessage_zero :: InboxMessage where
  "InboxMessage_zero = \<lparr>
     Inb_ID = [], Inb_SquadID = [], Inb_UserID = [], Inb_FromAgentID = [], Inb_TaskID = [], Inb_Kind = [],
     Inb_Message = [], Inb_Subject = [], Inb_Body = [], Inb_ReadAt = None, Inb_CreatedAt = 0, Inb_Attachments
     = []\<rparr>"

definition InboxAttachment_zero :: InboxAttachment where
  "InboxAttachment_zero = \<lparr>
     Att_ID = [], Att_MessageID = [], Att_SquadID = [], Att_Filename = [], Att_ContentType = [], Att_SizeBytes
     = 0, Att_SHA256 = [], Att_URL = [], Att_CreatedAt = 0, Att_Data = []\<rparr>"

definition Notification_zero :: Notification where
  "Notification_zero = \<lparr>
     Ntf_ID = [], Ntf_UserID = [], Ntf_SquadID = [], Ntf_TaskID = [], Ntf_AgentID = [], Ntf_Type = [],
     Ntf_Severity = [], Ntf_Message = [], Ntf_ReadAt = None, Ntf_CreatedAt = 0\<rparr>"

definition PromptTemplate_zero :: PromptTemplate where
  "PromptTemplate_zero = \<lparr>
     PT_ID = [], PT_Name = [], PT_Description = [], PT_Content = [], PT_AppliesTo = [], PT_CreatedBy = [],
     PT_CreatedAt = 0, PT_UpdatedAt = 0\<rparr>"

definition Upload_zero :: Upload where
  "Upload_zero = \<lparr>
     Upl_ID = [], Upl_SquadID = [], Upl_UploaderID = [], Upl_Filename = [], Upl_ContentType = [],
     Upl_SizeBytes = 0, Upl_Data = [], Upl_CreatedAt = 0\<rparr>"

definition DriftReport_zero :: DriftReport where
  "DriftReport_zero = \<lparr>
     DR_ID = [], DR_ResourceID = [], DR_HostGroup = [], DR_Playbook = [], DR_GitRev = [], DR_CheckedAt = 0,
     DR_DriftedHosts = [], DR_InSync = False\<rparr>"

definition ScheduledJob_zero :: ScheduledJob where
  "ScheduledJob_zero = \<lparr>
     Job_ID = [], Job_AgentID = [], Job_SquadID = [], Job_Title = [], Job_Message = [], Job_ScheduleKind = [],
     Job_ScheduleSpec = [], Job_Enabled = False, Job_NextRunAt = 0, Job_LastRunAt = 0, Job_LastRunStatus = [],
     Job_FailCount = 0, Job_DisabledReason = [], Job_CreatedByType = [], Job_CreatedByID = [], Job_CreatedAt =
     0\<rparr>"

end
