(* ===== verification/Prompt_Tokens.thy ===== *)
theory Prompt_Tokens
  imports Go_Strings
begin

text \<open>
  \<^verbatim>\<open>control-plane/internal/promptcompo/tokens.go\<close>: the token estimate and the per-tier prompt budgets
  with their environment overrides. The process environment is an argument, a map from variable
  names to values.
\<close>

section \<open>The token estimate\<close>

definition ceilDiv :: "int \<Rightarrow> int \<Rightarrow> int \<Rightarrow> int" where
  "ceilDiv a num den = (a * num + den - 1) div den"

text \<open>Decoding of UTF-8 as \<^verbatim>\<open>[]rune(s)\<close> does it: a well-formed sequence is one rune, any other byte is
  one rune (the replacement character, beyond ASCII). Only the count of runes and of runes beyond
  ASCII matter here. \<open>seq_ok\<close> is the table of well-formed leading pairs of the Unicode standard that
  Go follows (no overlong forms, no surrogates, nothing beyond U+10FFFF).\<close>

definition is_cont :: "nat \<Rightarrow> bool" where
  "is_cont b \<longleftrightarrow> 128 \<le> b \<and> b \<le> 191"

definition seq2_ok :: "nat \<Rightarrow> nat \<Rightarrow> bool" where
  "seq2_ok b0 b1 \<longleftrightarrow> 194 \<le> b0 \<and> b0 \<le> 223 \<and> is_cont b1"

definition seq3_ok :: "nat \<Rightarrow> nat \<Rightarrow> nat \<Rightarrow> bool" where
  "seq3_ok b0 b1 b2 \<longleftrightarrow> 224 \<le> b0 \<and> b0 \<le> 239 \<and> is_cont b1 \<and> is_cont b2 \<and>
     (b0 = 224 \<longrightarrow> 160 \<le> b1) \<and> (b0 = 237 \<longrightarrow> b1 \<le> 159)"

definition seq4_ok :: "nat \<Rightarrow> nat \<Rightarrow> nat \<Rightarrow> nat \<Rightarrow> bool" where
  "seq4_ok b0 b1 b2 b3 \<longleftrightarrow> 240 \<le> b0 \<and> b0 \<le> 244 \<and> is_cont b1 \<and> is_cont b2 \<and> is_cont b3 \<and>
     (b0 = 240 \<longrightarrow> 144 \<le> b1) \<and> (b0 = 244 \<longrightarrow> b1 \<le> 143)"

definition rune_len :: "nat list \<Rightarrow> nat" where
  "rune_len bs = (case bs of
      b0 # b1 # b2 # b3 # _ \<Rightarrow>
        if seq4_ok b0 b1 b2 b3 then 4 else if seq3_ok b0 b1 b2 then 3 else if seq2_ok b0 b1 then 2 else 1
    | [b0, b1, b2] \<Rightarrow> if seq3_ok b0 b1 b2 then 3 else if seq2_ok b0 b1 then 2 else 1
    | [b0, b1] \<Rightarrow> if seq2_ok b0 b1 then 2 else 1
    | _ \<Rightarrow> 1)"

lemma rune_len_pos: "0 < rune_len bs"
  by (auto simp: rune_len_def split: list.splits)

text \<open>\<open>rune_counts bs = (runes, runes beyond ASCII)\<close>.\<close>

function rune_counts :: "nat list \<Rightarrow> nat \<times> nat" where
  "rune_counts [] = (0, 0)"
| "rune_counts (b # bs) =
     (let (n, x) = rune_counts (drop (rune_len (b # bs)) (b # bs))
      in (Suc n, if b > 127 then Suc x else x))"
  by pat_completeness auto
termination
proof (relation "measure length")
  fix b :: nat and bs
  have "length (b # bs) - rune_len (b # bs) < length (b # bs)"
    using rune_len_pos [of "b # bs"] by (intro diff_less) simp_all
  then show "(drop (rune_len (b # bs)) (b # bs), b # bs) \<in> measure length"
    unfolding in_measure length_drop .
qed simp

text \<open>The guard \<^verbatim>\<open>float64(nonASCII)/float64(len(runes)) > 0.20\<close> is kept in integers: a quotient of
  two counts exceeds one fifth exactly when five times the numerator exceeds the denominator
  (the quotient one fifth itself rounds to the literal's own value, and for strings shorter than
  \<open>2 ^ 50\<close> bytes no other quotient does).\<close>

definition EstimateTokens :: "string \<Rightarrow> int" where
  "EstimateTokens s =
     (if s = [] then 0
      else let bytes = int (length s); (runes, nonASCII) = rune_counts (map byte_of s)
           in if runes > 0 \<and> 5 * nonASCII > runes then ceilDiv bytes 2 7 else ceilDiv bytes 1 4)"

section \<open>Budgets\<close>

record Caps =
  Soft :: int
  Hard :: int

definition TierPlatform :: string where [simp]: "TierPlatform = ''platform''"
definition TierOrganization :: string where [simp]: "TierOrganization = ''organization''"
definition TierSquad :: string where [simp]: "TierSquad = ''squad''"
definition TierAgent :: string where [simp]: "TierAgent = ''agent''"
definition TierComposed :: string where [simp]: "TierComposed = ''composed''"

definition tierOrder :: "string list" where
  "tierOrder = [TierPlatform, TierOrganization, TierSquad, TierAgent]"

definition DefaultCaps :: "Caps gomap" where
  "DefaultCaps =
    [(TierPlatform, \<lparr>Soft = 4200, Hard = 4600\<rparr>),
     (TierOrganization, \<lparr>Soft = 3000, Hard = 4000\<rparr>),
     (TierSquad, \<lparr>Soft = 1500, Hard = 2000\<rparr>),
     (TierAgent, \<lparr>Soft = 6000, Hard = 8000\<rparr>),
     (TierComposed, \<lparr>Soft = 12000, Hard = 16000\<rparr>)]"

text \<open>\<^verbatim>\<open>strconv.Atoi\<close> on 64-bit integers: an optional sign, then decimal digits, in range.\<close>

definition digit_val :: "char \<Rightarrow> int option" where
  "digit_val c = (if 48 \<le> byte_of c \<and> byte_of c \<le> 57 then Some (int (byte_of c) - 48) else None)"

fun digits_val :: "int \<Rightarrow> string \<Rightarrow> int option" where
  "digits_val acc [] = Some acc"
| "digits_val acc (c # cs) = (case digit_val c of None \<Rightarrow> None | Some d \<Rightarrow> digits_val (10 * acc + d) cs)"

definition Atoi :: "string \<Rightarrow> int option" where
  "Atoi s =
     (let (neg, body) = (case s of [] \<Rightarrow> (False, [])
                         | c # cs \<Rightarrow> if c = CHR ''-'' then (True, cs)
                                    else if c = CHR ''+'' then (False, cs) else (False, s))
      in if body = [] then None
         else case digits_val 0 body of None \<Rightarrow> None
              | Some v \<Rightarrow> let n = (if neg then - v else v)
                         in if - (2 ^ 63) \<le> n \<and> n < 2 ^ 63 then Some n else None)"

definition envInt :: "(string \<Rightarrow> string) \<Rightarrow> string \<Rightarrow> int option" where
  "envInt env key =
     (let raw = env key in
      if raw = [] then None
      else case Atoi raw of None \<Rightarrow> None | Some v \<Rightarrow> if v < 0 then None else Some v)"

definition caps_zero :: Caps where "caps_zero = \<lparr>Soft = 0, Hard = 0\<rparr>"

definition applyTierOverride ::
  "(string \<Rightarrow> string) \<Rightarrow> string \<Rightarrow> string \<Rightarrow> (int \<Rightarrow> Caps \<Rightarrow> Caps) \<Rightarrow> Caps gomap \<Rightarrow> Caps gomap" where
  "applyTierOverride env name key set_cap caps =
     (case envInt env key of None \<Rightarrow> caps
      | Some v \<Rightarrow> let c = (case gm_get caps name of None \<Rightarrow> caps_zero | Some c \<Rightarrow> c)
                 in gm_put name (set_cap v c) caps)"

definition applyGlobalOverride ::
  "(string \<Rightarrow> string) \<Rightarrow> string \<Rightarrow> (int \<Rightarrow> Caps \<Rightarrow> Caps) \<Rightarrow> Caps gomap \<Rightarrow> Caps gomap" where
  "applyGlobalOverride env key set_cap caps =
     (case envInt env key of None \<Rightarrow> caps
      | Some v \<Rightarrow> map (\<lambda>(name, c). (name, if name = TierComposed then c else set_cap v c)) caps)"

definition set_hard :: "int \<Rightarrow> Caps \<Rightarrow> Caps" where "set_hard v c = c\<lparr>Hard := v\<rparr>"
definition set_soft :: "int \<Rightarrow> Caps \<Rightarrow> Caps" where "set_soft v c = c\<lparr>Soft := v\<rparr>"

definition clamp_soft :: "Caps \<Rightarrow> Caps" where
  "clamp_soft c = (if Soft c > Hard c then c\<lparr>Soft := Hard c\<rparr> else c)"

definition CapsFromEnv :: "(string \<Rightarrow> string) \<Rightarrow> Caps gomap" where
  "CapsFromEnv env =
     (let tiers = fold (\<lambda>name caps.
              applyTierOverride env name (''SKQUAD_PROMPT_SOFT_TOKENS_'' @ ToUpper name) set_soft
                (applyTierOverride env name (''SKQUAD_PROMPT_MAX_TOKENS_'' @ ToUpper name) set_hard caps))
            (tierOrder @ [TierComposed]) DefaultCaps;
          global = applyGlobalOverride env ''SKQUAD_PROMPT_SOFT_TOKENS'' set_soft
                     (applyGlobalOverride env ''SKQUAD_PROMPT_MAX_TOKENS'' set_hard tiers)
      in gm_map clamp_soft global)"

section \<open>Properties\<close>

text \<open>The ceiling: the least integer whose multiple of the denominator reaches the numerator.\<close>

lemma ceilDiv_ceiling:
  assumes "0 < den"
  shows "a * num \<le> den * ceilDiv a num den" and "den * ceilDiv a num den < a * num + den"
proof -
  let ?n = "a * num + den - 1"
  have eq: "den * (?n div den) = ?n - ?n mod den"
    by (simp add: minus_mod_eq_mult_div)
  have "0 \<le> ?n mod den" and "?n mod den < den"
    using assms by simp_all
  with eq show "a * num \<le> den * ceilDiv a num den" and "den * ceilDiv a num den < a * num + den"
    by (simp_all add: ceilDiv_def)
qed

lemma ceilDiv_le:
  assumes "0 \<le> a" and "num \<le> den" and "0 < den"
  shows "ceilDiv a num den \<le> a"
proof -
  have "den * ceilDiv a num den < a * num + den" by (rule ceilDiv_ceiling [OF assms(3)])
  also have "\<dots> \<le> den * (a + 1)"
    using mult_left_mono [OF assms(2,1)] by (simp add: algebra_simps)
  finally have "ceilDiv a num den < a + 1"
    using assms(3) mult_less_cancel_left_pos by blast
  then show ?thesis by simp
qed

lemma clamp_soft_le: "Soft (clamp_soft c) \<le> Hard (clamp_soft c)"
  by (simp add: clamp_soft_def)

end
