(* ===== verification/Store_State.thy ===== *)
theory Store_State
  imports Domain_Types Prompt_Tokens
begin

text \<open>
  The state of \<^verbatim>\<open>storage.MemoryStore\<close> (\<^verbatim>\<open>control-plane/internal/storage/memory.go\<close>) and the helpers
  every mutating method calls: the Kubernetes outbox enqueue, the pending-audit drain and the
  prompt-revision append. Each method of the store holds the mutex for its whole body, so a method
  is one atomic function from the store to a result and a new store.

  What a method reads from outside the struct is kept beside it in the same record:
  \<^item> \<open>env_now\<close>: the clock. A method's clock reads all happen inside its critical section and return
    this instant;
  \<^item> \<open>env_uuid\<close>, \<open>env_ctr\<close>: the stream of \<^verbatim>\<open>uuid.NewString\<close> (a third-party generator, hence a
    parameter: theorems that need its values to differ assume \<open>inj (env_uuid s)\<close>);
  \<^item> \<open>env_sha256\<close>: the hash whose digest a prompt revision stores (a parameter);
  \<^item> \<open>ctx_audits\<close>, \<open>ctx_revision\<close>: the drainable queues a request carries in its context
    (\<^verbatim>\<open>audit_context.go\<close>, \<^verbatim>\<open>prompt_tiers.go\<close>).
\<close>

record MemoryStore =
  env_now :: instant
  env_uuid :: "nat \<Rightarrow> string"
  env_ctr :: nat
  env_sha256 :: "string \<Rightarrow> string"
  ctx_audits :: "AuditEntry list"
  ctx_revision :: "PromptRevisionIntent option"
  users :: "User gomap"
  usersByEmail :: "string gomap"
  usersByOIDC :: "string gomap"
  squads :: "Squad gomap"
  agents :: "Agent gomap"
  identities :: "AgentIdentity gomap"
  identityAgent :: "string gomap"
  boards :: "Board gomap"
  boardsBySquad :: "string gomap"
  grants :: "AccessGrant gomap"
  grantRequests :: "GrantRequest gomap"
  pendingConfirms :: "PendingConfirmation gomap"
  standingGrants :: "StandingGrant gomap"
  aiProviders :: "AIProvider gomap"
  aiModels :: "AIModel gomap"
  userModelGrants :: "UserModelGrant gomap"
  grantPair :: "string gomap"
  resources :: "RegistryResource gomap"
  permissions :: "AgentPermission gomap"
  auditLog :: "AuditEntry gomap"
  tasks :: "Task gomap"
  taskDeps :: "string list gomap"
  taskExecs :: "TaskExecution gomap"
  agentMemory :: "AgentMemory gomap"
  messages :: "Message gomap"
  inbox :: "InboxMessage gomap"
  inboxAttachments :: "InboxAttachment gomap"
  driftReports :: "DriftReport list"
  scheduledJobs :: "ScheduledJob gomap"
  scheduledJobOrder :: "string list"
  notifications :: "Notification gomap"
  notifPrefs :: "string list gomap"
  k8sOutbox :: "KubernetesOutboxEvent gomap"
  budgetBlocks :: "BudgetBlock gomap"
  budgetNotifyMarkers :: "string list"
  instanceSettings :: "InstanceSettings option"
  promptRevisions :: "PromptRevision list"
  builtinTools :: "BuiltinToolConfig gomap"
  promptTemplates :: "PromptTemplate gomap"
  platformSettings :: "string gomap"
  uploads :: "Upload gomap"

text \<open>\<^verbatim>\<open>seedBuiltinToolsLocked\<close> of \<^verbatim>\<open>storage/builtin_tools.go\<close>: the rows a new store starts with. The set of claimed budget
  notifications is a list of keys.\<close>

definition seedBuiltinToolsLocked :: "instant \<Rightarrow> BuiltinToolConfig gomap" where
  "seedBuiltinToolsLocked now =
     fold (\<lambda>nm. gm_put nm \<lparr>BT_Name = nm, BT_Enabled = BuiltinToolDefaultEnabled nm, BT_Policy = ''{}'', BT_UpdatedAt = now, BT_UpdatedBy = []\<rparr>)
       BuiltinToolNames []"

definition NewMemoryStore :: "instant \<Rightarrow> (nat \<Rightarrow> string) \<Rightarrow> (string \<Rightarrow> string) \<Rightarrow> MemoryStore" where
  "NewMemoryStore t uuid sha = \<lparr>
     env_now = t, env_uuid = uuid, env_ctr = 0, env_sha256 = sha,
     ctx_audits = [], ctx_revision = None,
     users = [], usersByEmail = [], usersByOIDC = [], squads = [], agents = [], identities = [],
     identityAgent = [], boards = [], boardsBySquad = [], grants = [], grantRequests = [],
     pendingConfirms = [], standingGrants = [], aiProviders = [], aiModels = [],
     userModelGrants = [], grantPair = [], resources = [], permissions = [], auditLog = [], tasks = [],
     taskDeps = [], taskExecs = [], agentMemory = [], messages = [], inbox = [], inboxAttachments = [],
     driftReports = [], scheduledJobs = [], scheduledJobOrder = [], notifications = [], notifPrefs = [],
     k8sOutbox = [], budgetBlocks = [], budgetNotifyMarkers = [],
     instanceSettings = Some \<lparr>IS_OrgName = [], IS_OrgPrompt = [], IS_UpdatedAt = 0, IS_UpdatedBy = []\<rparr>,
     promptRevisions = [], builtinTools = seedBuiltinToolsLocked t, promptTemplates = [],
     platformSettings = [(''idle_scale_to_zero_seconds'', ''900'')], uploads = [] \<rparr>"

section \<open>Fresh identifiers\<close>

definition NewString :: "MemoryStore \<Rightarrow> string \<times> MemoryStore" where
  "NewString s = (env_uuid s (env_ctr s), s\<lparr>env_ctr := Suc (env_ctr s)\<rparr>)"

text \<open>No identifier still to be drawn is a key of the map.\<close>

definition unissued :: "MemoryStore \<Rightarrow> 'v gomap \<Rightarrow> bool" where
  "unissued s m \<longleftrightarrow> (\<forall>k \<ge> env_ctr s. gm_get m (env_uuid s k) = None)"

lemma unissued_fresh: "unissued s m \<Longrightarrow> gm_get m (env_uuid s (env_ctr s)) = None"
  by (simp add: unissued_def)

lemma unissued_put_issued:
  assumes "inj (env_uuid s)" and "unissued s m" and "env_uuid t = env_uuid s" and "k < env_ctr t"
    and "env_ctr s \<le> env_ctr t"
  shows "unissued t (gm_put (env_uuid s k) v m)"
  using assms by (auto simp: unissued_def dest: injD)

lemma unissued_mono:
  "unissued s m \<Longrightarrow> env_uuid t = env_uuid s \<Longrightarrow> env_ctr s \<le> env_ctr t \<Longrightarrow> unissued t m"
  by (auto simp: unissued_def)

text \<open>An identifier that has been drawn already; the next one never has.\<close>

definition issued :: "MemoryStore \<Rightarrow> string \<Rightarrow> bool" where
  "issued s k \<longleftrightarrow> (\<exists>n < env_ctr s. k = env_uuid s n)"

lemma issued_mono: "issued s k \<Longrightarrow> env_uuid t = env_uuid s \<Longrightarrow> env_ctr s \<le> env_ctr t \<Longrightarrow> issued t k"
  unfolding issued_def by (metis order_less_le_trans)

lemma not_issued_next: "inj (env_uuid s) \<Longrightarrow> env_ctr s \<le> n \<Longrightarrow> \<not> issued s (env_uuid s n)"
  unfolding issued_def by (metis injD not_less)

section \<open>The Kubernetes outbox enqueue\<close>

definition enqueueKubernetesOutboxLocked ::
  "string \<Rightarrow> string \<Rightarrow> string \<Rightarrow> KubernetesOutboxPayload \<Rightarrow> MemoryStore \<Rightarrow> MemoryStore" where
  "enqueueKubernetesOutboxLocked aggregateType aggregateID operation payload s =
     (let now = env_now s; (eid, s') = NewString s;
          event = \<lparr>KE_ID = eid, KE_AggregateType = aggregateType, KE_AggregateID = aggregateID,
                   KE_Operation = operation, KE_Payload = json_payload payload,
                   KE_Status = KubernetesOutboxPending, KE_Attempts = 0, KE_LastError = [],
                   KE_NextAttemptAt = now, KE_LockedUntil = 0, KE_CreatedAt = now, KE_UpdatedAt = now\<rparr>
      in s'\<lparr>k8sOutbox := gm_put eid event (k8sOutbox s')\<rparr>)"

definition enqueueSquadOutboxLocked :: "string \<Rightarrow> Squad \<Rightarrow> MemoryStore \<Rightarrow> MemoryStore" where
  "enqueueSquadOutboxLocked operation squad s =
     enqueueKubernetesOutboxLocked KubernetesAggregateSquad (Squad_ID squad) operation
       \<lparr>KP_Squad = Some squad, KP_Agent = None, KP_Identity = None\<rparr> s"

definition enqueueAgentOutboxLocked :: "string \<Rightarrow> Agent \<Rightarrow> MemoryStore \<Rightarrow> MemoryStore" where
  "enqueueAgentOutboxLocked operation agent s =
     (let identity = (case gm_get (identityAgent s) (Agent_ID agent) of None \<Rightarrow> None
                      | Some identityID \<Rightarrow> gm_get (identities s) identityID)
      in enqueueKubernetesOutboxLocked KubernetesAggregateAgent (Agent_ID agent) operation
           \<lparr>KP_Squad = None, KP_Agent = Some agent, KP_Identity = identity\<rparr> s)"

section \<open>The pending-audit queue\<close>

text \<open>\<^verbatim>\<open>WithPendingAudit\<close> replaces the queue of the context by the non-nil entries.\<close>

definition WithPendingAudit :: "AuditEntry option list \<Rightarrow> MemoryStore \<Rightarrow> MemoryStore" where
  "WithPendingAudit entries s = s\<lparr>ctx_audits := List.map_filter (\<lambda>e. e) entries\<rparr>"

definition DrainPendingAudits :: "MemoryStore \<Rightarrow> AuditEntry list \<times> MemoryStore" where
  "DrainPendingAudits s = (ctx_audits s, s\<lparr>ctx_audits := []\<rparr>)"

definition NewAuditEntry ::
  "string \<Rightarrow> string \<Rightarrow> string \<Rightarrow> string \<Rightarrow> string \<Rightarrow> string \<Rightarrow> string \<Rightarrow> AuditEntry" where
  "NewAuditEntry actorType actorID action resourceType resourceID squadID metadata =
     \<lparr>AE_ID = [], AE_ActorType = actorType, AE_ActorID = actorID, AE_ActorDisplay = [],
      AE_Action = action, AE_ResourceType = resourceType, AE_ResourceID = resourceID,
      AE_SquadID = squadID, AE_Metadata = (if metadata = [] then ''{}'' else metadata),
      AE_Timestamp = 0\<rparr>"

text \<open>The row one pending entry becomes, and the loop that records them all.\<close>

definition audit_row :: "string \<Rightarrow> instant \<Rightarrow> string \<Rightarrow> AuditEntry \<Rightarrow> AuditEntry" where
  "audit_row resourceID now newID entry =
     (let e1 = (if AE_ResourceID entry = [] \<and> resourceID \<noteq> [] then entry\<lparr>AE_ResourceID := resourceID\<rparr> else entry);
          e2 = (if AE_ResourceType e1 = ''squad'' \<and> AE_SquadID e1 = [] \<and> resourceID \<noteq> []
                then e1\<lparr>AE_SquadID := resourceID\<rparr> else e1);
          e3 = e2\<lparr>AE_ID := newID\<rparr>;
          e4 = (if AE_Metadata e3 = [] then e3\<lparr>AE_Metadata := ''{}''\<rparr> else e3)
      in if AE_Timestamp e4 = 0 then e4\<lparr>AE_Timestamp := now\<rparr> else e4)"

definition record_audit :: "string \<Rightarrow> AuditEntry \<Rightarrow> MemoryStore \<Rightarrow> MemoryStore" where
  "record_audit resourceID entry s =
     (let (nid, s') = NewString s
      in s'\<lparr>auditLog := gm_put nid (audit_row resourceID (env_now s) nid entry) (auditLog s')\<rparr>)"

definition drainPendingAuditsLocked :: "string \<Rightarrow> MemoryStore \<Rightarrow> MemoryStore" where
  "drainPendingAuditsLocked resourceID s =
     (let (entries, s') = DrainPendingAudits s in fold (record_audit resourceID) entries s')"

section \<open>Prompt revisions\<close>

definition DrainPromptRevision :: "MemoryStore \<Rightarrow> PromptRevisionIntent option \<times> MemoryStore" where
  "DrainPromptRevision s =
     (case ctx_revision s of None \<Rightarrow> (None, s)
      | Some intent \<Rightarrow> if PRI_Scope intent = [] then (None, s)
                      else (Some intent, s\<lparr>ctx_revision := Some \<lparr>PRI_Scope = [], PRI_ScopeID = [], PRI_SavedBy = []\<rparr>\<rparr>))"

definition buildPromptRevision :: "(string \<Rightarrow> string) \<Rightarrow> PromptRevisionIntent \<Rightarrow> string \<Rightarrow> PromptRevision" where
  "buildPromptRevision sha intent content =
     \<lparr>PR_ID = [], PR_Scope = PRI_Scope intent, PR_ScopeID = PRI_ScopeID intent, PR_Content = content,
      PR_Tokens = EstimateTokens content, PR_SHA256 = sha content, PR_SavedBy = PRI_SavedBy intent,
      PR_SavedAt = 0\<rparr>"

definition appendPromptRevisionLocked :: "PromptRevisionIntent \<Rightarrow> string \<Rightarrow> MemoryStore \<Rightarrow> MemoryStore" where
  "appendPromptRevisionLocked intent content s =
     (let (rid, s') = NewString s;
          rev = (buildPromptRevision (env_sha256 s) intent content)\<lparr>PR_ID := rid, PR_SavedAt := env_now s\<rparr>
      in s'\<lparr>promptRevisions := promptRevisions s' @ [rev]\<rparr>)"

text \<open>The drain-then-append block of the prompt-tier mutations: the intent is always drained, the
  revision is appended only when \<open>changed\<close> holds.\<close>

definition revise_prompt :: "bool \<Rightarrow> (PromptRevisionIntent \<Rightarrow> PromptRevisionIntent) \<Rightarrow> string \<Rightarrow> MemoryStore \<Rightarrow> MemoryStore" where
  "revise_prompt changed adjust content s =
     (case DrainPromptRevision s of
        (None, s') \<Rightarrow> s'
      | (Some intent, s') \<Rightarrow> if changed then appendPromptRevisionLocked (adjust intent) content s' else s')"

section \<open>Frame lemmas\<close>

text \<open>Each helper touches its own fields only. Stated once as the shape of the result, and then per
  field for the simplifier.\<close>

lemma enqueue_shape:
  "enqueueKubernetesOutboxLocked a b c p s =
     s\<lparr>env_ctr := Suc (env_ctr s),
       k8sOutbox := k8sOutbox (enqueueKubernetesOutboxLocked a b c p s)\<rparr>"
  by (simp add: enqueueKubernetesOutboxLocked_def NewString_def Let_def)

lemma record_audit_shape:
  "\<exists>log. record_audit r e s = s\<lparr>env_ctr := Suc (env_ctr s), auditLog := log\<rparr>"
  by (auto simp: record_audit_def NewString_def Let_def)

lemma fold_record_audit_shape:
  "\<exists>log. fold (record_audit r) es s = s\<lparr>env_ctr := env_ctr s + length es, auditLog := log\<rparr>"
proof (induction es arbitrary: s)
  case Nil
  have "s = s\<lparr>env_ctr := env_ctr s + length [], auditLog := auditLog s\<rparr>" by simp
  then show ?case by (metis fold_simps(1))
next
  case (Cons e es)
  obtain log where "record_audit r e s = s\<lparr>env_ctr := Suc (env_ctr s), auditLog := log\<rparr>"
    using record_audit_shape by blast
  moreover obtain log' where "fold (record_audit r) es (record_audit r e s) =
      (record_audit r e s)\<lparr>env_ctr := env_ctr (record_audit r e s) + length es, auditLog := log'\<rparr>"
    using Cons.IH by blast
  ultimately have "fold (record_audit r) (e # es) s =
      s\<lparr>env_ctr := env_ctr s + length (e # es), auditLog := log'\<rparr>"
    by simp
  then show ?case by blast
qed

lemma drain_shape:
  "\<exists>log. drainPendingAuditsLocked r s =
     s\<lparr>ctx_audits := [], env_ctr := env_ctr s + length (ctx_audits s), auditLog := log\<rparr>"
  using fold_record_audit_shape [of r "ctx_audits s" "s\<lparr>ctx_audits := []\<rparr>"]
  by (auto simp: drainPendingAuditsLocked_def DrainPendingAudits_def)

lemma drain_frame [simp]:
  "env_now (drainPendingAuditsLocked r s) = env_now s"
  "env_uuid (drainPendingAuditsLocked r s) = env_uuid s"
  "env_ctr (drainPendingAuditsLocked r s) = env_ctr s + length (ctx_audits s)"
  "env_sha256 (drainPendingAuditsLocked r s) = env_sha256 s"
  "ctx_audits (drainPendingAuditsLocked r s) = []"
  "ctx_revision (drainPendingAuditsLocked r s) = ctx_revision s"
  "users (drainPendingAuditsLocked r s) = users s"
  "usersByEmail (drainPendingAuditsLocked r s) = usersByEmail s"
  "usersByOIDC (drainPendingAuditsLocked r s) = usersByOIDC s"
  "squads (drainPendingAuditsLocked r s) = squads s"
  "agents (drainPendingAuditsLocked r s) = agents s"
  "identities (drainPendingAuditsLocked r s) = identities s"
  "identityAgent (drainPendingAuditsLocked r s) = identityAgent s"
  "boards (drainPendingAuditsLocked r s) = boards s"
  "boardsBySquad (drainPendingAuditsLocked r s) = boardsBySquad s"
  "grants (drainPendingAuditsLocked r s) = grants s"
  "grantRequests (drainPendingAuditsLocked r s) = grantRequests s"
  "pendingConfirms (drainPendingAuditsLocked r s) = pendingConfirms s"
  "standingGrants (drainPendingAuditsLocked r s) = standingGrants s"
  "permissions (drainPendingAuditsLocked r s) = permissions s"
  "tasks (drainPendingAuditsLocked r s) = tasks s"
  "taskDeps (drainPendingAuditsLocked r s) = taskDeps s"
  "taskExecs (drainPendingAuditsLocked r s) = taskExecs s"
  "messages (drainPendingAuditsLocked r s) = messages s"
  "k8sOutbox (drainPendingAuditsLocked r s) = k8sOutbox s"
  "instanceSettings (drainPendingAuditsLocked r s) = instanceSettings s"
  "promptRevisions (drainPendingAuditsLocked r s) = promptRevisions s"
  "aiProviders (drainPendingAuditsLocked r s) = aiProviders s"
  "aiModels (drainPendingAuditsLocked r s) = aiModels s"
  "userModelGrants (drainPendingAuditsLocked r s) = userModelGrants s"
  "grantPair (drainPendingAuditsLocked r s) = grantPair s"
  "resources (drainPendingAuditsLocked r s) = resources s"
  "agentMemory (drainPendingAuditsLocked r s) = agentMemory s"
  "inbox (drainPendingAuditsLocked r s) = inbox s"
  "inboxAttachments (drainPendingAuditsLocked r s) = inboxAttachments s"
  "driftReports (drainPendingAuditsLocked r s) = driftReports s"
  "scheduledJobs (drainPendingAuditsLocked r s) = scheduledJobs s"
  "scheduledJobOrder (drainPendingAuditsLocked r s) = scheduledJobOrder s"
  "notifications (drainPendingAuditsLocked r s) = notifications s"
  "notifPrefs (drainPendingAuditsLocked r s) = notifPrefs s"
  "promptTemplates (drainPendingAuditsLocked r s) = promptTemplates s"
  "platformSettings (drainPendingAuditsLocked r s) = platformSettings s"
  "uploads (drainPendingAuditsLocked r s) = uploads s"
  "builtinTools (drainPendingAuditsLocked r s) = builtinTools s"
  "budgetBlocks (drainPendingAuditsLocked r s) = budgetBlocks s"
  "budgetNotifyMarkers (drainPendingAuditsLocked r s) = budgetNotifyMarkers s"
  using drain_shape [of r s] by auto

lemma enqueue_frame [simp]:
  "env_now (enqueueKubernetesOutboxLocked a b c p s) = env_now s"
  "env_uuid (enqueueKubernetesOutboxLocked a b c p s) = env_uuid s"
  "env_ctr (enqueueKubernetesOutboxLocked a b c p s) = Suc (env_ctr s)"
  "env_sha256 (enqueueKubernetesOutboxLocked a b c p s) = env_sha256 s"
  "ctx_audits (enqueueKubernetesOutboxLocked a b c p s) = ctx_audits s"
  "ctx_revision (enqueueKubernetesOutboxLocked a b c p s) = ctx_revision s"
  "users (enqueueKubernetesOutboxLocked a b c p s) = users s"
  "usersByEmail (enqueueKubernetesOutboxLocked a b c p s) = usersByEmail s"
  "usersByOIDC (enqueueKubernetesOutboxLocked a b c p s) = usersByOIDC s"
  "squads (enqueueKubernetesOutboxLocked a b c p s) = squads s"
  "agents (enqueueKubernetesOutboxLocked a b c p s) = agents s"
  "identities (enqueueKubernetesOutboxLocked a b c p s) = identities s"
  "identityAgent (enqueueKubernetesOutboxLocked a b c p s) = identityAgent s"
  "boards (enqueueKubernetesOutboxLocked a b c p s) = boards s"
  "boardsBySquad (enqueueKubernetesOutboxLocked a b c p s) = boardsBySquad s"
  "grants (enqueueKubernetesOutboxLocked a b c p s) = grants s"
  "grantRequests (enqueueKubernetesOutboxLocked a b c p s) = grantRequests s"
  "pendingConfirms (enqueueKubernetesOutboxLocked a b c p s) = pendingConfirms s"
  "standingGrants (enqueueKubernetesOutboxLocked a b c p s) = standingGrants s"
  "permissions (enqueueKubernetesOutboxLocked a b c p s) = permissions s"
  "auditLog (enqueueKubernetesOutboxLocked a b c p s) = auditLog s"
  "tasks (enqueueKubernetesOutboxLocked a b c p s) = tasks s"
  "taskDeps (enqueueKubernetesOutboxLocked a b c p s) = taskDeps s"
  "taskExecs (enqueueKubernetesOutboxLocked a b c p s) = taskExecs s"
  "messages (enqueueKubernetesOutboxLocked a b c p s) = messages s"
  "instanceSettings (enqueueKubernetesOutboxLocked a b c p s) = instanceSettings s"
  "promptRevisions (enqueueKubernetesOutboxLocked a b c p s) = promptRevisions s"
  "aiProviders (enqueueKubernetesOutboxLocked a b c p s) = aiProviders s"
  "aiModels (enqueueKubernetesOutboxLocked a b c p s) = aiModels s"
  "userModelGrants (enqueueKubernetesOutboxLocked a b c p s) = userModelGrants s"
  "grantPair (enqueueKubernetesOutboxLocked a b c p s) = grantPair s"
  "resources (enqueueKubernetesOutboxLocked a b c p s) = resources s"
  "agentMemory (enqueueKubernetesOutboxLocked a b c p s) = agentMemory s"
  "inbox (enqueueKubernetesOutboxLocked a b c p s) = inbox s"
  "inboxAttachments (enqueueKubernetesOutboxLocked a b c p s) = inboxAttachments s"
  "driftReports (enqueueKubernetesOutboxLocked a b c p s) = driftReports s"
  "scheduledJobs (enqueueKubernetesOutboxLocked a b c p s) = scheduledJobs s"
  "scheduledJobOrder (enqueueKubernetesOutboxLocked a b c p s) = scheduledJobOrder s"
  "notifications (enqueueKubernetesOutboxLocked a b c p s) = notifications s"
  "notifPrefs (enqueueKubernetesOutboxLocked a b c p s) = notifPrefs s"
  "promptTemplates (enqueueKubernetesOutboxLocked a b c p s) = promptTemplates s"
  "platformSettings (enqueueKubernetesOutboxLocked a b c p s) = platformSettings s"
  "uploads (enqueueKubernetesOutboxLocked a b c p s) = uploads s"
  "builtinTools (enqueueKubernetesOutboxLocked a b c p s) = builtinTools s"
  "budgetBlocks (enqueueKubernetesOutboxLocked a b c p s) = budgetBlocks s"
  "budgetNotifyMarkers (enqueueKubernetesOutboxLocked a b c p s) = budgetNotifyMarkers s"
  by (subst enqueue_shape, simp)+

lemmas enqueue_defs [go_defs] = enqueueSquadOutboxLocked_def enqueueAgentOutboxLocked_def

lemmas revise_defs = revise_prompt_def DrainPromptRevision_def appendPromptRevisionLocked_def NewString_def Let_def

lemma revise_frame [simp]:
  "env_now (revise_prompt ch adj txt s) = env_now s"
  "env_uuid (revise_prompt ch adj txt s) = env_uuid s"
  "env_sha256 (revise_prompt ch adj txt s) = env_sha256 s"
  "ctx_audits (revise_prompt ch adj txt s) = ctx_audits s"
  "users (revise_prompt ch adj txt s) = users s"
  "usersByEmail (revise_prompt ch adj txt s) = usersByEmail s"
  "usersByOIDC (revise_prompt ch adj txt s) = usersByOIDC s"
  "squads (revise_prompt ch adj txt s) = squads s"
  "agents (revise_prompt ch adj txt s) = agents s"
  "identities (revise_prompt ch adj txt s) = identities s"
  "identityAgent (revise_prompt ch adj txt s) = identityAgent s"
  "boards (revise_prompt ch adj txt s) = boards s"
  "boardsBySquad (revise_prompt ch adj txt s) = boardsBySquad s"
  "grants (revise_prompt ch adj txt s) = grants s"
  "grantRequests (revise_prompt ch adj txt s) = grantRequests s"
  "pendingConfirms (revise_prompt ch adj txt s) = pendingConfirms s"
  "standingGrants (revise_prompt ch adj txt s) = standingGrants s"
  "permissions (revise_prompt ch adj txt s) = permissions s"
  "auditLog (revise_prompt ch adj txt s) = auditLog s"
  "tasks (revise_prompt ch adj txt s) = tasks s"
  "taskDeps (revise_prompt ch adj txt s) = taskDeps s"
  "taskExecs (revise_prompt ch adj txt s) = taskExecs s"
  "messages (revise_prompt ch adj txt s) = messages s"
  "k8sOutbox (revise_prompt ch adj txt s) = k8sOutbox s"
  "instanceSettings (revise_prompt ch adj txt s) = instanceSettings s"
  "aiProviders (revise_prompt ch adj txt s) = aiProviders s"
  "aiModels (revise_prompt ch adj txt s) = aiModels s"
  "userModelGrants (revise_prompt ch adj txt s) = userModelGrants s"
  "grantPair (revise_prompt ch adj txt s) = grantPair s"
  "resources (revise_prompt ch adj txt s) = resources s"
  "agentMemory (revise_prompt ch adj txt s) = agentMemory s"
  "inbox (revise_prompt ch adj txt s) = inbox s"
  "inboxAttachments (revise_prompt ch adj txt s) = inboxAttachments s"
  "driftReports (revise_prompt ch adj txt s) = driftReports s"
  "scheduledJobs (revise_prompt ch adj txt s) = scheduledJobs s"
  "scheduledJobOrder (revise_prompt ch adj txt s) = scheduledJobOrder s"
  "notifications (revise_prompt ch adj txt s) = notifications s"
  "notifPrefs (revise_prompt ch adj txt s) = notifPrefs s"
  "promptTemplates (revise_prompt ch adj txt s) = promptTemplates s"
  "platformSettings (revise_prompt ch adj txt s) = platformSettings s"
  "uploads (revise_prompt ch adj txt s) = uploads s"
  "builtinTools (revise_prompt ch adj txt s) = builtinTools s"
  "budgetBlocks (revise_prompt ch adj txt s) = budgetBlocks s"
  "budgetNotifyMarkers (revise_prompt ch adj txt s) = budgetNotifyMarkers s"
  by (simp_all add: revise_defs split: option.splits)

lemma revise_ctr: "env_ctr s \<le> env_ctr (revise_prompt ch adj txt s)"
  by (simp add: revise_defs split: option.splits)

text \<open>The revision history only grows, by at most one row.\<close>

lemma revise_append:
  "\<exists>r. promptRevisions (revise_prompt ch adj txt s) = promptRevisions s @ r \<and> length r \<le> 1"
  by (simp add: revise_defs split: option.splits)

section \<open>A concrete environment\<close>

text \<open>A generator of distinct identifiers and an empty store over it, without the tool rows, for evaluating the model.\<close>

definition demo_uuid :: "nat \<Rightarrow> string" where
  "demo_uuid n = replicate (Suc n) (CHR ''u'')"

lemma inj_demo_uuid [simp]: "inj demo_uuid"
  by (rule injI) (metis demo_uuid_def length_replicate nat.inject)

definition demo_store :: MemoryStore where
  "demo_store = (NewMemoryStore 1000 demo_uuid (\<lambda>s. s))\<lparr>builtinTools := []\<rparr>"

lemma demo_store_code [code]:
  "demo_store = \<lparr>
     env_now = 1000, env_uuid = demo_uuid, env_ctr = 0, env_sha256 = (\<lambda>s. s),
     ctx_audits = [], ctx_revision = None,
     users = [], usersByEmail = [], usersByOIDC = [], squads = [], agents = [], identities = [],
     identityAgent = [], boards = [], boardsBySquad = [], grants = [], grantRequests = [],
     pendingConfirms = [], standingGrants = [], aiProviders = [], aiModels = [],
     userModelGrants = [], grantPair = [], resources = [], permissions = [], auditLog = [], tasks = [],
     taskDeps = [], taskExecs = [], agentMemory = [], messages = [], inbox = [], inboxAttachments = [],
     driftReports = [], scheduledJobs = [], scheduledJobOrder = [], notifications = [], notifPrefs = [],
     k8sOutbox = [], budgetBlocks = [], budgetNotifyMarkers = [],
     instanceSettings = Some \<lparr>IS_OrgName = [], IS_OrgPrompt = [], IS_UpdatedAt = 0, IS_UpdatedBy = []\<rparr>,
     promptRevisions = [], builtinTools = [], promptTemplates = [],
     platformSettings = [(''idle_scale_to_zero_seconds'', ''900'')], uploads = [] \<rparr>"
  by (simp add: demo_store_def NewMemoryStore_def)

end
