(* ===== verification/Task_Store.thy ===== *)
theory Task_Store
  imports Store_State
begin

text \<open>
  Tasks, their Kanban columns and the lease-backed, fenced executions of
  \<^verbatim>\<open>storage/memory.go\<close> (\<open>CreateTask\<close> to \<open>ReapExpiredTaskExecutions\<close>). Every method returns its result
  or error and the new store. Writing through a pointer taken from the map is \<open>gm_put\<close> at that
  entry's key, so loops that pick an entry range over (key, value) pairs.
\<close>

section \<open>Columns and numbers\<close>

definition nextTaskPosition :: "Task gomap \<Rightarrow> string \<Rightarrow> string \<Rightarrow> int" where
  "nextTaskPosition ts boardID status =
     fold (\<lambda>task next. if Task_BoardID task = boardID \<and> Task_Status task = status \<and> Task_Position task \<ge> next
                       then Task_Position task + 1 else next) (gm_vals ts) 1"

definition nextTaskNumberLocked :: "Task gomap \<Rightarrow> string \<Rightarrow> int" where
  "nextTaskNumberLocked ts squadID =
     fold (\<lambda>task next. if Task_SquadID task = squadID \<and> Task_TaskNumber task \<ge> next
                       then Task_TaskNumber task + 1 else next) (gm_vals ts) 1"

definition GetBoard :: "string \<Rightarrow> MemoryStore \<Rightarrow> Board option res" where
  "GetBoard squadID s =
     (case gm_get (boardsBySquad s) squadID of None \<Rightarrow> Inl ErrNotFound
      | Some boardID \<Rightarrow> Inr (gm_get (boards s) boardID))"

definition CreateTask :: "Task \<Rightarrow> MemoryStore \<Rightarrow> Task res \<times> MemoryStore" where
  "CreateTask t s =
     (case gm_get (boards s) (Task_BoardID t) of None \<Rightarrow> (Inl ErrNotFound, s)
      | Some _ \<Rightarrow>
          let now = env_now s; (nid, s1) = NewString s;
              status = (if Task_Status t = [] then TaskTodo else Task_Status t);
              created = t\<lparr>Task_ID := nid, Task_Status := status,
                          Task_Position := nextTaskPosition (tasks s1) (Task_BoardID t) status,
                          Task_TaskNumber := nextTaskNumberLocked (tasks s1) (Task_SquadID t),
                          Task_CreatedAt := now, Task_UpdatedAt := now\<rparr>;
              s2 = s1\<lparr>tasks := gm_put nid created (tasks s1)\<rparr>
          in (Inr created, drainPendingAuditsLocked nid s2))"

definition GetTask :: "string \<Rightarrow> MemoryStore \<Rightarrow> Task res" where
  "GetTask tid s = (case gm_get (tasks s) tid of None \<Rightarrow> Inl ErrNotFound | Some t \<Rightarrow> Inr t)"

definition UpdateTask :: "Task \<Rightarrow> MemoryStore \<Rightarrow> Task res \<times> MemoryStore" where
  "UpdateTask t s =
     (case gm_get (tasks s) (Task_ID t) of None \<Rightarrow> (Inl ErrNotFound, s)
      | Some existing \<Rightarrow>
          let u = t\<lparr>Task_BoardID := Task_BoardID existing, Task_SquadID := Task_SquadID existing,
                    Task_TaskNumber := Task_TaskNumber existing,
                    Task_CreatedByType := Task_CreatedByType existing,
                    Task_CreatedByID := Task_CreatedByID existing,
                    Task_CreatedAt := Task_CreatedAt existing\<rparr>;
              u2 = (if Task_Status u \<noteq> Task_Status existing
                    then u\<lparr>Task_Position := nextTaskPosition (tasks s) (Task_BoardID existing) (Task_Status u)\<rparr>
                    else u);
              updated = u2\<lparr>Task_UpdatedAt := env_now s\<rparr>;
              s1 = s\<lparr>tasks := gm_put (Task_ID t) updated (tasks s)\<rparr>
          in (Inr updated, drainPendingAuditsLocked (Task_ID updated) s1))"

text \<open>The validation loop of \<open>ReorderTasks\<close>, then its renumbering loop.\<close>

fun reorder_check :: "Task gomap \<Rightarrow> string \<Rightarrow> string \<Rightarrow> string list \<Rightarrow> string list \<Rightarrow> store_error option" where
  "reorder_check ts boardID status seen [] = None"
| "reorder_check ts boardID status seen (tid # ids) =
     (if tid \<in> set seen then Some ErrInvalidInput
      else case gm_get ts tid of None \<Rightarrow> Some ErrNotFound
           | Some task \<Rightarrow> if Task_BoardID task \<noteq> boardID \<or> Task_Status task \<noteq> status then Some ErrNotFound
                         else reorder_check ts boardID status (tid # seen) ids)"

fun reorder_write :: "instant \<Rightarrow> int \<Rightarrow> string list \<Rightarrow> Task gomap \<Rightarrow> Task gomap" where
  "reorder_write now i [] ts = ts"
| "reorder_write now i (tid # ids) ts =
     (case gm_get ts tid of None \<Rightarrow> reorder_write now (i + 1) ids ts
      | Some task \<Rightarrow> reorder_write now (i + 1) ids
          (gm_put tid (task\<lparr>Task_Position := i + 1, Task_UpdatedAt := now\<rparr>) ts))"

definition ReorderTasks :: "string \<Rightarrow> string \<Rightarrow> string list \<Rightarrow> MemoryStore \<Rightarrow> unit res \<times> MemoryStore" where
  "ReorderTasks boardID status orderedIDs s =
     (if orderedIDs = [] then (Inl ErrInvalidInput, s)
      else case reorder_check (tasks s) boardID status [] orderedIDs of
             Some e \<Rightarrow> (Inl e, s)
           | None \<Rightarrow> (Inr (), s\<lparr>tasks := reorder_write (env_now s) 0 orderedIDs (tasks s)\<rparr>))"

definition SetTaskWorkspace :: "string \<Rightarrow> string \<Rightarrow> string \<Rightarrow> string \<Rightarrow> MemoryStore \<Rightarrow> Task res \<times> MemoryStore" where
  "SetTaskWorkspace taskID resourceID branch commitSHA s =
     (case gm_get (tasks s) taskID of None \<Rightarrow> (Inl ErrNotFound, s)
      | Some existing \<Rightarrow>
          let updated = existing\<lparr>Task_WorkspaceResourceID := resourceID, Task_WorkspaceBranch := branch,
                                 Task_WorkspaceCommitSHA := commitSHA, Task_UpdatedAt := env_now s\<rparr>
          in (Inr updated, drainPendingAuditsLocked taskID (s\<lparr>tasks := gm_put taskID updated (tasks s)\<rparr>)))"

definition DeleteTask :: "string \<Rightarrow> MemoryStore \<Rightarrow> unit res \<times> MemoryStore" where
  "DeleteTask tid s =
     (case gm_get (tasks s) tid of None \<Rightarrow> (Inl ErrNotFound, s)
      | Some _ \<Rightarrow>
          (Inr (), drainPendingAuditsLocked tid
             (s\<lparr>tasks := gm_del tid (tasks s),
                taskDeps := gm_map (removeAll tid) (gm_del tid (taskDeps s))\<rparr>)))"

definition cmp_task_column :: "Task \<Rightarrow> Task \<Rightarrow> int" where
  "cmp_task_column a b =
     (if Task_Status a \<noteq> Task_Status b then str_cmp (Task_Status a) (Task_Status b)
      else Task_Position a - Task_Position b)"

definition ListTasks :: "string \<Rightarrow> string \<Rightarrow> MemoryStore \<Rightarrow> Task list" where
  "ListTasks boardID status s =
     sort_by cmp_task_column
       (filter (\<lambda>t. Task_BoardID t = boardID \<and> (status = [] \<or> Task_Status t = status)) (gm_vals (tasks s)))"

definition ListAgentTasks :: "string \<Rightarrow> MemoryStore \<Rightarrow> Task list res" where
  "ListAgentTasks agentID s =
     (case gm_get (agents s) agentID of None \<Rightarrow> Inl ErrNotFound
      | Some _ \<Rightarrow> Inr (sort_by cmp_task_column
          (filter (\<lambda>t. Task_AssigneeAgentID t = agentID \<and> Task_Status t \<noteq> TaskBacklog) (gm_vals (tasks s)))))"

section \<open>Executions\<close>

definition exec_live :: "instant \<Rightarrow> TaskExecution \<Rightarrow> bool" where
  "exec_live now e \<longleftrightarrow> TE_Status e = TaskExecutionActive \<and> TE_LeaseExpiresAt e > now"

definition hasActiveExecutionForAgentLocked :: "string \<Rightarrow> instant \<Rightarrow> MemoryStore \<Rightarrow> bool" where
  "hasActiveExecutionForAgentLocked agentID now s =
     list_ex (\<lambda>e. TE_AgentID e = agentID \<and> TE_Status e = TaskExecutionActive \<and> TE_LeaseExpiresAt e > now)
       (gm_vals (taskExecs s))"

definition taskHasActiveExecutionLocked :: "string \<Rightarrow> instant \<Rightarrow> MemoryStore \<Rightarrow> bool" where
  "taskHasActiveExecutionLocked taskID now s =
     list_ex (\<lambda>e. TE_TaskID e = taskID \<and> TE_Status e = TaskExecutionActive \<and> TE_LeaseExpiresAt e > now)
       (gm_vals (taskExecs s))"

definition pickOldestInProgressTaskLocked :: "string \<Rightarrow> instant \<Rightarrow> MemoryStore \<Rightarrow> (string \<times> Task) option" where
  "pickOldestInProgressTaskLocked agentID now s =
     pick_best (key_less (\<lambda>p. Task_UpdatedAt (snd p)))
       (filter (\<lambda>p. Task_AssigneeAgentID (snd p) = agentID \<and> Task_Status (snd p) = TaskInProgress \<and>
                    \<not> taskHasActiveExecutionLocked (Task_ID (snd p)) now s) (tasks s))"

definition deps_of :: "string \<Rightarrow> MemoryStore \<Rightarrow> string list" where
  "deps_of tid s = (case gm_get (taskDeps s) tid of None \<Rightarrow> [] | Some ds \<Rightarrow> ds)"

definition taskBlockedLocked :: "string \<Rightarrow> MemoryStore \<Rightarrow> bool" where
  "taskBlockedLocked taskID s =
     list_ex (\<lambda>depID. case gm_get (tasks s) depID of None \<Rightarrow> False | Some dep \<Rightarrow> Task_Status dep \<noteq> TaskDone)
       (deps_of taskID s)"

definition pickTopTodoTaskLocked :: "string \<Rightarrow> MemoryStore \<Rightarrow> (string \<times> Task) option" where
  "pickTopTodoTaskLocked agentID s =
     pick_best (key_less (\<lambda>p. Task_Position (snd p)))
       (filter (\<lambda>p. Task_AssigneeAgentID (snd p) = agentID \<and> Task_Status (snd p) = TaskTodo \<and>
                    \<not> taskBlockedLocked (Task_ID (snd p)) s) (tasks s))"

definition lease_or_default :: "duration \<Rightarrow> duration" where
  "lease_or_default d = (if d \<le> 0 then 5 * minute else d)"

definition worker_or_agent :: "string \<Rightarrow> string \<Rightarrow> string" where
  "worker_or_agent workerID agentID = (if workerID = [] then agentID else workerID)"

definition taskWithExecution :: "Task \<Rightarrow> TaskExecution \<Rightarrow> Task" where
  "taskWithExecution t e =
     t\<lparr>Task_ExecutionID := TE_ID e, Task_WorkerID := TE_WorkerID e, Task_FencingToken := TE_FencingToken e,
       Task_LeaseExpiresAt := TE_LeaseExpiresAt e, Task_ReviewerFeedback := TE_ReviewerFeedback e\<rparr>"

text \<open>The \<^verbatim>\<open>&domain.TaskExecution{...}\<close> literal of the claim, start and reopen paths: two identifiers are
  drawn, the row id and then the fencing token.\<close>

definition mint_execution ::
  "string \<Rightarrow> string \<Rightarrow> string \<Rightarrow> duration \<Rightarrow> string \<Rightarrow> bool \<Rightarrow> MemoryStore \<Rightarrow> TaskExecution \<times> MemoryStore" where
  "mint_execution taskID agentID workerID leaseFor feedback reopen s =
     (let now = env_now s; (eid, s1) = NewString s; (tok, s2) = NewString s1;
          e = \<lparr>TE_ID = eid, TE_TaskID = taskID, TE_AgentID = agentID, TE_WorkerID = workerID,
               TE_FencingToken = tok, TE_Status = TaskExecutionActive, TE_LeaseExpiresAt = now + leaseFor,
               TE_ResultStatus = [], TE_ResultSummary = [], TE_PromptSHA = [], TE_StartedAt = now,
               TE_CompletedAt = 0, TE_UpdatedAt = now, TE_ReviewerFeedback = feedback,
               TE_ReopenSeq = reopen, TE_SubagentThread = []\<rparr>
      in (e, s2\<lparr>taskExecs := gm_put eid e (taskExecs s2)\<rparr>))"

definition ClaimNextTask :: "string \<Rightarrow> string \<Rightarrow> duration \<Rightarrow> MemoryStore \<Rightarrow> Task res \<times> MemoryStore" where
  "ClaimNextTask agentID workerID leaseFor s =
     (case gm_get (agents s) agentID of None \<Rightarrow> (Inl ErrNotFound, s)
      | Some _ \<Rightarrow>
        let now = env_now s; lease = lease_or_default leaseFor; worker = worker_or_agent workerID agentID in
        if hasActiveExecutionForAgentLocked agentID now s then (Inl ErrNotFound, s)
        else
          let candidate = (case pickOldestInProgressTaskLocked agentID now s of
                             None \<Rightarrow> pickTopTodoTaskLocked agentID s | Some c \<Rightarrow> Some c) in
          case candidate of None \<Rightarrow> (Inl ErrNotFound, s)
          | Some (key, task) \<Rightarrow>
              let moved = (if Task_Status task \<noteq> TaskInProgress
                           then task\<lparr>Task_Status := TaskInProgress,
                                     Task_Position := nextTaskPosition
                                       (gm_put key (task\<lparr>Task_Status := TaskInProgress\<rparr>) (tasks s))
                                       (Task_BoardID task) TaskInProgress\<rparr>
                           else task);
                  task' = moved\<lparr>Task_UpdatedAt := now\<rparr>;
                  s1 = s\<lparr>tasks := gm_put key task' (tasks s)\<rparr>;
                  (e, s2) = mint_execution (Task_ID task') agentID worker lease [] False s1
              in (Inr (taskWithExecution task' e), drainPendingAuditsLocked (Task_ID task') s2))"

definition StartTaskExecution ::
  "string \<Rightarrow> string \<Rightarrow> string \<Rightarrow> duration \<Rightarrow> MemoryStore \<Rightarrow> TaskExecution res \<times> MemoryStore" where
  "StartTaskExecution agentID taskID workerID leaseFor s =
     (case gm_get (tasks s) taskID of None \<Rightarrow> (Inl ErrNotFound, s)
      | Some _ \<Rightarrow>
        if hasActiveExecutionForAgentLocked agentID (env_now s) s then (Inl ErrConflict, s)
        else let (e, s1) = mint_execution taskID agentID (worker_or_agent workerID agentID)
                             (lease_or_default leaseFor) [] False s
             in (Inr e, s1))"

definition HeartbeatTaskExecution ::
  "string \<Rightarrow> string \<Rightarrow> string \<Rightarrow> duration \<Rightarrow> MemoryStore \<Rightarrow> TaskExecution res \<times> MemoryStore" where
  "HeartbeatTaskExecution agentID executionID fencingToken leaseFor s =
     (case gm_get (taskExecs s) executionID of None \<Rightarrow> (Inl ErrConflict, s)
      | Some e \<Rightarrow>
        if TE_AgentID e \<noteq> agentID \<or> TE_FencingToken e \<noteq> fencingToken then (Inl ErrConflict, s)
        else if TE_Status e \<noteq> TaskExecutionActive then (Inl ErrConflict, s)
        else let e' = e\<lparr>TE_LeaseExpiresAt := env_now s + lease_or_default leaseFor, TE_UpdatedAt := env_now s\<rparr>
             in (Inr e', s\<lparr>taskExecs := gm_put executionID e' (taskExecs s)\<rparr>))"

definition SetTaskExecutionPromptSHA ::
  "string \<Rightarrow> string \<Rightarrow> string \<Rightarrow> MemoryStore \<Rightarrow> TaskExecution res \<times> MemoryStore" where
  "SetTaskExecutionPromptSHA agentID taskID promptSHA s =
     (case find (\<lambda>p. TE_AgentID (snd p) = agentID \<and> TE_TaskID (snd p) = taskID \<and>
                     TE_Status (snd p) = TaskExecutionActive) (taskExecs s) of
        None \<Rightarrow> (Inl ErrNotFound, s)
      | Some (k, e) \<Rightarrow>
          let e' = e\<lparr>TE_PromptSHA := promptSHA, TE_UpdatedAt := env_now s\<rparr>
          in (Inr e', s\<lparr>taskExecs := gm_put k e' (taskExecs s)\<rparr>))"

definition latest_execution :: "(TaskExecution \<Rightarrow> bool) \<Rightarrow> MemoryStore \<Rightarrow> (string \<times> TaskExecution) option" where
  "latest_execution P s =
     pick_best (key_greater (\<lambda>p. TE_StartedAt (snd p))) (filter (\<lambda>p. P (snd p)) (taskExecs s))"

definition GetLatestTaskExecution :: "string \<Rightarrow> MemoryStore \<Rightarrow> TaskExecution res" where
  "GetLatestTaskExecution taskID s =
     (case latest_execution (\<lambda>e. TE_TaskID e = taskID) s of None \<Rightarrow> Inl ErrNotFound | Some (k, e) \<Rightarrow> Inr e)"

definition SaveSubagentThreadSnapshot :: "string \<Rightarrow> string \<Rightarrow> MemoryStore \<Rightarrow> unit res \<times> MemoryStore" where
  "SaveSubagentThreadSnapshot taskID snapshot s =
     (case latest_execution (\<lambda>e. TE_TaskID e = taskID \<and> TE_Status e = TaskExecutionActive) s of
        None \<Rightarrow> (Inl ErrNotFound, s)
      | Some (k, e) \<Rightarrow>
          (Inr (), s\<lparr>taskExecs := gm_put k (e\<lparr>TE_SubagentThread := snapshot, TE_UpdatedAt := env_now s\<rparr>) (taskExecs s)\<rparr>))"

definition GetSubagentThread :: "string \<Rightarrow> MemoryStore \<Rightarrow> (string \<times> instant \<times> bool) res" where
  "GetSubagentThread taskID s =
     (case latest_execution (\<lambda>e. TE_TaskID e = taskID) s of
        None \<Rightarrow> Inl ErrNotFound
      | Some (k, e) \<Rightarrow>
          Inr (if TE_SubagentThread e = [] then ''{}'' else TE_SubagentThread e,
               TE_UpdatedAt e, TE_Status e = TaskExecutionActive))"

definition cmp_execution :: "TaskExecution \<Rightarrow> TaskExecution \<Rightarrow> int" where
  "cmp_execution a b =
     (if TE_StartedAt a = TE_StartedAt b then str_cmp (TE_ID a) (TE_ID b)
      else if TE_StartedAt a < TE_StartedAt b then -1 else 1)"

definition ListTaskExecutions :: "string \<Rightarrow> MemoryStore \<Rightarrow> TaskExecution list" where
  "ListTaskExecutions taskID s =
     sort_by cmp_execution (filter (\<lambda>e. TE_TaskID e = taskID) (gm_vals (taskExecs s)))"

definition CompleteTaskExecution ::
  "string \<Rightarrow> string \<Rightarrow> string \<Rightarrow> string \<Rightarrow> string \<Rightarrow> string \<Rightarrow> MemoryStore \<Rightarrow> Task res \<times> MemoryStore" where
  "CompleteTaskExecution agentID taskID executionID fencingToken status summary s =
     (case gm_get (taskExecs s) executionID of None \<Rightarrow> (Inl ErrConflict, s)
      | Some e \<Rightarrow>
        if TE_AgentID e \<noteq> agentID \<or> TE_TaskID e \<noteq> taskID \<or> TE_FencingToken e \<noteq> fencingToken
        then (Inl ErrConflict, s)
        else if TE_Status e \<noteq> TaskExecutionActive then (Inl ErrConflict, s)
        else case gm_get (tasks s) taskID of None \<Rightarrow> (Inl ErrNotFound, s)
        | Some task \<Rightarrow>
          if Task_AssigneeAgentID task \<noteq> agentID then (Inl ErrNotFound, s)
          else if status \<noteq> TaskInReview \<and> status \<noteq> TaskDone \<and> status \<noteq> TaskBlocked then (Inl ErrConflict, s)
          else
            let now = env_now s;
                t1 = task\<lparr>Task_Status := status\<rparr>;
                t2 = t1\<lparr>Task_Position := nextTaskPosition (gm_put taskID t1 (tasks s)) (Task_BoardID task) status,
                        Task_UpdatedAt := now\<rparr>;
                t3 = (if status = TaskDone \<or> status = TaskBlocked
                      then t2\<lparr>Task_Result := summary, Task_ResultStatus := status, Task_ResultAt := now\<rparr> else t2);
                e' = e\<lparr>TE_Status := (if status = TaskBlocked then TaskExecutionBlocked else TaskExecutionCompleted),
                       TE_ResultStatus := status, TE_ResultSummary := summary,
                       TE_CompletedAt := now, TE_UpdatedAt := now\<rparr>;
                s1 = s\<lparr>tasks := gm_put taskID t3 (tasks s), taskExecs := gm_put executionID e' (taskExecs s)\<rparr>
            in (Inr (taskWithExecution t3 e'), drainPendingAuditsLocked taskID s1))"

definition reopen_count :: "string \<Rightarrow> instant \<Rightarrow> TaskExecution list \<Rightarrow> int" where
  "reopen_count taskID windowStart es =
     int (length (filter (\<lambda>e. TE_TaskID e = taskID \<and> TE_ReopenSeq e \<and> \<not> TE_StartedAt e < windowStart) es))"

definition ReopenTaskExecution ::
  "string \<Rightarrow> string \<Rightarrow> string \<Rightarrow> string \<Rightarrow> duration \<Rightarrow> int \<Rightarrow> MemoryStore \<Rightarrow> Task res \<times> MemoryStore" where
  "ReopenTaskExecution agentID taskID workerID reviewerFeedback leaseFor maxReopens s =
     (let now = env_now s in
      case gm_get (tasks s) taskID of None \<Rightarrow> (Inl ErrNotFound, s)
      | Some task \<Rightarrow>
        if Task_AssigneeAgentID task \<noteq> agentID then (Inl ErrNotFound, s)
        else if Task_Status task \<noteq> TaskInReview then (Inl ErrConflict, s)
        else if hasActiveExecutionForAgentLocked agentID now s then (Inl ErrConflict, s)
        else if maxReopens \<ge> 0 \<and> reopen_count taskID (now - 24 * hour) (gm_vals (taskExecs s)) \<ge> maxReopens
        then (Inl ErrReopenCapExceeded, s)
        else
          let t1 = task\<lparr>Task_Status := TaskInProgress\<rparr>;
              t2 = t1\<lparr>Task_Position := nextTaskPosition (gm_put taskID t1 (tasks s)) (Task_BoardID task) TaskInProgress,
                      Task_UpdatedAt := now\<rparr>;
              s1 = s\<lparr>tasks := gm_put taskID t2 (tasks s)\<rparr>;
              (e, s2) = mint_execution taskID agentID (worker_or_agent workerID agentID)
                          (lease_or_default leaseFor) reviewerFeedback True s1
          in (Inr (taskWithExecution t2 e), drainPendingAuditsLocked taskID s2))"

definition ListBoardTaskExecutions :: "string \<Rightarrow> MemoryStore \<Rightarrow> TaskExecution list" where
  "ListBoardTaskExecutions boardID s =
     filter (\<lambda>e. TE_Status e = TaskExecutionActive \<and>
                 (case gm_get (tasks s) (TE_TaskID e) of None \<Rightarrow> False | Some t \<Rightarrow> Task_BoardID t = boardID))
       (gm_vals (taskExecs s))"

text \<open>The reaper: one loop expires the lapsed attempts and collects the tasks they belonged to, a
  second loop re-queues those tasks.\<close>

definition lapsed :: "instant \<Rightarrow> TaskExecution \<Rightarrow> bool" where
  "lapsed cutoff e \<longleftrightarrow> TE_Status e = TaskExecutionActive \<and> TE_LeaseExpiresAt e < cutoff"

definition expire_execution :: "instant \<Rightarrow> TaskExecution \<Rightarrow> TaskExecution" where
  "expire_execution now e =
     e\<lparr>TE_Status := TaskExecutionExpired, TE_ResultSummary := ''lease expired without completion'',
       TE_CompletedAt := now, TE_UpdatedAt := now\<rparr>"

definition requeue_task :: "string \<Rightarrow> MemoryStore \<Rightarrow> MemoryStore" where
  "requeue_task taskID s =
     (case gm_get (tasks s) taskID of None \<Rightarrow> s
      | Some task \<Rightarrow>
        if Task_Status task \<noteq> TaskInProgress then s
        else if taskHasActiveExecutionLocked taskID (env_now s) s then s
        else let t1 = task\<lparr>Task_Status := TaskTodo\<rparr>;
                 t2 = t1\<lparr>Task_Position := nextTaskPosition (gm_put taskID t1 (tasks s)) (Task_BoardID task) TaskTodo,
                         Task_UpdatedAt := env_now s\<rparr>
             in s\<lparr>tasks := gm_put taskID t2 (tasks s)\<rparr>)"

definition ReapExpiredTaskExecutions :: "instant \<Rightarrow> MemoryStore \<Rightarrow> ReapedExecution list \<times> MemoryStore" where
  "ReapExpiredTaskExecutions cutoff s =
     (let dead = filter (lapsed cutoff) (gm_vals (taskExecs s));
          s1 = s\<lparr>taskExecs := gm_map (\<lambda>e. if lapsed cutoff e then expire_execution (env_now s) e else e) (taskExecs s)\<rparr>;
          reaped = map (\<lambda>e. \<lparr>RE_ExecutionID = TE_ID e, RE_TaskID = TE_TaskID e, RE_AgentID = TE_AgentID e\<rparr>) dead
      in (reaped, fold requeue_task (remdups (map TE_TaskID dead)) s1))"

end
