(* ===== verification/Task_Laws.thy ===== *)
theory Task_Laws
  imports Task_Store
begin

text \<open>
  What the task and execution methods guarantee: column positions and per-squad numbers, the claim
  order, fencing, completion, the reopen cap, the reaper, and the one-live-execution-per-agent
  invariant over arbitrary runs.
\<close>

section \<open>Positions and numbers\<close>

lemma nextTaskPosition_above:
  "t \<in> set (gm_vals ts) \<Longrightarrow> Task_BoardID t = b \<Longrightarrow> Task_Status t = st \<Longrightarrow> Task_Position t < nextTaskPosition ts b st"
  using next_above_gt [of t "gm_vals ts" "\<lambda>t. Task_BoardID t = b \<and> Task_Status t = st" Task_Position 1]
  by (simp add: nextTaskPosition_def next_above_def conj_assoc)

lemma nextTaskPosition_ge_1: "1 \<le> nextTaskPosition ts b st"
  using next_above_ge [of 1 "\<lambda>t. Task_BoardID t = b \<and> Task_Status t = st" Task_Position "gm_vals ts"]
  by (simp add: nextTaskPosition_def next_above_def conj_assoc)

lemma nextTaskNumber_above:
  "t \<in> set (gm_vals ts) \<Longrightarrow> Task_SquadID t = q \<Longrightarrow> Task_TaskNumber t < nextTaskNumberLocked ts q"
  using next_above_gt [of t "gm_vals ts" "\<lambda>t. Task_SquadID t = q" Task_TaskNumber 1]
  by (simp add: nextTaskNumberLocked_def next_above_def)

definition task_numbers_unique :: "MemoryStore \<Rightarrow> bool" where
  "task_numbers_unique s \<longleftrightarrow>
     (\<forall>k1 k2 t1 t2. gm_get (tasks s) k1 = Some t1 \<longrightarrow> gm_get (tasks s) k2 = Some t2 \<longrightarrow>
        Task_SquadID t1 = Task_SquadID t2 \<longrightarrow> Task_TaskNumber t1 = Task_TaskNumber t2 \<longrightarrow> k1 = k2)"

text \<open>Writing back a task with its squad and number unchanged keeps the numbering.\<close>

lemma numbers_put_same:
  assumes "task_numbers_unique s" and "gm_get (tasks s) k = Some t"
    and "Task_SquadID t' = Task_SquadID t" and "Task_TaskNumber t' = Task_TaskNumber t"
    and "tasks s' = gm_put k t' (tasks s)"
  shows "task_numbers_unique s'"
  using assms unfolding task_numbers_unique_def
  by (auto split: if_splits; metis)

lemma numbers_create:
  assumes "task_numbers_unique s" shows "task_numbers_unique (snd (CreateTask t s))"
proof (cases "gm_get (boards s) (Task_BoardID t)")
  case None
  with assms show ?thesis by (simp add: CreateTask_def)
next
  case (Some b)
  have above: "Task_TaskNumber u < nextTaskNumberLocked (tasks s) q"
    if "gm_get (tasks s) k = Some u" "Task_SquadID u = q" for k u q
    using that nextTaskNumber_above [of u "tasks s" q] by blast
  show ?thesis
    using Some assms unfolding task_numbers_unique_def
    by (auto simp: CreateTask_def NewString_def Let_def split: if_splits dest: above)
qed

lemma numbers_update:
  assumes "task_numbers_unique s" shows "task_numbers_unique (snd (UpdateTask t s))"
proof (cases "gm_get (tasks s) (Task_ID t)")
  case (Some existing)
  then show ?thesis
    by (intro numbers_put_same [OF assms Some]) (auto simp: UpdateTask_def Let_def)
qed (use assms in \<open>simp add: UpdateTask_def\<close>)

section \<open>Executions: the facts the properties share\<close>

lemma has_active_iff:
  "hasActiveExecutionForAgentLocked a now s \<longleftrightarrow>
     (\<exists>e \<in> set (gm_vals (taskExecs s)). TE_AgentID e = a \<and> exec_live now e)"
  by (auto simp: hasActiveExecutionForAgentLocked_def exec_live_def list_ex_iff)

lemma task_active_iff:
  "taskHasActiveExecutionLocked t now s \<longleftrightarrow>
     (\<exists>e \<in> set (gm_vals (taskExecs s)). TE_TaskID e = t \<and> exec_live now e)"
  by (auto simp: taskHasActiveExecutionLocked_def exec_live_def list_ex_iff)

lemma lease_positive [simp]: "0 < lease_or_default d"
  by (simp add: lease_or_default_def)

lemma mint_frame:
  assumes "mint_execution tid a w d fb ro s = (e, s')"
  shows "TE_ID e = env_uuid s (env_ctr s)" and "TE_FencingToken e = env_uuid s (Suc (env_ctr s))"
    and "TE_TaskID e = tid" and "TE_AgentID e = a" and "TE_Status e = TaskExecutionActive"
    and "TE_LeaseExpiresAt e = env_now s + d" and "TE_StartedAt e = env_now s" and "TE_ReopenSeq e = ro"
    and "TE_WorkerID e = w" and "TE_ReviewerFeedback e = fb"
    and "s' = s\<lparr>env_ctr := Suc (Suc (env_ctr s)), taskExecs := gm_put (TE_ID e) e (taskExecs s)\<rparr>"
  using assms by (auto simp: mint_execution_def NewString_def Let_def)

section \<open>One live execution per agent\<close>

definition one_live :: "MemoryStore \<Rightarrow> bool" where
  "one_live s \<longleftrightarrow>
     (\<forall>k1 k2 e1 e2. gm_get (taskExecs s) k1 = Some e1 \<longrightarrow> gm_get (taskExecs s) k2 = Some e2 \<longrightarrow>
        TE_AgentID e1 = TE_AgentID e2 \<longrightarrow> exec_live (env_now s) e1 \<longrightarrow> exec_live (env_now s) e2 \<longrightarrow> k1 = k2)"

definition exec_inv :: "MemoryStore \<Rightarrow> bool" where
  "exec_inv s \<longleftrightarrow> inj (env_uuid s) \<and> gm_wf (taskExecs s) \<and> unissued s (taskExecs s) \<and> one_live s"

text \<open>Three ways a method can touch the execution table: not at all, by rewriting entries without
  bringing any back to life, or by minting one for an agent that has no live one.\<close>

definition exec_quiet :: "MemoryStore \<Rightarrow> MemoryStore \<Rightarrow> bool" where
  "exec_quiet s t \<longleftrightarrow> env_uuid t = env_uuid s \<and> env_ctr s \<le> env_ctr t \<and> env_now s \<le> env_now t \<and>
     (gm_wf (taskExecs s) \<longrightarrow> gm_wf (taskExecs t)) \<and>
     (\<forall>k e'. gm_get (taskExecs t) k = Some e' \<longrightarrow>
        (\<exists>e. gm_get (taskExecs s) k = Some e \<and> TE_AgentID e' = TE_AgentID e \<and>
             (exec_live (env_now t) e' \<longrightarrow> exec_live (env_now s) e)))"

lemma quiet_inv: "exec_inv s \<Longrightarrow> exec_quiet s t \<Longrightarrow> exec_inv t"
proof -
  assume inv: "exec_inv s" and q: "exec_quiet s t"
  have "unissued t (taskExecs t)"
    using inv q unfolding exec_inv_def exec_quiet_def unissued_def
    by (metis le_trans not_None_eq option.distinct(1))
  moreover have "one_live t"
    using inv q unfolding exec_inv_def exec_quiet_def one_live_def by metis
  ultimately show ?thesis using inv q by (simp add: exec_inv_def exec_quiet_def)
qed

lemma quiet_refl: "exec_quiet s s"
  by (simp add: exec_quiet_def)

lemma quiet_same_execs:
  "taskExecs t = taskExecs s \<Longrightarrow> env_uuid t = env_uuid s \<Longrightarrow> env_ctr s \<le> env_ctr t \<Longrightarrow> env_now s \<le> env_now t \<Longrightarrow> exec_quiet s t"
  by (auto simp: exec_quiet_def exec_live_def)

lemma quiet_put:
  assumes "gm_get (taskExecs s) k = Some e" and "taskExecs t = gm_put k e' (taskExecs s)"
    and "env_uuid t = env_uuid s" and "env_ctr s \<le> env_ctr t" and "env_now t = env_now s"
    and "TE_AgentID e' = TE_AgentID e" and "exec_live (env_now s) e' \<Longrightarrow> exec_live (env_now s) e"
  shows "exec_quiet s t"
  using assms by (auto simp: exec_quiet_def split: if_splits)

lemma mint_inv:
  assumes inv: "exec_inv s" and free: "\<not> hasActiveExecutionForAgentLocked a (env_now s) s"
    and mint: "mint_execution tid a w d fb ro s = (e, s')"
  shows "exec_inv s'"
proof -
  note [simp] = mint_frame [OF mint]
  let ?k = "env_uuid s (env_ctr s)"
  have wf: "gm_wf (taskExecs s)" and inj: "inj (env_uuid s)" and un: "unissued s (taskExecs s)"
    and one: "one_live s" using inv by (auto simp: exec_inv_def)
  have dead: "\<not> exec_live (env_now s) e'" if "gm_get (taskExecs s) k = Some e'" "TE_AgentID e' = a" for k e'
    using that free by (auto simp: has_active_iff dest: gm_get_vals)
  have "one_live s'"
    using one dead unfolding one_live_def
    by (auto split: if_splits)
  moreover have "unissued s' (taskExecs s')"
    using inj un by (auto simp: unissued_def dest: injD)
  ultimately show ?thesis using wf inj by (simp add: exec_inv_def)
qed

lemma drain_inv [simp]: "exec_inv s \<Longrightarrow> exec_inv (drainPendingAuditsLocked r s)"
  by (erule quiet_inv) (simp add: quiet_same_execs)

lemma tasks_only_inv [simp]: "exec_inv (s\<lparr>tasks := ts\<rparr>) = exec_inv s"
  by (simp add: exec_inv_def one_live_def unissued_def)

lemma has_active_tasks [simp]:
  "hasActiveExecutionForAgentLocked a now (s\<lparr>tasks := ts\<rparr>) = hasActiveExecutionForAgentLocked a now s"
  by (simp add: hasActiveExecutionForAgentLocked_def)

lemma claim_inv: "exec_inv s \<Longrightarrow> exec_inv (snd (ClaimNextTask a w d s))"
  unfolding ClaimNextTask_def Let_def
  by (auto split: option.splits prod.splits intro!: drain_inv elim!: mint_inv [rotated 2])

lemma start_inv: "exec_inv s \<Longrightarrow> exec_inv (snd (StartTaskExecution a tid w d s))"
  unfolding StartTaskExecution_def
  by (auto split: option.splits prod.splits elim!: mint_inv [rotated 2])

lemma reopen_inv: "exec_inv s \<Longrightarrow> exec_inv (snd (ReopenTaskExecution a tid w fb d m s))"
  unfolding ReopenTaskExecution_def Let_def
  by (auto split: option.splits prod.splits intro!: drain_inv elim!: mint_inv [rotated 2])

lemma heartbeat_live_quiet:
  assumes "gm_get (taskExecs s) eid = Some e" and "exec_live (env_now s) e"
  shows "exec_quiet s (snd (HeartbeatTaskExecution a eid tok d s))"
  using assms
  by (auto simp: HeartbeatTaskExecution_def Let_def quiet_refl intro: quiet_put)

lemma prompt_sha_quiet: "gm_wf (taskExecs s) \<Longrightarrow> exec_quiet s (snd (SetTaskExecutionPromptSHA a tid sha s))"
proof -
  assume wf: "gm_wf (taskExecs s)"
  have *: "gm_get (taskExecs s) k = Some e" if "find P (taskExecs s) = Some (k, e)" for P k e
    using that wf unfolding gm_wf_def gm_get_def
    by (auto simp: find_Some_iff intro!: map_of_is_SomeI dest!: nth_mem)
  show ?thesis
    by (auto simp: SetTaskExecutionPromptSHA_def Let_def quiet_refl exec_live_def
        split: option.splits dest!: * intro: quiet_put)
qed

lemma latest_execution_Some:
  assumes "gm_wf (taskExecs s)" and "latest_execution P s = Some (k, e)"
  shows "gm_get (taskExecs s) k = Some e" and "P e"
    and "gm_get (taskExecs s) k' = Some e' \<Longrightarrow> P e' \<Longrightarrow> TE_StartedAt e' \<le> TE_StartedAt e"
proof -
  note pick = kgreater.pick_Some [OF assms(2) [unfolded latest_execution_def]]
  from pick(1) assms(1) show "gm_get (taskExecs s) k = Some e" and "P e"
    by (auto simp: gm_get_def gm_wf_def)
  show "TE_StartedAt e' \<le> TE_StartedAt e" if "gm_get (taskExecs s) k' = Some e'" "P e'"
    using pick(2) [of "(k', e')"] that
    by (auto simp: key_greater_def gm_get_def dest: map_of_SomeD)
qed

lemma snapshot_quiet: "gm_wf (taskExecs s) \<Longrightarrow> exec_quiet s (snd (SaveSubagentThreadSnapshot tid snap s))"
  by (auto simp: SaveSubagentThreadSnapshot_def quiet_refl exec_live_def
      split: option.splits dest!: latest_execution_Some(1) intro: quiet_put)

lemma complete_error_frame:
  assumes "isl (fst (CompleteTaskExecution a tid eid tok st sm s))"
  shows "snd (CompleteTaskExecution a tid eid tok st sm s) = s"
proof (cases "gm_get (taskExecs s) eid")
  case (Some e)
  with assms show ?thesis
    by (cases "gm_get (tasks s) tid") (auto simp: CompleteTaskExecution_def Let_def)
qed (simp add: CompleteTaskExecution_def)

lemma complete_ok_guards:
  assumes "\<not> isl (fst (CompleteTaskExecution a tid eid tok st sm s))"
  shows "\<exists>e t. gm_get (taskExecs s) eid = Some e \<and> TE_AgentID e = a \<and> TE_TaskID e = tid \<and>
     TE_FencingToken e = tok \<and> TE_Status e = TaskExecutionActive \<and> gm_get (tasks s) tid = Some t \<and>
     Task_AssigneeAgentID t = a \<and> (st = TaskInReview \<or> st = TaskDone \<or> st = TaskBlocked)"
proof (cases "gm_get (taskExecs s) eid")
  case (Some e)
  with assms show ?thesis
    by (cases "gm_get (tasks s) tid") (auto simp: CompleteTaskExecution_def split: if_splits)
qed (use assms in \<open>simp add: CompleteTaskExecution_def\<close>)

lemma complete_ok_frame:
  assumes "\<not> isl (fst (CompleteTaskExecution a tid eid tok st sm s))"
  shows "\<exists>e e'. taskExecs (snd (CompleteTaskExecution a tid eid tok st sm s)) = gm_put eid e' (taskExecs s) \<and>
       gm_get (taskExecs s) eid = Some e \<and> TE_Status e = TaskExecutionActive \<and>
       TE_AgentID e' = TE_AgentID e \<and> TE_Status e' \<noteq> TaskExecutionActive \<and>
       env_uuid (snd (CompleteTaskExecution a tid eid tok st sm s)) = env_uuid s \<and>
       env_ctr s \<le> env_ctr (snd (CompleteTaskExecution a tid eid tok st sm s)) \<and>
       env_now (snd (CompleteTaskExecution a tid eid tok st sm s)) = env_now s"
proof -
  from complete_ok_guards [OF assms] obtain e t where
    g: "gm_get (taskExecs s) eid = Some e" "TE_AgentID e = a" "TE_TaskID e = tid" "TE_FencingToken e = tok"
    "TE_Status e = TaskExecutionActive" "gm_get (tasks s) tid = Some t" "Task_AssigneeAgentID t = a"
    "st = TaskInReview \<or> st = TaskDone \<or> st = TaskBlocked" by blast
  let ?e' = "e\<lparr>TE_Status := (if st = TaskBlocked then TaskExecutionBlocked else TaskExecutionCompleted),
                 TE_ResultStatus := st, TE_ResultSummary := sm,
                 TE_CompletedAt := env_now s, TE_UpdatedAt := env_now s\<rparr>"
  have "taskExecs (snd (CompleteTaskExecution a tid eid tok st sm s)) = gm_put eid ?e' (taskExecs s) \<and>
      env_uuid (snd (CompleteTaskExecution a tid eid tok st sm s)) = env_uuid s \<and>
      env_ctr s \<le> env_ctr (snd (CompleteTaskExecution a tid eid tok st sm s)) \<and>
      env_now (snd (CompleteTaskExecution a tid eid tok st sm s)) = env_now s"
    using g by (auto simp: CompleteTaskExecution_def Let_def)
  with g show ?thesis by (intro exI [of _ e] exI [of _ ?e']) simp
qed

lemma complete_quiet: "exec_quiet s (snd (CompleteTaskExecution a tid eid tok st sm s))"
proof (cases "isl (fst (CompleteTaskExecution a tid eid tok st sm s))")
  case True
  then show ?thesis by (simp add: complete_error_frame quiet_refl)
next
  case False
  from complete_ok_frame [OF this] obtain e e' where "gm_get (taskExecs s) eid = Some e"
    "TE_AgentID e' = TE_AgentID e" "TE_Status e' \<noteq> TaskExecutionActive"
    "taskExecs (snd (CompleteTaskExecution a tid eid tok st sm s)) = gm_put eid e' (taskExecs s)"
    "env_uuid (snd (CompleteTaskExecution a tid eid tok st sm s)) = env_uuid s"
    "env_ctr s \<le> env_ctr (snd (CompleteTaskExecution a tid eid tok st sm s))"
    "env_now (snd (CompleteTaskExecution a tid eid tok st sm s)) = env_now s" by blast
  then show ?thesis by (intro quiet_put [of s eid e _ e']) (simp_all add: exec_live_def)
qed

lemma requeue_execs [simp]:
  "taskExecs (requeue_task t s) = taskExecs s" "env_now (requeue_task t s) = env_now s"
  "env_uuid (requeue_task t s) = env_uuid s" "env_ctr (requeue_task t s) = env_ctr s"
  by (auto simp: requeue_task_def Let_def split: option.splits)

lemma fold_requeue_execs [simp]:
  "taskExecs (fold requeue_task ts s) = taskExecs s" "env_now (fold requeue_task ts s) = env_now s"
  "env_uuid (fold requeue_task ts s) = env_uuid s" "env_ctr (fold requeue_task ts s) = env_ctr s"
  by (induction ts arbitrary: s) simp_all

lemma reap_quiet: "exec_quiet s (snd (ReapExpiredTaskExecutions cutoff s))"
  by (auto simp: ReapExpiredTaskExecutions_def Let_def exec_quiet_def exec_live_def expire_execution_def
      split: if_splits)

text \<open>The steps of a run: every method that touches the execution table, the clock, and any other
  step of the control plane, which leaves the table alone (\<open>other\<close>). A heartbeat is taken on a lease
  that has not lapsed.\<close>

inductive exec_step :: "MemoryStore \<Rightarrow> MemoryStore \<Rightarrow> bool" where
  claim: "exec_step s (snd (ClaimNextTask a w d s))"
| start: "exec_step s (snd (StartTaskExecution a tid w d s))"
| heartbeat: "gm_get (taskExecs s) eid = Some e \<Longrightarrow> exec_live (env_now s) e \<Longrightarrow>
    exec_step s (snd (HeartbeatTaskExecution a eid tok d s))"
| prompt_sha: "exec_step s (snd (SetTaskExecutionPromptSHA a tid sha s))"
| snapshot: "exec_step s (snd (SaveSubagentThreadSnapshot tid snap s))"
| complete: "exec_step s (snd (CompleteTaskExecution a tid eid tok st sm s))"
| reopen: "exec_step s (snd (ReopenTaskExecution a tid w fb d m s))"
| reap: "exec_step s (snd (ReapExpiredTaskExecutions cutoff s))"
| other: "taskExecs t = taskExecs s \<Longrightarrow> env_uuid t = env_uuid s \<Longrightarrow> env_ctr s \<le> env_ctr t \<Longrightarrow>
    env_now s \<le> env_now t \<Longrightarrow> exec_step s t"

lemma exec_step_inv: "exec_inv s \<Longrightarrow> exec_step s t \<Longrightarrow> exec_inv t"
proof -
  assume inv: "exec_inv s" and st: "exec_step s t"
  have wf: "gm_wf (taskExecs s)" using inv by (simp add: exec_inv_def)
  from st show "exec_inv t"
    by cases (auto intro: claim_inv [OF inv] start_inv [OF inv] reopen_inv [OF inv] quiet_inv [OF inv]
        heartbeat_live_quiet prompt_sha_quiet [OF wf] snapshot_quiet [OF wf] complete_quiet reap_quiet
        quiet_same_execs)
qed

definition exec_init :: "MemoryStore \<Rightarrow> bool" where
  "exec_init s \<longleftrightarrow> inj (env_uuid s) \<and> taskExecs s = []"

interpretation exec_machine: state_machine exec_init exec_step exec_inv
proof unfold_locales
  show "exec_init s \<Longrightarrow> exec_inv s" for s
    by (simp add: exec_init_def exec_inv_def unissued_def one_live_def)
qed (rule exec_step_inv)

text \<open>Runs without the restriction on heartbeats. The table stays well-formed and its keys are issued identifiers, even where two
  attempts of an agent are live.\<close>

inductive any_step :: "MemoryStore \<Rightarrow> MemoryStore \<Rightarrow> bool" where
  step: "exec_step s t \<Longrightarrow> any_step s t"
| beat: "any_step s (snd (HeartbeatTaskExecution a eid tok d s))"

definition exec_base :: "MemoryStore \<Rightarrow> bool" where
  "exec_base s \<longleftrightarrow> inj (env_uuid s) \<and> gm_wf (taskExecs s) \<and> unissued s (taskExecs s)"

lemma base_frame:
  assumes "exec_base s" and "env_uuid t = env_uuid s" and "env_ctr s \<le> env_ctr t" and "gm_wf (taskExecs s) \<longrightarrow> gm_wf (taskExecs t)"
    and "\<forall>k e'. gm_get (taskExecs t) k = Some e' \<longrightarrow> (\<exists>e. gm_get (taskExecs s) k = Some e)"
  shows "exec_base t"
  using assms unfolding exec_base_def unissued_def by (metis le_trans not_None_eq option.distinct(1))

lemma base_quiet: "exec_base s \<Longrightarrow> exec_quiet s t \<Longrightarrow> exec_base t"
  by (erule base_frame) (auto simp: exec_quiet_def)

lemma base_mint:
  assumes "exec_base s" and "mint_execution tid a w d fb ro s = (e, s')"
  shows "exec_base s'"
  using assms(1) mint_frame [OF assms(2)] by (auto simp: exec_base_def unissued_def dest: injD)

lemma base_drain [simp]: "exec_base s \<Longrightarrow> exec_base (drainPendingAuditsLocked r s)"
  by (erule base_quiet) (simp add: quiet_same_execs)

lemma base_tasks [simp]: "exec_base (s\<lparr>tasks := ts\<rparr>) = exec_base s"
  by (simp add: exec_base_def unissued_def)

lemma heartbeat_base: "exec_base s \<Longrightarrow> exec_base (snd (HeartbeatTaskExecution a eid tok d s))"
  by (erule base_frame) (auto simp: HeartbeatTaskExecution_def Let_def split: option.splits if_splits)

lemma any_step_base:
  assumes base: "exec_base s" and st: "any_step s t"
  shows "exec_base t"
  using st
proof cases
  case step
  have wf: "gm_wf (taskExecs s)" using base by (simp add: exec_base_def)
  from step show ?thesis
  proof cases
    case (claim a w d)
    then show ?thesis using base unfolding ClaimNextTask_def Let_def
      by (auto split: option.splits prod.splits intro!: base_drain elim!: base_mint [rotated])
  next
    case (start a tid w d)
    then show ?thesis using base unfolding StartTaskExecution_def by (auto split: option.splits prod.splits elim!: base_mint [rotated])
  next
    case (reopen a tid w fb d m)
    then show ?thesis using base unfolding ReopenTaskExecution_def Let_def
      by (auto split: option.splits prod.splits intro!: base_drain elim!: base_mint [rotated])
  qed (auto intro: base_quiet [OF base] heartbeat_live_quiet prompt_sha_quiet [OF wf] snapshot_quiet [OF wf] complete_quiet reap_quiet
        quiet_same_execs)
qed (simp add: heartbeat_base base)

interpretation any_machine: state_machine exec_init any_step exec_base
proof unfold_locales
  show "exec_init s \<Longrightarrow> exec_base s" for s by (simp add: exec_init_def exec_base_def unissued_def)
qed (rule any_step_base)

section \<open>Claiming\<close>

definition claimable :: "string \<Rightarrow> MemoryStore \<Rightarrow> Task \<Rightarrow> bool" where
  "claimable a s t \<longleftrightarrow> Task_AssigneeAgentID t = a \<and>
     (Task_Status t = TaskInProgress \<and> \<not> taskHasActiveExecutionLocked (Task_ID t) (env_now s) s \<or>
      Task_Status t = TaskTodo \<and> \<not> taskBlockedLocked (Task_ID t) s)"

text \<open>The order in which claimable tasks are handed out: stalled in-progress tasks first, by age; then
  to-do tasks, by position.\<close>

definition claims_before :: "Task \<Rightarrow> Task \<Rightarrow> bool" where
  "claims_before t t' \<longleftrightarrow>
     Task_Status t = TaskInProgress \<and> (Task_Status t' = TaskInProgress \<longrightarrow> Task_UpdatedAt t \<le> Task_UpdatedAt t') \<or>
     Task_Status t = TaskTodo \<and> Task_Status t' = TaskTodo \<and> Task_Position t \<le> Task_Position t'"

definition claim_choice :: "string \<Rightarrow> MemoryStore \<Rightarrow> (string \<times> Task) option" where
  "claim_choice a s = (case pickOldestInProgressTaskLocked a (env_now s) s of
     None \<Rightarrow> pickTopTodoTaskLocked a s | Some c \<Rightarrow> Some c)"

lemma pick_oldest_Some:
  assumes "pickOldestInProgressTaskLocked a now s = Some (k, t)"
  shows "(k, t) \<in> set (tasks s)" and "Task_AssigneeAgentID t = a" and "Task_Status t = TaskInProgress"
    and "\<not> taskHasActiveExecutionLocked (Task_ID t) now s"
    and "(k', t') \<in> set (tasks s) \<Longrightarrow> Task_AssigneeAgentID t' = a \<Longrightarrow> Task_Status t' = TaskInProgress \<Longrightarrow>
         \<not> taskHasActiveExecutionLocked (Task_ID t') now s \<Longrightarrow> Task_UpdatedAt t \<le> Task_UpdatedAt t'"
proof -
  note pick = kless.pick_Some [OF assms [unfolded pickOldestInProgressTaskLocked_def]]
  from pick(1) show "(k, t) \<in> set (tasks s)" "Task_AssigneeAgentID t = a" "Task_Status t = TaskInProgress"
    "\<not> taskHasActiveExecutionLocked (Task_ID t) now s" by auto
  show "(k', t') \<in> set (tasks s) \<Longrightarrow> Task_AssigneeAgentID t' = a \<Longrightarrow> Task_Status t' = TaskInProgress \<Longrightarrow>
         \<not> taskHasActiveExecutionLocked (Task_ID t') now s \<Longrightarrow> Task_UpdatedAt t \<le> Task_UpdatedAt t'"
    using pick(2) [of "(k', t')"] by (auto simp: key_less_def)
qed

lemma pick_top_Some:
  assumes "pickTopTodoTaskLocked a s = Some (k, t)"
  shows "(k, t) \<in> set (tasks s)" and "Task_AssigneeAgentID t = a" and "Task_Status t = TaskTodo"
    and "\<not> taskBlockedLocked (Task_ID t) s"
    and "(k', t') \<in> set (tasks s) \<Longrightarrow> Task_AssigneeAgentID t' = a \<Longrightarrow> Task_Status t' = TaskTodo \<Longrightarrow>
         \<not> taskBlockedLocked (Task_ID t') s \<Longrightarrow> Task_Position t \<le> Task_Position t'"
proof -
  note pick = kless.pick_Some [OF assms [unfolded pickTopTodoTaskLocked_def]]
  from pick(1) show "(k, t) \<in> set (tasks s)" "Task_AssigneeAgentID t = a" "Task_Status t = TaskTodo"
    "\<not> taskBlockedLocked (Task_ID t) s" by auto
  show "(k', t') \<in> set (tasks s) \<Longrightarrow> Task_AssigneeAgentID t' = a \<Longrightarrow> Task_Status t' = TaskTodo \<Longrightarrow>
         \<not> taskBlockedLocked (Task_ID t') s \<Longrightarrow> Task_Position t \<le> Task_Position t'"
    using pick(2) [of "(k', t')"] by (auto simp: key_less_def)
qed

lemma claim_choice_None:
  "claim_choice a s = None \<longleftrightarrow> (\<forall>p \<in> set (tasks s). \<not> claimable a s (snd p))"
proof (cases "pickOldestInProgressTaskLocked a (env_now s) s")
  case None
  then show ?thesis
    by (auto simp: claim_choice_def claimable_def pickOldestInProgressTaskLocked_def
        pickTopTodoTaskLocked_def filter_empty_conv)
next
  case (Some p)
  obtain k t where p: "p = (k, t)" by (cases p)
  have "(k, t) \<in> set (tasks s)" and "claimable a s t"
    using pick_oldest_Some [OF Some [unfolded p]] by (auto simp: claimable_def)
  then have "\<exists>q \<in> set (tasks s). claimable a s (snd q)" by force
  then show ?thesis using Some by (auto simp: claim_choice_def)
qed

lemma claim_choice_claimable:
  "claim_choice a s = Some (k, t) \<Longrightarrow> (k, t) \<in> set (tasks s) \<and> claimable a s t"
  unfolding claim_choice_def claimable_def
  by (cases "pickOldestInProgressTaskLocked a (env_now s) s")
     (use pick_oldest_Some(1-4) [of a "env_now s" s k t] pick_top_Some(1-4) [of a s k t] in simp_all)

lemma claim_choice_least:
  assumes choice: "claim_choice a s = Some (k, t)" and mem: "(k', t') \<in> set (tasks s)" and cl: "claimable a s t'"
  shows "Task_Status t = TaskInProgress \<and> (Task_Status t' = TaskInProgress \<longrightarrow> Task_UpdatedAt t \<le> Task_UpdatedAt t') \<or>
         Task_Status t = TaskTodo \<and> Task_Status t' = TaskTodo \<and> Task_Position t \<le> Task_Position t'"
proof (cases "pickOldestInProgressTaskLocked a (env_now s) s")
  case (Some p)
  with choice have "pickOldestInProgressTaskLocked a (env_now s) s = Some (k, t)"
    by (simp add: claim_choice_def)
  from pick_oldest_Some [OF this] mem cl show ?thesis by (auto simp: claimable_def)
next
  case None
  then have none: "\<not> (Task_Status t' = TaskInProgress \<and> \<not> taskHasActiveExecutionLocked (Task_ID t') (env_now s) s)"
    using mem cl by (auto simp: pickOldestInProgressTaskLocked_def filter_empty_conv claimable_def)
  from None choice have "pickTopTodoTaskLocked a s = Some (k, t)"
    by (simp add: claim_choice_def)
  from pick_top_Some [OF this] mem cl none show ?thesis by (auto simp: claimable_def)
qed

lemma claim_eq:
  "ClaimNextTask a w d s =
     (if gm_get (agents s) a = None \<or> hasActiveExecutionForAgentLocked a (env_now s) s then (Inl ErrNotFound, s)
      else case claim_choice a s of None \<Rightarrow> (Inl ErrNotFound, s)
      | Some (key, task) \<Rightarrow>
          let moved = (if Task_Status task \<noteq> TaskInProgress
                       then task\<lparr>Task_Status := TaskInProgress,
                                 Task_Position := nextTaskPosition
                                   (gm_put key (task\<lparr>Task_Status := TaskInProgress\<rparr>) (tasks s))
                                   (Task_BoardID task) TaskInProgress\<rparr>
                       else task);
              task' = moved\<lparr>Task_UpdatedAt := env_now s\<rparr>;
              (e, s2) = mint_execution (Task_ID task') a (worker_or_agent w a) (lease_or_default d) [] False
                          (s\<lparr>tasks := gm_put key task' (tasks s)\<rparr>)
          in (Inr (taskWithExecution task' e), drainPendingAuditsLocked (Task_ID task') s2))"
  by (auto simp: ClaimNextTask_def claim_choice_def Let_def split: option.splits)

text \<open>C19. A claim hands out a task that is assigned to the agent and in a pickup column, never a to-do
  task with an unfinished dependency; the task is in progress afterwards, and the returned execution
  id and fencing token name a fresh execution of that task that is live for this agent.\<close>

theorem ClaimNextTask_grants:
  assumes wf: "gm_wf (tasks s)" and claim: "ClaimNextTask a w d s = (Inr t, s')"
  shows "\<exists>key t0 t1 e.
     gm_get (tasks s) key = Some t0 \<and> Task_AssigneeAgentID t0 = a \<and> IsAgentPickupStatus (Task_Status t0) \<and>
     (Task_Status t0 = TaskTodo \<longrightarrow> \<not> taskBlockedLocked (Task_ID t0) s) \<and>
     gm_get (tasks s') key = Some t1 \<and> Task_Status t1 = TaskInProgress \<and> Task_ID t1 = Task_ID t0 \<and>
     gm_get (taskExecs s') (Task_ExecutionID t) = Some e \<and> TE_FencingToken e = Task_FencingToken t \<and>
     TE_TaskID e = Task_ID t0 \<and> TE_AgentID e = a \<and> exec_live (env_now s') e"
proof -
  from claim obtain key t0 where choice: "claim_choice a s = Some (key, t0)"
    by (auto simp: claim_eq split: if_splits option.splits)
  have mem: "(key, t0) \<in> set (tasks s)" and cl: "claimable a s t0"
    using claim_choice_claimable [OF choice] by auto
  have get: "gm_get (tasks s) key = Some t0"
    using mem wf by (simp add: gm_get_def gm_wf_def)
  show ?thesis
    using claim choice get cl
    by (auto simp: claim_eq claimable_def mint_execution_def NewString_def Let_def taskWithExecution_def
        exec_live_def IsAgentPickupStatus_def AgentPickupStatuses_def split: if_splits)
qed

text \<open>C20. Claiming is live and ordered: for a known agent without a live execution it fails exactly
  when no task is claimable, and otherwise it takes the least recently updated stalled in-progress
  task, or, when there is none, the unblocked to-do task of lowest position.\<close>

theorem ClaimNextTask_live_and_ordered:
  assumes "gm_get (agents s) a \<noteq> None" and "\<not> hasActiveExecutionForAgentLocked a (env_now s) s"
  shows "((\<exists>t. fst (ClaimNextTask a w d s) = Inr t) \<longleftrightarrow> (\<exists>p \<in> set (tasks s). claimable a s (snd p))) \<and>
     (\<forall>t. fst (ClaimNextTask a w d s) = Inr t \<longrightarrow>
        (\<exists>p \<in> set (tasks s). claimable a s (snd p) \<and> Task_ID t = Task_ID (snd p) \<and>
           (\<forall>q \<in> set (tasks s). claimable a s (snd q) \<longrightarrow> claims_before (snd p) (snd q))))"
proof
  show "(\<exists>t. fst (ClaimNextTask a w d s) = Inr t) \<longleftrightarrow> (\<exists>p \<in> set (tasks s). claimable a s (snd p))"
    using assms claim_choice_None [of a s]
    by (auto simp: claim_eq mint_execution_def NewString_def Let_def split: option.splits)
  show "\<forall>t. fst (ClaimNextTask a w d s) = Inr t \<longrightarrow>
        (\<exists>p \<in> set (tasks s). claimable a s (snd p) \<and> Task_ID t = Task_ID (snd p) \<and>
           (\<forall>q \<in> set (tasks s). claimable a s (snd q) \<longrightarrow> claims_before (snd p) (snd q)))"
  proof (intro allI impI)
    fix t assume "fst (ClaimNextTask a w d s) = Inr t"
    then obtain k t0 where choice: "claim_choice a s = Some (k, t0)" and "Task_ID t = Task_ID t0"
      using assms by (auto simp: claim_eq mint_execution_def NewString_def Let_def taskWithExecution_def
          split: option.splits)
    moreover have "\<forall>q \<in> set (tasks s). claimable a s (snd q) \<longrightarrow> claims_before t0 (snd q)"
      unfolding claims_before_def using claim_choice_least [OF choice] by fastforce
    ultimately show "\<exists>p \<in> set (tasks s). claimable a s (snd p) \<and> Task_ID t = Task_ID (snd p) \<and>
        (\<forall>q \<in> set (tasks s). claimable a s (snd q) \<longrightarrow> claims_before (snd p) (snd q))"
      using claim_choice_claimable [OF choice] by (intro bexI [of _ "(k, t0)"]) auto
  qed
qed

section \<open>Fencing and completion\<close>

text \<open>C21. Fencing: an execution id presented with another agent, another token, or for an attempt that
  is no longer active is refused by both the heartbeat and the completion, and the store is left
  exactly as it was.\<close>

theorem fencing_refuses:
  assumes "gm_get (taskExecs s) eid = Some e"
    and "TE_AgentID e \<noteq> a \<or> TE_FencingToken e \<noteq> tok \<or> TE_Status e \<noteq> TaskExecutionActive"
  shows "HeartbeatTaskExecution a eid tok d s = (Inl ErrConflict, s) \<and>
         CompleteTaskExecution a tid eid tok st sm s = (Inl ErrConflict, s)"
  using assms by (auto simp: HeartbeatTaskExecution_def CompleteTaskExecution_def)

text \<open>The terminal part of an execution row: status, result and completion time.\<close>

definition same_terminal :: "TaskExecution \<Rightarrow> TaskExecution \<Rightarrow> bool" where
  "same_terminal e e' \<longleftrightarrow> TE_Status e' = TE_Status e \<and> TE_ResultStatus e' = TE_ResultStatus e \<and>
     TE_ResultSummary e' = TE_ResultSummary e \<and> TE_CompletedAt e' = TE_CompletedAt e \<and>
     TE_FencingToken e' = TE_FencingToken e"

definition keeps_terminal :: "MemoryStore \<Rightarrow> MemoryStore \<Rightarrow> bool" where
  "keeps_terminal s t \<longleftrightarrow>
     (\<forall>k e. gm_get (taskExecs s) k = Some e \<longrightarrow> TE_Status e \<noteq> TaskExecutionActive \<longrightarrow>
        (\<exists>e'. gm_get (taskExecs t) k = Some e' \<and> same_terminal e e'))"

lemma same_terminal_refl [simp]: "same_terminal e e"
  by (simp add: same_terminal_def)

lemma keeps_refl [simp]: "keeps_terminal s s"
  by (auto simp: keeps_terminal_def)

lemma keeps_same_execs: "taskExecs t = taskExecs s \<Longrightarrow> keeps_terminal s t"
  by (simp add: keeps_terminal_def)

lemma keeps_mint:
  assumes "unissued s (taskExecs s)" and "mint_execution tid a w d fb ro s = (e, s')"
  shows "keeps_terminal s s'"
  using assms(1) mint_frame [OF assms(2)] unissued_fresh [OF assms(1)]
  by (auto simp: keeps_terminal_def)

lemma keeps_put:
  assumes "gm_get (taskExecs s) k = Some e" and "taskExecs t = gm_put k e' (taskExecs s)"
    and "TE_Status e = TaskExecutionActive \<or> same_terminal e e'"
  shows "keeps_terminal s t"
  using assms by (auto simp: keeps_terminal_def)

lemma keeps_drain [simp]: "keeps_terminal s (drainPendingAuditsLocked r t) = keeps_terminal s t"
  by (simp add: keeps_terminal_def)

lemma keeps_tasks [simp]: "keeps_terminal (s\<lparr>tasks := ts\<rparr>) t = keeps_terminal s t"
  by (simp add: keeps_terminal_def)

lemma unissued_tasks [simp]: "unissued (s\<lparr>tasks := ts\<rparr>) m = unissued s m"
  by (simp add: unissued_def)

lemma keeps_mint_tasks:
  "unissued s (taskExecs s) \<Longrightarrow> mint_execution tid a w d fb ro (s\<lparr>tasks := ts\<rparr>) = (e, s') \<Longrightarrow> keeps_terminal s s'"
  using keeps_mint [of "s\<lparr>tasks := ts\<rparr>" tid a w d fb ro e s'] by simp

lemma complete_keeps: "keeps_terminal s (snd (CompleteTaskExecution a tid eid tok st sm s))"
  using complete_error_frame [of a tid eid tok st sm s] complete_ok_frame [of a tid eid tok st sm s]
  by (cases "isl (fst (CompleteTaskExecution a tid eid tok st sm s))") (auto intro: keeps_put keeps_same_execs)

lemma heartbeat_keeps: "keeps_terminal s (snd (HeartbeatTaskExecution a eid tok d s))"
  by (cases "gm_get (taskExecs s) eid") (auto simp: HeartbeatTaskExecution_def Let_def intro: keeps_put)

lemma exec_step_keeps_terminal:
  assumes inv: "exec_base s" and st: "exec_step s t"
  shows "keeps_terminal s t"
proof -
  have wf: "gm_wf (taskExecs s)" and un: "unissued s (taskExecs s)"
    using inv by (auto simp: exec_base_def)
  have found: "gm_get (taskExecs s) k = Some e" if "find P (taskExecs s) = Some (k, e)" for P k e
    using that wf unfolding gm_wf_def gm_get_def
    by (auto simp: find_Some_iff intro!: map_of_is_SomeI dest!: nth_mem)
  from st show ?thesis
  proof cases
    case (claim a w d)
    then show ?thesis
      by (auto simp: ClaimNextTask_def Let_def split: option.splits prod.splits intro: keeps_mint_tasks [OF un])
  next
    case (start a tid w d)
    then show ?thesis
      by (auto simp: StartTaskExecution_def split: option.splits prod.splits intro: keeps_mint [OF un])
  next
    case (reopen a tid w fb d m)
    then show ?thesis
      by (auto simp: ReopenTaskExecution_def Let_def split: option.splits prod.splits intro: keeps_mint_tasks [OF un])
  next
    case (heartbeat eid e a tok d)
    then show ?thesis by (simp add: heartbeat_keeps)
  next
    case (prompt_sha a tid sha)
    then show ?thesis
      by (auto simp: SetTaskExecutionPromptSHA_def Let_def same_terminal_def split: option.splits
          dest!: found intro: keeps_put)
  next
    case (snapshot tid snap)
    then show ?thesis
      by (auto simp: SaveSubagentThreadSnapshot_def same_terminal_def split: option.splits
          dest!: latest_execution_Some(1) [OF wf] intro: keeps_put)
  next
    case (complete a tid eid tok st sm)
    then show ?thesis by (simp add: complete_keeps)
  next
    case (reap cutoff)
    then show ?thesis
      by (auto simp: ReapExpiredTaskExecutions_def Let_def keeps_terminal_def lapsed_def)
  qed (simp add: keeps_same_execs)
qed

lemma any_step_keeps_terminal: "exec_base s \<Longrightarrow> any_step s t \<Longrightarrow> keeps_terminal s t"
  by (erule any_step.cases) (auto intro: exec_step_keeps_terminal heartbeat_keeps)

lemma keeps_terminal_run:
  assumes "any_step\<^sup>*\<^sup>* s t" and "exec_base s"
    and "gm_get (taskExecs s) k = Some e" and "TE_Status e \<noteq> TaskExecutionActive"
  shows "\<exists>e'. gm_get (taskExecs t) k = Some e' \<and> same_terminal e e'"
  using assms(1)
proof (induction rule: rtranclp_induct)
  case base
  then show ?case using assms(3) by auto
next
  case (step u v)
  then obtain e1 where e1: "gm_get (taskExecs u) k = Some e1" "same_terminal e e1" by blast
  have "exec_base u" by (rule any_machine.steps_inv [OF step.hyps(1) assms(2)])
  then have "keeps_terminal u v" using step.hyps(2) by (rule any_step_keeps_terminal)
  moreover have "TE_Status e1 \<noteq> TaskExecutionActive"
    using e1(2) assms(4) by (simp add: same_terminal_def)
  ultimately obtain e2 where "gm_get (taskExecs v) k = Some e2" "same_terminal e1 e2"
    using e1(1) unfolding keeps_terminal_def by blast
  with e1(2) show ?case by (auto simp: same_terminal_def)
qed

lemma complete_success:
  assumes "CompleteTaskExecution a tid eid tok st sm s = (Inr t, s')"
  obtains e e' task task' where
    "gm_get (taskExecs s) eid = Some e" "TE_Status e = TaskExecutionActive" "TE_AgentID e = a"
    "TE_TaskID e = tid" "TE_FencingToken e = tok" "gm_get (tasks s) tid = Some task"
    "gm_get (taskExecs s') eid = Some e'"
    "TE_Status e' = (if st = TaskBlocked then TaskExecutionBlocked else TaskExecutionCompleted)"
    "TE_ResultStatus e' = st" "TE_ResultSummary e' = sm" "TE_CompletedAt e' = env_now s"
    "gm_get (tasks s') tid = Some task'" "Task_Status task' = st" "st \<in> {TaskInReview, TaskDone, TaskBlocked}"
    "st \<noteq> TaskInReview \<Longrightarrow> Task_Result task' = sm"
  using assms
  by (force simp: CompleteTaskExecution_def Let_def split: option.splits if_splits)

text \<open>C22. A completed attempt is final: in every run from a store without executions, heartbeats on lapsed leases
  included, once an execution is completed no further step brings it back or changes its recorded
  outcome, and completing it again or sending a heartbeat for it is refused in every later state.\<close>

theorem completion_is_final:
  assumes init: "exec_init s0" and before: "any_step\<^sup>*\<^sup>* s0 s"
    and fin: "CompleteTaskExecution a tid eid tok st sm s = (Inr t, s')"
    and run: "any_step\<^sup>*\<^sup>* s' u"
  shows "(\<exists>e. gm_get (taskExecs u) eid = Some e \<and> TE_ResultStatus e = st \<and> TE_ResultSummary e = sm \<and>
              TE_CompletedAt e = env_now s) \<and>
         fst (CompleteTaskExecution a' tid' eid tok' st' sm' u) = Inl ErrConflict \<and>
         fst (HeartbeatTaskExecution a' eid tok' d' u) = Inl ErrConflict"
proof -
  obtain e' where e': "gm_get (taskExecs s') eid = Some e'"
      "TE_Status e' = (if st = TaskBlocked then TaskExecutionBlocked else TaskExecutionCompleted)"
      "TE_ResultStatus e' = st" "TE_ResultSummary e' = sm" "TE_CompletedAt e' = env_now s"
    using fin by (rule complete_success) blast
  have "s' = snd (CompleteTaskExecution a tid eid tok st sm s)" using fin by simp
  then have inv': "exec_base s'" using base_quiet [OF any_machine.reachable_inv [OF init before] complete_quiet] by simp
  obtain e where e: "gm_get (taskExecs u) eid = Some e" "same_terminal e' e"
    using keeps_terminal_run [OF run inv' e'(1)] e'(2) by (auto split: if_splits)
  then show ?thesis
    using e' by (auto simp: same_terminal_def CompleteTaskExecution_def HeartbeatTaskExecution_def split: if_splits)
qed

section \<open>The invariant over runs, and where it needs an unexpired lease\<close>

text \<open>C2. Over every run from a store without executions, in which heartbeats are sent on unexpired
  leases, no agent ever holds two live executions.\<close>

theorem one_live_execution_per_agent:
  assumes "exec_init s0" and "exec_step\<^sup>*\<^sup>* s0 s"
  shows "one_live s"
  using exec_machine.reachable_inv [OF assms] by (simp add: exec_inv_def)

text \<open>The heartbeat itself does not look at the lease: a heartbeat on a lapsed but not yet reaped
  attempt succeeds, and when the agent has meanwhile been given another execution, the agent then
  holds two live executions.\<close>

theorem heartbeat_revives_lapsed:
  assumes "gm_get (taskExecs s) k1 = Some e1" and "TE_Status e1 = TaskExecutionActive"
    and "TE_LeaseExpiresAt e1 \<le> env_now s"
    and "gm_get (taskExecs s) k2 = Some e2" and "exec_live (env_now s) e2"
    and "TE_AgentID e1 = TE_AgentID e2"
  shows "(\<exists>e. fst (HeartbeatTaskExecution (TE_AgentID e1) k1 (TE_FencingToken e1) d s) = Inr e) \<and>
         \<not> one_live (snd (HeartbeatTaskExecution (TE_AgentID e1) k1 (TE_FencingToken e1) d s))"
proof -
  have ne: "k1 \<noteq> k2" using assms by (auto simp: exec_live_def)
  let ?e = "e1\<lparr>TE_LeaseExpiresAt := env_now s + lease_or_default d, TE_UpdatedAt := env_now s\<rparr>"
  have hb: "HeartbeatTaskExecution (TE_AgentID e1) k1 (TE_FencingToken e1) d s =
      (Inr ?e, s\<lparr>taskExecs := gm_put k1 ?e (taskExecs s)\<rparr>)"
    using assms(1,2) by (simp add: HeartbeatTaskExecution_def Let_def)
  have "exec_live (env_now s) ?e" using assms(2) by (simp add: exec_live_def)
  then have "\<not> one_live (s\<lparr>taskExecs := gm_put k1 ?e (taskExecs s)\<rparr>)"
    using ne assms(4-6) unfolding one_live_def
    by (intro notI) (drule spec [of _ k1], drule spec [of _ k2], auto)
  then show ?thesis by (simp add: hb)
qed

section \<open>Reopening\<close>

lemma reopen_success:
  assumes "ReopenTaskExecution a tid w fb d m s = (Inr t, s')"
  obtains task e where "gm_get (tasks s) tid = Some task" "Task_AssigneeAgentID task = a"
    "Task_Status task = TaskInReview" "\<not> hasActiveExecutionForAgentLocked a (env_now s) s"
    "m < 0 \<or> reopen_count tid (env_now s - 24 * hour) (gm_vals (taskExecs s)) < m"
    "TE_ID e = env_uuid s (env_ctr s)" "TE_FencingToken e = env_uuid s (Suc (env_ctr s))"
    "TE_TaskID e = tid" "TE_ReopenSeq e" "TE_StartedAt e = env_now s"
    "taskExecs s' = gm_put (TE_ID e) e (taskExecs s)"
  using assms
  by (force simp: ReopenTaskExecution_def mint_execution_def NewString_def Let_def
      split: option.splits if_splits)

lemma gm_vals_put_new: "gm_get m k = None \<Longrightarrow> gm_vals (gm_put k v m) = gm_vals m @ [v]"
  by (induction m) (auto simp: gm_get_def gm_vals_def split: if_splits)

text \<open>The reopen cap: a successful agent reopen comes from the assignee of a task in review,
  keeps every earlier attempt, and leaves at most \<open>maxReopens\<close> reopened attempts of the task in the
  last twenty-four hours; with a cap of zero no reopen succeeds.\<close>

theorem reopen_within_cap:
  assumes "unissued s (taskExecs s)" and "0 \<le> m"
    and "ReopenTaskExecution a tid w fb d m s = (Inr t, s')"
  shows "reopen_count tid (env_now s - 24 * hour) (gm_vals (taskExecs s')) \<le> m \<and> 0 < m \<and>
         (\<exists>task. gm_get (tasks s) tid = Some task \<and> Task_AssigneeAgentID task = a \<and> Task_Status task = TaskInReview) \<and>
         (\<forall>k e. gm_get (taskExecs s) k = Some e \<longrightarrow> gm_get (taskExecs s') k = Some e)"
proof -
  from assms(3) obtain task e where r: "gm_get (tasks s) tid = Some task" "Task_AssigneeAgentID task = a"
    "Task_Status task = TaskInReview"
    "m < 0 \<or> reopen_count tid (env_now s - 24 * hour) (gm_vals (taskExecs s)) < m"
    "TE_ID e = env_uuid s (env_ctr s)" "TE_TaskID e = tid" "TE_ReopenSeq e" "TE_StartedAt e = env_now s"
    "taskExecs s' = gm_put (TE_ID e) e (taskExecs s)"
    by (rule reopen_success) blast
  have fresh: "gm_get (taskExecs s) (TE_ID e) = None"
    using unissued_fresh [OF assms(1)] r(5) by simp
  have "reopen_count tid (env_now s - 24 * hour) (gm_vals (taskExecs s')) =
        reopen_count tid (env_now s - 24 * hour) (gm_vals (taskExecs s)) + 1"
    using r(6-9) by (simp add: reopen_count_def gm_vals_put_new [OF fresh])
  moreover have "0 \<le> reopen_count tid (env_now s - 24 * hour) (gm_vals (taskExecs s))"
    by (simp add: reopen_count_def)
  ultimately show ?thesis using r assms(2) fresh by auto
qed

section \<open>The reaper\<close>

lemma requeue_other: "k \<noteq> t \<Longrightarrow> gm_get (tasks (requeue_task t s)) k = gm_get (tasks s) k"
  by (auto simp: requeue_task_def Let_def split: option.splits)

text \<open>The one task of an expired attempt that is moved: in progress, with no live attempt left.\<close>

definition requeue_fate :: "MemoryStore \<Rightarrow> string \<Rightarrow> Task \<Rightarrow> Task \<Rightarrow> bool" where
  "requeue_fate s k task task' \<longleftrightarrow>
     (if Task_Status task = TaskInProgress \<and> \<not> taskHasActiveExecutionLocked k (env_now s) s
      then \<exists>pos. task' = task\<lparr>Task_Status := TaskTodo, Task_Position := pos, Task_UpdatedAt := env_now s\<rparr>
      else task' = task)"

lemma requeue_self:
  "gm_get (tasks s) t = Some task \<Longrightarrow> \<exists>task'. gm_get (tasks (requeue_task t s)) t = Some task' \<and> requeue_fate s t task task'"
  by (auto simp: requeue_task_def requeue_fate_def Let_def)

lemma requeue_now [simp]: "env_now (requeue_task t s) = env_now s"
  by (simp add: requeue_task_def Let_def split: option.split)

lemma task_active_execs:
  "taskExecs s' = taskExecs s \<Longrightarrow> taskHasActiveExecutionLocked t n s' = taskHasActiveExecutionLocked t n s"
  by (simp add: taskHasActiveExecutionLocked_def)

lemma fold_requeue_other: "k \<notin> set ts \<Longrightarrow> gm_get (tasks (fold requeue_task ts s)) k = gm_get (tasks s) k"
  by (induction ts arbitrary: s) (auto simp: requeue_other)

lemma fold_requeue_self:
  "distinct ts \<Longrightarrow> t \<in> set ts \<Longrightarrow> gm_get (tasks s) t = Some task \<Longrightarrow>
   \<exists>task'. gm_get (tasks (fold requeue_task ts s)) t = Some task' \<and> requeue_fate s t task task'"
proof (induction ts arbitrary: s)
  case (Cons u ts)
  show ?case
  proof (cases "t = u")
    case True
    with Cons.prems requeue_self [of s t task] show ?thesis by (auto simp: fold_requeue_other)
  next
    case False
    with Cons.prems have "gm_get (tasks (requeue_task u s)) t = Some task"
      by (simp add: requeue_other)
    moreover have "requeue_fate (requeue_task u s) t task = requeue_fate s t task"
      by (rule ext) (simp add: requeue_fate_def task_active_execs [of "requeue_task u s" s])
    ultimately show ?thesis using Cons.IH [of "requeue_task u s"] Cons.prems False by simp
  qed
qed simp

lemma not_lapsed_after: "\<not> lapsed cutoff (expire_execution now e)"
  by (simp add: lapsed_def expire_execution_def)

text \<open>An active attempt whose lease ended before the cutoff.\<close>

definition overdue :: "instant \<Rightarrow> TaskExecution \<Rightarrow> bool" where
  "overdue cutoff e \<longleftrightarrow> TE_Status e = TaskExecutionActive \<and> TE_LeaseExpiresAt e < cutoff"

lemma lapsed_overdue: "lapsed = overdue"
  by (intro ext) (auto simp: lapsed_def overdue_def)

text \<open>C23. The reaper. It expires exactly the active attempts whose lease ended before the cutoff, leaves every other attempt as
  it is, and reports exactly the expired ones. A task goes back to the to-do column if and only if one of its
  attempts was expired, it is in progress and no live attempt of it is left; only its column, position and
  time of change are written. Every other task, among them finished ones and ones with another live
  attempt, is untouched, and running the reaper again reports nothing.\<close>

theorem reaper_requeues:
  assumes "ReapExpiredTaskExecutions cutoff s = (reaped, s')"
  shows "(\<forall>k. gm_get (taskExecs s') k =
            map_option (\<lambda>e. if overdue cutoff e
                            then e\<lparr>TE_Status := TaskExecutionExpired, TE_ResultSummary := ''lease expired without completion'',
                                   TE_CompletedAt := env_now s, TE_UpdatedAt := env_now s\<rparr>
                            else e) (gm_get (taskExecs s) k)) \<and>
         map RE_ExecutionID reaped = map TE_ID (filter (overdue cutoff) (gm_vals (taskExecs s))) \<and>
         map RE_TaskID reaped = map TE_TaskID (filter (overdue cutoff) (gm_vals (taskExecs s))) \<and>
         (\<forall>k task. gm_get (tasks s) k = Some task \<longrightarrow>
            (\<exists>task'. gm_get (tasks s') k = Some task' \<and>
               (if k \<in> set (map RE_TaskID reaped) \<and> Task_Status task = TaskInProgress \<and> \<not> taskHasActiveExecutionLocked k (env_now s) s'
                then \<exists>pos. task' = task\<lparr>Task_Status := TaskTodo, Task_Position := pos, Task_UpdatedAt := env_now s\<rparr>
                else task' = task))) \<and>
         fst (ReapExpiredTaskExecutions cutoff s') = []"
proof -
  let ?dead = "filter (lapsed cutoff) (gm_vals (taskExecs s))"
  let ?s1 = "s\<lparr>taskExecs := gm_map (\<lambda>e. if lapsed cutoff e then expire_execution (env_now s) e else e) (taskExecs s)\<rparr>"
  have r: "map RE_ExecutionID reaped = map TE_ID ?dead" "map RE_TaskID reaped = map TE_TaskID ?dead"
    and s': "s' = fold requeue_task (remdups (map TE_TaskID ?dead)) ?s1"
    using assms by (auto simp: ReapExpiredTaskExecutions_def Let_def comp_def)
  have execs: "taskExecs s' = taskExecs ?s1" by (simp add: s')
  then have rows: "gm_get (taskExecs s') k =
      map_option (\<lambda>e. if lapsed cutoff e then expire_execution (env_now s) e else e) (gm_get (taskExecs s) k)" for k
    by simp
  have "\<forall>e \<in> set (gm_vals (taskExecs s')). \<not> lapsed cutoff e"
    by (auto simp: s' not_lapsed_after)
  then have again: "fst (ReapExpiredTaskExecutions cutoff s') = []"
    by (auto simp: ReapExpiredTaskExecutions_def Let_def filter_empty_conv)
  have "\<exists>task'. gm_get (tasks s') k = Some task' \<and>
      (if k \<in> set (map RE_TaskID reaped) \<and> Task_Status task = TaskInProgress \<and> \<not> taskHasActiveExecutionLocked k (env_now s) s'
       then \<exists>pos. task' = task\<lparr>Task_Status := TaskTodo, Task_Position := pos, Task_UpdatedAt := env_now s\<rparr> else task' = task)"
    if "gm_get (tasks s) k = Some task" for k task
  proof (cases "k \<in> set (map TE_TaskID ?dead)")
    case True
    then have k: "k \<in> set (remdups (map TE_TaskID ?dead))" and t1: "gm_get (tasks ?s1) k = Some task" using that by simp_all
    from fold_requeue_self [OF distinct_remdups k t1] obtain task' where t': "gm_get (tasks s') k = Some task'" "requeue_fate ?s1 k task task'"
      unfolding s' by blast
    have "k \<in> set (map RE_TaskID reaped)" using True unfolding r .
    then show ?thesis using t'
      by (intro exI [of _ task']) (auto simp: requeue_fate_def task_active_execs [OF execs] split: if_splits)
  next
    case False
    then show ?thesis using that by (simp add: r s' fold_requeue_other)
  qed
  with rows r again show ?thesis unfolding lapsed_overdue expire_execution_def by blast
qed

section \<open>Reordering a column\<close>

lemma reorder_check_None:
  "reorder_check ts b st seen ids = None \<longleftrightarrow>
     distinct ids \<and> set ids \<inter> set seen = {} \<and>
     (\<forall>i \<in> set ids. \<exists>t. gm_get ts i = Some t \<and> Task_BoardID t = b \<and> Task_Status t = st)"
  by (induction ids arbitrary: seen) (auto split: option.splits)

lemma reorder_write_other:
  "k \<notin> set ids \<Longrightarrow> gm_get (reorder_write now i ids ts) k = gm_get ts k"
  by (induction ids arbitrary: i ts) (auto split: option.splits)

lemma reorder_write_nth:
  "distinct ids \<Longrightarrow> n < length ids \<Longrightarrow> gm_get ts (ids ! n) = Some t \<Longrightarrow>
   gm_get (reorder_write now i ids ts) (ids ! n) =
     Some (t\<lparr>Task_Position := i + int n + 1, Task_UpdatedAt := now\<rparr>)"
proof (induction ids arbitrary: i ts n)
  case (Cons x xs)
  show ?case
  proof (cases n)
    case 0
    with Cons.prems show ?thesis by (simp add: reorder_write_other)
  next
    case (Suc m)
    have ne: "xs ! m \<noteq> x" using Cons.prems Suc by auto
    show ?thesis
    proof (cases "gm_get ts x")
      case None
      with Cons Suc show ?thesis by (simp add: algebra_simps)
    next
      case (Some u)
      with Cons.prems Suc ne Cons.IH [of m "gm_put x (u\<lparr>Task_Position := i + 1, Task_UpdatedAt := now\<rparr>) ts" "i + 1"]
      show ?thesis by (simp add: algebra_simps)
    qed
  qed
qed simp

text \<open>Reordering is all or nothing: it succeeds exactly on a non-empty list of distinct tasks that
  all sit in the given column of the given board; then the i-th listed task has position i+1 and no
  other task changes, and on an error the store is unchanged.\<close>

theorem ReorderTasks_all_or_nothing:
  "(fst (ReorderTasks b st ids s) = Inr () \<longleftrightarrow>
      ids \<noteq> [] \<and> distinct ids \<and>
      (\<forall>i \<in> set ids. \<exists>t. gm_get (tasks s) i = Some t \<and> Task_BoardID t = b \<and> Task_Status t = st)) \<and>
   (if fst (ReorderTasks b st ids s) = Inr ()
    then (\<forall>n < length ids. \<exists>t. gm_get (tasks (snd (ReorderTasks b st ids s))) (ids ! n) = Some t \<and>
                             Task_Position t = int n + 1 \<and> Task_Status t = st) \<and>
         (\<forall>k. k \<notin> set ids \<longrightarrow> gm_get (tasks (snd (ReorderTasks b st ids s))) k = gm_get (tasks s) k)
    else snd (ReorderTasks b st ids s) = s)"
proof -
  have ok: "fst (ReorderTasks b st ids s) = Inr () \<longleftrightarrow> ids \<noteq> [] \<and> reorder_check (tasks s) b st [] ids = None"
    by (auto simp: ReorderTasks_def split: option.splits)
  have pos: "\<exists>t. gm_get (tasks (snd (ReorderTasks b st ids s))) (ids ! n) = Some t \<and>
                Task_Position t = int n + 1 \<and> Task_Status t = st"
    if r: "fst (ReorderTasks b st ids s) = Inr ()" and n: "n < length ids" for n
  proof -
    have chk: "ids \<noteq> []" "reorder_check (tasks s) b st [] ids = None" using r ok by auto
    then obtain t where "gm_get (tasks s) (ids ! n) = Some t" "Task_Status t = st" "distinct ids"
      using nth_mem [OF n] unfolding reorder_check_None by blast
    with chk n reorder_write_nth [of ids n "tasks s" t "env_now s" 0] show ?thesis
      by (simp add: ReorderTasks_def)
  qed
  have other: "gm_get (tasks (snd (ReorderTasks b st ids s))) k = gm_get (tasks s) k" if "k \<notin> set ids" for k
    using that by (auto simp: ReorderTasks_def reorder_write_other split: option.splits)
  have err: "snd (ReorderTasks b st ids s) = s" if "fst (ReorderTasks b st ids s) \<noteq> Inr ()"
    using that unfolding ok by (auto simp: ReorderTasks_def)
  have iff: "fst (ReorderTasks b st ids s) = Inr () \<longleftrightarrow>
      ids \<noteq> [] \<and> distinct ids \<and>
      (\<forall>i \<in> set ids. \<exists>t. gm_get (tasks s) i = Some t \<and> Task_BoardID t = b \<and> Task_Status t = st)"
    unfolding ok by (simp add: reorder_check_None)
  show ?thesis
  proof (cases "fst (ReorderTasks b st ids s) = Inr ()")
    case True
    show ?thesis unfolding if_P [OF True] using iff pos [OF True] other by blast
  next
    case False
    show ?thesis unfolding if_not_P [OF False] using iff err [OF False] by blast
  qed
qed

text \<open>Per-squad task numbers are unique and stay so: creating a task gives it a number no task of
  its squad has, and updating a task, whatever the caller sends, leaves squad and number alone.\<close>

theorem task_numbers_stay_unique:
  assumes "task_numbers_unique s"
  shows "task_numbers_unique (snd (CreateTask t s)) \<and> task_numbers_unique (snd (UpdateTask u s)) \<and>
         (\<forall>old. gm_get (tasks s) (Task_ID u) = Some old \<longrightarrow>
            (\<exists>new. gm_get (tasks (snd (UpdateTask u s))) (Task_ID u) = Some new \<and>
                   Task_TaskNumber new = Task_TaskNumber old \<and> Task_SquadID new = Task_SquadID old))"
  using numbers_create [OF assms] numbers_update [OF assms]
  by (auto simp: UpdateTask_def Let_def)

section \<open>Witnesses\<close>

text \<open>A board with one agent and one task assigned to it, and the states of a short run.\<close>

definition demo_board_store :: MemoryStore where
  "demo_board_store = demo_store\<lparr>
     agents := [(''a'', Agent_zero\<lparr>Agent_ID := ''a''\<rparr>)],
     boards := [(''b'', \<lparr>Board_ID = ''b'', Board_SquadID = ''q'', Board_CreatedAt = 0\<rparr>)],
     tasks := [(''t'', Task_zero\<lparr>Task_ID := ''t'', Task_BoardID := ''b'', Task_SquadID := ''q'', Task_TaskNumber := 1,
                                Task_Status := TaskTodo, Task_AssigneeAgentID := ''a'', Task_Position := 1\<rparr>)]\<rparr>"

definition demo_claimed :: MemoryStore where
  "demo_claimed = snd (ClaimNextTask ''a'' [] 0 demo_board_store)"

text \<open>Ten minutes later the five-minute lease has lapsed and the agent claims again.\<close>

definition demo_reclaimed :: MemoryStore where
  "demo_reclaimed = snd (ClaimNextTask ''a'' [] 0 (demo_claimed\<lparr>env_now := env_now demo_claimed + 10 * minute\<rparr>))"

definition demo_in_review :: MemoryStore where
  "demo_in_review = snd (CompleteTaskExecution ''a'' ''t'' (demo_uuid 0) (demo_uuid 1) TaskInReview ''ok'' demo_claimed)"

text \<open>The execution minted by the first claim.\<close>

definition demo_exec :: TaskExecution where
  "demo_exec = the (gm_get (taskExecs demo_claimed) (demo_uuid 0))"

theorem ClaimNextTask_grants_witness:
  "gm_wf (tasks demo_board_store) \<and>
   (\<exists>t s'. ClaimNextTask ''a'' [] 0 demo_board_store = (Inr t, s') \<and>
      (\<exists>e. gm_get (taskExecs s') (Task_ExecutionID t) = Some e \<and> exec_live (env_now s') e))"
proof -
  have wf: "gm_wf (tasks demo_board_store)" by code_simp
  have "\<not> isl (fst (ClaimNextTask ''a'' [] 0 demo_board_store))" by code_simp
  then obtain t where cl: "ClaimNextTask ''a'' [] 0 demo_board_store = (Inr t, snd (ClaimNextTask ''a'' [] 0 demo_board_store))"
    by (blast dest: result_ok)
  show ?thesis using wf cl ClaimNextTask_grants [OF wf cl] by blast
qed

theorem ClaimNextTask_live_and_ordered_witness:
  "gm_get (agents demo_board_store) ''a'' \<noteq> None \<and>
   \<not> hasActiveExecutionForAgentLocked ''a'' (env_now demo_board_store) demo_board_store \<and>
   (\<exists>t. fst (ClaimNextTask ''a'' [] 0 demo_board_store) = Inr t)"
proof -
  have h: "gm_get (agents demo_board_store) ''a'' \<noteq> None"
    "\<not> hasActiveExecutionForAgentLocked ''a'' (env_now demo_board_store) demo_board_store" by code_simp+
  have "list_ex (\<lambda>p. claimable ''a'' demo_board_store (snd p)) (tasks demo_board_store)" by code_simp
  then have "\<exists>p \<in> set (tasks demo_board_store). claimable ''a'' demo_board_store (snd p)"
    by (simp add: list_ex_iff)
  then show ?thesis using h ClaimNextTask_live_and_ordered [OF h, of "[]" 0] by blast
qed

theorem fencing_refuses_witness:
  "HeartbeatTaskExecution ''a'' (demo_uuid 0) ''stale'' 0 demo_claimed = (Inl ErrConflict, demo_claimed)"
proof -
  have "gm_get (taskExecs demo_claimed) (demo_uuid 0) = Some demo_exec" by code_simp
  moreover have "TE_FencingToken demo_exec \<noteq> ''stale''" by code_simp
  ultimately show ?thesis
    using fencing_refuses [of demo_claimed "demo_uuid 0" demo_exec "''a''" "''stale''" 0] by blast
qed

lemma demo_init: "exec_init demo_board_store"
  by (simp add: exec_init_def demo_board_store_def demo_store_def NewMemoryStore_def)

lemma demo_claimed_step: "exec_step demo_board_store demo_claimed"
  unfolding demo_claimed_def by (rule exec_step.claim)

lemma demo_claimed_inv: "exec_inv demo_claimed"
  by (rule exec_machine.reachable_inv [OF demo_init]) (simp add: demo_claimed_step r_into_rtranclp)

theorem completion_is_final_witness:
  "fst (CompleteTaskExecution ''a'' ''t'' (demo_uuid 0) (demo_uuid 1) TaskDone [] demo_in_review) = Inl ErrConflict"
proof -
  have "\<not> isl (fst (CompleteTaskExecution ''a'' ''t'' (demo_uuid 0) (demo_uuid 1) TaskInReview ''ok'' demo_claimed))"
    by code_simp
  then obtain t where "CompleteTaskExecution ''a'' ''t'' (demo_uuid 0) (demo_uuid 1) TaskInReview ''ok'' demo_claimed
      = (Inr t, demo_in_review)"
    unfolding demo_in_review_def by (blast dest: result_ok)
  moreover have "any_step\<^sup>*\<^sup>* demo_board_store demo_claimed" using demo_claimed_step any_step.step by blast
  ultimately show ?thesis using completion_is_final [OF demo_init _ _ rtranclp.rtrancl_refl] by blast
qed

theorem one_live_execution_per_agent_witness:
  "exec_init demo_board_store \<and> exec_step\<^sup>*\<^sup>* demo_board_store demo_claimed \<and> one_live demo_claimed \<and>
   hasActiveExecutionForAgentLocked ''a'' (env_now demo_claimed) demo_claimed"
proof -
  have run: "exec_step\<^sup>*\<^sup>* demo_board_store demo_claimed" using demo_claimed_step by blast
  have "hasActiveExecutionForAgentLocked ''a'' (env_now demo_claimed) demo_claimed" by code_simp
  then show ?thesis
    using demo_init run one_live_execution_per_agent [OF demo_init run] by simp
qed

theorem heartbeat_revives_lapsed_witness:
  "\<not> one_live (snd (HeartbeatTaskExecution ''a'' (demo_uuid 0) (demo_uuid 1) 0 demo_reclaimed))"
proof -
  let ?e2 = "the (gm_get (taskExecs demo_reclaimed) (demo_uuid 2))"
  have "gm_get (taskExecs demo_reclaimed) (demo_uuid 0) = Some demo_exec"
    "TE_Status demo_exec = TaskExecutionActive" "TE_LeaseExpiresAt demo_exec \<le> env_now demo_reclaimed"
    "gm_get (taskExecs demo_reclaimed) (demo_uuid 2) = Some ?e2" "exec_live (env_now demo_reclaimed) ?e2"
    "TE_AgentID demo_exec = TE_AgentID ?e2" by code_simp+
  from heartbeat_revives_lapsed [OF this]
  have "\<not> one_live (snd (HeartbeatTaskExecution (TE_AgentID demo_exec) (demo_uuid 0) (TE_FencingToken demo_exec) 0 demo_reclaimed))"
    by blast
  moreover have "TE_AgentID demo_exec = ''a''" and "TE_FencingToken demo_exec = demo_uuid 1" by code_simp+
  ultimately show ?thesis by simp
qed

theorem reopen_within_cap_witness:
  "reopen_count ''t'' (env_now demo_in_review - 24 * hour)
     (gm_vals (taskExecs (snd (ReopenTaskExecution ''a'' ''t'' [] ''again'' 0 3 demo_in_review)))) \<le> 3"
proof -
  have "\<not> isl (fst (ReopenTaskExecution ''a'' ''t'' [] ''again'' 0 3 demo_in_review))" by code_simp
  then obtain t where r: "ReopenTaskExecution ''a'' ''t'' [] ''again'' 0 3 demo_in_review
      = (Inr t, snd (ReopenTaskExecution ''a'' ''t'' [] ''again'' 0 3 demo_in_review))"
    by (blast dest: result_ok)
  have "exec_inv demo_in_review"
    unfolding demo_in_review_def by (rule quiet_inv [OF demo_claimed_inv complete_quiet])
  then have "unissued demo_in_review (taskExecs demo_in_review)" by (simp add: exec_inv_def)
  from reopen_within_cap [OF this _ r] show ?thesis by simp
qed

theorem reaper_requeues_witness:
  "\<exists>s'. ReapExpiredTaskExecutions (env_now demo_claimed + 10 * minute) demo_claimed =
     ([\<lparr>RE_ExecutionID = demo_uuid 0, RE_TaskID = ''t'', RE_AgentID = ''a''\<rparr>], s') \<and>
     (\<exists>t. gm_get (tasks s') ''t'' = Some t \<and> Task_Status t = TaskTodo) \<and>
     fst (ReapExpiredTaskExecutions (env_now demo_claimed + 10 * minute) s') = []"
proof -
  let ?r = "ReapExpiredTaskExecutions (env_now demo_claimed + 10 * minute) demo_claimed"
  have f: "fst ?r = [\<lparr>RE_ExecutionID = demo_uuid 0, RE_TaskID = ''t'', RE_AgentID = ''a''\<rparr>]"
    "map_option Task_Status (gm_get (tasks (snd ?r)) ''t'') = Some TaskTodo" by code_simp+
  then have "?r = ([\<lparr>RE_ExecutionID = demo_uuid 0, RE_TaskID = ''t'', RE_AgentID = ''a''\<rparr>], snd ?r)"
    by (metis prod.collapse)
  moreover have "fst (ReapExpiredTaskExecutions (env_now demo_claimed + 10 * minute) (snd ?r)) = []" using reaper_requeues [OF calculation] by blast
  ultimately show ?thesis using f(2) by auto
qed

theorem ReorderTasks_all_or_nothing_witness:
  "fst (ReorderTasks ''b'' TaskTodo [''t''] demo_board_store) = Inr () \<and>
   snd (ReorderTasks ''b'' TaskTodo [''t'', ''t''] demo_board_store) = demo_board_store"
proof -
  have "fst (ReorderTasks ''b'' TaskTodo [''t''] demo_board_store) = Inr ()"
    using ReorderTasks_all_or_nothing [of "''b''" TaskTodo "[''t'']" demo_board_store]
    by (simp add: demo_board_store_def gm_get_def)
  moreover have "fst (ReorderTasks ''b'' TaskTodo [''t'', ''t''] demo_board_store) \<noteq> Inr ()"
    using ReorderTasks_all_or_nothing [of "''b''" TaskTodo "[''t'', ''t'']" demo_board_store] by simp
  ultimately show ?thesis
    using ReorderTasks_all_or_nothing [of "''b''" TaskTodo "[''t'', ''t'']" demo_board_store] by simp
qed

theorem task_numbers_stay_unique_witness:
  "task_numbers_unique demo_board_store \<and>
   task_numbers_unique (snd (CreateTask (Task_zero\<lparr>Task_BoardID := ''b'', Task_SquadID := ''q''\<rparr>) demo_board_store))"
proof -
  have "task_numbers_unique demo_board_store"
    by (simp add: task_numbers_unique_def demo_board_store_def gm_get_def)
  from this task_numbers_stay_unique [OF this] show ?thesis by blast
qed

end
