(* ===== verification/Message_Store.thy ===== *)
theory Message_Store
  imports Store_State
begin

text \<open>
  The agent message queue of \<^verbatim>\<open>storage/memory.go\<close>: creation, delivery, acknowledgement, retry and
  dead-lettering, chat turns, the inbox snapshot, dead-letter listing and replay, and the consult
  timeout sweep of \<^verbatim>\<open>consult_timeout.go\<close>.

  \<open>expireMessageIfDue\<close> writes through the pointer it is given, so a method that visits the whole map
  rewrites every entry, and one that stops at the first hit rewrites only the entries before it.
\<close>

section \<open>Constants and helpers\<close>

definition defaultMessageMaxAttempts :: int where "defaultMessageMaxAttempts = 3"
definition defaultMessageRetryDelay :: duration where "defaultMessageRetryDelay = 30 * second"
definition defaultMessageTTL :: duration where "defaultMessageTTL = 24 * hour"
definition maxMessageTerminalReason :: nat where "maxMessageTerminalReason = 500"
definition consultTimeoutReason :: string where "consultTimeoutReason = ''consult_timeout''"

definition expireMessageIfDue :: "instant \<Rightarrow> Message \<Rightarrow> Message" where
  "expireMessageIfDue now msg =
     (if Msg_Status msg \<noteq> MessagePending \<or> Msg_ExpiresAt msg = 0 \<or> Msg_ExpiresAt msg > now then msg
      else msg\<lparr>Msg_Status := MessageExpired, Msg_DeliveredAt := now,
               Msg_TerminalReason := (if Msg_TerminalReason msg = [] then ''message expired before delivery''
                                      else Msg_TerminalReason msg)\<rparr>)"

definition trimMessageReason :: "string \<Rightarrow> string" where
  "trimMessageReason reason =
     (let r = TrimSpace reason
      in if length r > maxMessageTerminalReason then take maxMessageTerminalReason r else r)"

definition cmp_message :: "Message \<Rightarrow> Message \<Rightarrow> int" where
  "cmp_message a b =
     (if Msg_CreatedAt a \<noteq> Msg_CreatedAt b then (if Msg_CreatedAt a < Msg_CreatedAt b then -1 else 1)
      else str_cmp (Msg_ID a) (Msg_ID b))"

definition sortMessages :: "Message list \<Rightarrow> Message list" where
  "sortMessages ms = sort_by cmp_message ms"

definition reverseMessages :: "Message list \<Rightarrow> Message list" where
  "reverseMessages ms = rev ms"

text \<open>A loop that expires each entry it visits and stops at the first entry satisfying \<open>P\<close>.\<close>

fun expire_until :: "instant \<Rightarrow> (Message \<Rightarrow> bool) \<Rightarrow> Message gomap \<Rightarrow> bool \<times> Message gomap" where
  "expire_until now P [] = (False, [])"
| "expire_until now P ((k, msg) # ms) =
     (let msg' = expireMessageIfDue now msg
      in if P msg' then (True, (k, msg') # ms)
         else let (hit, ms') = expire_until now P ms in (hit, (k, msg') # ms'))"

definition deliverable :: "string \<Rightarrow> instant \<Rightarrow> Message \<Rightarrow> bool" where
  "deliverable agentID now msg \<longleftrightarrow>
     Msg_ToAgentID msg = agentID \<and> Msg_Status msg = MessagePending \<and> \<not> Msg_NextRetryAt msg > now"

section \<open>Creation and delivery\<close>

definition CreateMessage :: "Message \<Rightarrow> MemoryStore \<Rightarrow> Message res \<times> MemoryStore" where
  "CreateMessage msg s =
     (let now = env_now s in
      case gm_get (agents s) (Msg_ToAgentID msg) of None \<Rightarrow> (Inl ErrNotFound, s)
      | Some target \<Rightarrow>
          let (nid, s1) = NewString s;
              created = msg\<lparr>Msg_ID := nid, Msg_SquadID := Agent_SquadID target,
                 Msg_Payload := (if Msg_Payload msg = [] then ''{}'' else Msg_Payload msg),
                 Msg_Type := (if Msg_Type msg = [] then MessageConsult else Msg_Type msg),
                 Msg_Status := (if Msg_Status msg = [] then MessagePending else Msg_Status msg),
                 Msg_MaxAttempts := (if Msg_MaxAttempts msg \<le> 0 then defaultMessageMaxAttempts else Msg_MaxAttempts msg),
                 Msg_NextRetryAt := (if Msg_NextRetryAt msg = 0 then now else Msg_NextRetryAt msg),
                 Msg_ExpiresAt := (if Msg_ExpiresAt msg = 0 then now + defaultMessageTTL else Msg_ExpiresAt msg),
                 Msg_CreatedAt := now\<rparr>
          in (Inr created, drainPendingAuditsLocked nid (s1\<lparr>messages := gm_put nid created (messages s1)\<rparr>)))"

definition ListPendingMessages :: "string \<Rightarrow> MemoryStore \<Rightarrow> Message list res \<times> MemoryStore" where
  "ListPendingMessages agentID s =
     (case gm_get (agents s) agentID of None \<Rightarrow> (Inl ErrNotFound, s)
      | Some _ \<Rightarrow>
          let now = env_now s; ms = gm_map (expireMessageIfDue now) (messages s)
          in (Inr (sortMessages (filter (deliverable agentID now) (gm_vals ms))), s\<lparr>messages := ms\<rparr>))"

definition HasPendingMessages :: "string \<Rightarrow> MemoryStore \<Rightarrow> bool res \<times> MemoryStore" where
  "HasPendingMessages agentID s =
     (case gm_get (agents s) agentID of None \<Rightarrow> (Inl ErrNotFound, s)
      | Some _ \<Rightarrow>
          let (hit, ms) = expire_until (env_now s)
                (\<lambda>msg. Msg_ToAgentID msg = agentID \<and> Msg_Status msg = MessagePending) (messages s)
          in (Inr hit, s\<lparr>messages := ms\<rparr>))"

definition hasReadyWorkLocked :: "string \<Rightarrow> instant \<Rightarrow> MemoryStore \<Rightarrow> bool res \<times> MemoryStore" where
  "hasReadyWorkLocked agentID now s =
     (case gm_get (agents s) agentID of None \<Rightarrow> (Inl ErrNotFound, s)
      | Some _ \<Rightarrow>
          if list_ex (\<lambda>t. Task_AssigneeAgentID t = agentID \<and>
                          (Task_Status t = TaskTodo \<or> Task_Status t = TaskInProgress)) (gm_vals (tasks s))
          then (Inr True, s)
          else let (hit, ms) = expire_until now (deliverable agentID now) (messages s)
               in (Inr hit, s\<lparr>messages := ms\<rparr>))"

definition after_reset :: "instant \<Rightarrow> Message \<Rightarrow> bool" where
  "after_reset resetAt msg \<longleftrightarrow> \<not> (resetAt \<noteq> 0 \<and> \<not> Msg_CreatedAt msg > resetAt)"

definition ListAgentMessageHistory :: "string \<Rightarrow> MemoryStore \<Rightarrow> Message list res \<times> MemoryStore" where
  "ListAgentMessageHistory agentID s =
     (case gm_get (agents s) agentID of None \<Rightarrow> (Inl ErrNotFound, s)
      | Some agent \<Rightarrow>
          let ms = gm_map (expireMessageIfDue (env_now s)) (messages s)
          in (Inr (sortMessages (filter (\<lambda>msg. Msg_ToAgentID msg = agentID \<and> after_reset (Agent_ChatResetAt agent) msg)
                     (gm_vals ms))),
              s\<lparr>messages := ms\<rparr>))"

definition CountMessagesByCorrelation :: "string \<Rightarrow> MemoryStore \<Rightarrow> int res" where
  "CountMessagesByCorrelation correlationID s =
     (if TrimSpace correlationID = [] then Inl ErrInvalidInput
      else Inr (int (length (filter (\<lambda>msg. Msg_CorrelationID msg = correlationID) (gm_vals (messages s))))))"

definition ResetAgentChat ::
  "string \<Rightarrow> string \<Rightarrow> string \<Rightarrow> string \<Rightarrow> float64 list \<Rightarrow> string \<Rightarrow> MemoryStore \<Rightarrow> (int \<times> instant) res \<times> MemoryStore" where
  "ResetAgentChat agentID squadID transcript metadata embedding embeddingModel s =
     (case gm_get (agents s) agentID of None \<Rightarrow> (Inl ErrNotFound, s)
      | Some agent \<Rightarrow>
          let resetAt = env_now s;
              archived = length (filter (\<lambda>msg. Msg_ToAgentID msg = agentID \<and> after_reset (Agent_ChatResetAt agent) msg)
                                  (gm_vals (messages s)));
              s1 = (if archived > 0
                    then let (nid, s') = NewString s;
                             mem = \<lparr>Mem_ID = nid, Mem_AgentID = agentID, Mem_SquadID = squadID, Mem_Content = transcript,
                                    Mem_RawContent = [], Mem_TrustLevel = ''distilled'', Mem_Provenance = ''chat_reset'',
                                    Mem_ReviewStatus = ''approved'', Mem_Embedding = embedding,
                                    Mem_EmbeddingModel = embeddingModel, Mem_SourceTaskID = [],
                                    Mem_Metadata = (if metadata = [] then ''{}'' else metadata), Mem_CreatedAt = resetAt\<rparr>
                         in s'\<lparr>agentMemory := gm_put nid mem (agentMemory s')\<rparr>
                    else s)
          in (Inr (int archived, resetAt),
              s1\<lparr>agents := gm_put agentID (agent\<lparr>Agent_ChatResetAt := resetAt\<rparr>) (agents s1)\<rparr>))"

section \<open>Acknowledgement, failure, cancellation\<close>

definition AckMessage :: "string \<Rightarrow> string \<Rightarrow> MemoryStore \<Rightarrow> Message res \<times> MemoryStore" where
  "AckMessage agentID messageID s =
     (case gm_get (messages s) messageID of None \<Rightarrow> (Inl ErrNotFound, s)
      | Some msg \<Rightarrow>
          if Msg_ToAgentID msg \<noteq> agentID then (Inl ErrNotFound, s)
          else let msg' = (if Msg_Status msg = MessagePending
                           then msg\<lparr>Msg_Status := MessageDelivered, Msg_DeliveredAt := env_now s\<rparr> else msg)
               in (Inr msg', drainPendingAuditsLocked messageID (s\<lparr>messages := gm_put messageID msg' (messages s)\<rparr>)))"

definition UpdateMessagePayload :: "string \<Rightarrow> string \<Rightarrow> string \<Rightarrow> MemoryStore \<Rightarrow> Message res \<times> MemoryStore" where
  "UpdateMessagePayload messageID payload status s =
     (case gm_get (messages s) messageID of None \<Rightarrow> (Inl ErrNotFound, s)
      | Some msg \<Rightarrow>
          let m1 = msg\<lparr>Msg_Payload := payload, Msg_Status := status\<rparr>;
              m2 = (if status = MessageDelivered \<and> Msg_DeliveredAt m1 = 0
                    then m1\<lparr>Msg_DeliveredAt := env_now s\<rparr> else m1)
          in (Inr m2, drainPendingAuditsLocked messageID (s\<lparr>messages := gm_put messageID m2 (messages s)\<rparr>)))"

definition fail_message :: "instant \<Rightarrow> string \<Rightarrow> Message \<Rightarrow> Message" where
  "fail_message now reason msg =
     (if Msg_Status msg \<noteq> MessagePending then msg
      else let m1 = msg\<lparr>Msg_Attempts := Msg_Attempts msg + 1,
                         Msg_MaxAttempts := (if Msg_MaxAttempts msg \<le> 0 then defaultMessageMaxAttempts
                                             else Msg_MaxAttempts msg)\<rparr>
           in if Msg_Attempts m1 \<ge> Msg_MaxAttempts m1
              then m1\<lparr>Msg_Status := MessageDead, Msg_DeliveredAt := now,
                      Msg_TerminalReason := (if trimMessageReason reason = [] then ''retry attempts exhausted''
                                             else trimMessageReason reason)\<rparr>
              else m1\<lparr>Msg_NextRetryAt := now + defaultMessageRetryDelay\<rparr>)"

definition FailMessage :: "string \<Rightarrow> string \<Rightarrow> string \<Rightarrow> MemoryStore \<Rightarrow> Message res \<times> MemoryStore" where
  "FailMessage agentID messageID reason s =
     (case gm_get (messages s) messageID of None \<Rightarrow> (Inl ErrNotFound, s)
      | Some msg \<Rightarrow>
          if Msg_ToAgentID msg \<noteq> agentID then (Inl ErrNotFound, s)
          else let now = env_now s; msg' = fail_message now reason (expireMessageIfDue now msg);
                   s1 = drainPendingAuditsLocked messageID s
               in (Inr msg', s1\<lparr>messages := gm_put messageID msg' (messages s1)\<rparr>))"

definition agentRepliedToLocked :: "string \<Rightarrow> MemoryStore \<Rightarrow> bool" where
  "agentRepliedToLocked userMessageID s =
     list_ex (\<lambda>msg. Msg_FromType msg = ''agent'' \<and> Msg_CorrelationID msg = userMessageID) (gm_vals (messages s))"

definition cancelableChatTurnLocked :: "Message \<Rightarrow> string \<Rightarrow> instant \<Rightarrow> MemoryStore \<Rightarrow> bool" where
  "cancelableChatTurnLocked msg agentID resetAt s \<longleftrightarrow>
     \<not> (Msg_ToAgentID msg \<noteq> agentID \<or> Msg_FromType msg \<noteq> ''user'') \<and>
     \<not> (Msg_Status msg \<noteq> MessagePending \<and> Msg_Status msg \<noteq> MessageDelivered) \<and>
     after_reset resetAt msg \<and> \<not> agentRepliedToLocked (Msg_ID msg) s"

definition CancelChatTurn :: "string \<Rightarrow> MemoryStore \<Rightarrow> Message res \<times> MemoryStore" where
  "CancelChatTurn agentID s =
     (case gm_get (agents s) agentID of None \<Rightarrow> (Inl ErrNotFound, s)
      | Some agent \<Rightarrow>
          case pick_best (key_greater (\<lambda>p. Msg_CreatedAt (snd p)))
                 (filter (\<lambda>p. cancelableChatTurnLocked (snd p) agentID (Agent_ChatResetAt agent) s) (messages s)) of
            None \<Rightarrow> (Inl ErrNotFound, s)
          | Some (k, live) \<Rightarrow>
              let live' = live\<lparr>Msg_Status := MessageCancelled, Msg_TerminalReason := ''cancelled by user''\<rparr>
              in (Inr live', s\<lparr>messages := gm_put k live' (messages s)\<rparr>))"

definition GetMessage :: "string \<Rightarrow> MemoryStore \<Rightarrow> Message res" where
  "GetMessage messageID s = (case gm_get (messages s) messageID of None \<Rightarrow> Inl ErrNotFound | Some msg \<Rightarrow> Inr msg)"

section \<open>The inbox snapshot and the dead letters\<close>

definition clampInboxLimit :: "int \<Rightarrow> int" where
  "clampInboxLimit limit = (if limit \<le> 0 then 50 else if limit > 200 then 200 else limit)"

definition append_below :: "int \<Rightarrow> Message \<Rightarrow> Message list \<Rightarrow> Message list" where
  "append_below limit msg ms = (if int (length ms) < limit then ms @ [msg] else ms)"

definition bucketAgentInboxMessage :: "int \<Rightarrow> Message \<Rightarrow> AgentInboxSnapshot \<Rightarrow> AgentInboxSnapshot" where
  "bucketAgentInboxMessage limit msg snap =
     (if Msg_Status msg = MessagePending then
        (if Msg_Attempts msg > 0
         then snap\<lparr>Snap_RetryingCount := Snap_RetryingCount snap + 1,
                   Snap_Retrying := append_below limit msg (Snap_Retrying snap)\<rparr>
         else snap\<lparr>Snap_PendingCount := Snap_PendingCount snap + 1,
                   Snap_OldestPendingAt := (case Snap_OldestPendingAt snap of None \<Rightarrow> Some (Msg_CreatedAt msg)
                      | Some t \<Rightarrow> if Msg_CreatedAt msg < t then Some (Msg_CreatedAt msg) else Some t),
                   Snap_Pending := append_below limit msg (Snap_Pending snap)\<rparr>)
      else if Msg_Status msg = MessageDelivered then
        snap\<lparr>Snap_DeliveredCount := Snap_DeliveredCount snap + 1,
             Snap_Delivered := append_below limit msg (Snap_Delivered snap)\<rparr>
      else if Msg_Status msg = MessageDead then
        snap\<lparr>Snap_DeadCount := Snap_DeadCount snap + 1, Snap_Dead := append_below limit msg (Snap_Dead snap)\<rparr>
      else snap)"

definition snap_empty :: AgentInboxSnapshot where
  "snap_empty = \<lparr>Snap_PendingCount = 0, Snap_OldestPendingAt = None, Snap_RetryingCount = 0,
     Snap_DeliveredCount = 0, Snap_DeadCount = 0, Snap_Pending = [], Snap_Retrying = [],
     Snap_Delivered = [], Snap_Dead = []\<rparr>"

definition ListAgentInbox :: "string \<Rightarrow> int \<Rightarrow> MemoryStore \<Rightarrow> AgentInboxSnapshot res \<times> MemoryStore" where
  "ListAgentInbox agentID limit s =
     (case gm_get (agents s) agentID of None \<Rightarrow> (Inl ErrNotFound, s)
      | Some _ \<Rightarrow>
          let lim = clampInboxLimit limit; ms = gm_map (expireMessageIfDue (env_now s)) (messages s);
              snap = fold (bucketAgentInboxMessage lim) (filter (\<lambda>msg. Msg_ToAgentID msg = agentID) (gm_vals ms)) snap_empty
          in (Inr (snap\<lparr>Snap_Pending := sortMessages (Snap_Pending snap),
                        Snap_Retrying := reverseMessages (sortMessages (Snap_Retrying snap)),
                        Snap_Delivered := reverseMessages (sortMessages (Snap_Delivered snap)),
                        Snap_Dead := reverseMessages (sortMessages (Snap_Dead snap))\<rparr>),
              s\<lparr>messages := ms\<rparr>))"

definition ReplayDeadMessage :: "string \<Rightarrow> MemoryStore \<Rightarrow> Message res \<times> MemoryStore" where
  "ReplayDeadMessage messageID s =
     (case gm_get (messages s) messageID of None \<Rightarrow> (Inl ErrNotFound, s)
      | Some msg \<Rightarrow>
          if Msg_Status msg \<noteq> MessageDead then (Inl ErrConflict, s)
          else let now = env_now s;
                   msg' = msg\<lparr>Msg_Status := MessagePending, Msg_Attempts := 0, Msg_NextRetryAt := now,
                              Msg_ExpiresAt := now + defaultMessageTTL, Msg_DeliveredAt := 0,
                              Msg_TerminalReason := []\<rparr>
               in (Inr msg', s\<lparr>messages := gm_put messageID msg' (messages s)\<rparr>))"

definition deadLetterMatches :: "Message \<Rightarrow> DeadLetterFilter \<Rightarrow> string \<Rightarrow> bool" where
  "deadLetterMatches msg f reason \<longleftrightarrow>
     Msg_Status msg = MessageDead \<and>
     \<not> (DLF_SquadID f \<noteq> [] \<and> Msg_SquadID msg \<noteq> DLF_SquadID f) \<and>
     \<not> (DLF_AgentID f \<noteq> [] \<and> Msg_ToAgentID msg \<noteq> DLF_AgentID f) \<and>
     \<not> (DLF_Type f \<noteq> [] \<and> Msg_Type msg \<noteq> DLF_Type f) \<and>
     \<not> (reason \<noteq> [] \<and> \<not> Contains (ToLower (Msg_TerminalReason msg)) reason) \<and>
     (case DLF_Since f of None \<Rightarrow> True | Some t \<Rightarrow> \<not> Msg_CreatedAt msg < t) \<and>
     (case DLF_Until f of None \<Rightarrow> True | Some t \<Rightarrow> \<not> Msg_CreatedAt msg > t)"

definition dead_letter_limit :: "int \<Rightarrow> int" where
  "dead_letter_limit l = (let l1 = (if l \<le> 0 then 100 else l) in if l1 > 500 then 500 else l1)"

definition ListDeadLetters :: "DeadLetterFilter \<Rightarrow> MemoryStore \<Rightarrow> Message list" where
  "ListDeadLetters f s =
     (let reason = ToLower (TrimSpace (DLF_Reason f));
          out = fold (append_below (dead_letter_limit (DLF_Limit f)))
                  (filter (\<lambda>msg. deadLetterMatches msg f reason) (gm_vals (messages s))) []
      in reverseMessages (sortMessages out))"

definition DeleteMessage :: "string \<Rightarrow> MemoryStore \<Rightarrow> unit res \<times> MemoryStore" where
  "DeleteMessage messageID s =
     (case gm_get (messages s) messageID of None \<Rightarrow> (Inl ErrNotFound, s)
      | Some _ \<Rightarrow> (Inr (), s\<lparr>messages := gm_del messageID (messages s)\<rparr>))"

section \<open>The consult timeout sweep\<close>

definition consultThreadID :: "Message \<Rightarrow> string" where
  "consultThreadID msg = (if Msg_CorrelationID msg \<noteq> [] then Msg_CorrelationID msg else Msg_ID msg)"

definition threadHasReplyLocked :: "string \<Rightarrow> string \<Rightarrow> Message gomap \<Rightarrow> bool" where
  "threadHasReplyLocked correlationID responderID ms =
     list_ex (\<lambda>msg. Msg_CorrelationID msg = correlationID \<and> Msg_Type msg = MessageReply \<and>
                    Msg_FromType msg = ''agent'' \<and> Msg_FromID msg = responderID) (gm_vals ms)"

definition consultTimeoutDueLocked :: "Message \<Rightarrow> instant \<Rightarrow> string \<Rightarrow> Message gomap \<Rightarrow> bool" where
  "consultTimeoutDueLocked msg now thread ms \<longleftrightarrow>
     \<not> (Msg_Type msg \<noteq> MessageConsult \<or> Msg_FromType msg \<noteq> ''agent'') \<and>
     \<not> (Msg_TimeoutAt msg = 0 \<or> Msg_TimeoutNotifiedAt msg \<noteq> 0 \<or> Msg_TimeoutAt msg > now) \<and>
     \<not> (Msg_Status msg \<noteq> MessagePending \<and> Msg_Status msg \<noteq> MessageDelivered) \<and>
     \<not> threadHasReplyLocked thread (Msg_ToAgentID msg) ms"

text \<open>The reply body is a JSON document around the consult's id and its formatted send time; the
  formatting of the time (\<^verbatim>\<open>time.RFC3339\<close>) is the parameter \<open>fmt\<close> of the sweep.\<close>

definition consultTimeoutPayload :: "(instant \<Rightarrow> string) \<Rightarrow> Message \<Rightarrow> string" where
  "consultTimeoutPayload fmt consult =
     ''{\"consult_timeout\":true,\"message\":\"[system] Consult '' @ Msg_ID consult @ '' (sent '' @ fmt (Msg_CreatedAt consult) @
     '') got no reply before its deadline. The target agent did not answer in time. You may retry with a different peer, report the timeout to your user, or proceed without an answer.\",\"system_generated\":true,\"timed_out_consult_id\":\"'' @
     Msg_ID consult @ ''\"}''"

definition buildConsultTimeoutReply ::
  "(instant \<Rightarrow> string) \<Rightarrow> string \<Rightarrow> Message \<Rightarrow> string \<Rightarrow> string \<Rightarrow> instant \<Rightarrow> Message" where
  "buildConsultTimeoutReply fmt newID msg squadID thread now =
     Message_zero\<lparr>Msg_ID := newID, Msg_FromType := ''agent'', Msg_FromID := Msg_ToAgentID msg,
       Msg_ToAgentID := Msg_FromID msg, Msg_SquadID := squadID, Msg_Type := MessageReply,
       Msg_Payload := consultTimeoutPayload fmt msg, Msg_Status := MessagePending, Msg_CorrelationID := thread,
       Msg_Attempts := 0, Msg_MaxAttempts := defaultMessageMaxAttempts, Msg_NextRetryAt := now,
       Msg_ExpiresAt := now + defaultMessageTTL, Msg_TerminalReason := consultTimeoutReason, Msg_CreatedAt := now\<rparr>"

text \<open>One iteration of the sweep. The loop ranges over the map while inserting into it; Go may or may
  not visit an inserted entry, and visiting one is a no-op because a reply is never due
  (\<open>reply_never_due\<close> of the laws), so the loop is a fold over the keys present at its start.\<close>

definition sweep_one :: "(instant \<Rightarrow> string) \<Rightarrow> instant \<Rightarrow> string \<Rightarrow> int \<times> MemoryStore \<Rightarrow> int \<times> MemoryStore" where
  "sweep_one fmt now k acc =
     (case acc of (posted, s) \<Rightarrow>
      case gm_get (messages s) k of None \<Rightarrow> (posted, s)
      | Some msg \<Rightarrow>
          let thread = consultThreadID msg in
          if \<not> consultTimeoutDueLocked msg now thread (messages s) then (posted, s)
          else let s1 = s\<lparr>messages := gm_put k (msg\<lparr>Msg_TimeoutNotifiedAt := now\<rparr>) (messages s)\<rparr> in
               case gm_get (agents s) (Msg_FromID msg) of None \<Rightarrow> (posted, s1)
               | Some asker \<Rightarrow>
                   let (nid, s2) = NewString s1;
                       reply = buildConsultTimeoutReply fmt nid (msg\<lparr>Msg_TimeoutNotifiedAt := now\<rparr>)
                                 (Agent_SquadID asker) thread now
                   in (posted + 1, s2\<lparr>messages := gm_put nid reply (messages s2)\<rparr>))"

definition SweepConsultTimeouts :: "(instant \<Rightarrow> string) \<Rightarrow> instant \<Rightarrow> MemoryStore \<Rightarrow> int \<times> MemoryStore" where
  "SweepConsultTimeouts fmt now s = fold (sweep_one fmt now) (map fst (messages s)) (0, s)"

end
