(* ===== verification/Message_Laws.thy ===== *)
theory Message_Laws
  imports Message_Store
begin

text \<open>
  What the message queue guarantees: the exact number of delivery attempts before a message is dead,
  which messages a poll returns, the life cycle of a message over arbitrary runs, replay of dead
  letters, the inbox counters, and that a consult-timeout sweep leaves nothing due.
\<close>

section \<open>Comparison and expiry\<close>

interpretation cmsg: total_cmp cmp_message
proof unfold_locales
  show "cmp_message x y > 0 \<Longrightarrow> cmp_message y x \<le> 0" for x y
    by (auto simp: cmp_message_def str_cmp_def split: if_splits)
  show "cmp_message x y \<le> 0 \<Longrightarrow> cmp_message y z \<le> 0 \<Longrightarrow> cmp_message x z \<le> 0" for x y z
    by (auto simp: cmp_message_def str_cmp_def split: if_splits)
qed

lemma expire_simps [simp]:
  "Msg_ToAgentID (expireMessageIfDue now m) = Msg_ToAgentID m"
  "Msg_ID (expireMessageIfDue now m) = Msg_ID m"
  "Msg_ExpiresAt (expireMessageIfDue now m) = Msg_ExpiresAt m"
  "Msg_NextRetryAt (expireMessageIfDue now m) = Msg_NextRetryAt m"
  "Msg_CreatedAt (expireMessageIfDue now m) = Msg_CreatedAt m"
  by (simp_all add: expireMessageIfDue_def)

lemma expire_alive: "Msg_ExpiresAt m > now \<Longrightarrow> expireMessageIfDue now m = m"
  by (simp add: expireMessageIfDue_def)

lemma expire_pending_iff:
  "Msg_Status (expireMessageIfDue now m) = ''pending'' \<longleftrightarrow>
     Msg_Status m = ''pending'' \<and> (Msg_ExpiresAt m = 0 \<or> Msg_ExpiresAt m > now)"
  by (auto simp: expireMessageIfDue_def)

lemma expire_idem [simp]: "expireMessageIfDue now (expireMessageIfDue now m) = expireMessageIfDue now m"
  by (simp add: expireMessageIfDue_def)

section \<open>The life cycle of a message\<close>

text \<open>The edges of the status automaton. Only a replay leaves \<open>dead\<close>, only a user's message is cancelled, and nothing leaves
  \<open>expired\<close> or \<open>cancelled\<close> but the delegation handler, which marks an agent's delegate or handoff message delivered
  whatever its status.\<close>

definition delegated :: "Message \<Rightarrow> bool" where
  "delegated m \<longleftrightarrow> Msg_FromType m = ''agent'' \<and> (Msg_Type m = MessageDelegate \<or> Msg_Type m = MessageHandoff)"

definition status_edge :: "string \<Rightarrow> string \<Rightarrow> bool" where
  "status_edge a b \<longleftrightarrow> a = b
     \<or> a = MessagePending \<and> b \<in> {MessageDelivered, MessageExpired, MessageDead, MessageCancelled}
     \<or> a = MessageDelivered \<and> b = MessageCancelled
     \<or> a = MessageDead \<and> b = MessagePending"

definition msg_edge :: "Message \<Rightarrow> Message \<Rightarrow> bool" where
  "msg_edge m m' \<longleftrightarrow> Msg_FromType m' = Msg_FromType m \<and> Msg_Type m' = Msg_Type m \<and>
     (delegated m \<and> Msg_Status m' = MessageDelivered \<or>
      status_edge (Msg_Status m) (Msg_Status m') \<and>
        (Msg_Status m' = MessageCancelled \<longrightarrow> Msg_Status m = MessageCancelled \<or> Msg_FromType m = ''user''))"

lemma msg_edge_refl [simp]: "msg_edge m m"
  by (auto simp: msg_edge_def status_edge_def)

lemma msg_edge_same:
  "Msg_FromType m' = Msg_FromType m \<Longrightarrow> Msg_Type m' = Msg_Type m \<Longrightarrow> Msg_Status m' = Msg_Status m \<Longrightarrow> msg_edge l m \<Longrightarrow> msg_edge l m'"
  by (auto simp: msg_edge_def)

definition msg_inv :: "MemoryStore \<Rightarrow> bool" where
  "msg_inv s \<longleftrightarrow> inj (env_uuid s) \<and> gm_wf (messages s) \<and> (\<forall>k m. gm_get (messages s) k = Some m \<longrightarrow> issued s k)"

text \<open>How a method may change the message table: entries move along the edges, disappear, or are
  added under an identifier drawn by this very call.\<close>

definition msg_evolves :: "MemoryStore \<Rightarrow> MemoryStore \<Rightarrow> bool" where
  "msg_evolves s t \<longleftrightarrow> env_uuid t = env_uuid s \<and> env_ctr s \<le> env_ctr t \<and>
     (gm_wf (messages s) \<longrightarrow> gm_wf (messages t)) \<and>
     (\<forall>k m'. gm_get (messages t) k = Some m' \<longrightarrow>
        (\<exists>m. gm_get (messages s) k = Some m \<and> msg_edge m m') \<or>
        (\<exists>n. env_ctr s \<le> n \<and> n < env_ctr t \<and> k = env_uuid s n))"

lemma evolves_inv: "msg_inv s \<Longrightarrow> msg_evolves s t \<Longrightarrow> msg_inv t"
  unfolding msg_inv_def msg_evolves_def issued_def
  by (metis order_less_le_trans)

lemma evolves_same:
  "messages t = messages s \<Longrightarrow> env_uuid t = env_uuid s \<Longrightarrow> env_ctr s \<le> env_ctr t \<Longrightarrow> msg_evolves s t"
  by (auto simp: msg_evolves_def)

lemma evolves_refl [simp]: "msg_evolves s s"
  by (simp add: evolves_same)

lemma evolves_map:
  "messages t = gm_map f (messages s) \<Longrightarrow> env_uuid t = env_uuid s \<Longrightarrow> env_ctr s \<le> env_ctr t \<Longrightarrow>
   (\<And>m. msg_edge m (f m)) \<Longrightarrow> msg_evolves s t"
  by (auto simp: msg_evolves_def)

lemma evolves_put:
  "gm_get (messages s) k = Some m \<Longrightarrow> messages t = gm_put k m' (messages s) \<Longrightarrow> env_uuid t = env_uuid s \<Longrightarrow>
   env_ctr s \<le> env_ctr t \<Longrightarrow> msg_edge m m' \<Longrightarrow> msg_evolves s t"
  by (auto simp: msg_evolves_def)

lemma evolves_new:
  "messages t = gm_put (env_uuid s (env_ctr s)) m' (messages s) \<Longrightarrow> env_uuid t = env_uuid s \<Longrightarrow>
   env_ctr s < env_ctr t \<Longrightarrow> msg_evolves s t"
  by (auto simp: msg_evolves_def)

lemma evolves_del:
  "messages t = gm_del k (messages s) \<Longrightarrow> env_uuid t = env_uuid s \<Longrightarrow> env_ctr s \<le> env_ctr t \<Longrightarrow> msg_evolves s t"
  by (auto simp: msg_evolves_def split: if_splits)

lemma expire_edge: "msg_edge m (expireMessageIfDue now m)"
  by (auto simp: msg_edge_def status_edge_def expireMessageIfDue_def)

lemma fail_edge: "msg_edge m (fail_message now r (expireMessageIfDue now m))"
  by (auto simp: msg_edge_def status_edge_def fail_message_def expireMessageIfDue_def Let_def)

lemma expire_until_keys: "map fst (snd (expire_until now P ms)) = map fst ms"
  by (induction ms) (auto simp: Let_def split: prod.splits)

lemma expire_until_get:
  "gm_get (snd (expire_until now P ms)) k = Some m' \<Longrightarrow>
   \<exists>m. gm_get ms k = Some m \<and> (m' = m \<or> m' = expireMessageIfDue now m)"
  by (induction ms) (auto simp: gm_get_def Let_def split: prod.splits if_splits)

lemma evolves_expire_until:
  assumes "expire_until now P (messages s) = (hit, ms)"
  shows "msg_evolves s (s\<lparr>messages := ms\<rparr>)"
proof -
  have ms: "ms = snd (expire_until now P (messages s))" using assms by simp
  show ?thesis
    using expire_edge unfolding ms
    by (auto simp: msg_evolves_def gm_wf_def expire_until_keys dest!: expire_until_get)
qed

lemma create_evolves: "msg_evolves s (snd (CreateMessage m s))"
  unfolding CreateMessage_def Let_def NewString_def
  by (auto split: option.splits intro!: evolves_new)

lemma list_pending_evolves: "msg_evolves s (snd (ListPendingMessages a s))"
  unfolding ListPendingMessages_def Let_def
  by (auto split: option.splits intro: evolves_map expire_edge)

lemma has_pending_evolves: "msg_evolves s (snd (HasPendingMessages a s))"
  unfolding HasPendingMessages_def
  by (auto split: option.splits prod.splits intro: evolves_expire_until)

lemma ready_evolves: "msg_evolves s (snd (hasReadyWorkLocked a now s))"
  unfolding hasReadyWorkLocked_def
  by (auto split: option.splits prod.splits intro: evolves_expire_until)

lemma history_evolves: "msg_evolves s (snd (ListAgentMessageHistory a s))"
  unfolding ListAgentMessageHistory_def Let_def
  by (auto split: option.splits intro: evolves_map expire_edge)

lemma inbox_evolves: "msg_evolves s (snd (ListAgentInbox a l s))"
  unfolding ListAgentInbox_def Let_def
  by (auto split: option.splits intro: evolves_map expire_edge)

lemma ack_evolves: "msg_evolves s (snd (AckMessage a k s))"
proof (cases "gm_get (messages s) k")
  case (Some m)
  then show ?thesis
    by (auto simp: AckMessage_def Let_def msg_edge_def status_edge_def intro!: evolves_put [OF Some])
qed (simp add: AckMessage_def)

lemma fail_evolves: "msg_evolves s (snd (FailMessage a k r s))"
proof (cases "gm_get (messages s) k")
  case (Some m)
  then show ?thesis
    by (auto simp: FailMessage_def Let_def intro!: evolves_put [OF Some] fail_edge)
qed (simp add: FailMessage_def)

lemma replay_evolves: "msg_evolves s (snd (ReplayDeadMessage k s))"
proof (cases "gm_get (messages s) k")
  case (Some m)
  then show ?thesis
    by (auto simp: ReplayDeadMessage_def Let_def msg_edge_def status_edge_def intro!: evolves_put [OF Some])
qed (simp add: ReplayDeadMessage_def)

lemma delete_evolves: "msg_evolves s (snd (DeleteMessage k s))"
  unfolding DeleteMessage_def by (auto split: option.splits intro!: evolves_del)

lemma cancel_evolves:
  assumes "gm_wf (messages s)" shows "msg_evolves s (snd (CancelChatTurn a s))"
proof (cases "gm_get (agents s) a")
  case (Some ag)
  let ?pick = "pick_best (key_greater (\<lambda>p. Msg_CreatedAt (snd p)))
          (filter (\<lambda>p. cancelableChatTurnLocked (snd p) a (Agent_ChatResetAt ag) s) (messages s))"
  show ?thesis
  proof (cases ?pick)
    case (Some p)
    obtain k m where p: "p = (k, m)" by (cases p)
    have get: "gm_get (messages s) k = Some m" and "cancelableChatTurnLocked m a (Agent_ChatResetAt ag) s"
      using kgreater.pick_Some(1) [OF Some] assms by (auto simp: gm_get_def gm_wf_def p)
    then have edge: "msg_edge m (m\<lparr>Msg_Status := MessageCancelled, Msg_TerminalReason := ''cancelled by user''\<rparr>)"
      by (auto simp: msg_edge_def status_edge_def cancelableChatTurnLocked_def)
    have "snd (CancelChatTurn a s) = s\<lparr>messages := gm_put k (m\<lparr>Msg_Status := MessageCancelled,
        Msg_TerminalReason := ''cancelled by user''\<rparr>) (messages s)\<rparr>"
      using Some \<open>gm_get (agents s) a = Some ag\<close> by (simp add: CancelChatTurn_def p Let_def)
    then show ?thesis using edge by (auto intro: evolves_put [OF get])
  qed (simp add: CancelChatTurn_def Some)
qed (simp add: CancelChatTurn_def)

lemma reset_evolves: "msg_evolves s (snd (ResetAgentChat a q tr md em emm s))"
  unfolding ResetAgentChat_def NewString_def Let_def
  by (auto split: option.splits intro!: evolves_same)

lemma evolves_trans_same_status:
  assumes "msg_evolves s t" and "env_uuid u = env_uuid t" and "env_ctr t \<le> env_ctr u"
    and "gm_wf (messages t) \<Longrightarrow> gm_wf (messages u)"
    and "\<And>k m'. gm_get (messages u) k = Some m' \<Longrightarrow>
        (\<exists>m. gm_get (messages t) k = Some m \<and> Msg_FromType m' = Msg_FromType m \<and> Msg_Type m' = Msg_Type m \<and> Msg_Status m' = Msg_Status m) \<or>
        (\<exists>n. env_ctr t \<le> n \<and> n < env_ctr u \<and> k = env_uuid t n)"
  shows "msg_evolves s u"
  unfolding msg_evolves_def
proof (intro conjI allI impI)
  show "env_uuid u = env_uuid s" "env_ctr s \<le> env_ctr u" using assms(1-3) by (auto simp: msg_evolves_def)
  show "gm_wf (messages s) \<Longrightarrow> gm_wf (messages u)" using assms(1,4) by (auto simp: msg_evolves_def)
  fix k m' assume "gm_get (messages u) k = Some m'"
  from assms(5) [OF this] show "(\<exists>m. gm_get (messages s) k = Some m \<and> msg_edge m m') \<or>
        (\<exists>n. env_ctr s \<le> n \<and> n < env_ctr u \<and> k = env_uuid s n)"
  proof
    assume "\<exists>m. gm_get (messages t) k = Some m \<and> Msg_FromType m' = Msg_FromType m \<and> Msg_Type m' = Msg_Type m \<and> Msg_Status m' = Msg_Status m"
    then show ?thesis using assms(1,3) unfolding msg_evolves_def by (metis order_less_le_trans msg_edge_same)
  next
    assume "\<exists>n. env_ctr t \<le> n \<and> n < env_ctr u \<and> k = env_uuid t n"
    then show ?thesis using assms(1) unfolding msg_evolves_def by (metis order_trans)
  qed
qed

lemma evolves_sweep_one:
  assumes "msg_evolves s t"
  shows "msg_evolves s (snd (sweep_one fmt now k (p, t)))"
proof (cases "gm_get (messages t) k")
  case (Some m)
  show ?thesis
  proof (cases "consultTimeoutDueLocked m now (consultThreadID m) (messages t)")
    case True
    then show ?thesis
      using Some
      by (intro evolves_trans_same_status [OF assms])
         (auto simp: sweep_one_def Let_def NewString_def split: option.splits if_splits)
  qed (use Some assms in \<open>simp add: sweep_one_def Let_def\<close>)
qed (simp add: sweep_one_def assms)

lemma evolves_sweep_fold:
  "msg_evolves s (snd acc) \<Longrightarrow> msg_evolves s (snd (fold (sweep_one fmt now) ks acc))"
proof (induction ks arbitrary: acc)
  case (Cons k ks)
  then have "msg_evolves s (snd (sweep_one fmt now k acc))"
    using evolves_sweep_one [of s "snd acc" fmt now k "fst acc"] by simp
  with Cons.IH show ?case by simp
qed simp

lemma sweep_evolves: "msg_evolves s (snd (SweepConsultTimeouts fmt now s))"
  unfolding SweepConsultTimeouts_def by (rule evolves_sweep_fold) simp

lemma link_evolves:
  assumes "gm_get (messages s) k = Some m" and "delegated m"
  shows "msg_evolves s (snd (UpdateMessagePayload k p MessageDelivered s))"
  using assms by (auto simp: UpdateMessagePayload_def Let_def msg_edge_def intro!: evolves_put [OF assms(1)])

text \<open>The steps of a run of the queue. \<open>UpdateMessagePayload\<close> has one caller, \<^verbatim>\<open>deliverDelegatedMessage\<close>, which marks the
  delegate or handoff message it created earlier in the same request as delivered; other steps may come in between.\<close>

inductive msg_step :: "MemoryStore \<Rightarrow> MemoryStore \<Rightarrow> bool" where
  create: "msg_step s (snd (CreateMessage m s))"
| list_pending: "msg_step s (snd (ListPendingMessages a s))"
| has_pending: "msg_step s (snd (HasPendingMessages a s))"
| ready: "msg_step s (snd (hasReadyWorkLocked a now s))"
| history: "msg_step s (snd (ListAgentMessageHistory a s))"
| reset: "msg_step s (snd (ResetAgentChat a q tr md em emm s))"
| inbox: "msg_step s (snd (ListAgentInbox a l s))"
| ack: "msg_step s (snd (AckMessage a k s))"
| fail: "msg_step s (snd (FailMessage a k r s))"
| cancel: "msg_step s (snd (CancelChatTurn a s))"
| replay: "msg_step s (snd (ReplayDeadMessage k s))"
| delete: "msg_step s (snd (DeleteMessage k s))"
| sweep: "msg_step s (snd (SweepConsultTimeouts fmt now s))"
| link: "gm_get (messages s) k = Some m \<Longrightarrow> delegated m \<Longrightarrow> msg_step s (snd (UpdateMessagePayload k p MessageDelivered s))"
| other: "messages t = messages s \<Longrightarrow> env_uuid t = env_uuid s \<Longrightarrow> env_ctr s \<le> env_ctr t \<Longrightarrow> msg_step s t"

lemma step_evolves: "gm_wf (messages s) \<Longrightarrow> msg_step s t \<Longrightarrow> msg_evolves s t"
  by (erule msg_step.cases)
     (simp_all add: create_evolves list_pending_evolves has_pending_evolves ready_evolves history_evolves
       reset_evolves inbox_evolves ack_evolves fail_evolves cancel_evolves replay_evolves delete_evolves
       sweep_evolves link_evolves [simplified] evolves_same)

definition msg_init :: "MemoryStore \<Rightarrow> bool" where
  "msg_init s \<longleftrightarrow> inj (env_uuid s) \<and> messages s = []"

interpretation msg_machine: state_machine msg_init msg_step msg_inv
proof unfold_locales
  show "msg_init s \<Longrightarrow> msg_inv s" for s by (simp add: msg_init_def msg_inv_def)
  show "msg_inv s \<Longrightarrow> msg_step s t \<Longrightarrow> msg_inv t" for s t
    by (rule evolves_inv, assumption, rule step_evolves) (simp_all add: msg_inv_def)
qed

text \<open>The identifier of a message is never handed out again, so a final status stays until the row is
  pruned.\<close>

definition msg_settled :: "string \<Rightarrow> Message \<Rightarrow> MemoryStore \<Rightarrow> bool" where
  "msg_settled k m0 s \<longleftrightarrow> issued s k \<and>
     (case gm_get (messages s) k of None \<Rightarrow> True
      | Some m \<Rightarrow> Msg_FromType m = Msg_FromType m0 \<and> Msg_Type m = Msg_Type m0 \<and>
          (Msg_Status m = Msg_Status m0 \<or> delegated m0 \<and> Msg_Status m = MessageDelivered))"

lemma msg_settled_edge:
  assumes "msg_edge m m'" and "Msg_FromType m = Msg_FromType m0" and "Msg_Type m = Msg_Type m0"
    and "Msg_Status m = Msg_Status m0 \<or> delegated m0 \<and> Msg_Status m = MessageDelivered"
    and "Msg_Status m0 = MessageExpired \<or> Msg_Status m0 = MessageCancelled"
  shows "Msg_FromType m' = Msg_FromType m0 \<and> Msg_Type m' = Msg_Type m0 \<and>
    (Msg_Status m' = Msg_Status m0 \<or> delegated m0 \<and> Msg_Status m' = MessageDelivered)"
  using assms by (auto simp: msg_edge_def status_edge_def delegated_def)

lemma msg_settled_step:
  assumes "msg_inv s" and "msg_evolves s t" and "msg_settled k m0 s" and "Msg_Status m0 = MessageExpired \<or> Msg_Status m0 = MessageCancelled"
  shows "msg_settled k m0 t"
proof -
  have iss: "issued t k"
    using assms(2,3) unfolding msg_settled_def issued_def msg_evolves_def by (metis order_less_le_trans)
  have "Msg_FromType m' = Msg_FromType m0 \<and> Msg_Type m' = Msg_Type m0 \<and>
      (Msg_Status m' = Msg_Status m0 \<or> delegated m0 \<and> Msg_Status m' = MessageDelivered)" if get: "gm_get (messages t) k = Some m'" for m'
  proof -
    have "\<not> (\<exists>n. env_ctr s \<le> n \<and> n < env_ctr t \<and> k = env_uuid s n)"
      using assms(1,3) unfolding msg_settled_def issued_def msg_inv_def by (metis injD linorder_not_le)
    then obtain m where m: "gm_get (messages s) k = Some m" "msg_edge m m'"
      using assms(2) get unfolding msg_evolves_def by blast
    have "Msg_FromType m = Msg_FromType m0" "Msg_Type m = Msg_Type m0"
        "Msg_Status m = Msg_Status m0 \<or> delegated m0 \<and> Msg_Status m = MessageDelivered"
      using assms(3) m(1) by (simp_all add: msg_settled_def)
    from msg_settled_edge [OF m(2) this assms(4)] show ?thesis .
  qed
  with iss show ?thesis unfolding msg_settled_def by (cases "gm_get (messages t) k") auto
qed

text \<open>C11. A message that has ended stays ended. Over every run of the queue that starts empty, in which the methods come in
  any order and with any arguments, a message that has been expired or cancelled keeps that status for as long as its row
  exists. The one exception is a delegate or handoff message sent by an agent: the handler that created it marks it delivered
  once its task is on the board, also when it expired in between, and then it stays delivered.\<close>

theorem final_message_status_is_permanent:
  assumes "msg_init s0" and "msg_step\<^sup>*\<^sup>* s0 s" and get: "gm_get (messages s) k = Some m"
    and fin: "Msg_Status m = MessageExpired \<or> Msg_Status m = MessageCancelled" and run: "msg_step\<^sup>*\<^sup>* s t"
  shows "gm_get (messages t) k = None \<or>
    (\<exists>m'. gm_get (messages t) k = Some m' \<and> (Msg_Status m' = Msg_Status m \<or> delegated m \<and> Msg_Status m' = MessageDelivered))"
proof -
  have inv: "msg_inv s" using msg_machine.reachable_inv [OF assms(1,2)] .
  have "msg_settled k m s" using inv get by (auto simp: msg_settled_def msg_inv_def)
  with run have "msg_settled k m t \<and> msg_inv t"
  proof (induction rule: rtranclp_induct)
    case base
    then show ?case using inv by simp
  next
    case (step u v)
    then have u: "msg_settled k m u" "msg_inv u" by simp_all
    then have "msg_evolves u v" using step.hyps by (auto simp: msg_inv_def intro: step_evolves)
    with u fin show ?case by (auto intro: msg_settled_step evolves_inv)
  qed
  then show ?thesis by (auto simp: msg_settled_def split: option.splits)
qed

section \<open>Retries\<close>

lemma fail_step_get:
  assumes "gm_get (messages s) k = Some m" and "Msg_ToAgentID m = a" and "t < Msg_ExpiresAt m"
  shows "gm_get (messages (snd (FailMessage a k r (s\<lparr>env_now := t\<rparr>)))) k = Some (fail_message t r m)"
  using assms by (simp add: FailMessage_def expire_alive Let_def)

lemma fail_message_simps [simp]:
  "Msg_ToAgentID (fail_message t r m) = Msg_ToAgentID m"
  "Msg_ExpiresAt (fail_message t r m) = Msg_ExpiresAt m"
  by (simp_all add: fail_message_def Let_def)

lemma fail_message_pending:
  assumes "Msg_Status m = MessagePending" and "0 \<le> Msg_Attempts m" and "Msg_Attempts m < Msg_MaxAttempts m"
  shows "Msg_Attempts (fail_message t r m) = Msg_Attempts m + 1"
    and "Msg_MaxAttempts (fail_message t r m) = Msg_MaxAttempts m"
    and "Msg_Status (fail_message t r m) =
      (if Msg_Attempts m + 1 \<ge> Msg_MaxAttempts m then MessageDead else MessagePending)"
    and "Msg_Attempts m + 1 < Msg_MaxAttempts m \<Longrightarrow> Msg_NextRetryAt (fail_message t r m) = t + defaultMessageRetryDelay"
  using assms by (simp_all add: fail_message_def Let_def)

text \<open>C24. A message is retried exactly as often as its budget says. Reporting \<open>n\<close> failures, at instants
  before the message expires, raises the attempt count by \<open>n\<close>; the message is still pending, with
  its next retry thirty seconds after the last failure, as long as the budget is not used up, and
  it is dead from the failure that uses it up.\<close>

theorem FailMessage_exact_retries:
  assumes "gm_get (messages s) k = Some m" and "Msg_ToAgentID m = a" and "Msg_Status m = MessagePending"
    and "0 \<le> Msg_Attempts m" and "\<forall>t \<in> set ts. t < Msg_ExpiresAt m"
    and "Msg_Attempts m + int (length ts) \<le> Msg_MaxAttempts m" and "Msg_Attempts m < Msg_MaxAttempts m"
  shows "\<exists>m'. gm_get (messages (fold (\<lambda>t s. snd (FailMessage a k r (s\<lparr>env_now := t\<rparr>))) ts s)) k = Some m' \<and>
     Msg_Attempts m' = Msg_Attempts m + int (length ts) \<and>
     Msg_Status m' = (if Msg_Attempts m' = Msg_MaxAttempts m then MessageDead else MessagePending) \<and>
     (ts \<noteq> [] \<and> Msg_Status m' = MessagePending \<longrightarrow> Msg_NextRetryAt m' = last ts + defaultMessageRetryDelay)"
  using assms
proof (induction ts arbitrary: s m)
  case Nil
  then show ?case by auto
next
  case (Cons t ts)
  let ?s = "snd (FailMessage a k r (s\<lparr>env_now := t\<rparr>))" and ?m = "fail_message t r m"
  note f = fail_message_pending [OF Cons.prems(3,4,7), of t r]
  have get: "gm_get (messages ?s) k = Some ?m" using fail_step_get Cons.prems(1,2,5) by simp
  show ?case
  proof (cases "Msg_Attempts m + 1 < Msg_MaxAttempts m")
    case True
    then have "Msg_Status ?m = MessagePending" "Msg_NextRetryAt ?m = t + defaultMessageRetryDelay" using f by simp_all
    with True f Cons.prems Cons.IH [OF get] show ?thesis by (cases "ts = []") (auto simp: get algebra_simps)
  next
    case False
    moreover have "Msg_Attempts m + 1 + int (length ts) \<le> Msg_MaxAttempts m" using Cons.prems(6) by simp
    ultimately have "length ts = 0" by linarith
    then have "ts = []" by simp
    then show ?thesis using False f Cons.prems(6,7) by (auto simp: get)
  qed
qed

section \<open>Delivery\<close>

lemma deliverable_expire:
  "deliverable a now (expireMessageIfDue now m) \<longleftrightarrow>
     deliverable a now m \<and> (Msg_ExpiresAt m = 0 \<or> Msg_ExpiresAt m > now)"
  by (auto simp: deliverable_def expire_pending_iff)

lemma expire_untouched: "Msg_ExpiresAt m = 0 \<or> Msg_ExpiresAt m > now \<Longrightarrow> expireMessageIfDue now m = m"
  by (auto simp: expireMessageIfDue_def)

lemma filter_deliverable_expired:
  "filter (deliverable a now) (map (expireMessageIfDue now) ms) =
   filter (\<lambda>m. deliverable a now m \<and> (Msg_ExpiresAt m = 0 \<or> Msg_ExpiresAt m > now)) ms"
  by (induction ms) (auto simp: deliverable_expire expire_untouched)

text \<open>A poll returns exactly the pending messages of the agent that have not expired and whose retry
  delay has passed, each once, oldest first; and it leaves no overdue pending message behind.\<close>

theorem ListPendingMessages_delivers_exactly:
  assumes "gm_get (agents s) a \<noteq> None"
  shows "\<exists>ms s'. ListPendingMessages a s = (Inr ms, s') \<and>
     mset ms = mset (filter (\<lambda>m. Msg_ToAgentID m = a \<and> Msg_Status m = MessagePending \<and>
        Msg_NextRetryAt m \<le> env_now s \<and> (Msg_ExpiresAt m = 0 \<or> env_now s < Msg_ExpiresAt m)) (gm_vals (messages s))) \<and>
     sorted_wrt (\<lambda>m n. Msg_CreatedAt m \<le> Msg_CreatedAt n) ms \<and>
     \<not> list_ex (\<lambda>m. Msg_Status m = MessagePending \<and> Msg_ExpiresAt m \<noteq> 0 \<and> Msg_ExpiresAt m \<le> env_now s)
         (gm_vals (messages s'))"
proof -
  let ?f = "\<lambda>m. deliverable a (env_now s) m \<and> (Msg_ExpiresAt m = 0 \<or> Msg_ExpiresAt m > env_now s)"
  let ?ms = "sortMessages (filter ?f (gm_vals (messages s)))"
  let ?s' = "s\<lparr>messages := gm_map (expireMessageIfDue (env_now s)) (messages s)\<rparr>"
  have "ListPendingMessages a s = (Inr ?ms, ?s')"
    using assms by (auto simp: ListPendingMessages_def Let_def filter_deliverable_expired)
  moreover have "sorted_wrt (\<lambda>m n. Msg_CreatedAt m \<le> Msg_CreatedAt n) ?ms"
    unfolding sortMessages_def
    by (rule sorted_wrt_mono_rel [OF _ cmsg.sorted_sort_by])
       (auto simp: cmp_message_def str_cmp_def split: if_splits)
  moreover have "mset ?ms = mset (filter (\<lambda>m. Msg_ToAgentID m = a \<and> Msg_Status m = MessagePending \<and>
        Msg_NextRetryAt m \<le> env_now s \<and> (Msg_ExpiresAt m = 0 \<or> env_now s < Msg_ExpiresAt m)) (gm_vals (messages s)))"
    by (simp add: sortMessages_def deliverable_def not_less conj_assoc)
  moreover have "\<not> list_ex (\<lambda>m. Msg_Status m = MessagePending \<and> Msg_ExpiresAt m \<noteq> 0 \<and> Msg_ExpiresAt m \<le> env_now s)
         (gm_vals (messages ?s'))"
    by (auto simp: list_ex_iff expire_pending_iff)
  ultimately show ?thesis by blast
qed

text \<open>Replaying succeeds exactly on dead letters, and a replayed message is back in the queue: any
  poll of its agent within the next day returns it, with a fresh retry budget; on an error nothing
  changes.\<close>

theorem ReplayDeadMessage_redelivers:
  assumes "gm_wf (messages s)" and "gm_get (messages s) k = Some m" and "gm_get (agents s) (Msg_ToAgentID m) \<noteq> None"
    and "env_now s \<le> t" and "t < env_now s + defaultMessageTTL"
  shows "if Msg_Status m = MessageDead
    then \<exists>m' ms s'. ReplayDeadMessage k s = (Inr m', s') \<and> Msg_ID m' = Msg_ID m \<and> Msg_Attempts m' = 0 \<and>
           fst (ListPendingMessages (Msg_ToAgentID m) (s'\<lparr>env_now := t\<rparr>)) = Inr ms \<and> m' \<in> set ms
    else ReplayDeadMessage k s = (Inl ErrConflict, s)"
proof (cases "Msg_Status m = MessageDead")
  case True
  let ?m' = "m\<lparr>Msg_Status := MessagePending, Msg_Attempts := 0, Msg_NextRetryAt := env_now s,
              Msg_ExpiresAt := env_now s + defaultMessageTTL, Msg_DeliveredAt := 0, Msg_TerminalReason := []\<rparr>"
  let ?s' = "s\<lparr>messages := gm_put k ?m' (messages s)\<rparr>"
  have rep: "ReplayDeadMessage k s = (Inr ?m', ?s')"
    using assms(2) True by (simp add: ReplayDeadMessage_def Let_def)
  have "?m' \<in> set (gm_vals (gm_put k ?m' (messages s)))"
    by (rule gm_get_vals [of _ k]) simp
  then have "?m' \<in> set (filter (\<lambda>m'. deliverable (Msg_ToAgentID m) t m' \<and> (Msg_ExpiresAt m' = 0 \<or> Msg_ExpiresAt m' > t))
      (gm_vals (gm_put k ?m' (messages s))))"
    using assms(4,5) by (simp add: deliverable_def)
  then have "\<exists>ms. fst (ListPendingMessages (Msg_ToAgentID m) (?s'\<lparr>env_now := t\<rparr>)) = Inr ms \<and> ?m' \<in> set ms"
    using assms(3) by (auto simp: ListPendingMessages_def Let_def filter_deliverable_expired sortMessages_def)
  then show ?thesis using rep True by (intro if_P [THEN iffD2]) auto
next
  case False
  then show ?thesis using assms(2) by (simp add: ReplayDeadMessage_def)
qed

section \<open>The consult timeout sweep\<close>

lemma reply_never_due: "Msg_Type m = MessageReply \<Longrightarrow> \<not> consultTimeoutDueLocked m now th ms"
  by (simp add: consultTimeoutDueLocked_def)

definition is_reply_in :: "string \<Rightarrow> string \<Rightarrow> Message \<Rightarrow> bool" where
  "is_reply_in th r m \<longleftrightarrow> Msg_CorrelationID m = th \<and> Msg_Type m = MessageReply \<and>
     Msg_FromType m = ''agent'' \<and> Msg_FromID m = r"

lemma is_reply_notified [simp]: "is_reply_in th r (m\<lparr>Msg_TimeoutNotifiedAt := n\<rparr>) = is_reply_in th r m"
  by (simp add: is_reply_in_def)

lemma thread_reply_iff:
  "gm_wf ms \<Longrightarrow> threadHasReplyLocked th r ms \<longleftrightarrow> (\<exists>k m. gm_get ms k = Some m \<and> is_reply_in th r m)"
  unfolding threadHasReplyLocked_def list_ex_iff is_reply_in_def [symmetric] by (meson gm_vals_iff)

text \<open>An entry that is not due for a timeout notice, in the store it is in.\<close>

definition due_at :: "instant \<Rightarrow> MemoryStore \<Rightarrow> Message \<Rightarrow> bool" where
  "due_at now s m = consultTimeoutDueLocked m now (consultThreadID m) (messages s)"

definition calm :: "instant \<Rightarrow> MemoryStore \<Rightarrow> string \<Rightarrow> bool" where
  "calm now s k \<longleftrightarrow> (\<forall>m. gm_get (messages s) k = Some m \<longrightarrow> \<not> due_at now s m)"

definition timeout_notice :: "Message \<Rightarrow> bool" where
  "timeout_notice m \<longleftrightarrow> Msg_Type m = MessageReply \<and> Msg_Status m = MessagePending \<and>
     Msg_TerminalReason m = consultTimeoutReason"

lemma notice_not_due: "timeout_notice m \<Longrightarrow> \<not> due_at now s m"
  by (simp add: timeout_notice_def due_at_def reply_never_due)

lemma notified_not_due: "now \<noteq> 0 \<Longrightarrow> \<not> due_at now s (m\<lparr>Msg_TimeoutNotifiedAt := now\<rparr>)"
  by (simp add: due_at_def consultTimeoutDueLocked_def)

lemma due_antimono:
  assumes "\<And>th r. threadHasReplyLocked th r (messages s) \<Longrightarrow> threadHasReplyLocked th r (messages t)"
    and "due_at now t m"
  shows "due_at now s m"
  using assms by (auto simp: due_at_def consultTimeoutDueLocked_def)

lemma sweep_one_calm_id: "calm now s k \<Longrightarrow> sweep_one fmt now k (p, s) = (p, s)"
  by (auto simp: sweep_one_def calm_def due_at_def Let_def split: option.splits)

text \<open>What one iteration on a due entry does: it marks the entry and, unless the asker is gone, posts a
  notice under a new identifier.\<close>

definition mark_notified :: "instant \<Rightarrow> string \<Rightarrow> Message \<Rightarrow> Message gomap \<Rightarrow> Message gomap" where
  "mark_notified now k m ms = gm_put k (m\<lparr>Msg_TimeoutNotifiedAt := now\<rparr>) ms"

lemma sweep_one_due:
  assumes "gm_get (messages s) k = Some m" and "due_at now s m"
  shows "sweep_one fmt now k (p, s) = (p, s\<lparr>messages := mark_notified now k m (messages s)\<rparr>) \<or>
    (\<exists>r. timeout_notice r \<and> sweep_one fmt now k (p, s) =
        (p + 1, s\<lparr>env_ctr := Suc (env_ctr s),
                  messages := gm_put (env_uuid s (env_ctr s)) r (mark_notified now k m (messages s))\<rparr>))"
proof (cases "gm_get (agents s) (Msg_FromID m)")
  case None
  then show ?thesis using assms by (simp add: sweep_one_def Let_def due_at_def mark_notified_def)
next
  case (Some asker)
  then show ?thesis
    using assms
    by (intro disjI2 exI [of _ "buildConsultTimeoutReply fmt (env_uuid s (env_ctr s)) (m\<lparr>Msg_TimeoutNotifiedAt := now\<rparr>)
          (Agent_SquadID asker) (consultThreadID m) now"])
       (simp add: sweep_one_def Let_def NewString_def buildConsultTimeoutReply_def due_at_def timeout_notice_def
         mark_notified_def)
qed

lemma thread_reply_marked:
  assumes "gm_wf ms" and "gm_get ms k = Some m" and "threadHasReplyLocked th r ms"
  shows "threadHasReplyLocked th r (mark_notified now k m ms)"
proof -
  obtain j u where j: "gm_get ms j = Some u" "is_reply_in th r u" using assms by (auto simp: thread_reply_iff)
  have "\<exists>v. gm_get (mark_notified now k m ms) j = Some v \<and> is_reply_in th r v"
    using j assms(2) by (cases "j = k") (auto simp: mark_notified_def)
  moreover have "gm_wf (mark_notified now k m ms)" using assms(1) by (simp add: mark_notified_def)
  ultimately show ?thesis by (auto simp: thread_reply_iff)
qed

lemma thread_reply_fresh:
  assumes "gm_wf ms" and "gm_get ms k = None" and "threadHasReplyLocked th r ms"
  shows "threadHasReplyLocked th r (gm_put k m ms)"
proof -
  obtain j u where "gm_get ms j = Some u" "is_reply_in th r u" using assms by (auto simp: thread_reply_iff)
  then have "gm_get (gm_put k m ms) j = Some u" "is_reply_in th r u" using assms(2) by auto
  then show ?thesis using assms(1) by (auto simp: thread_reply_iff simp del: gm_lookup)
qed

lemma inv_fresh: "msg_inv s \<Longrightarrow> gm_get (messages s) (env_uuid s (env_ctr s)) = None"
  unfolding msg_inv_def issued_def by (metis injD less_irrefl not_None_eq)

text \<open>The two things a sweep iteration keeps: entries that are not due stay so, and the entry it
  handles is not due afterwards.\<close>

lemma sweep_one_calm:
  assumes inv: "msg_inv s" and now: "now \<noteq> 0" and st: "sweep_one fmt now k (p, s) = (p', t)"
  shows "calm now t k \<and> (calm now s j \<longrightarrow> calm now t j)"
proof (cases "calm now s k")
  case True
  then show ?thesis using st by (simp add: sweep_one_calm_id)
next
  case False
  then obtain m where m: "gm_get (messages s) k = Some m" "due_at now s m" by (auto simp: calm_def)
  have wf: "gm_wf (messages s)" using inv by (simp add: msg_inv_def)
  let ?ms1 = "mark_notified now k m (messages s)" and ?u = "env_uuid s (env_ctr s)"
  have ku: "k \<noteq> ?u" using m(1) inv_fresh [OF inv] by auto
  have fr1: "gm_get ?ms1 ?u = None" using inv_fresh [OF inv] ku by (simp add: mark_notified_def)
  have wf1: "gm_wf ?ms1" using wf by (simp add: mark_notified_def)
  note mark = thread_reply_marked [OF wf m(1)]
  from sweep_one_due [OF m, of fmt p] st consider
      (marked) "messages t = ?ms1" | (posted) r where "messages t = gm_put ?u r ?ms1" "timeout_notice r" by auto
  then show ?thesis
  proof cases
    case marked
    have "due_at now t u \<Longrightarrow> due_at now s u" for u
      by (rule due_antimono [of s t]) (simp_all add: marked mark)
    then show ?thesis
      using notified_not_due [OF now] by (auto simp: calm_def marked mark_notified_def split: if_splits)
  next
    case posted
    have "due_at now t u \<Longrightarrow> due_at now s u" for u
      by (rule due_antimono [of s t]) (simp_all add: posted mark thread_reply_fresh [OF wf1 fr1])
    then show ?thesis
      using notified_not_due [OF now] notice_not_due [OF posted(2)] ku
      by (auto simp: calm_def posted(1) mark_notified_def split: if_splits)
  qed
qed

lemma sweep_one_inv: "msg_inv s \<Longrightarrow> sweep_one fmt now k (p, s) = (p', t) \<Longrightarrow> msg_inv t"
  using evolves_inv [OF _ evolves_sweep_one [OF evolves_refl], of s fmt now k p] by simp

lemma sweep_fold_calm:
  assumes "msg_inv s" and "now \<noteq> 0" and "fold (sweep_one fmt now) ks (p, s) = (p', t)"
  shows "(\<forall>k \<in> set ks. calm now t k) \<and> (\<forall>j. calm now s j \<longrightarrow> calm now t j)"
  using assms(1,3)
proof (induction ks arbitrary: p s)
  case (Cons k ks)
  obtain p1 s1 where st: "sweep_one fmt now k (p, s) = (p1, s1)" by (cases "sweep_one fmt now k (p, s)")
  have "msg_inv s1" using sweep_one_inv [OF Cons.prems(1) st] .
  with Cons.IH [of s1 p1] Cons.prems(2) st sweep_one_calm [OF Cons.prems(1) assms(2) st] show ?case by simp
qed simp

lemma length_gm_put: "length (gm_put k v m) = (if gm_get m k = None then Suc (length m) else length m)"
  by (induction m) (auto simp: gm_get_def)

definition only_notices_added :: "MemoryStore \<Rightarrow> MemoryStore \<Rightarrow> bool" where
  "only_notices_added s t \<longleftrightarrow> (\<forall>k m'. gm_get (messages s) k = None \<longrightarrow> gm_get (messages t) k = Some m' \<longrightarrow> timeout_notice m')"

lemma sweep_one_count:
  assumes inv: "msg_inv s" and st: "sweep_one fmt now k (p, s) = (p', t)" and base: "only_notices_added s0 s"
  shows "int (length (messages t)) = int (length (messages s)) + (p' - p) \<and> only_notices_added s0 t"
proof (cases "calm now s k")
  case True
  then show ?thesis using st base by (simp add: sweep_one_calm_id)
next
  case False
  then obtain m where m: "gm_get (messages s) k = Some m" "due_at now s m" by (auto simp: calm_def)
  have k0: "gm_get (messages s0) k \<noteq> None"
    using base m notice_not_due [of m now s] by (auto simp: only_notices_added_def)
  have ku: "k \<noteq> env_uuid s (env_ctr s)" using m(1) inv_fresh [OF inv] by auto
  from sweep_one_due [OF m, of fmt p] show ?thesis
    using st base k0 m(1) ku inv_fresh [OF inv]
    by (auto simp: only_notices_added_def mark_notified_def length_gm_put split: if_splits)
qed

lemma sweep_fold_count:
  assumes "msg_inv s" and "fold (sweep_one fmt now) ks (p, s) = (p', t)" and "only_notices_added s0 s"
  shows "int (length (messages t)) = int (length (messages s)) + (p' - p) \<and> only_notices_added s0 t"
  using assms
proof (induction ks arbitrary: p s)
  case (Cons k ks)
  obtain p1 s1 where st: "sweep_one fmt now k (p, s) = (p1, s1)" by (cases "sweep_one fmt now k (p, s)")
  have "msg_inv s1" using sweep_one_inv [OF Cons.prems(1) st] .
  with Cons.IH [of s1 p1] Cons.prems(2) st sweep_one_count [OF Cons.prems(1) st Cons.prems(3)] show ?case by simp
qed simp

lemma sweep_calm_id: "(\<And>k. k \<in> set ks \<Longrightarrow> calm now s k) \<Longrightarrow> fold (sweep_one fmt now) ks (p, s) = (p, s)"
  by (induction ks) (simp_all add: sweep_one_calm_id)

text \<open>One consult-timeout sweep settles everything: afterwards no consult is due at that instant, every
  added row is a pending timeout notice and there is one per reported count, and sweeping again at
  the same instant posts nothing and changes nothing.\<close>

theorem SweepConsultTimeouts_settles:
  assumes "msg_inv s" and "now \<noteq> 0" and "SweepConsultTimeouts fmt now s = (posted, s')"
  shows "\<not> list_ex (\<lambda>m. consultTimeoutDueLocked m now (consultThreadID m) (messages s')) (gm_vals (messages s')) \<and>
         int (length (messages s')) = int (length (messages s)) + posted \<and> only_notices_added s s' \<and>
         SweepConsultTimeouts fmt now s' = (0, s')"
proof -
  note fold = assms(3) [unfolded SweepConsultTimeouts_def]
  have wf': "gm_wf (messages s')"
    using evolves_inv [OF assms(1) sweep_evolves [of s fmt now]] assms(3) by (simp add: msg_inv_def)
  have all: "calm now s' k" for k
  proof (cases "k \<in> set (map fst (messages s))")
    case True
    then show ?thesis using sweep_fold_calm [OF assms(1,2) fold] by blast
  next
    case False
    then have "gm_get (messages s) k = None" by (simp add: gm_get_def map_of_eq_None_iff)
    then have "calm now s k" by (simp add: calm_def)
    then show ?thesis using sweep_fold_calm [OF assms(1,2) fold] by blast
  qed
  have "\<not> due_at now s' m" if "m \<in> set (gm_vals (messages s'))" for m
    using that all wf' by (auto simp: gm_vals_iff calm_def)
  moreover have "only_notices_added s s" by (simp add: only_notices_added_def)
  moreover have "SweepConsultTimeouts fmt now s' = (0, s')"
    unfolding SweepConsultTimeouts_def using all by (rule sweep_calm_id)
  ultimately show ?thesis
    using sweep_fold_count [OF assms(1) fold] by (auto simp: list_ex_iff due_at_def)
qed

section \<open>The inbox snapshot\<close>

lemma bucket_counts:
  "Snap_PendingCount (fold (bucketAgentInboxMessage l) ms snap) =
     Snap_PendingCount snap + int (length (filter (\<lambda>m. Msg_Status m = MessagePending \<and> \<not> Msg_Attempts m > 0) ms))"
  "Snap_RetryingCount (fold (bucketAgentInboxMessage l) ms snap) =
     Snap_RetryingCount snap + int (length (filter (\<lambda>m. Msg_Status m = MessagePending \<and> Msg_Attempts m > 0) ms))"
  "Snap_DeliveredCount (fold (bucketAgentInboxMessage l) ms snap) =
     Snap_DeliveredCount snap + int (length (filter (\<lambda>m. Msg_Status m = MessageDelivered) ms))"
  "Snap_DeadCount (fold (bucketAgentInboxMessage l) ms snap) =
     Snap_DeadCount snap + int (length (filter (\<lambda>m. Msg_Status m = MessageDead) ms))"
  by (induction ms arbitrary: snap) (simp_all add: bucketAgentInboxMessage_def)

lemma bucket_lists:
  "Snap_Pending (fold (bucketAgentInboxMessage l) ms snap) =
     fold (append_below l) (filter (\<lambda>m. Msg_Status m = MessagePending \<and> \<not> Msg_Attempts m > 0) ms) (Snap_Pending snap)"
  "Snap_Retrying (fold (bucketAgentInboxMessage l) ms snap) =
     fold (append_below l) (filter (\<lambda>m. Msg_Status m = MessagePending \<and> Msg_Attempts m > 0) ms) (Snap_Retrying snap)"
  "Snap_Delivered (fold (bucketAgentInboxMessage l) ms snap) =
     fold (append_below l) (filter (\<lambda>m. Msg_Status m = MessageDelivered) ms) (Snap_Delivered snap)"
  "Snap_Dead (fold (bucketAgentInboxMessage l) ms snap) =
     fold (append_below l) (filter (\<lambda>m. Msg_Status m = MessageDead) ms) (Snap_Dead snap)"
  by (induction ms arbitrary: snap) (simp_all add: bucketAgentInboxMessage_def)

text \<open>Appending while below a limit keeps a prefix.\<close>

lemma append_below_take:
  "int (length acc) \<le> l \<Longrightarrow> fold (append_below l) ms acc = take (nat l) (acc @ ms)"
proof (induction ms arbitrary: acc)
  case (Cons m ms)
  show ?case
  proof (cases "int (length acc) < l")
    case True
    then show ?thesis using Cons.IH [of "acc @ [m]"] by (simp add: append_below_def)
  next
    case False
    then have "nat l = length acc" using Cons.prems by simp
    then show ?thesis using False Cons.IH [OF Cons.prems] by (simp add: append_below_def)
  qed
qed simp

lemma clamp_range: "0 < clampInboxLimit l \<and> clampInboxLimit l \<le> 200"
  by (simp add: clampInboxLimit_def)

lemma newest_first:
  "sorted_wrt (\<lambda>m n. Msg_CreatedAt n \<le> Msg_CreatedAt m) (reverseMessages (sortMessages ms))"
  unfolding reverseMessages_def sortMessages_def sorted_wrt_rev
  by (rule sorted_wrt_mono_rel [OF _ cmsg.sorted_sort_by]) (auto simp: cmp_message_def str_cmp_def split: if_splits)

text \<open>The queue snapshot counts every message of the agent in its state after expiry, whatever the
  page size; each listed section has the clamped page size or the whole section, whichever is less,
  and holds only messages of that section, newest first for the dead letters.\<close>

theorem ListAgentInbox_counts:
  assumes "gm_get (agents s) a \<noteq> None"
  shows "\<exists>snap s'. ListAgentInbox a l s = (Inr snap, s') \<and>
     (let own = filter (\<lambda>m. Msg_ToAgentID m = a) (gm_vals (messages s')) in
        Snap_PendingCount snap + Snap_RetryingCount snap = int (length (filter (\<lambda>m. Msg_Status m = MessagePending) own)) \<and>
        Snap_DeliveredCount snap = int (length (filter (\<lambda>m. Msg_Status m = MessageDelivered) own)) \<and>
        Snap_DeadCount snap = int (length (filter (\<lambda>m. Msg_Status m = MessageDead) own)) \<and>
        int (length (Snap_Dead snap)) = min (clampInboxLimit l) (Snap_DeadCount snap) \<and>
        set (Snap_Dead snap) \<subseteq> set (filter (\<lambda>m. Msg_Status m = MessageDead) own)) \<and>
     sorted_wrt (\<lambda>m n. Msg_CreatedAt n \<le> Msg_CreatedAt m) (Snap_Dead snap)"
proof -
  let ?s' = "s\<lparr>messages := gm_map (expireMessageIfDue (env_now s)) (messages s)\<rparr>"
  define own where "own = filter (\<lambda>m. Msg_ToAgentID m = a) (gm_vals (messages ?s'))"
  define raw where "raw = fold (bucketAgentInboxMessage (clampInboxLimit l)) own snap_empty"
  define snap where "snap = raw\<lparr>Snap_Pending := sortMessages (Snap_Pending raw),
     Snap_Retrying := reverseMessages (sortMessages (Snap_Retrying raw)),
     Snap_Delivered := reverseMessages (sortMessages (Snap_Delivered raw)),
     Snap_Dead := reverseMessages (sortMessages (Snap_Dead raw))\<rparr>"
  have res: "ListAgentInbox a l s = (Inr snap, ?s')"
    using assms by (auto simp: ListAgentInbox_def Let_def snap_def raw_def own_def)
  have split: "length (filter (\<lambda>m. Msg_Status m = MessagePending \<and> \<not> Msg_Attempts m > 0) ms) +
      length (filter (\<lambda>m. Msg_Status m = MessagePending \<and> Msg_Attempts m > 0) ms) =
      length (filter (\<lambda>m. Msg_Status m = MessagePending) ms)" for ms
    by (induction ms) auto
  have cnt: "Snap_PendingCount snap + Snap_RetryingCount snap = int (length (filter (\<lambda>m. Msg_Status m = MessagePending) own))"
    using split [of own] by (simp add: snap_def raw_def bucket_counts snap_empty_def)
  have dead: "Snap_Dead raw = take (nat (clampInboxLimit l)) (filter (\<lambda>m. Msg_Status m = MessageDead) own)"
    using append_below_take [of "[]"] clamp_range [of l] by (simp add: raw_def bucket_lists snap_empty_def)
  have len: "int (length (Snap_Dead snap)) = min (clampInboxLimit l) (Snap_DeadCount snap)"
    using clamp_range [of l]
    by (simp add: snap_def dead reverseMessages_def sortMessages_def) (auto simp: raw_def bucket_counts snap_empty_def min_def)
  have sub: "set (Snap_Dead snap) \<subseteq> set (filter (\<lambda>m. Msg_Status m = MessageDead) own)"
    using set_take_subset [of "nat (clampInboxLimit l)" "filter (\<lambda>m. Msg_Status m = MessageDead) own"]
    by (simp add: snap_def dead reverseMessages_def sortMessages_def)
  have ord: "sorted_wrt (\<lambda>m n. Msg_CreatedAt n \<le> Msg_CreatedAt m) (Snap_Dead snap)"
    by (simp add: snap_def newest_first)
  have rest: "Snap_DeliveredCount snap = int (length (filter (\<lambda>m. Msg_Status m = MessageDelivered) own))"
    "Snap_DeadCount snap = int (length (filter (\<lambda>m. Msg_Status m = MessageDead) own))"
    by (simp_all add: snap_def raw_def bucket_counts snap_empty_def)
  from res cnt rest len sub ord show ?thesis unfolding Let_def own_def by blast
qed

section \<open>Witnesses\<close>

definition demo_queue :: MemoryStore where
  "demo_queue = demo_store\<lparr>
     agents := [(''a'', Agent_zero\<lparr>Agent_ID := ''a'', Agent_SquadID := ''q''\<rparr>), (''b'', Agent_zero\<lparr>Agent_ID := ''b''\<rparr>)]\<rparr>"

definition demo_consult :: Message where
  "demo_consult = Message_zero\<lparr>Msg_FromType := ''agent'', Msg_FromID := ''b'', Msg_ToAgentID := ''a'', Msg_TimeoutAt := 2000\<rparr>"

definition demo_sent :: MemoryStore where
  "demo_sent = snd (CreateMessage demo_consult demo_queue)"

definition demo_row :: Message where
  "demo_row = the (gm_get (messages demo_sent) (demo_uuid 0))"

definition demo_dead :: MemoryStore where
  "demo_dead = fold (\<lambda>t s. snd (FailMessage ''a'' (demo_uuid 0) ''boom'' (s\<lparr>env_now := t\<rparr>))) [1001, 1002, 1003] demo_sent"

text \<open>A dead letter is cut off by the page size before the newest-first order is established: with one
  slot and two dead letters the older one can be returned, depending on the iteration order.\<close>

lemma dead_letters_can_miss_newest:
  "\<exists>s f. ListDeadLetters f s = [Message_zero\<lparr>Msg_ID := ''old'', Msg_Status := MessageDead, Msg_CreatedAt := 1\<rparr>] \<and>
     DLF_Limit f = 1 \<and> gm_wf (messages s) \<and>
     gm_get (messages s) ''new'' = Some (Message_zero\<lparr>Msg_ID := ''new'', Msg_Status := MessageDead, Msg_CreatedAt := 2\<rparr>)"
  by (rule exI [of _ "demo_store\<lparr>messages :=
        [(''old'', Message_zero\<lparr>Msg_ID := ''old'', Msg_Status := MessageDead, Msg_CreatedAt := 1\<rparr>),
         (''new'', Message_zero\<lparr>Msg_ID := ''new'', Msg_Status := MessageDead, Msg_CreatedAt := 2\<rparr>)]\<rparr>"],
      rule exI [of _ "\<lparr>DLF_SquadID = [], DLF_AgentID = [], DLF_Type = [], DLF_Reason = [], DLF_Since = None,
        DLF_Until = None, DLF_Limit = 1\<rparr>"]) code_simp

lemma demo_sent_get: "gm_get (messages demo_sent) (demo_uuid 0) = Some demo_row"
  by code_simp

lemma demo_queue_init: "msg_init demo_queue"
  by (simp add: msg_init_def demo_queue_def demo_store_def NewMemoryStore_def)

lemma demo_sent_step: "msg_step demo_queue demo_sent"
  unfolding demo_sent_def by (rule msg_step.create)

theorem FailMessage_exact_retries_witness:
  "\<exists>m'. gm_get (messages demo_dead) (demo_uuid 0) = Some m' \<and> Msg_Attempts m' = 3 \<and> Msg_Status m' = MessageDead"
proof -
  have h: "Msg_ToAgentID demo_row = ''a''" "Msg_Status demo_row = MessagePending" "0 \<le> Msg_Attempts demo_row"
    "\<forall>t \<in> set [1001, 1002, 1003]. t < Msg_ExpiresAt demo_row"
    "Msg_Attempts demo_row + int (length [1001, 1002, 1003 :: int]) \<le> Msg_MaxAttempts demo_row"
    "Msg_Attempts demo_row < Msg_MaxAttempts demo_row" by code_simp+
  have "Msg_MaxAttempts demo_row = 3" "Msg_Attempts demo_row = 0" by code_simp+
  with FailMessage_exact_retries [OF demo_sent_get h, of "''boom''"] show ?thesis
    unfolding demo_dead_def by auto
qed

definition demo_late :: MemoryStore where
  "demo_late = demo_sent\<lparr>env_now := 2 * defaultMessageTTL\<rparr>"

definition demo_expired :: MemoryStore where
  "demo_expired = snd (ListPendingMessages ''a'' demo_late)"

theorem final_message_status_is_permanent_witness:
  "\<exists>m. gm_get (messages (snd (AckMessage ''a'' (demo_uuid 0) demo_expired))) (demo_uuid 0) = Some m \<and>
       Msg_Status m = MessageExpired"
proof -
  have late: "msg_step demo_sent demo_late" by (rule msg_step.other) (simp_all add: demo_late_def)
  have exp: "msg_step demo_late demo_expired" unfolding demo_expired_def by (rule msg_step.list_pending)
  have run: "msg_step\<^sup>*\<^sup>* demo_queue demo_expired"
    using demo_sent_step late exp by (meson converse_rtranclp_into_rtranclp rtranclp.rtrancl_refl)
  have ack: "msg_step\<^sup>*\<^sup>* demo_expired (snd (AckMessage ''a'' (demo_uuid 0) demo_expired))"
    by (rule r_into_rtranclp) (rule msg_step.ack)
  have "map_option (\<lambda>m. (Msg_Status m, delegated m)) (gm_get (messages demo_expired) (demo_uuid 0)) = Some (MessageExpired, False)" by code_simp
  then obtain m where m: "gm_get (messages demo_expired) (demo_uuid 0) = Some m" "Msg_Status m = MessageExpired" "\<not> delegated m" by auto
  have "gm_get (messages (snd (AckMessage ''a'' (demo_uuid 0) demo_expired))) (demo_uuid 0) \<noteq> None" by code_simp
  with final_message_status_is_permanent [OF demo_queue_init run m(1) disjI1 [OF m(2)] ack] m(2,3)
  show ?thesis by auto
qed

text \<open>The exception is real: \<open>UpdateMessagePayload\<close> looks at no status, so a delegate message whose lifetime ends between its
  creation and the link to its task goes from expired to delivered.\<close>

lemma expired_delegation_is_delivered:
  "case CreateMessage (Message_zero\<lparr>Msg_FromType := ''agent'', Msg_ToAgentID := ''a'', Msg_Type := MessageDelegate, Msg_ExpiresAt := 1500\<rparr>) demo_queue of
     (Inl _, _) \<Rightarrow> False
   | (Inr m, s) \<Rightarrow> (let s1 = snd (ListPendingMessages ''a'' (s\<lparr>env_now := 2000\<rparr>)); s2 = snd (UpdateMessagePayload (Msg_ID m) ''{}'' MessageDelivered s1)
       in map_option Msg_Status (gm_get (messages s1) (Msg_ID m)) = Some MessageExpired \<and>
          map_option Msg_Status (gm_get (messages s2) (Msg_ID m)) = Some MessageDelivered)"
  by code_simp

theorem ListPendingMessages_delivers_exactly_witness:
  "gm_get (agents demo_sent) ''a'' \<noteq> None \<and> (\<exists>ms s'. ListPendingMessages ''a'' demo_sent = (Inr ms, s') \<and> mset ms = {#demo_row#})"
proof -
  have a: "gm_get (agents demo_sent) ''a'' \<noteq> None" by code_simp
  have "gm_vals (messages demo_sent) = [demo_row]" "Msg_ToAgentID demo_row = ''a''" "Msg_Status demo_row = ''pending''"
    "Msg_NextRetryAt demo_row \<le> env_now demo_sent" "env_now demo_sent < Msg_ExpiresAt demo_row" by code_simp+
  with ListPendingMessages_delivers_exactly [OF a] a show ?thesis by auto
qed

theorem ReplayDeadMessage_redelivers_witness:
  "\<exists>m' ms s'. ReplayDeadMessage (demo_uuid 0) demo_dead = (Inr m', s') \<and>
     fst (ListPendingMessages ''a'' (s'\<lparr>env_now := 5000\<rparr>)) = Inr ms \<and> m' \<in> set ms"
proof -
  let ?m = "the (gm_get (messages demo_dead) (demo_uuid 0))"
  have h: "gm_wf (messages demo_dead)" "gm_get (messages demo_dead) (demo_uuid 0) = Some ?m"
    "gm_get (agents demo_dead) (Msg_ToAgentID ?m) \<noteq> None" "env_now demo_dead \<le> 5000"
    "5000 < env_now demo_dead + defaultMessageTTL" by code_simp+
  have "Msg_Status ?m = MessageDead" "Msg_ToAgentID ?m = ''a''" by code_simp+
  with ReplayDeadMessage_redelivers [OF h] show ?thesis by auto
qed

theorem SweepConsultTimeouts_settles_witness:
  "\<exists>s'. SweepConsultTimeouts (\<lambda>_. []) 3000 demo_sent = (1, s') \<and> SweepConsultTimeouts (\<lambda>_. []) 3000 s' = (0, s')"
proof -
  have "fst (SweepConsultTimeouts (\<lambda>_. []) 3000 demo_sent) = 1" by code_simp
  then have sw: "SweepConsultTimeouts (\<lambda>_. []) 3000 demo_sent = (1, snd (SweepConsultTimeouts (\<lambda>_. []) 3000 demo_sent))"
    by (metis prod.collapse)
  have inv: "msg_inv demo_sent"
    using msg_machine.reachable_inv [OF demo_queue_init] demo_sent_step by blast
  from SweepConsultTimeouts_settles [OF inv _ sw] sw show ?thesis by auto
qed

theorem ListAgentInbox_counts_witness:
  "\<exists>snap s'. ListAgentInbox ''a'' 0 demo_dead = (Inr snap, s') \<and> int (length (Snap_Dead snap)) = min 50 (Snap_DeadCount snap)"
proof -
  have "gm_get (agents demo_dead) ''a'' \<noteq> None" by code_simp
  from ListAgentInbox_counts [OF this, of 0] show ?thesis by (auto simp: Let_def clampInboxLimit_def)
qed

end
