(* ===== verification/Outbox.thy ===== *)
theory Outbox
  imports Store_State
begin

text \<open>
  The transactional outbox that carries squad and agent changes to Kubernetes (\<^verbatim>\<open>storage/memory.go\<close>:
  \<open>LeaseKubernetesOutbox\<close>, \<open>MarkKubernetesOutboxApplied\<close>, \<open>MarkKubernetesOutboxFailed\<close>,
  \<open>ListKubernetesOutbox\<close>, \<open>LatestAppliedAgentUpsert\<close>), and what a worker can rely on: a batch is the
  oldest ready events, and an event under lease is not handed out again.
\<close>

section \<open>Operations\<close>

definition outbox_ready :: "instant \<Rightarrow> KubernetesOutboxEvent \<Rightarrow> bool" where
  "outbox_ready now e \<longleftrightarrow>
     \<not> (KE_Status e \<noteq> KubernetesOutboxPending \<and> KE_Status e \<noteq> KubernetesOutboxFailed) \<and>
     \<not> (KE_NextAttemptAt e > now \<or> KE_LockedUntil e \<noteq> 0 \<and> KE_LockedUntil e > now)"

definition lease_event :: "instant \<Rightarrow> duration \<Rightarrow> KubernetesOutboxEvent \<Rightarrow> KubernetesOutboxEvent" where
  "lease_event now leaseFor e = e\<lparr>KE_LockedUntil := now + leaseFor, KE_UpdatedAt := now\<rparr>"

definition lease_batch :: "int \<Rightarrow> MemoryStore \<Rightarrow> (string \<times> KubernetesOutboxEvent) list" where
  "lease_batch limit s =
     take (nat (if limit \<le> 0 then 10 else limit))
       (sort_by (cmp_key (\<lambda>p. KE_CreatedAt (snd p))) (filter (\<lambda>p. outbox_ready (env_now s) (snd p)) (k8sOutbox s)))"

definition LeaseKubernetesOutbox ::
  "int \<Rightarrow> duration \<Rightarrow> MemoryStore \<Rightarrow> KubernetesOutboxEvent list \<times> MemoryStore" where
  "LeaseKubernetesOutbox limit leaseFor s =
     (let now = env_now s; batch = lease_batch limit s
      in (map (\<lambda>p. lease_event now leaseFor (snd p)) batch,
          s\<lparr>k8sOutbox := fold (\<lambda>p m. gm_put (fst p) (lease_event now leaseFor (snd p)) m) batch (k8sOutbox s)\<rparr>))"

definition MarkKubernetesOutboxApplied :: "string \<Rightarrow> MemoryStore \<Rightarrow> unit res \<times> MemoryStore" where
  "MarkKubernetesOutboxApplied eid s =
     (case gm_get (k8sOutbox s) eid of None \<Rightarrow> (Inl ErrNotFound, s)
      | Some e \<Rightarrow> (Inr (), s\<lparr>k8sOutbox := gm_put eid (e\<lparr>KE_Status := KubernetesOutboxApplied, KE_LockedUntil := 0,
                                                       KE_UpdatedAt := env_now s\<rparr>) (k8sOutbox s)\<rparr>))"

definition MarkKubernetesOutboxFailed :: "string \<Rightarrow> string \<Rightarrow> duration \<Rightarrow> MemoryStore \<Rightarrow> unit res \<times> MemoryStore" where
  "MarkKubernetesOutboxFailed eid lastError retryAfter s =
     (case gm_get (k8sOutbox s) eid of None \<Rightarrow> (Inl ErrNotFound, s)
      | Some e \<Rightarrow> (Inr (), s\<lparr>k8sOutbox := gm_put eid (e\<lparr>KE_Status := KubernetesOutboxFailed, KE_Attempts := KE_Attempts e + 1,
                                                       KE_LastError := lastError, KE_NextAttemptAt := env_now s + retryAfter,
                                                       KE_LockedUntil := 0, KE_UpdatedAt := env_now s\<rparr>) (k8sOutbox s)\<rparr>))"

definition ListKubernetesOutbox :: "string \<Rightarrow> int \<Rightarrow> MemoryStore \<Rightarrow> KubernetesOutboxEvent list" where
  "ListKubernetesOutbox status limit s =
     take (nat (if limit \<le> 0 then 100 else limit))
       (sort_by (cmp_key KE_CreatedAt) (filter (\<lambda>e. status = [] \<or> KE_Status e = status) (gm_vals (k8sOutbox s))))"

definition LatestAppliedAgentUpsert :: "string \<Rightarrow> MemoryStore \<Rightarrow> KubernetesOutboxEvent res" where
  "LatestAppliedAgentUpsert agentID s =
     (case pick_best (key_greater KE_UpdatedAt)
             (filter (\<lambda>e. KE_AggregateType e = KubernetesAggregateAgent \<and> KE_AggregateID e = agentID \<and>
                          KE_Operation e = KubernetesOpUpsertAgent \<and> KE_Status e = KubernetesOutboxApplied)
               (gm_vals (k8sOutbox s))) of
        None \<Rightarrow> Inl ErrNotFound | Some e \<Rightarrow> Inr e)"

section \<open>Laws\<close>

definition outbox_wf :: "MemoryStore \<Rightarrow> bool" where
  "outbox_wf s \<longleftrightarrow> gm_wf (k8sOutbox s) \<and> (\<forall>k e. gm_get (k8sOutbox s) k = Some e \<longrightarrow> KE_ID e = k)"

lemma distinct_keys_sort_by: "distinct (map f xs) \<Longrightarrow> distinct (map f (sort_by cmp xs))"
  by (metis mset_sort_by mset_map mset_eq_imp_distinct_iff)

lemma batch_props:
  assumes "gm_wf (k8sOutbox s)"
  shows "distinct (map fst (lease_batch limit s))"
    and "p \<in> set (lease_batch limit s) \<Longrightarrow> gm_get (k8sOutbox s) (fst p) = Some (snd p) \<and> outbox_ready (env_now s) (snd p)"
proof -
  have "distinct (map fst (sort_by (cmp_key (\<lambda>p. KE_CreatedAt (snd p)))
      (filter (\<lambda>p. outbox_ready (env_now s) (snd p)) (k8sOutbox s))))"
    using assms by (intro distinct_keys_sort_by) (simp add: gm_wf_def distinct_map_filter)
  then show "distinct (map fst (lease_batch limit s))"
    unfolding lease_batch_def take_map [symmetric] by (rule distinct_take)
  show "gm_get (k8sOutbox s) (fst p) = Some (snd p) \<and> outbox_ready (env_now s) (snd p)"
    if "p \<in> set (lease_batch limit s)"
    using that assms unfolding lease_batch_def gm_wf_def gm_get_def by (auto dest!: in_set_takeD)
qed

lemma fold_put_get:
  "distinct (map fst ps) \<Longrightarrow> gm_get (fold (\<lambda>p m. gm_put (fst p) (f (snd p)) m) ps m) k =
     (case map_of ps k of None \<Rightarrow> gm_get m k | Some v \<Rightarrow> Some (f v))"
proof (induction ps arbitrary: m)
  case (Cons p ps)
  then show ?case
    by (cases p) (auto simp: map_of_eq_None_iff image_iff split: option.splits dest: map_of_SomeD)
qed simp

lemma fold_put_wf: "gm_wf m \<Longrightarrow> gm_wf (fold (\<lambda>p m. gm_put (fst p) (f (snd p)) m) ps m)"
  by (induction ps arbitrary: m) auto

lemma lease_ids:
  assumes "outbox_wf s" and "LeaseKubernetesOutbox limit d s = (es, s')" and "e \<in> set es"
  shows "\<exists>e0. gm_get (k8sOutbox s) (KE_ID e) = Some e0 \<and> outbox_ready (env_now s) e0 \<and> e = lease_event (env_now s) d e0 \<and>
     gm_get (k8sOutbox s') (KE_ID e) = Some e"
proof -
  have wf: "gm_wf (k8sOutbox s)" using assms(1) by (simp add: outbox_wf_def)
  from assms(2,3) obtain p where p: "p \<in> set (lease_batch limit s)" "e = lease_event (env_now s) d (snd p)"
    by (auto simp: LeaseKubernetesOutbox_def Let_def)
  note b = batch_props(2) [OF wf p(1)]
  then have id: "KE_ID e = fst p" using assms(1) p(2) by (simp add: outbox_wf_def lease_event_def)
  have "map_of (lease_batch limit s) (fst p) = Some (snd p)"
    using batch_props(1) [OF wf, of limit] p(1) by simp
  then have "gm_get (k8sOutbox s') (KE_ID e) = Some e"
    using assms(2) fold_put_get [OF batch_props(1) [OF wf, of limit], of "lease_event (env_now s) d"] id p(2)
    by (auto simp: LeaseKubernetesOutbox_def Let_def)
  with b id p(2) show ?thesis by auto
qed

text \<open>A lease hands out a batch of ready events, oldest first: as many as the limit allows or all of
  them, every handed-out event is stored locked until the lease ends, and every ready event left
  out was created no earlier than each one handed out.\<close>

theorem LeaseKubernetesOutbox_batch:
  assumes "outbox_wf s" and "LeaseKubernetesOutbox limit d s = (es, s')"
  shows "length es = min (nat (if limit \<le> 0 then 10 else limit))
                       (length (filter (outbox_ready (env_now s)) (gm_vals (k8sOutbox s)))) \<and>
     sorted_wrt (\<lambda>e f. KE_CreatedAt e \<le> KE_CreatedAt f) es \<and>
     (\<forall>e \<in> set es. gm_get (k8sOutbox s') (KE_ID e) = Some e \<and> KE_LockedUntil e = env_now s + d) \<and>
     (\<forall>f \<in> set (gm_vals (k8sOutbox s)). outbox_ready (env_now s) f \<longrightarrow>
        (\<exists>e \<in> set es. KE_ID e = KE_ID f) \<or> (\<forall>e \<in> set es. KE_CreatedAt e \<le> KE_CreatedAt f))"
proof (intro conjI ballI impI)
  let ?n = "nat (if limit \<le> 0 then 10 else limit)"
  let ?ready = "filter (\<lambda>p. outbox_ready (env_now s) (snd p)) (k8sOutbox s)"
  let ?sorted = "sort_by (cmp_key (\<lambda>p. KE_CreatedAt (snd p))) ?ready"
  have es: "es = map (\<lambda>p. lease_event (env_now s) d (snd p)) (take ?n ?sorted)"
    using assms(2) by (auto simp: LeaseKubernetesOutbox_def Let_def lease_batch_def)
  have "length ?ready = length (filter (outbox_ready (env_now s)) (gm_vals (k8sOutbox s)))"
    by (simp add: gm_vals_def filter_map comp_def)
  then show "length es = min ?n (length (filter (outbox_ready (env_now s)) (gm_vals (k8sOutbox s))))"
    by (simp add: es min.commute)
  have key: "cmp_key (\<lambda>p. KE_CreatedAt (snd p)) p q \<le> 0 \<Longrightarrow> KE_CreatedAt (snd p) \<le> KE_CreatedAt (snd q)"
    for p q :: "string \<times> KubernetesOutboxEvent" by (auto simp: cmp_key_def split: if_splits)
  have "sorted_wrt (\<lambda>p q. KE_CreatedAt (snd p) \<le> KE_CreatedAt (snd q)) (take ?n ?sorted)"
    by (rule sorted_wrt_take [OF sorted_wrt_mono_rel [OF _ ckey.sorted_sort_by]]) (rule key)
  then show "sorted_wrt (\<lambda>e f. KE_CreatedAt e \<le> KE_CreatedAt f) es"
    by (simp add: es sorted_wrt_map lease_event_def)
  show "gm_get (k8sOutbox s') (KE_ID e) = Some e" "KE_LockedUntil e = env_now s + d" if "e \<in> set es" for e
    using lease_ids [OF assms that] by (auto simp: lease_event_def)
  show "(\<exists>e \<in> set es. KE_ID e = KE_ID f) \<or> (\<forall>e \<in> set es. KE_CreatedAt e \<le> KE_CreatedAt f)"
    if f: "f \<in> set (gm_vals (k8sOutbox s))" "outbox_ready (env_now s) f" for f
  proof -
    obtain k where k: "(k, f) \<in> set (k8sOutbox s)" using f(1) by (auto simp: gm_vals_def)
    then have "(k, f) \<in> set ?sorted" using f(2) by simp
    then have "(k, f) \<in> set (take ?n ?sorted) \<or> (k, f) \<in> set (drop ?n ?sorted)"
      by (metis append_take_drop_id Un_iff set_append)
    then show ?thesis
    proof
      assume "(k, f) \<in> set (take ?n ?sorted)"
      then have "lease_event (env_now s) d f \<in> set es" unfolding es by force
      then show ?thesis by (metis KubernetesOutboxEvent.select_convs(1) KubernetesOutboxEvent.surjective
            KubernetesOutboxEvent.update_convs(10,12) lease_event_def)
    next
      assume late: "(k, f) \<in> set (drop ?n ?sorted)"
      have "KE_CreatedAt (snd p) \<le> KE_CreatedAt f" if "p \<in> set (take ?n ?sorted)" for p
        using key [OF ckey.take_sort_by_least [OF that late]] by simp
      then show ?thesis by (auto simp: es lease_event_def)
    qed
  qed
qed

text \<open>C25. A leased event is exclusive: while the lease of the first batch runs, a second batch, whatever
  its limit, shares no event with it.\<close>

theorem LeaseKubernetesOutbox_exclusive:
  assumes "outbox_wf s" and "LeaseKubernetesOutbox limit d s = (es, s1)"
    and "env_now s \<le> t" and "t < env_now s + d" and "0 < env_now s"
    and "LeaseKubernetesOutbox limit' d' (s1\<lparr>env_now := t\<rparr>) = (fs, s2)"
  shows "set (map KE_ID es) \<inter> set (map KE_ID fs) = {}"
proof -
  have wf1: "outbox_wf (s1\<lparr>env_now := t\<rparr>)"
  proof -
    have wf: "gm_wf (k8sOutbox s)" using assms(1) by (simp add: outbox_wf_def)
    have get: "gm_get (k8sOutbox s1) k = (case map_of (lease_batch limit s) k of None \<Rightarrow> gm_get (k8sOutbox s) k
        | Some v \<Rightarrow> Some (lease_event (env_now s) d v))" for k
      using assms(2) fold_put_get [OF batch_props(1) [OF wf, of limit], of "lease_event (env_now s) d"]
      by (auto simp: LeaseKubernetesOutbox_def Let_def)
    have "KE_ID e = k" if "gm_get (k8sOutbox s1) k = Some e" for k e
    proof (cases "map_of (lease_batch limit s) k")
      case None
      then show ?thesis using that assms(1) by (simp add: get outbox_wf_def)
    next
      case (Some v)
      then have "gm_get (k8sOutbox s) k = Some v" using batch_props(2) [OF wf, of "(k, v)"] by (auto dest: map_of_SomeD)
      then show ?thesis using that assms(1) Some by (auto simp: get outbox_wf_def lease_event_def)
    qed
    then show ?thesis
      using assms(2) fold_put_wf [OF wf] by (auto simp: outbox_wf_def LeaseKubernetesOutbox_def Let_def)
  qed
  have False if e: "e \<in> set es" and f: "f \<in> set fs" and id: "KE_ID e = KE_ID f" for e f
  proof -
    have "gm_get (k8sOutbox s1) (KE_ID f) = Some e" "KE_LockedUntil e = env_now s + d"
      using lease_ids [OF assms(1,2) e] id by (auto simp: lease_event_def)
    moreover obtain f0 where "gm_get (k8sOutbox s1) (KE_ID f) = Some f0" "outbox_ready t f0"
      using lease_ids [OF wf1 assms(6) f] by auto
    ultimately show False using assms(4,5,3) by (auto simp: outbox_ready_def)
  qed
  then show ?thesis by fastforce
qed

section \<open>Witnesses\<close>

definition demo_outbox :: MemoryStore where
  "demo_outbox = enqueueSquadOutboxLocked KubernetesOpUpsertSquad Squad_zero
     (enqueueSquadOutboxLocked KubernetesOpDeleteSquad Squad_zero demo_store)"

lemma demo_outbox_wf: "outbox_wf demo_outbox"
proof -
  have "\<forall>p \<in> set (k8sOutbox demo_outbox). KE_ID (snd p) = fst p" and "gm_wf (k8sOutbox demo_outbox)" by code_simp+
  then show ?thesis by (fastforce simp: outbox_wf_def gm_get_def dest: map_of_SomeD)
qed

theorem LeaseKubernetesOutbox_batch_witness:
  "length (fst (LeaseKubernetesOutbox 1 minute demo_outbox)) = 1"
proof -
  have "length (filter (outbox_ready (env_now demo_outbox)) (gm_vals (k8sOutbox demo_outbox))) = 2" by code_simp
  with LeaseKubernetesOutbox_batch [OF demo_outbox_wf prod.collapse [symmetric], of 1 minute] show ?thesis by simp
qed

theorem LeaseKubernetesOutbox_exclusive_witness:
  "set (map KE_ID (fst (LeaseKubernetesOutbox 1 minute demo_outbox))) \<inter>
   set (map KE_ID (fst (LeaseKubernetesOutbox 5 minute ((snd (LeaseKubernetesOutbox 1 minute demo_outbox))\<lparr>env_now := 2000\<rparr>)))) = {}"
proof -
  have "env_now demo_outbox \<le> 2000" "2000 < env_now demo_outbox + minute" "0 < env_now demo_outbox" by code_simp+
  from LeaseKubernetesOutbox_exclusive [OF demo_outbox_wf prod.collapse [symmetric] this prod.collapse [symmetric]]
  show ?thesis .
qed

end
