(* ===== verification/Task_Deps.thy ===== *)
theory Task_Deps
  imports Task_Store
begin

text \<open>
  Task dependencies (\<^verbatim>\<open>storage/memory_task_dependencies.go\<close>): adding and removing depends-on edges with the
  bounded cycle check, the dependency views, the picker search and the per-board blocked counts; and
  how far the cycle check protects the graph.

  A Go set \<^verbatim>\<open>map[string]bool\<close> of depends-on ids is the list of its members.
\<close>

section \<open>Operations\<close>

definition taskDependencyRefLocked :: "string \<Rightarrow> MemoryStore \<Rightarrow> TaskDependencyRef res" where
  "taskDependencyRefLocked taskID s =
     (case gm_get (tasks s) taskID of None \<Rightarrow> Inl ErrNotFound
      | Some t \<Rightarrow> Inr \<lparr>TDR_TaskID = Task_ID t, TDR_TaskNumber = Task_TaskNumber t, TDR_Title = Task_Title t,
                       TDR_Status = Task_Status t, TDR_AssigneeAgentID = Task_AssigneeAgentID t,
                       TDR_Satisfied = (Task_Status t = TaskDone)\<rparr>)"

definition sortTaskDependencyRefs :: "TaskDependencyRef list \<Rightarrow> TaskDependencyRef list" where
  "sortTaskDependencyRefs refs = sort_by (cmp_key TDR_TaskNumber) refs"

text \<open>The breadth-first search: one level scans the successors of every frontier node; \<open>None\<close> is the
  early \<^verbatim>\<open>return true\<close>.\<close>

fun scan_deps :: "string \<Rightarrow> string list \<Rightarrow> string list \<times> string list \<Rightarrow> (string list \<times> string list) option" where
  "scan_deps target [] acc = Some acc"
| "scan_deps target (depID # ds) (visited, next) =
     (if depID = target then None
      else if depID \<in> set visited then scan_deps target ds (visited, next)
      else scan_deps target ds (depID # visited, next @ [depID]))"

fun scan_level :: "(string \<Rightarrow> string list) \<Rightarrow> string \<Rightarrow> string list \<Rightarrow> string list \<times> string list \<Rightarrow> (string list \<times> string list) option" where
  "scan_level deps target [] acc = Some acc"
| "scan_level deps target (i # ids) acc =
     (case scan_deps target (deps i) acc of None \<Rightarrow> None | Some acc' \<Rightarrow> scan_level deps target ids acc')"

fun reach_loop :: "nat \<Rightarrow> (string \<Rightarrow> string list) \<Rightarrow> string \<Rightarrow> string list \<Rightarrow> string list \<Rightarrow> bool" where
  "reach_loop 0 deps target visited frontier = False"
| "reach_loop (Suc n) deps target visited frontier =
     (if frontier = [] then False
      else case scan_level deps target frontier (visited, []) of
             None \<Rightarrow> True
           | Some (visited', next) \<Rightarrow> reach_loop n deps target visited' next)"

definition taskReachesLocked :: "string \<Rightarrow> string \<Rightarrow> MemoryStore \<Rightarrow> bool" where
  "taskReachesLocked from target s = reach_loop 32 (\<lambda>i. deps_of i s) target [from] [from]"

definition AddTaskDependency :: "string \<Rightarrow> string \<Rightarrow> MemoryStore \<Rightarrow> TaskDependencyRef res \<times> MemoryStore" where
  "AddTaskDependency taskID dependsOnID s =
     (if taskID = [] \<or> dependsOnID = [] then (Inl ErrInvalidInput, s)
      else if taskID = dependsOnID then (Inl ErrInvalidInput, s)
      else case gm_get (tasks s) taskID of None \<Rightarrow> (Inl ErrNotFound, s)
      | Some task \<Rightarrow>
        case gm_get (tasks s) dependsOnID of None \<Rightarrow> (Inl ErrNotFound, s)
        | Some dep \<Rightarrow>
          if Task_SquadID task \<noteq> Task_SquadID dep then (Inl ErrInvalidInput, s)
          else if dependsOnID \<in> set (deps_of taskID s) then (Inl ErrDependencyExists, s)
          else if taskReachesLocked dependsOnID taskID s then (Inl ErrDependencyCycle, s)
          else let s1 = s\<lparr>taskDeps := gm_put taskID (deps_of taskID s @ [dependsOnID]) (taskDeps s)\<rparr>
               in (taskDependencyRefLocked dependsOnID s1, s1))"

definition RemoveTaskDependency :: "string \<Rightarrow> string \<Rightarrow> MemoryStore \<Rightarrow> unit res \<times> MemoryStore" where
  "RemoveTaskDependency taskID dependsOnID s =
     (case gm_get (taskDeps s) taskID of None \<Rightarrow> (Inl ErrNotFound, s)
      | Some ds \<Rightarrow>
          if dependsOnID \<in> set ds
          then let ds' = removeAll dependsOnID ds
               in (Inr (), s\<lparr>taskDeps := (if ds' = [] then gm_del taskID (taskDeps s) else gm_put taskID ds' (taskDeps s))\<rparr>)
          else (Inl ErrNotFound, s))"

fun collect_refs :: "string list \<Rightarrow> MemoryStore \<Rightarrow> TaskDependencyRef list res" where
  "collect_refs [] s = Inr []"
| "collect_refs (i # ids) s =
     (case taskDependencyRefLocked i s of Inl e \<Rightarrow> Inl e
      | Inr r \<Rightarrow> (case collect_refs ids s of Inl e \<Rightarrow> Inl e | Inr rs \<Rightarrow> Inr (r # rs)))"

definition ListTaskDependencies :: "string \<Rightarrow> MemoryStore \<Rightarrow> TaskDependencies res" where
  "ListTaskDependencies taskID s =
     (case collect_refs (deps_of taskID s) s of Inl e \<Rightarrow> Inl e
      | Inr on \<Rightarrow>
          case collect_refs (map fst (filter (\<lambda>p. fst p \<noteq> taskID \<and> taskID \<in> set (snd p)) (taskDeps s))) s of
            Inl e \<Rightarrow> Inl e
          | Inr by \<Rightarrow> Inr \<lparr>TD_DependsOn = sortTaskDependencyRefs on, TD_Dependents = sortTaskDependencyRefs by\<rparr>)"

definition UnsatisfiedDependencies :: "string \<Rightarrow> MemoryStore \<Rightarrow> TaskDependencyRef list res" where
  "UnsatisfiedDependencies taskID s =
     (case collect_refs (deps_of taskID s) s of Inl e \<Rightarrow> Inl e
      | Inr rs \<Rightarrow> Inr (sortTaskDependencyRefs (filter (\<lambda>r. \<not> TDR_Satisfied r) rs)))"

definition SearchSquadTasks :: "string \<Rightarrow> string \<Rightarrow> int \<Rightarrow> MemoryStore \<Rightarrow> Task list" where
  "SearchSquadTasks squadID q limit s =
     (let lim = (if limit \<le> 0 \<or> limit > 50 then 20 else limit);
          needle = ToLower (TrimSpace q);
          matches = filter (\<lambda>t. Task_SquadID t = squadID \<and>
             (needle \<noteq> [] \<longrightarrow>
                Contains (ToLower (Task_Title t)) needle \<or>
                EqualFold (''T-'' @ Itoa (Task_TaskNumber t)) needle \<or> Itoa (Task_TaskNumber t) = needle)) (gm_vals (tasks s))
      in take (nat lim) (sort_by (cmp_key (\<lambda>t. - Task_UpdatedAt t)) matches))"

definition open_deps :: "string list \<Rightarrow> MemoryStore \<Rightarrow> string list" where
  "open_deps ds s = filter (\<lambda>d. case gm_get (tasks s) d of None \<Rightarrow> False | Some dep \<Rightarrow> Task_Status dep \<noteq> TaskDone) ds"

definition BlockedCountsByBoard :: "string \<Rightarrow> MemoryStore \<Rightarrow> int gomap" where
  "BlockedCountsByBoard boardID s =
     map (\<lambda>p. (fst p, int (length (open_deps (snd p) s))))
       (filter (\<lambda>p. (case gm_get (tasks s) (fst p) of None \<Rightarrow> False | Some task \<Rightarrow> Task_BoardID task = boardID) \<and>
                    open_deps (snd p) s \<noteq> []) (taskDeps s))"

section \<open>The search finds exactly the paths of at most 32 edges\<close>

definition dep_edge :: "(string \<Rightarrow> string list) \<Rightarrow> (string \<times> string) set" where
  "dep_edge deps = {(a, b). b \<in> set (deps a)}"

lemma scan_deps_None: "scan_deps target ds acc = None \<longleftrightarrow> target \<in> set ds"
  by (induction target ds acc rule: scan_deps.induct) auto

lemma scan_deps_Some:
  "scan_deps target ds (v, n) = Some (v', n') \<Longrightarrow>
   set v' = set v \<union> set ds \<and> set n' = set n \<union> (set ds - set v) \<and> target \<notin> set ds"
  by (induction target ds "(v, n)" arbitrary: v n rule: scan_deps.induct) (auto split: if_splits)

lemma scan_level_None: "scan_level deps target ids acc = None \<longleftrightarrow> (\<exists>i \<in> set ids. target \<in> set (deps i))"
  by (induction ids arbitrary: acc) (auto simp: scan_deps_None split: option.splits dest: scan_deps_Some)

lemma scan_level_Some:
  "scan_level deps target ids (v, n) = Some (v', n') \<Longrightarrow>
   set v' = set v \<union> (\<Union>i \<in> set ids. set (deps i)) \<and>
   set n' = set n \<union> ((\<Union>i \<in> set ids. set (deps i)) - set v)"
proof (induction ids arbitrary: v n)
  case (Cons i ids)
  then obtain v1 n1 where s: "scan_deps target (deps i) (v, n) = Some (v1, n1)" "scan_level deps target ids (v1, n1) = Some (v', n')"
    by (auto split: option.splits)
  from scan_deps_Some [OF s(1)] Cons.IH [OF s(2)] show ?case by auto
qed simp

lemma reach_loop_sound:
  assumes "reach_loop n deps target v f"
  shows "\<exists>a \<in> set f. \<exists>m. 1 \<le> m \<and> m \<le> n \<and> (a, target) \<in> dep_edge deps ^^ m"
  using assms
proof (induction n arbitrary: v f)
  case (Suc n)
  show ?case
  proof (cases "scan_level deps target f (v, [])")
    case None
    then obtain a where "a \<in> set f" "(a, target) \<in> dep_edge deps ^^ 1"
      by (auto simp: scan_level_None dep_edge_def)
    then show ?thesis by (intro bexI [of _ a] exI [of _ 1]) auto
  next
    case (Some p)
    obtain v' f' where p: "p = (v', f')" by (cases p)
    with Suc.prems Some have "reach_loop n deps target v' f'" by (auto split: if_splits)
    from Suc.IH [OF this] obtain b m where b: "b \<in> set f'" "1 \<le> m" "m \<le> n" "(b, target) \<in> dep_edge deps ^^ m" by blast
    then obtain a where "a \<in> set f" "(a, b) \<in> dep_edge deps"
      using scan_level_Some [OF Some [unfolded p]] by (auto simp: dep_edge_def)
    then have "(a, target) \<in> dep_edge deps ^^ Suc m" using b(4) by (meson relpow_Suc_I2)
    then show ?thesis using \<open>a \<in> set f\<close> b(2,3) by (intro bexI [of _ a] exI [of _ "Suc m"]) auto
  qed
qed simp

text \<open>The nodes already left behind lead only to visited nodes, never to the target.\<close>

definition bfs_inv :: "(string \<Rightarrow> string list) \<Rightarrow> string \<Rightarrow> string list \<Rightarrow> string list \<Rightarrow> bool" where
  "bfs_inv deps target v f \<longleftrightarrow> set f \<subseteq> set v \<and>
     (\<forall>a \<in> set v - set f. set (deps a) \<subseteq> set v \<and> target \<notin> set (deps a))"

lemma path_meets_frontier:
  assumes "bfs_inv deps target v f" and "a \<in> set v" and "(a, target) \<in> dep_edge deps ^^ k" and "1 \<le> k"
  shows "\<exists>h \<in> set f. \<exists>m. 1 \<le> m \<and> m \<le> k \<and> (h, target) \<in> dep_edge deps ^^ m"
  using assms(2-4)
proof (induction k arbitrary: a)
  case (Suc k)
  show ?case
  proof (cases "a \<in> set f")
    case True
    then show ?thesis using Suc.prems by blast
  next
    case False
    obtain b where b: "(a, b) \<in> dep_edge deps" "(b, target) \<in> dep_edge deps ^^ k"
      using Suc.prems(2) by (meson relpow_Suc_D2)
    have "b \<in> set v" "b \<noteq> target"
      using assms(1) False Suc.prems(1) b(1) by (auto simp: bfs_inv_def dep_edge_def)
    then have "1 \<le> k" using b(2) by (cases k) auto
    with Suc.IH [OF \<open>b \<in> set v\<close> b(2)] show ?thesis using le_Suc_eq by blast
  qed
qed simp

lemma reach_loop_complete:
  assumes "bfs_inv deps target v f" and "a \<in> set f" and "(a, target) \<in> dep_edge deps ^^ m" and "1 \<le> m" and "m \<le> n"
  shows "reach_loop n deps target v f"
  using assms
proof (induction n arbitrary: v f a m)
  case (Suc n)
  show ?case
  proof (cases "scan_level deps target f (v, [])")
    case None
    then show ?thesis using Suc.prems(2) by auto
  next
    case (Some p)
    obtain v' f' where p: "p = (v', f')" by (cases p)
    note sets = scan_level_Some [OF Some [unfolded p]]
    have notarget: "target \<notin> set (deps i)" if "i \<in> set f" for i
      using Some that scan_level_None [of deps target f "(v, [])"] by auto
    have inv': "bfs_inv deps target v' f'"
      using Suc.prems(1) sets notarget unfolding bfs_inv_def by (auto 4 3)
    obtain m' where m: "m = Suc m'" using Suc.prems(4) by (cases m) auto
    obtain b where b: "(a, b) \<in> dep_edge deps" "(b, target) \<in> dep_edge deps ^^ m'"
      using Suc.prems(3) unfolding m by (meson relpow_Suc_D2)
    have "b \<noteq> target" using notarget [OF Suc.prems(2)] b(1) by (auto simp: dep_edge_def)
    then have m'1: "1 \<le> m'" using b(2) by (cases m') auto
    have "b \<in> set v'" using sets b(1) Suc.prems(2) by (auto simp: dep_edge_def)
    from path_meets_frontier [OF inv' this b(2) m'1] obtain h k where
      "h \<in> set f'" "1 \<le> k" "k \<le> m'" "(h, target) \<in> dep_edge deps ^^ k" by blast
    with Suc.IH [OF inv'] Suc.prems(5) have "reach_loop n deps target v' f'" by (simp add: m)
    then show ?thesis using Some p Suc.prems(2) by auto
  qed
qed simp

definition store_edge :: "MemoryStore \<Rightarrow> (string \<times> string) set" where
  "store_edge s = dep_edge (\<lambda>i. deps_of i s)"

lemma reaches_iff:
  "taskReachesLocked a b s \<longleftrightarrow> (\<exists>n. 1 \<le> n \<and> n \<le> 32 \<and> (a, b) \<in> store_edge s ^^ n)"
proof
  show "taskReachesLocked a b s \<Longrightarrow> \<exists>n. 1 \<le> n \<and> n \<le> 32 \<and> (a, b) \<in> store_edge s ^^ n"
    unfolding taskReachesLocked_def store_edge_def by (drule reach_loop_sound) auto
  assume "\<exists>n. 1 \<le> n \<and> n \<le> 32 \<and> (a, b) \<in> store_edge s ^^ n"
  then obtain n where "1 \<le> n" "n \<le> 32" "(a, b) \<in> store_edge s ^^ n" by blast
  then show "taskReachesLocked a b s"
    unfolding taskReachesLocked_def store_edge_def
    by (intro reach_loop_complete [of _ _ "[a]" "[a]" a n]) (auto simp: bfs_inv_def)
qed

text \<open>The cycle check decides bounded reachability exactly: it answers yes if and only if there is a
  dependency path of at least one and at most 32 edges.\<close>

theorem taskReachesLocked_iff:
  "taskReachesLocked a b s \<longleftrightarrow> (\<exists>n. 1 \<le> n \<and> n \<le> 32 \<and> (a, b) \<in> store_edge s ^^ n)"
  by (rule reaches_iff)

section \<open>Acyclicity\<close>

lemma add_edge:
  "store_edge (snd (AddTaskDependency a b s)) =
     (if isl (fst (AddTaskDependency a b s)) then store_edge s else insert (a, b) (store_edge s))"
  by (auto simp: AddTaskDependency_def taskDependencyRefLocked_def Let_def store_edge_def dep_edge_def deps_of_def
      split: option.splits if_splits)

lemma add_ok_guards:
  "\<not> isl (fst (AddTaskDependency a b s)) \<Longrightarrow> a \<noteq> b \<and> \<not> taskReachesLocked b a s \<and>
     (\<exists>ta tb. gm_get (tasks s) a = Some ta \<and> gm_get (tasks s) b = Some tb \<and> Task_SquadID ta = Task_SquadID tb)"
  by (auto simp: AddTaskDependency_def split: option.splits if_splits)

text \<open>C26. While no dependency chain is longer than 32 edges, the dependency graph stays acyclic: an
  accepted edge joins two different tasks of one squad and closes no cycle, a refused one leaves
  the graph as it was.\<close>

theorem AddTaskDependency_acyclic:
  assumes "acyclic (store_edge s)" and short: "\<And>n. store_edge s ^^ n \<noteq> {} \<Longrightarrow> n \<le> 32"
  shows "acyclic (store_edge (snd (AddTaskDependency a b s))) \<and>
    (if isl (fst (AddTaskDependency a b s)) then store_edge (snd (AddTaskDependency a b s)) = store_edge s
     else store_edge (snd (AddTaskDependency a b s)) = insert (a, b) (store_edge s) \<and>
       (\<exists>ta tb. gm_get (tasks s) a = Some ta \<and> gm_get (tasks s) b = Some tb \<and> Task_SquadID ta = Task_SquadID tb))"
proof (cases "isl (fst (AddTaskDependency a b s))")
  case True
  then show ?thesis using assms(1) by (simp add: add_edge)
next
  case False
  note g = add_ok_guards [OF False]
  have "(b, a) \<notin> (store_edge s)\<^sup>*"
  proof
    assume "(b, a) \<in> (store_edge s)\<^sup>*"
    then obtain n where n: "(b, a) \<in> store_edge s ^^ n" by (auto dest: rtrancl_imp_relpow)
    then have "n \<le> 32" using short by blast
    moreover have "1 \<le> n" using n g by (cases n) auto
    ultimately show False using n g by (auto simp: reaches_iff)
  qed
  then show ?thesis using False assms(1) g by (simp add: add_edge acyclic_insert)
qed

text \<open>A chain of 34 tasks, each depending on the next.\<close>

definition demo_ids :: "string list" where
  "demo_ids = map (\<lambda>c. [c]) ''ABCDEFGHIJKLMNOPQRSTUVWXYZabcdefgh''"

definition demo_chain :: MemoryStore where
  "demo_chain = demo_store\<lparr>
     tasks := map (\<lambda>i. (i, Task_zero\<lparr>Task_ID := i\<rparr>)) demo_ids,
     taskDeps := map (\<lambda>(i, j). (i, [j])) (zip demo_ids (tl demo_ids))\<rparr>"

lemma demo_chain_acyclic: "acyclic (store_edge demo_chain)"
proof -
  have inc: "\<forall>p \<in> set (taskDeps demo_chain). \<forall>b \<in> set (snd p). byte_of (hd (fst p)) < byte_of (hd b)" by code_simp
  have "byte_of (hd a) < byte_of (hd b)" if "(a, b) \<in> store_edge demo_chain" for a b
  proof -
    from that obtain ds where "map_of (taskDeps demo_chain) a = Some ds" "b \<in> set ds"
      by (cases "map_of (taskDeps demo_chain) a") (auto simp: store_edge_def dep_edge_def deps_of_def gm_get_def)
    then show ?thesis using inc by (auto dest!: map_of_SomeD)
  qed
  then have "store_edge demo_chain \<subseteq> inv_image less_than (\<lambda>i. byte_of (hd i))" by auto
  then show ?thesis by (meson acyclic_subset wf_acyclic wf_inv_image wf_less_than)
qed

text \<open>The bound is real: there is a store with an acyclic dependency graph in which adding an edge is
  accepted and closes a cycle, because the existing path has 33 edges and the search stops at 32.\<close>

theorem dependency_cycle_beyond_32:
  "\<exists>s a b. acyclic (store_edge s) \<and> \<not> isl (fst (AddTaskDependency a b s)) \<and>
     \<not> acyclic (store_edge (snd (AddTaskDependency a b s)))"
proof -
  let ?s1 = "snd (AddTaskDependency ''h'' ''A'' demo_chain)"
  have ok: "\<not> isl (fst (AddTaskDependency ''h'' ''A'' demo_chain))" by code_simp
  have "reach_loop 40 (\<lambda>i. deps_of i ?s1) ''A'' [''A''] [''A'']" by code_simp
  then obtain m where "1 \<le> m" "(''A'', ''A'') \<in> store_edge ?s1 ^^ m"
    unfolding store_edge_def by (drule_tac reach_loop_sound) auto
  then have "(''A'', ''A'') \<in> (store_edge ?s1)\<^sup>+"
    by (metis One_nat_def Suc_le_lessD trancl_power)
  then have "\<not> acyclic (store_edge ?s1)" by (auto simp: acyclic_def)
  with ok demo_chain_acyclic show ?thesis by blast
qed

section \<open>The views agree with the claim guard\<close>

lemma collect_refs_open:
  "collect_refs ids s = Inr rs \<Longrightarrow>
   length (filter (\<lambda>r. \<not> TDR_Satisfied r) rs) = length (open_deps ids s)"
  by (induction ids arbitrary: rs)
     (auto simp: open_deps_def taskDependencyRefLocked_def split: sum.splits option.splits)

lemma blocked_iff_open: "taskBlockedLocked tid s \<longleftrightarrow> open_deps (deps_of tid s) s \<noteq> []"
  by (auto simp: taskBlockedLocked_def open_deps_def list_ex_iff filter_empty_conv)

lemma map_of_counted:
  assumes "distinct (map fst ps)"
  shows "map_of (map (\<lambda>p. (fst p, f (snd p))) (filter (\<lambda>p. P (fst p) \<and> Q (snd p)) ps)) k =
    (case map_of ps k of None \<Rightarrow> None | Some v \<Rightarrow> if P k \<and> Q v then Some (f v) else None)"
  using assms
proof (induction ps)
  case (Cons p ps)
  show ?case
  proof (cases "fst p = k")
    case True
    then have "map_of ps k = None" using Cons.prems by (auto simp: map_of_eq_None_iff)
    then show ?thesis using True Cons by auto
  next
    case False
    then show ?thesis using Cons by auto
  qed
qed simp

text \<open>What the board shows is what the claim enforces: a task has unsatisfied dependencies exactly
  when the claim path considers it blocked, and the count shown for it on its board is the number of
  those dependencies.\<close>

theorem UnsatisfiedDependencies_match_claim:
  assumes "UnsatisfiedDependencies tid s = Inr refs" and "gm_wf (taskDeps s)"
    and "gm_get (tasks s) tid = Some t" and "Task_BoardID t = b"
  shows "(taskBlockedLocked tid s \<longleftrightarrow> refs \<noteq> []) \<and>
         gm_get (BlockedCountsByBoard b s) tid = (if refs = [] then None else Some (int (length refs)))"
proof -
  from assms(1) obtain rs where rs: "collect_refs (deps_of tid s) s = Inr rs"
    "refs = sortTaskDependencyRefs (filter (\<lambda>r. \<not> TDR_Satisfied r) rs)"
    by (auto simp: UnsatisfiedDependencies_def split: sum.splits)
  have len: "length refs = length (open_deps (deps_of tid s) s)"
    using collect_refs_open [OF rs(1)] by (simp add: rs(2) sortTaskDependencyRefs_def)
  note counts = map_of_counted [of "taskDeps s" "\<lambda>ds. int (length (open_deps ds s))"
      "\<lambda>k. case gm_get (tasks s) k of None \<Rightarrow> False | Some task \<Rightarrow> Task_BoardID task = b" "\<lambda>ds. open_deps ds s \<noteq> []" tid]
  have "gm_get (BlockedCountsByBoard b s) tid =
      (if open_deps (deps_of tid s) s = [] then None else Some (int (length (open_deps (deps_of tid s) s))))"
    using assms(2-4) counts
    by (auto simp: BlockedCountsByBoard_def gm_get_def gm_wf_def deps_of_def open_deps_def split: option.splits)
  with len show ?thesis by (auto simp: blocked_iff_open)
qed

section \<open>Witnesses\<close>

definition demo_pair :: MemoryStore where
  "demo_pair = demo_store\<lparr>
     tasks := [(''t'', Task_zero\<lparr>Task_ID := ''t'', Task_BoardID := ''b''\<rparr>), (''u'', Task_zero\<lparr>Task_ID := ''u'', Task_BoardID := ''b''\<rparr>)]\<rparr>"

definition demo_linked :: MemoryStore where
  "demo_linked = snd (AddTaskDependency ''t'' ''u'' demo_pair)"

lemma demo_pair_edges: "store_edge demo_pair = {}"
  by (simp add: store_edge_def dep_edge_def deps_of_def demo_pair_def demo_store_def NewMemoryStore_def)

theorem AddTaskDependency_acyclic_witness:
  "acyclic (store_edge demo_linked) \<and> store_edge demo_linked = {(''t'', ''u'')}"
proof -
  have "n \<le> 32" if "store_edge demo_pair ^^ n \<noteq> {}" for n
    using that by (cases n) (auto simp: demo_pair_edges)
  moreover have "acyclic (store_edge demo_pair)" by (simp add: demo_pair_edges acyclic_def)
  moreover have "\<not> isl (fst (AddTaskDependency ''t'' ''u'' demo_pair))" by code_simp
  ultimately show ?thesis
    using AddTaskDependency_acyclic [of demo_pair "''t''" "''u''"] by (simp add: demo_linked_def demo_pair_edges)
qed

theorem UnsatisfiedDependencies_match_claim_witness:
  "taskBlockedLocked ''t'' demo_linked \<and> gm_get (BlockedCountsByBoard ''b'' demo_linked) ''t'' = Some 1"
proof -
  let ?t = "the (gm_get (tasks demo_linked) ''t'')"
  have "map_sum id length (UnsatisfiedDependencies ''t'' demo_linked) = Inr 1" by code_simp
  then obtain refs where r: "UnsatisfiedDependencies ''t'' demo_linked = Inr refs" "length refs = 1"
    by (cases "UnsatisfiedDependencies ''t'' demo_linked") auto
  have h: "gm_wf (taskDeps demo_linked)" "gm_get (tasks demo_linked) ''t'' = Some ?t" "Task_BoardID ?t = ''b''" by code_simp+
  from UnsatisfiedDependencies_match_claim [OF r(1) h] r(2) show ?thesis by (cases refs) auto
qed

end
