(* ===== verification/Names.thy ===== *)
theory Names
  imports Store_State
begin

text \<open>
  Kubernetes names: \<^verbatim>\<open>k8sname/k8sname.go\<close> (workspace volume names) and \<^verbatim>\<open>httpapi/naming.go\<close> (squad
  namespaces, agent deployments). The laws say that the names are legal RFC 1123 names, that the
  identifier that makes a volume name unique is never cut, that the two slug routines agree, and that
  the namespace search returns a free namespace.
\<close>

section \<open>Library functions\<close>

definition is_alnum :: "char \<Rightarrow> bool" where
  "is_alnum c \<longleftrightarrow> (CHR ''a'' \<le> c \<and> c \<le> CHR ''z'') \<or> (CHR ''0'' \<le> c \<and> c \<le> CHR ''9'')"

definition TrimRight_dash :: "string \<Rightarrow> string" where
  "TrimRight_dash s = rev (dropWhile (\<lambda>c. c = CHR ''-'') (rev s))"

definition TrimLeft_dash :: "string \<Rightarrow> string" where
  "TrimLeft_dash s = dropWhile (\<lambda>c. c = CHR ''-'') s"

definition Trim_dash :: "string \<Rightarrow> string" where
  "Trim_dash s = TrimLeft_dash (TrimRight_dash s)"

fun local_part :: "string \<Rightarrow> string option" where
  "local_part [] = None"
| "local_part (c # cs) = (if c = CHR ''@'' then Some [] else map_option (\<lambda>r. c # r) (local_part cs))"

section \<open>k8sname\<close>

definition MaxNameLen :: nat where "MaxNameLen = 253"
definition workspaceInfix :: string where "workspaceInfix = ''-workspace-''"

fun sanitize_loop :: "string \<Rightarrow> string \<Rightarrow> bool \<Rightarrow> string" where
  "sanitize_loop [] b prevDash = b"
| "sanitize_loop (r # rs) b prevDash =
     (if is_alnum r then sanitize_loop rs (b @ [r]) False
      else if r = CHR ''-'' then
        (if \<not> prevDash then sanitize_loop rs (b @ [CHR ''-'']) True else sanitize_loop rs b prevDash)
      else if b \<noteq> [] \<and> \<not> prevDash then sanitize_loop rs (b @ [CHR ''-'']) True
      else sanitize_loop rs b prevDash)"

definition SanitizePart :: "string \<Rightarrow> string" where
  "SanitizePart raw = Trim_dash (sanitize_loop (ToLower raw) [] False)"

definition OwnerSlug :: "string \<Rightarrow> string \<Rightarrow> string \<Rightarrow> string" where
  "OwnerSlug displayName email userID =
     (if SanitizePart displayName \<noteq> [] then SanitizePart displayName
      else let viaEmail = (case local_part email of Some l \<Rightarrow> if l \<noteq> [] then SanitizePart l else [] | None \<Rightarrow> [])
           in if viaEmail \<noteq> [] then viaEmail
              else if SanitizePart userID \<noteq> [] then SanitizePart userID else ''user'')"

definition pvc_compose :: "string \<Rightarrow> string \<Rightarrow> string" where
  "pvc_compose prefix tail =
     (if length prefix + length tail > MaxNameLen
      then (if length tail \<ge> MaxNameLen then []
            else let cut = TrimRight_dash (take (MaxNameLen - length tail) prefix)
                 in if cut = [] then drop 1 tail else cut @ tail)
      else if prefix = [] then drop 1 tail else prefix @ tail)"

definition WorkspacePVCName :: "string \<Rightarrow> string \<Rightarrow> string \<Rightarrow> string \<Rightarrow> string" where
  "WorkspacePVCName owner squad agent guid0 =
     (let guid = SanitizePart guid0 in
      if guid = [] then []
      else let parts = filter (\<lambda>p. p \<noteq> []) [SanitizePart owner, SanitizePart squad, SanitizePart agent]
           in pvc_compose (join_with ''-'' parts) (workspaceInfix @ guid))"

section \<open>naming.go\<close>

definition k8sNameMax :: nat where "k8sNameMax = 63"

definition slugify :: "string \<Rightarrow> string" where
  "slugify raw = join_with ''-'' (FieldsFunc (\<lambda>r. \<not> is_alnum r) (ToLower raw))"

definition fitK8sName :: "string \<Rightarrow> string" where
  "fitK8sName name = (if length name \<le> k8sNameMax then name else TrimRight_dash (take k8sNameMax name))"

definition ownerSlug :: "User option \<Rightarrow> string" where
  "ownerSlug u =
     (case u of None \<Rightarrow> ''user''
      | Some usr \<Rightarrow>
          if slugify (User_Name usr) \<noteq> [] then slugify (User_Name usr)
          else let viaEmail = (case local_part (User_Email usr) of Some l \<Rightarrow> if l \<noteq> [] then slugify l else [] | None \<Rightarrow> [])
               in if viaEmail \<noteq> [] then viaEmail
                  else if slugify (User_ID usr) \<noteq> [] then fitK8sName (slugify (User_ID usr)) else ''user'')"

definition squadNamespaceFor :: "string \<Rightarrow> string \<Rightarrow> string" where
  "squadNamespaceFor owner squadName =
     (let slug = (if slugify squadName = [] then ''squad'' else slugify squadName)
      in fitK8sName (''skquad-'' @ owner @ ''-'' @ slug))"

definition agentDeploymentNameFor :: "string \<Rightarrow> string \<Rightarrow> string" where
  "agentDeploymentNameFor owner agentName =
     (let slug = (if slugify agentName = [] then ''agent'' else slugify agentName)
      in fitK8sName (''skquad-'' @ owner @ ''-agent-'' @ slug))"

definition SquadNamespaceExists :: "string \<Rightarrow> MemoryStore \<Rightarrow> bool" where
  "SquadNamespaceExists namespace s = list_ex (\<lambda>q. Squad_Namespace q = namespace) (gm_vals (squads s))"

definition next_candidate :: "string \<Rightarrow> nat \<Rightarrow> string" where
  "next_candidate candidate i =
     (let suffix = CHR ''-'' # nat_digits i; cut = k8sNameMax - length suffix
      in (if length candidate > cut then TrimRight_dash (take cut candidate) else candidate) @ suffix)"

text \<open>The loop \<^verbatim>\<open>for i := 2; i <= 999; i++\<close>; the first argument counts the iterations left.\<close>

fun namespace_loop :: "nat \<Rightarrow> nat \<Rightarrow> string \<Rightarrow> MemoryStore \<Rightarrow> string option" where
  "namespace_loop 0 i candidate s = None"
| "namespace_loop (Suc n) i candidate s =
     (if \<not> SquadNamespaceExists candidate s then Some candidate
      else namespace_loop n (Suc i) (next_candidate candidate i) s)"

definition uniqueSquadNamespace :: "string \<Rightarrow> MemoryStore \<Rightarrow> string option" where
  "uniqueSquadNamespace base s = namespace_loop 998 2 base s"

section \<open>Trimming\<close>

lemma TrimRight_Cons: "TrimRight_dash (c # s) = (if TrimRight_dash s = [] \<and> c = CHR ''-'' then [] else c # TrimRight_dash s)"
  by (auto simp: TrimRight_dash_def dropWhile_append)

lemma TrimRight_Nil [simp]: "TrimRight_dash [] = []"
  by (simp add: TrimRight_dash_def)

lemma TrimRight_last: "TrimRight_dash s \<noteq> [] \<Longrightarrow> last (TrimRight_dash s) \<noteq> CHR ''-''"
  using dropWhile_hd [of "\<lambda>c. c = CHR ''-''" "rev s"] by (auto simp: TrimRight_dash_def last_rev)

lemma TrimRight_prefix: "\<exists>r. s = TrimRight_dash s @ r"
  by (metis TrimRight_dash_def rev_append rev_rev_ident takeWhile_dropWhile_id)

lemma length_TrimRight: "length (TrimRight_dash s) \<le> length s"
  by (metis TrimRight_dash_def length_dropWhile_le length_rev)

lemma hd_TrimRight: "TrimRight_dash s \<noteq> [] \<Longrightarrow> hd (TrimRight_dash s) = hd s"
  by (metis TrimRight_prefix hd_append2)

lemma is_alnum_dash [simp]: "\<not> is_alnum (CHR ''-'')"
  by (simp add: is_alnum_def less_eq_char_def)

section \<open>Legal names\<close>

text \<open>An RFC 1123 name as Kubernetes checks it, without dots: lower-case letters, digits and dashes,
  beginning and ending with a letter or digit.\<close>

definition rfc1123 :: "string \<Rightarrow> bool" where
  "rfc1123 s \<longleftrightarrow> s \<noteq> [] \<and> list_all (\<lambda>c. is_alnum c \<or> c = CHR ''-'') s \<and> is_alnum (hd s) \<and> is_alnum (last s)"

lemma rfc1123_append_dash: "rfc1123 a \<Longrightarrow> rfc1123 b \<Longrightarrow> rfc1123 (a @ CHR ''-'' # b)"
  by (auto simp: rfc1123_def)

lemma rfc1123_take:
  assumes "rfc1123 s" and "TrimRight_dash (take n s) \<noteq> []"
  shows "rfc1123 (TrimRight_dash (take n s))"
proof -
  obtain r where "take n s = TrimRight_dash (take n s) @ r" using TrimRight_prefix by blast
  then have "list_all (\<lambda>c. is_alnum c \<or> c = CHR ''-'') (TrimRight_dash (take n s))"
    using assms(1) unfolding rfc1123_def list_all_iff by (metis Un_iff in_set_takeD set_append)
  moreover have "hd (TrimRight_dash (take n s)) = hd s"
    using assms(2) by (metis TrimRight_Nil hd_TrimRight hd_take neq0_conv take_eq_Nil)
  ultimately show ?thesis
    using assms TrimRight_last [OF assms(2)] last_in_set [OF assms(2)] by (auto simp: rfc1123_def list_all_iff)
qed

lemma rfc1123_fit: "rfc1123 s \<Longrightarrow> fitK8sName s \<noteq> [] \<Longrightarrow> rfc1123 (fitK8sName s) \<and> length (fitK8sName s) \<le> k8sNameMax"
  using length_TrimRight [of "take k8sNameMax s"] by (auto simp: fitK8sName_def intro: rfc1123_take)

lemma rfc1123_join: "ps \<noteq> [] \<Longrightarrow> \<forall>p \<in> set ps. rfc1123 p \<Longrightarrow> rfc1123 (join_with ''-'' ps)"
  by (induction "''-''" ps rule: join_with.induct) (auto simp: rfc1123_append_dash)

section \<open>The two slug routines agree\<close>

text \<open>What the loop still appends, without its accumulator.\<close>

fun emit_runes :: "string \<Rightarrow> bool \<Rightarrow> bool \<Rightarrow> string" where
  "emit_runes [] ne prev = []"
| "emit_runes (r # rs) ne prev =
     (if is_alnum r then r # emit_runes rs True False
      else if (r = CHR ''-'' \<or> ne) \<and> \<not> prev then CHR ''-'' # emit_runes rs True True
      else emit_runes rs ne prev)"

lemma sanitize_emit: "sanitize_loop rs b prev = b @ emit_runes rs (b \<noteq> []) prev"
  by (induction rs b prev rule: sanitize_loop.induct) auto

definition words :: "string \<Rightarrow> string list" where
  "words s = FieldsFunc (\<lambda>r. \<not> is_alnum r) s"

lemma words_junk: "\<not> is_alnum c \<Longrightarrow> words (c # cs) = words cs"
  unfolding words_def by (subst (1 2) FieldsFunc.simps) simp

lemma words_alnum: "is_alnum c \<Longrightarrow> words (c # cs) = (c # takeWhile is_alnum cs) # words (dropWhile is_alnum cs)"
  unfolding words_def by (subst FieldsFunc.simps) simp

lemma words_Nil [simp]: "words [] = []"
  unfolding words_def by (subst FieldsFunc.simps) simp

definition tail_join :: "string list \<Rightarrow> string" where
  "tail_join ws = (if ws = [] then [] else CHR ''-'' # join_with ''-'' ws)"

lemma join_tail: "join_with ''-'' (w # ws) = w @ tail_join ws"
  by (cases ws) (auto simp: tail_join_def)

lemma words_nonempty: "w \<in> set (words s) \<Longrightarrow> w \<noteq> [] \<and> list_all is_alnum w"
proof (induction "length s" arbitrary: s rule: less_induct)
  case less
  show ?case
  proof (cases s)
    case (Cons c cs)
    have "length (dropWhile is_alnum cs) < length s" by (simp add: Cons length_dropWhile_le less_Suc_eq_le)
    with less Cons show ?thesis
      by (cases "is_alnum c") (auto simp: words_junk words_alnum list_all_iff dest: set_takeWhileD)
  qed (use less in simp)
qed

lemma join_words_Nil: "join_with ''-'' (words s) = [] \<longleftrightarrow> words s = []"
  using words_nonempty [of "hd (words s)" s] by (cases "words s") (auto simp: join_tail)

lemma TrimRight_emit:
  "TrimRight_dash (emit_runes s True True) = join_with ''-'' (words s) \<and>
   TrimRight_dash (emit_runes s True False) = takeWhile is_alnum s @ tail_join (words (dropWhile is_alnum s))"
proof (induction s)
  case (Cons c cs)
  show ?case
  proof (cases "is_alnum c")
    case True
    then have "c \<noteq> CHR ''-''" by auto
    with True Cons show ?thesis by (auto simp: TrimRight_Cons words_alnum join_tail)
  next
    case False
    with Cons show ?thesis by (auto simp: TrimRight_Cons words_junk tail_join_def join_words_Nil)
  qed
qed (simp add: tail_join_def)

lemma hd_words: "words s \<noteq> [] \<Longrightarrow> is_alnum (hd (join_with ''-'' (words s)))"
  using words_nonempty [of "hd (words s)" s]
  by (cases "words s") (auto simp: join_tail neq_Nil_conv)

lemma TrimLeft_join_words: "TrimLeft_dash (join_with ''-'' (words s)) = join_with ''-'' (words s)"
proof (cases "words s = []")
  case False
  then have "is_alnum (hd (join_with ''-'' (words s)))" and "join_with ''-'' (words s) \<noteq> []"
    using hd_words join_words_Nil by auto
  then show ?thesis by (cases "join_with ''-'' (words s)") (auto simp: TrimLeft_dash_def)
qed (simp add: TrimLeft_dash_def)

lemma Trim_emit: "TrimLeft_dash (TrimRight_dash (emit_runes s False False)) = join_with ''-'' (words s)"
proof (induction s)
  case Nil
  then show ?case by (simp add: TrimLeft_dash_def)
next
  case (Cons c cs)
  consider "is_alnum c" | "\<not> is_alnum c" "c = CHR ''-''" | "\<not> is_alnum c" "c \<noteq> CHR ''-''" by blast
  then show ?case
  proof cases
    case 1
    then have "TrimRight_dash (emit_runes (c # cs) False False) = join_with ''-'' (words (c # cs))"
      using TrimRight_emit [of cs] by (auto simp: TrimRight_Cons words_alnum join_tail)
    then show ?thesis by (simp add: TrimLeft_join_words)
  next
    case 2
    then have "TrimRight_dash (emit_runes (c # cs) False False) = tail_join (words cs)"
      using TrimRight_emit [of cs] by (auto simp: TrimRight_Cons tail_join_def join_words_Nil)
    then show ?thesis
      using 2 TrimLeft_join_words [of cs] by (auto simp: words_junk tail_join_def TrimLeft_dash_def)
  next
    case 3
    then show ?thesis using Cons by (simp add: words_junk)
  qed
qed

lemma SanitizePart_slugify: "SanitizePart raw = slugify raw"
  using Trim_emit [of "ToLower raw"]
  by (simp add: SanitizePart_def slugify_def sanitize_emit Trim_dash_def words_def)

lemma slugify_legal: "slugify raw \<noteq> [] \<Longrightarrow> rfc1123 (slugify raw)"
proof -
  assume "slugify raw \<noteq> []"
  then have "words (ToLower raw) \<noteq> []" by (auto simp: slugify_def words_def)
  moreover have "rfc1123 w" if "w \<in> set (words (ToLower raw))" for w
    using words_nonempty [OF that] by (auto simp: rfc1123_def list_all_iff)
  ultimately show ?thesis by (simp add: slugify_def words_def [symmetric] rfc1123_join)
qed

text \<open>The two slug routines of the code base agree on every input, and a non-empty slug is a legal
  RFC 1123 name.\<close>

theorem SanitizePart_agrees:
  "SanitizePart raw = slugify raw \<and> (if slugify raw = [] then True else rfc1123 (slugify raw))"
  by (simp add: SanitizePart_slugify slugify_legal)

section \<open>Workspace volume names\<close>

lemma pvc_compose_shape:
  assumes "prefix = [] \<or> rfc1123 prefix" and "tail \<noteq> []" and "pvc_compose prefix tail \<noteq> []"
  shows "length (pvc_compose prefix tail) \<le> MaxNameLen \<and>
    (pvc_compose prefix tail = drop 1 tail \<or> (\<exists>p. rfc1123 p \<and> pvc_compose prefix tail = p @ tail))"
proof (cases "length prefix + length tail > MaxNameLen")
  case True
  let ?cut = "TrimRight_dash (take (MaxNameLen - length tail) prefix)"
  have small: "length tail < MaxNameLen" and eq: "pvc_compose prefix tail = (if ?cut = [] then drop 1 tail else ?cut @ tail)"
    using True assms(3) by (auto simp: pvc_compose_def Let_def split: if_splits)
  have "length ?cut \<le> MaxNameLen - length tail"
    using length_TrimRight [of "take (MaxNameLen - length tail) prefix"] by simp
  moreover have "rfc1123 ?cut" if "?cut \<noteq> []" using that assms(1) by (auto intro: rfc1123_take)
  ultimately show ?thesis using eq small by auto
next
  case False
  then have "pvc_compose prefix tail = (if prefix = [] then drop 1 tail else prefix @ tail)"
    by (simp add: pvc_compose_def)
  then show ?thesis using False assms(1) by auto
qed

lemma pvc_shape:
  assumes "WorkspacePVCName ow sq ag g \<noteq> []"
  shows "SanitizePart g \<noteq> [] \<and> length (WorkspacePVCName ow sq ag g) \<le> MaxNameLen \<and>
    (WorkspacePVCName ow sq ag g = ''workspace-'' @ SanitizePart g \<or>
     (\<exists>p. rfc1123 p \<and> WorkspacePVCName ow sq ag g = p @ ''-workspace-'' @ SanitizePart g))"
proof -
  define parts where "parts = filter (\<lambda>p. p \<noteq> []) [SanitizePart ow, SanitizePart sq, SanitizePart ag]"
  have gne: "SanitizePart g \<noteq> []" and eq: "WorkspacePVCName ow sq ag g = pvc_compose (join_with ''-'' parts) (workspaceInfix @ SanitizePart g)"
    using assms by (auto simp: WorkspacePVCName_def Let_def parts_def simp del: filter.simps)
  have "\<forall>p \<in> set parts. rfc1123 p" by (auto simp: parts_def SanitizePart_slugify slugify_legal)
  then have pre: "join_with ''-'' parts = [] \<or> rfc1123 (join_with ''-'' parts)"
    using rfc1123_join [of parts] by (cases "parts = []") simp_all
  have "workspaceInfix @ SanitizePart g \<noteq> []" by (simp add: workspaceInfix_def)
  from pvc_compose_shape [OF pre this] assms gne show ?thesis by (simp add: eq workspaceInfix_def)
qed

lemma pvc_suffix:
  "WorkspacePVCName ow sq ag g \<noteq> [] \<Longrightarrow>
   drop (length (WorkspacePVCName ow sq ag g) - length (SanitizePart g)) (WorkspacePVCName ow sq ag g) = SanitizePart g"
  using pvc_shape [of ow sq ag g] by auto

text \<open>A workspace volume name is a legal Kubernetes name of at most 253 characters that ends in the
  whole identifier of the agent, however long the owner, squad and agent names are; so two agents
  whose identifiers differ (and have the same length, as UUIDs do) never share a volume name.\<close>

theorem WorkspacePVCName_legal_and_unique:
  assumes "WorkspacePVCName ow sq ag g \<noteq> []"
  shows "rfc1123 (WorkspacePVCName ow sq ag g) \<and> length (WorkspacePVCName ow sq ag g) \<le> 253 \<and>
    (\<exists>p. WorkspacePVCName ow sq ag g = p @ ''workspace-'' @ SanitizePart g) \<and>
    (WorkspacePVCName ow sq ag g = WorkspacePVCName ow' sq' ag' g' \<and>
       length (SanitizePart g) = length (SanitizePart g') \<longrightarrow> SanitizePart g = SanitizePart g')"
proof -
  note sh = pvc_shape [OF assms]
  have "rfc1123 (SanitizePart g)" using sh by (simp add: SanitizePart_slugify slugify_legal)
  then have "rfc1123 (''workspace-'' @ SanitizePart g)"
    using rfc1123_append_dash [of "''workspace''" "SanitizePart g"] by (simp add: rfc1123_def is_alnum_def less_eq_char_def)
  then have "rfc1123 (WorkspacePVCName ow sq ag g)"
    using sh rfc1123_append_dash by (metis append_Cons append_Nil)
  moreover have "\<exists>p. WorkspacePVCName ow sq ag g = p @ ''workspace-'' @ SanitizePart g"
    using sh by (metis append.assoc append_Cons append_Nil)
  moreover have "SanitizePart g = SanitizePart g'"
    if "WorkspacePVCName ow sq ag g = WorkspacePVCName ow' sq' ag' g'" "length (SanitizePart g) = length (SanitizePart g')"
    using that assms pvc_suffix [of ow sq ag g] pvc_suffix [of ow' sq' ag' g'] by metis
  ultimately show ?thesis using sh by (simp add: MaxNameLen_def)
qed

section \<open>Squad namespaces\<close>

lemma nat_digits_alnum: "list_all is_alnum (nat_digits n) \<and> nat_digits n \<noteq> []"
proof (induction n rule: nat_digits.induct)
  case (1 n)
  have d: "is_alnum (char_of (48 + k))" if "k < 10" for k :: nat
    using that unfolding is_alnum_def less_eq_char_def by simp
  have eq: "nat_digits n = (if n < 10 then [char_of (48 + n)] else nat_digits (n div 10) @ [char_of (48 + n mod 10)])"
    by (rule nat_digits.simps)
  show ?case using 1 d [of n] d [of "n mod 10"] by (cases "n < 10") (simp_all add: eq)
qed

lemma nat_digits_inj: "nat_digits n = nat_digits m \<Longrightarrow> n = m"
proof (induction n arbitrary: m rule: less_induct)
  case (less n)
  have last: "last (nat_digits k) = char_of (48 + k mod 10)" for k by (subst nat_digits.simps) simp
  have bl: "butlast (nat_digits k) = (if k < 10 then [] else nat_digits (k div 10))" for k
    by (subst nat_digits.simps) (simp add: butlast_append)
  have mod: "n mod 10 = m mod 10"
    using char_of_inj_small [of "48 + n mod 10" "48 + m mod 10"] last [of n] last [of m] less.prems by simp
  have "n div 10 = m div 10"
  proof (cases "n < 10 \<or> m < 10")
    case True
    then show ?thesis
      using bl [of n] bl [of m] less.prems nat_digits_alnum [of "n div 10"] nat_digits_alnum [of "m div 10"]
      by (auto split: if_splits)
  next
    case False
    then have "nat_digits (n div 10) = nat_digits (m div 10)" using bl [of n] bl [of m] less.prems by simp
    then show ?thesis using less.IH [of "n div 10" "m div 10"] False by simp
  qed
  with mod show ?case by (metis mod_mult_div_eq)
qed

lemma next_candidate_legal:
  assumes "rfc1123 c" and "length c \<le> k8sNameMax" and "i < 1000"
  shows "rfc1123 (next_candidate c i) \<and> length (next_candidate c i) \<le> k8sNameMax"
proof -
  let ?suf = "CHR ''-'' # nat_digits i" let ?cut = "k8sNameMax - length ?suf"
  have len: "length ?suf \<le> 4" using nat_digits_length [OF assms(3)] by simp
  have dig: "rfc1123 (nat_digits i)" using nat_digits_alnum [of i] by (auto simp: rfc1123_def list_all_iff)
  have ne: "c \<noteq> []" "is_alnum (hd c)" using assms(1) by (auto simp: rfc1123_def)
  obtain x xs where c: "c = x # xs" using ne by (cases c) auto
  have "x \<noteq> CHR ''-''" using ne c by auto
  moreover have "take ?cut c = x # take (?cut - 1) xs" using len by (simp add: c take_Cons' k8sNameMax_def)
  ultimately have "TrimRight_dash (take ?cut c) \<noteq> []" by (simp add: TrimRight_Cons)
  then have leg: "rfc1123 (TrimRight_dash (take ?cut c))" by (rule rfc1123_take [OF assms(1)])
  have "length (TrimRight_dash (take ?cut c)) \<le> ?cut" using length_TrimRight [of "take ?cut c"] by simp
  with leg dig assms(1) len show ?thesis
    by (auto simp: next_candidate_def Let_def k8sNameMax_def intro: rfc1123_append_dash)
qed

lemma namespace_loop_ok:
  assumes "namespace_loop n i c s = Some ns" and "rfc1123 c" and "length c \<le> k8sNameMax" and "i + n \<le> 1000"
  shows "\<not> SquadNamespaceExists ns s \<and> rfc1123 ns \<and> length ns \<le> k8sNameMax"
  using assms
proof (induction n arbitrary: i c)
  case (Suc n)
  then show ?case
    using next_candidate_legal [of c i] by (auto split: if_splits)
qed simp

lemma owner_slug_legal: "rfc1123 (ownerSlug u)"
proof -
  have user: "rfc1123 ''user''" by (simp add: rfc1123_def is_alnum_def less_eq_char_def)
  have fit: "rfc1123 (fitK8sName (slugify x))" if "slugify x \<noteq> []" for x
  proof -
    note leg = slugify_legal [OF that]
    obtain c cs where c: "slugify x = c # cs" "is_alnum c"
      using leg by (cases "slugify x") (auto simp: rfc1123_def)
    then have "c \<noteq> CHR ''-''" by auto
    then have "fitK8sName (slugify x) \<noteq> []" using c by (auto simp: fitK8sName_def k8sNameMax_def TrimRight_Cons take_Cons')
    then show ?thesis using rfc1123_fit [OF leg] by simp
  qed
  show ?thesis
    using user fit slugify_legal by (auto simp: ownerSlug_def Let_def split: option.splits)
qed

lemma squad_namespace_legal: "rfc1123 (squadNamespaceFor (ownerSlug u) nm) \<and> length (squadNamespaceFor (ownerSlug u) nm) \<le> k8sNameMax"
proof -
  let ?slug = "if slugify nm = [] then ''squad'' else slugify nm"
  let ?full = "''skquad-'' @ ownerSlug u @ ''-'' @ ?slug"
  have base: "rfc1123 ''squad''" "rfc1123 ''skquad''" by (simp_all add: rfc1123_def is_alnum_def less_eq_char_def)
  then have "rfc1123 ?slug" using slugify_legal by simp
  then have leg: "rfc1123 ?full"
    using rfc1123_append_dash [OF base(2) rfc1123_append_dash [OF owner_slug_legal [of u] \<open>rfc1123 ?slug\<close>]] by simp
  have "fitK8sName ?full \<noteq> []" by (simp add: fitK8sName_def k8sNameMax_def TrimRight_Cons)
  then show ?thesis using rfc1123_fit [OF leg] by (simp add: squadNamespaceFor_def Let_def)
qed

text \<open>The namespace chosen for a new squad is a legal Kubernetes namespace name of at most 63
  characters that no stored squad uses, whatever the owner and squad are called.\<close>

theorem uniqueSquadNamespace_legal_and_free:
  assumes "uniqueSquadNamespace (squadNamespaceFor (ownerSlug u) nm) s = Some ns"
  shows "rfc1123 ns \<and> length ns \<le> 63 \<and> \<not> SquadNamespaceExists ns s"
  using namespace_loop_ok [OF assms [unfolded uniqueSquadNamespace_def]] squad_namespace_legal [of u nm]
  by (simp add: k8sNameMax_def)

text \<open>The candidate tried in the \<open>k\<close>-th iteration after the first.\<close>

fun candidate_at :: "string \<Rightarrow> nat \<Rightarrow> nat \<Rightarrow> string" where
  "candidate_at c i 0 = c"
| "candidate_at c i (Suc k) = candidate_at (next_candidate c i) (Suc i) k"

lemma candidate_end: "\<exists>p. candidate_at c i (Suc k) = p @ CHR ''-'' # nat_digits (i + k)"
proof (induction k arbitrary: c i)
  case 0
  then show ?case by (auto simp: next_candidate_def Let_def)
next
  case (Suc k)
  from Suc.IH [of "next_candidate c i" "Suc i"] show ?case by simp
qed

lemma last_number:
  assumes "p @ CHR ''-'' # nat_digits n = q @ CHR ''-'' # nat_digits m" shows "n = m"
proof -
  have tw: "takeWhile is_alnum (rev (r @ CHR ''-'' # nat_digits k)) = rev (nat_digits k)" for r k
    using nat_digits_alnum [of k] by (subst rev_append, simp, subst takeWhile_append2) (auto simp: list_all_iff)
  from assms tw [of p n] tw [of q m] have "nat_digits n = nat_digits m" by (metis rev_rev_ident)
  then show ?thesis by (rule nat_digits_inj)
qed

lemma candidates_inj: "inj_on (\<lambda>k. candidate_at c i (Suc k)) A"
proof (rule inj_onI)
  fix k l assume eq: "candidate_at c i (Suc k) = candidate_at c i (Suc l)"
  obtain p q where "candidate_at c i (Suc k) = p @ CHR ''-'' # nat_digits (i + k)"
    "candidate_at c i (Suc l) = q @ CHR ''-'' # nat_digits (i + l)" using candidate_end by meson
  with eq have "i + k = i + l" by (intro last_number [of p "i + k" q "i + l"]) simp
  then show "k = l" by simp
qed

lemma namespace_loop_None:
  "namespace_loop n i c s = None \<Longrightarrow> k < n \<Longrightarrow> SquadNamespaceExists (candidate_at c i k) s"
proof (induction n arbitrary: i c k)
  case (Suc n)
  then show ?case by (cases k) (auto split: if_splits)
qed simp

text \<open>C27. The search gives up only when the name space is really exhausted: with fewer than 997 squads
  stored it always finds a namespace.\<close>

theorem uniqueSquadNamespace_finds:
  assumes "length (squads s) < 997"
  shows "\<exists>ns. uniqueSquadNamespace base s = Some ns"
proof (rule ccontr)
  assume "\<nexists>ns. uniqueSquadNamespace base s = Some ns"
  then have none: "namespace_loop 998 2 base s = None" by (simp add: uniqueSquadNamespace_def)
  let ?cs = "(\<lambda>k. candidate_at base 2 (Suc k)) ` {..<997}"
  have "?cs \<subseteq> Squad_Namespace ` set (gm_vals (squads s))"
  proof
    fix ns assume "ns \<in> ?cs"
    then obtain k where "ns = candidate_at base 2 (Suc k)" "Suc k < 998" by auto
    then have "SquadNamespaceExists ns s" using namespace_loop_None [OF none, of "Suc k"] by simp
    then show "ns \<in> Squad_Namespace ` set (gm_vals (squads s))" by (auto simp: SquadNamespaceExists_def list_ex_iff)
  qed
  then have "card ?cs \<le> card (Squad_Namespace ` set (gm_vals (squads s)))" by (rule card_mono [rotated]) simp
  also have "\<dots> \<le> length (squads s)"
    by (metis card_image_le card_length gm_vals_def length_map order_trans List.finite_set)
  finally have "card ?cs < 997" using assms by simp
  moreover have "card ?cs = 997" by (subst card_image [OF candidates_inj]) simp
  ultimately show False by simp
qed

section \<open>Witnesses\<close>

definition demo_taken :: MemoryStore where
  "demo_taken = demo_store\<lparr>squads := [(''s'', Squad_zero\<lparr>Squad_Namespace := ''skquad-ann-ops''\<rparr>)]\<rparr>"

definition demo_user :: User where
  "demo_user = User_zero\<lparr>User_Name := ''Ann''\<rparr>"

theorem WorkspacePVCName_legal_and_unique_witness:
  "rfc1123 (WorkspacePVCName ''Ann B'' ''Ops'' ''bot_1'' ''0f-1'')"
proof -
  have "WorkspacePVCName ''Ann B'' ''Ops'' ''bot_1'' ''0f-1'' \<noteq> []"
    by (simp add: WorkspacePVCName_def SanitizePart_slugify slugify_def) code_simp
  from WorkspacePVCName_legal_and_unique [OF this] show ?thesis by blast
qed

theorem uniqueSquadNamespace_legal_and_free_witness:
  "\<exists>ns. uniqueSquadNamespace (squadNamespaceFor (ownerSlug (Some demo_user)) ''Ops'') demo_taken = Some ns \<and>
     \<not> SquadNamespaceExists ns demo_taken \<and> ns \<noteq> ''skquad-ann-ops''"
proof -
  have "uniqueSquadNamespace (squadNamespaceFor (ownerSlug (Some demo_user)) ''Ops'') demo_taken = Some ''skquad-ann-ops-2''"
    by code_simp
  with uniqueSquadNamespace_legal_and_free [OF this] show ?thesis by auto
qed

theorem uniqueSquadNamespace_finds_witness:
  "length (squads demo_taken) < 997 \<and> (\<exists>ns. uniqueSquadNamespace ''skquad-ann-ops'' demo_taken = Some ns)"
proof -
  have "length (squads demo_taken) < 997" by code_simp
  from this uniqueSquadNamespace_finds [OF this] show ?thesis by blast
qed

text \<open>The third candidate carries both suffixes: it is built from the second one, not from the base.\<close>

lemma namespace_suffixes_accumulate:
  "candidate_at ''skquad-ann-ops'' 2 2 = ''skquad-ann-ops-2-3''"
  by code_simp

end
