(* ===== verification/Board_Policy.thy ===== *)
theory Board_Policy
  imports Domain_Types
begin

text \<open>
  The board-policy document of a squad (\<^verbatim>\<open>domain/board_policy.go\<close>): resolution of its optional fields against
  the platform defaults, validation, and the leader capabilities.
\<close>

record EffectiveBoardPolicy =
  EBP_ReopenCapPerDay :: int
  EBP_SelfApproveDefault :: bool
  EBP_LeaderApprovalAllowed :: bool

definition BoardPolicy_Effective :: "BoardPolicy \<Rightarrow> EffectiveBoardPolicy" where
  "BoardPolicy_Effective p =
     (let e0 = \<lparr>EBP_ReopenCapPerDay = PlatformReopenCapPerDay, EBP_SelfApproveDefault = PlatformSelfApproveDefault,
                EBP_LeaderApprovalAllowed = PlatformLeaderApprovalAllowed\<rparr>;
          e1 = (case BP_ReopenCapPerDay p of None \<Rightarrow> e0 | Some v \<Rightarrow> e0\<lparr>EBP_ReopenCapPerDay := v\<rparr>);
          e2 = (case BP_SelfApproveDefault p of None \<Rightarrow> e1 | Some v \<Rightarrow> e1\<lparr>EBP_SelfApproveDefault := v\<rparr>)
      in (case BP_LeaderApprovalAllowed p of None \<Rightarrow> e2 | Some v \<Rightarrow> e2\<lparr>EBP_LeaderApprovalAllowed := v\<rparr>))"

text \<open>\<open>None\<close> is a valid document, \<open>Some msg\<close> the validation error.\<close>

definition BoardPolicy_Validate :: "BoardPolicy \<Rightarrow> string option" where
  "BoardPolicy_Validate p =
     (if (case BP_ReopenCapPerDay p of None \<Rightarrow> False | Some v \<Rightarrow> v < 0) then Some ''reopen_cap_per_day must be >= 0''
      else if list_ex (\<lambda>kv. TrimSpace (fst kv) = []) (BP_LeaderGrants p)
      then Some ''leader_grants keys must be non-empty agent IDs'' else None)"

definition GrantFor :: "BoardPolicy \<Rightarrow> string \<Rightarrow> LeaderGrant" where
  "GrantFor p agentID = (case gm_get (BP_LeaderGrants p) agentID of None \<Rightarrow> LeaderGrant_zero | Some g \<Rightarrow> g)"

definition CanPrioritize :: "BoardPolicy \<Rightarrow> string \<Rightarrow> bool" where
  "CanPrioritize p agentID = LG_CanPrioritize (GrantFor p agentID)"

definition CanAssignOthers :: "BoardPolicy \<Rightarrow> string \<Rightarrow> bool" where
  "CanAssignOthers p agentID = LG_CanAssignOthers (GrantFor p agentID)"

definition IsLeader :: "BoardPolicy \<Rightarrow> string \<Rightarrow> bool" where
  "IsLeader p agentID = LeaderGrant_Any (GrantFor p agentID)"

definition EffectiveSelfApprove :: "Agent option \<Rightarrow> Squad option \<Rightarrow> bool" where
  "EffectiveSelfApprove agent squad =
     (case (case agent of None \<Rightarrow> None | Some a \<Rightarrow> Agent_SelfApproveAllowed a) of
        Some b \<Rightarrow> b
      | None \<Rightarrow>
          case (case squad of None \<Rightarrow> None | Some q \<Rightarrow> BP_SelfApproveDefault (Squad_BoardPolicy q)) of
            Some b \<Rightarrow> b | None \<Rightarrow> PlatformSelfApproveDefault)"

definition EffectiveReopenCap :: "Squad option \<Rightarrow> int" where
  "EffectiveReopenCap squad =
     (case (case squad of None \<Rightarrow> None | Some q \<Rightarrow> BP_ReopenCapPerDay (Squad_BoardPolicy q)) of
        Some v \<Rightarrow> v | None \<Rightarrow> PlatformReopenCapPerDay)"

definition EffectiveLeaderApproval :: "Squad option \<Rightarrow> bool" where
  "EffectiveLeaderApproval squad =
     (case (case squad of None \<Rightarrow> None | Some q \<Rightarrow> BP_LeaderApprovalAllowed (Squad_BoardPolicy q)) of
        Some v \<Rightarrow> v | None \<Rightarrow> PlatformLeaderApprovalAllowed)"

definition LeaderMayApprove :: "Agent option \<Rightarrow> Squad option \<Rightarrow> bool" where
  "LeaderMayApprove agent squad =
     (case (agent, squad) of
        (Some a, Some q) \<Rightarrow> IsLeader (Squad_BoardPolicy q) (Agent_ID a) \<and> EffectiveLeaderApproval (Some q)
      | _ \<Rightarrow> False)"

section \<open>Laws\<close>

text \<open>A valid document never resolves to a negative cap: a negative cap would switch the limit off.\<close>

lemma valid_cap_nonneg:
  "BoardPolicy_Validate (Squad_BoardPolicy q) = None \<Longrightarrow> 0 \<le> EffectiveReopenCap (Some q)"
  by (auto simp: BoardPolicy_Validate_def EffectiveReopenCap_def PlatformReopenCapPerDay_def split: option.splits if_splits)

text \<open>The per-knob resolvers read the same values as the resolved document.\<close>

lemma resolvers_agree:
  "EffectiveReopenCap (Some q) = EBP_ReopenCapPerDay (BoardPolicy_Effective (Squad_BoardPolicy q))"
  "EffectiveLeaderApproval (Some q) = EBP_LeaderApprovalAllowed (BoardPolicy_Effective (Squad_BoardPolicy q))"
  "EffectiveSelfApprove None (Some q) = EBP_SelfApproveDefault (BoardPolicy_Effective (Squad_BoardPolicy q))"
  by (auto simp: EffectiveReopenCap_def EffectiveLeaderApproval_def EffectiveSelfApprove_def BoardPolicy_Effective_def
      Let_def split: option.splits)

lemma no_grant_no_leader: "gm_get (BP_LeaderGrants p) a = None \<Longrightarrow> \<not> IsLeader p a \<and> \<not> CanPrioritize p a \<and> \<not> CanAssignOthers p a"
  by (simp add: IsLeader_def CanPrioritize_def CanAssignOthers_def GrantFor_def LeaderGrant_zero_def LeaderGrant_Any_def)

lemma leader_iff: "IsLeader p a \<longleftrightarrow> CanPrioritize p a \<or> CanAssignOthers p a"
  by (simp add: IsLeader_def CanPrioritize_def CanAssignOthers_def LeaderGrant_Any_def)

text \<open>Leader approval needs both knobs: an agent may approve for others only if the squad document
  lists a capability for it and switches leader approval on; under the defaults, or without either,
  nobody may.\<close>

theorem LeaderMayApprove_needs_both:
  "LeaderMayApprove (Some a) (Some q) \<longleftrightarrow>
     (CanPrioritize (Squad_BoardPolicy q) (Agent_ID a) \<or> CanAssignOthers (Squad_BoardPolicy q) (Agent_ID a)) \<and>
     EBP_LeaderApprovalAllowed (BoardPolicy_Effective (Squad_BoardPolicy q)) \<and>
     gm_get (BP_LeaderGrants (Squad_BoardPolicy q)) (Agent_ID a) \<noteq> None \<and>
     BP_LeaderApprovalAllowed (Squad_BoardPolicy q) = Some True"
  using no_grant_no_leader [of "Squad_BoardPolicy q" "Agent_ID a"]
  by (auto simp: LeaderMayApprove_def leader_iff EffectiveLeaderApproval_def PlatformLeaderApprovalAllowed_def
      BoardPolicy_Effective_def Let_def split: option.splits)

end
