(* ===== verification/Squad_Store.thy ===== *)
theory Squad_Store
  imports Names Board_Policy
begin

text \<open>
  Users, squads, boards, agents and agent identities of \<^verbatim>\<open>storage/memory.go\<close> (\<open>GetUser\<close> to
  \<open>ListAllAgents\<close>). A lookup whose nil result the code dereferences gives \<open>NilDereference\<close>; the laws
  show that no reachable store gets there.
\<close>

section \<open>Users\<close>

definition userOIDCKey :: "string \<Rightarrow> string \<Rightarrow> string" where
  "userOIDCKey issuer0 subject0 =
     (let issuer = TrimSpace issuer0; subject = TrimSpace subject0
      in if issuer = [] \<or> subject = [] then [] else issuer @ char_of (0 :: nat) # subject)"

definition GetUser :: "string \<Rightarrow> MemoryStore \<Rightarrow> User res" where
  "GetUser uid s = (case gm_get (users s) uid of None \<Rightarrow> Inl ErrNotFound | Some u \<Rightarrow> Inr u)"

definition GetUserByEmail :: "string \<Rightarrow> MemoryStore \<Rightarrow> User option res" where
  "GetUserByEmail email s =
     (case gm_get (usersByEmail s) (ToLower email) of None \<Rightarrow> Inl ErrNotFound | Some uid \<Rightarrow> Inr (gm_get (users s) uid))"

definition UpsertUser :: "User \<Rightarrow> MemoryStore \<Rightarrow> User res \<times> MemoryStore" where
  "UpsertUser u s =
     (let email = ToLower (TrimSpace (User_Email u)); oidcKey = userOIDCKey (User_OIDCIssuer u) (User_OIDCSubject u);
          byOIDC = (if oidcKey \<noteq> [] then gm_get (usersByOIDC s) oidcKey else None);
          byEmail = (if oidcKey = [] then gm_get (usersByEmail s) email else None)
      in case byOIDC of
           Some uid \<Rightarrow>
             (case gm_get (users s) uid of None \<Rightarrow> (Inl NilDereference, s)
              | Some old \<Rightarrow>
                  let existing = old\<lparr>User_Email := email, User_EmailVerified := User_EmailVerified u,
                                     User_Name := (if User_Name u \<noteq> [] then User_Name u else User_Name old)\<rparr>
                  in (Inr existing, s\<lparr>users := gm_put uid existing (users s), usersByEmail := gm_put email uid (usersByEmail s)\<rparr>))
         | None \<Rightarrow>
           case byEmail of
             Some uid \<Rightarrow>
               (case gm_get (users s) uid of
                  None \<Rightarrow> (Inl NilDereference, s)
                | Some old \<Rightarrow>
                    let existing = (if User_Name u \<noteq> [] then old\<lparr>User_Name := User_Name u\<rparr> else old)
                    in (Inr existing, s\<lparr>users := gm_put uid existing (users s)\<rparr>))
           | None \<Rightarrow>
               let (nid, s1) = NewString s;
                   created = u\<lparr>User_ID := nid, User_Email := email, User_OIDCIssuer := TrimSpace (User_OIDCIssuer u),
                               User_OIDCSubject := TrimSpace (User_OIDCSubject u),
                               User_Role := (if User_Role u = [] then RoleUser else User_Role u), User_CreatedAt := env_now s\<rparr>
               in (Inr created, s1\<lparr>users := gm_put nid created (users s1), usersByEmail := gm_put email nid (usersByEmail s1),
                                   usersByOIDC := (if oidcKey \<noteq> [] then gm_put oidcKey nid (usersByOIDC s1) else usersByOIDC s1)\<rparr>))"

definition SetUserRole :: "string \<Rightarrow> string \<Rightarrow> MemoryStore \<Rightarrow> unit res \<times> MemoryStore" where
  "SetUserRole uid role s =
     (if \<not> Role_Valid role then (Inl ErrConflict, s)
      else case gm_get (users s) uid of None \<Rightarrow> (Inl ErrNotFound, s)
           | Some u \<Rightarrow> (Inr (), s\<lparr>users := gm_put uid (u\<lparr>User_Role := role\<rparr>) (users s)\<rparr>))"

definition cmp_on :: "('a \<Rightarrow> string) \<Rightarrow> 'a \<Rightarrow> 'a \<Rightarrow> int" where
  "cmp_on f a b = str_cmp (f a) (f b)"

definition ListUsers :: "MemoryStore \<Rightarrow> User list" where
  "ListUsers s = sort_by (cmp_on User_Email) (gm_vals (users s))"

section \<open>Squads\<close>

definition CreateSquad :: "Squad \<Rightarrow> MemoryStore \<Rightarrow> Squad res \<times> MemoryStore" where
  "CreateSquad q s =
     (if list_ex (\<lambda>existing. Squad_OwnerID existing = Squad_OwnerID q \<and> EqualFold (Squad_Name existing) (Squad_Name q))
           (gm_vals (squads s))
      then (Inl ErrConflict, s)
      else
        let now = env_now s; (nid, s1) = NewString s;
            created = q\<lparr>Squad_ID := nid, Squad_Status := (if Squad_Status q = [] then SquadActive else Squad_Status q),
                        Squad_CreatedAt := now, Squad_UpdatedAt := now\<rparr>;
            s2 = s1\<lparr>squads := gm_put nid created (squads s1)\<rparr>;
            (bid, s3) = NewString s2;
            s4 = s3\<lparr>boards := gm_put bid \<lparr>Board_ID = bid, Board_SquadID = nid, Board_CreatedAt = now\<rparr> (boards s3),
                    boardsBySquad := gm_put nid bid (boardsBySquad s3)\<rparr>;
            s5 = revise_prompt (Squad_Prompt created \<noteq> []) (\<lambda>i. i\<lparr>PRI_ScopeID := nid\<rparr>) (Squad_Prompt created) s4
        in (Inr created, drainPendingAuditsLocked nid (enqueueSquadOutboxLocked KubernetesOpUpsertSquad created s5)))"

definition GetSquad :: "string \<Rightarrow> MemoryStore \<Rightarrow> Squad res" where
  "GetSquad qid s = (case gm_get (squads s) qid of None \<Rightarrow> Inl ErrNotFound | Some q \<Rightarrow> Inr q)"

definition GetSquadByName :: "string \<Rightarrow> string \<Rightarrow> MemoryStore \<Rightarrow> Squad res" where
  "GetSquadByName ownerID name s =
     (case find (\<lambda>q. Squad_OwnerID q = ownerID \<and> EqualFold (Squad_Name q) name) (gm_vals (squads s)) of
        None \<Rightarrow> Inl ErrNotFound | Some q \<Rightarrow> Inr q)"

definition squad_owner :: "MemoryStore \<Rightarrow> string \<Rightarrow> string option" where
  "squad_owner s squadID = map_option Squad_OwnerID (gm_get (squads s) squadID)"

definition GetAgentByNameForOwner :: "string \<Rightarrow> string \<Rightarrow> MemoryStore \<Rightarrow> Agent res" where
  "GetAgentByNameForOwner ownerID name s =
     (case find (\<lambda>a. squad_owner s (Agent_SquadID a) = Some ownerID \<and> EqualFold (Agent_Name a) name) (gm_vals (agents s)) of
        None \<Rightarrow> Inl ErrNotFound | Some a \<Rightarrow> Inr a)"

definition UpdateSquad :: "Squad \<Rightarrow> MemoryStore \<Rightarrow> Squad res \<times> MemoryStore" where
  "UpdateSquad q s =
     (case gm_get (squads s) (Squad_ID q) of None \<Rightarrow> (Inl ErrNotFound, s)
      | Some existing \<Rightarrow>
          if list_ex (\<lambda>other. Squad_ID other \<noteq> Squad_ID q \<and> Squad_OwnerID other = Squad_OwnerID existing \<and>
                              EqualFold (Squad_Name other) (Squad_Name q)) (gm_vals (squads s))
          then (Inl ErrConflict, s)
          else
            let updated = q\<lparr>Squad_OwnerID := Squad_OwnerID existing, Squad_Namespace := Squad_Namespace existing,
                            Squad_CreatedAt := Squad_CreatedAt existing, Squad_UpdatedAt := env_now s\<rparr>;
                s1 = revise_prompt (Squad_Prompt existing \<noteq> Squad_Prompt updated) (\<lambda>i. i) (Squad_Prompt updated) s;
                s2 = s1\<lparr>squads := gm_put (Squad_ID q) updated (squads s1)\<rparr>
            in (Inr updated, drainPendingAuditsLocked (Squad_ID q) (enqueueSquadOutboxLocked KubernetesOpUpsertSquad updated s2)))"

definition GetBoardPolicy :: "string \<Rightarrow> MemoryStore \<Rightarrow> BoardPolicy res" where
  "GetBoardPolicy squadID s =
     (case gm_get (squads s) squadID of None \<Rightarrow> Inl ErrNotFound | Some q \<Rightarrow> Inr (Squad_BoardPolicy q))"

definition UpdateBoardPolicy :: "string \<Rightarrow> BoardPolicy \<Rightarrow> MemoryStore \<Rightarrow> Squad res \<times> MemoryStore" where
  "UpdateBoardPolicy squadID policy s =
     (case gm_get (squads s) squadID of None \<Rightarrow> (Inl ErrNotFound, s)
      | Some existing \<Rightarrow>
          let updated = existing\<lparr>Squad_BoardPolicy := policy, Squad_UpdatedAt := env_now s\<rparr>
          in (Inr updated, drainPendingAuditsLocked squadID (s\<lparr>squads := gm_put squadID updated (squads s)\<rparr>)))"

definition deleteSquadBoardLocked :: "string \<Rightarrow> string \<Rightarrow> MemoryStore \<Rightarrow> MemoryStore" where
  "deleteSquadBoardLocked boardID squadID s =
     s\<lparr>boards := gm_del boardID (boards s), boardsBySquad := gm_del squadID (boardsBySquad s),
       tasks := gm_delete_if (\<lambda>t. Task_BoardID t = boardID) (tasks s)\<rparr>"

definition drop_identity :: "string \<Rightarrow> MemoryStore \<Rightarrow> MemoryStore" where
  "drop_identity agentID s =
     (case gm_get (identityAgent s) agentID of None \<Rightarrow> s
      | Some identityID \<Rightarrow> s\<lparr>identities := gm_del identityID (identities s), identityAgent := gm_del agentID (identityAgent s)\<rparr>)"

definition delete_agent_row :: "string \<Rightarrow> MemoryStore \<Rightarrow> MemoryStore" where
  "delete_agent_row agentID s = (let s1 = drop_identity agentID s in s1\<lparr>agents := gm_del agentID (agents s1)\<rparr>)"

definition deleteSquadAgentsLocked :: "string \<Rightarrow> MemoryStore \<Rightarrow> MemoryStore" where
  "deleteSquadAgentsLocked squadID s =
     fold delete_agent_row (map fst (filter (\<lambda>p. Agent_SquadID (snd p) = squadID) (agents s))) s"

definition deleteSquadGrantsLocked :: "string \<Rightarrow> MemoryStore \<Rightarrow> MemoryStore" where
  "deleteSquadGrantsLocked squadID s = s\<lparr>grants := gm_delete_if (\<lambda>g. AG_SquadID g = squadID) (grants s)\<rparr>"

definition DeleteSquad :: "string \<Rightarrow> MemoryStore \<Rightarrow> unit res \<times> MemoryStore" where
  "DeleteSquad qid s =
     (case gm_get (squads s) qid of None \<Rightarrow> (Inl ErrNotFound, s)
      | Some squad \<Rightarrow>
          let s1 = fold (enqueueAgentOutboxLocked KubernetesOpDeleteAgent)
                     (filter (\<lambda>a. Agent_SquadID a = qid) (gm_vals (agents s))) s;
              s2 = enqueueSquadOutboxLocked KubernetesOpDeleteSquad squad s1;
              s3 = s2\<lparr>squads := gm_del qid (squads s2)\<rparr>;
              s4 = (case gm_get (boardsBySquad s3) qid of None \<Rightarrow> s3 | Some boardID \<Rightarrow> deleteSquadBoardLocked boardID qid s3);
              s5 = deleteSquadGrantsLocked qid (deleteSquadAgentsLocked qid s4)
          in (Inr (), drainPendingAuditsLocked qid s5))"

definition ListSquads :: "string \<Rightarrow> MemoryStore \<Rightarrow> Squad list" where
  "ListSquads ownerID s =
     sort_by (cmp_on Squad_Name) (filter (\<lambda>q. ownerID = [] \<or> Squad_OwnerID q = ownerID) (gm_vals (squads s)))"

section \<open>Agents\<close>

definition validateAgentModelBinding :: "Agent \<Rightarrow> bool" where
  "validateAgentModelBinding a \<longleftrightarrow> \<not> (Agent_AIModelID a \<noteq> [] \<and> Agent_AIModelID a = Agent_FallbackAIModelID a)"

definition deriveWorkspacePVCNameLocked :: "Agent \<Rightarrow> MemoryStore \<Rightarrow> string" where
  "deriveWorkspacePVCNameLocked a s =
     (case gm_get (squads s) (Agent_SquadID a) of None \<Rightarrow> []
      | Some squad \<Rightarrow>
          let (ownerName, ownerEmail) = (case gm_get (users s) (Squad_OwnerID squad) of None \<Rightarrow> ([], [])
                                         | Some u \<Rightarrow> (User_Name u, User_Email u))
          in WorkspacePVCName (OwnerSlug ownerName ownerEmail (Squad_OwnerID squad)) (Squad_Name squad) (Agent_Name a) (Agent_ID a))"

definition CreateAgent :: "Agent \<Rightarrow> MemoryStore \<Rightarrow> Agent res \<times> MemoryStore" where
  "CreateAgent a s =
     (case gm_get (squads s) (Agent_SquadID a) of None \<Rightarrow> (Inl ErrNotFound, s)
      | Some squad \<Rightarrow>
          if list_ex (\<lambda>existing. squad_owner s (Agent_SquadID existing) = Some (Squad_OwnerID squad) \<and>
                                 EqualFold (Agent_Name existing) (Agent_Name a)) (gm_vals (agents s))
          then (Inl ErrConflict, s)
          else if \<not> validateAgentModelBinding a then (Inl ErrConflict, s)
          else
            let now = env_now s; (nid, s1) = NewString s;
                a1 = a\<lparr>Agent_ID := nid\<rparr>;
                a2 = (if Agent_WorkspacePVCName a1 = [] then a1\<lparr>Agent_WorkspacePVCName := deriveWorkspacePVCNameLocked a1 s1\<rparr> else a1);
                created = a2\<lparr>Agent_Status := (if Agent_Status a2 = [] then AgentIdle else Agent_Status a2),
                             Agent_CreatedAt := now, Agent_UpdatedAt := now\<rparr>;
                s2 = revise_prompt (Agent_SystemPrompt created \<noteq> []) (\<lambda>i. i\<lparr>PRI_ScopeID := nid\<rparr>) (Agent_SystemPrompt created) s1;
                s3 = s2\<lparr>agents := gm_put nid created (agents s2)\<rparr>
            in (Inr created, drainPendingAuditsLocked nid (enqueueAgentOutboxLocked KubernetesOpUpsertAgent created s3)))"

definition GetAgent :: "string \<Rightarrow> MemoryStore \<Rightarrow> Agent res" where
  "GetAgent aid s = (case gm_get (agents s) aid of None \<Rightarrow> Inl ErrNotFound | Some a \<Rightarrow> Inr a)"

definition UpdateAgent :: "Agent \<Rightarrow> MemoryStore \<Rightarrow> Agent res \<times> MemoryStore" where
  "UpdateAgent a s =
     (case gm_get (agents s) (Agent_ID a) of None \<Rightarrow> (Inl ErrNotFound, s)
      | Some existing \<Rightarrow>
          if list_ex (\<lambda>other. Agent_ID other \<noteq> Agent_ID a \<and> squad_owner s (Agent_SquadID existing) \<noteq> None \<and>
                              squad_owner s (Agent_SquadID existing) = squad_owner s (Agent_SquadID other) \<and>
                              EqualFold (Agent_Name other) (Agent_Name a)) (gm_vals (agents s))
          then (Inl ErrConflict, s)
          else if \<not> validateAgentModelBinding a then (Inl ErrConflict, s)
          else
            let updated = a\<lparr>Agent_SquadID := Agent_SquadID existing, Agent_CreatedAt := Agent_CreatedAt existing,
                            Agent_WorkspacePVCName := Agent_WorkspacePVCName existing, Agent_UpdatedAt := env_now s\<rparr>;
                s1 = revise_prompt (Agent_SystemPrompt existing \<noteq> Agent_SystemPrompt updated) (\<lambda>i. i) (Agent_SystemPrompt updated) s;
                s2 = s1\<lparr>agents := gm_put (Agent_ID a) updated (agents s1)\<rparr>
            in (Inr updated, drainPendingAuditsLocked (Agent_ID a) (enqueueAgentOutboxLocked KubernetesOpUpsertAgent updated s2)))"

definition DeleteAgent :: "string \<Rightarrow> MemoryStore \<Rightarrow> unit res \<times> MemoryStore" where
  "DeleteAgent aid s =
     (case gm_get (agents s) aid of None \<Rightarrow> (Inl ErrNotFound, s)
      | Some agent \<Rightarrow>
          let s1 = enqueueAgentOutboxLocked KubernetesOpDeleteAgent agent s;
              s2 = s1\<lparr>agents := gm_del aid (agents s1)\<rparr>;
              s3 = drop_identity aid s2;
              s4 = s3\<lparr>tasks := gm_map (\<lambda>t. if Task_AssigneeAgentID t = aid
                                          then t\<lparr>Task_AssigneeAgentID := [], Task_UpdatedAt := env_now s\<rparr> else t) (tasks s3)\<rparr>
          in (Inr (), drainPendingAuditsLocked aid s4))"

definition ListAgents :: "string \<Rightarrow> MemoryStore \<Rightarrow> Agent list" where
  "ListAgents squadID s = sort_by (cmp_on Agent_Name) (filter (\<lambda>a. Agent_SquadID a = squadID) (gm_vals (agents s)))"

definition SetAgentStatus :: "string \<Rightarrow> string \<Rightarrow> MemoryStore \<Rightarrow> unit res \<times> MemoryStore" where
  "SetAgentStatus aid status s =
     (case gm_get (agents s) aid of None \<Rightarrow> (Inl ErrNotFound, s)
      | Some a \<Rightarrow>
          let a' = a\<lparr>Agent_Status := status, Agent_UpdatedAt := env_now s\<rparr>
          in (Inr (), enqueueAgentOutboxLocked KubernetesOpUpsertAgent a' (s\<lparr>agents := gm_put aid a' (agents s)\<rparr>)))"

definition ListAllAgents :: "MemoryStore \<Rightarrow> Agent list" where
  "ListAllAgents s = sort_by (cmp_on Agent_Name) (gm_vals (agents s))"

section \<open>Identities\<close>

definition CreateAgentIdentity :: "AgentIdentity \<Rightarrow> MemoryStore \<Rightarrow> AgentIdentity res \<times> MemoryStore" where
  "CreateAgentIdentity i s =
     (case gm_get (agents s) (AI_AgentID i) of None \<Rightarrow> (Inl ErrNotFound, s)
      | Some agent \<Rightarrow>
          if gm_get (identityAgent s) (AI_AgentID i) \<noteq> None then (Inl ErrConflict, s)
          else
            let (nid, s1) = NewString s;
                created = i\<lparr>AI_ID := nid, AI_CreatedAt := env_now s,
                            AI_Generation := (if AI_Generation i < 1 then 1 else AI_Generation i)\<rparr>;
                agent' = agent\<lparr>Agent_IdentityID := nid, Agent_UpdatedAt := env_now s\<rparr>;
                s2 = s1\<lparr>identities := gm_put nid created (identities s1),
                        identityAgent := gm_put (AI_AgentID i) nid (identityAgent s1),
                        agents := gm_put (AI_AgentID i) agent' (agents s1)\<rparr>
            in (Inr created, drainPendingAuditsLocked nid (enqueueAgentOutboxLocked KubernetesOpUpsertAgent agent' s2)))"

definition GetAgentIdentity :: "string \<Rightarrow> MemoryStore \<Rightarrow> AgentIdentity option res" where
  "GetAgentIdentity agentID s =
     (case gm_get (identityAgent s) agentID of None \<Rightarrow> Inl ErrNotFound
      | Some identityID \<Rightarrow> Inr (gm_get (identities s) identityID))"

definition RotateAgentIdentity ::
  "string \<Rightarrow> string \<Rightarrow> string \<Rightarrow> string \<Rightarrow> MemoryStore \<Rightarrow> AgentIdentity res \<times> MemoryStore" where
  "RotateAgentIdentity agentID credentialRef credentialHash virtualKeyRef s =
     (case gm_get (identityAgent s) agentID of None \<Rightarrow> (Inl ErrNotFound, s)
      | Some identityID \<Rightarrow>
          case gm_get (identities s) identityID of None \<Rightarrow> (Inl NilDereference, s)
          | Some identity \<Rightarrow>
              let identity' = identity\<lparr>AI_CredentialRef := credentialRef, AI_CredentialHash := credentialHash,
                    AI_VirtualKeyRef := virtualKeyRef, AI_GatewayKeyToken := [], AI_GatewayKeyStatus := GatewayKeyNone,
                    AI_RotatedAt := env_now s, AI_Generation := AI_Generation identity + 1\<rparr>;
                  s1 = s\<lparr>identities := gm_put identityID identity' (identities s)\<rparr>
              in case gm_get (agents s1) agentID of None \<Rightarrow> (Inl NilDereference, s1)
                 | Some agent \<Rightarrow>
                     (Inr identity', drainPendingAuditsLocked (AI_ID identity')
                        (enqueueAgentOutboxLocked KubernetesOpUpsertAgent agent s1)))"

definition SetAgentIdentityGatewayKey :: "string \<Rightarrow> string \<Rightarrow> string \<Rightarrow> MemoryStore \<Rightarrow> AgentIdentity res \<times> MemoryStore" where
  "SetAgentIdentityGatewayKey agentID token status s =
     (case gm_get (identityAgent s) agentID of None \<Rightarrow> (Inl ErrNotFound, s)
      | Some identityID \<Rightarrow>
          case gm_get (identities s) identityID of None \<Rightarrow> (Inl NilDereference, s)
          | Some identity \<Rightarrow>
              let identity' = identity\<lparr>AI_GatewayKeyToken := token, AI_GatewayKeyStatus := status\<rparr>
              in (Inr identity', s\<lparr>identities := gm_put identityID identity' (identities s)\<rparr>))"

end
