(* ===== verification/Squad_Laws.thy ===== *)
theory Squad_Laws
  imports Squad_Store Message_Store
begin

text \<open>
  What the directory of squads, boards, agents and identities guarantees: names are unique per owner,
  every squad has its board, every agent its squad, every identity its agent, over arbitrary runs from
  an empty store; deletion cascades; rotation retires old credentials.
\<close>

section \<open>The parts of the invariant\<close>

definition squads_unique :: "(string \<Rightarrow> Squad option) \<Rightarrow> bool" where
  "squads_unique Q \<longleftrightarrow> (\<forall>k1 k2 q1 q2. Q k1 = Some q1 \<longrightarrow> Q k2 = Some q2 \<longrightarrow> Squad_OwnerID q1 = Squad_OwnerID q2 \<longrightarrow>
     EqualFold (Squad_Name q1) (Squad_Name q2) \<longrightarrow> k1 = k2)"

definition owner_of :: "(string \<Rightarrow> Squad option) \<Rightarrow> Agent \<Rightarrow> string option" where
  "owner_of Q a = map_option Squad_OwnerID (Q (Agent_SquadID a))"

definition agents_unique :: "(string \<Rightarrow> Squad option) \<Rightarrow> (string \<Rightarrow> Agent option) \<Rightarrow> bool" where
  "agents_unique Q A \<longleftrightarrow> (\<forall>k1 k2 a1 a2. A k1 = Some a1 \<longrightarrow> A k2 = Some a2 \<longrightarrow> owner_of Q a1 \<noteq> None \<longrightarrow>
     owner_of Q a1 = owner_of Q a2 \<longrightarrow> EqualFold (Agent_Name a1) (Agent_Name a2) \<longrightarrow> k1 = k2)"

definition refs_ok :: "(string \<Rightarrow> Squad option) \<Rightarrow> (string \<Rightarrow> Agent option) \<Rightarrow> bool" where
  "refs_ok Q A \<longleftrightarrow> (\<forall>k a. A k = Some a \<longrightarrow> Q (Agent_SquadID a) \<noteq> None)"

definition ids_ok :: "(string \<Rightarrow> Agent option) \<Rightarrow> (string \<Rightarrow> AgentIdentity option) \<Rightarrow> (string \<Rightarrow> string option) \<Rightarrow> bool" where
  "ids_ok A I IA \<longleftrightarrow> (\<forall>a i. IA a = Some i \<longrightarrow> A a \<noteq> None \<and> (\<exists>idn. I i = Some idn \<and> AI_AgentID idn = a))"

definition boards_ok :: "(string \<Rightarrow> Squad option) \<Rightarrow> (string \<Rightarrow> Board option) \<Rightarrow> (string \<Rightarrow> string option) \<Rightarrow> bool" where
  "boards_ok Q B BS \<longleftrightarrow> (\<forall>k. Q k \<noteq> None \<longleftrightarrow> BS k \<noteq> None) \<and>
     (\<forall>k b. BS k = Some b \<longrightarrow> (\<exists>bd. B b = Some bd \<and> Board_SquadID bd = k))"

definition keys_ok :: "MemoryStore \<Rightarrow> bool" where
  "keys_ok s \<longleftrightarrow> inj (env_uuid s) \<and> gm_wf (squads s) \<and> gm_wf (agents s) \<and>
     (\<forall>k q. gm_get (squads s) k = Some q \<longrightarrow> Squad_ID q = k \<and> issued s k) \<and>
     (\<forall>k a. gm_get (agents s) k = Some a \<longrightarrow> Agent_ID a = k \<and> issued s k) \<and>
     (\<forall>k i. gm_get (identities s) k = Some i \<longrightarrow> issued s k) \<and>
     (\<forall>k b. gm_get (boards s) k = Some b \<longrightarrow> issued s k)"

definition dir_inv :: "MemoryStore \<Rightarrow> bool" where
  "dir_inv s \<longleftrightarrow> keys_ok s \<and> squads_unique (gm_get (squads s)) \<and> agents_unique (gm_get (squads s)) (gm_get (agents s)) \<and>
     refs_ok (gm_get (squads s)) (gm_get (agents s)) \<and> ids_ok (gm_get (agents s)) (gm_get (identities s)) (gm_get (identityAgent s)) \<and>
     boards_ok (gm_get (squads s)) (gm_get (boards s)) (gm_get (boardsBySquad s))"

lemmas dir_parts = squads_unique_def agents_unique_def refs_ok_def ids_ok_def boards_ok_def owner_of_def

lemma dir_invD:
  assumes "dir_inv s"
  shows "inj (env_uuid s)" and "gm_wf (squads s)" and "gm_wf (agents s)"
    and "gm_get (squads s) k = Some q \<Longrightarrow> Squad_ID q = k" and "gm_get (squads s) k = Some q \<Longrightarrow> issued s k"
    and "gm_get (agents s) k = Some a \<Longrightarrow> Agent_ID a = k" and "gm_get (agents s) k = Some a \<Longrightarrow> issued s k"
    and "gm_get (identities s) k = Some i \<Longrightarrow> issued s k" and "gm_get (boards s) k = Some b \<Longrightarrow> issued s k"
    and "squads_unique (gm_get (squads s))" and "agents_unique (gm_get (squads s)) (gm_get (agents s))"
    and "refs_ok (gm_get (squads s)) (gm_get (agents s))"
    and "ids_ok (gm_get (agents s)) (gm_get (identities s)) (gm_get (identityAgent s))"
    and "boards_ok (gm_get (squads s)) (gm_get (boards s)) (gm_get (boardsBySquad s))"
  using assms unfolding dir_inv_def keys_ok_def by blast+

lemma dir_invI:
  assumes "inj (env_uuid s)" and "gm_wf (squads s)" and "gm_wf (agents s)"
    and "\<And>k q. gm_get (squads s) k = Some q \<Longrightarrow> Squad_ID q = k \<and> issued s k"
    and "\<And>k a. gm_get (agents s) k = Some a \<Longrightarrow> Agent_ID a = k \<and> issued s k"
    and "\<And>k i. gm_get (identities s) k = Some i \<Longrightarrow> issued s k" and "\<And>k b. gm_get (boards s) k = Some b \<Longrightarrow> issued s k"
    and "squads_unique (gm_get (squads s))" and "agents_unique (gm_get (squads s)) (gm_get (agents s))"
    and "refs_ok (gm_get (squads s)) (gm_get (agents s))"
    and "ids_ok (gm_get (agents s)) (gm_get (identities s)) (gm_get (identityAgent s))"
    and "boards_ok (gm_get (squads s)) (gm_get (boards s)) (gm_get (boardsBySquad s))"
  shows "dir_inv s"
  using assms unfolding dir_inv_def keys_ok_def by blast

lemma dir_fresh:
  assumes "dir_inv s" and "env_ctr s \<le> n"
  shows "gm_get (squads s) (env_uuid s n) = None" and "gm_get (agents s) (env_uuid s n) = None"
    and "gm_get (identities s) (env_uuid s n) = None" and "gm_get (boards s) (env_uuid s n) = None"
proof -
  have no: "\<not> issued s (env_uuid s n)" using not_issued_next [OF dir_invD(1) [OF assms(1)] assms(2)] .
  show "gm_get (squads s) (env_uuid s n) = None"
    by (rule ccontr) (use no dir_invD(5) [OF assms(1)] in blast)
  show "gm_get (agents s) (env_uuid s n) = None"
    by (rule ccontr) (use no dir_invD(7) [OF assms(1)] in blast)
  show "gm_get (identities s) (env_uuid s n) = None"
    by (rule ccontr) (use no dir_invD(8) [OF assms(1)] in blast)
  show "gm_get (boards s) (env_uuid s n) = None"
    by (rule ccontr) (use no dir_invD(9) [OF assms(1)] in blast)
qed

text \<open>The invariant reads eight fields only.\<close>

lemma dir_frame:
  assumes "dir_inv s" and "squads t = squads s" and "agents t = agents s" and "identities t = identities s"
    and "identityAgent t = identityAgent s" and "boards t = boards s" and "boardsBySquad t = boardsBySquad s"
    and "env_uuid t = env_uuid s" and "env_ctr s \<le> env_ctr t"
  shows "dir_inv t"
  using assms issued_mono [of s _ t] by (auto simp: dir_inv_def keys_ok_def)

lemma dir_drain [simp]: "dir_inv s \<Longrightarrow> dir_inv (drainPendingAuditsLocked r s)"
  by (erule dir_frame) simp_all

lemma dir_enqueue [simp]: "dir_inv s \<Longrightarrow> dir_inv (enqueueKubernetesOutboxLocked a b c p s)"
  by (erule dir_frame) simp_all

lemma dir_enqueue_squad [simp]: "dir_inv s \<Longrightarrow> dir_inv (enqueueSquadOutboxLocked op q s)"
  by (simp add: enqueueSquadOutboxLocked_def)

lemma dir_enqueue_agent [simp]: "dir_inv s \<Longrightarrow> dir_inv (enqueueAgentOutboxLocked op a s)"
  by (simp add: enqueueAgentOutboxLocked_def Let_def)

lemma dir_revise: "dir_inv s \<Longrightarrow> dir_inv (revise_prompt ch adj txt s)"
  by (erule dir_frame) (simp_all add: revise_ctr)

section \<open>Map-level preservation\<close>

lemma squads_unique_put:
  "squads_unique Q \<Longrightarrow>
   (\<And>k' q'. Q k' = Some q' \<Longrightarrow> k' \<noteq> k \<Longrightarrow> Squad_OwnerID q' = Squad_OwnerID q \<Longrightarrow> \<not> EqualFold (Squad_Name q') (Squad_Name q)) \<Longrightarrow>
   squads_unique (Q(k \<mapsto> q))"
  unfolding squads_unique_def by (metis EqualFold_sym fun_upd_apply option.inject)

lemma squads_unique_del: "squads_unique Q \<Longrightarrow> squads_unique (Q(k := None))"
  unfolding squads_unique_def by (metis fun_upd_apply option.distinct(1))

lemma agents_unique_put:
  "agents_unique Q A \<Longrightarrow>
   (\<And>k' a'. A k' = Some a' \<Longrightarrow> k' \<noteq> k \<Longrightarrow> owner_of Q a' \<noteq> None \<Longrightarrow> owner_of Q a' = owner_of Q a \<Longrightarrow>
      \<not> EqualFold (Agent_Name a') (Agent_Name a)) \<Longrightarrow>
   agents_unique Q (A(k \<mapsto> a))"
  unfolding agents_unique_def by (metis EqualFold_sym fun_upd_apply option.inject)

lemma agents_unique_sub:
  "agents_unique Q A \<Longrightarrow> (\<And>k a. A' k = Some a \<Longrightarrow> A k = Some a \<and> owner_of Q' a = owner_of Q a) \<Longrightarrow> agents_unique Q' A'"
  unfolding agents_unique_def by metis

lemma squad_conflict_iff:
  "gm_wf m \<Longrightarrow> list_ex P (gm_vals m) \<longleftrightarrow> (\<exists>k v. gm_get m k = Some v \<and> P v)"
  unfolding list_ex_iff by (meson gm_vals_iff)

section \<open>Squads\<close>

lemma create_squad_inv:
  assumes inv: "dir_inv s" shows "dir_inv (snd (CreateSquad q s))"
proof (cases "list_ex (\<lambda>existing. Squad_OwnerID existing = Squad_OwnerID q \<and> EqualFold (Squad_Name existing) (Squad_Name q))
           (gm_vals (squads s))")
  case False
  note wf = dir_invD(2) [OF inv]
  define nid where "nid = env_uuid s (env_ctr s)"
  define bid where "bid = env_uuid s (Suc (env_ctr s))"
  define created where "created = q\<lparr>Squad_ID := nid, Squad_Status := (if Squad_Status q = [] then SquadActive else Squad_Status q),
                        Squad_CreatedAt := env_now s, Squad_UpdatedAt := env_now s\<rparr>"
  define t where "t = s\<lparr>squads := gm_put nid created (squads s), env_ctr := Suc (Suc (env_ctr s)),
      boards := gm_put bid \<lparr>Board_ID = bid, Board_SquadID = nid, Board_CreatedAt = env_now s\<rparr> (boards s),
      boardsBySquad := gm_put nid bid (boardsBySquad s)\<rparr>"
  have noq: "gm_get (squads s) nid = None" and nob: "gm_get (boards s) bid = None"
    using dir_fresh [OF inv] by (simp_all add: nid_def bid_def)
  have iss: "issued t nid" "issued t bid"
    unfolding issued_def by (auto simp: t_def nid_def bid_def intro: exI [of _ "env_ctr s"] exI [of _ "Suc (env_ctr s)"])
  have mono: "issued s k \<Longrightarrow> issued t k" for k using issued_mono [of s k t] by (simp add: t_def)
  have "dir_inv t"
  proof (rule dir_invI)
    show "inj (env_uuid t)" "gm_wf (squads t)" "gm_wf (agents t)" using dir_invD(1-3) [OF inv] by (simp_all add: t_def)
    show "Squad_ID v = k \<and> issued t k" if "gm_get (squads t) k = Some v" for k v
      using that dir_invD(4,5) [OF inv, of k v] mono iss(1) by (auto simp: t_def created_def split: if_splits)
    show "Agent_ID v = k \<and> issued t k" if "gm_get (agents t) k = Some v" for k v
      using that dir_invD(6,7) [OF inv, of k v] mono by (auto simp: t_def)
    show "issued t k" if "gm_get (identities t) k = Some v" for k v
      using that dir_invD(8) [OF inv, of k v] mono by (auto simp: t_def)
    show "issued t k" if "gm_get (boards t) k = Some v" for k v
      using that dir_invD(9) [OF inv, of k v] mono iss(2) by (auto simp: t_def split: if_splits)
    have "squads_unique ((gm_get (squads s))(nid \<mapsto> created))"
      using False by (intro squads_unique_put dir_invD(10) [OF inv]) (auto simp: squad_conflict_iff [OF wf] created_def)
    then show "squads_unique (gm_get (squads t))" by (simp add: t_def gm_fun)
    have "owner_of (gm_get (squads t)) a = owner_of (gm_get (squads s)) a" if "gm_get (agents s) k = Some a" for k a
    proof -
      have "Agent_SquadID a \<noteq> nid" using that dir_invD(12) [OF inv] noq by (force simp: refs_ok_def)
      then show ?thesis by (simp add: t_def owner_of_def)
    qed
    then show "agents_unique (gm_get (squads t)) (gm_get (agents t))"
      using agents_unique_sub [OF dir_invD(11) [OF inv]] by (simp add: t_def)
    show "refs_ok (gm_get (squads t)) (gm_get (agents t))"
      using dir_invD(12) [OF inv] by (auto simp: refs_ok_def t_def)
    show "ids_ok (gm_get (agents t)) (gm_get (identities t)) (gm_get (identityAgent t))"
      using dir_invD(13) [OF inv] by (simp add: t_def)
    have "gm_get (boardsBySquad s) k \<noteq> Some bid" for k
      using dir_invD(14) [OF inv] nob by (force simp: boards_ok_def)
    then show "boards_ok (gm_get (squads t)) (gm_get (boards t)) (gm_get (boardsBySquad t))"
      using dir_invD(14) [OF inv] by (auto simp: boards_ok_def t_def)
  qed
  moreover have "snd (CreateSquad q s) = drainPendingAuditsLocked nid (enqueueSquadOutboxLocked KubernetesOpUpsertSquad created
      (revise_prompt (Squad_Prompt created \<noteq> []) (\<lambda>i. i\<lparr>PRI_ScopeID := nid\<rparr>) (Squad_Prompt created) t))"
    using False unfolding CreateSquad_def t_def bid_def created_def nid_def by (simp add: NewString_def Let_def split del: if_split)
  ultimately show ?thesis by (simp add: dir_revise)
qed (use inv in \<open>simp add: CreateSquad_def\<close>)

text \<open>Rewriting a squad in place keeps the directory as long as owner and identifier stay and the name
  does not clash.\<close>

lemma put_squad_inv:
  assumes inv: "dir_inv s" and old: "gm_get (squads s) k = Some old" and new: "Squad_ID new = k" "Squad_OwnerID new = Squad_OwnerID old"
    and free: "\<And>k' q'. gm_get (squads s) k' = Some q' \<Longrightarrow> k' \<noteq> k \<Longrightarrow> Squad_OwnerID q' = Squad_OwnerID new \<Longrightarrow>
      \<not> EqualFold (Squad_Name q') (Squad_Name new)"
  shows "dir_inv (s\<lparr>squads := gm_put k new (squads s)\<rparr>)" (is "dir_inv ?t")
proof (rule dir_invI)
  show "inj (env_uuid ?t)" "gm_wf (squads ?t)" "gm_wf (agents ?t)" using dir_invD(1-3) [OF inv] by simp_all
  show "Squad_ID v = j \<and> issued ?t j" if "gm_get (squads ?t) j = Some v" for j v
    using that dir_invD(4,5) [OF inv, of j] old new(1) by (auto simp: issued_def split: if_splits)
  show "Agent_ID v = j \<and> issued ?t j" if "gm_get (agents ?t) j = Some v" for j v
    using that dir_invD(6,7) [OF inv, of j v] by (auto simp: issued_def)
  show "issued ?t j" if "gm_get (identities ?t) j = Some v" for j v
    using that dir_invD(8) [OF inv, of j v] by (auto simp: issued_def)
  show "issued ?t j" if "gm_get (boards ?t) j = Some v" for j v
    using that dir_invD(9) [OF inv, of j v] by (auto simp: issued_def)
  have "squads_unique ((gm_get (squads s))(k \<mapsto> new))"
    by (rule squads_unique_put [OF dir_invD(10) [OF inv]]) (rule free)
  then show "squads_unique (gm_get (squads ?t))" by (simp add: gm_fun)
  have "owner_of (gm_get (squads ?t)) a = owner_of (gm_get (squads s)) a" for a
    using old new(2) by (simp add: owner_of_def)
  then show "agents_unique (gm_get (squads ?t)) (gm_get (agents ?t))"
    using agents_unique_sub [OF dir_invD(11) [OF inv]] by simp
  show "refs_ok (gm_get (squads ?t)) (gm_get (agents ?t))" using dir_invD(12) [OF inv] by (auto simp: refs_ok_def)
  show "ids_ok (gm_get (agents ?t)) (gm_get (identities ?t)) (gm_get (identityAgent ?t))" using dir_invD(13) [OF inv] by simp
  show "boards_ok (gm_get (squads ?t)) (gm_get (boards ?t)) (gm_get (boardsBySquad ?t))"
    using dir_invD(14) [OF inv] old by (auto simp: boards_ok_def)
qed

lemma update_squad_inv:
  assumes inv: "dir_inv s" shows "dir_inv (snd (UpdateSquad q s))"
proof (cases "gm_get (squads s) (Squad_ID q)")
  case (Some old)
  let ?clash = "\<lambda>other. Squad_ID other \<noteq> Squad_ID q \<and> Squad_OwnerID other = Squad_OwnerID old \<and> EqualFold (Squad_Name other) (Squad_Name q)"
  show ?thesis
  proof (cases "list_ex ?clash (gm_vals (squads s))")
    case False
    define new where "new = q\<lparr>Squad_OwnerID := Squad_OwnerID old, Squad_Namespace := Squad_Namespace old,
                            Squad_CreatedAt := Squad_CreatedAt old, Squad_UpdatedAt := env_now s\<rparr>"
    have "dir_inv (s\<lparr>squads := gm_put (Squad_ID q) new (squads s)\<rparr>)"
    proof (rule put_squad_inv [OF inv Some])
      fix k' q' assume "gm_get (squads s) k' = Some q'" "k' \<noteq> Squad_ID q" "Squad_OwnerID q' = Squad_OwnerID new"
      then show "\<not> EqualFold (Squad_Name q') (Squad_Name new)"
        using False dir_invD(4) [OF inv, of k' q'] by (auto simp: squad_conflict_iff [OF dir_invD(2) [OF inv]] new_def)
    qed (simp_all add: new_def)
    then have "dir_inv ((revise_prompt ch adj str s)\<lparr>squads := gm_put (Squad_ID q) new (squads s)\<rparr>)" for ch adj str
      by (rule dir_frame) (simp_all add: revise_ctr)
    then show ?thesis using Some False by (simp add: UpdateSquad_def Let_def new_def)
  qed (use Some inv in \<open>simp add: UpdateSquad_def\<close>)
qed (use inv in \<open>simp add: UpdateSquad_def\<close>)

lemma policy_inv:
  assumes inv: "dir_inv s" shows "dir_inv (snd (UpdateBoardPolicy k p s))"
proof (cases "gm_get (squads s) k")
  case (Some old)
  have "dir_inv (s\<lparr>squads := gm_put k (old\<lparr>Squad_BoardPolicy := p, Squad_UpdatedAt := env_now s\<rparr>) (squads s)\<rparr>)"
    using dir_invD(10) [OF inv] Some dir_invD(4) [OF inv Some]
    by (intro put_squad_inv [OF inv Some]) (auto simp: squads_unique_def)
  then show ?thesis using Some by (simp add: UpdateBoardPolicy_def Let_def)
qed (use inv in \<open>simp add: UpdateBoardPolicy_def\<close>)

section \<open>Agents\<close>

lemma put_agent_inv:
  assumes inv: "dir_inv s" and new: "Agent_ID new = k" "issued s k" "gm_get (squads s) (Agent_SquadID new) \<noteq> None"
    and free: "\<And>k' a'. gm_get (agents s) k' = Some a' \<Longrightarrow> k' \<noteq> k \<Longrightarrow> owner_of (gm_get (squads s)) a' \<noteq> None \<Longrightarrow>
      owner_of (gm_get (squads s)) a' = owner_of (gm_get (squads s)) new \<Longrightarrow> \<not> EqualFold (Agent_Name a') (Agent_Name new)"
  shows "dir_inv (s\<lparr>agents := gm_put k new (agents s)\<rparr>)" (is "dir_inv ?t")
proof (rule dir_invI)
  show "inj (env_uuid ?t)" "gm_wf (squads ?t)" "gm_wf (agents ?t)" using dir_invD(1-3) [OF inv] by simp_all
  show "Squad_ID v = j \<and> issued ?t j" if "gm_get (squads ?t) j = Some v" for j v
    using that dir_invD(4,5) [OF inv, of j v] by (auto simp: issued_def)
  show "Agent_ID v = j \<and> issued ?t j" if "gm_get (agents ?t) j = Some v" for j v
    using that dir_invD(6,7) [OF inv, of j v] new(1,2) by (auto simp: issued_def split: if_splits)
  show "issued ?t j" if "gm_get (identities ?t) j = Some v" for j v
    using that dir_invD(8) [OF inv, of j v] by (auto simp: issued_def)
  show "issued ?t j" if "gm_get (boards ?t) j = Some v" for j v
    using that dir_invD(9) [OF inv, of j v] by (auto simp: issued_def)
  show "squads_unique (gm_get (squads ?t))" using dir_invD(10) [OF inv] by simp
  have "agents_unique (gm_get (squads s)) ((gm_get (agents s))(k \<mapsto> new))"
    by (rule agents_unique_put [OF dir_invD(11) [OF inv]]) (rule free)
  then show "agents_unique (gm_get (squads ?t)) (gm_get (agents ?t))" by (simp add: gm_fun)
  show "refs_ok (gm_get (squads ?t)) (gm_get (agents ?t))" using dir_invD(12) [OF inv] new(3) by (auto simp: refs_ok_def)
  show "ids_ok (gm_get (agents ?t)) (gm_get (identities ?t)) (gm_get (identityAgent ?t))"
    using dir_invD(13) [OF inv] by (auto simp: ids_ok_def)
  show "boards_ok (gm_get (squads ?t)) (gm_get (boards ?t)) (gm_get (boardsBySquad ?t))" using dir_invD(14) [OF inv] by simp
qed

text \<open>In particular a write that leaves identifier, squad and name alone.\<close>

lemma touch_agent_inv:
  assumes inv: "dir_inv s" and old: "gm_get (agents s) k = Some a"
    and same: "Agent_ID a' = Agent_ID a" "Agent_SquadID a' = Agent_SquadID a" "Agent_Name a' = Agent_Name a"
  shows "dir_inv (s\<lparr>agents := gm_put k a' (agents s)\<rparr>)"
proof (rule put_agent_inv [OF inv])
  show "Agent_ID a' = k" using dir_invD(6) [OF inv old] same(1) by simp
  show "issued s k" using dir_invD(7) [OF inv old] .
  show "gm_get (squads s) (Agent_SquadID a') \<noteq> None" using dir_invD(12) [OF inv] old same(2) by (auto simp: refs_ok_def)
  show "\<not> EqualFold (Agent_Name b) (Agent_Name a')"
    if "gm_get (agents s) k' = Some b" "k' \<noteq> k" "owner_of (gm_get (squads s)) b \<noteq> None"
      "owner_of (gm_get (squads s)) b = owner_of (gm_get (squads s)) a'" for k' b
  proof -
    have "owner_of (gm_get (squads s)) a' = owner_of (gm_get (squads s)) a" using same(2) by (simp add: owner_of_def)
    then show ?thesis using that old same(3) dir_invD(11) [OF inv] unfolding agents_unique_def by metis
  qed
qed

lemma owner_eq: "squad_owner s (Agent_SquadID a) = owner_of (gm_get (squads s)) a"
  by (simp add: squad_owner_def owner_of_def)

lemma create_agent_inv:
  assumes inv: "dir_inv s" shows "dir_inv (snd (CreateAgent a s))"
proof (cases "gm_get (squads s) (Agent_SquadID a)")
  case (Some q)
  let ?clash = "\<lambda>existing. squad_owner s (Agent_SquadID existing) = Some (Squad_OwnerID q) \<and> EqualFold (Agent_Name existing) (Agent_Name a)"
  show ?thesis
  proof (cases "list_ex ?clash (gm_vals (agents s)) \<or> \<not> validateAgentModelBinding a")
    case False
    define nid where "nid = env_uuid s (env_ctr s)"
    define s1 where "s1 = s\<lparr>env_ctr := Suc (env_ctr s)\<rparr>"
    have inv1: "dir_inv s1" using inv by (rule dir_frame) (simp_all add: s1_def)
    have put: "dir_inv (s1\<lparr>agents := gm_put nid new (agents s1)\<rparr>)"
      if "Agent_ID new = nid" "Agent_SquadID new = Agent_SquadID a" "Agent_Name new = Agent_Name a" for new
    proof (rule put_agent_inv [OF inv1 that(1)])
      show "issued s1 nid" unfolding issued_def by (rule exI [of _ "env_ctr s"]) (simp add: s1_def nid_def)
      show "gm_get (squads s1) (Agent_SquadID new) \<noteq> None" using Some that(2) by (simp add: s1_def)
      show "\<not> EqualFold (Agent_Name b) (Agent_Name new)"
        if "gm_get (agents s1) k' = Some b" "owner_of (gm_get (squads s1)) b = owner_of (gm_get (squads s1)) new" for k' b
      proof -
        have "owner_of (gm_get (squads s)) new = Some (Squad_OwnerID q)"
          using Some \<open>Agent_SquadID new = Agent_SquadID a\<close> by (simp add: owner_of_def)
        then have "squad_owner s (Agent_SquadID b) = Some (Squad_OwnerID q)" using that(2) by (simp add: s1_def owner_eq)
        moreover have "gm_get (agents s) k' = Some b" using that(1) by (simp add: s1_def)
        ultimately show ?thesis
          using False \<open>Agent_Name new = Agent_Name a\<close> by (auto simp: squad_conflict_iff [OF dir_invD(3) [OF inv]])
      qed
    qed
    have fin: "dir_inv ((revise_prompt ch adj str s1)\<lparr>agents := gm_put nid new (agents s1)\<rparr>)"
      if "Agent_ID new = nid" "Agent_SquadID new = Agent_SquadID a" "Agent_Name new = Agent_Name a" for new ch adj str
      using put [OF that] by (rule dir_frame) (simp_all add: revise_ctr)
    then show ?thesis
      using Some False
      by (simp add: CreateAgent_def NewString_def Let_def nid_def [symmetric] s1_def [symmetric])
  qed (use Some inv in \<open>auto simp: CreateAgent_def\<close>)
qed (use inv in \<open>simp add: CreateAgent_def\<close>)

lemma update_agent_inv:
  assumes inv: "dir_inv s" shows "dir_inv (snd (UpdateAgent a s))"
proof (cases "gm_get (agents s) (Agent_ID a)")
  case (Some old)
  let ?clash = "\<lambda>other. Agent_ID other \<noteq> Agent_ID a \<and> squad_owner s (Agent_SquadID old) \<noteq> None \<and>
     squad_owner s (Agent_SquadID old) = squad_owner s (Agent_SquadID other) \<and> EqualFold (Agent_Name other) (Agent_Name a)"
  show ?thesis
  proof (cases "list_ex ?clash (gm_vals (agents s)) \<or> \<not> validateAgentModelBinding a")
    case False
    define new where "new = a\<lparr>Agent_SquadID := Agent_SquadID old, Agent_CreatedAt := Agent_CreatedAt old,
        Agent_WorkspacePVCName := Agent_WorkspacePVCName old, Agent_UpdatedAt := env_now s\<rparr>"
    have "dir_inv (s\<lparr>agents := gm_put (Agent_ID a) new (agents s)\<rparr>)"
    proof (rule put_agent_inv [OF inv])
      show "Agent_ID new = Agent_ID a" by (simp add: new_def)
      show "issued s (Agent_ID a)" using dir_invD(7) [OF inv Some] .
      show "gm_get (squads s) (Agent_SquadID new) \<noteq> None" using dir_invD(12) [OF inv] Some by (auto simp: refs_ok_def new_def)
      show "\<not> EqualFold (Agent_Name b) (Agent_Name new)"
        if "gm_get (agents s) k' = Some b" "k' \<noteq> Agent_ID a" "owner_of (gm_get (squads s)) b \<noteq> None"
          "owner_of (gm_get (squads s)) b = owner_of (gm_get (squads s)) new" for k' b
      proof -
        have "Agent_ID b \<noteq> Agent_ID a" using dir_invD(6) [OF inv that(1)] that(2) by simp
        moreover have "squad_owner s (Agent_SquadID old) = squad_owner s (Agent_SquadID b)"
          using that(4) by (simp add: owner_eq [symmetric] new_def)
        moreover have "squad_owner s (Agent_SquadID b) \<noteq> None" using that(3) by (simp add: owner_eq)
        moreover have "\<not> ?clash b"
          using False that(1) unfolding squad_conflict_iff [OF dir_invD(3) [OF inv]] by blast
        ultimately show ?thesis by (simp add: new_def)
      qed
    qed
    then have "dir_inv ((revise_prompt ch adj str s)\<lparr>agents := gm_put (Agent_ID a) new (agents s)\<rparr>)" for ch adj str
      by (rule dir_frame) (simp_all add: revise_ctr)
    then show ?thesis using Some False by (simp add: UpdateAgent_def Let_def new_def)
  next
    case True
    then have "UpdateAgent a s = (Inl ErrConflict, s)" using Some by (auto simp: UpdateAgent_def)
    then show ?thesis using inv by simp
  qed
qed (use inv in \<open>simp add: UpdateAgent_def\<close>)

lemma status_inv:
  assumes inv: "dir_inv s" shows "dir_inv (snd (SetAgentStatus k st s))"
proof (cases "gm_get (agents s) k")
  case (Some a)
  then show ?thesis by (simp add: SetAgentStatus_def Let_def touch_agent_inv [OF inv Some])
qed (use inv in \<open>simp add: SetAgentStatus_def\<close>)

lemma reset_inv:
  assumes inv: "dir_inv s" shows "dir_inv (snd (ResetAgentChat k q tr md em emm s))"
proof (cases "gm_get (agents s) k")
  case (Some a)
  have "dir_inv (s\<lparr>agents := gm_put k (a\<lparr>Agent_ChatResetAt := env_now s\<rparr>) (agents s)\<rparr>)"
    by (rule touch_agent_inv [OF inv Some]) simp_all
  then show ?thesis
    using Some by (auto simp: ResetAgentChat_def Let_def NewString_def elim!: dir_frame)
qed (use inv in \<open>simp add: ResetAgentChat_def\<close>)

section \<open>Identities\<close>

lemma put_identity_inv:
  assumes inv: "dir_inv s" and iss: "issued s i" and link: "gm_get (agents s) (AI_AgentID new) \<noteq> None"
    and own: "\<And>a. gm_get (identityAgent s) a = Some i \<Longrightarrow> a = AI_AgentID new"
  shows "dir_inv (s\<lparr>identities := gm_put i new (identities s), identityAgent := gm_put (AI_AgentID new) i (identityAgent s)\<rparr>)"
    (is "dir_inv ?t")
proof (rule dir_invI)
  show "inj (env_uuid ?t)" "gm_wf (squads ?t)" "gm_wf (agents ?t)" using dir_invD(1-3) [OF inv] by simp_all
  show "Squad_ID v = j \<and> issued ?t j" if "gm_get (squads ?t) j = Some v" for j v
    using that dir_invD(4,5) [OF inv, of j v] by (auto simp: issued_def)
  show "Agent_ID v = j \<and> issued ?t j" if "gm_get (agents ?t) j = Some v" for j v
    using that dir_invD(6,7) [OF inv, of j v] by (auto simp: issued_def)
  show "issued ?t j" if "gm_get (identities ?t) j = Some v" for j v
    using that dir_invD(8) [OF inv, of j v] iss by (auto simp: issued_def split: if_splits)
  show "issued ?t j" if "gm_get (boards ?t) j = Some v" for j v
    using that dir_invD(9) [OF inv, of j v] by (auto simp: issued_def)
  show "squads_unique (gm_get (squads ?t))" "agents_unique (gm_get (squads ?t)) (gm_get (agents ?t))"
    "refs_ok (gm_get (squads ?t)) (gm_get (agents ?t))"
    "boards_ok (gm_get (squads ?t)) (gm_get (boards ?t)) (gm_get (boardsBySquad ?t))"
    using dir_invD(10,11,12,14) [OF inv] by simp_all
  show "ids_ok (gm_get (agents ?t)) (gm_get (identities ?t)) (gm_get (identityAgent ?t))"
    using dir_invD(13) [OF inv] link own by (auto simp: ids_ok_def)
qed

lemma create_identity_inv:
  assumes inv: "dir_inv s" shows "dir_inv (snd (CreateAgentIdentity i s))"
proof (cases "gm_get (agents s) (AI_AgentID i)")
  case (Some ag)
  show ?thesis
  proof (cases "gm_get (identityAgent s) (AI_AgentID i) = None")
    case True
    define nid where "nid = env_uuid s (env_ctr s)"
    define s1 where "s1 = s\<lparr>env_ctr := Suc (env_ctr s)\<rparr>"
    define new where "new = i\<lparr>AI_ID := nid, AI_CreatedAt := env_now s, AI_Generation := (if AI_Generation i < 1 then 1 else AI_Generation i)\<rparr>"
    have inv1: "dir_inv s1" using inv by (rule dir_frame) (simp_all add: s1_def)
    have "gm_get (identities s) nid = None" using dir_fresh(3) [OF inv] by (simp add: nid_def)
    then have none: "gm_get (identityAgent s) a \<noteq> Some nid" for a
      using dir_invD(13) [OF inv] by (force simp: ids_ok_def)
    have "dir_inv (s1\<lparr>identities := gm_put nid new (identities s1), identityAgent := gm_put (AI_AgentID new) nid (identityAgent s1)\<rparr>)"
    proof (rule put_identity_inv [OF inv1])
      show "issued s1 nid" unfolding issued_def by (rule exI [of _ "env_ctr s"]) (simp add: s1_def nid_def)
    qed (use Some none in \<open>simp_all add: s1_def new_def\<close>)
    then have "dir_inv (s1\<lparr>identities := gm_put nid new (identities s1), identityAgent := gm_put (AI_AgentID new) nid (identityAgent s1),
        agents := gm_put (AI_AgentID i) (ag\<lparr>Agent_IdentityID := nid, Agent_UpdatedAt := env_now s\<rparr>) (agents s1)\<rparr>)"
      by (drule_tac touch_agent_inv [where k = "AI_AgentID i" and a = ag]) (use Some in \<open>simp_all add: s1_def\<close>)
    then show ?thesis
      using Some True by (simp add: CreateAgentIdentity_def NewString_def Let_def nid_def s1_def new_def)
  qed (use Some inv in \<open>simp add: CreateAgentIdentity_def\<close>)
qed (use inv in \<open>simp add: CreateAgentIdentity_def\<close>)

lemma gm_put_same: "gm_get m k = Some v \<Longrightarrow> gm_put k v m = m"
  by (induction m) (auto simp: gm_get_def split: if_splits)

lemma touch_identity_inv:
  assumes inv: "dir_inv s" and ia: "gm_get (identityAgent s) a = Some i" and idn: "gm_get (identities s) i = Some x"
    and same: "AI_AgentID y = AI_AgentID x"
  shows "dir_inv (s\<lparr>identities := gm_put i y (identities s)\<rparr>)"
proof -
  obtain x' where "gm_get (identities s) i = Some x'" "AI_AgentID x' = a"
    using dir_invD(13) [OF inv] ia unfolding ids_ok_def by blast
  then have ya: "AI_AgentID y = a" using idn same by simp
  have "dir_inv (s\<lparr>identities := gm_put i y (identities s), identityAgent := gm_put (AI_AgentID y) i (identityAgent s)\<rparr>)"
  proof (rule put_identity_inv [OF inv dir_invD(8) [OF inv idn]])
    show "gm_get (agents s) (AI_AgentID y) \<noteq> None" using dir_invD(13) [OF inv] ia ya by (auto simp: ids_ok_def)
    show "b = AI_AgentID y" if "gm_get (identityAgent s) b = Some i" for b
      using that dir_invD(13) [OF inv] idn same unfolding ids_ok_def by (metis option.inject)
  qed
  moreover have "gm_put (AI_AgentID y) i (identityAgent s) = identityAgent s" using ia ya by (simp add: gm_put_same)
  ultimately show ?thesis by simp
qed

lemma rotate_ok:
  assumes inv: "dir_inv s" and ia: "gm_get (identityAgent s) a = Some i"
  shows "\<exists>x ag. gm_get (identities s) i = Some x \<and> AI_AgentID x = a \<and> gm_get (agents s) a = Some ag"
  using dir_invD(13) [OF inv] ia by (auto simp: ids_ok_def)

lemma rotate_inv:
  assumes inv: "dir_inv s" shows "dir_inv (snd (RotateAgentIdentity a cr ch vk s))"
proof (cases "gm_get (identityAgent s) a")
  case (Some i)
  from rotate_ok [OF inv Some] obtain x ag where x: "gm_get (identities s) i = Some x" "gm_get (agents s) a = Some ag" by blast
  then show ?thesis
    using Some by (simp add: RotateAgentIdentity_def Let_def touch_identity_inv [OF inv Some x(1)])
qed (use inv in \<open>simp add: RotateAgentIdentity_def\<close>)

lemma gateway_key_inv:
  assumes inv: "dir_inv s" shows "dir_inv (snd (SetAgentIdentityGatewayKey a tk st s))"
proof (cases "gm_get (identityAgent s) a")
  case (Some i)
  from rotate_ok [OF inv Some] obtain x where x: "gm_get (identities s) i = Some x" by blast
  then show ?thesis
    using Some by (simp add: SetAgentIdentityGatewayKey_def Let_def touch_identity_inv [OF inv Some x])
qed (use inv in \<open>simp add: SetAgentIdentityGatewayKey_def\<close>)

section \<open>Deletion\<close>

lemma delete_row_inv:
  assumes inv: "dir_inv s" shows "dir_inv (delete_agent_row k s)" (is "dir_inv ?t")
proof -
  let ?I = "gm_get (identities s)" and ?IA = "gm_get (identityAgent s)"
  have sub: "ids_ok ((gm_get (agents s))(k := None)) (?I(i := None)) (?IA(k := None))" if "?IA k = Some i" for i
    using that dir_invD(13) [OF inv] unfolding ids_ok_def by (auto; metis option.inject)
  have sub0: "ids_ok ((gm_get (agents s))(k := None)) ?I ?IA" if "?IA k = None"
    using that dir_invD(13) [OF inv] by (auto simp: ids_ok_def)
  have ag: "agents_unique (gm_get (squads s)) ((gm_get (agents s))(k := None))"
    by (rule agents_unique_sub [OF dir_invD(11) [OF inv]]) (auto split: if_splits)
  have refs: "refs_ok (gm_get (squads s)) ((gm_get (agents s))(k := None))"
    using dir_invD(12) [OF inv] by (auto simp: refs_ok_def)
  show ?thesis
  proof (rule dir_invI)
    show "inj (env_uuid ?t)" "gm_wf (squads ?t)" "gm_wf (agents ?t)"
      using dir_invD(1-3) [OF inv] by (auto simp: delete_agent_row_def drop_identity_def Let_def split: option.splits)
    show "Squad_ID v = j \<and> issued ?t j" if "gm_get (squads ?t) j = Some v" for j v
      using that dir_invD(4,5) [OF inv, of j v]
      by (auto simp: delete_agent_row_def drop_identity_def Let_def issued_def split: option.splits)
    show "Agent_ID v = j \<and> issued ?t j" if "gm_get (agents ?t) j = Some v" for j v
      using that dir_invD(6,7) [OF inv, of j v]
      by (auto simp: delete_agent_row_def drop_identity_def Let_def issued_def split: option.splits if_splits)
    show "issued ?t j" if "gm_get (identities ?t) j = Some v" for j v
      using that dir_invD(8) [OF inv, of j v]
      by (auto simp: delete_agent_row_def drop_identity_def Let_def issued_def split: option.splits if_splits)
    show "issued ?t j" if "gm_get (boards ?t) j = Some v" for j v
      using that dir_invD(9) [OF inv, of j v]
      by (auto simp: delete_agent_row_def drop_identity_def Let_def issued_def split: option.splits)
    show "squads_unique (gm_get (squads ?t))" "agents_unique (gm_get (squads ?t)) (gm_get (agents ?t))"
      "refs_ok (gm_get (squads ?t)) (gm_get (agents ?t))"
      "boards_ok (gm_get (squads ?t)) (gm_get (boards ?t)) (gm_get (boardsBySquad ?t))"
      using dir_invD(10,14) [OF inv] ag refs
      by (simp_all add: delete_agent_row_def drop_identity_def Let_def gm_fun split: option.splits)
    show "ids_ok (gm_get (agents ?t)) (gm_get (identities ?t)) (gm_get (identityAgent ?t))"
      using sub sub0 by (simp add: delete_agent_row_def drop_identity_def Let_def gm_fun split: option.splits)
  qed
qed

lemma delete_rows_inv: "dir_inv s \<Longrightarrow> dir_inv (fold delete_agent_row ks s)"
  by (induction ks arbitrary: s) (simp_all add: delete_row_inv)

text \<open>Deletion of agent rows works on three of the maps and leaves the rest.\<close>

definition rows :: "MemoryStore \<Rightarrow> Agent gomap \<times> AgentIdentity gomap \<times> string gomap" where
  "rows s = (agents s, identities s, identityAgent s)"

definition del_rows :: "string \<Rightarrow> Agent gomap \<times> AgentIdentity gomap \<times> string gomap \<Rightarrow>
    Agent gomap \<times> AgentIdentity gomap \<times> string gomap" where
  "del_rows k r = (case r of (A, I, IA) \<Rightarrow>
     (case gm_get IA k of None \<Rightarrow> (gm_del k A, I, IA) | Some i \<Rightarrow> (gm_del k A, gm_del i I, gm_del k IA)))"

lemma delete_row_rows: "rows (delete_agent_row k s) = del_rows k (rows s)"
  by (simp add: rows_def del_rows_def delete_agent_row_def drop_identity_def Let_def split: option.splits)

lemma delete_rows_rows: "rows (fold delete_agent_row ks s) = fold del_rows ks (rows s)"
  by (induction ks arbitrary: s) (simp_all add: delete_row_rows)

lemma delete_row_rest:
  "squads (delete_agent_row j s) = squads s" "boardsBySquad (delete_agent_row j s) = boardsBySquad s"
  "boards (delete_agent_row j s) = boards s" "tasks (delete_agent_row j s) = tasks s"
  "grants (delete_agent_row j s) = grants s" "k8sOutbox (delete_agent_row j s) = k8sOutbox s"
  "env_uuid (delete_agent_row j s) = env_uuid s" "env_ctr (delete_agent_row j s) = env_ctr s"
  by (simp_all add: delete_agent_row_def drop_identity_def Let_def split: option.splits)

lemma delete_rows_rest:
  "squads (fold delete_agent_row ks s) = squads s" "boardsBySquad (fold delete_agent_row ks s) = boardsBySquad s"
  "boards (fold delete_agent_row ks s) = boards s" "tasks (fold delete_agent_row ks s) = tasks s"
  "grants (fold delete_agent_row ks s) = grants s" "k8sOutbox (fold delete_agent_row ks s) = k8sOutbox s"
  "env_uuid (fold delete_agent_row ks s) = env_uuid s" "env_ctr (fold delete_agent_row ks s) = env_ctr s"
  by (induction ks arbitrary: s) (simp_all add: delete_row_rest)

lemma del_rows_agents: "gm_get (fst (fold del_rows ks r)) k = (if k \<in> set ks then None else gm_get (fst r) k)"
  by (induction ks arbitrary: r) (auto simp: del_rows_def split: prod.splits option.splits)

lemma delete_rows_agents:
  "gm_get (agents (fold delete_agent_row ks s)) k = (if k \<in> set ks then None else gm_get (agents s) k)"
proof -
  have "gm_get (fst (rows (fold delete_agent_row ks s))) k = (if k \<in> set ks then None else gm_get (fst (rows s)) k)"
    unfolding delete_rows_rows by (rule del_rows_agents)
  then show ?thesis by (simp only: rows_def fst_conv)
qed

lemma dir_frame_rows:
  assumes "dir_inv s" and "rows t = rows s" and "squads t = squads s" and "boards t = boards s" and "boardsBySquad t = boardsBySquad s"
    and "env_uuid t = env_uuid s" and "env_ctr s \<le> env_ctr t"
  shows "dir_inv t"
  using assms by (intro dir_frame [OF assms(1)]) (simp_all add: rows_def)

lemma drop_identity_rest:
  "squads (drop_identity j s) = squads s" "boardsBySquad (drop_identity j s) = boardsBySquad s"
  "boards (drop_identity j s) = boards s" "env_uuid (drop_identity j s) = env_uuid s" "env_ctr (drop_identity j s) = env_ctr s"
  by (simp_all add: drop_identity_def split: option.splits)

lemma delete_agent_inv:
  assumes inv: "dir_inv s" shows "dir_inv (snd (DeleteAgent k s))"
proof (cases "gm_get (agents s) k")
  case (Some a)
  define e where "e = enqueueAgentOutboxLocked KubernetesOpDeleteAgent a s"
  define u where "u = drop_identity k (e\<lparr>agents := gm_del k (agents e)\<rparr>)"
  have "dir_inv (delete_agent_row k e)" by (rule delete_row_inv) (simp add: inv e_def)
  moreover have "rows u = del_rows k (rows e)"
    by (simp add: u_def rows_def del_rows_def drop_identity_def split: option.splits)
  ultimately have "dir_inv u"
    by (elim dir_frame_rows) (simp_all add: delete_row_rows delete_row_rest u_def drop_identity_rest)
  then have "dir_inv (u\<lparr>tasks := ts\<rparr>)" for ts by (rule dir_frame) simp_all
  moreover have "snd (DeleteAgent k s) = drainPendingAuditsLocked k (u\<lparr>tasks := gm_map (\<lambda>t. if Task_AssigneeAgentID t = k
      then t\<lparr>Task_AssigneeAgentID := [], Task_UpdatedAt := env_now s\<rparr> else t) (tasks u)\<rparr>)"
    unfolding DeleteAgent_def Some Let_def u_def e_def by (simp split del: if_split)
  ultimately show ?thesis by simp
qed (use inv in \<open>simp add: DeleteAgent_def\<close>)

text \<open>The squad, its board and its tasks.\<close>

definition drop_squad :: "string \<Rightarrow> string \<Rightarrow> MemoryStore \<Rightarrow> MemoryStore" where
  "drop_squad qid bid s = deleteSquadBoardLocked bid qid (s\<lparr>squads := gm_del qid (squads s)\<rparr>)"

lemma drop_squad_fields [simp]:
  "squads (drop_squad q b s) = gm_del q (squads s)" "boards (drop_squad q b s) = gm_del b (boards s)"
  "boardsBySquad (drop_squad q b s) = gm_del q (boardsBySquad s)" "agents (drop_squad q b s) = agents s"
  "identities (drop_squad q b s) = identities s" "identityAgent (drop_squad q b s) = identityAgent s"
  "env_uuid (drop_squad q b s) = env_uuid s" "env_ctr (drop_squad q b s) = env_ctr s" "grants (drop_squad q b s) = grants s"
  "tasks (drop_squad q b s) = gm_delete_if (\<lambda>t. Task_BoardID t = b) (tasks s)" "k8sOutbox (drop_squad q b s) = k8sOutbox s"
  "rows (drop_squad q b s) = rows s"
  by (simp_all add: drop_squad_def deleteSquadBoardLocked_def rows_def)

lemma drop_squad_inv:
  assumes inv: "dir_inv s" and bs: "gm_get (boardsBySquad s) q = Some b"
    and none: "\<And>k a. gm_get (agents s) k = Some a \<Longrightarrow> Agent_SquadID a \<noteq> q"
  shows "dir_inv (drop_squad q b s)" (is "dir_inv ?t")
proof (rule dir_invI)
  show "inj (env_uuid ?t)" "gm_wf (squads ?t)" "gm_wf (agents ?t)" using dir_invD(1-3) [OF inv] by simp_all
  show "Squad_ID v = j \<and> issued ?t j" if "gm_get (squads ?t) j = Some v" for j v
    using that dir_invD(4,5) [OF inv, of j v] by (auto simp: issued_def split: if_splits)
  show "Agent_ID v = j \<and> issued ?t j" if "gm_get (agents ?t) j = Some v" for j v
    using that dir_invD(6,7) [OF inv, of j v] by (auto simp: issued_def)
  show "issued ?t j" if "gm_get (identities ?t) j = Some v" for j v
    using that dir_invD(8) [OF inv, of j v] by (auto simp: issued_def)
  show "issued ?t j" if "gm_get (boards ?t) j = Some v" for j v
    using that dir_invD(9) [OF inv, of j v] by (auto simp: issued_def split: if_splits)
  show "squads_unique (gm_get (squads ?t))"
    using squads_unique_del [OF dir_invD(10) [OF inv]] by (simp add: gm_fun)
  show "agents_unique (gm_get (squads ?t)) (gm_get (agents ?t))"
    by (rule agents_unique_sub [OF dir_invD(11) [OF inv]]) (use none in \<open>auto simp: owner_of_def\<close>)
  show "refs_ok (gm_get (squads ?t)) (gm_get (agents ?t))"
    using dir_invD(12) [OF inv] none by (auto simp: refs_ok_def)
  show "ids_ok (gm_get (agents ?t)) (gm_get (identities ?t)) (gm_get (identityAgent ?t))"
    using dir_invD(13) [OF inv] by simp
  have "gm_get (boardsBySquad s) k \<noteq> Some b" if "k \<noteq> q" for k
    using that dir_invD(14) [OF inv] bs unfolding boards_ok_def by (metis option.inject)
  then show "boards_ok (gm_get (squads ?t)) (gm_get (boards ?t)) (gm_get (boardsBySquad ?t))"
    using dir_invD(14) [OF inv] by (auto simp: boards_ok_def)
qed

lemma enqueue_agents_frame:
  "squads (fold (enqueueAgentOutboxLocked op) as s) = squads s"
  "agents (fold (enqueueAgentOutboxLocked op) as s) = agents s"
  "boardsBySquad (fold (enqueueAgentOutboxLocked op) as s) = boardsBySquad s"
  "boards (fold (enqueueAgentOutboxLocked op) as s) = boards s"
  "tasks (fold (enqueueAgentOutboxLocked op) as s) = tasks s"
  "grants (fold (enqueueAgentOutboxLocked op) as s) = grants s"
  "identityAgent (fold (enqueueAgentOutboxLocked op) as s) = identityAgent s"
  "identities (fold (enqueueAgentOutboxLocked op) as s) = identities s"
  "env_uuid (fold (enqueueAgentOutboxLocked op) as s) = env_uuid s"
  "env_ctr (fold (enqueueAgentOutboxLocked op) as s) = env_ctr s + length as"
  by (induction as arbitrary: s) (simp_all add: enqueueAgentOutboxLocked_def Let_def)

lemma dir_enqueue_agents: "dir_inv s \<Longrightarrow> dir_inv (fold (enqueueAgentOutboxLocked op) as s)"
  by (erule dir_frame) (simp_all add: enqueue_agents_frame)

text \<open>The shape of a successful squad deletion.\<close>

definition squad_events :: "string \<Rightarrow> Squad \<Rightarrow> MemoryStore \<Rightarrow> MemoryStore" where
  "squad_events q squad s = enqueueSquadOutboxLocked KubernetesOpDeleteSquad squad
     (fold (enqueueAgentOutboxLocked KubernetesOpDeleteAgent) (filter (\<lambda>a. Agent_SquadID a = q) (gm_vals (agents s))) s)"

lemma squad_events_frame [simp]:
  "squads (squad_events q squad s) = squads s" "agents (squad_events q squad s) = agents s"
  "boardsBySquad (squad_events q squad s) = boardsBySquad s" "tasks (squad_events q squad s) = tasks s"
  "grants (squad_events q squad s) = grants s"
  by (simp_all add: squad_events_def enqueueSquadOutboxLocked_def enqueue_agents_frame)

abbreviation squad_rows :: "string \<Rightarrow> MemoryStore \<Rightarrow> string list" where
  "squad_rows q s \<equiv> map fst (filter (\<lambda>p. Agent_SquadID (snd p) = q) (agents s))"

lemma delete_squad_eq:
  assumes "gm_get (squads s) q = Some squad" and "gm_get (boardsBySquad s) q = Some b"
  shows "DeleteSquad q s = (Inr (), drainPendingAuditsLocked q (deleteSquadGrantsLocked q
      (fold delete_agent_row (squad_rows q s) (drop_squad q b (squad_events q squad s)))))"
proof -
  have "gm_get (boardsBySquad ((squad_events q squad s)\<lparr>squads := gm_del q (squads (squad_events q squad s))\<rparr>)) q = Some b"
    using assms(2) by simp
  then have "DeleteSquad q s = (Inr (), drainPendingAuditsLocked q (deleteSquadGrantsLocked q
      (deleteSquadAgentsLocked q (drop_squad q b (squad_events q squad s)))))"
    unfolding DeleteSquad_def assms(1) Let_def squad_events_def drop_squad_def by simp
  then show ?thesis by (simp add: deleteSquadAgentsLocked_def)
qed

lemma squad_keys:
  assumes "gm_wf (agents s)" and "gm_get (agents s) k = Some a" and "Agent_SquadID a = q"
  shows "k \<in> set (map fst (filter (\<lambda>p. Agent_SquadID (snd p) = q) (agents s)))"
  using assms by (auto simp: gm_get_def dest!: map_of_SomeD intro!: rev_image_eqI)

lemma delete_squad_inv:
  assumes inv: "dir_inv s" shows "dir_inv (snd (DeleteSquad q s))"
proof (cases "gm_get (squads s) q")
  case (Some squad)
  obtain b where b: "gm_get (boardsBySquad s) q = Some b"
    using dir_invD(14) [OF inv] Some unfolding boards_ok_def by (metis option.distinct(1) option.exhaust)
  define s2 where "s2 = squad_events q squad s"
  define u where "u = fold delete_agent_row (squad_rows q s) s2"
  have "dir_inv s2" unfolding s2_def squad_events_def by (intro dir_enqueue_squad dir_enqueue_agents inv)
  then have inv2: "dir_inv u" unfolding u_def by (rule delete_rows_inv)
  have "dir_inv (drop_squad q b u)"
  proof (rule drop_squad_inv [OF inv2])
    show "gm_get (boardsBySquad u) q = Some b" using b by (simp add: u_def s2_def delete_rows_rest)
    show "Agent_SquadID a \<noteq> q" if "gm_get (agents u) k = Some a" for k a
      using that squad_keys [OF dir_invD(3) [OF inv], of k a q] by (auto simp: u_def s2_def delete_rows_agents split: if_splits)
  qed
  then have "dir_inv (fold delete_agent_row (squad_rows q s) (drop_squad q b s2))"
    by (rule dir_frame_rows) (simp_all add: delete_rows_rows delete_rows_rest u_def)
  then have "dir_inv (deleteSquadGrantsLocked q (fold delete_agent_row (squad_rows q s) (drop_squad q b s2)))"
    by (rule dir_frame) (simp_all add: deleteSquadGrantsLocked_def)
  then show ?thesis unfolding delete_squad_eq [OF Some b] s2_def by simp
qed (use inv in \<open>simp add: DeleteSquad_def\<close>)

section \<open>Runs of the directory\<close>

definition dir_init :: "MemoryStore \<Rightarrow> bool" where
  "dir_init s \<longleftrightarrow> inj (env_uuid s) \<and> squads s = [] \<and> agents s = [] \<and> identities s = [] \<and> identityAgent s = [] \<and>
     boards s = [] \<and> boardsBySquad s = []"

text \<open>A step is a call of one of the directory operations, or any other operation of the store (a step that
  leaves the six directory maps alone and may take identifiers).\<close>

inductive dir_step :: "MemoryStore \<Rightarrow> MemoryStore \<Rightarrow> bool" where
  create_squad: "dir_step s (snd (CreateSquad q s))"
| update_squad: "dir_step s (snd (UpdateSquad q s))"
| board_policy: "dir_step s (snd (UpdateBoardPolicy k p s))"
| delete_squad: "dir_step s (snd (DeleteSquad k s))"
| create_agent: "dir_step s (snd (CreateAgent a s))"
| update_agent: "dir_step s (snd (UpdateAgent a s))"
| agent_status: "dir_step s (snd (SetAgentStatus k st s))"
| chat_reset: "dir_step s (snd (ResetAgentChat k q tr md em emm s))"
| delete_agent: "dir_step s (snd (DeleteAgent k s))"
| create_identity: "dir_step s (snd (CreateAgentIdentity i s))"
| rotate: "dir_step s (snd (RotateAgentIdentity k cr ch vk s))"
| gateway_key: "dir_step s (snd (SetAgentIdentityGatewayKey k tk st s))"
| other: "squads t = squads s \<Longrightarrow> agents t = agents s \<Longrightarrow> identities t = identities s \<Longrightarrow> identityAgent t = identityAgent s \<Longrightarrow>
    boards t = boards s \<Longrightarrow> boardsBySquad t = boardsBySquad s \<Longrightarrow> env_uuid t = env_uuid s \<Longrightarrow> env_ctr s \<le> env_ctr t \<Longrightarrow>
    dir_step s t"

lemma dir_init_inv: "dir_init s \<Longrightarrow> dir_inv s"
  by (simp add: dir_init_def dir_inv_def keys_ok_def squads_unique_def agents_unique_def refs_ok_def ids_ok_def boards_ok_def gm_get_def gm_wf_def)

lemmas dir_ops = create_squad_inv update_squad_inv policy_inv delete_squad_inv create_agent_inv update_agent_inv status_inv reset_inv
  delete_agent_inv create_identity_inv rotate_inv gateway_key_inv

interpretation dir_machine: state_machine dir_init dir_step dir_inv
proof
  show "dir_inv s" if "dir_init s" for s using that by (rule dir_init_inv)
  show "dir_inv t" if "dir_inv s" "dir_step s t" for s t
    using that(2,1) by (cases rule: dir_step.cases) (simp_all add: dir_ops, metis dir_frame)
qed

section \<open>Events of a deletion\<close>

definition queued :: "string \<Rightarrow> string \<Rightarrow> MemoryStore \<Rightarrow> bool" where
  "queued op k s \<longleftrightarrow> list_ex (\<lambda>e. KE_Operation e = op \<and> KE_AggregateID e = k \<and> KE_Status e = KubernetesOutboxPending) (gm_vals (k8sOutbox s))"

lemma gm_put_vals: "v \<in> set (gm_vals (gm_put k v m))"
  using gm_get_vals [of "gm_put k v m" k v] by simp

lemma gm_put_fresh_vals: "gm_get m k = None \<Longrightarrow> set (gm_vals m) \<subseteq> set (gm_vals (gm_put k v m))"
  unfolding gm_vals_def gm_get_def by (induction m) (fastforce split: if_splits)+

definition outbox_fresh :: "MemoryStore \<Rightarrow> bool" where
  "outbox_fresh s \<longleftrightarrow> inj (env_uuid s) \<and> unissued s (k8sOutbox s)"

lemma enqueue_queues: "queued op k (enqueueKubernetesOutboxLocked ty k op p s)"
proof -
  have "\<exists>v. KE_Operation v = op \<and> KE_AggregateID v = k \<and> KE_Status v = KubernetesOutboxPending \<and>
      k8sOutbox (enqueueKubernetesOutboxLocked ty k op p s) = gm_put (env_uuid s (env_ctr s)) v (k8sOutbox s)"
    by (simp add: enqueueKubernetesOutboxLocked_def NewString_def Let_def) (rule exI, auto)
  then show ?thesis unfolding queued_def list_ex_iff by (metis gm_put_vals)
qed

lemma enqueue_keeps:
  assumes "outbox_fresh s"
  shows "outbox_fresh (enqueueKubernetesOutboxLocked ty k' op' p s)"
    and "queued op k s \<Longrightarrow> queued op k (enqueueKubernetesOutboxLocked ty k' op' p s)"
proof -
  have un: "unissued s (k8sOutbox s)" and inj: "inj (env_uuid s)" using assms by (simp_all add: outbox_fresh_def)
  obtain v where v: "k8sOutbox (enqueueKubernetesOutboxLocked ty k' op' p s) = gm_put (env_uuid s (env_ctr s)) v (k8sOutbox s)"
    by (simp add: enqueueKubernetesOutboxLocked_def NewString_def Let_def)
  show "outbox_fresh (enqueueKubernetesOutboxLocked ty k' op' p s)"
    unfolding outbox_fresh_def v using inj by (simp add: unissued_put_issued [OF inj un])
  show "queued op k (enqueueKubernetesOutboxLocked ty k' op' p s)" if "queued op k s"
    using that gm_put_fresh_vals [OF unissued_fresh [OF un], of v] unfolding queued_def list_ex_iff v by blast
qed

lemma enqueue_agent_keeps:
  "outbox_fresh s \<Longrightarrow> outbox_fresh (enqueueAgentOutboxLocked op' a s)"
  "outbox_fresh s \<Longrightarrow> queued op k s \<Longrightarrow> queued op k (enqueueAgentOutboxLocked op' a s)"
  "queued op (Agent_ID a) (enqueueAgentOutboxLocked op a s)"
  by (simp_all add: enqueueAgentOutboxLocked_def Let_def enqueue_keeps enqueue_queues)

lemma enqueue_agents_queue:
  assumes "outbox_fresh s"
  shows "outbox_fresh (fold (enqueueAgentOutboxLocked op) as s) \<and>
    (\<forall>k. queued op k s \<or> k \<in> Agent_ID ` set as \<longrightarrow> queued op k (fold (enqueueAgentOutboxLocked op) as s))"
  using assms
proof (induction as arbitrary: s)
  case (Cons a as)
  have "queued op k (enqueueAgentOutboxLocked op a s)" if "queued op k s \<or> k = Agent_ID a" for k
    using that Cons.prems by (auto simp: enqueue_agent_keeps)
  then show ?case using Cons.IH [OF enqueue_agent_keeps(1) [OF Cons.prems, of op a]] by auto
qed simp

lemma squad_events_queue:
  assumes "outbox_fresh s"
  shows "queued KubernetesOpDeleteSquad (Squad_ID squad) (squad_events q squad s)"
    and "a \<in> set (gm_vals (agents s)) \<Longrightarrow> Agent_SquadID a = q \<Longrightarrow> queued KubernetesOpDeleteAgent (Agent_ID a) (squad_events q squad s)"
proof -
  let ?as = "filter (\<lambda>a. Agent_SquadID a = q) (gm_vals (agents s))"
  show "queued KubernetesOpDeleteSquad (Squad_ID squad) (squad_events q squad s)"
    unfolding squad_events_def enqueueSquadOutboxLocked_def by (rule enqueue_queues)
  assume "a \<in> set (gm_vals (agents s))" "Agent_SquadID a = q"
  then have "Agent_ID a \<in> Agent_ID ` set ?as" by simp
  then have "queued KubernetesOpDeleteAgent (Agent_ID a) (fold (enqueueAgentOutboxLocked KubernetesOpDeleteAgent) ?as s)"
    using enqueue_agents_queue [OF assms] by blast
  then show "queued KubernetesOpDeleteAgent (Agent_ID a) (squad_events q squad s)"
    unfolding squad_events_def enqueueSquadOutboxLocked_def using enqueue_agents_queue [OF assms] by (blast intro: enqueue_keeps(2))
qed

lemma del_rows_identity:
  "gm_get (snd (snd (fold del_rows ks r))) k = (if k \<in> set ks then None else gm_get (snd (snd r)) k)"
  by (induction ks arbitrary: r) (auto simp: del_rows_def split: prod.splits option.splits)

lemma delete_rows_identity:
  "gm_get (identityAgent (fold delete_agent_row ks s)) k = (if k \<in> set ks then None else gm_get (identityAgent s) k)"
proof -
  have "gm_get (snd (snd (rows (fold delete_agent_row ks s)))) k = (if k \<in> set ks then None else gm_get (snd (snd (rows s))) k)"
    unfolding delete_rows_rows by (rule del_rows_identity)
  then show ?thesis by (simp only: rows_def snd_conv)
qed

lemma squad_rows_iff:
  "gm_wf (agents s) \<Longrightarrow> k \<in> set (squad_rows q s) \<longleftrightarrow> (\<exists>a. gm_get (agents s) k = Some a \<and> Agent_SquadID a = q)"
  by (force simp: gm_get_def gm_wf_def)

text \<open>What a deletion leaves.\<close>

lemma delete_squad_fields:
  assumes inv: "dir_inv s" and q: "gm_get (squads s) k = Some q" and b: "gm_get (boardsBySquad s) k = Some b"
  defines "u \<equiv> snd (DeleteSquad k s)"
  shows "fst (DeleteSquad k s) = Inr ()" and "squads u = gm_del k (squads s)"
    and "gm_get (agents u) a = (if \<exists>v. gm_get (agents s) a = Some v \<and> Agent_SquadID v = k then None else gm_get (agents s) a)"
    and "gm_get (identityAgent u) a =
      (if \<exists>v. gm_get (agents s) a = Some v \<and> Agent_SquadID v = k then None else gm_get (identityAgent s) a)"
    and "gm_vals (tasks u) = filter (\<lambda>t. Task_BoardID t \<noteq> b) (gm_vals (tasks s))"
    and "gm_vals (grants u) = filter (\<lambda>g. AG_SquadID g \<noteq> k) (gm_vals (grants s))"
    and "k8sOutbox u = k8sOutbox (squad_events k q s)"
proof -
  note eq = delete_squad_eq [OF q b]
  show "fst (DeleteSquad k s) = Inr ()" using eq by simp
  show "squads u = gm_del k (squads s)" by (simp add: u_def eq deleteSquadGrantsLocked_def delete_rows_rest)
  have ia: "identityAgent (squad_events k q s) = identityAgent s"
    by (simp add: squad_events_def enqueueSquadOutboxLocked_def enqueue_agents_frame)
  show "gm_get (agents u) a = (if \<exists>v. gm_get (agents s) a = Some v \<and> Agent_SquadID v = k then None else gm_get (agents s) a)"
    using squad_rows_iff [OF dir_invD(3) [OF inv], of a k] by (auto simp: u_def eq deleteSquadGrantsLocked_def delete_rows_agents)
  show "gm_get (identityAgent u) a =
      (if \<exists>v. gm_get (agents s) a = Some v \<and> Agent_SquadID v = k then None else gm_get (identityAgent s) a)"
    using squad_rows_iff [OF dir_invD(3) [OF inv], of a k] by (auto simp: u_def eq deleteSquadGrantsLocked_def delete_rows_identity ia)
  show "gm_vals (tasks u) = filter (\<lambda>t. Task_BoardID t \<noteq> b) (gm_vals (tasks s))"
    by (simp add: u_def eq deleteSquadGrantsLocked_def delete_rows_rest)
  show "gm_vals (grants u) = filter (\<lambda>g. AG_SquadID g \<noteq> k) (gm_vals (grants s))"
    by (simp add: u_def eq deleteSquadGrantsLocked_def delete_rows_rest)
  show "k8sOutbox u = k8sOutbox (squad_events k q s)"
    by (simp add: u_def eq deleteSquadGrantsLocked_def delete_rows_rest)
qed

section \<open>Properties\<close>

text \<open>C28. Names are unique per owner. In every store reached from an empty one by directory operations,
  interleaved with anything else the store does, two squads of one owner never carry the same name up to
  case, nor do two agents of one owner, even in different squads.\<close>

theorem directory_names_unique:
  assumes "dir_init s" and "dir_step\<^sup>*\<^sup>* s t"
  shows "(\<forall>q1 q2. GetSquad k1 t = Inr q1 \<and> GetSquad k2 t = Inr q2 \<and> Squad_OwnerID q1 = Squad_OwnerID q2 \<and>
            EqualFold (Squad_Name q1) (Squad_Name q2) \<longrightarrow> k1 = k2) \<and>
         (\<forall>a1 a2 p1 p2. GetAgent k1 t = Inr a1 \<and> GetAgent k2 t = Inr a2 \<and>
            GetSquad (Agent_SquadID a1) t = Inr p1 \<and> GetSquad (Agent_SquadID a2) t = Inr p2 \<and> Squad_OwnerID p1 = Squad_OwnerID p2 \<and>
            EqualFold (Agent_Name a1) (Agent_Name a2) \<longrightarrow> k1 = k2)"
proof -
  have inv: "dir_inv t" using dir_machine.reachable_inv [OF assms] .
  show ?thesis
    using dir_invD(10,11) [OF inv]
    by (auto simp: squads_unique_def agents_unique_def owner_of_def GetSquad_def GetAgent_def split: option.splits)
qed

text \<open>C8. References resolve. In every reachable store an agent's squad exists, a squad has a board of its
  own, and an identity found for an agent is that agent's, so that rotating credentials or storing a gateway
  key never dereferences a nil pointer.\<close>

theorem directory_references_resolve:
  assumes "dir_init s" and "dir_step\<^sup>*\<^sup>* s t"
  shows "(\<forall>a. GetAgent k t = Inr a \<longrightarrow> (\<exists>q. GetSquad (Agent_SquadID a) t = Inr q)) \<and>
    (\<forall>q. GetSquad k t = Inr q \<longrightarrow> (\<exists>b bd. gm_get (boardsBySquad t) k = Some b \<and> gm_get (boards t) b = Some bd \<and> Board_SquadID bd = k)) \<and>
    (\<forall>r. GetAgentIdentity k t = Inr r \<longrightarrow> (\<exists>i. r = Some i \<and> AI_AgentID i = k)) \<and>
    fst (RotateAgentIdentity k cr ch vk t) \<noteq> Inl NilDereference \<and>
    fst (SetAgentIdentityGatewayKey k tk st t) \<noteq> Inl NilDereference"
proof -
  have inv: "dir_inv t" using dir_machine.reachable_inv [OF assms] .
  have "\<exists>q. GetSquad (Agent_SquadID a) t = Inr q" if "GetAgent k t = Inr a" for a
    using that dir_invD(12) [OF inv] unfolding refs_ok_def by (force simp: GetSquad_def GetAgent_def split: option.splits)
  moreover have "\<exists>b bd. gm_get (boardsBySquad t) k = Some b \<and> gm_get (boards t) b = Some bd \<and> Board_SquadID bd = k"
    if "GetSquad k t = Inr q" for q
    using that dir_invD(14) [OF inv] unfolding boards_ok_def
    by (auto simp: GetSquad_def split: option.splits) (metis not_None_eq)
  moreover have "\<exists>i. r = Some i \<and> AI_AgentID i = k" if "GetAgentIdentity k t = Inr r" for r
    using that rotate_ok [OF inv, of k] by (force simp: GetAgentIdentity_def split: option.splits)
  moreover have "fst (RotateAgentIdentity k cr ch vk t) \<noteq> Inl NilDereference"
    using rotate_ok [OF inv, of k] by (force simp: RotateAgentIdentity_def Let_def split: option.splits)
  moreover have "fst (SetAgentIdentityGatewayKey k tk st t) \<noteq> Inl NilDereference"
    using rotate_ok [OF inv, of k] by (force simp: SetAgentIdentityGatewayKey_def Let_def split: option.splits)
  ultimately show ?thesis by blast
qed

text \<open>Deleting a squad cascades. On a reachable store, with the outbox keyed by identifiers already drawn,
  deleting an existing squad succeeds; afterwards the squad, its agents and their identities, the tasks of its board and
  its approval grants are gone; agents of other squads are untouched; and the outbox holds a pending deletion
  for the squad and for each of its agents.\<close>

theorem DeleteSquad_cascades:
  assumes "dir_init s" and "dir_step\<^sup>*\<^sup>* s t" and "outbox_fresh t"
    and "GetSquad k t = Inr q" and "gm_get (boardsBySquad t) k = Some b"
  shows "\<exists>u. DeleteSquad k t = (Inr (), u) \<and> GetSquad k u = Inl ErrNotFound \<and> queued KubernetesOpDeleteSquad k u \<and>
    (\<forall>a v. GetAgent a t = Inr v \<longrightarrow>
       (if Agent_SquadID v = k
        then GetAgent a u = Inl ErrNotFound \<and> GetAgentIdentity a u = Inl ErrNotFound \<and> queued KubernetesOpDeleteAgent a u
        else GetAgent a u = Inr v)) \<and>
    gm_vals (tasks u) = filter (\<lambda>x. Task_BoardID x \<noteq> b) (gm_vals (tasks t)) \<and>
    gm_vals (grants u) = filter (\<lambda>g. AG_SquadID g \<noteq> k) (gm_vals (grants t))"
proof -
  have inv: "dir_inv t" using dir_machine.reachable_inv [OF assms(1,2)] .
  have q: "gm_get (squads t) k = Some q" using assms(4) by (simp add: GetSquad_def split: option.splits)
  note f = delete_squad_fields [OF inv q assms(5)]
  define u where "u = snd (DeleteSquad k t)"
  have "GetSquad k u = Inl ErrNotFound" by (simp add: GetSquad_def u_def f(2))
  moreover have "queued KubernetesOpDeleteSquad k u"
    using squad_events_queue(1) [OF assms(3), of q k] dir_invD(4) [OF inv q] by (simp add: queued_def u_def f(7))
  moreover have "if Agent_SquadID v = k
        then GetAgent a u = Inl ErrNotFound \<and> GetAgentIdentity a u = Inl ErrNotFound \<and> queued KubernetesOpDeleteAgent a u
        else GetAgent a u = Inr v" if "GetAgent a t = Inr v" for a v
  proof -
    have v: "gm_get (agents t) a = Some v" using that by (simp add: GetAgent_def split: option.splits)
    have "queued KubernetesOpDeleteAgent a u" if "Agent_SquadID v = k"
      using squad_events_queue(2) [OF assms(3) gm_get_vals [OF v] that, of q] dir_invD(6) [OF inv v] by (simp add: queued_def u_def f(7))
    then show ?thesis using v by (simp add: GetAgent_def GetAgentIdentity_def u_def f(3,4))
  qed
  moreover have "DeleteSquad k t = (Inr (), u)" using f(1) by (simp add: u_def prod_eq_iff)
  ultimately show ?thesis using f(5,6) unfolding u_def [symmetric] by blast
qed

text \<open>Rotation retires the old credentials. On a reachable store, rotating the identity of an agent that has one succeeds: the
  stored identity is the returned one, its generation is one higher, the gateway key is cleared, the new
  references are in place, the identity still belongs to the agent and no other identity changes.\<close>

theorem RotateAgentIdentity_retires:
  assumes "dir_init s" and "dir_step\<^sup>*\<^sup>* s t" and "GetAgentIdentity k t = Inr (Some old)"
  shows "\<exists>new u. RotateAgentIdentity k cr ch vk t = (Inr new, u) \<and> GetAgentIdentity k u = Inr (Some new) \<and>
    AI_Generation new = AI_Generation old + 1 \<and> AI_GatewayKeyToken new = [] \<and> AI_GatewayKeyStatus new = GatewayKeyNone \<and>
    AI_CredentialRef new = cr \<and> AI_CredentialHash new = ch \<and> AI_VirtualKeyRef new = vk \<and> AI_AgentID new = k \<and>
    (\<forall>k'. k' \<noteq> k \<longrightarrow> GetAgentIdentity k' u = GetAgentIdentity k' t)"
proof -
  have inv: "dir_inv t" using dir_machine.reachable_inv [OF assms(1,2)] .
  obtain i where i: "gm_get (identityAgent t) k = Some i" "gm_get (identities t) i = Some old"
    using assms(3) by (auto simp: GetAgentIdentity_def split: option.splits)
  obtain ag where ag: "gm_get (agents t) k = Some ag" and own: "AI_AgentID old = k" using rotate_ok [OF inv i(1)] i(2) by auto
  have other: "gm_get (identityAgent t) k' \<noteq> Some i" if "k' \<noteq> k" for k'
    using that rotate_ok [OF inv, of k' i] i(2) own by auto
  define new where "new = old\<lparr>AI_CredentialRef := cr, AI_CredentialHash := ch, AI_VirtualKeyRef := vk, AI_GatewayKeyToken := [],
    AI_GatewayKeyStatus := GatewayKeyNone, AI_RotatedAt := env_now t, AI_Generation := AI_Generation old + 1\<rparr>"
  define s1 where "s1 = t\<lparr>identities := gm_put i new (identities t)\<rparr>"
  define u where "u = drainPendingAuditsLocked (AI_ID new) (enqueueAgentOutboxLocked KubernetesOpUpsertAgent ag s1)"
  have "RotateAgentIdentity k cr ch vk t = (Inr new, u)"
    using i ag by (simp add: RotateAgentIdentity_def Let_def u_def s1_def new_def)
  moreover have ids: "identityAgent u = identityAgent t" "identities u = gm_put i new (identities t)"
    by (simp_all add: u_def s1_def enqueueAgentOutboxLocked_def Let_def)
  moreover have "GetAgentIdentity k u = Inr (Some new)" using i(1) ids by (simp add: GetAgentIdentity_def)
  moreover have "GetAgentIdentity k' u = GetAgentIdentity k' t" if "k' \<noteq> k" for k'
    using other [OF that] ids by (auto simp: GetAgentIdentity_def split: option.splits)
  ultimately show ?thesis using own by (simp add: new_def)
qed

text \<open>An update cannot move an agent. A successful \<open>UpdateAgent\<close> keeps squad, creation time and workspace
  volume name, refuses a fallback model equal to the primary one, and changes no other agent.\<close>

theorem UpdateAgent_keeps_placement:
  assumes "UpdateAgent a s = (Inr new, u)"
  shows "\<exists>old. GetAgent (Agent_ID a) s = Inr old \<and> GetAgent (Agent_ID a) u = Inr new \<and>
    Agent_SquadID new = Agent_SquadID old \<and> Agent_CreatedAt new = Agent_CreatedAt old \<and>
    Agent_WorkspacePVCName new = Agent_WorkspacePVCName old \<and> Agent_Name new = Agent_Name a \<and>
    (Agent_AIModelID new = [] \<or> Agent_AIModelID new \<noteq> Agent_FallbackAIModelID new) \<and>
    (\<forall>k. k \<noteq> Agent_ID a \<longrightarrow> GetAgent k u = GetAgent k s)"
proof -
  obtain old where old: "gm_get (agents s) (Agent_ID a) = Some old"
    using assms by (auto simp: UpdateAgent_def split: option.splits)
  have eqs: "validateAgentModelBinding a" "new = a\<lparr>Agent_SquadID := Agent_SquadID old, Agent_CreatedAt := Agent_CreatedAt old,
      Agent_WorkspacePVCName := Agent_WorkspacePVCName old, Agent_UpdatedAt := env_now s\<rparr>"
    "agents u = gm_put (Agent_ID a) new (agents s)"
    using assms old by (auto simp: UpdateAgent_def Let_def enqueueAgentOutboxLocked_def split: if_splits)
  have g: "gm_get (agents u) k = (if k = Agent_ID a then Some new else gm_get (agents s) k)" for k
    unfolding eqs(3) by simp
  have "Agent_AIModelID new = [] \<or> Agent_AIModelID new \<noteq> Agent_FallbackAIModelID new"
    using eqs(1) unfolding eqs(2) validateAgentModelBinding_def by simp
  then show ?thesis using old by (simp add: GetAgent_def g) (simp add: eqs(2))
qed

section \<open>A concrete directory\<close>

definition demo_squad :: MemoryStore where
  "demo_squad = snd (CreateSquad (Squad_zero\<lparr>Squad_Name := ''Core'', Squad_OwnerID := ''o''\<rparr>) demo_store)"

definition demo_agent :: MemoryStore where
  "demo_agent = snd (CreateAgent (Agent_zero\<lparr>Agent_Name := ''Ada'', Agent_SquadID := demo_uuid 0, Agent_WorkspacePVCName := ''ws''\<rparr>) demo_squad)"

definition demo_dir :: MemoryStore where
  "demo_dir = snd (CreateAgentIdentity (AgentIdentity_zero\<lparr>AI_AgentID := demo_uuid 3, AI_GatewayKeyToken := ''k''\<rparr>) demo_agent)"

lemma demo_dir_init: "dir_init demo_store"
  by (simp add: dir_init_def demo_store_def NewMemoryStore_def)

lemma demo_dir_run: "dir_step\<^sup>*\<^sup>* demo_store demo_dir"
  unfolding demo_dir_def demo_agent_def demo_squad_def
  by (meson dir_step.create_squad dir_step.create_agent dir_step.create_identity r_into_rtranclp rtranclp_trans)

lemma create_uuid:
  "env_uuid (snd (CreateSquad q s)) = env_uuid s" "env_uuid (snd (CreateAgent a s)) = env_uuid s"
  "env_uuid (snd (CreateAgentIdentity i s)) = env_uuid s"
  by (simp_all add: CreateSquad_def CreateAgent_def CreateAgentIdentity_def NewString_def Let_def enqueueSquadOutboxLocked_def
      enqueueAgentOutboxLocked_def split: option.splits)

lemma demo_dir_uuid: "env_uuid demo_dir = demo_uuid"
  by (simp add: demo_dir_def demo_agent_def demo_squad_def create_uuid demo_store_def NewMemoryStore_def)

lemma demo_dir_evals:
  "\<not> isl (GetSquad (demo_uuid 0) demo_dir)" "\<not> isl (GetAgent (demo_uuid 3) demo_dir)"
  "gm_get (boardsBySquad demo_dir) (demo_uuid 0) = Some (demo_uuid 1)" "env_ctr demo_dir = 7"
  "map_option Agent_SquadID (gm_get (agents demo_dir) (demo_uuid 3)) = Some (demo_uuid 0)"
  "map fst (k8sOutbox demo_dir) = map demo_uuid [2, 4, 6]"
  "map_option AI_Generation (case GetAgentIdentity (demo_uuid 3) demo_dir of Inr r \<Rightarrow> r | _ \<Rightarrow> None) = Some 1"
  by code_simp+

lemma demo_dir_fresh: "outbox_fresh demo_dir"
proof -
  have "gm_get (k8sOutbox demo_dir) (demo_uuid n) = None" if "7 \<le> n" for n
  proof -
    have "demo_uuid n \<notin> set (map fst (k8sOutbox demo_dir))"
      unfolding demo_dir_evals(6) using that by (auto simp: inj_eq [OF inj_demo_uuid])
    then show ?thesis by (simp add: gm_get_def map_of_eq_None_iff)
  qed
  then show ?thesis by (simp add: outbox_fresh_def unissued_def demo_dir_uuid demo_dir_evals(4))
qed

theorem directory_names_unique_witness:
  "\<not> isl (GetSquad (demo_uuid 0) demo_dir) \<and>
   GetSquad (demo_uuid 5) demo_dir \<noteq> Inr (Squad_zero\<lparr>Squad_Name := ''CORE'', Squad_OwnerID := ''o''\<rparr>)"
proof
  let ?q2 = "Squad_zero\<lparr>Squad_Name := ''CORE'', Squad_OwnerID := ''o''\<rparr>"
  show "\<not> isl (GetSquad (demo_uuid 0) demo_dir)" by (rule demo_dir_evals(1))
  then obtain q1 where q1: "GetSquad (demo_uuid 0) demo_dir = Inr q1" by (metis isl_def sum.exhaust)
  have "case GetSquad (demo_uuid 0) demo_dir of Inr q \<Rightarrow> Squad_OwnerID q = ''o'' \<and> EqualFold (Squad_Name q) ''CORE'' | _ \<Rightarrow> False"
    by code_simp
  then have "Squad_OwnerID q1 = Squad_OwnerID ?q2" "EqualFold (Squad_Name q1) (Squad_Name ?q2)" using q1 by simp_all
  moreover have "demo_uuid 0 \<noteq> demo_uuid 5" by (simp add: inj_eq [OF inj_demo_uuid])
  ultimately show "GetSquad (demo_uuid 5) demo_dir \<noteq> Inr ?q2"
    using directory_names_unique [OF demo_dir_init demo_dir_run, of "demo_uuid 0" "demo_uuid 5"] q1 by blast
qed

theorem directory_references_resolve_witness:
  "\<exists>a q. GetAgent (demo_uuid 3) demo_dir = Inr a \<and> GetSquad (Agent_SquadID a) demo_dir = Inr q"
proof -
  obtain a where "GetAgent (demo_uuid 3) demo_dir = Inr a" using demo_dir_evals(2) by (metis isl_def sum.exhaust)
  then show ?thesis using directory_references_resolve [OF demo_dir_init demo_dir_run, of "demo_uuid 3"] by blast
qed

theorem DeleteSquad_cascades_witness:
  "\<exists>u. DeleteSquad (demo_uuid 0) demo_dir = (Inr (), u) \<and> queued KubernetesOpDeleteAgent (demo_uuid 3) u \<and>
     GetAgent (demo_uuid 3) u = Inl ErrNotFound"
proof -
  obtain q where q: "GetSquad (demo_uuid 0) demo_dir = Inr q" using demo_dir_evals(1) by (metis isl_def sum.exhaust)
  obtain a where a: "gm_get (agents demo_dir) (demo_uuid 3) = Some a" "Agent_SquadID a = demo_uuid 0" using demo_dir_evals(5) by auto
  then have "GetAgent (demo_uuid 3) demo_dir = Inr a" by (simp add: GetAgent_def)
  with DeleteSquad_cascades [OF demo_dir_init demo_dir_run demo_dir_fresh q demo_dir_evals(3)] a(2) show ?thesis by (metis (full_types))
qed

theorem RotateAgentIdentity_retires_witness:
  "\<exists>new u. RotateAgentIdentity (demo_uuid 3) ''r'' ''h'' ''v'' demo_dir = (Inr new, u) \<and> AI_Generation new = 2 \<and> AI_GatewayKeyToken new = []"
proof -
  obtain i where i: "GetAgentIdentity (demo_uuid 3) demo_dir = Inr (Some i)" "AI_Generation i = 1"
    using demo_dir_evals(7) by (auto split: sum.splits)
  from RotateAgentIdentity_retires [OF demo_dir_init demo_dir_run i(1), of "''r''" "''h''" "''v''"] i(2) show ?thesis by auto
qed

theorem UpdateAgent_keeps_placement_witness:
  "\<exists>new u. UpdateAgent (Agent_zero\<lparr>Agent_ID := demo_uuid 3, Agent_Name := ''Bea'', Agent_SquadID := ''elsewhere''\<rparr>) demo_dir = (Inr new, u) \<and>
     Agent_SquadID new = demo_uuid 0 \<and> Agent_Name new = ''Bea''"
proof -
  let ?a = "Agent_zero\<lparr>Agent_ID := demo_uuid 3, Agent_Name := ''Bea'', Agent_SquadID := ''elsewhere''\<rparr>"
  have "\<not> isl (fst (UpdateAgent ?a demo_dir))" by code_simp
  then obtain new u where r: "UpdateAgent ?a demo_dir = (Inr new, u)" by (metis isl_def prod.exhaust_sel sum.exhaust)
  from UpdateAgent_keeps_placement [OF r] demo_dir_evals(5) r show ?thesis by (auto simp: GetAgent_def split: option.splits)
qed

end
