(* ===== verification/Go_Json.thy ===== *)
theory Go_Json
  imports Go_Strings
begin

text \<open>
  What the egress code uses of Go's \<^verbatim>\<open>encoding/json\<close>: a raw message is empty, malformed, or a JSON value;
  \<^verbatim>\<open>json.Unmarshal\<close> into a string, integer, boolean, string slice, key map or struct succeeds, leaves the target
  alone (\<^verbatim>\<open>null\<close>), or records a type error. Struct fields are found by name up to case, map keys exactly.
\<close>

text \<open>A number is kept by its value when its literal is an integer, and is \<open>JNum None\<close> otherwise.\<close>

datatype json = JNull | JBool bool | JNum "int option" | JStr string | JArr "json list" | JObj "(string \<times> json) list"

datatype RawMessage = RawEmpty | RawInvalid | Raw json

type_synonym key_map = "json gomap"

definition int64 :: "int \<Rightarrow> bool" where
  "int64 n \<longleftrightarrow> - (2 ^ 63) \<le> n \<and> n < 2 ^ 63"

section \<open>Unmarshal into a zero value\<close>

text \<open>\<open>None\<close> is the type error, after which the target still has its zero value.\<close>

definition un_string :: "json \<Rightarrow> string option" where
  "un_string v = (case v of JStr s \<Rightarrow> Some s | JNull \<Rightarrow> Some [] | _ \<Rightarrow> None)"

definition un_int :: "json \<Rightarrow> int option" where
  "un_int v = (case v of JNum (Some n) \<Rightarrow> if int64 n then Some n else None | JNull \<Rightarrow> Some 0 | _ \<Rightarrow> None)"

definition un_bool :: "json \<Rightarrow> bool option" where
  "un_bool v = (case v of JBool b \<Rightarrow> Some b | JNull \<Rightarrow> Some False | _ \<Rightarrow> None)"

text \<open>A slice keeps the elements that decode, with zero values for the others, even when an error is
  reported.\<close>

definition stringy :: "json \<Rightarrow> bool" where
  "stringy v = (case v of JStr s \<Rightarrow> True | JNull \<Rightarrow> True | _ \<Rightarrow> False)"

definition elem_string :: "json \<Rightarrow> string" where
  "elem_string v = (case v of JStr s \<Rightarrow> s | _ \<Rightarrow> [])"

definition un_strings :: "json \<Rightarrow> bool \<times> string list" where
  "un_strings v = (case v of JArr xs \<Rightarrow> (list_all stringy xs, map elem_string xs) | JNull \<Rightarrow> (True, []) | _ \<Rightarrow> (False, []))"

definition un_map :: "json \<Rightarrow> key_map option" where
  "un_map v = (case v of JObj kvs \<Rightarrow> Some (fold (\<lambda>(k, x) m. gm_put k x m) kvs []) | JNull \<Rightarrow> Some [] | _ \<Rightarrow> None)"

section \<open>Unmarshal into a struct\<close>

text \<open>The key-value pairs a struct is filled from; \<open>None\<close> is an error.\<close>

definition un_struct :: "json \<Rightarrow> (string \<times> json) list option" where
  "un_struct v = (case v of JObj kvs \<Rightarrow> Some kvs | JNull \<Rightarrow> Some [] | _ \<Rightarrow> None)"

definition raw_struct :: "RawMessage \<Rightarrow> (string \<times> json) list option" where
  "raw_struct raw = (case raw of RawEmpty \<Rightarrow> Some [] | RawInvalid \<Rightarrow> None | Raw v \<Rightarrow> un_struct v)"

definition field_values :: "string \<Rightarrow> (string \<times> json) list \<Rightarrow> json list" where
  "field_values name kvs = map snd (filter (\<lambda>p. EqualFold (fst p) name) kvs)"

fun set_field :: "('a \<Rightarrow> json \<Rightarrow> 'a option) \<Rightarrow> 'a \<Rightarrow> json list \<Rightarrow> 'a option" where
  "set_field dec a [] = Some a"
| "set_field dec a (v # vs) = (case dec a v of None \<Rightarrow> None | Some a' \<Rightarrow> set_field dec a' vs)"

definition st_string :: "string \<Rightarrow> (string \<times> json) list \<Rightarrow> string option" where
  "st_string name kvs = set_field (\<lambda>a v. if v = JNull then Some a else un_string v) [] (field_values name kvs)"

definition st_int :: "string \<Rightarrow> (string \<times> json) list \<Rightarrow> int option" where
  "st_int name kvs = set_field (\<lambda>a v. if v = JNull then Some a else un_int v) 0 (field_values name kvs)"

definition st_bool :: "string \<Rightarrow> (string \<times> json) list \<Rightarrow> bool option" where
  "st_bool name kvs = set_field (\<lambda>a v. if v = JNull then Some a else un_bool v) False (field_values name kvs)"

text \<open>Slices and pointers: the inner \<open>None\<close> is \<^verbatim>\<open>nil\<close>.\<close>

definition un_slice :: "json \<Rightarrow> string list option option" where
  "un_slice v = (case v of JNull \<Rightarrow> Some None
     | JArr xs \<Rightarrow> (if list_all stringy xs then Some (Some (map elem_string xs)) else None) | _ \<Rightarrow> None)"

definition st_slice :: "string \<Rightarrow> (string \<times> json) list \<Rightarrow> string list option option" where
  "st_slice name kvs = set_field (\<lambda>_ v. un_slice v) None (field_values name kvs)"

definition st_bool_ptr :: "string \<Rightarrow> (string \<times> json) list \<Rightarrow> bool option option" where
  "st_bool_ptr name kvs =
     set_field (\<lambda>_ v. if v = JNull then Some None else map_option Some (un_bool v)) None (field_values name kvs)"

definition st_int_ptr :: "string \<Rightarrow> (string \<times> json) list \<Rightarrow> int option option" where
  "st_int_ptr name kvs =
     set_field (\<lambda>_ v. if v = JNull then Some None else map_option Some (un_int v)) None (field_values name kvs)"

definition nil_slice :: "string list option \<Rightarrow> string list" where
  "nil_slice x = (case x of None \<Rightarrow> [] | Some xs \<Rightarrow> xs)"

section \<open>Objects without repeated keys\<close>

text \<open>When no key is repeated and the keys are among names that differ in more than case, the struct and the key map
  see the same value.\<close>

lemma fold_gm_put_get:
  "distinct (map fst kvs) \<Longrightarrow> gm_get (fold (\<lambda>(k, x) m. gm_put k x m) kvs m) k =
     (case map_of kvs k of None \<Rightarrow> gm_get m k | Some v \<Rightarrow> Some v)"
proof (induction kvs arbitrary: m)
  case (Cons p kvs)
  obtain k' v where p: "p = (k', v)" by force
  have "map_of kvs k' = None" using Cons.prems p by (simp add: map_of_eq_None_iff)
  then show ?case using Cons p by (auto split: option.splits)
qed simp

lemma un_map_get: "distinct (map fst kvs) \<Longrightarrow> un_map (JObj kvs) = Some m \<Longrightarrow> gm_get m k = map_of kvs k"
  using fold_gm_put_get [of kvs "[]" k] by (auto simp: un_map_def gm_get_def split: option.splits)

lemma gm_put_keys: "set (map fst (gm_put k x m)) = insert k (set (map fst m))"
proof (induction m)
  case (Cons a m)
  then show ?case by (cases a) (auto simp del: set_map)
qed simp

lemma fold_put_keys: "set (map fst (fold (\<lambda>(k, x) m. gm_put k x m) kvs m)) = set (map fst m) \<union> set (map fst kvs)"
  by (induction kvs arbitrary: m) (auto simp: gm_put_keys simp del: set_map)

lemma un_map_keys: "un_map (JObj kvs) = Some m \<Longrightarrow> set (map fst m) = set (map fst kvs)"
  using fold_put_keys [of kvs "[]"] by (auto simp: un_map_def)

lemma field_values_get:
  assumes "distinct (map fst kvs)" and "\<And>k. k \<in> set (map fst kvs) \<Longrightarrow> EqualFold k name \<Longrightarrow> k = name"
  shows "field_values name kvs = (case map_of kvs name of None \<Rightarrow> [] | Some v \<Rightarrow> [v])"
proof -
  have "filter (\<lambda>p. EqualFold (fst p) name) kvs = filter (\<lambda>p. fst p = name) kvs"
    using assms(2) by (intro filter_cong) auto
  moreover have "map snd (filter (\<lambda>p. fst p = name) kvs) = (case map_of kvs name of None \<Rightarrow> [] | Some v \<Rightarrow> [v])"
    using assms(1)
  proof (induction kvs)
    case (Cons p kvs)
    have "filter (\<lambda>p. fst p = name) kvs = []" if "fst p = name"
      using Cons.prems that by (simp add: filter_empty_conv) (metis image_eqI)
    then show ?case using Cons by auto
  qed simp
  ultimately show ?thesis by (simp add: field_values_def)
qed

end
