(* ===== verification/Go_Net.thy ===== *)
theory Go_Net
  imports Go_Strings "HOL-Library.Word"
begin

unbundle bit_operations_syntax

text \<open>
  What the sources use of Go's \<^verbatim>\<open>net\<close> package: addresses as byte slices of length 4 or 16, their parser,
  CIDR blocks, the address predicates, and the \<^verbatim>\<open>host:port\<close> splitter.
\<close>

type_synonym IP = "8 word list"

section \<open>Parsing addresses\<close>

definition dec_value :: "string \<Rightarrow> int" where
  "dec_value ds = fold (\<lambda>c n. 10 * n + (int (byte_of c) - 48)) ds 0"

definition is_digit :: "char \<Rightarrow> bool" where
  "is_digit c \<longleftrightarrow> 48 \<le> byte_of c \<and> byte_of c \<le> 57"

definition v4_field :: "string \<Rightarrow> 8 word option" where
  "v4_field f =
     (if f = [] \<or> \<not> list_all is_digit f \<or> (1 < length f \<and> hd f = CHR ''0'') \<or> 3 < length f \<or> 255 < dec_value f
      then None else Some (of_int (dec_value f)))"

definition parseIPv4 :: "string \<Rightarrow> IP option" where
  "parseIPv4 s =
     (case map v4_field (Split_on CHR ''.'' s) of
        [Some a, Some b, Some c, Some d] \<Rightarrow> Some [a, b, c, d]
      | _ \<Rightarrow> None)"

definition hex_val :: "char \<Rightarrow> nat option" where
  "hex_val c =
     (let b = byte_of c
      in if 48 \<le> b \<and> b \<le> 57 then Some (b - 48)
         else if 97 \<le> b \<and> b \<le> 102 then Some (b - 87)
         else if 65 \<le> b \<and> b \<le> 70 then Some (b - 55) else None)"

definition hex_value :: "string \<Rightarrow> int" where
  "hex_value ds = fold (\<lambda>c n. 16 * n + (case hex_val c of None \<Rightarrow> 0 | Some d \<Rightarrow> int d)) ds 0"

text \<open>The loop over the groups: how many more groups fit, the rest of the text, the bytes so far and where the
  ellipsis was.\<close>

fun v6_loop :: "nat \<Rightarrow> string \<Rightarrow> IP \<Rightarrow> nat option \<Rightarrow> (IP \<times> nat option \<times> string) option" where
  "v6_loop 0 s ip e = Some (ip, e, s)"
| "v6_loop (Suc n) s ip e =
     (let ds = takeWhile (\<lambda>c. hex_val c \<noteq> None) s; rest = drop (length ds) s
      in if ds = [] \<or> 4 < length ds then None
         else if rest \<noteq> [] \<and> hd rest = CHR ''.'' then
           (if e = None \<and> length ip \<noteq> 12 then None
            else if 16 < length ip + 4 then None
            else case parseIPv4 s of None \<Rightarrow> None | Some b \<Rightarrow> Some (ip @ b, e, []))
         else
           let v = hex_value ds; ip' = ip @ [of_int (v div 256), of_int (v mod 256)]
           in if rest = [] then Some (ip', e, [])
              else if hd rest \<noteq> CHR '':'' \<or> length rest = 1 then None
              else let s' = tl rest
                   in if hd s' = CHR '':'' then
                        (if e \<noteq> None then None
                         else if tl s' = [] then Some (ip', Some (length ip'), [])
                         else v6_loop n (tl s') ip' (Some (length ip')))
                      else v6_loop n s' ip' e)"

definition parseIPv6 :: "string \<Rightarrow> IP option" where
  "parseIPv6 s =
     (let start = HasPrefix s ''::''; s' = (if start then drop 2 s else s); e0 = (if start then Some 0 else None)
      in if start \<and> s' = [] then Some (replicate 16 0)
         else case v6_loop 8 s' [] e0 of
                None \<Rightarrow> None
              | Some (ip, e, rest) \<Rightarrow>
                  if rest \<noteq> [] then None
                  else if length ip < 16 then
                    (case e of None \<Rightarrow> None
                     | Some k \<Rightarrow> Some (take k ip @ replicate (16 - length ip) 0 @ drop k ip))
                  else if e \<noteq> None then None else Some ip)"

text \<open>\<^verbatim>\<open>netip.ParseAddr\<close> without zones: the first dot or colon decides the family. A zone makes every caller
  here fail.\<close>

definition ParseAddr :: "string \<Rightarrow> IP option" where
  "ParseAddr s =
     (if CHR ''%'' \<in> set s then None
      else case dropWhile (\<lambda>c. c \<noteq> CHR ''.'' \<and> c \<noteq> CHR '':'') s of
             [] \<Rightarrow> None
           | c # _ \<Rightarrow> if c = CHR ''.'' then parseIPv4 s else parseIPv6 s)"

definition v4InV6Prefix :: IP where
  "v4InV6Prefix = replicate 10 0 @ [255, 255]"

definition ParseIP :: "string \<Rightarrow> IP option" where
  "ParseIP s = map_option (\<lambda>ip. if length ip = 4 then v4InV6Prefix @ ip else ip) (ParseAddr s)"

section \<open>Blocks\<close>

record IPNet =
  Net_IP :: IP
  Net_Mask :: IP

definition To4 :: "IP \<Rightarrow> IP option" where
  "To4 ip = (if length ip = 4 then Some ip
             else if length ip = 16 \<and> take 12 ip = v4InV6Prefix then Some (drop 12 ip) else None)"

definition mask_byte :: "nat \<Rightarrow> 8 word" where
  "mask_byte n = (if 8 \<le> n then 255 else push_bit (8 - n) 255)"

definition CIDRMask :: "nat \<Rightarrow> nat \<Rightarrow> IP" where
  "CIDRMask ones len = map (\<lambda>i. mask_byte (ones - 8 * i)) [0 ..< len]"

definition and_mask :: "IP \<Rightarrow> IP \<Rightarrow> IP" where
  "and_mask ip m = map2 (AND) ip m"

definition ParseCIDR :: "string \<Rightarrow> IPNet option" where
  "ParseCIDR s =
     (let addr = takeWhile (\<lambda>c. c \<noteq> CHR ''/'') s; rest = dropWhile (\<lambda>c. c \<noteq> CHR ''/'') s
      in if rest = [] then None
         else case ParseAddr addr of
                None \<Rightarrow> None
              | Some ip \<Rightarrow>
                  let m = tl rest
                  in if m = [] \<or> \<not> list_all is_digit m \<or> 8 * int (length ip) < dec_value m then None
                     else let k = CIDRMask (nat (dec_value m)) (length ip) in Some \<lparr>Net_IP = and_mask ip k, Net_Mask = k\<rparr>)"

definition Net_Contains :: "IPNet \<Rightarrow> IP \<Rightarrow> bool" where
  "Net_Contains n ip =
     (let nn = (case To4 (Net_IP n) of Some x \<Rightarrow> x | None \<Rightarrow> Net_IP n);
          m = (if length (Net_Mask n) = 16 \<and> length nn = 4 then drop 12 (Net_Mask n) else Net_Mask n);
          x = (case To4 ip of Some y \<Rightarrow> y | None \<Rightarrow> ip)
      in length nn = length m \<and> length x = length nn \<and> and_mask nn m = and_mask x m)"

section \<open>Address predicates\<close>

definition IP_Equal :: "IP \<Rightarrow> IP \<Rightarrow> bool" where
  "IP_Equal a b =
     (if length a = length b then a = b
      else if length a = 4 \<and> length b = 16 then v4InV6Prefix @ a = b
      else if length a = 16 \<and> length b = 4 then a = v4InV6Prefix @ b else False)"

definition IPv4zero :: IP where "IPv4zero = v4InV6Prefix @ [0, 0, 0, 0]"
definition IPv4bcast :: IP where "IPv4bcast = v4InV6Prefix @ [255, 255, 255, 255]"
definition IPv6unspecified :: IP where "IPv6unspecified = replicate 16 0"
definition IPv6loopback :: IP where "IPv6loopback = replicate 15 0 @ [1]"

definition IsUnspecified :: "IP \<Rightarrow> bool" where
  "IsUnspecified ip \<longleftrightarrow> IP_Equal ip IPv4zero \<or> IP_Equal ip IPv6unspecified"

definition IsLoopback :: "IP \<Rightarrow> bool" where
  "IsLoopback ip = (case To4 ip of Some x \<Rightarrow> x ! 0 = 127 | None \<Rightarrow> IP_Equal ip IPv6loopback)"

definition IsPrivate :: "IP \<Rightarrow> bool" where
  "IsPrivate ip =
     (case To4 ip of
        Some x \<Rightarrow> x ! 0 = 10 \<or> (x ! 0 = 172 \<and> x ! 1 AND 240 = 16) \<or> (x ! 0 = 192 \<and> x ! 1 = 168)
      | None \<Rightarrow> length ip = 16 \<and> ip ! 0 AND 254 = 252)"

definition IsMulticast :: "IP \<Rightarrow> bool" where
  "IsMulticast ip = (case To4 ip of Some x \<Rightarrow> x ! 0 AND 240 = 224 | None \<Rightarrow> length ip = 16 \<and> ip ! 0 = 255)"

definition IsInterfaceLocalMulticast :: "IP \<Rightarrow> bool" where
  "IsInterfaceLocalMulticast ip \<longleftrightarrow> length ip = 16 \<and> ip ! 0 = 255 \<and> ip ! 1 AND 15 = 1"

definition IsLinkLocalMulticast :: "IP \<Rightarrow> bool" where
  "IsLinkLocalMulticast ip =
     (case To4 ip of Some x \<Rightarrow> x ! 0 = 224 \<and> x ! 1 = 0 \<and> x ! 2 = 0
      | None \<Rightarrow> length ip = 16 \<and> ip ! 0 = 255 \<and> ip ! 1 AND 15 = 2)"

definition IsLinkLocalUnicast :: "IP \<Rightarrow> bool" where
  "IsLinkLocalUnicast ip =
     (case To4 ip of Some x \<Rightarrow> x ! 0 = 169 \<and> x ! 1 = 254
      | None \<Rightarrow> length ip = 16 \<and> ip ! 0 = 254 \<and> ip ! 1 AND 192 = 128)"

definition IsGlobalUnicast :: "IP \<Rightarrow> bool" where
  "IsGlobalUnicast ip \<longleftrightarrow> (length ip = 4 \<or> length ip = 16) \<and> \<not> IP_Equal ip IPv4bcast \<and> \<not> IsUnspecified ip \<and>
     \<not> IsLoopback ip \<and> \<not> IsMulticast ip \<and> \<not> IsLinkLocalUnicast ip"

section \<open>Host and port\<close>

definition LastIndex :: "char \<Rightarrow> string \<Rightarrow> nat option" where
  "LastIndex c s = (if c \<in> set s then Some (length s - 1 - length (takeWhile (\<lambda>x. x \<noteq> c) (rev s))) else None)"

definition SplitHostPort :: "string \<Rightarrow> (string \<times> string) option" where
  "SplitHostPort hp =
     (case LastIndex CHR '':'' hp of
        None \<Rightarrow> None
      | Some i \<Rightarrow>
          if hd hp = CHR ''['' then
            (if CHR '']'' \<notin> set hp then None
             else let close = length (takeWhile (\<lambda>c. c \<noteq> CHR '']'') hp)
                  in if Suc close \<noteq> i then None
                     else if CHR ''['' \<in> set (drop 1 hp) \<or> CHR '']'' \<in> set (drop (Suc close) hp) then None
                     else Some (take (close - 1) (drop 1 hp), drop (Suc i) hp))
          else if CHR '':'' \<in> set (take i hp) then None
          else if CHR ''['' \<in> set hp \<or> CHR '']'' \<in> set hp then None
          else Some (take i hp, drop (Suc i) hp))"

definition JoinHostPort :: "string \<Rightarrow> string \<Rightarrow> string" where
  "JoinHostPort host port = (if CHR '':'' \<in> set host then ''['' @ host @ '']:'' @ port else host @ '':'' @ port)"

section \<open>Rendering addresses\<close>

fun hex_text :: "nat \<Rightarrow> string" where
  "hex_text n = (if n < 16 then [hex_digit n] else hex_text (n div 16) @ [hex_digit (n mod 16)])"

declare hex_text.simps [simp del]

fun v6_groups :: "IP \<Rightarrow> nat list" where
  "v6_groups (a # b # ip) = (256 * unat a + unat b) # v6_groups ip"
| "v6_groups ip = []"

text \<open>The first longest run of at least two zero groups; \<^verbatim>\<open>255\<close> when there is none.\<close>

definition zero_run :: "nat list \<Rightarrow> nat \<times> nat" where
  "zero_run gs =
     fold (\<lambda>i (zs, ze). let l = length (takeWhile (\<lambda>g. g = 0) (drop i gs))
                         in if 2 \<le> l \<and> ze - zs < l then (i, i + l) else (zs, ze)) [0 ..< length gs] (255, 255)"

definition v6_text :: "nat list \<Rightarrow> string" where
  "v6_text gs =
     (let (zs, ze) = zero_run gs
      in if zs = 255 then join_with '':'' (map hex_text gs)
         else join_with '':'' (map hex_text (take zs gs)) @ ''::'' @ join_with '':'' (map hex_text (drop ze gs)))"

definition IP_String :: "IP \<Rightarrow> string" where
  "IP_String ip =
     (if ip = [] then ''<nil>''
      else if length ip \<noteq> 4 \<and> length ip \<noteq> 16 then
        CHR ''?'' # concat (map (\<lambda>b. [hex_digit (unat b div 16), hex_digit (unat b mod 16)]) ip)
      else case To4 ip of Some q \<Rightarrow> join_with ''.'' (map (\<lambda>b. nat_digits (unat b)) q)
           | None \<Rightarrow> v6_text (v6_groups ip))"

section \<open>Bytes\<close>

text \<open>A statement about a byte holds if it holds for the 256 values.\<close>

lemma byte_all:
  assumes "list_all (\<lambda>n. P (word_of_int n) n) [0 .. 255]"
    and "unat b = n"
  shows "P (b :: 8 word) (int n)"
proof -
  have "uint b < 256" using uint_lt2p [of b] by simp
  then have "uint b \<in> set [0 .. 255]" using uint_ge_0 [of b] by simp
  then have "P (word_of_int (uint b)) (uint b)" using assms(1) unfolding list_all_iff by blast
  then show ?thesis using assms(2) by auto
qed

lemma byte_high:
  fixes b :: "8 word"
  shows "b AND 240 = 224 \<longleftrightarrow> 224 \<le> unat b \<and> unat b < 240" and "b AND 240 = 16 \<longleftrightarrow> 16 \<le> unat b \<and> unat b < 32"
    and "b AND 192 = 64 \<longleftrightarrow> 64 \<le> unat b \<and> unat b < 128" and "b AND 192 = 128 \<longleftrightarrow> 128 \<le> unat b \<and> unat b < 192"
    and "b AND 254 = 252 \<longleftrightarrow> 252 \<le> unat b \<and> unat b < 254" and "b AND 255 = b"
proof -
  have ex: "list_all (\<lambda>n. ((word_of_int n :: 8 word) AND 240 = 224) = (224 \<le> n \<and> n < 240)) [0 .. 255]"
    "list_all (\<lambda>n. ((word_of_int n :: 8 word) AND 240 = 16) = (16 \<le> n \<and> n < 32)) [0 .. 255]"
    "list_all (\<lambda>n. ((word_of_int n :: 8 word) AND 192 = 64) = (64 \<le> n \<and> n < 128)) [0 .. 255]"
    "list_all (\<lambda>n. ((word_of_int n :: 8 word) AND 192 = 128) = (128 \<le> n \<and> n < 192)) [0 .. 255]"
    "list_all (\<lambda>n. ((word_of_int n :: 8 word) AND 254 = 252) = (252 \<le> n \<and> n < 254)) [0 .. 255]"
    "list_all (\<lambda>n. (word_of_int n :: 8 word) AND 255 = word_of_int n) [0 .. 255]"
    by code_simp+
  obtain n where n: "unat b = n" by blast
  show "b AND 255 = b" using byte_all [of "\<lambda>b n. b AND 255 = b", OF ex(6) refl] .
  show "b AND 240 = 224 \<longleftrightarrow> 224 \<le> unat b \<and> unat b < 240" using byte_all [of "\<lambda>b n. (b AND 240 = 224) = (224 \<le> n \<and> n < 240)" b, OF ex(1) n] unfolding n by simp
  show "b AND 240 = 16 \<longleftrightarrow> 16 \<le> unat b \<and> unat b < 32" using byte_all [of "\<lambda>b n. (b AND 240 = 16) = (16 \<le> n \<and> n < 32)" b, OF ex(2) n] unfolding n by simp
  show "b AND 192 = 64 \<longleftrightarrow> 64 \<le> unat b \<and> unat b < 128" using byte_all [of "\<lambda>b n. (b AND 192 = 64) = (64 \<le> n \<and> n < 128)" b, OF ex(3) n] unfolding n by simp
  show "b AND 192 = 128 \<longleftrightarrow> 128 \<le> unat b \<and> unat b < 192" using byte_all [of "\<lambda>b n. (b AND 192 = 128) = (128 \<le> n \<and> n < 192)" b, OF ex(4) n] unfolding n by simp
  show "b AND 254 = 252 \<longleftrightarrow> 252 \<le> unat b \<and> unat b < 254" using byte_all [of "\<lambda>b n. (b AND 254 = 252) = (252 \<le> n \<and> n < 254)" b, OF ex(5) n] unfolding n by simp
qed

section \<open>Rendering and parsing\<close>

lemma Split_on_join:
  assumes "ps \<noteq> []" and "\<forall>p \<in> set ps. c \<notin> set p"
  shows "Split_on c (join_with [c] ps) = ps"
proof -
  have lit: "Split_on c (p @ c # r) = p # Split_on c r" if "c \<notin> set p" for p r
    using that by (induction p) auto
  have one: "Split_on c p = [p]" if "c \<notin> set p" for p
    using that by (induction p) auto
  show ?thesis using assms
  proof (induction ps rule: list_nonempty_induct)
    case (cons p ps)
    then show ?case by (cases ps) (simp_all add: lit)
  qed (simp add: one)
qed

lemma digits_laws:
  "dec_value (nat_digits n) = int n" "list_all is_digit (nat_digits n)" "nat_digits n \<noteq> []"
  "10 \<le> n \<Longrightarrow> hd (nat_digits n) \<noteq> CHR ''0''" "0 < n \<Longrightarrow> hd (nat_digits n) \<noteq> CHR ''0''"
proof (induction n rule: nat_digits.induct)
  case (1 n)
  have snoc: "dec_value (ds @ [c]) = 10 * dec_value ds + (int (byte_of c) - 48)" for ds c by (simp add: dec_value_def)
  have split: "10 * int (n div 10) + int (n mod 10) = int n" by (metis mult_div_mod_eq of_nat_add of_nat_mult of_nat_numeral)
  { case 1 show ?case
      using "1.IH"(1) split by (cases "n < 10") (subst nat_digits.simps, auto simp: snoc dec_value_def [of "[_]"])+ }
  { case 2 show ?case
      using "1.IH"(2) by (cases "n < 10") (subst nat_digits.simps, auto simp: is_digit_def)+ }
  { case 3 show ?case by (subst nat_digits.simps) auto }
  have zero: "char_of (48 + m) \<noteq> CHR ''0''" if "0 < m" "m < 10" for m :: nat
  proof
    assume "char_of (48 + m) = CHR ''0''"
    then have "byte_of (char_of (48 + m)) = byte_of CHR ''0''" by simp
    then show False using that by (simp add: byte_of_def)
  qed
  have eq: "nat_digits n = (if n < 10 then [char_of (48 + n)] else nat_digits (n div 10) @ [char_of (48 + n mod 10)])"
    by (rule nat_digits.simps)
  { case 5 show ?case using 5 "1.IH"(3,5) zero [of n] by (cases "n < 10") (simp_all add: eq) }
  { case 4 show ?case using 4 "1.IH"(3,5) by (simp add: eq) }
qed

lemma digits_byte:
  fixes b :: "8 word"
  shows "v4_field (nat_digits (unat b)) = Some b" and "list_all is_digit (nat_digits (unat b))"
proof -
  have lt: "unat b < 256" using unsigned_less [of b] by simp
  have ult: "uint b < 256" using uint_lt2p [of b] by simp
  have "hd (nat_digits (unat b)) \<noteq> CHR ''0''" if "1 < length (nat_digits (unat b))"
    using that digits_laws(4) [of "unat b"] by (cases "unat b < 10") (auto simp: nat_digits.simps [of "unat b"])
  then show "v4_field (nat_digits (unat b)) = Some b"
    using digits_laws(1-3) [of "unat b"] nat_digits_length [of "unat b"] lt ult by (auto simp: v4_field_def)
  show "list_all is_digit (nat_digits (unat b))" by (rule digits_laws(2))
qed

definition dotted :: "IP \<Rightarrow> string" where
  "dotted q = join_with ''.'' (map (\<lambda>b. nat_digits (unat b)) q)"

lemma set_join: "set (join_with sep ps) \<subseteq> set sep \<union> (\<Union>p \<in> set ps. set p)"
  by (induction sep ps rule: join_with.induct) auto

lemma dotted_chars: "set (dotted q) \<subseteq> {c. is_digit c \<or> c = CHR ''.''}"
  using set_join [of "''.''" "map (\<lambda>b. nat_digits (unat b)) q"] digits_byte(2)
  by (auto simp: dotted_def list_all_iff)

lemma dotted_free: "\<not> is_digit c \<Longrightarrow> c \<noteq> CHR ''.'' \<Longrightarrow> c \<notin> set (dotted q)"
  using dotted_chars by blast

text \<open>The dotted form of an IPv4 address parses back to it.\<close>

lemma ParseIP_String_v4:
  assumes "To4 ip = Some q"
  shows "IP_String ip = dotted q" and "ParseIP (IP_String ip) = Some (v4InV6Prefix @ q)"
proof -
  have len: "length q = 4" "length ip = 4 \<or> length ip = 16" using assms by (auto simp: To4_def split: if_splits)
  show str: "IP_String ip = dotted q" using assms len by (auto simp: IP_String_def dotted_def)
  obtain a b c d where q: "q = [a, b, c, d]" using len(1) by (auto simp: numeral_eq_Suc length_Suc_conv)
  have dot: "CHR ''.'' \<notin> set (nat_digits (unat x))" for x :: "8 word"
    using digits_byte(2) [of x] by (auto simp: list_all_iff is_digit_def byte_of_def)
  have "Split_on CHR ''.'' (dotted q) = map (\<lambda>b. nat_digits (unat b)) q"
    unfolding dotted_def by (rule Split_on_join) (auto simp: q dot)
  then have v4: "parseIPv4 (dotted q) = Some q" by (simp add: parseIPv4_def q digits_byte(1))
  have "CHR ''.'' \<in> set (dotted q)" by (simp add: dotted_def q)
  then obtain l r where lr: "dotted q = l @ CHR ''.'' # r" "CHR ''.'' \<notin> set l" using split_list_first by fastforce
  then have "CHR '':'' \<notin> set l" using dotted_free [of "CHR '':''" q] by (auto simp: is_digit_def byte_of_def)
  then have "dropWhile (\<lambda>c. c \<noteq> CHR ''.'' \<and> c \<noteq> CHR '':'') (dotted q) = CHR ''.'' # r"
    using lr(2) unfolding lr(1) by (subst dropWhile_append2) auto
  moreover have "CHR ''%'' \<notin> set (dotted q)" by (rule dotted_free) (simp_all add: is_digit_def byte_of_def)
  ultimately have "ParseAddr (dotted q) = Some q" using v4 by (simp add: ParseAddr_def)
  then show "ParseIP (IP_String ip) = Some (v4InV6Prefix @ q)" using len(1) by (simp add: ParseIP_def str)
qed

lemma takeWhile_rev_last: "c \<notin> set r \<Longrightarrow> takeWhile (\<lambda>x. x \<noteq> c) (rev r @ c # l) = rev r"
  by (subst takeWhile_append2) auto

lemma LastIndex_Some:
  assumes "LastIndex c s = Some i"
  shows "s = take i s @ c # drop (Suc i) s" and "c \<notin> set (drop (Suc i) s)"
proof -
  have c: "c \<in> set s" and i: "i = length s - 1 - length (takeWhile (\<lambda>x. x \<noteq> c) (rev s))"
    using assms by (auto simp: LastIndex_def split: if_splits)
  obtain l r where s: "s = l @ c # r" "c \<notin> set r" using split_list_last [OF c] by blast
  then have "takeWhile (\<lambda>x. x \<noteq> c) (rev s) = rev r" by (simp add: takeWhile_rev_last)
  then have "i = length l" using i s(1) by simp
  then show "s = take i s @ c # drop (Suc i) s" "c \<notin> set (drop (Suc i) s)" using s by simp_all
qed

lemma LastIndex_append: "c \<notin> set r \<Longrightarrow> LastIndex c (l @ c # r) = Some (length l)"
proof -
  assume "c \<notin> set r"
  then have "takeWhile (\<lambda>x. x \<noteq> c) (rev (l @ c # r)) = rev r" by (simp add: takeWhile_rev_last)
  then show ?thesis by (simp add: LastIndex_def)
qed

lemma SplitHostPort_port:
  assumes "SplitHostPort hp = Some (host, port)"
  shows "CHR '':'' \<notin> set port" "CHR ''['' \<notin> set port" "CHR '']'' \<notin> set port"
proof -
  obtain i where i: "LastIndex CHR '':'' hp = Some i" using assms by (auto simp: SplitHostPort_def split: option.splits)
  have p: "port = drop (Suc i) hp" using assms i by (auto simp: SplitHostPort_def Let_def split: if_splits)
  then show "CHR '':'' \<notin> set port" using LastIndex_Some(2) [OF i] by simp
  have sub: "set (drop (Suc i) hp) \<subseteq> set (drop 1 hp)" "set (drop (Suc i) hp) \<subseteq> set hp"
    by (simp_all add: set_drop_subset_set_drop set_drop_subset)
  show "CHR ''['' \<notin> set port" using assms i sub unfolding p by (auto simp: SplitHostPort_def Let_def split: if_splits)
  have "CHR '']'' \<notin> set (drop (Suc i) hp)"
  proof (cases "hd hp = CHR ''[''")
    case True
    then have "CHR '']'' \<notin> set (drop i hp)" using assms i by (auto simp: SplitHostPort_def Let_def split: if_splits)
    then show ?thesis using set_drop_subset_set_drop [of i "Suc i" hp] by auto
  next
    case False
    then have "CHR '']'' \<notin> set hp" using assms i by (auto simp: SplitHostPort_def split: if_splits)
    then show ?thesis using sub(2) by blast
  qed
  then show "CHR '']'' \<notin> set port" unfolding p .
qed

lemma SplitHostPort_join:
  assumes "CHR '':'' \<notin> set h" "CHR ''['' \<notin> set h" "CHR '']'' \<notin> set h"
    and "CHR '':'' \<notin> set p" "CHR ''['' \<notin> set p" "CHR '']'' \<notin> set p"
  shows "SplitHostPort (JoinHostPort h p) = Some (h, p)"
proof -
  have "hd (h @ CHR '':'' # p) \<noteq> CHR ''[''" using assms(2) by (cases h) auto
  then show ?thesis using assms LastIndex_append [OF assms(4), of h] by (simp add: SplitHostPort_def JoinHostPort_def)
qed

end
