(* ===== verification/Glob.thy ===== *)
theory Glob
  imports Go_Strings "HOL-Library.Sublist"
begin

text \<open>
  The pattern matchers of the governed egress plane. The control plane has the iterative
  \<open>anchoredGlob\<close> (\<^verbatim>\<open>egresspolicy/validate.go\<close>) and the coverage test \<open>globCovers\<close>
  (\<^verbatim>\<open>egresspolicy/subset.go\<close>); the tool gateway has \<open>wildcardMatch\<close> (\<^verbatim>\<open>drivers/mcp/policy.go\<close>) and
  the regular expressions built by \<open>compileGlob\<close> (\<^verbatim>\<open>drivers/ssh/policy.go\<close>). Each is compared with one
  reference definition, \<open>glob\<close>.
\<close>

section \<open>The reference\<close>

text \<open>\<open>glob q p s\<close>: the text matches the pattern, where a star stands for any run of characters and, if \<open>q\<close>,
  a question mark for any one character.\<close>

fun glob :: "bool \<Rightarrow> string \<Rightarrow> string \<Rightarrow> bool" where
  "glob q [] s = (s = [])"
| "glob q (x # p) s =
     (if x = CHR ''*'' then glob q p s \<or> (case s of [] \<Rightarrow> False | c # cs \<Rightarrow> glob q (x # p) cs)
      else (case s of [] \<Rightarrow> False | c # cs \<Rightarrow> (q \<and> x = CHR ''?'' \<or> x = c) \<and> glob q p cs))"

declare glob.simps(2) [simp del]

lemma glob_Cons:
  assumes "x \<noteq> CHR ''*''"
  shows "glob q (x # p) s \<longleftrightarrow> (\<exists>c cs. s = c # cs \<and> (q \<and> x = CHR ''?'' \<or> x = c) \<and> glob q p cs)"
  using assms by (auto simp: glob.simps(2) split: list.splits)

text \<open>A star matches exactly the texts that have a suffix matched by the rest.\<close>

lemma glob_star: "glob q (CHR ''*'' # p) s \<longleftrightarrow> (\<exists>t. suffix t s \<and> glob q p t)"
proof (induction s)
  case Nil
  then show ?case by (simp add: glob.simps(2))
next
  case (Cons c cs)
  then show ?case by (auto simp: glob.simps(2) suffix_Cons)
qed

lemma glob_star_any [simp]: "glob q [CHR ''*''] s"
  by (auto simp: glob_star)

lemma glob_lit: "CHR ''*'' \<notin> set l \<Longrightarrow> glob False (l @ p) s \<longleftrightarrow> (\<exists>r. s = l @ r \<and> glob False p r)"
  by (induction l arbitrary: s) (auto simp: glob_Cons)

lemma glob_literal: "CHR ''*'' \<notin> set l \<Longrightarrow> glob False l s \<longleftrightarrow> s = l"
  using glob_lit [of l "[]" s] by simp

lemma glob_refl [simp]: "glob q p p"
  by (induction p) (auto simp: glob.simps(2) split: list.splits)

lemma glob_append: "glob q p s \<Longrightarrow> glob q p' s' \<Longrightarrow> glob q (p @ p') (s @ s')"
proof (induction p arbitrary: s)
  case (Cons x p)
  show ?case
  proof (cases "x = CHR ''*''")
    case True
    with Cons.prems(1) obtain t where "suffix t s" "glob q p t" by (auto simp: glob_star)
    then have "suffix (t @ s') (s @ s')" "glob q (p @ p') (t @ s')" using Cons by (auto simp: suffix_def)
    then have "\<exists>t. suffix t (s @ s') \<and> glob q (p @ p') t" by blast
    then show ?thesis using True by (simp add: glob_star)
  next
    case False
    with Cons show ?thesis by (auto simp: glob_Cons)
  qed
qed simp

text \<open>Matching is transitive: a pattern that matches the text of another pattern matches everything the
  other one matches.\<close>

lemma glob_trans:
  assumes "glob False p r" and "glob q r s"
  shows "glob q p s"
  using assms
proof (induction "False" p r arbitrary: s rule: glob.induct)
  case (1 s r)
  then show ?case by simp
next
  case (2 x p r)
  show ?case
  proof (cases "x = CHR ''*''")
    case True
    have "glob False p r \<or> (case r of [] \<Rightarrow> False | c # cs \<Rightarrow> glob False (x # p) cs)"
      using 2(4) True by (subst (asm) glob.simps(2)) simp
    then consider "glob False p r" | c cs where "r = c # cs" "glob False (x # p) cs"
      by (cases r) auto
    then show ?thesis
    proof cases
      case 1
      from 2(1) [OF True 1 2(5)] show ?thesis using True by (auto simp: glob_star)
    next
      case (2 c cs)
      have step: "glob q (x # p) t" if "glob q cs t" for t
        using "2.hyps"(2) [OF True 2(1) 2(2) that] .
      have "\<exists>t. suffix t s \<and> glob q cs t"
        using \<open>glob q r s\<close> 2(1) by (cases "c = CHR ''*''") (auto simp: glob_star glob_Cons suffix_Cons)
      then obtain t where "suffix t s" "glob q cs t" by blast
      with step True show ?thesis by (auto simp: glob_star intro: suffix_order.order_trans)
    qed
  next
    case False
    then obtain cs where r: "r = x # cs" "glob False p cs" using 2(4) by (auto simp: glob_Cons)
    then obtain c s' where "s = c # s'" "q \<and> x = CHR ''?'' \<or> x = c" "glob q cs s'" using 2(5) False by (auto simp: glob_Cons)
    with r 2(3) [OF False r(1)] show ?thesis using False by (auto simp: glob_Cons)
  qed
qed

section \<open>The control plane's iterative matcher\<close>

text \<open>The loop of \<^verbatim>\<open>anchoredGlob\<close>. The indices \<^verbatim>\<open>pi\<close> and \<^verbatim>\<open>si\<close> are the rest of the pattern and of the text; \<open>star\<close> is \<open>None\<close>
  for \<^verbatim>\<open>star = -1\<close> and otherwise the pattern after the last star and the text at \<^verbatim>\<open>starSi\<close>. The first case is the source's: a
  star of the pattern is taken literally when the text has a star at that place.\<close>

definition tracks :: "string \<Rightarrow> string \<Rightarrow> (string \<times> string) option \<Rightarrow> bool" where
  "tracks p s star \<longleftrightarrow> (case star of None \<Rightarrow> False | Some (sp, ss) \<Rightarrow> suffix p sp \<and> suffix s ss)"

lemma tracks_lit: "tracks p (c # cs) star \<Longrightarrow> p \<noteq> [] \<Longrightarrow> tracks (tl p) cs star"
  by (cases p) (auto simp: tracks_def dest: suffix_ConsD split: option.splits)

lemma tracks_back: "tracks sp ss (Some (sp, ss))"
  by (simp add: tracks_def)

lemma tracks_shorter: "tracks p s star \<Longrightarrow> p \<noteq> [] \<Longrightarrow> length (tl p) < length (fst (the star))"
  by (cases p) (auto simp: tracks_def dest: suffix_length_le split: option.splits)

function anchored_loop :: "string \<Rightarrow> string \<Rightarrow> (string \<times> string) option \<Rightarrow> bool" where
  "anchored_loop p s star =
     (case s of
        [] \<Rightarrow> dropWhile (\<lambda>c. c = CHR ''*'') p = []
      | c # cs \<Rightarrow>
          if p \<noteq> [] \<and> (hd p = CHR ''?'' \<or> hd p = c) then anchored_loop (tl p) cs star
          else if p \<noteq> [] \<and> hd p = CHR ''*'' then anchored_loop (tl p) s (Some (tl p, s))
          else case star of
                 None \<Rightarrow> False
               | Some (sp, ss) \<Rightarrow> (case ss of [] \<Rightarrow> False | _ # ss' \<Rightarrow> anchored_loop sp ss' (Some (sp, ss'))))"
  by pat_completeness auto
termination
  by (relation "measures [\<lambda>(p, s, star). if tracks p s star then 0 else 1,
        \<lambda>(p, s, star). if tracks p s star then length (fst (the star)) else 0,
        \<lambda>(p, s, star). if tracks p s star then length (snd (the star)) else 0,
        \<lambda>(p, s, star). length s]")
     (auto simp: tracks_lit tracks_back dest: tracks_shorter)

declare anchored_loop.simps [simp del]

lemma loop_again:
  assumes "\<not> (p \<noteq> [] \<and> (hd p = CHR ''?'' \<or> hd p = c))" and "\<not> (p \<noteq> [] \<and> hd p = CHR ''*'')"
  shows "anchored_loop p (c # cs) star \<longleftrightarrow> (\<exists>sp d ss. star = Some (sp, d # ss) \<and> anchored_loop sp ss (Some (sp, ss)))"
  unfolding anchored_loop.simps [of p "c # cs" star] using assms by (simp only: list.case if_False) (simp split: option.split list.split)

definition anchoredGlob :: "string \<Rightarrow> string \<Rightarrow> bool" where
  "anchoredGlob pattern s = anchored_loop pattern s None"

definition sshHostGlobMatch :: "string \<Rightarrow> string \<Rightarrow> bool" where
  "sshHostGlobMatch pattern host =
     (let p = ToLower (TrimSpace pattern); h = ToLower (TrimSpace host) in anchoredGlob p h)"

definition hostCoveredByAny :: "string \<Rightarrow> string list \<Rightarrow> bool" where
  "hostCoveredByAny host hostsAllow = list_ex (\<lambda>p. sshHostGlobMatch p host) hostsAllow"

lemma glob_empty: "glob q p [] \<longleftrightarrow> dropWhile (\<lambda>c. c = CHR ''*'') p = []"
  by (induction p) (auto simp: glob.simps(2))

text \<open>What the recorded star still offers: a match of the pattern after it at a later place.\<close>

definition retry :: "(string \<times> string) option \<Rightarrow> bool" where
  "retry star \<longleftrightarrow> (case star of None \<Rightarrow> False
     | Some (sp, ss) \<Rightarrow> (\<exists>t. strict_suffix t ss \<and> glob True sp t))"

lemma strict_suffix_Cons: "strict_suffix t (d # ss) \<longleftrightarrow> suffix t ss"
  unfolding strict_suffix_def suffix_Cons using suffix_length_le [of t ss] by auto

lemma retry_step: "retry (Some (sp, d # ss)) \<longleftrightarrow> glob True sp ss \<or> retry (Some (sp, ss))"
proof -
  have "(\<exists>t. suffix t ss \<and> glob True sp t) \<longleftrightarrow> glob True sp ss \<or> (\<exists>t. strict_suffix t ss \<and> glob True sp t)"
    unfolding strict_suffix_def by auto
  then show ?thesis by (simp add: retry_def strict_suffix_Cons)
qed

lemma anchored_sound: "anchored_loop p s star \<Longrightarrow> glob True p s \<or> retry star"
proof (induction p s star rule: anchored_loop.induct)
  case (1 p s star)
  show ?case
  proof (cases s)
    case Nil
    with "1.prems" show ?thesis by (subst (asm) anchored_loop.simps) (simp add: glob_empty)
  next
    case (Cons c cs)
    consider (lit) x p' where "p = x # p'" "x = CHR ''?'' \<or> x = c"
      | (star) p' where "p = CHR ''*'' # p'" "c \<noteq> CHR ''*''"
      | (again) "\<not> (p \<noteq> [] \<and> (hd p = CHR ''?'' \<or> hd p = c))" "\<not> (p \<noteq> [] \<and> hd p = CHR ''*'')"
      by (cases p) auto
    then show ?thesis
    proof cases
      case (lit x p')
      then have "anchored_loop p' cs star" using "1.prems" Cons by (subst (asm) anchored_loop.simps) simp
      with 1(1) [OF Cons] lit have "glob True p' cs \<or> retry star" by simp
      then show ?thesis using lit Cons by (cases "x = CHR ''*''") (auto simp: glob_Cons glob_star suffix_Cons)
    next
      case (star p')
      then have "anchored_loop p' s (Some (p', s))" using "1.prems" Cons by (subst (asm) anchored_loop.simps) simp
      with 1(2) [OF Cons] star have "glob True p' s \<or> retry (Some (p', s))" by simp
      then show ?thesis using star by (auto simp: glob_star retry_def dest: suffix_order.less_imp_le)
    next
      case again
      then obtain sp d ss' where st: "star = Some (sp, d # ss')" "anchored_loop sp ss' (Some (sp, ss'))"
        using "1.prems" Cons loop_again [OF again] by blast
      with 1(3) [OF Cons again] have "glob True sp ss' \<or> retry (Some (sp, ss'))" by simp
      then show ?thesis using st(1) retry_step by blast
    qed
  qed
qed

text \<open>Conversely, on a text without stars the loop finds a match when there is one: giving up the older
  star loses nothing.\<close>

lemma glob_drop:
  assumes "CHR ''*'' \<notin> set q" and "glob True (q @ p) t"
  shows "length q \<le> length t \<and> glob True p (drop (length q) t)"
  using assms by (induction q arbitrary: t) (auto simp: glob_Cons)

definition on_track :: "string \<Rightarrow> string \<Rightarrow> (string \<times> string) option \<Rightarrow> bool" where
  "on_track p s star \<longleftrightarrow> CHR ''*'' \<notin> set s \<and> (case star of None \<Rightarrow> True
     | Some (sp, ss) \<Rightarrow> CHR ''*'' \<notin> set ss \<and>
         (\<exists>q u. sp = q @ p \<and> ss = u @ s \<and> length q = length u \<and> CHR ''*'' \<notin> set q))"

lemma on_track_retry:
  assumes "on_track p s star" and "retry star"
  shows "\<exists>t. strict_suffix t s \<and> glob True p t"
proof -
  obtain sp ss t where st: "star = Some (sp, ss)" "strict_suffix t ss" "glob True sp t"
    using assms(2) by (auto simp: retry_def split: option.splits)
  then obtain q u where qu: "sp = q @ p" "ss = u @ s" "length q = length u" "CHR ''*'' \<notin> set q"
    using assms(1) by (auto simp: on_track_def)
  have g: "length q \<le> length t" "glob True p (drop (length q) t)" using glob_drop [OF qu(4)] st(3) qu(1) by auto
  have "length t < length ss" using st(2) by (simp add: suffix_length_less)
  then have len: "length (drop (length q) t) < length s" using g(1) qu(2,3) by simp
  have "suffix (drop (length q) t) ss" using st(2) by (meson suffix_drop suffix_order.less_imp_le suffix_order.trans)
  moreover have "suffix s ss" using qu(2) by (simp add: suffix_def)
  ultimately have "suffix (drop (length q) t) s" using len by (meson less_imp_le suffix_length_suffix)
  then have "strict_suffix (drop (length q) t) s" using len by (auto simp: strict_suffix_def)
  then show ?thesis using g(2) by blast
qed

lemma anchored_complete: "on_track p s star \<Longrightarrow> glob True p s \<or> retry star \<Longrightarrow> anchored_loop p s star"
proof (induction p s star rule: anchored_loop.induct)
  case (1 p s star)
  show ?case
  proof (cases s)
    case Nil
    then have "\<not> retry star" using on_track_retry [OF "1.prems"(1)] by (auto simp: strict_suffix_def)
    then show ?thesis using "1.prems"(2) Nil by (subst anchored_loop.simps) (simp add: glob_empty)
  next
    case (Cons c cs)
    have c: "c \<noteq> CHR ''*''" using "1.prems"(1) Cons by (auto simp: on_track_def)
    consider (lit) x p' where "p = x # p'" "x = CHR ''?'' \<or> x = c" "x \<noteq> CHR ''*''"
      | (star) p' where "p = CHR ''*'' # p'"
      | (again) "\<not> (p \<noteq> [] \<and> (hd p = CHR ''?'' \<or> hd p = c))" "\<not> (p \<noteq> [] \<and> hd p = CHR ''*'')"
      using c by (cases p) auto
    then show ?thesis
    proof cases
      case (lit x p')
      have "on_track p' cs star"
        unfolding on_track_def
      proof (intro conjI)
        show "CHR ''*'' \<notin> set cs" using "1.prems"(1) Cons by (simp add: on_track_def)
        show "case star of None \<Rightarrow> True | Some (sp, ss) \<Rightarrow> CHR ''*'' \<notin> set ss \<and>
          (\<exists>q u. sp = q @ p' \<and> ss = u @ cs \<and> length q = length u \<and> CHR ''*'' \<notin> set q)"
        proof (cases star)
          case (Some st)
          obtain sp ss where st: "st = (sp, ss)" by force
          obtain q u where "sp = q @ p" "ss = u @ s" "length q = length u" "CHR ''*'' \<notin> set q" "CHR ''*'' \<notin> set ss"
            using "1.prems"(1) Some st by (auto simp: on_track_def)
          then have "sp = (q @ [x]) @ p' \<and> ss = (u @ [c]) @ cs \<and> length (q @ [x]) = length (u @ [c]) \<and> CHR ''*'' \<notin> set (q @ [x])"
            using lit Cons by simp
          then show ?thesis using Some st \<open>CHR ''*'' \<notin> set ss\<close> by auto
        qed simp
      qed
      moreover have "glob True p' cs \<or> retry star" using "1.prems"(2) lit Cons by (auto simp: glob_Cons)
      ultimately have "anchored_loop p' cs star" using 1(1) [OF Cons] lit by simp
      then show ?thesis using lit Cons by (subst anchored_loop.simps) simp
    next
      case (star p')
      have "glob True p s"
        using "1.prems"(2) on_track_retry [OF "1.prems"(1)] star
        by (auto simp: glob_star dest: suffix_order.less_imp_le intro: suffix_order.trans)
      then have "glob True p' s \<or> retry (Some (p', s))"
        using star by (auto simp: glob_star retry_def strict_suffix_def)
      moreover have "on_track p' s (Some (p', s))" using "1.prems"(1) by (simp add: on_track_def)
      ultimately have "anchored_loop p' s (Some (p', s))" using 1(2) [OF Cons] star c by simp
      then show ?thesis using star Cons c by (subst anchored_loop.simps) simp
    next
      case again
      then have "\<not> glob True p s" using Cons by (cases p) (auto simp: glob_Cons)
      then have r: "retry star" using "1.prems"(2) by blast
      then obtain sp ss t where st: "star = Some (sp, ss)" "strict_suffix t ss" "glob True sp t"
        by (auto simp: retry_def split: option.splits)
      then obtain d ss' where ss: "ss = d # ss'" by (cases ss) (auto simp: strict_suffix_def)
      have "glob True sp ss' \<or> retry (Some (sp, ss'))" using r st(1) ss retry_step by blast
      moreover have "on_track sp ss' (Some (sp, ss'))" using "1.prems"(1) st(1) ss by (auto simp: on_track_def)
      ultimately have "anchored_loop sp ss' (Some (sp, ss'))" using 1(3) [OF Cons again st(1) refl ss] by simp
      then show ?thesis using st(1) ss Cons loop_again [OF again] by blast
    qed
  qed
qed

lemma anchoredGlob_sound: "anchoredGlob p s \<Longrightarrow> glob True p s"
  using anchored_sound [of p s None] by (simp add: anchoredGlob_def retry_def)

lemma anchoredGlob_iff: "CHR ''*'' \<notin> set s \<Longrightarrow> anchoredGlob p s \<longleftrightarrow> glob True p s"
  using anchored_sound [of p s None] anchored_complete [of p s None]
  by (auto simp: anchoredGlob_def retry_def on_track_def)

section \<open>Coverage of one pattern by another\<close>

text \<open>\<^verbatim>\<open>strings.SplitN(p, "*", 2)\<close> of a pattern with a star: the text before and after the first star.\<close>

definition star_parts :: "string \<Rightarrow> string \<times> string" where
  "star_parts p = (takeWhile (\<lambda>c. c \<noteq> CHR ''*'') p, tl (dropWhile (\<lambda>c. c \<noteq> CHR ''*'') p))"

definition starSegmentMatch :: "string \<Rightarrow> string \<Rightarrow> bool" where
  "starSegmentMatch pattern seg =
     (if \<not> Contains pattern ''*'' then pattern = seg
      else let (p0, p1) = star_parts pattern
           in if \<not> HasPrefix seg p0 \<or> \<not> HasSuffix seg p1 then False
              else length p0 + length p1 \<le> length seg)"

definition globCovers :: "string \<Rightarrow> string \<Rightarrow> bool" where
  "globCovers pattern candidate =
     (if pattern = candidate then True
      else if HasSuffix pattern ''**'' then
        (let prefix = TrimSuffix pattern ''**''
         in if \<not> HasPrefix candidate prefix then False else TrimPrefix candidate prefix \<noteq> [])
      else if Contains pattern ''*'' then
        (let psegs = Split_on CHR ''/'' pattern; csegs = Split_on CHR ''/'' candidate
         in if length psegs \<noteq> length csegs then False else list_all2 starSegmentMatch psegs csegs)
      else False)"

lemma Contains_char: "Contains s [c] \<longleftrightarrow> c \<in> set s"
  by (auto simp: Contains_iff in_set_conv_decomp)

lemma star_parts:
  assumes "CHR ''*'' \<in> set p"
  shows "p = fst (star_parts p) @ CHR ''*'' # snd (star_parts p)" and "CHR ''*'' \<notin> set (fst (star_parts p))"
proof -
  obtain l r where p: "p = l @ CHR ''*'' # r" "CHR ''*'' \<notin> set l" using split_list_first [OF assms] by blast
  then have "takeWhile (\<lambda>c. c \<noteq> CHR ''*'') p = l" "dropWhile (\<lambda>c. c \<noteq> CHR ''*'') p = CHR ''*'' # r"
    by (auto intro: takeWhile_tail simp: takeWhile_append dropWhile_append3 dropWhile_append)
  then show "p = fst (star_parts p) @ CHR ''*'' # snd (star_parts p)" "CHR ''*'' \<notin> set (fst (star_parts p))"
    using p by (simp_all add: star_parts_def)
qed

lemma segment_iff:
  assumes "CHR ''*'' \<in> set p" and "star_parts p = (p0, p1)"
  shows "starSegmentMatch p seg \<longleftrightarrow> (\<exists>m. seg = p0 @ m @ p1)"
proof
  assume "starSegmentMatch p seg"
  then have h: "HasPrefix seg p0" "HasSuffix seg p1" "length p0 + length p1 \<le> length seg"
    using assms by (auto simp: starSegmentMatch_def Contains_char split: if_splits)
  then obtain r where r: "seg = p0 @ r" by (auto simp: HasPrefix_iff)
  with h obtain l where "p0 @ r = l @ p1" "length p1 \<le> length r" by (auto simp: HasSuffix_iff)
  then obtain m where "r = m @ p1" by (auto simp: append_eq_append_conv2 dest: arg_cong [of _ _ length])
  then show "\<exists>m. seg = p0 @ m @ p1" using r by auto
next
  assume "\<exists>m. seg = p0 @ m @ p1"
  then show "starSegmentMatch p seg"
    using assms by (auto simp: starSegmentMatch_def Contains_char HasPrefix_iff HasSuffix_iff)
qed

lemma segment_glob: "starSegmentMatch p seg \<Longrightarrow> glob False p seg"
proof (cases "CHR ''*'' \<in> set p")
  case True
  assume m: "starSegmentMatch p seg"
  obtain p0 p1 where pp: "star_parts p = (p0, p1)" by force
  then obtain m where "seg = p0 @ m @ p1" using m segment_iff [OF True pp] by auto
  moreover have "glob False (p0 @ [CHR ''*''] @ p1) (p0 @ m @ p1)" by (intro glob_append glob_refl) simp
  ultimately show ?thesis using star_parts(1) [OF True] pp by simp
qed (simp add: starSegmentMatch_def Contains_char)

lemma glob_segments:
  assumes "list_all2 (glob False) ps cs"
  shows "glob False (join_with ''/'' ps) (join_with ''/'' cs)"
  using assms
proof (induction rule: list_all2_induct)
  case (Cons p ps c cs)
  show ?case
  proof (cases ps)
    case Nil
    then show ?thesis using Cons by simp
  next
    case P: (Cons p' ps')
    then obtain c' cs' where C: "cs = c' # cs'" using Cons(2) by (cases cs) auto
    have "glob False (p @ ''/'' @ join_with ''/'' ps) (c @ ''/'' @ join_with ''/'' cs)"
      using Cons by (intro glob_append glob_refl) auto
    then show ?thesis using P C by simp
  qed
qed simp

text \<open>The coverage test is sound for stars that cross every character: the covering pattern matches the
  covered one as a text.\<close>

lemma globCovers_glob:
  assumes "globCovers p c"
  shows "glob False p c"
proof -
  consider "p = c" | "p \<noteq> c" "HasSuffix p ''**''" "HasPrefix c (TrimSuffix p ''**'')"
    | "list_all2 starSegmentMatch (Split_on CHR ''/'' p) (Split_on CHR ''/'' c)"
    using assms by (auto simp: globCovers_def Let_def split: if_splits)
  then show ?thesis
  proof cases
    case 2
    then obtain pre where p: "p = pre @ ''**''" by (auto simp: HasSuffix_iff)
    then have "TrimSuffix p ''**'' = pre" using 2(2) by (simp add: TrimSuffix_def)
    then obtain r where "c = pre @ r" using 2(3) by (auto simp: HasPrefix_iff)
    moreover have "glob False (pre @ ''**'') (pre @ r)"
      by (intro glob_append glob_refl) (auto simp: glob_star)
    ultimately show ?thesis using p by simp
  next
    case 3
    then have "list_all2 (glob False) (Split_on CHR ''/'' p) (Split_on CHR ''/'' c)"
      by (rule list_all2_mono) (rule segment_glob)
    from glob_segments [OF this] show ?thesis by (simp add: join_Split_on)
  qed simp
qed

section \<open>The gateway's tool-name matcher\<close>

fun mids_match :: "string list \<Rightarrow> string \<Rightarrow> bool" where
  "mids_match [] s = True"
| "mids_match (m # ms) s =
     (if m = [] then mids_match ms s
      else case Index s m of None \<Rightarrow> False | Some idx \<Rightarrow> mids_match ms (drop (idx + length m) s))"

definition wildcardMatch :: "string \<Rightarrow> string \<Rightarrow> bool" where
  "wildcardMatch pattern s =
     (if \<not> Contains pattern ''*'' then pattern = s
      else
        let parts = Split_on CHR ''*'' pattern
        in if \<not> HasPrefix s (hd parts) then False
           else
             let s1 = drop (length (hd parts)) s; lst = last parts
             in if lst \<noteq> [] \<and> (\<not> HasSuffix s1 lst \<or> length s1 < length lst) then False
                else let s2 = (if lst \<noteq> [] then take (length s1 - length lst) s1 else s1)
                     in mids_match (butlast (tl parts)) s2)"

lemma Index_Some:
  "Index s m = Some i \<Longrightarrow> \<exists>l r. s = l @ m @ r \<and> length l = i \<and> (\<forall>l' r'. s = l' @ m @ r' \<longrightarrow> i \<le> length l')"
proof (induction s arbitrary: i)
  case Nil
  then show ?case by (auto split: if_splits)
next
  case (Cons x xs)
  show ?case
  proof (cases "HasPrefix (x # xs) m")
    case True
    then obtain r where "x # xs = [] @ m @ r" by (auto simp: HasPrefix_iff)
    moreover have "i = 0" using Cons.prems True by simp
    ultimately show ?thesis by (metis le0 list.size(3))
  next
    case False
    then obtain j where j: "Index xs m = Some j" "i = Suc j" using Cons.prems by auto
    obtain l r where lr: "xs = l @ m @ r" "length l = j" "\<forall>l' r'. xs = l' @ m @ r' \<longrightarrow> j \<le> length l'"
      using Cons.IH [OF j(1)] by blast
    have "i \<le> length l'" if "x # xs = l' @ m @ r'" for l' r'
    proof (cases l')
      case Nil
      then show ?thesis using that False by (auto simp: HasPrefix_iff)
    next
      case (Cons a l'')
      then show ?thesis using that lr(3) j(2) by auto
    qed
    moreover have "x # xs = (x # l) @ m @ r" "length (x # l) = i" using lr j by auto
    ultimately show ?thesis by blast
  qed
qed

lemma Index_None: "Index s m = None \<longleftrightarrow> (\<forall>l r. s \<noteq> l @ m @ r)"
proof (induction s)
  case (Cons x xs)
  have "(\<exists>l r. x # xs = l @ m @ r) \<longleftrightarrow> (\<exists>r. x # xs = m @ r) \<or> (\<exists>l r. xs = l @ m @ r)"
    by (metis append_Cons append_Nil list.exhaust list.inject)
  then show ?case using Cons.IH by (auto simp: HasPrefix_iff)
qed auto

text \<open>Taking the first occurrence of each literal is as good as any choice.\<close>

lemma mids_mono: "mids_match ms t \<Longrightarrow> mids_match ms (l @ t)"
proof (induction ms arbitrary: l t)
  case (Cons m ms)
  show ?case
  proof (cases "m = []")
    case False
    then obtain i where i: "Index t m = Some i" "mids_match ms (drop (i + length m) t)" using Cons.prems by (auto split: option.splits)
    obtain a b where ab: "t = a @ m @ b" "length a = i" using Index_Some [OF i(1)] by blast
    then have lt: "l @ t = (l @ a) @ m @ b" by simp
    then have "Index (l @ t) m \<noteq> None" unfolding Index_None by blast
    then obtain j where j: "Index (l @ t) m = Some j" by blast
    obtain c d where cd: "l @ t = c @ m @ d" "length c = j" "j \<le> length (l @ a)" using Index_Some [OF j] lt by blast
    have "suffix b (l @ t)" "suffix d (l @ t)" unfolding suffix_def using lt cd(1) by (metis append_assoc)+
    moreover have "length b \<le> length d" using arg_cong [OF cd(1), of length] arg_cong [OF lt, of length] cd(2,3) by simp
    ultimately have "suffix b d" by (rule suffix_length_suffix)
    then obtain e where "d = e @ b" by (auto simp: suffix_def)
    moreover have "mids_match ms b" using i(2) ab by simp
    moreover have "drop (j + length m) (l @ t) = d" using cd by simp
    ultimately show ?thesis using False j Cons.IH [of b e] by simp
  qed (use Cons in simp)
qed simp

lemma mids_Cons: "mids_match (m # ms) u \<longleftrightarrow> (\<exists>x t. u = x @ m @ t \<and> mids_match ms t)"
proof
  assume "mids_match (m # ms) u"
  then show "\<exists>x t. u = x @ m @ t \<and> mids_match ms t"
  proof (cases "m = []")
    case True
    then show ?thesis using \<open>mids_match (m # ms) u\<close> by (intro exI [of _ "[]"] exI [of _ u]) simp
  next
    case False
    then obtain i where i: "Index u m = Some i" "mids_match ms (drop (i + length m) u)"
      using \<open>mids_match (m # ms) u\<close> by (auto split: option.splits)
    then obtain l r where "u = l @ m @ r" "length l = i" using Index_Some by blast
    then show ?thesis using i(2) by (intro exI [of _ l] exI [of _ r]) auto
  qed
next
  assume "\<exists>x t. u = x @ m @ t \<and> mids_match ms t"
  then obtain x t where u: "u = x @ m @ t" "mids_match ms t" by blast
  have "mids_match (m # ms) (m @ t)"
  proof (cases "m = []")
    case False
    then have "HasPrefix (m @ t) m" by (auto simp: HasPrefix_iff)
    then have "Index (m @ t) m = Some 0" using False by (cases m) auto
    then show ?thesis using False u(2) by simp
  qed (use u in simp)
  then show "mids_match (m # ms) u" using mids_mono u(1) by blast
qed

lemma glob_star_lit:
  assumes "CHR ''*'' \<notin> set m"
  shows "glob False (CHR ''*'' # m @ p) s \<longleftrightarrow> (\<exists>x t. s = x @ m @ t \<and> glob False p t)"
  unfolding glob_star glob_lit [OF assms] suffix_def by blast

lemma glob_mids:
  assumes "\<forall>m \<in> set (ms @ [lst]). CHR ''*'' \<notin> set m"
  shows "glob False (CHR ''*'' # join_with ''*'' (ms @ [lst])) s \<longleftrightarrow> (\<exists>t. s = t @ lst \<and> mids_match ms t)"
  using assms
proof (induction ms arbitrary: s)
  case Nil
  then show ?case using glob_star_lit [of lst "[]" s] by simp
next
  case (Cons m ms)
  have J: "join_with ''*'' ((m # ms) @ [lst]) = m @ CHR ''*'' # join_with ''*'' (ms @ [lst])" by (cases ms) auto
  have "glob False (CHR ''*'' # join_with ''*'' ((m # ms) @ [lst])) s \<longleftrightarrow>
      (\<exists>x r. s = x @ m @ r \<and> (\<exists>t. r = t @ lst \<and> mids_match ms t))"
    unfolding J using Cons.prems by (subst glob_star_lit) (simp_all add: Cons.IH)
  also have "\<dots> \<longleftrightarrow> (\<exists>t. s = t @ lst \<and> mids_match (m # ms) t)"
    unfolding mids_Cons by (metis append.assoc)
  finally show ?case .
qed

lemma Split_two: "c \<in> set s \<Longrightarrow> tl (Split_on c s) \<noteq> []"
  by (induction s) (auto split: list.splits)

lemma wildcardMatch_iff: "wildcardMatch pattern s \<longleftrightarrow> glob False pattern s"
proof (cases "CHR ''*'' \<in> set pattern")
  case True
  define ps where "ps = Split_on CHR ''*'' pattern"
  define ms where "ms = butlast (tl ps)"
  define lst where "lst = last ps"
  have tl: "tl ps \<noteq> []" using Split_two [OF True] by (simp add: ps_def)
  then have "ps = hd ps # tl ps" by (cases ps) auto
  moreover have "tl ps = ms @ [lst]" using tl by (cases ps) (auto simp: ms_def lst_def)
  ultimately have ps: "ps = hd ps # ms @ [lst]" by simp
  have "\<forall>m \<in> set ps. CHR ''*'' \<notin> set m" unfolding ps_def using Split_on_sep by blast
  then have free: "CHR ''*'' \<notin> set (hd ps)" "\<forall>m \<in> set (ms @ [lst]). CHR ''*'' \<notin> set m"
    by (metis ps list.set_intros(1), metis ps list.set_intros(2))
  have "pattern = join_with ''*'' ps" by (simp add: ps_def join_Split_on)
  also have "\<dots> = join_with ''*'' (hd ps # ms @ [lst])" using ps by simp
  finally have pat: "pattern = hd ps @ CHR ''*'' # join_with ''*'' (ms @ [lst])" by (simp add: join_Cons)
  have "glob False pattern s \<longleftrightarrow> (\<exists>r. s = hd ps @ r \<and> (\<exists>t. r = t @ lst \<and> mids_match ms t))"
    by (subst pat) (simp only: glob_lit [OF free(1)] glob_mids [OF free(2)])
  also have "\<dots> \<longleftrightarrow> wildcardMatch pattern s"
    using True unfolding wildcardMatch_def ps_def [symmetric] Let_def ms_def [symmetric] lst_def [symmetric]
    by (auto simp: Contains_char HasPrefix_iff HasSuffix_iff split: if_splits)
  finally show ?thesis by simp
qed (auto simp: wildcardMatch_def Contains_char glob_literal)

text \<open>So the coverage test is sound for tool names.\<close>

lemma globCovers_wildcard:
  assumes "globCovers p c" and "wildcardMatch c s"
  shows "wildcardMatch p s"
  using glob_trans [OF globCovers_glob [OF assms(1)]] assms(2) by (simp add: wildcardMatch_iff)

section \<open>The gateway's ssh matcher\<close>

text \<open>The regular expressions \<open>compileGlob\<close> writes: a dot-star, a dot or a quoted character per character of
  the pattern. The dot of Go's \<^verbatim>\<open>regexp\<close> does not match a newline. An anchored expression matches the whole
  text; the other form matches any part of it.\<close>

datatype rx = RxRun | RxAny | RxLit char

record Regexp =
  Rx_anywhere :: bool
  Rx_items :: "rx list"

definition rx_of :: "char \<Rightarrow> rx" where
  "rx_of r = (if r = CHR ''*'' then RxRun else if r = CHR ''?'' then RxAny else RxLit r)"

definition dot :: "char \<Rightarrow> bool" where
  "dot c \<longleftrightarrow> byte_of c \<noteq> 10"

fun rx_match :: "bool \<Rightarrow> rx list \<Rightarrow> string \<Rightarrow> bool" where
  "rx_match whole [] s = (whole \<longrightarrow> s = [])"
| "rx_match whole (RxRun # ts) s =
     (rx_match whole ts s \<or> (case s of [] \<Rightarrow> False | c # cs \<Rightarrow> dot c \<and> rx_match whole (RxRun # ts) cs))"
| "rx_match whole (RxAny # ts) s = (case s of [] \<Rightarrow> False | c # cs \<Rightarrow> dot c \<and> rx_match whole ts cs)"
| "rx_match whole (RxLit x # ts) s = (case s of [] \<Rightarrow> False | c # cs \<Rightarrow> x = c \<and> rx_match whole ts cs)"

definition MatchString :: "Regexp \<Rightarrow> string \<Rightarrow> bool" where
  "MatchString re s =
     (if Rx_anywhere re then list_ex (rx_match False (Rx_items re)) (suffixes s) else rx_match True (Rx_items re) s)"

definition fresh_regexp :: "string \<Rightarrow> bool \<Rightarrow> Regexp" where
  "fresh_regexp pattern anywhere = \<lparr>Rx_anywhere = anywhere, Rx_items = map rx_of pattern\<rparr>"

definition compileGlob :: "string \<Rightarrow> bool \<Rightarrow> Regexp gomap \<Rightarrow> Regexp \<times> Regexp gomap" where
  "compileGlob pattern anywhere globCache =
     (let key = (if anywhere then pattern @ ''|anywhere'' else pattern)
      in case gm_get globCache key of
           Some re \<Rightarrow> (re, globCache)
         | None \<Rightarrow> let re = fresh_regexp pattern anywhere in (re, gm_put key re globCache))"

definition ssh_globMatch :: "string \<Rightarrow> string \<Rightarrow> bool" where
  "ssh_globMatch pattern s = MatchString (fresh_regexp (ToLower (TrimSpace pattern)) False) (ToLower s)"

definition globMatchAnywhere :: "string \<Rightarrow> string \<Rightarrow> bool" where
  "globMatchAnywhere pattern s = MatchString (fresh_regexp (ToLower (TrimSpace pattern)) True) (ToLower s)"

text \<open>The cache is transparent as long as no anchored pattern ends in \<^verbatim>\<open>|anywhere\<close>.\<close>

definition cache_ok :: "Regexp gomap \<Rightarrow> bool" where
  "cache_ok cache \<longleftrightarrow> (\<forall>k re. gm_get cache k = Some re \<longrightarrow>
     (if HasSuffix k ''|anywhere'' then re = fresh_regexp (TrimSuffix k ''|anywhere'') True else re = fresh_regexp k False))"

lemma suffix_key [simp]: "HasSuffix (p @ ''|anywhere'') ''|anywhere''" "TrimSuffix (p @ ''|anywhere'') ''|anywhere'' = p"
proof -
  show "HasSuffix (p @ ''|anywhere'') ''|anywhere''" unfolding HasSuffix_iff by blast
  then show "TrimSuffix (p @ ''|anywhere'') ''|anywhere'' = p" by (simp add: TrimSuffix_def)
qed

lemma compileGlob_cached:
  assumes "cache_ok cache" and "anywhere \<or> \<not> HasSuffix pattern ''|anywhere''"
  shows "fst (compileGlob pattern anywhere cache) = fresh_regexp pattern anywhere"
    and "cache_ok (snd (compileGlob pattern anywhere cache))"
proof -
  let ?key = "if anywhere then pattern @ ''|anywhere'' else pattern"
  have good: "if HasSuffix ?key ''|anywhere'' then fresh_regexp pattern anywhere = fresh_regexp (TrimSuffix ?key ''|anywhere'') True
      else fresh_regexp pattern anywhere = fresh_regexp ?key False"
    using assms(2) suffix_key [of pattern] by (cases anywhere) (auto simp del: HasSuffix_iff)
  have hit: "re = fresh_regexp pattern anywhere" if "gm_get cache ?key = Some re" for re
    using assms(1) that good unfolding cache_ok_def by metis
  show "fst (compileGlob pattern anywhere cache) = fresh_regexp pattern anywhere"
    unfolding compileGlob_def Let_def using hit by (cases "gm_get cache ?key") auto
  show "cache_ok (snd (compileGlob pattern anywhere cache))"
    unfolding compileGlob_def Let_def using assms(1) good unfolding cache_ok_def
    by (cases "gm_get cache ?key") (auto simp del: suffix_key)
qed

lemma dot_iff: "dot c \<longleftrightarrow> c \<noteq> CHR 0x0A"
proof -
  have "(of_char c = (of_char CHR 0x0A :: nat)) \<longleftrightarrow> c = CHR 0x0A" by (rule of_char_eq_iff)
  then show ?thesis by (simp add: dot_def byte_of_def)
qed

lemma rx_run: "CHR 0x0A \<notin> set s \<Longrightarrow> rx_match w (RxRun # ts) s \<longleftrightarrow> (\<exists>t. suffix t s \<and> rx_match w ts t)"
proof (induction s)
  case (Cons c s)
  have "(\<exists>t. suffix t (c # s) \<and> rx_match w ts t) \<longleftrightarrow> rx_match w ts (c # s) \<or> (\<exists>t. suffix t s \<and> rx_match w ts t)"
    unfolding suffix_Cons by blast
  moreover have "rx_match w (RxRun # ts) (c # s) \<longleftrightarrow> rx_match w ts (c # s) \<or> (dot c \<and> rx_match w (RxRun # ts) s)" by simp
  ultimately show ?case using Cons by (simp only: dot_iff) auto
qed simp

lemma rx_glob: "CHR 0x0A \<notin> set s \<Longrightarrow> rx_match True (map rx_of p) s \<longleftrightarrow> glob True p s"
proof (induction p arbitrary: s)
  case (Cons x p)
  consider "x = CHR ''*''" | "x = CHR ''?''" | "x \<noteq> CHR ''*''" "x \<noteq> CHR ''?''" by blast
  then show ?case
  proof cases
    case 1
    have "rx_match True (map rx_of p) t \<longleftrightarrow> glob True p t" if "suffix t s" for t
      using Cons.IH [of t] Cons.prems set_mono_suffix [OF that] by blast
    moreover have "map rx_of (x # p) = RxRun # map rx_of p" using 1 by (simp add: rx_of_def)
    ultimately show ?thesis using 1 rx_run [OF Cons.prems, of True "map rx_of p"] by (simp only: glob_star) blast
  next
    case 2
    then show ?thesis using Cons by (cases s) (auto simp: rx_of_def glob_Cons dot_iff)
  next
    case 3
    then show ?thesis using Cons by (cases s) (auto simp: rx_of_def glob_Cons)
  qed
qed simp

lemma lower_char_is: "byte_of c < 65 \<Longrightarrow> lower_char x = c \<longleftrightarrow> x = c"
  by (auto simp: lower_char_def byte_of_def split: if_splits)

lemma glob_lower: "glob False p s \<Longrightarrow> glob False (ToLower p) (ToLower s)"
proof (induction p arbitrary: s)
  case (Cons x p)
  show ?case
  proof (cases "x = CHR ''*''")
    case True
    with Cons.prems obtain t where "suffix t s" "glob False p t" by (auto simp: glob_star)
    with Cons.IH have "suffix (ToLower t) (ToLower s)" "glob False (ToLower p) (ToLower t)"
      by (auto simp: ToLower_def suffix_def)
    moreover have "ToLower (x # p) = CHR ''*'' # ToLower p" using True by (simp add: ToLower_def lower_char_def byte_of_def)
    ultimately show ?thesis by (auto simp: glob_star)
  next
    case False
    moreover have "lower_char x \<noteq> CHR ''*''" using False lower_char_is [of "CHR ''*''" x] by (simp add: byte_of_def)
    ultimately show ?thesis using Cons by (auto simp: glob_Cons ToLower_def)
  qed
qed (simp add: ToLower_def)

lemma ssh_globMatch_iff:
  assumes "CHR 0x0A \<notin> set (ToLower s)"
  shows "ssh_globMatch p s \<longleftrightarrow> glob True (ToLower (TrimSpace p)) (ToLower s)"
  using rx_glob [OF assms] by (simp add: ssh_globMatch_def MatchString_def fresh_regexp_def)

lemma lower_char_low: "byte_of c < 97 \<Longrightarrow> lower_char x = c \<Longrightarrow> x = c"
  by (auto simp: lower_char_def split: if_splits)

lemma lower_char_absent: "byte_of c < 97 \<Longrightarrow> c \<notin> set s \<Longrightarrow> c \<notin> set (ToLower s)"
  unfolding ToLower_def set_map image_iff by (metis lower_char_low)

section \<open>Properties\<close>

text \<open>The control plane's iterative host matcher decides the glob relation. It never accepts a text the
  pattern does not match, accepts every matched text that contains no star itself, and on such texts (without
  line breaks) it agrees with the regular expression the tool gateway compiles from the same pattern.\<close>

theorem host_matchers_agree:
  assumes "CHR ''*'' \<notin> set host" and "CHR 0x0A \<notin> set host"
  shows "(anchoredGlob p s \<longrightarrow> glob True p s) \<and> anchoredGlob p host = glob True p host \<and>
    sshHostGlobMatch p host = ssh_globMatch p (TrimSpace host)"
proof -
  have "set (TrimSpace host) \<subseteq> set host" unfolding TrimSpace_def by (auto dest!: set_dropWhileD)
  then have "CHR ''*'' \<notin> set (TrimSpace host)" "CHR 0x0A \<notin> set (TrimSpace host)" using assms by blast+
  then have free: "CHR ''*'' \<notin> set (ToLower (TrimSpace host))" "CHR 0x0A \<notin> set (ToLower (TrimSpace host))"
    by (simp_all add: lower_char_absent byte_of_def)
  show ?thesis
    using assms(1) anchoredGlob_sound anchoredGlob_iff ssh_globMatch_iff [OF free(2)] anchoredGlob_iff [OF free(1)]
    by (simp add: sshHostGlobMatch_def)
qed

theorem host_matchers_agree_witness:
  "sshHostGlobMatch '' *.Example.com'' ''a.example.COM'' = ssh_globMatch '' *.Example.com'' (TrimSpace ''a.example.COM'') \<and>
   sshHostGlobMatch '' *.Example.com'' ''a.example.COM'' \<and> \<not> anchoredGlob ''*'' ''*a'' \<and> glob True ''*'' ''*a''"
proof -
  have "sshHostGlobMatch '' *.Example.com'' ''a.example.COM'' = ssh_globMatch '' *.Example.com'' (TrimSpace ''a.example.COM'')"
    using host_matchers_agree [of "''a.example.COM''" "'' *.Example.com''" "[]"] by simp
  moreover have "sshHostGlobMatch '' *.Example.com'' ''a.example.COM''" "\<not> anchoredGlob ''*'' ''*a''" by code_simp+
  ultimately show ?thesis by simp
qed

end
