(* ===== verification/Egress_Shape.thy ===== *)
theory Egress_Shape
  imports Go_Json Go_Net Glob
begin

text \<open>
  Shape validation of the governed egress plane (\<^verbatim>\<open>egresspolicy/egresspolicy.go\<close>, \<^verbatim>\<open>validate.go\<close> and the shape half of
  \<^verbatim>\<open>browser.go\<close>): which keys and values an endpoint configuration and a policy ceiling may have, per
  resource type, with the structured violations in the order the code reports them. \<^verbatim>\<open>net/url.Parse\<close> is the
  parameter \<open>url_parse\<close>, reduced to scheme and host.
\<close>

record Violation =
  V_Field :: string
  V_Code :: string
  V_Message :: string

definition viol :: "string \<Rightarrow> string \<Rightarrow> string \<Rightarrow> Violation" where
  "viol f c m = \<lparr>V_Field = f, V_Code = c, V_Message = m\<rparr>"

definition Violations_Error :: "Violation list \<Rightarrow> string" where
  "Violations_Error v = (case v of [] \<Rightarrow> ''no violations'' | x # _ \<Rightarrow> V_Field x @ '': '' @ V_Message x)"

definition IsTyped :: "string \<Rightarrow> bool" where
  "IsTyped resourceType \<longleftrightarrow> resourceType \<in> set [''web'', ''rest'', ''mcp'', ''git'', ''ssh'']"

definition ceilingHostGroupsPrefix :: string where "ceilingHostGroupsPrefix = ''policy_ceiling.host_groups.''"
definition ceilingEgressClassField :: string where "ceilingEgressClassField = ''policy_ceiling.egress_class''"
definition ceilingRatePerMinField :: string where "ceilingRatePerMinField = ''policy_ceiling.rate_per_min''"
definition ceilingPerToolPrefix :: string where "ceilingPerToolPrefix = ''policy_ceiling.per_tool.''"
definition hostGroupsHostsSuffix :: string where "hostGroupsHostsSuffix = ''.hosts''"

section \<open>Field helpers\<close>

definition egress_object :: "string \<Rightarrow> RawMessage \<Rightarrow> Violation list + key_map" where
  "egress_object field raw =
     (let bad = Inl [viol field ''invalid_json'' (field @ '' must be a JSON object'')]
      in case raw of
           RawEmpty \<Rightarrow> Inr []
         | RawInvalid \<Rightarrow> bad
         | Raw v \<Rightarrow> (case un_map v of None \<Rightarrow> bad | Some m \<Rightarrow> Inr m))"

text \<open>The insertion loop of \<^verbatim>\<open>sortByField\<close>: the next violation moves left past strictly greater ones. The prefix
  already sorted is kept reversed.\<close>

fun place_violation :: "Violation \<Rightarrow> Violation list \<Rightarrow> Violation list" where
  "place_violation x [] = [x]"
| "place_violation x (y # ys) = (if V_Field x < V_Field y then y # place_violation x ys else x # y # ys)"

definition sortByField :: "Violation list \<Rightarrow> Violation list" where
  "sortByField v = rev (fold place_violation v [])"

definition sortedKeys :: "string list \<Rightarrow> string" where
  "sortedKeys keys = join_with '', '' (sort keys)"

definition checkUnknownKeys :: "string \<Rightarrow> key_map \<Rightarrow> string list \<Rightarrow> Violation list" where
  "checkUnknownKeys field obj allowed =
     sortByField (map (\<lambda>k. viol (field @ ''.'' @ k) ''unknown_key''
                            (''unknown key '' @ Quote k @ '' for '' @ field @ '' (allowed: '' @ join_with '', '' allowed @ '')''))
                   (filter (\<lambda>k. k \<notin> set allowed) (map fst obj)))"

text \<open>An absent key and a null are both "not set".\<close>

definition lookup_set :: "key_map \<Rightarrow> string \<Rightarrow> json option" where
  "lookup_set obj key = (case gm_get obj key of None \<Rightarrow> None | Some JNull \<Rightarrow> None | Some v \<Rightarrow> Some v)"

definition stringField :: "key_map \<Rightarrow> string \<Rightarrow> string \<Rightarrow> bool \<Rightarrow> string list option \<Rightarrow> Violation list \<times> string" where
  "stringField obj key path required allowed =
     (case lookup_set obj key of
        None \<Rightarrow> (if required then [viol path ''required'' (path @ '' is required'')] else [], [])
      | Some v \<Rightarrow>
          (case un_string v of
             None \<Rightarrow> ([viol path ''invalid_type'' (path @ '' must be a string'')], [])
           | Some s \<Rightarrow>
               (case allowed of
                  None \<Rightarrow> ([], s)
                | Some al \<Rightarrow>
                    if s \<notin> set al then ([viol path ''invalid_value'' (path @ '' must be one of: '' @ sortedKeys al)], s)
                    else ([], s))))"

fun blank_entry :: "nat \<Rightarrow> string list \<Rightarrow> nat option" where
  "blank_entry i [] = None"
| "blank_entry i (s # ss) = (if TrimSpace s = [] then Some i else blank_entry (Suc i) ss)"

definition indexed :: "string \<Rightarrow> nat \<Rightarrow> string" where
  "indexed path i = path @ ''['' @ nat_digits i @ '']''"

definition stringListField :: "key_map \<Rightarrow> string \<Rightarrow> string \<Rightarrow> Violation list \<times> string list" where
  "stringListField obj key path =
     (case lookup_set obj key of
        None \<Rightarrow> ([], [])
      | Some v \<Rightarrow>
          (case un_strings v of (ok, out) \<Rightarrow>
             if \<not> ok then ([viol path ''invalid_type'' (path @ '' must be an array of strings'')], out)
             else case blank_entry 0 out of
                    Some i \<Rightarrow> ([viol (indexed path i) ''invalid_value'' (path @ '' entries must be non-empty'')], out)
                  | None \<Rightarrow> ([], out)))"

definition positiveIntField :: "key_map \<Rightarrow> string \<Rightarrow> string \<Rightarrow> Violation list \<times> int" where
  "positiveIntField obj key path =
     (case lookup_set obj key of
        None \<Rightarrow> ([], 0)
      | Some v \<Rightarrow>
          (case un_int v of
             None \<Rightarrow> ([viol path ''invalid_type'' (path @ '' must be an integer'')], 0)
           | Some n \<Rightarrow> if n \<le> 0 then ([viol path ''invalid_value'' (path @ '' must be > 0'')], n) else ([], n)))"

definition boolField :: "key_map \<Rightarrow> string \<Rightarrow> string \<Rightarrow> Violation list \<times> bool" where
  "boolField obj key path =
     (case lookup_set obj key of
        None \<Rightarrow> ([], False)
      | Some v \<Rightarrow>
          (case un_bool v of
             None \<Rightarrow> ([viol path ''invalid_type'' (path @ '' must be a boolean'')], False)
           | Some b \<Rightarrow> ([], b)))"

definition boundedIntField :: "key_map \<Rightarrow> string \<Rightarrow> string \<Rightarrow> int \<Rightarrow> int \<Rightarrow> Violation list \<times> int" where
  "boundedIntField obj key path minV maxV =
     (case lookup_set obj key of
        None \<Rightarrow> ([], 0)
      | Some v \<Rightarrow>
          (case un_int v of
             None \<Rightarrow> ([viol path ''invalid_type'' (path @ '' must be an integer'')], 0)
           | Some n \<Rightarrow>
               if n < minV \<or> maxV < n
               then ([viol path ''invalid_value'' (path @ '' must be between '' @ Itoa minV @ '' and '' @ Itoa maxV)], n)
               else ([], n)))"

section \<open>Accepted values\<close>

definition httpMethods :: "string list" where
  "httpMethods = [''GET'', ''POST'', ''PUT'', ''PATCH'', ''DELETE'', ''HEAD'', ''OPTIONS'']"
definition authKinds :: "string list" where
  "authKinds = [''none'', ''bearer'', ''api_key_header'', ''basic'', ''oauth2_client_credentials'']"
definition mcpAuth :: "string list" where "mcpAuth = [''none'', ''bearer'']"
definition mcpDrivers :: "string list" where "mcpDrivers = [''browser'', ''mcp'']"
definition egressClass :: "string list" where "egressClass = [''public'', ''internal'']"

definition validHTTPURL :: "(string \<Rightarrow> (string \<times> string) option) \<Rightarrow> string \<Rightarrow> bool" where
  "validHTTPURL url_parse value =
     (case url_parse value of None \<Rightarrow> False
      | Some (scheme, host) \<Rightarrow> (scheme = ''https'' \<or> scheme = ''http'') \<and> host \<noteq> [])"

definition validCIDR :: "string \<Rightarrow> bool" where
  "validCIDR value \<longleftrightarrow> ParseCIDR value \<noteq> None"

definition WebShapeKeys :: "string list" where
  "WebShapeKeys = [''deny_domains'', ''deny_cidrs'', ''rate_per_min'', ''max_bytes'', ''timeout_seconds'', ''allow_private_network'']"
definition RestConfigKeys :: "string list" where "RestConfigKeys = [''base_url'', ''auth_kind'', ''header_name'']"
definition RestCeilingKeys :: "string list" where
  "RestCeilingKeys = [''methods'', ''path_allow'', ''path_deny'', ''max_request_bytes'', ''max_response_bytes'', ''rate_per_min'', ''egress_class'']"
definition MCPConfigKeys :: "string list" where "MCPConfigKeys = [''url'', ''auth_kind'', ''driver'']"
definition MCPCeilingKeys :: "string list" where
  "MCPCeilingKeys = [''tools_allow'', ''tools_deny'', ''per_tool'', ''rate_per_min'', ''max_args_bytes'', ''egress_class'']"
definition GitConfigKeys :: "string list" where "GitConfigKeys = [''base_url'']"
definition GitCeilingKeys :: "string list" where "GitCeilingKeys = [''repos_allow'', ''allow_push'', ''rate_per_min'']"
definition SSHConfigKeys :: "string list" where
  "SSHConfigKeys = [''ssh_user'', ''port'', ''known_hosts'', ''auth_mode'', ''artifact'']"
definition SSHCeilingKeys :: "string list" where
  "SSHCeilingKeys = [''hosts_allow'', ''hosts_deny'', ''command_allow'', ''command_deny'', ''cert_ttl_minutes'',
     ''max_concurrent_sessions'', ''exec_timeout_seconds'', ''egress_class'', ''host_groups'', ''mirrors_allow'', ''require_tip'']"
definition BrowserCeilingKeys :: "string list" where
  "BrowserCeilingKeys = [''deny_hosts'', ''max_pages'', ''max_screenshot_bytes'', ''idle_timeout_s'', ''max_session_minutes'', ''max_sessions_per_agent'']"

section \<open>Endpoint configurations\<close>

definition unsafe_path :: "string \<Rightarrow> bool" where
  "unsafe_path path \<longleftrightarrow> TrimSpace path = [] \<or> HasPrefix path ''/'' \<or> Contains path ''..''"

definition validateArtifactConfig :: "(string \<Rightarrow> (string \<times> string) option) \<Rightarrow> json \<Rightarrow> Violation list" where
  "validateArtifactConfig url_parse raw =
     (case egress_object ''endpoint_config.artifact'' (Raw raw) of
        Inl v \<Rightarrow> v
      | Inr obj \<Rightarrow>
          let uv = checkUnknownKeys ''endpoint_config.artifact'' obj [''git_url'', ''default_branch'', ''playbooks_path'', ''drift_playbook'']
          in if uv \<noteq> [] then uv
             else
               let (v1, gitURL) = stringField obj ''git_url'' ''endpoint_config.artifact.git_url'' True None;
                   v2 = (if TrimSpace gitURL = [] \<or> \<not> validHTTPURL url_parse gitURL
                         then [viol ''endpoint_config.artifact.git_url'' ''invalid_value'' ''git_url is required and must be a valid http(s) URL''] else []);
                   (v3, branch) = stringField obj ''default_branch'' ''endpoint_config.artifact.default_branch'' False None;
                   v4 = (if gm_get obj ''default_branch'' \<noteq> None \<and> TrimSpace branch = []
                         then [viol ''endpoint_config.artifact.default_branch'' ''invalid_value'' ''default_branch must be non-empty when present''] else []);
                   (v5, path) = stringField obj ''playbooks_path'' ''endpoint_config.artifact.playbooks_path'' False None;
                   v6 = (if gm_get obj ''playbooks_path'' \<noteq> None \<and> unsafe_path path
                         then [viol ''endpoint_config.artifact.playbooks_path'' ''invalid_value'' ''playbooks_path must be a relative, traversal-free path''] else []);
                   (v7, driftPB) = stringField obj ''drift_playbook'' ''endpoint_config.artifact.drift_playbook'' False None;
                   v8 = (if gm_get obj ''drift_playbook'' \<noteq> None \<and> unsafe_path driftPB
                         then [viol ''endpoint_config.artifact.drift_playbook'' ''invalid_value'' ''drift_playbook must be a relative, traversal-free path''] else [])
               in sortByField (v1 @ v2 @ v3 @ v4 @ v5 @ v6 @ v7 @ v8))"

definition validateSSHConfig :: "(string \<Rightarrow> (string \<times> string) option) \<Rightarrow> key_map \<Rightarrow> Violation list" where
  "validateSSHConfig url_parse obj =
     (let uv = checkUnknownKeys ''endpoint_config'' obj SSHConfigKeys
      in if uv \<noteq> [] then uv
         else
           let (v1, user) = stringField obj ''ssh_user'' ''endpoint_config.ssh_user'' True None;
               v2 = (if TrimSpace user = [] then [viol ''endpoint_config.ssh_user'' ''required'' ''ssh_user is required and must be non-empty''] else []);
               (v3, port) = positiveIntField obj ''port'' ''endpoint_config.port'';
               v4 = (if port > 65535 then [viol ''endpoint_config.port'' ''invalid_value'' ''port must be <= 65535''] else []);
               (v5, kh) = stringField obj ''known_hosts'' ''endpoint_config.known_hosts'' True None;
               v6 = (if TrimSpace kh = []
                     then [viol ''endpoint_config.known_hosts'' ''required'' ''known_hosts is required (host key verification is mandatory)''] else []);
               (v7, authMode) = stringField obj ''auth_mode'' ''endpoint_config.auth_mode'' False (Some [''ca'', ''static_key'']);
               v8 = (case gm_get obj ''artifact'' of None \<Rightarrow> [] | Some raw \<Rightarrow> validateArtifactConfig url_parse raw)
           in sortByField (v1 @ v2 @ v3 @ v4 @ v5 @ v6 @ v7 @ v8))"

fun bad_cidrs :: "string \<Rightarrow> nat \<Rightarrow> string list \<Rightarrow> Violation list" where
  "bad_cidrs path i [] = []"
| "bad_cidrs path i (c # cs) =
     (if \<not> validCIDR c then [viol (indexed path i) ''invalid_value'' ''not a valid CIDR''] else []) @ bad_cidrs path (Suc i) cs"

definition validateWebShape :: "string \<Rightarrow> key_map \<Rightarrow> Violation list" where
  "validateWebShape field obj =
     (let uv = checkUnknownKeys field obj WebShapeKeys
      in if uv \<noteq> [] then uv
         else
           let (v1, denyDomains) = stringListField obj ''deny_domains'' (field @ ''.deny_domains'');
               (v2, denyCIDRs) = stringListField obj ''deny_cidrs'' (field @ ''.deny_cidrs'');
               v3 = bad_cidrs (field @ ''.deny_cidrs'') 0 denyCIDRs;
               (v4, rate) = positiveIntField obj ''rate_per_min'' (field @ ''.rate_per_min'');
               (v5, maxBytes) = positiveIntField obj ''max_bytes'' (field @ ''.max_bytes'');
               (v6, timeoutSec) = positiveIntField obj ''timeout_seconds'' (field @ ''.timeout_seconds'');
               v7 = (if timeoutSec > 300 then [viol (field @ ''.timeout_seconds'') ''invalid_value'' ''timeout_seconds must be <= 300''] else []);
               (v8, allowPrivate) = boolField obj ''allow_private_network'' (field @ ''.allow_private_network'')
           in sortByField (v1 @ v2 @ v3 @ v4 @ v5 @ v6 @ v7 @ v8))"

definition validateRestConfig :: "(string \<Rightarrow> (string \<times> string) option) \<Rightarrow> key_map \<Rightarrow> Violation list" where
  "validateRestConfig url_parse obj =
     (let uv = checkUnknownKeys ''endpoint_config'' obj RestConfigKeys
      in if uv \<noteq> [] then uv
         else
           let (v1, baseURL) = stringField obj ''base_url'' ''endpoint_config.base_url'' True None;
               v2 = (if baseURL \<noteq> [] \<and> \<not> validHTTPURL url_parse baseURL
                     then [viol ''endpoint_config.base_url'' ''invalid_value'' ''base_url must be an absolute http(s) URL''] else []);
               (v3, authKind) = stringField obj ''auth_kind'' ''endpoint_config.auth_kind'' False (Some authKinds);
               v4 = (if gm_get obj ''header_name'' \<noteq> None \<and> authKind \<noteq> ''api_key_header''
                     then [viol ''endpoint_config.header_name'' ''invalid_value'' ''header_name is only valid with auth_kind=api_key_header''] else [])
           in sortByField (v1 @ v2 @ v3 @ v4))"

definition validateMCPConfig :: "(string \<Rightarrow> (string \<times> string) option) \<Rightarrow> key_map \<Rightarrow> Violation list" where
  "validateMCPConfig url_parse obj =
     (let uv = checkUnknownKeys ''endpoint_config'' obj MCPConfigKeys
      in if uv \<noteq> [] then uv
         else
           let (v1, u) = stringField obj ''url'' ''endpoint_config.url'' True None;
               v2 = (if u \<noteq> [] \<and> \<not> validHTTPURL url_parse u
                     then [viol ''endpoint_config.url'' ''invalid_value'' ''url must be an absolute http(s) URL''] else []);
               (v3, authKind) = stringField obj ''auth_kind'' ''endpoint_config.auth_kind'' False (Some mcpAuth);
               (v4, driver) = stringField obj ''driver'' ''endpoint_config.driver'' False (Some mcpDrivers)
           in sortByField (v1 @ v2 @ v3 @ v4))"

definition ValidateEndpointConfig :: "(string \<Rightarrow> (string \<times> string) option) \<Rightarrow> string \<Rightarrow> RawMessage \<Rightarrow> Violation list" where
  "ValidateEndpointConfig url_parse resourceType raw =
     (case egress_object ''endpoint_config'' raw of
        Inl v \<Rightarrow> v
      | Inr obj \<Rightarrow>
          if resourceType = ''web'' then validateWebShape ''endpoint_config'' obj
          else if resourceType = ''rest'' then validateRestConfig url_parse obj
          else if resourceType = ''mcp'' then validateMCPConfig url_parse obj
          else if resourceType = ''git'' then checkUnknownKeys ''endpoint_config'' obj GitConfigKeys
          else if resourceType = ''ssh'' then validateSSHConfig url_parse obj
          else [])"

section \<open>Policy ceilings\<close>

fun bad_methods :: "nat \<Rightarrow> string list \<Rightarrow> Violation list" where
  "bad_methods i [] = []"
| "bad_methods i (mt # ms) =
     (if ToUpper mt \<notin> set httpMethods
      then [viol (indexed ''policy_ceiling.methods'' i) ''invalid_value'' ''unsupported HTTP method''] else []) @ bad_methods (Suc i) ms"

definition validateRestCeiling :: "key_map \<Rightarrow> Violation list" where
  "validateRestCeiling obj =
     (let uv = checkUnknownKeys ''policy_ceiling'' obj RestCeilingKeys
      in if uv \<noteq> [] then uv
         else
           let (v1, methods) = stringListField obj ''methods'' ''policy_ceiling.methods'';
               v2 = bad_methods 0 methods;
               (v3, pathAllow) = stringListField obj ''path_allow'' ''policy_ceiling.path_allow'';
               (v4, pathDeny) = stringListField obj ''path_deny'' ''policy_ceiling.path_deny'';
               (v5, reqBytes) = positiveIntField obj ''max_request_bytes'' ''policy_ceiling.max_request_bytes'';
               (v6, respBytes) = positiveIntField obj ''max_response_bytes'' ''policy_ceiling.max_response_bytes'';
               (v7, rate) = positiveIntField obj ''rate_per_min'' ceilingRatePerMinField;
               (v8, ec) = stringField obj ''egress_class'' ceilingEgressClassField False (Some egressClass)
           in sortByField (v1 @ v2 @ v3 @ v4 @ v5 @ v6 @ v7 @ v8))"

text \<open>The loops over the entries of a JSON object follow the order the entries are stored in; the code iterates a map, in
  no fixed order, and sorts the violations afterwards.\<close>

definition ceiling_tool_entry :: "string \<times> json \<Rightarrow> Violation list" where
  "ceiling_tool_entry e = (case e of (name, traw) \<Rightarrow>
     (case un_map traw of
        None \<Rightarrow> [viol (ceilingPerToolPrefix @ name) ''invalid_type'' ''per_tool entry must be an object'']
      | Some tObj \<Rightarrow>
          checkUnknownKeys (ceilingPerToolPrefix @ name) tObj [''requires_confirmation''] @
          fst (boolField tObj ''requires_confirmation'' (ceilingPerToolPrefix @ name @ ''.requires_confirmation''))))"

definition validateMCPCeiling :: "key_map \<Rightarrow> Violation list" where
  "validateMCPCeiling obj =
     (let uv = checkUnknownKeys ''policy_ceiling'' obj MCPCeilingKeys
      in if uv \<noteq> [] then uv
         else
           let (v1, allow) = stringListField obj ''tools_allow'' ''policy_ceiling.tools_allow'';
               (v2, deny) = stringListField obj ''tools_deny'' ''policy_ceiling.tools_deny'';
               (v3, rate) = positiveIntField obj ''rate_per_min'' ceilingRatePerMinField;
               (v4, maxArgs) = positiveIntField obj ''max_args_bytes'' ''policy_ceiling.max_args_bytes'';
               (v5, ec) = stringField obj ''egress_class'' ceilingEgressClassField False (Some egressClass);
               v6 = (case gm_get obj ''per_tool'' of
                       None \<Rightarrow> []
                     | Some raw \<Rightarrow>
                         (case un_map raw of
                            None \<Rightarrow> [viol ''policy_ceiling.per_tool'' ''invalid_type'' ''per_tool must be an object keyed by tool name'']
                          | Some perTool \<Rightarrow> concat (map ceiling_tool_entry perTool)))
           in sortByField (v1 @ v2 @ v3 @ v4 @ v5 @ v6))"

definition validateGitCeiling :: "key_map \<Rightarrow> Violation list" where
  "validateGitCeiling obj =
     (let uv = checkUnknownKeys ''policy_ceiling'' obj GitCeilingKeys
      in if uv \<noteq> [] then uv
         else
           let (v1, repos) = stringListField obj ''repos_allow'' ''policy_ceiling.repos_allow'';
               v2 = (if repos = []
                     then [viol ''policy_ceiling.repos_allow'' ''required''
                             ''repos_allow is required and must contain at least one repo pattern (default-deny semantics)''] else []);
               (v3, allowPush) = boolField obj ''allow_push'' ''policy_ceiling.allow_push'';
               (v4, rate) = positiveIntField obj ''rate_per_min'' ceilingRatePerMinField
           in sortByField (v1 @ v2 @ v3 @ v4))"

definition hostGroupNameRe :: "string \<Rightarrow> bool" where
  "hostGroupNameRe name \<longleftrightarrow> name \<noteq> [] \<and>
     list_all (\<lambda>c. CHR ''a'' \<le> c \<and> c \<le> CHR ''z'' \<or> CHR ''0'' \<le> c \<and> c \<le> CHR ''9'' \<or> c = CHR ''_'' \<or> c = CHR ''-'') name"

definition validateHostGroup :: "string \<Rightarrow> json \<Rightarrow> string list \<Rightarrow> Violation list" where
  "validateHostGroup name graw hostsAllow =
     (let path = ceilingHostGroupsPrefix @ name;
          v1 = (if name = [] \<or> \<not> hostGroupNameRe name
                then [viol path ''invalid_value'' ''group name must match [a-z0-9_-]+''] else [])
      in case egress_object path (Raw graw) of
           Inl gv \<Rightarrow> v1 @ gv
         | Inr gobj \<Rightarrow>
             let uv = checkUnknownKeys path gobj [''hosts'', ''tier'']
             in if uv \<noteq> [] then v1 @ uv
                else
                  let (v2, hosts) = stringListField gobj ''hosts'' (path @ hostGroupsHostsSuffix);
                      v3 = (if hosts = []
                            then [viol (path @ hostGroupsHostsSuffix) ''required'' ''group must contain at least one host''] else []);
                      (v4, tier) = stringField gobj ''tier'' (path @ ''.tier'') True (Some [''low'', ''medium'', ''high'']);
                      v5 = map (\<lambda>h. viol (path @ hostGroupsHostsSuffix) ''outside_hosts_allow''
                                     (''host '' @ h @ '' is not covered by any hosts_allow pattern '' @ [CHR 0xE2, CHR 0x80, CHR 0x94] @
                                      '' groups cannot widen the ceiling''))
                             (filter (\<lambda>h. \<not> hostCoveredByAny h hostsAllow) hosts)
                  in v1 @ v2 @ v3 @ v4 @ v5)"

definition validateHostGroups :: "json \<Rightarrow> string list \<Rightarrow> Violation list" where
  "validateHostGroups raw hostsAllow =
     (case egress_object ''policy_ceiling.host_groups'' (Raw raw) of
        Inl v \<Rightarrow> v
      | Inr groups \<Rightarrow>
          if groups = []
          then [viol ''policy_ceiling.host_groups'' ''required'' ''host_groups must contain at least one group when present'']
          else concat (map (\<lambda>(name, graw). validateHostGroup name graw hostsAllow) groups))"

definition validateRequireTipKeys :: "key_map \<Rightarrow> Violation list" where
  "validateRequireTipKeys tipObj =
     concat (map (\<lambda>k. (if k \<noteq> ''low'' \<and> k \<noteq> ''medium'' \<and> k \<noteq> ''high''
                       then [viol (''policy_ceiling.require_tip.'' @ k) ''invalid_value'' ''require_tip keys must be low|medium|high''] else []) @
                      fst (boolField tipObj k (''policy_ceiling.require_tip.'' @ k)))
              (map fst tipObj))"

definition validateSSHCeiling :: "key_map \<Rightarrow> Violation list" where
  "validateSSHCeiling obj =
     (let uv = checkUnknownKeys ''policy_ceiling'' obj SSHCeilingKeys
      in if uv \<noteq> [] then uv
         else
           let (v1, hostsAllow) = stringListField obj ''hosts_allow'' ''policy_ceiling.hosts_allow'';
               v2 = (if hostsAllow = []
                     then [viol ''policy_ceiling.hosts_allow'' ''required''
                             ''hosts_allow is required and must contain at least one host pattern (default-deny semantics)''] else []);
               (v3, hostsDeny) = stringListField obj ''hosts_deny'' ''policy_ceiling.hosts_deny'';
               (v4, cmdAllow) = stringListField obj ''command_allow'' ''policy_ceiling.command_allow'';
               (v5, cmdDeny) = stringListField obj ''command_deny'' ''policy_ceiling.command_deny'';
               (v6, ttl) = positiveIntField obj ''cert_ttl_minutes'' ''policy_ceiling.cert_ttl_minutes'';
               v7 = (if ttl > 0 \<and> (ttl < 15 \<or> ttl > 60)
                     then [viol ''policy_ceiling.cert_ttl_minutes'' ''invalid_value'' ''cert_ttl_minutes must be between 15 and 60''] else []);
               (v8, maxSess) = positiveIntField obj ''max_concurrent_sessions'' ''policy_ceiling.max_concurrent_sessions'';
               v9 = (if maxSess > 16
                     then [viol ''policy_ceiling.max_concurrent_sessions'' ''invalid_value'' ''max_concurrent_sessions must be <= 16''] else []);
               (v10, timeout) = positiveIntField obj ''exec_timeout_seconds'' ''policy_ceiling.exec_timeout_seconds'';
               v11 = (if timeout > 300
                      then [viol ''policy_ceiling.exec_timeout_seconds'' ''invalid_value'' ''exec_timeout_seconds must be <= 300''] else []);
               (v12, ec) = stringField obj ''egress_class'' ceilingEgressClassField False (Some egressClass);
               v13 = (case gm_get obj ''host_groups'' of None \<Rightarrow> [] | Some raw \<Rightarrow> validateHostGroups raw hostsAllow);
               (v14, mirrors) = stringListField obj ''mirrors_allow'' ''policy_ceiling.mirrors_allow'';
               v = v1 @ v2 @ v3 @ v4 @ v5 @ v6 @ v7 @ v8 @ v9 @ v10 @ v11 @ v12 @ v13 @ v14
           in case gm_get obj ''require_tip'' of
                None \<Rightarrow> sortByField v
              | Some raw \<Rightarrow>
                  (case egress_object ''policy_ceiling.require_tip'' (Raw raw) of
                     Inl tv \<Rightarrow> sortByField (v @ tv)
                   | Inr tipObj \<Rightarrow> sortByField (v @ validateRequireTipKeys tipObj)))"

definition ValidateCeiling :: "string \<Rightarrow> RawMessage \<Rightarrow> Violation list" where
  "ValidateCeiling resourceType raw =
     (case egress_object ''policy_ceiling'' raw of
        Inl v \<Rightarrow> v
      | Inr obj \<Rightarrow>
          if resourceType = ''web'' then validateWebShape ''policy_ceiling'' obj
          else if resourceType = ''rest'' then validateRestCeiling obj
          else if resourceType = ''mcp'' then validateMCPCeiling obj
          else if resourceType = ''git'' then validateGitCeiling obj
          else if resourceType = ''ssh'' then validateSSHCeiling obj
          else [])"

section \<open>Browser resources\<close>

definition BrowserDefaultMaxPages :: int where "BrowserDefaultMaxPages = 50"
definition BrowserDefaultMaxScreenshotBytes :: int where "BrowserDefaultMaxScreenshotBytes = 2 * 1024 * 1024"
definition BrowserDefaultIdleTimeoutS :: int where "BrowserDefaultIdleTimeoutS = 600"
definition BrowserDefaultMaxSessionMinutes :: int where "BrowserDefaultMaxSessionMinutes = 30"
definition BrowserDefaultMaxSessionsPerAgent :: int where "BrowserDefaultMaxSessionsPerAgent = 1"

definition BrowserMaxPagesUpperBound :: int where "BrowserMaxPagesUpperBound = 500"
definition BrowserMaxSessionMinutesUpperBound :: int where "BrowserMaxSessionMinutesUpperBound = 240"
definition BrowserMaxSessionsPerAgentUpperBound :: int where "BrowserMaxSessionsPerAgentUpperBound = 64"
definition BrowserMaxScreenshotBytesUpperBound :: int where "BrowserMaxScreenshotBytesUpperBound = 32 * 1024 * 1024"
definition BrowserMaxIdleTimeoutSecondsUpperBound :: int where "BrowserMaxIdleTimeoutSecondsUpperBound = 86400"

definition IsBrowserConfig :: "RawMessage \<Rightarrow> bool" where
  "IsBrowserConfig endpointConfig =
     (case endpointConfig of
        RawEmpty \<Rightarrow> False
      | _ \<Rightarrow>
          (case raw_struct endpointConfig of
             None \<Rightarrow> False
           | Some kvs \<Rightarrow>
               (case st_string ''driver'' kvs of
                  None \<Rightarrow> False
                | Some driver \<Rightarrow> EqualFold (TrimSpace driver) ''browser'')))"

definition validateBrowserShape :: "string \<Rightarrow> key_map \<Rightarrow> Violation list" where
  "validateBrowserShape field obj =
     (let uv = checkUnknownKeys field obj BrowserCeilingKeys
      in if uv \<noteq> [] then uv
         else
           let (v1, denyHosts) = stringListField obj ''deny_hosts'' (field @ ''.deny_hosts'');
               (v2, maxPages) = boundedIntField obj ''max_pages'' (field @ ''.max_pages'') 1 BrowserMaxPagesUpperBound;
               (v3, maxSessBytes) = boundedIntField obj ''max_screenshot_bytes'' (field @ ''.max_screenshot_bytes'') 1 BrowserMaxScreenshotBytesUpperBound;
               (v4, idleS) = boundedIntField obj ''idle_timeout_s'' (field @ ''.idle_timeout_s'') 1 BrowserMaxIdleTimeoutSecondsUpperBound;
               (v5, sessMin) = boundedIntField obj ''max_session_minutes'' (field @ ''.max_session_minutes'') 1 BrowserMaxSessionMinutesUpperBound;
               (v6, sessions) = boundedIntField obj ''max_sessions_per_agent'' (field @ ''.max_sessions_per_agent'') 1 BrowserMaxSessionsPerAgentUpperBound
           in sortByField (v1 @ v2 @ v3 @ v4 @ v5 @ v6))"

definition ValidateBrowserCeiling :: "RawMessage \<Rightarrow> Violation list" where
  "ValidateBrowserCeiling raw =
     (case egress_object ''policy_ceiling'' raw of Inl v \<Rightarrow> v | Inr obj \<Rightarrow> validateBrowserShape ''policy_ceiling'' obj)"

definition setDefaultInt :: "string \<Rightarrow> int \<Rightarrow> key_map \<Rightarrow> key_map" where
  "setDefaultInt key def obj =
     (case gm_get obj key of
        Some JNull \<Rightarrow> gm_put key (JNum (Some def)) obj
      | Some v \<Rightarrow> obj
      | None \<Rightarrow> gm_put key (JNum (Some def)) obj)"

text \<open>\<^verbatim>\<open>json.Marshal\<close> of a map writes the keys in order; the model keeps the object with its keys sorted.\<close>

definition Marshal_map :: "key_map \<Rightarrow> json" where
  "Marshal_map obj = JObj (sort_key fst obj)"

definition NormalizeBrowserCeiling :: "RawMessage \<Rightarrow> Violation list + json" where
  "NormalizeBrowserCeiling raw =
     (case egress_object ''policy_ceiling'' raw of
        Inl v \<Rightarrow> Inl v
      | Inr obj \<Rightarrow>
          let v = validateBrowserShape ''policy_ceiling'' obj
          in if v \<noteq> [] then Inl v
             else
               let obj = (if gm_get obj ''deny_hosts'' = None then gm_put ''deny_hosts'' (JArr []) obj else obj);
                   obj = setDefaultInt ''max_pages'' BrowserDefaultMaxPages obj;
                   obj = setDefaultInt ''max_screenshot_bytes'' BrowserDefaultMaxScreenshotBytes obj;
                   obj = setDefaultInt ''idle_timeout_s'' BrowserDefaultIdleTimeoutS obj;
                   obj = setDefaultInt ''max_session_minutes'' BrowserDefaultMaxSessionMinutes obj;
                   obj = setDefaultInt ''max_sessions_per_agent'' BrowserDefaultMaxSessionsPerAgent obj
               in Inr (Marshal_map obj))"

end
