(* ===== verification/Egress_Grant.thy ===== *)
theory Egress_Grant
  imports Egress_Shape
begin

text \<open>
  The no-escalation check of grant constraints against a resource's policy ceiling (\<^verbatim>\<open>egresspolicy/subset.go\<close> and the
  grant half of \<^verbatim>\<open>browser.go\<close>): allow lists covered, deny lists only grow, numbers only tighten, the egress class
  equal.
\<close>

definition constraintEgressClassField :: string where "constraintEgressClassField = ''constraints.egress_class''"
definition constraintRatePerMinField :: string where "constraintRatePerMinField = ''constraints.rate_per_min''"
definition constraintPerToolPrefix :: string where "constraintPerToolPrefix = ''constraints.per_tool.''"

definition prefixViolations :: "Violation list \<Rightarrow> string \<Rightarrow> Violation list" where
  "prefixViolations v pre = map (\<lambda>x. x\<lparr>V_Field := pre @ V_Field x\<rparr>) v"

section \<open>Comparisons\<close>

definition allowSubset :: "string \<Rightarrow> string list \<Rightarrow> string list \<Rightarrow> Violation list" where
  "allowSubset field cList ceList =
     map (\<lambda>c. viol field ''not_subset'' (''grant allows '' @ c @ '' which is outside the resource ceiling''))
       (filter (\<lambda>c. \<not> list_ex (\<lambda>ce. globCovers ce c) ceList) cList)"

definition denyGrows :: "string \<Rightarrow> string list \<Rightarrow> string list \<Rightarrow> Violation list" where
  "denyGrows field cList ceList =
     map (\<lambda>ce. viol field ''denylist_shrunk''
            (''grant does not deny '' @ ce @ '' required by the resource ceiling (denylists may only grow)''))
       (filter (\<lambda>ce. \<not> list_ex (\<lambda>c. globCovers c ce) cList) ceList)"

definition numLE :: "string \<Rightarrow> int \<Rightarrow> int \<Rightarrow> Violation list" where
  "numLE field cVal ceVal = (if cVal > ceVal then [viol field ''exceeds_ceiling'' ''grant value exceeds ceiling''] else [])"

definition equalField :: "string \<Rightarrow> string \<Rightarrow> string \<Rightarrow> Violation list" where
  "equalField field cVal ceVal =
     (if cVal \<noteq> ceVal then [viol field ''mismatch'' (field @ '' must equal the resource ceiling'')] else [])"

text \<open>The readers ignore decode errors: the target keeps what was decoded so far, or its zero value.\<close>

definition listIn :: "key_map \<Rightarrow> string \<Rightarrow> string list" where
  "listIn obj field = (case gm_get obj field of None \<Rightarrow> [] | Some raw \<Rightarrow> snd (un_strings raw))"

definition intIn :: "key_map \<Rightarrow> string \<Rightarrow> int" where
  "intIn obj field = (case gm_get obj field of None \<Rightarrow> 0 | Some raw \<Rightarrow> (case un_int raw of None \<Rightarrow> 0 | Some n \<Rightarrow> n))"

definition boolIn :: "key_map \<Rightarrow> string \<Rightarrow> bool \<times> bool" where
  "boolIn obj field =
     (case gm_get obj field of
        None \<Rightarrow> (False, False)
      | Some raw \<Rightarrow> (case un_bool raw of None \<Rightarrow> False | Some b \<Rightarrow> b, True))"

definition stringIn :: "key_map \<Rightarrow> string \<Rightarrow> string" where
  "stringIn obj field = (case gm_get obj field of None \<Rightarrow> [] | Some raw \<Rightarrow> (case un_string raw of None \<Rightarrow> [] | Some s \<Rightarrow> s))"

definition has_key :: "key_map \<Rightarrow> string \<Rightarrow> bool" where
  "has_key obj key \<longleftrightarrow> gm_get obj key \<noteq> None"

text \<open>The recurring statement of the validators: when the grant sets a key, compare it with the ceiling's.\<close>

definition when_set :: "key_map \<Rightarrow> string \<Rightarrow> Violation list \<Rightarrow> Violation list" where
  "when_set c key v = (if has_key c key then v else [])"

section \<open>Per type\<close>

definition validateWebGrant :: "key_map \<Rightarrow> key_map \<Rightarrow> Violation list" where
  "validateWebGrant c ce =
     (let uv = checkUnknownKeys ''constraints'' c WebShapeKeys
      in if uv \<noteq> [] then uv
         else sortByField (
           when_set c ''deny_domains'' (denyGrows ''constraints.deny_domains'' (listIn c ''deny_domains'') (listIn ce ''deny_domains'')) @
           when_set c ''deny_cidrs'' (denyGrows ''constraints.deny_cidrs'' (listIn c ''deny_cidrs'') (listIn ce ''deny_cidrs'')) @
           when_set c ''rate_per_min'' (numLE constraintRatePerMinField (intIn c ''rate_per_min'') (intIn ce ''rate_per_min'')) @
           when_set c ''max_bytes'' (numLE ''constraints.max_bytes'' (intIn c ''max_bytes'') (intIn ce ''max_bytes'')) @
           when_set c ''timeout_seconds'' (numLE ''constraints.timeout_seconds'' (intIn c ''timeout_seconds'') (intIn ce ''timeout_seconds'')) @
           (let (priv, has) = boolIn c ''allow_private_network''; cePriv = fst (boolIn ce ''allow_private_network'')
            in if has \<and> priv \<and> \<not> cePriv
               then [viol ''constraints.allow_private_network'' ''exceeds_ceiling'' ''private network access requires an internal-class ceiling'']
               else [])))"

definition upperAll :: "string list \<Rightarrow> string list" where
  "upperAll xs = map ToUpper xs"

definition egressClassViolation :: "key_map \<Rightarrow> key_map \<Rightarrow> Violation list" where
  "egressClassViolation c ce = equalField constraintEgressClassField (stringIn c ''egress_class'') (stringIn ce ''egress_class'')"

definition validateRestGrant :: "key_map \<Rightarrow> key_map \<Rightarrow> Violation list" where
  "validateRestGrant c ce =
     (let uv = checkUnknownKeys ''constraints'' c RestCeilingKeys
      in if uv \<noteq> [] then uv
         else sortByField (
           when_set c ''methods'' (allowSubset ''constraints.methods'' (upperAll (listIn c ''methods'')) (upperAll (listIn ce ''methods''))) @
           when_set c ''path_allow'' (allowSubset ''constraints.path_allow'' (listIn c ''path_allow'') (listIn ce ''path_allow'')) @
           when_set c ''path_deny'' (denyGrows ''constraints.path_deny'' (listIn c ''path_deny'') (listIn ce ''path_deny'')) @
           when_set c ''max_request_bytes'' (numLE ''constraints.max_request_bytes'' (intIn c ''max_request_bytes'') (intIn ce ''max_request_bytes'')) @
           when_set c ''max_response_bytes'' (numLE ''constraints.max_response_bytes'' (intIn c ''max_response_bytes'') (intIn ce ''max_response_bytes'')) @
           when_set c ''rate_per_min'' (numLE constraintRatePerMinField (intIn c ''rate_per_min'') (intIn ce ''rate_per_min'')) @
           when_set c ''egress_class'' (egressClassViolation c ce)))"

definition ceilingPerToolMap :: "key_map \<Rightarrow> bool gomap" where
  "ceilingPerToolMap ce =
     (case gm_get ce ''per_tool'' of
        None \<Rightarrow> []
      | Some ceRaw \<Rightarrow>
          (case un_map ceRaw of
             None \<Rightarrow> []
           | Some cePerRaw \<Rightarrow>
               fold (\<lambda>(name, traw) cePer.
                       case un_map traw of
                         None \<Rightarrow> cePer
                       | Some tObj \<Rightarrow> gm_put name (fst (boolIn tObj ''requires_confirmation'')) cePer)
                 cePerRaw []))"

definition validateMCPPerToolEntry :: "string \<Rightarrow> json \<Rightarrow> bool gomap \<Rightarrow> string list \<Rightarrow> Violation list" where
  "validateMCPPerToolEntry name traw cePer ceAllow =
     (case un_map traw of
        None \<Rightarrow> [viol (constraintPerToolPrefix @ name) ''invalid_type'' ''per_tool entry must be an object'']
      | Some tObj \<Rightarrow>
          let v1 = checkUnknownKeys (constraintPerToolPrefix @ name) tObj [''requires_confirmation''];
              (rc, hasRC) = boolIn tObj ''requires_confirmation'';
              v2 = (if hasRC \<and> \<not> rc \<and> gm_get cePer name = Some True
                    then [viol (constraintPerToolPrefix @ name @ ''.requires_confirmation'') ''exceeds_ceiling''
                            ''ceiling requires confirmation for this tool''] else []);
              allowed = list_ex (\<lambda>a. globCovers a name \<or> a = name) ceAllow;
              v3 = (if \<not> allowed
                    then [viol (constraintPerToolPrefix @ name) ''not_subset'' ''tool is outside the ceiling tools_allow list''] else [])
          in v1 @ v2 @ v3)"

definition validateMCPGrant :: "key_map \<Rightarrow> key_map \<Rightarrow> Violation list" where
  "validateMCPGrant c ce =
     (let uv = checkUnknownKeys ''constraints'' c MCPCeilingKeys
      in if uv \<noteq> [] then uv
         else
           let v =
             when_set c ''tools_allow'' (allowSubset ''constraints.tools_allow'' (listIn c ''tools_allow'') (listIn ce ''tools_allow'')) @
             when_set c ''tools_deny'' (denyGrows ''constraints.tools_deny'' (listIn c ''tools_deny'') (listIn ce ''tools_deny'')) @
             when_set c ''rate_per_min'' (numLE constraintRatePerMinField (intIn c ''rate_per_min'') (intIn ce ''rate_per_min'')) @
             when_set c ''max_args_bytes'' (numLE ''constraints.max_args_bytes'' (intIn c ''max_args_bytes'') (intIn ce ''max_args_bytes'')) @
             when_set c ''egress_class'' (egressClassViolation c ce)
           in case gm_get c ''per_tool'' of
                None \<Rightarrow> sortByField v
              | Some raw \<Rightarrow>
                  (case un_map raw of
                     None \<Rightarrow> sortByField (v @ [viol ''constraints.per_tool'' ''invalid_type'' ''per_tool must be an object keyed by tool name''])
                   | Some cPer \<Rightarrow>
                       let cePer = ceilingPerToolMap ce; ceAllow = listIn ce ''tools_allow''
                       in sortByField (v @ concat (map (\<lambda>(name, traw). validateMCPPerToolEntry name traw cePer ceAllow) cPer))))"

definition validateGitGrant :: "key_map \<Rightarrow> key_map \<Rightarrow> Violation list" where
  "validateGitGrant c ce =
     (let uv = checkUnknownKeys ''constraints'' c GitCeilingKeys
      in if uv \<noteq> [] then uv
         else sortByField (
           when_set c ''repos_allow'' (allowSubset ''constraints.repos_allow'' (listIn c ''repos_allow'') (listIn ce ''repos_allow'')) @
           when_set c ''allow_push''
             (if fst (boolIn c ''allow_push'') \<and> \<not> fst (boolIn ce ''allow_push'')
              then [viol ''constraints.allow_push'' ''exceeds_ceiling'' ''push is not permitted by the resource ceiling (git:push)'']
              else []) @
           when_set c ''rate_per_min'' (numLE constraintRatePerMinField (intIn c ''rate_per_min'') (intIn ce ''rate_per_min''))))"

definition validateSSHGrant :: "key_map \<Rightarrow> key_map \<Rightarrow> Violation list" where
  "validateSSHGrant c ce =
     (let uv = checkUnknownKeys ''constraints'' c SSHCeilingKeys
      in if uv \<noteq> [] then uv
         else sortByField (
           when_set c ''hosts_allow'' (allowSubset ''constraints.hosts_allow'' (listIn c ''hosts_allow'') (listIn ce ''hosts_allow'')) @
           when_set c ''hosts_deny'' (denyGrows ''constraints.hosts_deny'' (listIn c ''hosts_deny'') (listIn ce ''hosts_deny'')) @
           when_set c ''command_allow'' (allowSubset ''constraints.command_allow'' (listIn c ''command_allow'') (listIn ce ''command_allow'')) @
           when_set c ''command_deny'' (denyGrows ''constraints.command_deny'' (listIn c ''command_deny'') (listIn ce ''command_deny'')) @
           when_set c ''cert_ttl_minutes'' (numLE ''constraints.cert_ttl_minutes'' (intIn c ''cert_ttl_minutes'') (intIn ce ''cert_ttl_minutes'')) @
           when_set c ''max_concurrent_sessions''
             (numLE ''constraints.max_concurrent_sessions'' (intIn c ''max_concurrent_sessions'') (intIn ce ''max_concurrent_sessions'')) @
           when_set c ''exec_timeout_seconds''
             (numLE ''constraints.exec_timeout_seconds'' (intIn c ''exec_timeout_seconds'') (intIn ce ''exec_timeout_seconds'')) @
           when_set c ''egress_class'' (equalField constraintEgressClassField (stringIn c ''egress_class'') (stringIn ce ''egress_class''))))"

definition ValidateGrant :: "string \<Rightarrow> RawMessage \<Rightarrow> RawMessage \<Rightarrow> Violation list" where
  "ValidateGrant resourceType constraints ceiling =
     (let cv = ValidateCeiling resourceType ceiling
      in if cv \<noteq> [] then prefixViolations cv ''ceiling.''
         else case egress_object ''constraints'' constraints of
                Inl v \<Rightarrow> v
              | Inr cObj \<Rightarrow>
                  let ceObj = (case egress_object ''policy_ceiling'' ceiling of Inl _ \<Rightarrow> [] | Inr m \<Rightarrow> m)
                  in if resourceType = ''web'' then validateWebGrant cObj ceObj
                     else if resourceType = ''rest'' then validateRestGrant cObj ceObj
                     else if resourceType = ''mcp'' then validateMCPGrant cObj ceObj
                     else if resourceType = ''git'' then validateGitGrant cObj ceObj
                     else if resourceType = ''ssh'' then validateSSHGrant cObj ceObj
                     else [])"

definition browser_bound :: "key_map \<Rightarrow> key_map \<Rightarrow> string \<times> int \<Rightarrow> Violation list" where
  "browser_bound cObj ceObj f = (case f of (key, def) \<Rightarrow>
     when_set cObj key
       (let ceVal = intIn ceObj key; ceVal = (if ceVal \<le> 0 then def else ceVal)
        in numLE (''constraints.'' @ key) (intIn cObj key) ceVal))"

definition ValidateBrowserGrant :: "RawMessage \<Rightarrow> RawMessage \<Rightarrow> Violation list" where
  "ValidateBrowserGrant constraints ceiling =
     (let cv = ValidateBrowserCeiling ceiling
      in if cv \<noteq> [] then prefixViolations cv ''ceiling.''
         else case egress_object ''constraints'' constraints of
                Inl v \<Rightarrow> v
              | Inr cObj \<Rightarrow>
                  let sv = validateBrowserShape ''constraints'' cObj
                  in if sv \<noteq> [] then sv
                     else
                       let ceObj = (case egress_object ''policy_ceiling'' ceiling of Inl _ \<Rightarrow> [] | Inr m \<Rightarrow> m)
                       in sortByField (
                            when_set cObj ''deny_hosts'' (denyGrows ''constraints.deny_hosts'' (listIn cObj ''deny_hosts'') (listIn ceObj ''deny_hosts'')) @
                            concat (map (browser_bound cObj ceObj)
                              [(''max_pages'', BrowserDefaultMaxPages), (''max_screenshot_bytes'', BrowserDefaultMaxScreenshotBytes),
                               (''idle_timeout_s'', BrowserDefaultIdleTimeoutS), (''max_session_minutes'', BrowserDefaultMaxSessionMinutes),
                               (''max_sessions_per_agent'', BrowserDefaultMaxSessionsPerAgent)])))"

section \<open>What an empty report means\<close>

lemma place_violation_not_Nil [simp]: "place_violation x ys \<noteq> []"
  by (cases ys) auto

lemma sortByField_Nil [simp]: "sortByField v = [] \<longleftrightarrow> v = []"
proof -
  have "fold place_violation v acc = [] \<longleftrightarrow> v = [] \<and> acc = []" for acc
    by (induction v arbitrary: acc) auto
  then show ?thesis by (simp add: sortByField_def)
qed

lemma checkUnknownKeys_Nil [simp]: "checkUnknownKeys f obj allowed = [] \<longleftrightarrow> fst ` set obj \<subseteq> set allowed"
  by (auto simp: checkUnknownKeys_def filter_empty_conv)

lemma when_set_Nil [simp]: "when_set c key v = [] \<longleftrightarrow> (has_key c key \<longrightarrow> v = [])"
  by (simp add: when_set_def)

lemma allowSubset_Nil [simp]: "allowSubset f xs ys = [] \<longleftrightarrow> (\<forall>x \<in> set xs. \<exists>y \<in> set ys. globCovers y x)"
  by (auto simp: allowSubset_def filter_empty_conv list_ex_iff)

lemma denyGrows_Nil [simp]: "denyGrows f xs ys = [] \<longleftrightarrow> (\<forall>y \<in> set ys. \<exists>x \<in> set xs. globCovers x y)"
  by (auto simp: denyGrows_def filter_empty_conv list_ex_iff)

lemma numLE_Nil [simp]: "numLE f a b = [] \<longleftrightarrow> a \<le> b"
  by (simp add: numLE_def)

lemma equalField_Nil [simp]: "equalField f a b = [] \<longleftrightarrow> a = b"
  by (simp add: equalField_def)

lemma prefixViolations_Nil [simp]: "prefixViolations v p = [] \<longleftrightarrow> v = []"
  by (simp add: prefixViolations_def)

end
