(* ===== verification/Net_Guard.thy ===== *)
theory Net_Guard
  imports Go_Net
begin

unbundle bit_operations_syntax

text \<open>
  The dial-time SSRF guard shared by the control plane and the tool gateway (\<^verbatim>\<open>shared/netguard\<close>): which
  addresses are blocked, the host denylist, and the dial decision that resolves a name once, checks every
  answer and pins the address it dials. The resolver is a parameter; the result is the address handed to
  the operating system's dial.
\<close>

section \<open>Blocked addresses\<close>

definition cgnatRange :: IPNet where
  "cgnatRange = \<lparr>Net_IP = [100, 64, 0, 0], Net_Mask = [255, 192, 0, 0]\<rparr>"

definition ulaRange :: IPNet where
  "ulaRange = \<lparr>Net_IP = 252 # replicate 15 0, Net_Mask = 254 # replicate 15 0\<rparr>"

text \<open>The built-in blocks are what \<^verbatim>\<open>mustCIDR\<close> parses.\<close>

lemma mustCIDR: "ParseCIDR ''100.64.0.0/10'' = Some cgnatRange" "ParseCIDR ''fc00::/7'' = Some ulaRange"
  by code_simp+

definition BlockedIP :: "IP option \<Rightarrow> bool" where
  "BlockedIP ip0 =
     (case ip0 of
        None \<Rightarrow> True
      | Some ip \<Rightarrow>
          if IsLoopback ip \<or> IsPrivate ip \<or> IsLinkLocalUnicast ip \<or> IsLinkLocalMulticast ip \<or>
             IsInterfaceLocalMulticast ip \<or> IsMulticast ip \<or> IsUnspecified ip then True
          else if \<not> IsGlobalUnicast ip then True
          else if To4 ip \<noteq> None then Net_Contains cgnatRange ip
          else Net_Contains ulaRange ip)"

definition BlockedHostPort :: "string \<Rightarrow> bool" where
  "BlockedHostPort address =
     (case SplitHostPort address of
        None \<Rightarrow> True
      | Some (host, _) \<Rightarrow> (case ParseIP host of None \<Rightarrow> True | Some ip \<Rightarrow> BlockedIP (Some ip)))"

record Guard =
  AllowPrivate :: bool
  DenyCIDRs :: "IPNet list"

definition Guard_Blocked :: "Guard \<Rightarrow> IP option \<Rightarrow> bool" where
  "Guard_Blocked g ip0 =
     (case ip0 of
        None \<Rightarrow> True
      | Some ip \<Rightarrow>
          if list_ex (\<lambda>deny. Net_Contains deny ip) (DenyCIDRs g) then True
          else if AllowPrivate g then False
          else BlockedIP (Some ip))"

text \<open>The ways a dial is refused, and the error of a check.\<close>

datatype guard_error = MalformedAddress | BlockedDial "IP option" | ResolveFailed | NoAddresses

definition CheckIP :: "Guard \<Rightarrow> IP option \<Rightarrow> guard_error option" where
  "CheckIP g ip = (if Guard_Blocked g ip then Some (BlockedDial ip) else None)"

definition ControlHook :: "Guard \<Rightarrow> string \<Rightarrow> guard_error option" where
  "ControlHook g address =
     (case SplitHostPort address of
        None \<Rightarrow> Some MalformedAddress
      | Some (host, _) \<Rightarrow> CheckIP g (ParseIP host))"

section \<open>The dial decision\<close>

text \<open>The loop over the resolver's answers: the first blocked one refuses, otherwise the first one is
  pinned.\<close>

fun pin_first :: "Guard \<Rightarrow> IP list \<Rightarrow> IP option \<Rightarrow> guard_error + IP option" where
  "pin_first g [] pinned = Inr pinned"
| "pin_first g (ip # ips) pinned =
     (if Guard_Blocked g (Some ip) then Inl (BlockedDial (Some ip))
      else pin_first g ips (if pinned = None then Some ip else pinned))"

definition DialContext ::
  "(string \<Rightarrow> IP list option) \<Rightarrow> Guard option \<Rightarrow> string \<Rightarrow> guard_error + string" where
  "DialContext lookup guard0 address =
     (let guard = (case guard0 of None \<Rightarrow> \<lparr>AllowPrivate = False, DenyCIDRs = []\<rparr> | Some g \<Rightarrow> g)
      in case SplitHostPort address of
           None \<Rightarrow> Inl MalformedAddress
         | Some (host, port) \<Rightarrow>
             (case ParseIP host of
                Some ip \<Rightarrow> (case CheckIP guard (Some ip) of Some err \<Rightarrow> Inl err | None \<Rightarrow> Inr address)
              | None \<Rightarrow>
                  (case lookup host of
                     None \<Rightarrow> Inl ResolveFailed
                   | Some addrs \<Rightarrow>
                       if addrs = [] then Inl NoAddresses
                       else case pin_first guard addrs None of
                              Inl err \<Rightarrow> Inl err
                            | Inr None \<Rightarrow> Inl NoAddresses
                            | Inr (Some ip) \<Rightarrow> Inr (JoinHostPort (IP_String ip) port))))"

text \<open>The \<^verbatim>\<open>CheckRedirect\<close> policy, on the number of hops taken, the scheme and the host of the next request.\<close>

datatype redirect_verdict = Follow | UseLastResponse | RefuseScheme | RefuseHost

definition RedirectCheck :: "int \<Rightarrow> (string \<Rightarrow> bool) option \<Rightarrow> string \<Rightarrow> string \<Rightarrow> nat \<Rightarrow> redirect_verdict" where
  "RedirectCheck maxHops denyHost scheme hostname via =
     (if maxHops < int via then UseLastResponse
      else if scheme \<noteq> ''http'' \<and> scheme \<noteq> ''https'' then RefuseScheme
      else case denyHost of None \<Rightarrow> Follow | Some d \<Rightarrow> if d hostname then RefuseHost else Follow)"

section \<open>The host denylist\<close>

definition NormalizeHost :: "string \<Rightarrow> string" where
  "NormalizeHost host =
     (let h = TrimSpace (ToLower host)
      in if h = [] then h
         else if HasPrefix h ''['' then
           (if CHR '']'' \<in> set h
            then let close = length (takeWhile (\<lambda>c. c \<noteq> CHR '']'') h)
                 in TrimSuffix (take (Suc close) h) '']'' @ '']''
            else h)
         else
           let h' = (case LastIndex CHR '':'' h of None \<Rightarrow> h
                     | Some i \<Rightarrow> if CHR '']'' \<notin> set (drop (Suc i) h) then take i h else h)
           in TrimSuffix h' ''.'')"

definition DomainDenied :: "string \<Rightarrow> string list \<Rightarrow> bool" where
  "DomainDenied host deny =
     (let h = NormalizeHost host
      in if h = [] then False
         else list_ex (\<lambda>d0. let d = NormalizeHost d0 in d \<noteq> [] \<and> (h = d \<or> HasSuffix h (''.'' @ d))) deny)"

definition CIDRDenied :: "IP option \<Rightarrow> IPNet option list \<Rightarrow> bool" where
  "CIDRDenied ip0 deny =
     (case ip0 of None \<Rightarrow> False
      | Some ip \<Rightarrow> list_ex (\<lambda>n. case n of None \<Rightarrow> False | Some net \<Rightarrow> Net_Contains net ip) deny)"

section \<open>What the floor blocks\<close>

text \<open>The IPv4 blocks of the floor, as numeric ranges of the first two octets.\<close>

definition v4_floor :: "nat \<Rightarrow> nat \<Rightarrow> nat \<Rightarrow> nat \<Rightarrow> bool" where
  "v4_floor a b c d \<longleftrightarrow> a = 10 \<or> a = 127 \<or> (a = 100 \<and> 64 \<le> b \<and> b < 128) \<or> (a = 169 \<and> b = 254) \<or>
     (a = 172 \<and> 16 \<le> b \<and> b < 32) \<or> (a = 192 \<and> b = 168) \<or> (224 \<le> a \<and> a < 240) \<or>
     (a = 0 \<and> b = 0 \<and> c = 0 \<and> d = 0) \<or> (a = 255 \<and> b = 255 \<and> c = 255 \<and> d = 255)"

text \<open>The IPv6 blocks of the floor, by the first two octets, with the loopback and the unspecified address.\<close>

definition v6_floor :: "IP \<Rightarrow> bool" where
  "v6_floor ip \<longleftrightarrow> ip = IPv6loopback \<or> ip = IPv6unspecified \<or> (252 \<le> unat (ip ! 0) \<and> unat (ip ! 0) < 254) \<or>
     (ip ! 0 = 254 \<and> 128 \<le> unat (ip ! 1) \<and> unat (ip ! 1) < 192) \<or> ip ! 0 = 255"

lemma To4_length: "To4 ip = Some q \<Longrightarrow> length q = 4 \<and> (ip = q \<or> ip = v4InV6Prefix @ q)"
  by (auto simp: To4_def split: if_splits) (metis append_take_drop_id)

lemma v4_Equal: "To4 ip = Some q \<Longrightarrow> length r = 4 \<Longrightarrow> IP_Equal ip (v4InV6Prefix @ r) \<longleftrightarrow> q = r"
  using To4_length [of ip q] by (auto simp: IP_Equal_def v4InV6Prefix_def)

lemma v4_not_v6:
  assumes "To4 ip = Some q"
  shows "\<not> IP_Equal ip IPv6unspecified" and "\<not> IsInterfaceLocalMulticast ip"
proof -
  have c: "length IPv6unspecified = 16" "take 12 IPv6unspecified \<noteq> v4InV6Prefix" "length v4InV6Prefix = 12" "v4InV6Prefix ! 0 = 0"
    by code_simp+
  have ip: "length q = 4" "ip = q \<or> ip = v4InV6Prefix @ q" using To4_length [OF assms] by auto
  have neq: "v4InV6Prefix @ q \<noteq> IPv6unspecified" using c(2,3) by (metis append_eq_conv_conj)
  show "\<not> IP_Equal ip IPv6unspecified" using ip neq c(1,3) by (auto simp: IP_Equal_def)
  show "\<not> IsInterfaceLocalMulticast ip" using ip c(3,4) by (auto simp: IsInterfaceLocalMulticast_def nth_append)
qed

lemma word_num: "(b :: 8 word) = numeral n \<longleftrightarrow> unat b = unat (numeral n :: 8 word)"
  by (simp add: word_unat_eq_iff)

lemma word_zero: "(b :: 8 word) = 0 \<longleftrightarrow> unat b = 0"
  by (simp add: unat_eq_0)

lemma BlockedIP_v4:
  assumes "To4 ip = Some [a, b, c, d]"
  shows "BlockedIP (Some ip) \<longleftrightarrow> v4_floor (unat a) (unat b) (unat c) (unat d)"
proof -
  have len: "length ip = 4 \<or> length ip = 16" using assms by (auto simp: To4_def split: if_splits)
  have b: "IP_Equal ip IPv4bcast \<longleftrightarrow> unat a = 255 \<and> unat b = 255 \<and> unat c = 255 \<and> unat d = 255"
    unfolding IPv4bcast_def using v4_Equal [OF assms, of "[255, 255, 255, 255]"] by (simp add: word_num)
  have u: "IsUnspecified ip \<longleftrightarrow> unat a = 0 \<and> unat b = 0 \<and> unat c = 0 \<and> unat d = 0"
    unfolding IsUnspecified_def IPv4zero_def using v4_Equal [OF assms, of "[0, 0, 0, 0]"] v4_not_v6(1) [OF assms] by (simp add: word_zero)
  have l: "IsLoopback ip \<longleftrightarrow> unat a = 127" using assms by (simp add: IsLoopback_def word_num)
  have p: "IsPrivate ip \<longleftrightarrow> unat a = 10 \<or> (unat a = 172 \<and> 16 \<le> unat b \<and> unat b < 32) \<or> (unat a = 192 \<and> unat b = 168)"
    using assms by (simp add: IsPrivate_def byte_high) (simp add: word_num)
  have ll: "IsLinkLocalUnicast ip \<longleftrightarrow> unat a = 169 \<and> unat b = 254" using assms by (simp add: IsLinkLocalUnicast_def word_num)
  have m: "IsMulticast ip \<longleftrightarrow> 224 \<le> unat a \<and> unat a < 240" using assms by (simp add: IsMulticast_def byte_high)
  have lm: "IsLinkLocalMulticast ip \<Longrightarrow> IsMulticast ip" unfolding m using assms by (simp add: IsLinkLocalMulticast_def)
  have "Net_Contains cgnatRange ip \<longleftrightarrow> a = 100 \<and> b AND 192 = 64"
    using assms by (auto simp: Net_Contains_def cgnatRange_def and_mask_def To4_def [of "[100, 64, 0, 0]"] byte_high)
  then have cg: "Net_Contains cgnatRange ip \<longleftrightarrow> unat a = 100 \<and> 64 \<le> unat b \<and> unat b < 128"
    unfolding byte_high by (simp add: word_num)
  have "BlockedIP (Some ip) \<longleftrightarrow> IsLoopback ip \<or> IsPrivate ip \<or> IsLinkLocalUnicast ip \<or> IsMulticast ip \<or> IsUnspecified ip \<or>
      IP_Equal ip IPv4bcast \<or> Net_Contains cgnatRange ip"
    using lm v4_not_v6(2) [OF assms] assms len by (auto simp: BlockedIP_def IsGlobalUnicast_def)
  then show ?thesis unfolding b u l p ll m cg v4_floor_def by blast
qed

lemma BlockedIP_v6:
  assumes "length ip = 16" and "To4 ip = None"
  shows "BlockedIP (Some ip) \<longleftrightarrow> v6_floor ip"
proof -
  have m: "take 12 IPv4zero = v4InV6Prefix" "take 12 IPv4bcast = v4InV6Prefix" "length IPv4zero = 16" "length IPv4bcast = 16"
    "length IPv6unspecified = 16" "length IPv6loopback = 16" by code_simp+
  then have z: "\<not> IP_Equal ip IPv4zero" "\<not> IP_Equal ip IPv4bcast" using assms by (auto simp: To4_def IP_Equal_def)
  have e: "IsUnspecified ip \<longleftrightarrow> ip = IPv6unspecified" "IsLoopback ip \<longleftrightarrow> ip = IPv6loopback"
    using z assms m by (simp_all add: IsUnspecified_def IsLoopback_def IP_Equal_def)
  have p: "IsPrivate ip \<longleftrightarrow> 252 \<le> unat (ip ! 0) \<and> unat (ip ! 0) < 254" using assms by (simp add: IsPrivate_def byte_high)
  have ll: "IsLinkLocalUnicast ip \<longleftrightarrow> ip ! 0 = 254 \<and> 128 \<le> unat (ip ! 1) \<and> unat (ip ! 1) < 192"
    using assms by (simp add: IsLinkLocalUnicast_def byte_high)
  have mc: "IsMulticast ip \<longleftrightarrow> ip ! 0 = 255" "IsLinkLocalMulticast ip \<Longrightarrow> ip ! 0 = 255" "IsInterfaceLocalMulticast ip \<Longrightarrow> ip ! 0 = 255"
    using assms by (simp_all add: IsMulticast_def IsLinkLocalMulticast_def IsInterfaceLocalMulticast_def)
  have ula: "Net_Contains ulaRange ip \<Longrightarrow> IsPrivate ip"
  proof -
    assume "Net_Contains ulaRange ip"
    then have "and_mask (252 # replicate 15 0) (254 # replicate 15 0) = and_mask ip (254 # replicate 15 0)"
      using assms by (auto simp: Net_Contains_def ulaRange_def Let_def To4_def v4InV6Prefix_def split: if_splits)
    then have "and_mask (252 # replicate 15 0) (254 # replicate 15 0) ! 0 = and_mask ip (254 # replicate 15 0) ! 0" by simp
    then have "ip ! 0 AND 254 = 252" using assms by (cases ip) (auto simp: and_mask_def)
    then show ?thesis using assms by (simp add: IsPrivate_def)
  qed
  have "BlockedIP (Some ip) \<longleftrightarrow> IsLoopback ip \<or> IsPrivate ip \<or> IsLinkLocalUnicast ip \<or> IsMulticast ip \<or> IsUnspecified ip"
    using mc ula z assms by (auto simp: BlockedIP_def IsGlobalUnicast_def)
  then show ?thesis unfolding e p ll mc(1) v6_floor_def by blast
qed

section \<open>Properties\<close>

text \<open>C29. The floor is the documented set of addresses. A missing address or one of a wrong length is
  blocked; an IPv4 address, also when it is written as an IPv4-mapped IPv6 address, is blocked exactly when it lies in
  one of the listed IPv4 ranges; any other IPv6 address is blocked exactly when it is the loopback or unspecified address or lies in
  fc00::/7, fe80::/10 or ff00::/8.\<close>

theorem BlockedIP_floor:
  "BlockedIP None \<and> (length ip \<noteq> 4 \<and> length ip \<noteq> 16 \<longrightarrow> BlockedIP (Some ip)) \<and>
   BlockedIP (Some [a, b, c, d]) = v4_floor (unat a) (unat b) (unat c) (unat d) \<and>
   BlockedIP (Some (v4InV6Prefix @ [a, b, c, d])) = v4_floor (unat a) (unat b) (unat c) (unat d) \<and>
   (length ip = 16 \<and> take 12 ip \<noteq> v4InV6Prefix \<longrightarrow> BlockedIP (Some ip) = v6_floor ip)"
proof -
  have len: "length v4InV6Prefix = 12" by code_simp
  have "To4 [a, b, c, d] = Some [a, b, c, d]" "To4 (v4InV6Prefix @ [a, b, c, d]) = Some [a, b, c, d]"
    by (simp_all add: To4_def len)
  moreover have "BlockedIP (Some ip)" if "length ip \<noteq> 4" "length ip \<noteq> 16"
    using that by (simp add: BlockedIP_def IsGlobalUnicast_def)
  moreover have "BlockedIP (Some ip) = v6_floor ip" if "length ip = 16" "take 12 ip \<noteq> v4InV6Prefix"
    using that by (intro BlockedIP_v6) (simp_all add: To4_def)
  ultimately show ?thesis using BlockedIP_v4 by (simp add: BlockedIP_def [of None])
qed

theorem BlockedIP_floor_witness:
  "BlockedIP (Some [169, 254, 169, 254]) \<and> \<not> BlockedIP (Some [8, 8, 8, 8]) \<and> BlockedIP (Some (254 # 128 # replicate 14 7))"
proof -
  have six: "length (254 # 128 # replicate 14 7 :: IP) = 16" "take 12 (254 # 128 # replicate 14 7 :: IP) \<noteq> v4InV6Prefix"
    "v6_floor (254 # 128 # replicate 14 7)" by code_simp+
  have "BlockedIP (Some (254 # 128 # replicate 14 7))"
    using BlockedIP_floor [of "254 # 128 # replicate 14 7"] six by blast
  moreover have "BlockedIP (Some [169, 254, 169, 254])" using BlockedIP_floor [of "[]" 169 254 169 254] by (simp add: v4_floor_def)
  moreover have "\<not> BlockedIP (Some [8, 8, 8, 8])" using BlockedIP_floor [of "[]" 8 8 8 8] by (simp add: v4_floor_def)
  ultimately show ?thesis by blast
qed

lemma pin_first_Inr:
  "pin_first g ips pinned = Inr r \<longleftrightarrow> (\<forall>ip \<in> set ips. \<not> Guard_Blocked g (Some ip)) \<and>
     r = (case pinned of Some p \<Rightarrow> Some p | None \<Rightarrow> (case ips of [] \<Rightarrow> None | ip # _ \<Rightarrow> Some ip))"
  by (induction ips arbitrary: pinned) (auto split: option.splits)

text \<open>C7. A guarded dial reaches only what was checked. When the dial proceeds, either the address was an IP
  literal that the guard accepts and it is dialled as given, or the name resolved to a non-empty list of answers none
  of which the guard blocks and the dialled address is the first of them; in the IPv4 case the control hook of the
  same guard accepts that very address again. A name with a blocked answer among its answers is never dialled.\<close>

theorem DialContext_pins:
  assumes "SplitHostPort address = Some (host, port)"
  shows "(\<forall>target. DialContext lookup (Some g) address = Inr target \<longrightarrow>
       (case ParseIP host of
          Some ip \<Rightarrow> \<not> Guard_Blocked g (Some ip) \<and> target = address
        | None \<Rightarrow> (\<exists>ip ips. lookup host = Some (ip # ips) \<and> (\<forall>a \<in> set (ip # ips). \<not> Guard_Blocked g (Some a)) \<and>
            target = JoinHostPort (IP_String ip) port \<and>
            (\<forall>q. To4 ip = Some q \<and> length ip = 16 \<longrightarrow> ControlHook g target = None)))) \<and>
    (\<forall>ips. ParseIP host = None \<and> lookup host = Some ips \<and> (\<exists>a \<in> set ips. Guard_Blocked g (Some a)) \<longrightarrow>
       isl (DialContext lookup (Some g) address))"
proof -
  have hook: "ControlHook g (JoinHostPort (IP_String ip) port) = None"
    if "To4 ip = Some q" "length ip = 16" "\<not> Guard_Blocked g (Some ip)" for ip q
  proof -
    note rt = ParseIP_String_v4 [OF that(1)]
    have len: "length v4InV6Prefix = 12" by code_simp
    have "ip = v4InV6Prefix @ q" using To4_length [OF that(1)] that(2) by auto
    moreover have "SplitHostPort (JoinHostPort (IP_String ip) port) = Some (IP_String ip, port)"
      unfolding rt(1) using SplitHostPort_port [OF assms]
      by (intro SplitHostPort_join dotted_free) (auto simp: is_digit_def byte_of_def)
    ultimately show ?thesis using rt(2) that(3) by (simp add: ControlHook_def CheckIP_def)
  qed
  have dial: "DialContext lookup (Some g) address =
      (case ParseIP host of
         Some ip \<Rightarrow> if Guard_Blocked g (Some ip) then Inl (BlockedDial (Some ip)) else Inr address
       | None \<Rightarrow> (case lookup host of None \<Rightarrow> Inl ResolveFailed
           | Some addrs \<Rightarrow> if addrs = [] then Inl NoAddresses
               else case pin_first g addrs None of Inl err \<Rightarrow> Inl err | Inr None \<Rightarrow> Inl NoAddresses
                    | Inr (Some ip) \<Rightarrow> Inr (JoinHostPort (IP_String ip) port)))"
    using assms by (simp add: DialContext_def CheckIP_def split: option.splits)
  show ?thesis
  proof (cases "ParseIP host")
    case (Some ip)
    then show ?thesis unfolding dial by simp
  next
    case None
    show ?thesis
    proof (cases "\<exists>ip ips. lookup host = Some (ip # ips)")
      case True
      then obtain ip ips where l: "lookup host = Some (ip # ips)" by blast
      show ?thesis
      proof (cases "pin_first g (ip # ips) None")
        case (Inl e)
        then show ?thesis unfolding dial using None l by simp
      next
        case (Inr r)
        then have "\<forall>a \<in> set (ip # ips). \<not> Guard_Blocked g (Some a)" "r = Some ip" unfolding pin_first_Inr by auto
        then show ?thesis unfolding dial using None l Inr hook [of ip] by auto
      qed
    next
      case False
      then have "lookup host = None \<or> lookup host = Some []" by (metis list.exhaust option.exhaust)
      then show ?thesis unfolding dial using None by auto
    qed
  qed
qed

definition demo_lookup :: "string \<Rightarrow> IP list option" where
  "demo_lookup h = (if h = ''ok'' then Some [v4InV6Prefix @ [8, 8, 8, 8]]
     else if h = ''rebind'' then Some [v4InV6Prefix @ [8, 8, 8, 8], v4InV6Prefix @ [127, 0, 0, 1]] else None)"

definition demo_guard :: Guard where
  "demo_guard = \<lparr>AllowPrivate = False, DenyCIDRs = []\<rparr>"

theorem DialContext_pins_witness:
  "DialContext demo_lookup (Some demo_guard) ''ok:443'' = Inr ''8.8.8.8:443'' \<and>
   ControlHook demo_guard ''8.8.8.8:443'' = None \<and> isl (DialContext demo_lookup (Some demo_guard) ''rebind:443'')"
proof -
  have s: "SplitHostPort ''ok:443'' = Some (''ok'', ''443'')" "SplitHostPort ''rebind:443'' = Some (''rebind'', ''443'')"
    "ParseIP ''ok'' = None" "ParseIP ''rebind'' = None"
    "DialContext demo_lookup (Some demo_guard) ''ok:443'' = Inr ''8.8.8.8:443''" by code_simp+
  have ip: "To4 (v4InV6Prefix @ [8, 8, 8, 8]) = Some [8, 8, 8, 8]" "length (v4InV6Prefix @ [8, 8, 8, 8]) = 16" by code_simp+
  have l: "demo_lookup ''ok'' = Some [v4InV6Prefix @ [8, 8, 8, 8]]"
    "demo_lookup ''rebind'' = Some [v4InV6Prefix @ [8, 8, 8, 8], v4InV6Prefix @ [127, 0, 0, 1]]" by (simp_all add: demo_lookup_def)
  have bad: "Guard_Blocked demo_guard (Some (v4InV6Prefix @ [127, 0, 0, 1]))" by code_simp
  have "ControlHook demo_guard ''8.8.8.8:443'' = None"
    using DialContext_pins [OF s(1), of demo_lookup demo_guard] s(3,5) l(1) ip by auto
  moreover have "isl (DialContext demo_lookup (Some demo_guard) ''rebind:443'')"
    using DialContext_pins [OF s(2), of demo_lookup demo_guard] s(4) l(2) bad by auto
  ultimately show ?thesis using s(5) by blast
qed

end
