(* ===== verification/Gateway_Policy.thy ===== *)
theory Gateway_Policy
  imports Go_Json Go_Net Net_Guard Glob "HOL-Library.Monad_Syntax"
begin

text \<open>
  The policy folds of the tool gateway's drivers (\<^verbatim>\<open>tool-gateway/internal/drivers\<close>: \<^verbatim>\<open>rest/policy.go\<close>, \<^verbatim>\<open>mcp/policy.go\<close>,
  \<^verbatim>\<open>git/policy.go\<close>, \<^verbatim>\<open>ssh/policy.go\<close>, \<^verbatim>\<open>browser/policy.go\<close>, \<^verbatim>\<open>web/driver.go\<close>): resource configuration, policy ceiling and grant
  constraints become one effective policy, and the policy's decisions. A definition carries its package's name where two
  packages use the same one. Helpers that several packages repeat word for word are defined once.
\<close>

datatype policy_error = BadConfig | BadCeiling | BadConstraints | NoBaseURL | CeilingExceeded string "string option" | BadCIDR string

section \<open>Shared helpers\<close>

definition trimList :: "string list \<Rightarrow> string list" where
  "trimList xs = filter (\<lambda>v. v \<noteq> []) (map TrimSpace xs)"

definition minSet :: "int list \<Rightarrow> int" where
  "minSet vals = fold (\<lambda>v out. if v > 0 \<and> (out = 0 \<or> v < out) then v else out) vals 0"

definition minPositive :: "int \<Rightarrow> int \<Rightarrow> int \<Rightarrow> int" where
  "minPositive a b def = (let out = minSet [a, b] in if out = 0 then def else out)"

text \<open>The positive rates, and the least of them; 0 (no limit) when there is none.\<close>

definition tightest_rate :: "int list \<Rightarrow> int" where
  "tightest_rate vs = (case filter (\<lambda>v. v > 0) vs of [] \<Rightarrow> 0 | r # rs \<Rightarrow> foldl (\<lambda>m r. if r < m then r else m) r rs)"

text \<open>A size cap starts at its default and only shrinks.\<close>

definition tighten :: "int \<Rightarrow> int list \<Rightarrow> int" where
  "tighten def vs = foldl (\<lambda>m v. if v > 0 \<and> v < m then v else m) def vs"

definition private_egress :: "string \<Rightarrow> string \<Rightarrow> string \<Rightarrow> bool" where
  "private_egress ceilingClass grantEgressClass constraintClass =
     (let baseEgress = TrimSpace ceilingClass;
          baseEgress = (if baseEgress = [] then TrimSpace grantEgressClass else baseEgress);
          conEgress = TrimSpace constraintClass
      in EqualFold baseEgress ''internal'' \<and> (conEgress = [] \<or> EqualFold conEgress ''internal''))"

definition globMatch :: "string \<Rightarrow> string \<Rightarrow> bool" where
  "globMatch pattern0 candidate =
     (let pattern = TrimSpace pattern0
      in if pattern = candidate then True
         else if HasSuffix pattern ''**'' then
           (let pre = TrimSuffix pattern ''**''
            in if \<not> HasPrefix candidate pre then False else TrimPrefix candidate pre \<noteq> [])
         else if Contains pattern ''*'' then
           (let psegs = Split_on CHR ''/'' pattern; csegs = Split_on CHR ''/'' candidate
            in if length psegs \<noteq> length csegs then False else list_all2 starSegmentMatch psegs csegs)
         else False)"

text \<open>The gateway's matcher is the control plane's coverage check on the trimmed pattern.\<close>

lemma globMatch_globCovers: "globMatch p s = globCovers (TrimSpace p) s"
  by (simp add: globMatch_def globCovers_def Let_def)

section \<open>REST\<close>

definition rest_DefaultMaxRequestBytes :: int where "rest_DefaultMaxRequestBytes = 65536"
definition rest_DefaultMaxResponseBytes :: int where "rest_DefaultMaxResponseBytes = 262144"

record restConfigShape =
  RC_BaseURL :: string
  RC_AuthKind :: string
  RC_HeaderName :: string

record restPolicyShape =
  RS_Methods :: "string list option"
  RS_PathAllow :: "string list option"
  RS_PathDeny :: "string list"
  RS_MaxRequestBytes :: int
  RS_MaxResponseBytes :: int
  RS_RatePerMin :: int
  RS_EgressClass :: string

record rest_Policy =
  RP_BaseURL :: string
  RP_AuthKind :: string
  RP_HeaderName :: string
  RP_Methods :: "string list"
  RP_PathAllow :: "string list"
  RP_PathDeny :: "string list"
  RP_MaxRequestBytes :: int
  RP_MaxResponseBytes :: int
  RP_RatePerMin :: int
  RP_AllowPrivate :: bool

definition rest_parseConfig :: "RawMessage \<Rightarrow> restConfigShape option" where
  "rest_parseConfig raw =
     do { kvs \<leftarrow> raw_struct raw;
          b \<leftarrow> st_string ''base_url'' kvs; a \<leftarrow> st_string ''auth_kind'' kvs; h \<leftarrow> st_string ''header_name'' kvs;
          Some \<lparr>RC_BaseURL = b, RC_AuthKind = a, RC_HeaderName = h\<rparr> }"

definition rest_parseLayer :: "RawMessage \<Rightarrow> restPolicyShape option" where
  "rest_parseLayer raw =
     do { kvs \<leftarrow> raw_struct raw;
          ms \<leftarrow> st_slice ''methods'' kvs; pa \<leftarrow> st_slice ''path_allow'' kvs; pd \<leftarrow> st_slice ''path_deny'' kvs;
          rq \<leftarrow> st_int ''max_request_bytes'' kvs; rs \<leftarrow> st_int ''max_response_bytes'' kvs;
          rt \<leftarrow> st_int ''rate_per_min'' kvs; ec \<leftarrow> st_string ''egress_class'' kvs;
          Some \<lparr>RS_Methods = ms, RS_PathAllow = pa, RS_PathDeny = nil_slice pd, RS_MaxRequestBytes = rq,
                RS_MaxResponseBytes = rs, RS_RatePerMin = rt, RS_EgressClass = ec\<rparr> }"

definition nilSafeUpper :: "string list option \<Rightarrow> string list" where
  "nilSafeUpper p = (case p of None \<Rightarrow> [] | Some xs \<Rightarrow> map (\<lambda>v. ToUpper (TrimSpace v)) xs)"

definition intersectUpper :: "string list \<Rightarrow> string list \<Rightarrow> string list" where
  "intersectUpper a b = filter (\<lambda>v. v \<in> set b) a"

definition rest_EffectivePolicy :: "RawMessage \<Rightarrow> RawMessage \<Rightarrow> RawMessage \<Rightarrow> string \<Rightarrow> policy_error + rest_Policy" where
  "rest_EffectivePolicy configRaw ceilingRaw constraintsRaw grantEgressClass =
     (case rest_parseConfig configRaw of None \<Rightarrow> Inl BadConfig | Some cfg \<Rightarrow>
      case rest_parseLayer ceilingRaw of None \<Rightarrow> Inl BadCeiling | Some ce \<Rightarrow>
      case rest_parseLayer constraintsRaw of None \<Rightarrow> Inl BadConstraints | Some con \<Rightarrow>
        let baseURL = TrimRight_slash (TrimSpace (RC_BaseURL cfg));
            authKind = TrimSpace (RC_AuthKind cfg);
            authKind = (if authKind = [] then ''none'' else authKind)
        in if baseURL = [] then Inl NoBaseURL
           else
             let methods = nilSafeUpper (RS_Methods ce);
                 methods = (if RS_Methods con \<noteq> None then intersectUpper methods (nilSafeUpper (RS_Methods con)) else methods);
                 pathAllow = (case RS_PathAllow con of Some xs \<Rightarrow> xs | None \<Rightarrow> nil_slice (RS_PathAllow ce))
             in Inr \<lparr>RP_BaseURL = baseURL, RP_AuthKind = authKind, RP_HeaderName = TrimSpace (RC_HeaderName cfg),
                     RP_Methods = methods, RP_PathAllow = pathAllow, RP_PathDeny = RS_PathDeny ce @ RS_PathDeny con,
                     RP_MaxRequestBytes = tighten rest_DefaultMaxRequestBytes [RS_MaxRequestBytes ce, RS_MaxRequestBytes con],
                     RP_MaxResponseBytes = tighten rest_DefaultMaxResponseBytes [RS_MaxResponseBytes ce, RS_MaxResponseBytes con],
                     RP_RatePerMin = tightest_rate [RS_RatePerMin ce, RS_RatePerMin con],
                     RP_AllowPrivate = private_egress (RS_EgressClass ce) grantEgressClass (RS_EgressClass con)\<rparr>)"

definition methodAllowed :: "rest_Policy \<Rightarrow> string \<Rightarrow> bool" where
  "methodAllowed p mt = (let m = ToUpper (TrimSpace mt) in list_ex (\<lambda>allowed. allowed = m) (RP_Methods p))"

definition pathAllowed :: "rest_Policy \<Rightarrow> string \<Rightarrow> bool" where
  "pathAllowed p path =
     (if list_ex (\<lambda>d. globMatch d path) (RP_PathDeny p) then False else list_ex (\<lambda>a. globMatch a path) (RP_PathAllow p))"

section \<open>MCP\<close>

definition DefaultMaxArgsBytes :: int where "DefaultMaxArgsBytes = 32768"

record mcpConfigShape =
  MC_BaseURL :: string
  MC_URL :: string
  MC_AuthKind :: string

record perToolRule =
  PT_RequiresConfirmation :: bool

record mcpPolicyShape =
  MS_ToolsAllow :: "string list option"
  MS_ToolsDeny :: "string list"
  MS_PerTool :: "perToolRule gomap"
  MS_RatePerMin :: int
  MS_MaxArgsBytes :: int
  MS_EgressClass :: string

record mcp_Policy =
  MP_BaseURL :: string
  MP_AuthKind :: string
  MP_ToolsAllow :: "string list"
  MP_ToolsDeny :: "string list"
  MP_PerTool :: "perToolRule gomap"
  MP_RatePerMin :: int
  MP_MaxArgsBytes :: int
  MP_AllowPrivate :: bool

definition un_rule :: "json \<Rightarrow> perToolRule option" where
  "un_rule v = do { kvs \<leftarrow> un_struct v; b \<leftarrow> st_bool ''requires_confirmation'' kvs; Some \<lparr>PT_RequiresConfirmation = b\<rparr> }"

fun un_rules :: "(string \<times> json) list \<Rightarrow> perToolRule gomap \<Rightarrow> perToolRule gomap option" where
  "un_rules [] m = Some m"
| "un_rules ((k, v) # kvs) m = (case un_rule v of None \<Rightarrow> None | Some r \<Rightarrow> un_rules kvs (gm_put k r m))"

text \<open>A map field: \<^verbatim>\<open>null\<close> resets it, an object adds its entries.\<close>

definition st_rules :: "string \<Rightarrow> (string \<times> json) list \<Rightarrow> perToolRule gomap option" where
  "st_rules name kvs =
     set_field (\<lambda>m v. case v of JNull \<Rightarrow> Some [] | JObj es \<Rightarrow> un_rules es m | _ \<Rightarrow> None) [] (field_values name kvs)"

definition mcp_parseConfig :: "RawMessage \<Rightarrow> mcpConfigShape option" where
  "mcp_parseConfig raw =
     do { kvs \<leftarrow> raw_struct raw;
          b \<leftarrow> st_string ''base_url'' kvs; u \<leftarrow> st_string ''url'' kvs; a \<leftarrow> st_string ''auth_kind'' kvs;
          Some \<lparr>MC_BaseURL = b, MC_URL = u, MC_AuthKind = a\<rparr> }"

definition mcp_parseLayer :: "RawMessage \<Rightarrow> mcpPolicyShape option" where
  "mcp_parseLayer raw =
     do { kvs \<leftarrow> raw_struct raw;
          ta \<leftarrow> st_slice ''tools_allow'' kvs; td \<leftarrow> st_slice ''tools_deny'' kvs; pt \<leftarrow> st_rules ''per_tool'' kvs;
          rt \<leftarrow> st_int ''rate_per_min'' kvs; mx \<leftarrow> st_int ''max_args_bytes'' kvs; ec \<leftarrow> st_string ''egress_class'' kvs;
          Some \<lparr>MS_ToolsAllow = ta, MS_ToolsDeny = nil_slice td, MS_PerTool = pt, MS_RatePerMin = rt,
                MS_MaxArgsBytes = mx, MS_EgressClass = ec\<rparr> }"

definition merge_rule :: "string \<times> perToolRule \<Rightarrow> perToolRule gomap \<Rightarrow> perToolRule gomap" where
  "merge_rule e m = (case e of (name, rule) \<Rightarrow>
     let merged = (case gm_get m name of Some r \<Rightarrow> r | None \<Rightarrow> \<lparr>PT_RequiresConfirmation = False\<rparr>)
     in gm_put name (merged\<lparr>PT_RequiresConfirmation := PT_RequiresConfirmation merged \<or> PT_RequiresConfirmation rule\<rparr>) m)"

definition service_base :: "string \<Rightarrow> string \<Rightarrow> string" where
  "service_base baseURL url =
     (let base = TrimRight_slash (TrimSpace baseURL) in if base = [] then TrimRight_slash (TrimSpace url) else base)"

definition mcp_EffectivePolicy :: "RawMessage \<Rightarrow> RawMessage \<Rightarrow> RawMessage \<Rightarrow> string \<Rightarrow> policy_error + mcp_Policy" where
  "mcp_EffectivePolicy configRaw ceilingRaw constraintsRaw grantEgressClass =
     (case mcp_parseConfig configRaw of None \<Rightarrow> Inl BadConfig | Some cfg \<Rightarrow>
      case mcp_parseLayer ceilingRaw of None \<Rightarrow> Inl BadCeiling | Some ce \<Rightarrow>
      case mcp_parseLayer constraintsRaw of None \<Rightarrow> Inl BadConstraints | Some con \<Rightarrow>
        let base = service_base (MC_BaseURL cfg) (MC_URL cfg);
            authKind = TrimSpace (MC_AuthKind cfg)
        in if base = [] then Inl NoBaseURL
           else Inr \<lparr>MP_BaseURL = base, MP_AuthKind = (if authKind = [] then ''bearer'' else authKind),
                     MP_ToolsAllow = (case MS_ToolsAllow con of Some xs \<Rightarrow> trimList xs | None \<Rightarrow> trimList (nil_slice (MS_ToolsAllow ce))),
                     MP_ToolsDeny = trimList (MS_ToolsDeny ce) @ trimList (MS_ToolsDeny con),
                     MP_PerTool = fold merge_rule (MS_PerTool con) (fold (\<lambda>(name, rule) m. gm_put name rule m) (MS_PerTool ce) []),
                     MP_RatePerMin = minPositive (MS_RatePerMin ce) (MS_RatePerMin con) 0,
                     MP_MaxArgsBytes = minPositive (MS_MaxArgsBytes ce) (MS_MaxArgsBytes con) DefaultMaxArgsBytes,
                     MP_AllowPrivate = private_egress (MS_EgressClass ce) grantEgressClass (MS_EgressClass con)\<rparr>)"

definition anyMatch :: "string list \<Rightarrow> string \<Rightarrow> bool" where
  "anyMatch patterns s = list_ex (\<lambda>pat. wildcardMatch pat s) patterns"

definition toolAllowed :: "mcp_Policy \<Rightarrow> string \<Rightarrow> bool" where
  "toolAllowed p tool =
     (if \<not> anyMatch (MP_ToolsAllow p) tool then False else if anyMatch (MP_ToolsDeny p) tool then False else True)"

definition requiresConfirmation :: "mcp_Policy \<Rightarrow> string \<Rightarrow> bool" where
  "requiresConfirmation p tool = (case gm_get (MP_PerTool p) tool of None \<Rightarrow> False | Some rule \<Rightarrow> PT_RequiresConfirmation rule)"

section \<open>Git\<close>

record gitConfigShape =
  GC_BaseURL :: string

record gitPolicyShape =
  GS_ReposAllow :: "string list option"
  GS_AllowPush :: "bool option"
  GS_RatePerMin :: int

record git_Policy =
  GP_BaseURL :: string
  GP_ReposAllow :: "string list"
  GP_AllowPush :: bool
  GP_RatePerMin :: int

definition git_parseLayer :: "RawMessage \<Rightarrow> gitPolicyShape option" where
  "git_parseLayer raw =
     do { kvs \<leftarrow> raw_struct raw;
          ra \<leftarrow> st_slice ''repos_allow'' kvs; ap \<leftarrow> st_bool_ptr ''allow_push'' kvs; rt \<leftarrow> st_int ''rate_per_min'' kvs;
          Some \<lparr>GS_ReposAllow = ra, GS_AllowPush = ap, GS_RatePerMin = rt\<rparr> }"

definition git_parseConfig :: "RawMessage \<Rightarrow> gitConfigShape option" where
  "git_parseConfig raw = do { kvs \<leftarrow> raw_struct raw; b \<leftarrow> st_string ''base_url'' kvs; Some \<lparr>GC_BaseURL = b\<rparr> }"

definition git_EffectivePolicy :: "RawMessage \<Rightarrow> RawMessage \<Rightarrow> RawMessage \<Rightarrow> policy_error + git_Policy" where
  "git_EffectivePolicy configRaw ceilingRaw constraintsRaw =
     (case git_parseConfig configRaw of None \<Rightarrow> Inl BadConfig | Some cfg \<Rightarrow>
      case git_parseLayer ceilingRaw of None \<Rightarrow> Inl BadCeiling | Some ce \<Rightarrow>
      case git_parseLayer constraintsRaw of None \<Rightarrow> Inl BadConstraints | Some con \<Rightarrow>
        let base = TrimRight_slash (TrimSpace (GC_BaseURL cfg))
        in if base = [] then Inl NoBaseURL
           else Inr \<lparr>GP_BaseURL = base,
                     GP_ReposAllow = (case GS_ReposAllow con of Some xs \<Rightarrow> trimList xs | None \<Rightarrow> trimList (nil_slice (GS_ReposAllow ce))),
                     GP_AllowPush = (GS_AllowPush ce = Some True \<and> GS_AllowPush con = Some True),
                     GP_RatePerMin = tightest_rate [GS_RatePerMin ce, GS_RatePerMin con]\<rparr>)"

definition repoAllowed :: "git_Policy \<Rightarrow> string \<Rightarrow> bool" where
  "repoAllowed p repo = list_ex (\<lambda>a. globMatch a repo) (GP_ReposAllow p)"

section \<open>SSH\<close>

definition DefaultCertTTLMinutes :: int where "DefaultCertTTLMinutes = 15"
definition MinCertTTLMinutes :: int where "MinCertTTLMinutes = 15"
definition MaxCertTTLMinutes :: int where "MaxCertTTLMinutes = 60"
definition DefaultMaxConcurrentSess :: int where "DefaultMaxConcurrentSess = 2"
definition DefaultExecTimeoutSec :: int where "DefaultExecTimeoutSec = 60"
definition MaxExecTimeoutSec :: int where "MaxExecTimeoutSec = 300"

definition defaultCommandDeny :: "string list" where
  "defaultCommandDeny = [''rm -rf *'', ''dd *of=*'', ''mkfs*'', ''shutdown*'', ''reboot*'', ''systemctl stop *'', ''systemctl disable *'',
     ''kill -9 1'', ''sudo *'', ''*> /etc/*'', ''> /etc/*'', ''*>> /etc/*'', ''>> /etc/*'']"

text \<open>A slice keeps the difference between \<^verbatim>\<open>nil\<close> and empty, which \<^verbatim>\<open>firstSet\<close> reads.\<close>

record sshPolicyShape =
  SS_HostsAllow :: "string list option"
  SS_HostsDeny :: "string list option"
  SS_CommandAllow :: "string list option"
  SS_CommandDeny :: "string list option"
  SS_CertTTLMinutes :: int
  SS_MaxConcurrentSessions :: int
  SS_ExecTimeoutSeconds :: int

record ssh_Policy =
  SP_HostsAllow :: "string list option"
  SP_HostsDeny :: "string list"
  SP_CommandAllow :: "string list option"
  SP_CommandDeny :: "string list"
  SP_CertTTLMinutes :: int
  SP_MaxConcurrentSessions :: int
  SP_ExecTimeoutSeconds :: int

definition ssh_parseLayer :: "RawMessage \<Rightarrow> sshPolicyShape option" where
  "ssh_parseLayer raw =
     do { kvs \<leftarrow> raw_struct raw;
          ha \<leftarrow> st_slice ''hosts_allow'' kvs; hd \<leftarrow> st_slice ''hosts_deny'' kvs;
          ca \<leftarrow> st_slice ''command_allow'' kvs; cd \<leftarrow> st_slice ''command_deny'' kvs;
          tt \<leftarrow> st_int ''cert_ttl_minutes'' kvs; ms \<leftarrow> st_int ''max_concurrent_sessions'' kvs; et \<leftarrow> st_int ''exec_timeout_seconds'' kvs;
          Some \<lparr>SS_HostsAllow = ha, SS_HostsDeny = hd, SS_CommandAllow = ca, SS_CommandDeny = cd,
                SS_CertTTLMinutes = tt, SS_MaxConcurrentSessions = ms, SS_ExecTimeoutSeconds = et\<rparr> }"

definition firstSet :: "string list option \<Rightarrow> string list option \<Rightarrow> string list option" where
  "firstSet a b = (if a \<noteq> None then a else b)"

definition ssh_minPositive :: "int \<Rightarrow> int \<Rightarrow> int \<Rightarrow> int" where
  "ssh_minPositive a b def = (let m = minSet [a, b] in if m > 0 then m else def)"

definition clampInt :: "int \<Rightarrow> int \<Rightarrow> int \<Rightarrow> int \<Rightarrow> int" where
  "clampInt v0 def lo hi = (let v = (if v0 = 0 then def else v0) in if v < lo then lo else if v > hi then hi else v)"

fun uncovered :: "string list \<Rightarrow> string list \<Rightarrow> string option" where
  "uncovered ceAllow [] = None"
| "uncovered ceAllow (p0 # ps) =
     (let p = TrimSpace p0
      in if p = [] then uncovered ceAllow ps
         else if list_ex (\<lambda>c. TrimSpace c = p \<or> ssh_globMatch c p) ceAllow then uncovered ceAllow ps else Some p)"

definition assertAllowSubset :: "string list \<Rightarrow> string list \<Rightarrow> string \<Rightarrow> policy_error option" where
  "assertAllowSubset conAllow ceAllow field =
     (if conAllow = [] then None
      else if ceAllow = [] then Some (CeilingExceeded field None)
      else case uncovered ceAllow conAllow of None \<Rightarrow> None | Some p \<Rightarrow> Some (CeilingExceeded field (Some p)))"

definition ssh_EffectivePolicy :: "RawMessage \<Rightarrow> RawMessage \<Rightarrow> policy_error + ssh_Policy" where
  "ssh_EffectivePolicy ceilingRaw constraintsRaw =
     (case ssh_parseLayer ceilingRaw of None \<Rightarrow> Inl BadCeiling | Some ce \<Rightarrow>
      case ssh_parseLayer constraintsRaw of None \<Rightarrow> Inl BadConstraints | Some con \<Rightarrow>
      case assertAllowSubset (nil_slice (SS_HostsAllow con)) (nil_slice (SS_HostsAllow ce)) ''hosts_allow'' of Some e \<Rightarrow> Inl e | None \<Rightarrow>
      case assertAllowSubset (nil_slice (SS_CommandAllow con)) (nil_slice (SS_CommandAllow ce)) ''command_allow'' of Some e \<Rightarrow> Inl e | None \<Rightarrow>
        Inr \<lparr>SP_HostsAllow = firstSet (SS_HostsAllow con) (SS_HostsAllow ce),
             SP_HostsDeny = nil_slice (SS_HostsDeny ce) @ nil_slice (SS_HostsDeny con),
             SP_CommandAllow = firstSet (SS_CommandAllow con) (SS_CommandAllow ce),
             SP_CommandDeny = nil_slice (SS_CommandDeny ce) @ nil_slice (SS_CommandDeny con) @ defaultCommandDeny,
             SP_CertTTLMinutes = clampInt (minSet [SS_CertTTLMinutes ce, SS_CertTTLMinutes con]) DefaultCertTTLMinutes MinCertTTLMinutes MaxCertTTLMinutes,
             SP_MaxConcurrentSessions = ssh_minPositive (SS_MaxConcurrentSessions con) (SS_MaxConcurrentSessions ce) DefaultMaxConcurrentSess,
             SP_ExecTimeoutSeconds = clampInt (minSet [SS_ExecTimeoutSeconds ce, SS_ExecTimeoutSeconds con]) DefaultExecTimeoutSec 1 MaxExecTimeoutSec\<rparr>)"

definition HostAllowed :: "ssh_Policy \<Rightarrow> string \<Rightarrow> bool" where
  "HostAllowed p host =
     (let h = ToLower (TrimSpace host)
      in if list_ex (\<lambda>d. ssh_globMatch d h) (SP_HostsDeny p) then False
         else list_ex (\<lambda>a. ssh_globMatch a h) (nil_slice (SP_HostsAllow p)))"

datatype CommandVerdict = CommandPass | CommandGate | CommandDeny

definition NormalizeCommand :: "string \<Rightarrow> string" where
  "NormalizeCommand cmd = join_with '' '' (Fields (ToLower cmd))"

definition CheckCommand :: "ssh_Policy \<Rightarrow> string \<Rightarrow> CommandVerdict \<times> string" where
  "CheckCommand p normalized =
     (let n = NormalizeCommand normalized
      in case find (\<lambda>d. globMatchAnywhere d n) (SP_CommandDeny p) of
           Some d \<Rightarrow> (CommandGate, TrimSpace d)
         | None \<Rightarrow>
             if nil_slice (SP_CommandAllow p) \<noteq> [] then
               (if list_ex (\<lambda>a. ssh_globMatch a n) (nil_slice (SP_CommandAllow p)) then (CommandPass, []) else (CommandDeny, []))
             else (CommandPass, []))"

section \<open>Browser\<close>

definition browser_DefaultMaxScreenshotBytes :: int where "browser_DefaultMaxScreenshotBytes = 2 * 1024 * 1024"
definition browser_DefaultIdleTimeoutS :: int where "browser_DefaultIdleTimeoutS = 600"
definition browser_DefaultMaxSessionMinutes :: int where "browser_DefaultMaxSessionMinutes = 30"
definition browser_DefaultMaxSessionsPerAgent :: int where "browser_DefaultMaxSessionsPerAgent = 1"
definition browser_DefaultMaxPages :: int where "browser_DefaultMaxPages = 50"

record browserConfigShape =
  BC_BaseURL :: string
  BC_URL :: string
  BC_Driver :: string

record browserPolicyShape =
  BS_DenyHosts :: "string list"
  BS_MaxPages :: int
  BS_MaxScreenshotBytes :: int
  BS_IdleTimeoutS :: int
  BS_MaxSessionMinutes :: int
  BS_MaxSessionsPerAgent :: "int option"

record browser_Policy =
  BP_ServiceURL :: string
  BP_DenyHosts :: "string list"
  BP_MaxPages :: int
  BP_MaxScreenshotBytes :: int
  BP_IdleTimeoutS :: int
  BP_MaxSessionMinutes :: int
  BP_MaxSessionsPerAgent :: int

definition browser_parseConfig :: "RawMessage \<Rightarrow> browserConfigShape option" where
  "browser_parseConfig raw =
     do { kvs \<leftarrow> raw_struct raw;
          b \<leftarrow> st_string ''base_url'' kvs; u \<leftarrow> st_string ''url'' kvs; d \<leftarrow> st_string ''driver'' kvs;
          Some \<lparr>BC_BaseURL = b, BC_URL = u, BC_Driver = d\<rparr> }"

definition browser_parseLayer :: "RawMessage \<Rightarrow> browserPolicyShape option" where
  "browser_parseLayer raw =
     do { kvs \<leftarrow> raw_struct raw;
          dh \<leftarrow> st_slice ''deny_hosts'' kvs; mp \<leftarrow> st_int ''max_pages'' kvs; sb \<leftarrow> st_int ''max_screenshot_bytes'' kvs;
          it \<leftarrow> st_int ''idle_timeout_s'' kvs; sm \<leftarrow> st_int ''max_session_minutes'' kvs; sa \<leftarrow> st_int_ptr ''max_sessions_per_agent'' kvs;
          Some \<lparr>BS_DenyHosts = nil_slice dh, BS_MaxPages = mp, BS_MaxScreenshotBytes = sb, BS_IdleTimeoutS = it,
                BS_MaxSessionMinutes = sm, BS_MaxSessionsPerAgent = sa\<rparr> }"

definition minPositivePtr :: "int option \<Rightarrow> int option \<Rightarrow> int \<Rightarrow> int" where
  "minPositivePtr a b def =
     (let vals = (case a of Some x \<Rightarrow> [x] | None \<Rightarrow> []) @ (case b of Some y \<Rightarrow> [y] | None \<Rightarrow> [])
      in case vals of [] \<Rightarrow> def | x # xs \<Rightarrow> foldl (\<lambda>out v. if v < out then v else out) x xs)"

definition browser_EffectivePolicy :: "RawMessage \<Rightarrow> RawMessage \<Rightarrow> RawMessage \<Rightarrow> policy_error + browser_Policy" where
  "browser_EffectivePolicy configRaw ceilingRaw constraintsRaw =
     (case browser_parseConfig configRaw of None \<Rightarrow> Inl BadConfig | Some cfg \<Rightarrow>
      case browser_parseLayer ceilingRaw of None \<Rightarrow> Inl BadCeiling | Some ce \<Rightarrow>
      case browser_parseLayer constraintsRaw of None \<Rightarrow> Inl BadConstraints | Some con \<Rightarrow>
        let base = service_base (BC_BaseURL cfg) (BC_URL cfg)
        in if base = [] then Inl NoBaseURL
           else Inr \<lparr>BP_ServiceURL = base,
                     BP_DenyHosts = trimList (BS_DenyHosts ce) @ trimList (BS_DenyHosts con),
                     BP_MaxPages = minPositive (BS_MaxPages ce) (BS_MaxPages con) browser_DefaultMaxPages,
                     BP_MaxScreenshotBytes = minPositive (BS_MaxScreenshotBytes ce) (BS_MaxScreenshotBytes con) browser_DefaultMaxScreenshotBytes,
                     BP_IdleTimeoutS = minPositive (BS_IdleTimeoutS ce) (BS_IdleTimeoutS con) browser_DefaultIdleTimeoutS,
                     BP_MaxSessionMinutes = minPositive (BS_MaxSessionMinutes ce) (BS_MaxSessionMinutes con) browser_DefaultMaxSessionMinutes,
                     BP_MaxSessionsPerAgent = minPositivePtr (BS_MaxSessionsPerAgent ce) (BS_MaxSessionsPerAgent con) browser_DefaultMaxSessionsPerAgent\<rparr>)"

section \<open>Web\<close>

definition web_DefaultMaxBytes :: int where "web_DefaultMaxBytes = 262144"
definition web_DefaultTimeoutSeconds :: int where "web_DefaultTimeoutSeconds = 30"

record webShape =
  WS_DenyDomains :: "string list"
  WS_DenyCIDRs :: "string list"
  WS_RatePerMin :: int
  WS_MaxBytes :: int
  WS_TimeoutSeconds :: int
  WS_AllowPrivate :: bool

text \<open>The timeout is kept in seconds.\<close>

record web_Policy =
  WP_RatePerMin :: int
  WP_MaxBytes :: int
  WP_Timeout :: int
  WP_AllowPrivate :: bool
  WP_DenyDomains :: "string list"
  WP_DenyCIDRs :: "IPNet list"

definition parseShape :: "RawMessage \<Rightarrow> webShape option" where
  "parseShape raw =
     do { kvs \<leftarrow> raw_struct raw;
          dd \<leftarrow> st_slice ''deny_domains'' kvs; dc \<leftarrow> st_slice ''deny_cidrs'' kvs; rt \<leftarrow> st_int ''rate_per_min'' kvs;
          mb \<leftarrow> st_int ''max_bytes'' kvs; ts \<leftarrow> st_int ''timeout_seconds'' kvs; ap \<leftarrow> st_bool ''allow_private_network'' kvs;
          Some \<lparr>WS_DenyDomains = nil_slice dd, WS_DenyCIDRs = nil_slice dc, WS_RatePerMin = rt, WS_MaxBytes = mb,
                WS_TimeoutSeconds = ts, WS_AllowPrivate = ap\<rparr> }"

definition add_domain :: "string \<Rightarrow> string list \<Rightarrow> string list" where
  "add_domain d acc = (let n = NormalizeHost d in if n = [] \<or> n \<in> set acc then acc else acc @ [n])"

text \<open>What \<^verbatim>\<open>IPNet.String\<close> prints: the network number, four bytes when it is an IPv4 one, and the mask that goes with it.\<close>

definition net_text :: "IPNet \<Rightarrow> IP \<times> IP" where
  "net_text n =
     (let nn = (case To4 (Net_IP n) of Some x \<Rightarrow> x | None \<Rightarrow> Net_IP n)
      in (nn, if length (Net_Mask n) = 16 \<and> length nn = 4 then drop 12 (Net_Mask n) else Net_Mask n))"

fun add_cidrs :: "string list \<Rightarrow> IPNet list \<Rightarrow> string + IPNet list" where
  "add_cidrs [] acc = Inr acc"
| "add_cidrs (c # cs) acc =
     (case ParseCIDR (TrimSpace c) of
        None \<Rightarrow> Inl c
      | Some n \<Rightarrow> add_cidrs cs (if net_text n \<in> set (map net_text acc) then acc else acc @ [n]))"

definition web_EffectivePolicy :: "RawMessage \<Rightarrow> RawMessage \<Rightarrow> RawMessage \<Rightarrow> policy_error + web_Policy" where
  "web_EffectivePolicy configRaw ceilingRaw constraintsRaw =
     (case parseShape configRaw of None \<Rightarrow> Inl BadConfig | Some cfg \<Rightarrow>
      case parseShape ceilingRaw of None \<Rightarrow> Inl BadCeiling | Some ce \<Rightarrow>
      case parseShape constraintsRaw of None \<Rightarrow> Inl BadConstraints | Some con \<Rightarrow>
        let denyDomains = fold add_domain (WS_DenyDomains cfg @ WS_DenyDomains ce @ WS_DenyDomains con) []
        in case add_cidrs (WS_DenyCIDRs cfg @ WS_DenyCIDRs ce @ WS_DenyCIDRs con) [] of
             Inl c \<Rightarrow> Inl (BadCIDR c)
           | Inr nets \<Rightarrow>
               let timeout = minSet [WS_TimeoutSeconds cfg, WS_TimeoutSeconds ce, WS_TimeoutSeconds con]
               in Inr \<lparr>WP_RatePerMin = tightest_rate [WS_RatePerMin cfg, WS_RatePerMin ce, WS_RatePerMin con],
                       WP_MaxBytes = tighten web_DefaultMaxBytes [WS_MaxBytes cfg, WS_MaxBytes ce, WS_MaxBytes con],
                       WP_Timeout = (if timeout = 0 then web_DefaultTimeoutSeconds else timeout),
                       WP_AllowPrivate = (WS_AllowPrivate ce \<and> WS_AllowPrivate con),
                       WP_DenyDomains = denyDomains, WP_DenyCIDRs = nets\<rparr>)"

end
