(* ===== verification/Egress_Laws.thy ===== *)
theory Egress_Laws
  imports Egress_Grant Gateway_Policy
begin

text \<open>
  The contract between the control plane and the tool gateway: a grant that passes the control plane's no-escalation check
  is never wider, at the gateway, than the resource without the grant's constraints. The two sides read the same JSON
  differently (exact map keys against struct fields up to case), match patterns with different matchers, and fold the
  layers in different code.
\<close>

section \<open>Coverage and matching\<close>

text \<open>The interface between the two sides: the control plane decides \<open>covers\<close> on pattern texts, the gateway \<open>matches\<close>
  concrete names.\<close>

locale pattern_coverage =
  fixes covers :: "string \<Rightarrow> string \<Rightarrow> bool"
    and matches :: "string \<Rightarrow> string \<Rightarrow> bool"
    and sound_pair :: "string \<Rightarrow> string \<Rightarrow> bool"
  assumes covers_sound: "sound_pair c p \<Longrightarrow> covers c p \<Longrightarrow> matches p s \<Longrightarrow> matches c s"
begin

lemma allow_narrows:
  assumes "\<forall>p \<in> set ps. \<exists>c \<in> set cs. covers c p" and "\<And>c p. c \<in> set cs \<Longrightarrow> p \<in> set ps \<Longrightarrow> covers c p \<Longrightarrow> sound_pair c p"
    and "list_ex (\<lambda>p. matches p s) ps"
  shows "list_ex (\<lambda>c. matches c s) cs"
  using assms covers_sound by (metis list_ex_iff)

end

interpretation tools: pattern_coverage globCovers wildcardMatch "\<lambda>_ _. True"
  by unfold_locales (rule globCovers_wildcard)

definition trimmed :: "string \<Rightarrow> bool" where
  "trimmed p \<longleftrightarrow> TrimSpace p = p"

lemma globCovers_ssh:
  assumes "trimmed c" and "trimmed p" and "globCovers c p" and "CHR 0x0A \<notin> set s" and "ssh_globMatch p s"
  shows "ssh_globMatch c s"
proof -
  have nl: "CHR 0x0A \<notin> set (ToLower s)" using lower_char_absent [of "CHR 0x0A" s] assms(4) by (simp add: byte_of_def)
  have "glob False (ToLower c) (ToLower p)" by (rule glob_lower [OF globCovers_glob [OF assms(3)]])
  moreover have "glob True (ToLower p) (ToLower s)" using assms(2,5) ssh_globMatch_iff [OF nl] by (simp add: trimmed_def)
  ultimately have "glob True (ToLower c) (ToLower s)" by (rule glob_trans)
  then show ?thesis using assms(1) ssh_globMatch_iff [OF nl] by (simp add: trimmed_def)
qed

interpretation hosts: pattern_coverage globCovers "\<lambda>p s. CHR 0x0A \<notin> set s \<and> ssh_globMatch p s" "\<lambda>c p. trimmed c \<and> trimmed p"
  by unfold_locales (auto intro: globCovers_ssh)

text \<open>The path matcher of the REST and git drivers is not transitive, so coverage is sound only for pairs of these forms: the
  same pattern; a grant pattern without stars; a ceiling \<open>pre**\<close> over a longer grant pattern; and a ceiling with at most one
  star in a segment over a grant pattern that does not end in \<open>**\<close>.\<close>

definition one_star :: "string \<Rightarrow> bool" where
  "one_star seg \<longleftrightarrow> length (filter (\<lambda>x. x = CHR ''*'') seg) \<le> 1"

definition path_pair :: "string \<Rightarrow> string \<Rightarrow> bool" where
  "path_pair c p \<longleftrightarrow> trimmed c \<and> trimmed p \<and>
     (p = c \<or> CHR ''*'' \<notin> set p \<or>
      (HasSuffix c ''**'' \<and> CHR ''*'' \<notin> set (TrimSuffix c ''**'') \<and> list_ex (\<lambda>x. x \<noteq> CHR ''*'') (drop (length c - 2) p)) \<or>
      (\<not> HasSuffix c ''**'' \<and> \<not> HasSuffix p ''**'' \<and> list_all one_star (Split_on CHR ''/'' c)))"

lemma suffix_split: "HasSuffix c ''**'' \<Longrightarrow> c = TrimSuffix c ''**'' @ ''**''"
  unfolding HasSuffix_iff TrimSuffix_def by (auto simp: HasSuffix_iff)

lemma covers_wide:
  assumes "HasSuffix c ''**''" and "c \<noteq> s"
  shows "globCovers c s \<longleftrightarrow> (\<exists>r. s = TrimSuffix c ''**'' @ r \<and> r \<noteq> [])"
  using assms by (auto simp: globCovers_def TrimPrefix_def HasPrefix_iff Let_def)

lemma one_star_parts:
  assumes "one_star (a @ CHR ''*'' # b)"
  shows "CHR ''*'' \<notin> set a" and "CHR ''*'' \<notin> set b"
  using assms by (auto simp: one_star_def filter_empty_conv)

lemma segment_trans:
  assumes "one_star c" and "starSegmentMatch c p" and "starSegmentMatch p s"
  shows "starSegmentMatch c s"
proof (cases "CHR ''*'' \<in> set c")
  case True
  obtain a b where cp: "star_parts c = (a, b)" by force
  have c: "c = a @ CHR ''*'' # b" using star_parts(1) [OF True] cp by simp
  note ab = one_star_parts [OF assms(1) [unfolded c]]
  obtain m where p: "p = a @ m @ b" using assms(2) segment_iff [OF True cp] by blast
  show ?thesis
  proof (cases "CHR ''*'' \<in> set p")
    case pstar: True
    then obtain m1 m2 where m: "m = m1 @ CHR ''*'' # m2" "CHR ''*'' \<notin> set m1" using p ab by (auto dest: split_list_first)
    have sp: "star_parts p = (a @ m1, m2 @ b)"
      unfolding star_parts_def p m(1) using ab m(2) by (simp add: takeWhile_append dropWhile_append)
    then obtain n where "s = (a @ m1) @ n @ (m2 @ b)" using assms(3) segment_iff [OF pstar sp] by blast
    then have "s = a @ (m1 @ n @ m2) @ b" by simp
    then show ?thesis using segment_iff [OF True cp] by blast
  next
    case False
    then have "s = p" using assms(3) by (simp add: starSegmentMatch_def Contains_char)
    then show ?thesis using assms(2) by simp
  qed
next
  case False
  then show ?thesis using assms(2,3) by (simp add: starSegmentMatch_def Contains_char)
qed

lemma segments_trans:
  assumes "list_all one_star cs" and "list_all2 starSegmentMatch cs ps" and "list_all2 starSegmentMatch ps ss"
  shows "list_all2 starSegmentMatch cs ss"
  using assms segment_trans by (simp add: list_all2_conv_all_nth list_all_length) metis

lemma covers_segments:
  assumes "\<not> HasSuffix c ''**''" and "CHR ''*'' \<in> set c"
  shows "globCovers c s \<longleftrightarrow> c = s \<or> list_all2 starSegmentMatch (Split_on CHR ''/'' c) (Split_on CHR ''/'' s)"
  using assms by (auto simp: globCovers_def Contains_char Let_def dest: list_all2_lengthD)

lemma covers_literal: "CHR ''*'' \<notin> set c \<Longrightarrow> globCovers c s \<longleftrightarrow> c = s"
  by (auto simp: globCovers_def Contains_char HasSuffix_iff Let_def)

lemma path_covers_sound:
  assumes "path_pair c p" and "globCovers c p" and "globMatch p s"
  shows "globMatch c s"
proof -
  have tr: "TrimSpace c = c" "TrimSpace p = p" using assms(1) by (auto simp: path_pair_def trimmed_def)
  have ps: "globCovers p s" using assms(3) tr by (simp add: globMatch_globCovers)
  consider "p = c" | "p \<noteq> c" "CHR ''*'' \<notin> set p"
    | "p \<noteq> c" "HasSuffix c ''**''" "CHR ''*'' \<notin> set (TrimSuffix c ''**'')" "list_ex (\<lambda>x. x \<noteq> CHR ''*'') (drop (length c - 2) p)"
    | "p \<noteq> c" "CHR ''*'' \<in> set p" "\<not> HasSuffix c ''**''" "\<not> HasSuffix p ''**''" "list_all one_star (Split_on CHR ''/'' c)"
    using assms(1) by (cases "p = c"; cases "CHR ''*'' \<in> set p") (simp_all add: path_pair_def, argo)
  then have "globCovers c s"
  proof cases
    case 2
    then have "s = p" using ps covers_literal [of p s] by simp
    then show ?thesis using assms(2) by simp
  next
    case 3
    define pre where "pre = TrimSuffix c ''**''"
    have c: "c = pre @ ''**''" unfolding pre_def by (rule suffix_split [OF 3(2)])
    obtain q where p: "p = pre @ q" using assms(2) covers_wide [of c p] 3(1,2) pre_def by auto
    have q: "list_ex (\<lambda>x. x \<noteq> CHR ''*'') q" using 3(4) c p by simp
    have "glob False (pre @ q) s" using globCovers_glob [OF ps] p by simp
    then obtain r where s: "s = pre @ r" "glob False q r" using glob_lit [of pre q s] 3(3) pre_def by auto
    have "r \<noteq> []"
    proof
      assume "r = []"
      with s(2) have "dropWhile (\<lambda>x. x = CHR ''*'') q = []" by (simp only: glob_empty)
      then show False using q by (auto simp: dropWhile_eq_Nil_conv list_ex_iff simp del: dropWhile.simps)
    qed
    then have "\<exists>r. s = TrimSuffix c ''**'' @ r \<and> r \<noteq> []" using s(1) unfolding pre_def by (intro exI conjI)
    then show ?thesis using covers_wide [OF 3(2), of s] by (cases "c = s") (simp_all add: globCovers_def)
  next
    case 4
    then have cs: "CHR ''*'' \<in> set c" using assms(2) covers_literal [of c p] by auto
    have "list_all2 starSegmentMatch (Split_on CHR ''/'' c) (Split_on CHR ''/'' p)"
      using assms(2) covers_segments [OF 4(3) cs] 4(1) by auto
    moreover have "p = s \<or> list_all2 starSegmentMatch (Split_on CHR ''/'' p) (Split_on CHR ''/'' s)"
      using ps covers_segments [OF 4(4,2)] by simp
    ultimately show ?thesis using segments_trans [OF 4(5)] covers_segments [OF 4(3) cs] by blast
  qed (use ps in simp)
  then show ?thesis using tr by (simp add: globMatch_globCovers)
qed

interpretation paths: pattern_coverage globCovers globMatch path_pair
  by unfold_locales (rule path_covers_sound)

section \<open>One document, two readers\<close>

text \<open>The control plane reads a layer as a map, the gateway as a struct. They see the same values when no key is repeated and
  the keys are known ones, which differ in more than case.\<close>

definition distinct_keys :: "RawMessage \<Rightarrow> bool" where
  "distinct_keys raw = (case raw of Raw (JObj kvs) \<Rightarrow> distinct (map fst kvs) | _ \<Rightarrow> True)"

definition layer :: "RawMessage \<Rightarrow> key_map" where
  "layer raw = (case egress_object [] raw of Inl _ \<Rightarrow> [] | Inr m \<Rightarrow> m)"

definition fold_free :: "string list \<Rightarrow> bool" where
  "fold_free K = list_all (\<lambda>a. list_all (\<lambda>b. EqualFold a b \<longrightarrow> a = b) K) K"

definition plain_layer :: "string list \<Rightarrow> RawMessage \<Rightarrow> bool" where
  "plain_layer K raw \<longleftrightarrow> fold_free K \<and> distinct_keys raw \<and> fst ` set (layer raw) \<subseteq> set K"

lemma egress_object_layer: "egress_object f raw = Inr m \<Longrightarrow> m = layer raw"
  by (auto simp: Let_def egress_object_def layer_def split: RawMessage.splits option.splits)

lemma lower_fold_free: "map ToLower K = K \<Longrightarrow> fold_free K"
  by (simp add: fold_free_def EqualFold_def list_all_iff) (metis map_eq_conv map_ident)

lemma plain_field:
  assumes "plain_layer K raw" and "name \<in> set K" and "raw_struct raw = Some kvs"
  shows "field_values name kvs = (case gm_get (layer raw) name of None \<Rightarrow> [] | Some v \<Rightarrow> [v])"
proof (cases "\<exists>kvs'. raw = Raw (JObj kvs')")
  case True
  with assms(3) have raw: "raw = Raw (JObj kvs)" by (auto simp: raw_struct_def un_struct_def)
  obtain m where m: "un_map (JObj kvs) = Some m" by (simp add: un_map_def)
  have lm: "layer raw = m" using raw m by (simp add: layer_def egress_object_def)
  have d: "distinct (map fst kvs)" using assms(1) raw by (simp add: plain_layer_def distinct_keys_def)
  have "k = name" if "k \<in> set (map fst kvs)" "EqualFold k name" for k
  proof -
    have "k \<in> set K" using that(1) un_map_keys [OF m] assms(1) lm by (auto simp: plain_layer_def)
    then show ?thesis using that(2) assms(1,2) by (auto simp: plain_layer_def fold_free_def list_all_iff)
  qed
  from field_values_get [OF d this] show ?thesis using un_map_get [OF d m, of name] lm by simp
next
  case False
  then have "kvs = [] \<and> layer raw = []"
    using assms(3) by (cases raw) (auto simp: raw_struct_def un_struct_def layer_def egress_object_def un_map_def split: json.splits)
  then show ?thesis by (simp add: field_values_def gm_get_def)
qed

lemma plain_slice:
  assumes "plain_layer K raw" and "name \<in> set K" and "raw_struct raw = Some kvs" and "st_slice name kvs = Some sl"
  shows "nil_slice sl = listIn (layer raw) name" and "sl \<noteq> None \<Longrightarrow> has_key (layer raw) name"
  using assms(4) unfolding st_slice_def plain_field [OF assms(1-3)]
  by (auto simp: listIn_def has_key_def nil_slice_def un_slice_def un_strings_def split: option.splits json.splits if_splits)

lemma plain_int:
  assumes "plain_layer K raw" and "name \<in> set K" and "raw_struct raw = Some kvs" and "st_int name kvs = Some n"
  shows "n = intIn (layer raw) name"
  using assms(4) unfolding st_int_def plain_field [OF assms(1-3)]
  by (auto simp: intIn_def un_int_def split: option.splits json.splits if_splits)

lemma intIn_unset: "\<not> has_key obj name \<Longrightarrow> intIn obj name = 0"
  by (simp add: has_key_def intIn_def)

lemma first_guard: "(if a \<noteq> [] then a else b) = [] \<Longrightarrow> a = []"
  by (simp split: if_splits)

lemma ValidateGrant_layers:
  assumes "ValidateGrant t con ce = []"
  shows "ValidateCeiling t ce = []"
    and "t = ''web'' \<Longrightarrow> validateWebGrant (layer con) (layer ce) = []"
    and "t = ''rest'' \<Longrightarrow> validateRestGrant (layer con) (layer ce) = []"
    and "t = ''mcp'' \<Longrightarrow> validateMCPGrant (layer con) (layer ce) = []"
    and "t = ''git'' \<Longrightarrow> validateGitGrant (layer con) (layer ce) = []"
    and "t = ''ssh'' \<Longrightarrow> validateSSHGrant (layer con) (layer ce) = []"
proof -
  show vc: "ValidateCeiling t ce = []" using assms by (auto simp: ValidateGrant_def Let_def split: if_splits)
  have some: "\<exists>m. egress_object ''policy_ceiling'' ce = Inr m"
  proof (cases "egress_object ''policy_ceiling'' ce")
    case (Inl v)
    with vc show ?thesis by (auto simp: ValidateCeiling_def egress_object_def Let_def split: RawMessage.splits option.splits)
  qed blast
  have c: "\<exists>m. egress_object ''constraints'' con = Inr m"
  proof (cases "egress_object ''constraints'' con")
    case (Inl v)
    with assms vc show ?thesis
      by (auto simp: ValidateGrant_def egress_object_def Let_def split: RawMessage.splits option.splits)
  qed blast
  from some c obtain m n where "egress_object ''policy_ceiling'' ce = Inr m" "egress_object ''constraints'' con = Inr n" by blast
  note o = this this [THEN egress_object_layer]
  note v = assms [unfolded ValidateGrant_def Let_def vc, simplified o, simplified]
  show "t = ''web'' \<Longrightarrow> validateWebGrant (layer con) (layer ce) = []" using v o by simp
  show "t = ''rest'' \<Longrightarrow> validateRestGrant (layer con) (layer ce) = []" using v o by simp
  show "t = ''mcp'' \<Longrightarrow> validateMCPGrant (layer con) (layer ce) = []" using v o by simp
  show "t = ''git'' \<Longrightarrow> validateGitGrant (layer con) (layer ce) = []" using v o by simp
  show "t = ''ssh'' \<Longrightarrow> validateSSHGrant (layer con) (layer ce) = []" using v o by simp
qed

lemma ceiling_layer:
  assumes "ValidateCeiling t ce = []"
  shows "t = ''web'' \<Longrightarrow> validateWebShape ''policy_ceiling'' (layer ce) = []"
    and "t = ''rest'' \<Longrightarrow> validateRestCeiling (layer ce) = []"
    and "t = ''mcp'' \<Longrightarrow> validateMCPCeiling (layer ce) = []"
    and "t = ''git'' \<Longrightarrow> validateGitCeiling (layer ce) = []"
    and "t = ''ssh'' \<Longrightarrow> validateSSHCeiling (layer ce) = []"
proof -
  obtain m where m: "egress_object ''policy_ceiling'' ce = Inr m"
    using assms by (cases "egress_object ''policy_ceiling'' ce")
      (auto simp: ValidateCeiling_def egress_object_def Let_def split: RawMessage.splits option.splits)
  note c = assms [unfolded ValidateCeiling_def m egress_object_layer [OF m], simplified]
  show "t = ''web'' \<Longrightarrow> validateWebShape ''policy_ceiling'' (layer ce) = []" using c by simp
  show "t = ''rest'' \<Longrightarrow> validateRestCeiling (layer ce) = []" using c by simp
  show "t = ''mcp'' \<Longrightarrow> validateMCPCeiling (layer ce) = []" using c by simp
  show "t = ''git'' \<Longrightarrow> validateGitCeiling (layer ce) = []" using c by simp
  show "t = ''ssh'' \<Longrightarrow> validateSSHCeiling (layer ce) = []" using c by simp
qed

section \<open>Folding numbers\<close>

lemma minSet2: "minSet [a, b] = (if 0 < a then if 0 < b \<and> b < a then b else a else if 0 < b then b else 0)"
  by (simp add: minSet_def)

lemma minPositive_le:
  assumes "0 < b \<Longrightarrow> b \<le> a"
  shows "minPositive a b d \<le> minPositive a 0 d" and "0 < a \<Longrightarrow> 0 < minPositive a b d"
  using assms by (auto simp: minPositive_def minSet2)

lemma minPositive_swap: "ssh_minPositive a b d = minPositive b a d"
  by (simp add: ssh_minPositive_def minPositive_def minSet2)

lemma tighten2: "tighten d [a, b] \<le> tighten d [a, 0]"
  by (simp add: tighten_def)

lemma tightest_rate2: "tightest_rate [a, b] = minSet [a, b]"
  by (simp add: tightest_rate_def minSet2)

lemma private_egress_narrows: "private_egress a g c \<Longrightarrow> private_egress a g []"
  by (simp add: private_egress_def TrimSpace_def Let_def)

section \<open>MCP\<close>

lemma MCP_fold_free: "fold_free MCPCeilingKeys"
  by (rule lower_fold_free) code_simp

lemma trimList_trimmed: "\<forall>p \<in> set ps. trimmed p \<Longrightarrow> trimList ps = filter (\<lambda>v. v \<noteq> []) ps"
  by (simp add: trimList_def trimmed_def map_idI)

lemma merge_rule_sticky: "gm_get m t = Some r \<Longrightarrow> PT_RequiresConfirmation r \<Longrightarrow>
    \<exists>r'. gm_get (fold merge_rule es m) t = Some r' \<and> PT_RequiresConfirmation r'"
proof (induction es arbitrary: m r)
  case (Cons e es)
  obtain n u where e: "e = (n, u)" by force
  have "\<exists>r'. gm_get (merge_rule e m) t = Some r' \<and> PT_RequiresConfirmation r'"
    using Cons.prems e by (auto simp: merge_rule_def Let_def)
  then show ?case using Cons.IH by auto
qed simp

lemma mcp_layer_plain:
  assumes "ValidateGrant ''mcp'' con ce = []" and "distinct_keys con" and "distinct_keys ce"
  shows "plain_layer MCPCeilingKeys con" and "plain_layer MCPCeilingKeys ce"
proof -
  have "fst ` set (layer con) \<subseteq> set MCPCeilingKeys"
    using ValidateGrant_layers(4) [OF assms(1)] by (auto simp: validateMCPGrant_def Let_def split: if_splits)
  then show "plain_layer MCPCeilingKeys con" using assms(2) MCP_fold_free by (simp add: plain_layer_def)
  have "validateMCPCeiling (layer ce) = []" using ceiling_layer(3) [OF ValidateGrant_layers(1) [OF assms(1)]] by simp
  then have "fst ` set (layer ce) \<subseteq> set MCPCeilingKeys"
    by (auto simp: validateMCPCeiling_def Let_def split: if_splits)
  then show "plain_layer MCPCeilingKeys ce" using assms(3) MCP_fold_free by (simp add: plain_layer_def)
qed

lemma mcp_parse:
  assumes "plain_layer MCPCeilingKeys raw" and "mcp_parseLayer raw = Some sh"
  shows "nil_slice (MS_ToolsAllow sh) = listIn (layer raw) ''tools_allow''"
    and "MS_ToolsAllow sh \<noteq> None \<Longrightarrow> has_key (layer raw) ''tools_allow''"
    and "MS_RatePerMin sh = intIn (layer raw) ''rate_per_min''"
    and "MS_MaxArgsBytes sh = intIn (layer raw) ''max_args_bytes''"
proof -
  obtain kvs ta rt mx where k: "raw_struct raw = Some kvs" "st_slice ''tools_allow'' kvs = Some ta"
      "st_int ''rate_per_min'' kvs = Some rt" "st_int ''max_args_bytes'' kvs = Some mx"
      and sh: "MS_ToolsAllow sh = ta" "MS_RatePerMin sh = rt" "MS_MaxArgsBytes sh = mx"
    using assms(2) by (auto simp: mcp_parseLayer_def bind_eq_Some_conv)
  have K: "''tools_allow'' \<in> set MCPCeilingKeys" "''rate_per_min'' \<in> set MCPCeilingKeys" "''max_args_bytes'' \<in> set MCPCeilingKeys"
    by (simp_all add: MCPCeilingKeys_def)
  show "nil_slice (MS_ToolsAllow sh) = listIn (layer raw) ''tools_allow''"
    and "MS_ToolsAllow sh \<noteq> None \<Longrightarrow> has_key (layer raw) ''tools_allow''"
    using plain_slice [OF assms(1) K(1) k(1,2)] sh by simp_all
  show "MS_RatePerMin sh = intIn (layer raw) ''rate_per_min''"
    and "MS_MaxArgsBytes sh = intIn (layer raw) ''max_args_bytes''"
    using plain_int [OF assms(1) K(2) k(1,3)] plain_int [OF assms(1) K(3) k(1,4)] sh by simp_all
qed

lemma mcp_grant_bounds:
  assumes "validateMCPGrant c ce = []"
  shows "has_key c ''tools_allow'' \<Longrightarrow> \<forall>x \<in> set (listIn c ''tools_allow''). \<exists>y \<in> set (listIn ce ''tools_allow''). globCovers y x"
    and "0 < intIn c ''rate_per_min'' \<Longrightarrow> intIn c ''rate_per_min'' \<le> intIn ce ''rate_per_min''"
    and "0 < intIn c ''max_args_bytes'' \<Longrightarrow> intIn c ''max_args_bytes'' \<le> intIn ce ''max_args_bytes''"
proof -
  have v: "(has_key c ''tools_allow'' \<longrightarrow> (\<forall>x \<in> set (listIn c ''tools_allow''). \<exists>y \<in> set (listIn ce ''tools_allow''). globCovers y x)) \<and>
     (has_key c ''rate_per_min'' \<longrightarrow> intIn c ''rate_per_min'' \<le> intIn ce ''rate_per_min'') \<and>
     (has_key c ''max_args_bytes'' \<longrightarrow> intIn c ''max_args_bytes'' \<le> intIn ce ''max_args_bytes'')"
    using assms by (simp add: validateMCPGrant_def Let_def split: if_splits option.splits)
  then show "has_key c ''tools_allow'' \<Longrightarrow> \<forall>x \<in> set (listIn c ''tools_allow''). \<exists>y \<in> set (listIn ce ''tools_allow''). globCovers y x"
    by blast
  show "0 < intIn c ''rate_per_min'' \<Longrightarrow> intIn c ''rate_per_min'' \<le> intIn ce ''rate_per_min''"
    using v intIn_unset [of c "''rate_per_min''"] by (metis less_irrefl)
  show "0 < intIn c ''max_args_bytes'' \<Longrightarrow> intIn c ''max_args_bytes'' \<le> intIn ce ''max_args_bytes''"
    using v intIn_unset [of c "''max_args_bytes''"] by (metis less_irrefl)
qed

lemma covers_nonempty: "globCovers [] p \<Longrightarrow> p = []"
  using covers_literal [of "[]" p] by simp

lemma trimList_narrows:
  assumes "\<forall>p \<in> set ps. \<exists>c \<in> set cs. globCovers c p" and "\<forall>p \<in> set (ps @ cs). trimmed p"
  shows "\<forall>p \<in> set (trimList ps). \<exists>c \<in> set (trimList cs). globCovers c p"
  using assms covers_nonempty by (simp add: trimList_trimmed) blast

lemma mcp_allow_narrows:
  assumes "validateMCPGrant (layer con) (layer ce) = []" and "plain_layer MCPCeilingKeys con" and "plain_layer MCPCeilingKeys ce"
    and "mcp_parseLayer ce = Some ces" and "mcp_parseLayer con = Some cons" and "MS_ToolsAllow cons = Some xs"
    and "\<forall>p \<in> set (listIn (layer con) ''tools_allow'' @ listIn (layer ce) ''tools_allow''). trimmed p"
    and "anyMatch (trimList xs) t"
  shows "anyMatch (trimList (nil_slice (MS_ToolsAllow ces))) t"
proof -
  have xs: "xs = listIn (layer con) ''tools_allow''" using mcp_parse(1) [OF assms(2,5)] assms(6) by (simp add: nil_slice_def)
  have "has_key (layer con) ''tools_allow''" using mcp_parse(2) [OF assms(2,5)] assms(6) by simp
  from mcp_grant_bounds(1) [OF assms(1) this]
  have "\<forall>p \<in> set (trimList xs). \<exists>c \<in> set (trimList (listIn (layer ce) ''tools_allow'')). globCovers c p"
    unfolding xs using assms(7) by (intro trimList_narrows) auto
  then show ?thesis
    using tools.allow_narrows [of "trimList xs" _ t] assms(8) mcp_parse(1) [OF assms(3,4)] by (simp add: anyMatch_def)
qed

lemma mcp_parse_empty: "mcp_parseLayer RawEmpty = Some \<lparr>MS_ToolsAllow = None, MS_ToolsDeny = [], MS_PerTool = [],
    MS_RatePerMin = 0, MS_MaxArgsBytes = 0, MS_EgressClass = []\<rparr>"
  by (simp add: mcp_parseLayer_def raw_struct_def st_slice_def st_int_def st_rules_def st_string_def field_values_def nil_slice_def)

text \<open>The policy with the grant's constraints, read off the one without.\<close>

lemma mcp_effective:
  assumes "mcp_EffectivePolicy cfg ce con cls = Inr p"
  obtains ces cons p0 where "mcp_parseLayer ce = Some ces" "mcp_parseLayer con = Some cons" "mcp_EffectivePolicy cfg ce RawEmpty cls = Inr p0"
    "MP_ToolsAllow p0 = trimList (nil_slice (MS_ToolsAllow ces))"
    "MP_ToolsAllow p = (case MS_ToolsAllow cons of Some xs \<Rightarrow> trimList xs | None \<Rightarrow> MP_ToolsAllow p0)"
    "MP_ToolsDeny p = MP_ToolsDeny p0 @ trimList (MS_ToolsDeny cons)"
    "MP_PerTool p = fold merge_rule (MS_PerTool cons) (MP_PerTool p0)"
    "MP_RatePerMin p0 = minPositive (MS_RatePerMin ces) 0 0" "MP_RatePerMin p = minPositive (MS_RatePerMin ces) (MS_RatePerMin cons) 0"
    "MP_MaxArgsBytes p0 = minPositive (MS_MaxArgsBytes ces) 0 DefaultMaxArgsBytes"
    "MP_MaxArgsBytes p = minPositive (MS_MaxArgsBytes ces) (MS_MaxArgsBytes cons) DefaultMaxArgsBytes"
    "MP_AllowPrivate p \<longrightarrow> MP_AllowPrivate p0" "MP_BaseURL p = MP_BaseURL p0"
proof -
  obtain cf ces cons where parse: "mcp_parseConfig cfg = Some cf" "mcp_parseLayer ce = Some ces" "mcp_parseLayer con = Some cons"
    using assms by (auto simp: mcp_EffectivePolicy_def split: option.splits)
  have base: "service_base (MC_BaseURL cf) (MC_URL cf) \<noteq> []"
    using assms parse by (auto simp: mcp_EffectivePolicy_def Let_def split: if_splits)
  define q where "q = \<lparr>MP_BaseURL = MP_BaseURL p, MP_AuthKind = MP_AuthKind p, MP_ToolsAllow = trimList (nil_slice (MS_ToolsAllow ces)),
    MP_ToolsDeny = trimList (MS_ToolsDeny ces), MP_PerTool = fold (\<lambda>(name, rule) m. gm_put name rule m) (MS_PerTool ces) [],
    MP_RatePerMin = minPositive (MS_RatePerMin ces) 0 0, MP_MaxArgsBytes = minPositive (MS_MaxArgsBytes ces) 0 DefaultMaxArgsBytes,
    MP_AllowPrivate = private_egress (MS_EgressClass ces) cls []\<rparr>"
  have p: "p = q\<lparr>MP_ToolsAllow := (case MS_ToolsAllow cons of Some xs \<Rightarrow> trimList xs | None \<Rightarrow> MP_ToolsAllow q),
      MP_ToolsDeny := MP_ToolsDeny q @ trimList (MS_ToolsDeny cons), MP_PerTool := fold merge_rule (MS_PerTool cons) (MP_PerTool q),
      MP_RatePerMin := minPositive (MS_RatePerMin ces) (MS_RatePerMin cons) 0,
      MP_MaxArgsBytes := minPositive (MS_MaxArgsBytes ces) (MS_MaxArgsBytes cons) DefaultMaxArgsBytes,
      MP_AllowPrivate := private_egress (MS_EgressClass ces) cls (MS_EgressClass cons)\<rparr>"
    using assms parse base by (auto simp: mcp_EffectivePolicy_def Let_def q_def split: option.split)
  have q: "mcp_EffectivePolicy cfg ce RawEmpty cls = Inr q"
    using assms parse base by (auto simp: mcp_EffectivePolicy_def Let_def q_def mcp_parse_empty trimList_def [of "[]"])
  have "MP_AllowPrivate p \<longrightarrow> MP_AllowPrivate q" unfolding p by (simp add: q_def private_egress_narrows)
  then show ?thesis by (intro that [OF parse(2,3) q]) (simp_all add: p, simp_all add: q_def)
qed

section \<open>Properties of the MCP plane\<close>

text \<open>C4. The effective policy of a validated MCP grant refines the resource's own policy: whatever tool it allows the policy without
  constraints allows, a confirmation the ceiling asks for is still asked for, the argument cap and the rate are no looser,
  and private networks are reached only where the resource reaches them. This holds for layers that do not repeat a JSON
  key and whose \<^verbatim>\<open>tools_allow\<close> patterns have no surrounding white space: the control plane compares the patterns as they
  are and the gateway trims them, and \<open>mcp_untrimmed_pattern_escalates\<close> below shows a grant that widens the resource
  through that difference.\<close>

theorem mcp_grant_refines_ceiling:
  assumes "ValidateGrant ''mcp'' con ce = []" and "distinct_keys con" and "distinct_keys ce"
    and "\<forall>p \<in> set (listIn (layer con) ''tools_allow'' @ listIn (layer ce) ''tools_allow''). trimmed p"
    and "mcp_EffectivePolicy cfg ce con cls = Inr p"
  shows "\<exists>p0. mcp_EffectivePolicy cfg ce RawEmpty cls = Inr p0 \<and>
    (\<forall>t. toolAllowed p t \<longrightarrow> toolAllowed p0 t) \<and>
    (\<forall>t. requiresConfirmation p0 t \<longrightarrow> requiresConfirmation p t) \<and>
    MP_MaxArgsBytes p \<le> MP_MaxArgsBytes p0 \<and>
    (0 < MP_RatePerMin p0 \<longrightarrow> 0 < MP_RatePerMin p \<and> MP_RatePerMin p \<le> MP_RatePerMin p0) \<and>
    (MP_AllowPrivate p \<longrightarrow> MP_AllowPrivate p0) \<and> MP_BaseURL p = MP_BaseURL p0"
proof -
  note pl = mcp_layer_plain [OF assms(1-3)]
  note vg = ValidateGrant_layers(4) [OF assms(1) refl]
  from assms(5) obtain ces cons p0 where parse: "mcp_parseLayer ce = Some ces" "mcp_parseLayer con = Some cons"
      and p0: "mcp_EffectivePolicy cfg ce RawEmpty cls = Inr p0" "MP_ToolsAllow p0 = trimList (nil_slice (MS_ToolsAllow ces))"
      and p: "MP_ToolsAllow p = (case MS_ToolsAllow cons of Some xs \<Rightarrow> trimList xs | None \<Rightarrow> MP_ToolsAllow p0)"
        "MP_ToolsDeny p = MP_ToolsDeny p0 @ trimList (MS_ToolsDeny cons)"
        "MP_PerTool p = fold merge_rule (MS_PerTool cons) (MP_PerTool p0)"
      and rate: "MP_RatePerMin p0 = minPositive (MS_RatePerMin ces) 0 0" "MP_RatePerMin p = minPositive (MS_RatePerMin ces) (MS_RatePerMin cons) 0"
      and args: "MP_MaxArgsBytes p0 = minPositive (MS_MaxArgsBytes ces) 0 DefaultMaxArgsBytes"
        "MP_MaxArgsBytes p = minPositive (MS_MaxArgsBytes ces) (MS_MaxArgsBytes cons) DefaultMaxArgsBytes"
      and rest: "MP_AllowPrivate p \<longrightarrow> MP_AllowPrivate p0" "MP_BaseURL p = MP_BaseURL p0"
    by (rule mcp_effective)
  have tools: "toolAllowed p0 t" if "toolAllowed p t" for t
  proof -
    have "anyMatch (MP_ToolsAllow p) t" "\<not> anyMatch (MP_ToolsDeny p0) t"
      using that p(2) by (auto simp: toolAllowed_def anyMatch_def split: if_splits)
    then show ?thesis using mcp_allow_narrows [OF vg pl parse _ assms(4), of _ t] p(1) p0(2)
      by (cases "MS_ToolsAllow cons") (auto simp: toolAllowed_def)
  qed
  have confirm: "requiresConfirmation p t" if "requiresConfirmation p0 t" for t
    using that merge_rule_sticky [of "MP_PerTool p0" t _ "MS_PerTool cons"]
    by (auto simp: requiresConfirmation_def p(3) split: option.splits)
  have "MS_RatePerMin cons \<le> MS_RatePerMin ces" if "0 < MS_RatePerMin cons"
    using that mcp_grant_bounds(2) [OF vg] mcp_parse(3) [OF pl(1) parse(2)] mcp_parse(3) [OF pl(2) parse(1)] by simp
  then have rates: "0 < MP_RatePerMin p \<and> MP_RatePerMin p \<le> MP_RatePerMin p0" if "0 < MP_RatePerMin p0"
    using that by (auto simp: rate minPositive_def minSet2 split: if_splits)
  have "MS_MaxArgsBytes cons \<le> MS_MaxArgsBytes ces" if "0 < MS_MaxArgsBytes cons"
    using that mcp_grant_bounds(3) [OF vg] mcp_parse(4) [OF pl(1) parse(2)] mcp_parse(4) [OF pl(2) parse(1)] by simp
  then have "MP_MaxArgsBytes p \<le> MP_MaxArgsBytes p0" unfolding args by (rule minPositive_le(1))
  then show ?thesis using p0(1) tools confirm rates rest by auto
qed

definition mcp_ceiling_ex :: RawMessage where
  "mcp_ceiling_ex = Raw (JObj [(''tools_allow'', JArr [JStr ''issue_*'', JStr ''search'']), (''tools_deny'', JArr [JStr ''*_delete'']),
     (''per_tool'', JObj [(''issue_close'', JObj [(''requires_confirmation'', JBool True)])]), (''rate_per_min'', JNum (Some 30))])"

definition mcp_constraints_ex :: RawMessage where
  "mcp_constraints_ex = Raw (JObj [(''tools_allow'', JArr [JStr ''issue_c*'']), (''rate_per_min'', JNum (Some 10)),
     (''per_tool'', JObj [(''issue_create'', JObj [(''requires_confirmation'', JBool True)])])])"

definition mcp_config_ex :: RawMessage where
  "mcp_config_ex = Raw (JObj [(''url'', JStr ''https://mcp.example.com/'')])"

theorem mcp_grant_refines_ceiling_witness:
  "(case mcp_EffectivePolicy mcp_config_ex mcp_ceiling_ex RawEmpty ''public'' of Inl _ \<Rightarrow> False
    | Inr p0 \<Rightarrow> toolAllowed p0 ''issue_close'') \<and>
   (case mcp_EffectivePolicy mcp_config_ex mcp_ceiling_ex mcp_constraints_ex ''public'' of Inl _ \<Rightarrow> False
    | Inr p \<Rightarrow> toolAllowed p ''issue_close'' \<and> \<not> toolAllowed p ''search'' \<and> requiresConfirmation p ''issue_close'' \<and> MP_RatePerMin p = 10)"
proof -
  obtain p where p: "mcp_EffectivePolicy mcp_config_ex mcp_ceiling_ex mcp_constraints_ex ''public'' = Inr p"
      and a: "toolAllowed p ''issue_close''" "\<not> toolAllowed p ''search''" "requiresConfirmation p ''issue_close''" "MP_RatePerMin p = 10"
  proof -
    have "case mcp_EffectivePolicy mcp_config_ex mcp_ceiling_ex mcp_constraints_ex ''public'' of Inl _ \<Rightarrow> False
      | Inr p \<Rightarrow> toolAllowed p ''issue_close'' \<and> \<not> toolAllowed p ''search'' \<and> requiresConfirmation p ''issue_close'' \<and> MP_RatePerMin p = 10"
      by code_simp
    then show ?thesis by (auto split: sum.splits intro: that)
  qed
  have "ValidateGrant ''mcp'' mcp_constraints_ex mcp_ceiling_ex = []" by code_simp
  moreover have "distinct_keys mcp_constraints_ex" "distinct_keys mcp_ceiling_ex" by code_simp+
  moreover have "\<forall>p \<in> set (listIn (layer mcp_constraints_ex) ''tools_allow'' @ listIn (layer mcp_ceiling_ex) ''tools_allow''). trimmed p"
    by code_simp
  ultimately obtain p0 where "mcp_EffectivePolicy mcp_config_ex mcp_ceiling_ex RawEmpty ''public'' = Inr p0" "toolAllowed p0 ''issue_close''"
    using mcp_grant_refines_ceiling [OF _ _ _ _ p] a(1) by blast
  then show ?thesis using p a by simp
qed

text \<open>Without the condition on white space the refinement fails. The ceiling's pattern \<^verbatim>\<open>"x *"\<close> covers the grant's \<^verbatim>\<open>"x "\<close>, so
  the control plane accepts the grant; the gateway trims the grant's pattern to \<^verbatim>\<open>"x"\<close> and allows the tool of that name,
  which the ceiling alone denies.\<close>

lemma mcp_untrimmed_pattern_escalates:
  "ValidateGrant ''mcp'' (Raw (JObj [(''tools_allow'', JArr [JStr ''x ''])])) (Raw (JObj [(''tools_allow'', JArr [JStr ''x *''])])) = []"
  "case mcp_EffectivePolicy mcp_config_ex (Raw (JObj [(''tools_allow'', JArr [JStr ''x *''])])) (Raw (JObj [(''tools_allow'', JArr [JStr ''x ''])])) ''public'' of
     Inl _ \<Rightarrow> False | Inr p \<Rightarrow> toolAllowed p ''x''"
  "case mcp_EffectivePolicy mcp_config_ex (Raw (JObj [(''tools_allow'', JArr [JStr ''x *''])])) RawEmpty ''public'' of
     Inl _ \<Rightarrow> False | Inr p0 \<Rightarrow> \<not> toolAllowed p0 ''x''"
  by code_simp+

section \<open>SSH\<close>

lemma SSH_fold_free: "fold_free SSHCeilingKeys"
  by (rule lower_fold_free) code_simp

lemma ssh_layer_plain:
  assumes "ValidateGrant ''ssh'' con ce = []" and "distinct_keys con" and "distinct_keys ce"
  shows "plain_layer SSHCeilingKeys con" and "plain_layer SSHCeilingKeys ce"
proof -
  have "fst ` set (layer con) \<subseteq> set SSHCeilingKeys"
    using ValidateGrant_layers(6) [OF assms(1)] by (auto simp: validateSSHGrant_def Let_def split: if_splits)
  then show "plain_layer SSHCeilingKeys con" using assms(2) SSH_fold_free by (simp add: plain_layer_def)
  have "validateSSHCeiling (layer ce) = []" using ceiling_layer(5) [OF ValidateGrant_layers(1) [OF assms(1)]] by simp
  then have "checkUnknownKeys ''policy_ceiling'' (layer ce) SSHCeilingKeys = []" unfolding validateSSHCeiling_def Let_def by (rule first_guard)
  then have "fst ` set (layer ce) \<subseteq> set SSHCeilingKeys" by simp
  then show "plain_layer SSHCeilingKeys ce" using assms(3) SSH_fold_free by (simp add: plain_layer_def)
qed

lemma ssh_parse:
  assumes "plain_layer SSHCeilingKeys raw" and "ssh_parseLayer raw = Some sh"
  shows "nil_slice (SS_HostsAllow sh) = listIn (layer raw) ''hosts_allow''" "SS_HostsAllow sh \<noteq> None \<Longrightarrow> has_key (layer raw) ''hosts_allow''"
    "nil_slice (SS_CommandAllow sh) = listIn (layer raw) ''command_allow''" "SS_CommandAllow sh \<noteq> None \<Longrightarrow> has_key (layer raw) ''command_allow''"
    "SS_CertTTLMinutes sh = intIn (layer raw) ''cert_ttl_minutes''"
    "SS_MaxConcurrentSessions sh = intIn (layer raw) ''max_concurrent_sessions''"
    "SS_ExecTimeoutSeconds sh = intIn (layer raw) ''exec_timeout_seconds''"
proof -
  obtain kvs ha ca tt ms et where k: "raw_struct raw = Some kvs" "st_slice ''hosts_allow'' kvs = Some ha" "st_slice ''command_allow'' kvs = Some ca"
      "st_int ''cert_ttl_minutes'' kvs = Some tt" "st_int ''max_concurrent_sessions'' kvs = Some ms" "st_int ''exec_timeout_seconds'' kvs = Some et"
      and sh: "SS_HostsAllow sh = ha" "SS_CommandAllow sh = ca" "SS_CertTTLMinutes sh = tt" "SS_MaxConcurrentSessions sh = ms" "SS_ExecTimeoutSeconds sh = et"
    using assms(2) by (auto simp: ssh_parseLayer_def bind_eq_Some_conv)
  have K: "''hosts_allow'' \<in> set SSHCeilingKeys" "''command_allow'' \<in> set SSHCeilingKeys" "''cert_ttl_minutes'' \<in> set SSHCeilingKeys"
      "''max_concurrent_sessions'' \<in> set SSHCeilingKeys" "''exec_timeout_seconds'' \<in> set SSHCeilingKeys"
    by (simp_all add: SSHCeilingKeys_def)
  note sl = plain_slice [OF assms(1) K(1) k(1,2)] plain_slice [OF assms(1) K(2) k(1,3)]
  note num = plain_int [OF assms(1) K(3) k(1,4)] plain_int [OF assms(1) K(4) k(1,5)] plain_int [OF assms(1) K(5) k(1,6)]
  show "nil_slice (SS_HostsAllow sh) = listIn (layer raw) ''hosts_allow''" "SS_HostsAllow sh \<noteq> None \<Longrightarrow> has_key (layer raw) ''hosts_allow''"
    "nil_slice (SS_CommandAllow sh) = listIn (layer raw) ''command_allow''" "SS_CommandAllow sh \<noteq> None \<Longrightarrow> has_key (layer raw) ''command_allow''"
    "SS_CertTTLMinutes sh = intIn (layer raw) ''cert_ttl_minutes''"
    "SS_MaxConcurrentSessions sh = intIn (layer raw) ''max_concurrent_sessions''"
    "SS_ExecTimeoutSeconds sh = intIn (layer raw) ''exec_timeout_seconds''"
    using sl num sh by simp_all
qed

text \<open>A key the grant may set is compared with the ceiling's; one it does not set reads as empty or zero.\<close>

lemma ssh_grant_bounds:
  assumes "validateSSHGrant c ce = []"
  shows "has_key c ''hosts_allow'' \<Longrightarrow> \<forall>x \<in> set (listIn c ''hosts_allow''). \<exists>y \<in> set (listIn ce ''hosts_allow''). globCovers y x"
    and "has_key c ''command_allow'' \<Longrightarrow> \<forall>x \<in> set (listIn c ''command_allow''). \<exists>y \<in> set (listIn ce ''command_allow''). globCovers y x"
    and "0 < intIn c ''cert_ttl_minutes'' \<Longrightarrow> intIn c ''cert_ttl_minutes'' \<le> intIn ce ''cert_ttl_minutes''"
    and "0 < intIn c ''max_concurrent_sessions'' \<Longrightarrow> intIn c ''max_concurrent_sessions'' \<le> intIn ce ''max_concurrent_sessions''"
    and "0 < intIn c ''exec_timeout_seconds'' \<Longrightarrow> intIn c ''exec_timeout_seconds'' \<le> intIn ce ''exec_timeout_seconds''"
proof -
  have v: "(has_key c ''hosts_allow'' \<longrightarrow> (\<forall>x \<in> set (listIn c ''hosts_allow''). \<exists>y \<in> set (listIn ce ''hosts_allow''). globCovers y x)) \<and>
     (has_key c ''command_allow'' \<longrightarrow> (\<forall>x \<in> set (listIn c ''command_allow''). \<exists>y \<in> set (listIn ce ''command_allow''). globCovers y x)) \<and>
     (has_key c ''cert_ttl_minutes'' \<longrightarrow> intIn c ''cert_ttl_minutes'' \<le> intIn ce ''cert_ttl_minutes'') \<and>
     (has_key c ''max_concurrent_sessions'' \<longrightarrow> intIn c ''max_concurrent_sessions'' \<le> intIn ce ''max_concurrent_sessions'') \<and>
     (has_key c ''exec_timeout_seconds'' \<longrightarrow> intIn c ''exec_timeout_seconds'' \<le> intIn ce ''exec_timeout_seconds'')"
    using assms by (simp add: validateSSHGrant_def Let_def split: if_splits)
  then show "has_key c ''hosts_allow'' \<Longrightarrow> \<forall>x \<in> set (listIn c ''hosts_allow''). \<exists>y \<in> set (listIn ce ''hosts_allow''). globCovers y x"
    and "has_key c ''command_allow'' \<Longrightarrow> \<forall>x \<in> set (listIn c ''command_allow''). \<exists>y \<in> set (listIn ce ''command_allow''). globCovers y x"
    by blast+
  show "0 < intIn c ''cert_ttl_minutes'' \<Longrightarrow> intIn c ''cert_ttl_minutes'' \<le> intIn ce ''cert_ttl_minutes''"
    and "0 < intIn c ''max_concurrent_sessions'' \<Longrightarrow> intIn c ''max_concurrent_sessions'' \<le> intIn ce ''max_concurrent_sessions''"
    and "0 < intIn c ''exec_timeout_seconds'' \<Longrightarrow> intIn c ''exec_timeout_seconds'' \<le> intIn ce ''exec_timeout_seconds''"
    using v intIn_unset [of c] by (metis less_irrefl)+
qed

lemma ssh_parse_empty: "ssh_parseLayer RawEmpty = Some \<lparr>SS_HostsAllow = None, SS_HostsDeny = None, SS_CommandAllow = None,
    SS_CommandDeny = None, SS_CertTTLMinutes = 0, SS_MaxConcurrentSessions = 0, SS_ExecTimeoutSeconds = 0\<rparr>"
  by (simp add: ssh_parseLayer_def raw_struct_def st_slice_def st_int_def field_values_def)

definition ssh_fold :: "sshPolicyShape \<Rightarrow> sshPolicyShape \<Rightarrow> ssh_Policy" where
  "ssh_fold ce con =
     \<lparr>SP_HostsAllow = firstSet (SS_HostsAllow con) (SS_HostsAllow ce),
      SP_HostsDeny = nil_slice (SS_HostsDeny ce) @ nil_slice (SS_HostsDeny con),
      SP_CommandAllow = firstSet (SS_CommandAllow con) (SS_CommandAllow ce),
      SP_CommandDeny = nil_slice (SS_CommandDeny ce) @ nil_slice (SS_CommandDeny con) @ defaultCommandDeny,
      SP_CertTTLMinutes = clampInt (minSet [SS_CertTTLMinutes ce, SS_CertTTLMinutes con]) DefaultCertTTLMinutes MinCertTTLMinutes MaxCertTTLMinutes,
      SP_MaxConcurrentSessions = ssh_minPositive (SS_MaxConcurrentSessions con) (SS_MaxConcurrentSessions ce) DefaultMaxConcurrentSess,
      SP_ExecTimeoutSeconds = clampInt (minSet [SS_ExecTimeoutSeconds ce, SS_ExecTimeoutSeconds con]) DefaultExecTimeoutSec 1 MaxExecTimeoutSec\<rparr>"

lemma ssh_effective:
  assumes "ssh_EffectivePolicy ce con = Inr p"
  obtains ces cons emp where "ssh_parseLayer ce = Some ces" "ssh_parseLayer con = Some cons" "p = ssh_fold ces cons"
    "ssh_parseLayer RawEmpty = Some emp" "ssh_EffectivePolicy ce RawEmpty = Inr (ssh_fold ces emp)"
proof -
  obtain ces cons where "ssh_parseLayer ce = Some ces" "ssh_parseLayer con = Some cons"
    using assms by (auto simp: ssh_EffectivePolicy_def split: option.splits)
  moreover from this have "p = ssh_fold ces cons"
    using assms by (auto simp: ssh_EffectivePolicy_def ssh_fold_def split: option.splits)
  ultimately show ?thesis
    by (intro that [of ces cons]) (auto simp: ssh_parse_empty ssh_EffectivePolicy_def ssh_fold_def assertAllowSubset_def nil_slice_def)
qed

lemma clampInt_mono: "lo \<le> hi \<Longrightarrow> 0 < b \<longrightarrow> b \<le> a \<Longrightarrow> clampInt (minSet [a, b]) d lo hi \<le> clampInt (minSet [a, 0]) d lo hi"
  by (auto simp: clampInt_def minSet2 Let_def)

lemma clampInt_band: "lo \<le> hi \<Longrightarrow> lo \<le> clampInt v d lo hi \<and> clampInt v d lo hi \<le> hi"
  by (auto simp: clampInt_def Let_def)

subsection \<open>Hosts and commands\<close>

lemma set_TrimSpace: "set (TrimSpace s) \<subseteq> set s"
  unfolding TrimSpace_def by (metis set_dropWhileD set_rev subsetI)

lemma newline_TrimLower: "CHR 0x0A \<notin> set s \<Longrightarrow> CHR 0x0A \<notin> set (ToLower (TrimSpace s))"
  using set_TrimSpace [of s] by (intro lower_char_absent) (auto simp: byte_of_def)

lemma Fields_no_sep: "w \<in> set (FieldsFunc sep s) \<Longrightarrow> x \<in> set w \<Longrightarrow> \<not> sep x"
proof (induction sep s rule: FieldsFunc.induct)
  case (1 sep s)
  show ?case
  proof (cases "dropWhile sep s")
    case Nil
    then have "FieldsFunc sep s = []" by (subst FieldsFunc.simps) (simp only: Nil list.case)
    then show ?thesis using "1.prems"(1) by simp
  next
    case (Cons c cs)
    have "\<not> sep c" using dropWhile_hd [of sep s] Cons by simp
    moreover have "w = c # takeWhile (\<lambda>x. \<not> sep x) cs \<or> w \<in> set (FieldsFunc sep (dropWhile (\<lambda>x. \<not> sep x) cs))"
      using "1.prems"(1) by (subst (asm) FieldsFunc.simps) (simp add: Cons)
    ultimately show ?thesis using "1.IH" [OF Cons] "1.prems"(2) by (auto dest: set_takeWhileD)
  qed
qed

lemma NormalizeCommand_newline: "CHR 0x0A \<notin> set (NormalizeCommand cmd)"
proof
  assume "CHR 0x0A \<in> set (NormalizeCommand cmd)"
  then obtain w where "w \<in> set (Fields (ToLower cmd))" "CHR 0x0A \<in> set w"
    using set_join [of "'' ''" "Fields (ToLower cmd)"] by (auto simp: NormalizeCommand_def)
  then have "\<not> is_space CHR 0x0A" unfolding Fields_def by (rule Fields_no_sep)
  then show False by (simp add: is_space_def byte_of_def)
qed

lemma ssh_allow_narrows:
  assumes "SS \<noteq> None \<longrightarrow> (\<forall>x \<in> set (nil_slice SS). \<exists>y \<in> set (nil_slice SC). globCovers y x)"
    and "\<forall>x \<in> set (nil_slice SS @ nil_slice SC). trimmed x" and "CHR 0x0A \<notin> set n"
    and "list_ex (\<lambda>a. ssh_globMatch a n) (nil_slice (firstSet SS SC))"
  shows "list_ex (\<lambda>a. ssh_globMatch a n) (nil_slice SC)"
proof (cases SS)
  case (Some xs)
  then show ?thesis using hosts.allow_narrows [of xs "nil_slice SC" n] assms by (simp add: firstSet_def nil_slice_def)
qed (use assms(4) in \<open>simp add: firstSet_def\<close>)

text \<open>A deny list that grows gates at least as much.\<close>

lemma find_ex: "find P xs = None \<longleftrightarrow> \<not> list_ex P xs"
  by (auto simp: find_None_iff list_ex_iff)

lemma gate_iff: "fst (CheckCommand p c) = CommandGate \<longleftrightarrow> list_ex (\<lambda>d. globMatchAnywhere d (NormalizeCommand c)) (SP_CommandDeny p)"
  using find_ex [of "\<lambda>d. globMatchAnywhere d (NormalizeCommand c)" "SP_CommandDeny p"]
  by (cases "find (\<lambda>d. globMatchAnywhere d (NormalizeCommand c)) (SP_CommandDeny p)") (simp_all add: CheckCommand_def Let_def)

lemma pass_iff: "fst (CheckCommand p c) = CommandPass \<longleftrightarrow>
    \<not> list_ex (\<lambda>d. globMatchAnywhere d (NormalizeCommand c)) (SP_CommandDeny p) \<and>
    (nil_slice (SP_CommandAllow p) = [] \<or> list_ex (\<lambda>a. ssh_globMatch a (NormalizeCommand c)) (nil_slice (SP_CommandAllow p)))"
  using find_ex [of "\<lambda>d. globMatchAnywhere d (NormalizeCommand c)" "SP_CommandDeny p"]
  by (cases "find (\<lambda>d. globMatchAnywhere d (NormalizeCommand c)) (SP_CommandDeny p)") (auto simp: CheckCommand_def Let_def)

text \<open>C9. The effective policy of a validated SSH grant refines the resource's own policy on hosts (names without a newline),
  on gated commands and on every number, the certificate lifetime stays within 15 to 60 minutes and the timeout within 300
  seconds; commands that pass would pass without the constraints too, provided the grant does not set an empty command list.
  This holds for layers that do not repeat a JSON key and whose \<^verbatim>\<open>hosts_allow\<close> and \<^verbatim>\<open>command_allow\<close> patterns have no
  surrounding white space: the coverage check compares the patterns as they are and the matcher trims them, and
  \<open>ssh_untrimmed_pattern_escalates\<close> below shows a grant that reaches a new host through that difference.\<close>

theorem ssh_grant_refines_ceiling:
  assumes "ValidateGrant ''ssh'' con ce = []" and "distinct_keys con" and "distinct_keys ce"
    and "\<forall>p \<in> set (listIn (layer con) ''hosts_allow'' @ listIn (layer ce) ''hosts_allow'' @
           listIn (layer con) ''command_allow'' @ listIn (layer ce) ''command_allow''). trimmed p"
    and "ssh_EffectivePolicy ce con = Inr p"
  shows "\<exists>p0. ssh_EffectivePolicy ce RawEmpty = Inr p0 \<and>
    (\<forall>h. CHR 0x0A \<notin> set h \<longrightarrow> HostAllowed p h \<longrightarrow> HostAllowed p0 h) \<and>
    (\<forall>c. fst (CheckCommand p0 c) = CommandGate \<longrightarrow> fst (CheckCommand p c) = CommandGate) \<and>
    (SP_CommandAllow p \<noteq> Some [] \<longrightarrow> (\<forall>c. fst (CheckCommand p c) = CommandPass \<longrightarrow> fst (CheckCommand p0 c) = CommandPass)) \<and>
    15 \<le> SP_CertTTLMinutes p \<and> SP_CertTTLMinutes p \<le> SP_CertTTLMinutes p0 \<and> SP_CertTTLMinutes p0 \<le> 60 \<and>
    SP_MaxConcurrentSessions p \<le> SP_MaxConcurrentSessions p0 \<and>
    1 \<le> SP_ExecTimeoutSeconds p \<and> SP_ExecTimeoutSeconds p \<le> SP_ExecTimeoutSeconds p0 \<and> SP_ExecTimeoutSeconds p0 \<le> 300"
proof -
  note pl = ssh_layer_plain [OF assms(1-3)]
  note vg = ValidateGrant_layers(6) [OF assms(1) refl]
  from assms(5) obtain ces cons emp where parse: "ssh_parseLayer ce = Some ces" "ssh_parseLayer con = Some cons"
      and p: "p = ssh_fold ces cons" and emp: "ssh_parseLayer RawEmpty = Some emp" and p0: "ssh_EffectivePolicy ce RawEmpty = Inr (ssh_fold ces emp)"
    by (rule ssh_effective)
  note e = emp [unfolded ssh_parse_empty, simplified, symmetric]
  note rc = ssh_parse [OF pl(1) parse(2)] and re = ssh_parse [OF pl(2) parse(1)]
  have hosts: "list_ex (\<lambda>a. ssh_globMatch a n) (nil_slice (SS_HostsAllow ces))"
    if "CHR 0x0A \<notin> set n" "list_ex (\<lambda>a. ssh_globMatch a n) (nil_slice (firstSet (SS_HostsAllow cons) (SS_HostsAllow ces)))" for n
    using ssh_grant_bounds(1) [OF vg] rc(1,2) re(1) assms(4) by (intro ssh_allow_narrows [OF _ _ that]) auto
  have cmds: "list_ex (\<lambda>a. ssh_globMatch a (NormalizeCommand c)) (nil_slice (SS_CommandAllow ces))"
    if "list_ex (\<lambda>a. ssh_globMatch a (NormalizeCommand c)) (nil_slice (firstSet (SS_CommandAllow cons) (SS_CommandAllow ces)))" for c
    using ssh_grant_bounds(2) [OF vg] rc(3,4) re(3) assms(4) by (intro ssh_allow_narrows [OF _ _ NormalizeCommand_newline that]) auto
  have h: "HostAllowed (ssh_fold ces emp) h" if "CHR 0x0A \<notin> set h" "HostAllowed p h" for h
    using that(2) hosts [OF newline_TrimLower [OF that(1)]]
    by (simp add: HostAllowed_def p ssh_fold_def e Let_def firstSet_def [of None] nil_slice_def [of None] split: if_splits)
  have g: "fst (CheckCommand p c) = CommandGate" if "fst (CheckCommand (ssh_fold ces emp) c) = CommandGate" for c
    using that by (auto simp: gate_iff p ssh_fold_def e nil_slice_def [of None])
  have pass: "fst (CheckCommand (ssh_fold ces emp) c) = CommandPass"
    if "SP_CommandAllow p \<noteq> Some []" "fst (CheckCommand p c) = CommandPass" for c
  proof -
    have "firstSet (SS_CommandAllow cons) (SS_CommandAllow ces) \<noteq> Some []" using that(1) by (simp add: p ssh_fold_def)
    then have "nil_slice (firstSet (SS_CommandAllow cons) (SS_CommandAllow ces)) = [] \<Longrightarrow> nil_slice (SS_CommandAllow ces) = []"
      by (auto simp: firstSet_def nil_slice_def split: option.splits if_splits)
    then show ?thesis using that(2) cmds [of c]
      by (auto simp: pass_iff p ssh_fold_def e firstSet_def [of None] nil_slice_def [of None])
  qed
  have num: "SP_CertTTLMinutes p \<le> SP_CertTTLMinutes (ssh_fold ces emp)" "SP_ExecTimeoutSeconds p \<le> SP_ExecTimeoutSeconds (ssh_fold ces emp)"
      "SP_MaxConcurrentSessions p \<le> SP_MaxConcurrentSessions (ssh_fold ces emp)"
    using ssh_grant_bounds(3-5) [OF vg] rc re
    by (simp_all add: p ssh_fold_def e clampInt_mono minPositive_swap minPositive_le MinCertTTLMinutes_def MaxCertTTLMinutes_def MaxExecTimeoutSec_def)
  have band: "15 \<le> SP_CertTTLMinutes p" "SP_CertTTLMinutes (ssh_fold ces emp) \<le> 60" "1 \<le> SP_ExecTimeoutSeconds p" "SP_ExecTimeoutSeconds (ssh_fold ces emp) \<le> 300"
    using clampInt_band [of 15 60] clampInt_band [of 1 300]
    by (auto simp: p ssh_fold_def MinCertTTLMinutes_def MaxCertTTLMinutes_def MaxExecTimeoutSec_def)
  from p0 h g pass num band show ?thesis by blast
qed

definition ssh_ceiling_ex :: RawMessage where
  "ssh_ceiling_ex = Raw (JObj [(''hosts_allow'', JArr [JStr ''db-*'']), (''command_allow'', JArr [JStr ''ls *'']),
     (''cert_ttl_minutes'', JNum (Some 45))])"

definition ssh_constraints_ex :: RawMessage where
  "ssh_constraints_ex = Raw (JObj [(''hosts_allow'', JArr [JStr ''db-1'']), (''command_allow'', JArr [JStr ''ls -l *'']),
     (''cert_ttl_minutes'', JNum (Some 20))])"

theorem ssh_grant_refines_ceiling_witness:
  "(case ssh_EffectivePolicy ssh_ceiling_ex ssh_constraints_ex of Inl _ \<Rightarrow> False
    | Inr p \<Rightarrow> HostAllowed p ''DB-1'' \<and> \<not> HostAllowed p ''db-2'' \<and> SP_CertTTLMinutes p = 20) \<and>
   (case ssh_EffectivePolicy ssh_ceiling_ex RawEmpty of Inl _ \<Rightarrow> False
    | Inr p0 \<Rightarrow> HostAllowed p0 ''DB-1'' \<and> 20 \<le> SP_CertTTLMinutes p0)"
proof -
  have "case ssh_EffectivePolicy ssh_ceiling_ex ssh_constraints_ex of Inl _ \<Rightarrow> False
    | Inr p \<Rightarrow> HostAllowed p ''DB-1'' \<and> \<not> HostAllowed p ''db-2'' \<and> SP_CertTTLMinutes p = 20"
    by code_simp
  then obtain p where p: "ssh_EffectivePolicy ssh_ceiling_ex ssh_constraints_ex = Inr p"
      "HostAllowed p ''DB-1''" "\<not> HostAllowed p ''db-2''" "SP_CertTTLMinutes p = 20"
    by (auto split: sum.splits)
  have "ValidateGrant ''ssh'' ssh_constraints_ex ssh_ceiling_ex = []" by code_simp
  moreover have "distinct_keys ssh_constraints_ex" "distinct_keys ssh_ceiling_ex" by code_simp+
  moreover have "\<forall>p \<in> set (listIn (layer ssh_constraints_ex) ''hosts_allow'' @ listIn (layer ssh_ceiling_ex) ''hosts_allow'' @
      listIn (layer ssh_constraints_ex) ''command_allow'' @ listIn (layer ssh_ceiling_ex) ''command_allow''). trimmed p"
    by code_simp
  ultimately obtain p0 where p0: "ssh_EffectivePolicy ssh_ceiling_ex RawEmpty = Inr p0" "SP_CertTTLMinutes p \<le> SP_CertTTLMinutes p0"
      "\<forall>h. CHR 0x0A \<notin> set h \<longrightarrow> HostAllowed p h \<longrightarrow> HostAllowed p0 h"
    using ssh_grant_refines_ceiling [OF _ _ _ _ p(1)] by blast
  have "HostAllowed p0 ''DB-1''" using p0(3) [rule_format, of "''DB-1''"] p(2) by simp
  then show ?thesis using p p0(1,2) by simp
qed

text \<open>Without the condition on white space the refinement fails. The ceiling's pattern \<^verbatim>\<open>"* a*"\<close> covers the grant's
  \<^verbatim>\<open>" a*"\<close>, which the matcher reads as \<^verbatim>\<open>"a*"\<close>: the grant reaches \<^verbatim>\<open>abc\<close>, which neither pattern of the ceiling matches.\<close>

lemma ssh_untrimmed_pattern_escalates:
  "ValidateGrant ''ssh'' (Raw (JObj [(''hosts_allow'', JArr [JStr '' a*''])])) (Raw (JObj [(''hosts_allow'', JArr [JStr ''* a*'', JStr ''a?''])])) = []"
  "case ssh_EffectivePolicy (Raw (JObj [(''hosts_allow'', JArr [JStr ''* a*'', JStr ''a?''])])) (Raw (JObj [(''hosts_allow'', JArr [JStr '' a*''])])) of
     Inl _ \<Rightarrow> False | Inr p \<Rightarrow> HostAllowed p ''abc''"
  "case ssh_EffectivePolicy (Raw (JObj [(''hosts_allow'', JArr [JStr ''* a*'', JStr ''a?''])])) RawEmpty of
     Inl _ \<Rightarrow> False | Inr p0 \<Rightarrow> \<not> HostAllowed p0 ''abc''"
  by code_simp+

text \<open>Another way a validated SSH grant widens the resource: an empty \<^verbatim>\<open>command_allow\<close> list. It covers nothing, so
  both checks accept it; the fold prefers it to the ceiling's list; and an empty list lets every command through.\<close>

definition empty_command_list :: RawMessage where
  "empty_command_list = Raw (JObj [(''command_allow'', JArr [])])"

lemma empty_command_parse: "ssh_parseLayer empty_command_list = Some \<lparr>SS_HostsAllow = None, SS_HostsDeny = None,
    SS_CommandAllow = Some [], SS_CommandDeny = None, SS_CertTTLMinutes = 0, SS_MaxConcurrentSessions = 0, SS_ExecTimeoutSeconds = 0\<rparr>"
  by code_simp

lemma empty_command_layer: "egress_object ''constraints'' empty_command_list = Inr [(''command_allow'', JArr [])]"
  by code_simp

lemma empty_command_valid: "validateSSHGrant [(''command_allow'', JArr [])] ce = []"
proof -
  have "fst ` set [(''command_allow'', JArr [])] \<subseteq> set SSHCeilingKeys" by (simp add: SSHCeilingKeys_def)
  then show ?thesis
    by (simp add: validateSSHGrant_def Let_def when_set_def has_key_def gm_get_def listIn_def un_strings_def)
qed

text \<open>A grant whose constraints set an empty command list passes the control plane's check against every valid SSH ceiling,
  and under it the gateway denies no command, whatever command list the ceiling has.\<close>

theorem ssh_empty_command_list_escalates:
  assumes "ValidateCeiling ''ssh'' ce = []" and "ssh_parseLayer ce \<noteq> None"
  shows "ValidateGrant ''ssh'' empty_command_list ce = [] \<and>
    (\<exists>p. ssh_EffectivePolicy ce empty_command_list = Inr p \<and> (\<forall>c. fst (CheckCommand p c) \<noteq> CommandDeny))"
proof
  show "ValidateGrant ''ssh'' empty_command_list ce = []"
    using assms(1) by (simp add: ValidateGrant_def empty_command_layer empty_command_valid)
  obtain ces where "ssh_parseLayer ce = Some ces" using assms(2) by blast
  then have "\<exists>p. ssh_EffectivePolicy ce empty_command_list = Inr p \<and> SP_CommandAllow p = Some []"
    by (simp add: ssh_EffectivePolicy_def empty_command_parse assertAllowSubset_def firstSet_def nil_slice_def)
  then show "\<exists>p. ssh_EffectivePolicy ce empty_command_list = Inr p \<and> (\<forall>c. fst (CheckCommand p c) \<noteq> CommandDeny)"
    by (auto simp: CheckCommand_def Let_def nil_slice_def split: option.splits)
qed

theorem ssh_empty_command_list_escalates_witness:
  "(case ssh_EffectivePolicy ssh_ceiling_ex RawEmpty of Inl _ \<Rightarrow> False | Inr p0 \<Rightarrow> fst (CheckCommand p0 ''cat /root/key'') = CommandDeny) \<and>
   ValidateGrant ''ssh'' empty_command_list ssh_ceiling_ex = [] \<and>
   (\<exists>p. ssh_EffectivePolicy ssh_ceiling_ex empty_command_list = Inr p \<and> fst (CheckCommand p ''cat /root/key'') \<noteq> CommandDeny)"
proof -
  have "case ssh_EffectivePolicy ssh_ceiling_ex RawEmpty of Inl _ \<Rightarrow> False | Inr p0 \<Rightarrow> fst (CheckCommand p0 ''cat /root/key'') = CommandDeny"
    by code_simp
  moreover have "ValidateCeiling ''ssh'' ssh_ceiling_ex = []" "ssh_parseLayer ssh_ceiling_ex \<noteq> None" by code_simp+
  ultimately show ?thesis using ssh_empty_command_list_escalates [of ssh_ceiling_ex] by blast
qed

end
