(* ===== verification/Egress_Rest.thy ===== *)
theory Egress_Rest
  imports Egress_Laws
begin

text \<open>
  The grant contract of \<^verbatim>\<open>Egress_Laws\<close> for the REST plane, whose path matcher makes it conditional, and the normal form
  of a browser ceiling.
\<close>

section \<open>REST\<close>

lemma REST_fold_free: "fold_free RestCeilingKeys"
  by (rule lower_fold_free) code_simp

lemma rest_layer_plain:
  assumes "ValidateGrant ''rest'' con ce = []" and "distinct_keys con" and "distinct_keys ce"
  shows "plain_layer RestCeilingKeys con" and "plain_layer RestCeilingKeys ce"
proof -
  have "checkUnknownKeys ''constraints'' (layer con) RestCeilingKeys = []"
    using ValidateGrant_layers(3) [OF assms(1) refl] unfolding validateRestGrant_def Let_def by (rule first_guard)
  then show "plain_layer RestCeilingKeys con" using assms(2) REST_fold_free by (simp add: plain_layer_def)
  have "checkUnknownKeys ''policy_ceiling'' (layer ce) RestCeilingKeys = []"
    using ceiling_layer(2) [OF ValidateGrant_layers(1) [OF assms(1)] refl] unfolding validateRestCeiling_def Let_def by (rule first_guard)
  then show "plain_layer RestCeilingKeys ce" using assms(3) REST_fold_free by (simp add: plain_layer_def)
qed

lemma rest_parse:
  assumes "plain_layer RestCeilingKeys raw" and "rest_parseLayer raw = Some sh"
  shows "nil_slice (RS_PathAllow sh) = listIn (layer raw) ''path_allow''" "RS_PathAllow sh \<noteq> None \<Longrightarrow> has_key (layer raw) ''path_allow''"
    "RS_RatePerMin sh = intIn (layer raw) ''rate_per_min''"
proof -
  obtain kvs pa rt where k: "raw_struct raw = Some kvs" "st_slice ''path_allow'' kvs = Some pa" "st_int ''rate_per_min'' kvs = Some rt"
      and sh: "RS_PathAllow sh = pa" "RS_RatePerMin sh = rt"
    using assms(2) by (auto simp: rest_parseLayer_def bind_eq_Some_conv)
  have K: "''path_allow'' \<in> set RestCeilingKeys" "''rate_per_min'' \<in> set RestCeilingKeys" by (simp_all add: RestCeilingKeys_def)
  show "nil_slice (RS_PathAllow sh) = listIn (layer raw) ''path_allow''" "RS_PathAllow sh \<noteq> None \<Longrightarrow> has_key (layer raw) ''path_allow''"
    "RS_RatePerMin sh = intIn (layer raw) ''rate_per_min''"
    using plain_slice [OF assms(1) K(1) k(1,2)] plain_int [OF assms(1) K(2) k(1,3)] sh by simp_all
qed

lemma rest_grant_bounds:
  assumes "validateRestGrant c ce = []"
  shows "has_key c ''path_allow'' \<Longrightarrow> \<forall>x \<in> set (listIn c ''path_allow''). \<exists>y \<in> set (listIn ce ''path_allow''). globCovers y x"
    and "0 < intIn c ''rate_per_min'' \<Longrightarrow> intIn c ''rate_per_min'' \<le> intIn ce ''rate_per_min''"
proof -
  have v: "(has_key c ''path_allow'' \<longrightarrow> (\<forall>x \<in> set (listIn c ''path_allow''). \<exists>y \<in> set (listIn ce ''path_allow''). globCovers y x)) \<and>
     (has_key c ''rate_per_min'' \<longrightarrow> intIn c ''rate_per_min'' \<le> intIn ce ''rate_per_min'')"
    using assms by (simp add: validateRestGrant_def Let_def split: if_splits)
  then show "has_key c ''path_allow'' \<Longrightarrow> \<forall>x \<in> set (listIn c ''path_allow''). \<exists>y \<in> set (listIn ce ''path_allow''). globCovers y x"
    by blast
  show "0 < intIn c ''rate_per_min'' \<Longrightarrow> intIn c ''rate_per_min'' \<le> intIn ce ''rate_per_min''"
    using v intIn_unset [of c] by (metis less_irrefl)
qed

lemma rest_parse_empty: "rest_parseLayer RawEmpty = Some \<lparr>RS_Methods = None, RS_PathAllow = None, RS_PathDeny = [],
    RS_MaxRequestBytes = 0, RS_MaxResponseBytes = 0, RS_RatePerMin = 0, RS_EgressClass = []\<rparr>"
  by (simp add: rest_parseLayer_def raw_struct_def st_slice_def st_int_def st_string_def field_values_def nil_slice_def)

lemma rest_effective:
  assumes "rest_EffectivePolicy cfg ce con cls = Inr p"
  obtains ces cons p0 where "rest_parseLayer ce = Some ces" "rest_parseLayer con = Some cons"
    "rest_EffectivePolicy cfg ce RawEmpty cls = Inr p0" "set (RP_Methods p) \<subseteq> set (RP_Methods p0)"
    "RP_PathAllow p0 = nil_slice (RS_PathAllow ces)"
    "RP_PathAllow p = (case RS_PathAllow cons of Some xs \<Rightarrow> xs | None \<Rightarrow> RP_PathAllow p0)"
    "RP_PathDeny p = RP_PathDeny p0 @ RS_PathDeny cons"
    "RP_MaxRequestBytes p \<le> RP_MaxRequestBytes p0" "RP_MaxResponseBytes p \<le> RP_MaxResponseBytes p0"
    "RP_RatePerMin p0 = minSet [RS_RatePerMin ces, 0]" "RP_RatePerMin p = minSet [RS_RatePerMin ces, RS_RatePerMin cons]"
    "RP_AllowPrivate p \<longrightarrow> RP_AllowPrivate p0"
proof -
  obtain cf ces cons where parse: "rest_parseConfig cfg = Some cf" "rest_parseLayer ce = Some ces" "rest_parseLayer con = Some cons"
    using assms by (auto simp: rest_EffectivePolicy_def split: option.splits)
  have base: "TrimRight_slash (TrimSpace (RC_BaseURL cf)) \<noteq> []"
    using assms parse by (auto simp: rest_EffectivePolicy_def Let_def split: if_splits)
  define q where "q = \<lparr>RP_BaseURL = RP_BaseURL p, RP_AuthKind = RP_AuthKind p, RP_HeaderName = RP_HeaderName p,
    RP_Methods = nilSafeUpper (RS_Methods ces), RP_PathAllow = nil_slice (RS_PathAllow ces), RP_PathDeny = RS_PathDeny ces,
    RP_MaxRequestBytes = tighten rest_DefaultMaxRequestBytes [RS_MaxRequestBytes ces, 0],
    RP_MaxResponseBytes = tighten rest_DefaultMaxResponseBytes [RS_MaxResponseBytes ces, 0],
    RP_RatePerMin = tightest_rate [RS_RatePerMin ces, 0], RP_AllowPrivate = private_egress (RS_EgressClass ces) cls []\<rparr>"
  have p: "p = q\<lparr>RP_Methods := (if RS_Methods cons \<noteq> None then intersectUpper (RP_Methods q) (nilSafeUpper (RS_Methods cons)) else RP_Methods q),
      RP_PathAllow := (case RS_PathAllow cons of Some xs \<Rightarrow> xs | None \<Rightarrow> RP_PathAllow q), RP_PathDeny := RP_PathDeny q @ RS_PathDeny cons,
      RP_MaxRequestBytes := tighten rest_DefaultMaxRequestBytes [RS_MaxRequestBytes ces, RS_MaxRequestBytes cons],
      RP_MaxResponseBytes := tighten rest_DefaultMaxResponseBytes [RS_MaxResponseBytes ces, RS_MaxResponseBytes cons],
      RP_RatePerMin := tightest_rate [RS_RatePerMin ces, RS_RatePerMin cons],
      RP_AllowPrivate := private_egress (RS_EgressClass ces) cls (RS_EgressClass cons)\<rparr>"
    using assms parse base by (auto simp: rest_EffectivePolicy_def Let_def q_def split: option.split)
  have q: "rest_EffectivePolicy cfg ce RawEmpty cls = Inr q"
    using assms parse base by (auto simp: rest_EffectivePolicy_def Let_def q_def rest_parse_empty)
  have "RP_AllowPrivate p \<longrightarrow> RP_AllowPrivate q" unfolding p by (simp add: q_def private_egress_narrows)
  moreover have "set (RP_Methods p) \<subseteq> set (RP_Methods q)" unfolding p by (auto simp: q_def intersectUpper_def)
  ultimately show ?thesis
    by (intro that [OF parse(2,3) q]) (simp_all add: p, simp_all add: q_def tighten2 tightest_rate2)
qed


definition rest_config_ex :: RawMessage where
  "rest_config_ex = Raw (JObj [(''base_url'', JStr ''https://api.example.com/'')])"

definition rest_ceiling_ex :: RawMessage where
  "rest_ceiling_ex = Raw (JObj [(''methods'', JArr [JStr ''GET'', JStr ''POST'']), (''path_allow'', JArr [JStr ''issues/*'', JStr ''org/**'']),
     (''rate_per_min'', JNum (Some 60))])"

definition rest_constraints_ex :: RawMessage where
  "rest_constraints_ex = Raw (JObj [(''methods'', JArr [JStr ''get'']), (''path_allow'', JArr [JStr ''issues/1*'', JStr ''org/team/**''])])"


text \<open>Without that condition a validated REST grant can widen the resource: under a ceiling with the path pattern
  \<^verbatim>\<open>issues/*\<close> a grant of \<^verbatim>\<open>issues/**\<close> passes the check, and the gateway then serves paths of any depth that the ceiling
  alone refuses; likewise \<^verbatim>\<open>org/*\<close> under \<^verbatim>\<open>org/**\<close> adds the bare \<^verbatim>\<open>org/\<close>.\<close>

theorem rest_wildcard_escalates:
  "\<exists>ce con p0 p. ValidateGrant ''rest'' con ce = [] \<and>
     rest_EffectivePolicy rest_config_ex ce RawEmpty ''public'' = Inr p0 \<and> rest_EffectivePolicy rest_config_ex ce con ''public'' = Inr p \<and>
     pathAllowed p ''issues/1/comments'' \<and> \<not> pathAllowed p0 ''issues/1/comments'' \<and> pathAllowed p ''org/'' \<and> \<not> pathAllowed p0 ''org/''"
proof -
  define con where "con = Raw (JObj [(''path_allow'', JArr [JStr ''issues/**'', JStr ''org/*''])])"
  have "ValidateGrant ''rest'' con rest_ceiling_ex = []" unfolding con_def by code_simp
  moreover have "case rest_EffectivePolicy rest_config_ex rest_ceiling_ex RawEmpty ''public'' of Inl _ \<Rightarrow> False
      | Inr p0 \<Rightarrow> \<not> pathAllowed p0 ''issues/1/comments'' \<and> \<not> pathAllowed p0 ''org/''"
    by code_simp
  moreover have "case rest_EffectivePolicy rest_config_ex rest_ceiling_ex con ''public'' of Inl _ \<Rightarrow> False
      | Inr p \<Rightarrow> pathAllowed p ''issues/1/comments'' \<and> pathAllowed p ''org/''"
    unfolding con_def by code_simp
  ultimately show ?thesis by (auto split: sum.splits)
qed

section \<open>Normal form of a browser ceiling\<close>

lemma fold_put_distinct: "distinct (map fst (m @ kvs)) \<Longrightarrow> fold (\<lambda>(k, x) m. gm_put k x m) kvs m = m @ kvs"
proof (induction kvs arbitrary: m)
  case (Cons e kvs)
  obtain k x where e: "e = (k, x)" by force
  have "k \<notin> fst ` set m \<Longrightarrow> gm_put k x m = m @ [(k, x)]" for m :: "'a gomap" by (induction m) auto
  then have "gm_put k x m = m @ [(k, x)]" using Cons.prems e by auto
  then show ?case using Cons.IH [of "m @ [(k, x)]"] Cons.prems e by simp
qed simp

lemma layer_distinct: "distinct (map fst (layer raw))"
proof -
  have "distinct (map fst m) \<Longrightarrow> distinct (map fst (fold (\<lambda>(k, x) m. gm_put k x m) kvs m))" for kvs and m :: key_map
    by (induction kvs arbitrary: m) (auto simp: distinct_gm_put)
  from this [of "[]"] show ?thesis
    by (auto simp: layer_def egress_object_def Let_def un_map_def split: RawMessage.splits option.splits json.splits)
qed

lemma Marshal_layer:
  assumes "distinct (map fst obj)"
  shows "egress_object f (Raw (Marshal_map obj)) = Inr (sort_key fst obj)" and "layer (Raw (Marshal_map obj)) = sort_key fst obj"
proof -
  have "distinct (map fst (sort_key fst obj))" using assms by (simp add: distinct_map inj_on_def)
  then have "un_map (Marshal_map obj) = Some (sort_key fst obj)"
    using fold_put_distinct [of "[]"] by (simp add: un_map_def Marshal_map_def)
  then show "egress_object f (Raw (Marshal_map obj)) = Inr (sort_key fst obj)" "layer (Raw (Marshal_map obj)) = sort_key fst obj"
    by (simp_all add: egress_object_def layer_def)
qed

lemma gm_get_sort: "distinct (map fst obj) \<Longrightarrow> gm_get (sort_key fst obj) k = gm_get obj k"
  unfolding gm_get_def by (subst map_of_inject_set [THEN iffD2, of "sort_key fst obj" obj]) (simp_all add: distinct_map inj_on_def)

definition browser_defaults :: "(string \<times> int) list" where
  "browser_defaults = [(''max_pages'', BrowserDefaultMaxPages), (''max_screenshot_bytes'', BrowserDefaultMaxScreenshotBytes),
     (''idle_timeout_s'', BrowserDefaultIdleTimeoutS), (''max_session_minutes'', BrowserDefaultMaxSessionMinutes),
     (''max_sessions_per_agent'', BrowserDefaultMaxSessionsPerAgent)]"

definition with_defaults :: "key_map \<Rightarrow> key_map" where
  "with_defaults obj = fold (\<lambda>(k, d). setDefaultInt k d) browser_defaults
     (if gm_get obj ''deny_hosts'' = None then gm_put ''deny_hosts'' (JArr []) obj else obj)"

lemma NormalizeBrowserCeiling_iff:
  "NormalizeBrowserCeiling raw = Inr out \<longleftrightarrow>
     egress_object ''policy_ceiling'' raw = Inr (layer raw) \<and> validateBrowserShape ''policy_ceiling'' (layer raw) = [] \<and>
     out = Marshal_map (with_defaults (layer raw))"
proof (cases "egress_object ''policy_ceiling'' raw")
  case (Inr m)
  then show ?thesis using egress_object_layer [OF Inr]
    by (auto simp: NormalizeBrowserCeiling_def with_defaults_def browser_defaults_def Let_def)
qed (simp add: NormalizeBrowserCeiling_def)

lemma gm_get_setDefaultInt:
  "gm_get (setDefaultInt k d obj) k' = (if k' = k \<and> lookup_set obj k = None then Some (JNum (Some d)) else gm_get obj k')"
  by (auto simp: setDefaultInt_def lookup_set_def split: option.splits json.splits)

lemma keys_setDefaultInt: "fst ` set (setDefaultInt k d obj) \<subseteq> insert k (fst ` set obj)"
  by (auto simp: setDefaultInt_def keys_gm_put split: option.splits json.splits)

lemma distinct_setDefaultInt: "distinct (map fst obj) \<Longrightarrow> distinct (map fst (setDefaultInt k d obj))"
  by (auto simp: setDefaultInt_def distinct_gm_put split: option.splits json.splits)

lemma fold_defaults:
  assumes "distinct (map fst ds)"
  shows "gm_get (fold (\<lambda>(k, d). setDefaultInt k d) ds obj) k =
     (case map_of ds k of None \<Rightarrow> gm_get obj k | Some d \<Rightarrow> if lookup_set obj k = None then Some (JNum (Some d)) else gm_get obj k)"
  using assms
proof (induction ds arbitrary: obj)
  case (Cons e ds)
  obtain k' d where e: "e = (k', d)" by force
  have n: "map_of ds k' = None" using Cons.prems e by (simp add: map_of_eq_None_iff)
  show ?case
  proof (cases "k = k'")
    case True
    then show ?thesis using Cons e n by (simp add: gm_get_setDefaultInt)
  next
    case False
    then have "lookup_set (setDefaultInt k' d obj) k = lookup_set obj k" by (simp add: lookup_set_def gm_get_setDefaultInt)
    then show ?thesis using Cons e False by (auto simp: gm_get_setDefaultInt split: option.split)
  qed
qed simp

lemma with_defaults_get:
  "gm_get (with_defaults obj) k =
     (if k = ''deny_hosts'' then Some (case gm_get obj k of None \<Rightarrow> JArr [] | Some v \<Rightarrow> v)
      else case map_of browser_defaults k of
             None \<Rightarrow> gm_get obj k
           | Some d \<Rightarrow> if lookup_set obj k = None then Some (JNum (Some d)) else gm_get obj k)"
proof -
  have d: "distinct (map fst browser_defaults)" "map_of browser_defaults ''deny_hosts'' = None" by (simp_all add: browser_defaults_def)
  define o1 where "o1 = (if gm_get obj ''deny_hosts'' = None then gm_put ''deny_hosts'' (JArr []) obj else obj)"
  have "gm_get o1 k = (if k = ''deny_hosts'' then Some (case gm_get obj k of None \<Rightarrow> JArr [] | Some v \<Rightarrow> v) else gm_get obj k)" for k
    by (auto simp: o1_def split: option.splits)
  then show ?thesis unfolding with_defaults_def o1_def [symmetric] fold_defaults [OF d(1)]
    using d(2) by (auto simp: lookup_set_def split: option.splits)
qed

lemma with_defaults_keys:
  assumes "fst ` set obj \<subseteq> set BrowserCeilingKeys"
  shows "fst ` set (with_defaults obj) \<subseteq> set BrowserCeilingKeys" and "distinct (map fst obj) \<Longrightarrow> distinct (map fst (with_defaults obj))"
proof -
  have "fst ` set ds \<subseteq> K \<Longrightarrow> fst ` set obj \<subseteq> K \<Longrightarrow> fst ` set (fold (\<lambda>(k, d). setDefaultInt k d) ds obj) \<subseteq> K" for ds K and obj :: key_map
  proof (induction ds arbitrary: obj)
    case (Cons e ds)
    have "fst ` set (setDefaultInt (fst e) (snd e) obj) \<subseteq> K"
      using Cons.prems by (intro order_trans [OF keys_setDefaultInt]) simp
    then show ?case using Cons by (simp add: split_def)
  qed simp
  note step = this
  define o1 where "o1 = (if gm_get obj ''deny_hosts'' = None then gm_put ''deny_hosts'' (JArr []) obj else obj)"
  have "''deny_hosts'' \<in> set BrowserCeilingKeys" by (simp add: BrowserCeilingKeys_def)
  then have "fst ` set o1 \<subseteq> set BrowserCeilingKeys" using assms by (simp add: o1_def keys_gm_put)
  moreover have "fst ` set browser_defaults \<subseteq> set BrowserCeilingKeys" by (simp add: browser_defaults_def BrowserCeilingKeys_def)
  ultimately show "fst ` set (with_defaults obj) \<subseteq> set BrowserCeilingKeys"
    unfolding with_defaults_def o1_def [symmetric] by (intro step)
  have "distinct (map fst obj) \<Longrightarrow> distinct (map fst (fold (\<lambda>(k, d). setDefaultInt k d) ds obj))" for ds and obj :: key_map
    by (induction ds arbitrary: obj) (auto simp: distinct_setDefaultInt)
  then show "distinct (map fst obj) \<Longrightarrow> distinct (map fst (with_defaults obj))"
    unfolding with_defaults_def by (simp add: distinct_gm_put)
qed

text \<open>A validated layer, key by key: what a bounded integer field may hold.\<close>

definition int_ok :: "json option \<Rightarrow> int \<Rightarrow> bool" where
  "int_ok v hi = (case v of None \<Rightarrow> True | Some JNull \<Rightarrow> True | Some x \<Rightarrow> (case un_int x of None \<Rightarrow> False | Some n \<Rightarrow> 1 \<le> n \<and> n \<le> hi))"

definition hosts_ok :: "json option \<Rightarrow> bool" where
  "hosts_ok v = (case v of None \<Rightarrow> True | Some JNull \<Rightarrow> True
     | Some x \<Rightarrow> fst (un_strings x) \<and> blank_entry 0 (snd (un_strings x)) = None)"

lemma boundedIntField_Nil: "fst (boundedIntField obj key path 1 hi) = [] \<longleftrightarrow> int_ok (gm_get obj key) hi"
  by (auto simp: boundedIntField_def int_ok_def lookup_set_def split: option.splits json.splits)

lemma stringListField_Nil: "fst (stringListField obj key path) = [] \<longleftrightarrow> hosts_ok (gm_get obj key)"
  by (auto simp: stringListField_def hosts_ok_def lookup_set_def split: option.splits json.splits prod.splits)

definition browser_bounds :: "(string \<times> int) list" where
  "browser_bounds = [(''max_pages'', BrowserMaxPagesUpperBound), (''max_screenshot_bytes'', BrowserMaxScreenshotBytesUpperBound),
     (''idle_timeout_s'', BrowserMaxIdleTimeoutSecondsUpperBound), (''max_session_minutes'', BrowserMaxSessionMinutesUpperBound),
     (''max_sessions_per_agent'', BrowserMaxSessionsPerAgentUpperBound)]"

lemma browser_shape_Nil:
  "validateBrowserShape f obj = [] \<longleftrightarrow> fst ` set obj \<subseteq> set BrowserCeilingKeys \<and> hosts_ok (gm_get obj ''deny_hosts'') \<and>
     (\<forall>(k, hi) \<in> set browser_bounds. int_ok (gm_get obj k) hi)"
  by (simp add: validateBrowserShape_def Let_def split_def stringListField_Nil boundedIntField_Nil browser_bounds_def)

lemma default_in_bounds: "map_of browser_defaults k = Some d \<Longrightarrow> (k, hi) \<in> set browser_bounds \<Longrightarrow> 1 \<le> d \<and> d \<le> hi \<and> int64 d"
  by (auto simp: browser_defaults_def browser_bounds_def BrowserDefaultMaxPages_def BrowserDefaultMaxScreenshotBytes_def
      BrowserDefaultIdleTimeoutS_def BrowserDefaultMaxSessionMinutes_def BrowserDefaultMaxSessionsPerAgent_def
      BrowserMaxPagesUpperBound_def BrowserMaxScreenshotBytesUpperBound_def BrowserMaxIdleTimeoutSecondsUpperBound_def
      BrowserMaxSessionMinutesUpperBound_def BrowserMaxSessionsPerAgentUpperBound_def int64_def split: if_splits)

lemma bound_not_deny: "(k, hi) \<in> set browser_bounds \<Longrightarrow> k \<noteq> ''deny_hosts'' \<and> map_of browser_defaults k \<noteq> None"
  by (auto simp: browser_bounds_def browser_defaults_def)

lemma with_defaults_shape:
  assumes "validateBrowserShape f obj = []"
  shows "validateBrowserShape f (with_defaults obj) = []"
proof -
  note a = assms [unfolded browser_shape_Nil]
  have "hosts_ok (gm_get (with_defaults obj) ''deny_hosts'')"
    using a by (auto simp: with_defaults_get hosts_ok_def un_strings_def split: option.splits)
  moreover have "int_ok (gm_get (with_defaults obj) k) hi" if kb: "(k, hi) \<in> set browser_bounds" for k hi
  proof -
    obtain d where "map_of browser_defaults k = Some d" using bound_not_deny [OF kb] by blast
    moreover have "int_ok (gm_get obj k) hi" using a kb by blast
    ultimately show ?thesis using default_in_bounds [OF _ kb] bound_not_deny [OF kb]
      by (auto simp: with_defaults_get int_ok_def un_int_def)
  qed
  ultimately show ?thesis using with_defaults_keys(1) a by (auto simp: browser_shape_Nil)
qed

lemma with_defaults_idem:
  assumes "distinct (map fst obj)" and "\<And>k. gm_get obj k = gm_get (with_defaults obj0) k"
  shows "with_defaults obj = obj"
proof -
  have d: "gm_get obj ''deny_hosts'' \<noteq> None" by (simp add: assms(2) with_defaults_get)
  have "setDefaultInt k d obj = obj" if "(k, d) \<in> set browser_defaults" for k d
  proof -
    have "k \<noteq> ''deny_hosts''" "map_of browser_defaults k = Some d" using that by (auto simp: browser_defaults_def)
    then have "lookup_set obj k \<noteq> None" by (auto simp: lookup_set_def assms(2) with_defaults_get split: option.splits json.splits)
    then show ?thesis by (auto simp: setDefaultInt_def lookup_set_def split: option.splits json.splits)
  qed
  then have "fold (\<lambda>(k, d). setDefaultInt k d) ds obj = obj" if "set ds \<subseteq> set browser_defaults" for ds
    using that by (induction ds) auto
  then show ?thesis using d by (auto simp: with_defaults_def)
qed

lemma Browser_fold_free: "fold_free BrowserCeilingKeys"
  by (rule lower_fold_free) code_simp

lemma object_struct: "egress_object f raw = Inr m \<Longrightarrow> \<exists>kvs. raw_struct raw = Some kvs"
  by (auto simp: egress_object_def raw_struct_def un_struct_def un_map_def Let_def split: RawMessage.splits option.splits json.splits)

text \<open>A layer the control plane accepts is one the gateway can read, with the same values.\<close>

lemma st_int_ok: "plain_layer K raw \<Longrightarrow> name \<in> set K \<Longrightarrow> raw_struct raw = Some kvs \<Longrightarrow> int_ok (gm_get (layer raw) name) hi \<Longrightarrow>
    st_int name kvs = Some (intIn (layer raw) name)"
  by (auto simp: st_int_def plain_field intIn_def int_ok_def un_int_def split: option.splits json.splits)

lemma st_int_ptr_ok: "plain_layer K raw \<Longrightarrow> name \<in> set K \<Longrightarrow> raw_struct raw = Some kvs \<Longrightarrow> int_ok (gm_get (layer raw) name) hi \<Longrightarrow>
    st_int_ptr name kvs = Some (case lookup_set (layer raw) name of None \<Rightarrow> None | Some v \<Rightarrow> un_int v)"
  by (auto simp: st_int_ptr_def plain_field lookup_set_def int_ok_def un_int_def split: option.splits json.splits)

lemma st_slice_ok: "plain_layer K raw \<Longrightarrow> name \<in> set K \<Longrightarrow> raw_struct raw = Some kvs \<Longrightarrow> hosts_ok (gm_get (layer raw) name) \<Longrightarrow>
    \<exists>sl. st_slice name kvs = Some sl \<and> nil_slice sl = listIn (layer raw) name"
  by (auto simp: st_slice_def plain_field listIn_def hosts_ok_def un_slice_def un_strings_def nil_slice_def split: option.splits json.splits)

lemma browser_parse:
  assumes "egress_object f raw = Inr m" and "distinct_keys raw" and "validateBrowserShape f (layer raw) = []"
  shows "browser_parseLayer raw = Some \<lparr>BS_DenyHosts = listIn (layer raw) ''deny_hosts'', BS_MaxPages = intIn (layer raw) ''max_pages'',
     BS_MaxScreenshotBytes = intIn (layer raw) ''max_screenshot_bytes'', BS_IdleTimeoutS = intIn (layer raw) ''idle_timeout_s'',
     BS_MaxSessionMinutes = intIn (layer raw) ''max_session_minutes'',
     BS_MaxSessionsPerAgent = (case lookup_set (layer raw) ''max_sessions_per_agent'' of None \<Rightarrow> None | Some v \<Rightarrow> un_int v)\<rparr>"
proof -
  note v = assms(3) [unfolded browser_shape_Nil]
  have pl: "plain_layer BrowserCeilingKeys raw" using v assms(2) Browser_fold_free by (simp add: plain_layer_def)
  obtain kvs where k: "raw_struct raw = Some kvs" using object_struct [OF assms(1)] by blast
  have K: "''deny_hosts'' \<in> set BrowserCeilingKeys" "''max_pages'' \<in> set BrowserCeilingKeys" "''max_screenshot_bytes'' \<in> set BrowserCeilingKeys"
      "''idle_timeout_s'' \<in> set BrowserCeilingKeys" "''max_session_minutes'' \<in> set BrowserCeilingKeys" "''max_sessions_per_agent'' \<in> set BrowserCeilingKeys"
    by (simp_all add: BrowserCeilingKeys_def)
  obtain sl where "st_slice ''deny_hosts'' kvs = Some sl" "nil_slice sl = listIn (layer raw) ''deny_hosts''"
    using st_slice_ok [OF pl K(1) k] v by blast
  moreover have "int_ok (gm_get (layer raw) ''max_pages'') BrowserMaxPagesUpperBound"
      "int_ok (gm_get (layer raw) ''max_screenshot_bytes'') BrowserMaxScreenshotBytesUpperBound"
      "int_ok (gm_get (layer raw) ''idle_timeout_s'') BrowserMaxIdleTimeoutSecondsUpperBound"
      "int_ok (gm_get (layer raw) ''max_session_minutes'') BrowserMaxSessionMinutesUpperBound"
      "int_ok (gm_get (layer raw) ''max_sessions_per_agent'') BrowserMaxSessionsPerAgentUpperBound"
    using v by (simp_all add: browser_bounds_def)
  note n = st_int_ok [OF pl K(2) k this(1)] st_int_ok [OF pl K(3) k this(2)] st_int_ok [OF pl K(4) k this(3)]
    st_int_ok [OF pl K(5) k this(4)] st_int_ptr_ok [OF pl K(6) k this(5)]
  ultimately show ?thesis using k n by (simp add: browser_parseLayer_def)
qed

lemma browser_parse_empty: "browser_parseLayer RawEmpty = Some \<lparr>BS_DenyHosts = [], BS_MaxPages = 0, BS_MaxScreenshotBytes = 0,
    BS_IdleTimeoutS = 0, BS_MaxSessionMinutes = 0, BS_MaxSessionsPerAgent = None\<rparr>"
  by (simp add: browser_parseLayer_def raw_struct_def st_slice_def st_int_def st_int_ptr_def field_values_def nil_slice_def)

text \<open>Writing a default into the ceiling is what the fold would have done with the gap.\<close>

lemma default_int:
  assumes "(k, d) \<in> set browser_defaults"
  shows "minPositive (intIn (with_defaults obj) k) 0 d = minPositive (intIn obj k) 0 d"
    and "minPositivePtr (case lookup_set (with_defaults obj) k of None \<Rightarrow> None | Some v \<Rightarrow> un_int v) None d =
         minPositivePtr (case lookup_set obj k of None \<Rightarrow> None | Some v \<Rightarrow> un_int v) None d"
proof -
  have k: "k \<noteq> ''deny_hosts''" "map_of browser_defaults k = Some d" "0 < d" "int64 d"
    using assms by (auto simp: browser_defaults_def BrowserDefaultMaxPages_def BrowserDefaultMaxScreenshotBytes_def
      BrowserDefaultIdleTimeoutS_def BrowserDefaultMaxSessionMinutes_def BrowserDefaultMaxSessionsPerAgent_def int64_def)
  have g: "gm_get (with_defaults obj) k = (if lookup_set obj k = None then Some (JNum (Some d)) else gm_get obj k)"
    using k by (simp add: with_defaults_get)
  show "minPositive (intIn (with_defaults obj) k) 0 d = minPositive (intIn obj k) 0 d"
    using k g by (auto simp: intIn_def lookup_set_def un_int_def minPositive_def minSet2 split: option.splits json.splits)
  show "minPositivePtr (case lookup_set (with_defaults obj) k of None \<Rightarrow> None | Some v \<Rightarrow> un_int v) None d =
         minPositivePtr (case lookup_set obj k of None \<Rightarrow> None | Some v \<Rightarrow> un_int v) None d"
    using k g by (auto simp: lookup_set_def un_int_def minPositivePtr_def split: option.splits json.splits)
qed

lemma browser_fold_defaults:
  assumes "egress_object f raw = Inr (layer raw)" and "distinct_keys raw" and "validateBrowserShape f (layer raw) = []"
    and "egress_object f raw' = Inr (layer raw')" and "distinct_keys raw'" and "validateBrowserShape f (layer raw') = []"
    and "\<And>k. gm_get (layer raw') k = gm_get (with_defaults (layer raw)) k"
  shows "browser_EffectivePolicy cfg raw' RawEmpty = browser_EffectivePolicy cfg raw RawEmpty"
proof -
  have rd: "intIn (layer raw') k = intIn (with_defaults (layer raw)) k" "lookup_set (layer raw') k = lookup_set (with_defaults (layer raw)) k"
      "listIn (layer raw') k = listIn (with_defaults (layer raw)) k" for k
    by (simp_all add: intIn_def lookup_set_def listIn_def assms(7))
  have hosts: "listIn (with_defaults (layer raw)) ''deny_hosts'' = listIn (layer raw) ''deny_hosts''"
    by (auto simp: listIn_def with_defaults_get un_strings_def split: option.splits)
  have B: "browser_DefaultMaxPages = BrowserDefaultMaxPages" "browser_DefaultMaxScreenshotBytes = BrowserDefaultMaxScreenshotBytes"
      "browser_DefaultIdleTimeoutS = BrowserDefaultIdleTimeoutS" "browser_DefaultMaxSessionMinutes = BrowserDefaultMaxSessionMinutes"
      "browser_DefaultMaxSessionsPerAgent = BrowserDefaultMaxSessionsPerAgent"
    by (simp_all add: browser_DefaultMaxPages_def BrowserDefaultMaxPages_def browser_DefaultMaxScreenshotBytes_def BrowserDefaultMaxScreenshotBytes_def
        browser_DefaultIdleTimeoutS_def BrowserDefaultIdleTimeoutS_def browser_DefaultMaxSessionMinutes_def BrowserDefaultMaxSessionMinutes_def
        browser_DefaultMaxSessionsPerAgent_def BrowserDefaultMaxSessionsPerAgent_def)
  have D: "(''max_pages'', BrowserDefaultMaxPages) \<in> set browser_defaults" "(''max_screenshot_bytes'', BrowserDefaultMaxScreenshotBytes) \<in> set browser_defaults"
      "(''idle_timeout_s'', BrowserDefaultIdleTimeoutS) \<in> set browser_defaults" "(''max_session_minutes'', BrowserDefaultMaxSessionMinutes) \<in> set browser_defaults"
      "(''max_sessions_per_agent'', BrowserDefaultMaxSessionsPerAgent) \<in> set browser_defaults"
    by (simp_all add: browser_defaults_def)
  show ?thesis
    using browser_parse [OF assms(1-3)] browser_parse [OF assms(4-6)]
    by (cases "browser_parseConfig cfg") (simp_all add: browser_EffectivePolicy_def browser_parse_empty B rd hosts default_int(1) [OF D(1)] default_int(1) [OF D(2)] default_int(1) [OF D(3)]
        default_int(1) [OF D(4)] default_int(2) [OF D(5)] Let_def)
qed

text \<open>Normalising a browser ceiling gives a ceiling that validates, is its own normal form, and folds at the gateway to
  the same policy as the ceiling the administrator wrote.\<close>

theorem NormalizeBrowserCeiling_normal_form:
  assumes "NormalizeBrowserCeiling raw = Inr out"
  shows "ValidateBrowserCeiling (Raw out) = [] \<and> NormalizeBrowserCeiling (Raw out) = Inr out \<and>
    (distinct_keys raw \<longrightarrow> browser_EffectivePolicy cfg (Raw out) RawEmpty = browser_EffectivePolicy cfg raw RawEmpty)"
proof -
  note n = assms [unfolded NormalizeBrowserCeiling_iff]
  define obj where "obj = with_defaults (layer raw)"
  have d: "distinct (map fst obj)"
    using with_defaults_keys(2) layer_distinct n unfolding obj_def by (auto simp: browser_shape_Nil)
  note ml = Marshal_layer [OF d]
  have out: "out = Marshal_map obj" using n by (simp add: obj_def)
  have ds: "distinct (map fst (sort_key fst obj))" using d by (simp add: distinct_map inj_on_def)
  have get: "gm_get (sort_key fst obj) k = gm_get (with_defaults (layer raw)) k" for k using gm_get_sort [OF d] by (simp add: obj_def)
  have "validateBrowserShape ''policy_ceiling'' obj = []" using with_defaults_shape n by (simp add: obj_def)
  then have v: "validateBrowserShape ''policy_ceiling'' (sort_key fst obj) = []"
    using gm_get_sort [OF d] by (simp add: browser_shape_Nil)
  have "with_defaults (sort_key fst obj) = sort_key fst obj" by (rule with_defaults_idem [OF ds get])
  moreover have "sort_key fst (sort_key fst obj) = sort_key fst obj" by (simp add: sort_key_id_if_sorted)
  ultimately have "Marshal_map (with_defaults (sort_key fst obj)) = Marshal_map obj" by (simp add: Marshal_map_def)
  then have "NormalizeBrowserCeiling (Raw out) = Inr out"
    unfolding NormalizeBrowserCeiling_iff using ml v out by simp
  moreover have "ValidateBrowserCeiling (Raw out) = []" using ml v out by (simp add: ValidateBrowserCeiling_def)
  moreover have "browser_EffectivePolicy cfg (Raw out) RawEmpty = browser_EffectivePolicy cfg raw RawEmpty" if "distinct_keys raw"
    using n ml v out get ds by (intro browser_fold_defaults [OF _ that]) (simp_all add: distinct_keys_def Marshal_map_def)
  ultimately show ?thesis by blast
qed

theorem NormalizeBrowserCeiling_normal_form_witness:
  "NormalizeBrowserCeiling (Raw (JObj [(''max_pages'', JNum (Some 9)), (''idle_timeout_s'', JNull)])) =
     Inr (JObj [(''deny_hosts'', JArr []), (''idle_timeout_s'', JNum (Some 600)), (''max_pages'', JNum (Some 9)),
       (''max_screenshot_bytes'', JNum (Some 2097152)), (''max_session_minutes'', JNum (Some 30)), (''max_sessions_per_agent'', JNum (Some 1))]) \<and>
   ValidateBrowserCeiling (Raw (JObj [(''deny_hosts'', JArr []), (''idle_timeout_s'', JNum (Some 600)), (''max_pages'', JNum (Some 9)),
       (''max_screenshot_bytes'', JNum (Some 2097152)), (''max_session_minutes'', JNum (Some 30)), (''max_sessions_per_agent'', JNum (Some 1))])) = []"
proof -
  have "NormalizeBrowserCeiling (Raw (JObj [(''max_pages'', JNum (Some 9)), (''idle_timeout_s'', JNull)])) =
     Inr (JObj [(''deny_hosts'', JArr []), (''idle_timeout_s'', JNum (Some 600)), (''max_pages'', JNum (Some 9)),
       (''max_screenshot_bytes'', JNum (Some 2097152)), (''max_session_minutes'', JNum (Some 30)), (''max_sessions_per_agent'', JNum (Some 1))])"
    by code_simp
  with NormalizeBrowserCeiling_normal_form [OF this] show ?thesis by blast
qed

end
