(* ===== verification/Registry_Store.thy ===== *)
theory Registry_Store
  imports Squad_Store
begin

text \<open>
  The registry half of \<^verbatim>\<open>storage/memory.go\<close>: squad access grants, AI providers and models, per-user
  model grants, tool resources, agent permissions and the audit log. Clones are value copies here, since a
  record has no identity; a method that edits the stored pointer puts the edited row back under its key.
\<close>

section \<open>Squad access grants\<close>

definition grantAllows :: "string \<Rightarrow> string \<Rightarrow> bool" where
  "grantAllows permissions0 action0 =
     (let action = TrimSpace (ToLower action0)
      in list_ex (\<lambda>part. let permission = TrimSpace (ToLower part)
                         in permission = ''*'' \<or> permission = ''admin'' \<or> permission = action \<or>
                            (action = ''ping'' \<and> permission = ''talk''))
           (Split_on (CHR '','') permissions0))"

definition CreateGrant :: "AccessGrant \<Rightarrow> MemoryStore \<Rightarrow> AccessGrant res \<times> MemoryStore" where
  "CreateGrant g s =
     (if gm_get (squads s) (AG_SquadID g) = None then (Inl ErrNotFound, s)
      else if list_ex (\<lambda>e. AG_SquadID e = AG_SquadID g \<and> AG_GranteeType e = AG_GranteeType g \<and> AG_GranteeID e = AG_GranteeID g)
                (gm_vals (grants s)) then (Inl ErrConflict, s)
      else let (nid, s1) = NewString s; created = g\<lparr>AG_ID := nid, AG_CreatedAt := env_now s\<rparr>
           in (Inr created, s1\<lparr>grants := gm_put nid created (grants s1)\<rparr>))"

definition GetGrant :: "string \<Rightarrow> MemoryStore \<Rightarrow> AccessGrant res" where
  "GetGrant gid s = (case gm_get (grants s) gid of None \<Rightarrow> Inl ErrNotFound | Some g \<Rightarrow> Inr g)"

definition RevokeGrant :: "string \<Rightarrow> MemoryStore \<Rightarrow> unit res \<times> MemoryStore" where
  "RevokeGrant gid s =
     (case gm_get (grants s) gid of None \<Rightarrow> (Inl ErrNotFound, s)
      | Some g \<Rightarrow> (Inr (), s\<lparr>grants := gm_del gid (grants s)\<rparr>))"

definition ListGrants :: "string \<Rightarrow> MemoryStore \<Rightarrow> AccessGrant list" where
  "ListGrants squadID s = sort_by (cmp_on AG_ID) (filter (\<lambda>g. AG_SquadID g = squadID) (gm_vals (grants s)))"

definition UserMayAccessSquad :: "string \<Rightarrow> string \<Rightarrow> string \<Rightarrow> MemoryStore \<Rightarrow> bool" where
  "UserMayAccessSquad userID squadID action s \<longleftrightarrow>
     squad_owner s squadID = Some userID \<or>
     list_ex (\<lambda>g. AG_SquadID g = squadID \<and> AG_GranteeType g = GranteeUser \<and> AG_GranteeID g = userID \<and>
                  grantAllows (AG_Permissions g) action) (gm_vals (grants s))"

definition AgentMayMessageSquad :: "string \<Rightarrow> string \<Rightarrow> string \<Rightarrow> MemoryStore \<Rightarrow> bool" where
  "AgentMayMessageSquad agentID squadID action s \<longleftrightarrow>
     list_ex (\<lambda>g. AG_SquadID g = squadID \<and> AG_GranteeType g = GranteeAgent \<and> AG_GranteeID g = agentID \<and>
                  grantAllows (AG_Permissions g) action) (gm_vals (grants s))"

section \<open>AI providers\<close>

definition CreateAIProvider :: "AIProvider \<Rightarrow> MemoryStore \<Rightarrow> AIProvider res \<times> MemoryStore" where
  "CreateAIProvider p s =
     (if list_ex (\<lambda>e. EqualFold (Prov_Name e) (Prov_Name p)) (gm_vals (aiProviders s)) then (Inl ErrConflict, s)
      else let (nid, s1) = NewString s;
               created = p\<lparr>Prov_ID := nid, Prov_Status := (if Prov_Status p = [] then ResourceActive else Prov_Status p),
                           Prov_CreatedAt := env_now s\<rparr>
           in (Inr created, drainPendingAuditsLocked nid (s1\<lparr>aiProviders := gm_put nid created (aiProviders s1)\<rparr>)))"

definition GetAIProvider :: "string \<Rightarrow> MemoryStore \<Rightarrow> AIProvider res" where
  "GetAIProvider pid s = (case gm_get (aiProviders s) pid of None \<Rightarrow> Inl ErrNotFound | Some p \<Rightarrow> Inr p)"

definition UpdateAIProvider :: "AIProvider \<Rightarrow> MemoryStore \<Rightarrow> AIProvider res \<times> MemoryStore" where
  "UpdateAIProvider p s =
     (case gm_get (aiProviders s) (Prov_ID p) of None \<Rightarrow> (Inl ErrNotFound, s)
      | Some existing \<Rightarrow>
          if list_ex (\<lambda>other. Prov_ID other \<noteq> Prov_ID p \<and> EqualFold (Prov_Name other) (Prov_Name p)) (gm_vals (aiProviders s))
          then (Inl ErrConflict, s)
          else let updated = p\<lparr>Prov_RegisteredBy := Prov_RegisteredBy existing, Prov_CreatedAt := Prov_CreatedAt existing\<rparr>
               in (Inr updated, drainPendingAuditsLocked (Prov_ID p) (s\<lparr>aiProviders := gm_put (Prov_ID p) updated (aiProviders s)\<rparr>)))"

definition DeprecateAIProvider :: "string \<Rightarrow> MemoryStore \<Rightarrow> unit res \<times> MemoryStore" where
  "DeprecateAIProvider pid s =
     (case gm_get (aiProviders s) pid of None \<Rightarrow> (Inl ErrNotFound, s)
      | Some p \<Rightarrow> (Inr (), drainPendingAuditsLocked pid
                     (s\<lparr>aiProviders := gm_put pid (p\<lparr>Prov_Status := ResourceDeprecated\<rparr>) (aiProviders s)\<rparr>)))"

definition DeleteAIProvider :: "string \<Rightarrow> MemoryStore \<Rightarrow> unit res \<times> MemoryStore" where
  "DeleteAIProvider pid s =
     (case gm_get (aiProviders s) pid of None \<Rightarrow> (Inl ErrNotFound, s)
      | Some p \<Rightarrow>
          if list_ex (\<lambda>model. Mod_ProviderID model = pid) (gm_vals (aiModels s)) then (Inl ErrConflict, s)
          else (Inr (), drainPendingAuditsLocked pid
                  (s\<lparr>aiProviders := gm_del pid (aiProviders s),
                     permissions := gm_delete_if (\<lambda>perm. AP_ResourceType perm = ResAIProvider \<and> AP_ResourceID perm = pid)
                                      (permissions s)\<rparr>)))"

definition ListAIProviders :: "MemoryStore \<Rightarrow> AIProvider list" where
  "ListAIProviders s = sort_by (cmp_on Prov_Name) (gm_vals (aiProviders s))"

section \<open>AI models\<close>

definition CreateAIModel :: "AIModel \<Rightarrow> MemoryStore \<Rightarrow> AIModel res \<times> MemoryStore" where
  "CreateAIModel model s =
     (if gm_get (aiProviders s) (Mod_ProviderID model) = None then (Inl ErrNotFound, s)
      else if list_ex (\<lambda>e. Mod_ProviderID e = Mod_ProviderID model \<and> Mod_ModelName e = Mod_ModelName model)
                (gm_vals (aiModels s)) then (Inl ErrConflict, s)
      else let (nid, s1) = NewString s;
               created = model\<lparr>Mod_ID := nid, Mod_Status := (if Mod_Status model = [] then ResourceActive else Mod_Status model),
                               Mod_Pricing := (if Mod_Pricing model = [] then ''{}'' else Mod_Pricing model),
                               Mod_CreatedAt := env_now s\<rparr>
           in (Inr created, drainPendingAuditsLocked nid (s1\<lparr>aiModels := gm_put nid created (aiModels s1)\<rparr>)))"

definition GetAIModel :: "string \<Rightarrow> MemoryStore \<Rightarrow> AIModel res" where
  "GetAIModel mid s = (case gm_get (aiModels s) mid of None \<Rightarrow> Inl ErrNotFound | Some v \<Rightarrow> Inr v)"

definition ListAIModels :: "string \<Rightarrow> MemoryStore \<Rightarrow> AIModel list" where
  "ListAIModels status s =
     sort_by (cmp_on Mod_DisplayName) (filter (\<lambda>v. status = [] \<or> Mod_Status v = status) (gm_vals (aiModels s)))"

definition UpdateAIModel :: "AIModel \<Rightarrow> MemoryStore \<Rightarrow> AIModel res \<times> MemoryStore" where
  "UpdateAIModel model s =
     (case gm_get (aiModels s) (Mod_ID model) of None \<Rightarrow> (Inl ErrNotFound, s)
      | Some existing \<Rightarrow>
          if gm_get (aiProviders s) (Mod_ProviderID model) = None then (Inl ErrNotFound, s)
          else if list_ex (\<lambda>other. Mod_ID other \<noteq> Mod_ID model \<and> Mod_ProviderID other = Mod_ProviderID model \<and>
                                   Mod_ModelName other = Mod_ModelName model) (gm_vals (aiModels s)) then (Inl ErrConflict, s)
          else let updated = model\<lparr>Mod_RegisteredBy := Mod_RegisteredBy existing, Mod_CreatedAt := Mod_CreatedAt existing,
                                   Mod_UpdatedAt := env_now s\<rparr>
               in (Inr updated, drainPendingAuditsLocked (Mod_ID model) (s\<lparr>aiModels := gm_put (Mod_ID model) updated (aiModels s)\<rparr>)))"

definition DeprecateAIModel :: "string \<Rightarrow> MemoryStore \<Rightarrow> unit res \<times> MemoryStore" where
  "DeprecateAIModel mid s =
     (case gm_get (aiModels s) mid of None \<Rightarrow> (Inl ErrNotFound, s)
      | Some v \<Rightarrow> (Inr (), drainPendingAuditsLocked mid
          (s\<lparr>aiModels := gm_put mid (v\<lparr>Mod_Status := ResourceDeprecated, Mod_UpdatedAt := env_now s\<rparr>) (aiModels s)\<rparr>)))"

definition SetAIModelGatewayKeyFingerprint :: "string \<Rightarrow> string \<Rightarrow> MemoryStore \<Rightarrow> unit res \<times> MemoryStore" where
  "SetAIModelGatewayKeyFingerprint mid fingerprint s =
     (case gm_get (aiModels s) mid of None \<Rightarrow> (Inl ErrNotFound, s)
      | Some v \<Rightarrow> (Inr (), s\<lparr>aiModels := gm_put mid (v\<lparr>Mod_GatewayKeyFingerprint := fingerprint,
                                                      Mod_UpdatedAt := env_now s\<rparr>) (aiModels s)\<rparr>))"

definition grantPairKey :: "string \<Rightarrow> string \<Rightarrow> string" where
  "grantPairKey userID aiModelID = userID @ ''|'' @ aiModelID"

text \<open>The cascade loop of the delete: the user grants of the model go, with their index entries.\<close>

definition drop_model_grants :: "string \<Rightarrow> MemoryStore \<Rightarrow> MemoryStore" where
  "drop_model_grants mid s =
     s\<lparr>userModelGrants := gm_delete_if (\<lambda>g. UMG_AIModelID g = mid) (userModelGrants s),
       grantPair := fold (\<lambda>g. gm_del (grantPairKey (UMG_GranteeUserID g) (UMG_AIModelID g)))
                      (filter (\<lambda>g. UMG_AIModelID g = mid) (gm_vals (userModelGrants s))) (grantPair s)\<rparr>"

definition DeleteAIModel :: "string \<Rightarrow> MemoryStore \<Rightarrow> unit res \<times> MemoryStore" where
  "DeleteAIModel mid s =
     (case gm_get (aiModels s) mid of None \<Rightarrow> (Inl ErrNotFound, s)
      | Some v \<Rightarrow>
          if list_ex (\<lambda>a. Agent_AIModelID a = mid \<or> Agent_FallbackAIModelID a = mid) (gm_vals (agents s))
          then (Inl ErrConflict, s)
          else (Inr (), drainPendingAuditsLocked mid (drop_model_grants mid (s\<lparr>aiModels := gm_del mid (aiModels s)\<rparr>))))"

section \<open>User model grants\<close>

definition GrantModelToUser :: "UserModelGrant \<Rightarrow> MemoryStore \<Rightarrow> UserModelGrant res \<times> MemoryStore" where
  "GrantModelToUser g s =
     (if gm_get (users s) (UMG_GranteeUserID g) = None then (Inl ErrNotFound, s)
      else if gm_get (aiModels s) (UMG_AIModelID g) = None then (Inl ErrNotFound, s)
      else
        let key = grantPairKey (UMG_GranteeUserID g) (UMG_AIModelID g);
            gid = (case gm_get (grantPair s) key of None \<Rightarrow> [] | Some i \<Rightarrow> i)
        in if gm_get (userModelGrants s) gid \<noteq> None then (Inl ErrConflict, s)
           else let (nid, s1) = NewString s; created = g\<lparr>UMG_ID := nid, UMG_CreatedAt := env_now s\<rparr>
                in (Inr created, drainPendingAuditsLocked nid
                      (s1\<lparr>userModelGrants := gm_put nid created (userModelGrants s1), grantPair := gm_put key nid (grantPair s1)\<rparr>)))"

definition RevokeModelFromUser :: "string \<Rightarrow> string \<Rightarrow> MemoryStore \<Rightarrow> unit res \<times> MemoryStore" where
  "RevokeModelFromUser userID aiModelID s =
     (let key = grantPairKey userID aiModelID
      in case gm_get (grantPair s) key of None \<Rightarrow> (Inl ErrNotFound, s)
         | Some gid \<Rightarrow> (Inr (), drainPendingAuditsLocked gid
             (s\<lparr>userModelGrants := gm_del gid (userModelGrants s), grantPair := gm_del key (grantPair s)\<rparr>)))"

definition cmp_user_model_grant :: "UserModelGrant \<Rightarrow> UserModelGrant \<Rightarrow> int" where
  "cmp_user_model_grant a b =
     (if UMG_CreatedAt a < UMG_CreatedAt b then -1 else if UMG_CreatedAt b < UMG_CreatedAt a then 1
      else str_cmp (UMG_ID a) (UMG_ID b))"

definition sortUserModelGrants :: "UserModelGrant list \<Rightarrow> UserModelGrant list" where
  "sortUserModelGrants gs = sort_by cmp_user_model_grant gs"

definition ListUserModelGrants :: "string \<Rightarrow> MemoryStore \<Rightarrow> UserModelGrant list" where
  "ListUserModelGrants userID s = sortUserModelGrants (filter (\<lambda>g. UMG_GranteeUserID g = userID) (gm_vals (userModelGrants s)))"

definition ListUsersGrantedModel :: "string \<Rightarrow> MemoryStore \<Rightarrow> UserModelGrant list" where
  "ListUsersGrantedModel aiModelID s = sortUserModelGrants (filter (\<lambda>g. UMG_AIModelID g = aiModelID) (gm_vals (userModelGrants s)))"

section \<open>Tool resources\<close>

definition CreateResource :: "RegistryResource \<Rightarrow> MemoryStore \<Rightarrow> RegistryResource res \<times> MemoryStore" where
  "CreateResource r s =
     (if list_ex (\<lambda>e. Res_Type e = Res_Type r \<and> EqualFold (Res_Name e) (Res_Name r)) (gm_vals (resources s))
      then (Inl ErrConflict, s)
      else let (nid, s1) = NewString s;
               created = r\<lparr>Res_ID := nid, Res_Type := CanonicalResourceType (Res_Type r),
                           Res_Status := (if Res_Status r = [] then ResourceActive else Res_Status r),
                           Res_RiskTier := (if Res_RiskTier r = [] then ''low'' else Res_RiskTier r),
                           Res_EgressClass := (if Res_EgressClass r = [] then ''public'' else Res_EgressClass r),
                           Res_EndpointConfig := (if Res_EndpointConfig r = [] then ''{}'' else Res_EndpointConfig r),
                           Res_PolicyCeiling := (if Res_PolicyCeiling r = [] then ''{}'' else Res_PolicyCeiling r),
                           Res_CreatedAt := env_now s\<rparr>
           in (Inr created, drainPendingAuditsLocked nid (s1\<lparr>resources := gm_put nid created (resources s1)\<rparr>)))"

definition GetResource :: "string \<Rightarrow> string \<Rightarrow> MemoryStore \<Rightarrow> RegistryResource res" where
  "GetResource typ rid s =
     (case gm_get (resources s) rid of None \<Rightarrow> Inl ErrNotFound
      | Some r \<Rightarrow> if Res_Type r \<noteq> CanonicalResourceType typ then Inl ErrNotFound else Inr r)"

definition GetResourceByID :: "string \<Rightarrow> MemoryStore \<Rightarrow> RegistryResource res" where
  "GetResourceByID rid s = (case gm_get (resources s) rid of None \<Rightarrow> Inl ErrNotFound | Some r \<Rightarrow> Inr r)"

definition UpdateResource :: "RegistryResource \<Rightarrow> MemoryStore \<Rightarrow> RegistryResource res \<times> MemoryStore" where
  "UpdateResource r s =
     (case GetResource (Res_Type r) (Res_ID r) s of Inl e \<Rightarrow> (Inl e, s)
      | Inr existing \<Rightarrow>
          if list_ex (\<lambda>other. Res_ID other \<noteq> Res_ID r \<and> Res_Type other = Res_Type existing \<and> EqualFold (Res_Name other) (Res_Name r))
               (gm_vals (resources s)) then (Inl ErrConflict, s)
          else let updated = r\<lparr>Res_Type := Res_Type existing, Res_RegisteredBy := Res_RegisteredBy existing,
                               Res_CreatedAt := Res_CreatedAt existing\<rparr>
               in (Inr updated, drainPendingAuditsLocked (Res_ID r) (s\<lparr>resources := gm_put (Res_ID r) updated (resources s)\<rparr>)))"

definition DeprecateResource :: "string \<Rightarrow> string \<Rightarrow> MemoryStore \<Rightarrow> unit res \<times> MemoryStore" where
  "DeprecateResource typ rid s =
     (case GetResource typ rid s of Inl e \<Rightarrow> (Inl e, s)
      | Inr r \<Rightarrow> (Inr (), drainPendingAuditsLocked rid
                   (s\<lparr>resources := gm_put rid (r\<lparr>Res_Status := ResourceDeprecated\<rparr>) (resources s)\<rparr>)))"

definition DeleteResource :: "string \<Rightarrow> string \<Rightarrow> MemoryStore \<Rightarrow> unit res \<times> MemoryStore" where
  "DeleteResource typ rid s =
     (case GetResource typ rid s of Inl e \<Rightarrow> (Inl e, s)
      | Inr r \<Rightarrow>
          let canon = CanonicalResourceType typ
          in (Inr (), drainPendingAuditsLocked rid
                (s\<lparr>resources := gm_del rid (resources s),
                   permissions := gm_delete_if (\<lambda>perm. AP_ResourceType perm = canon \<and> AP_ResourceID perm = rid) (permissions s)\<rparr>)))"

definition ListResources :: "string \<Rightarrow> MemoryStore \<Rightarrow> RegistryResource list" where
  "ListResources typ s =
     sort_by (cmp_on Res_Name) (filter (\<lambda>r. Res_Type r = CanonicalResourceType typ) (gm_vals (resources s)))"

section \<open>Agent permissions\<close>

definition permissionKey :: "string \<Rightarrow> string \<Rightarrow> string \<Rightarrow> string" where
  "permissionKey agentID typ resourceID = agentID @ '':'' @ typ @ '':'' @ resourceID"

definition fresh_permission :: "string \<Rightarrow> instant \<Rightarrow> AgentPermission \<Rightarrow> AgentPermission" where
  "fresh_permission nid now p =
     p\<lparr>AP_ID := nid, AP_ResourceType := CanonicalResourceType (AP_ResourceType p),
       AP_Constraints := (if AP_Constraints p = [] then ''{}'' else AP_Constraints p), AP_CreatedAt := now\<rparr>"

definition GrantAgentPermission :: "AgentPermission \<Rightarrow> MemoryStore \<Rightarrow> unit res \<times> MemoryStore" where
  "GrantAgentPermission p s =
     (if gm_get (agents s) (AP_AgentID p) = None then (Inl ErrNotFound, s)
      else
        let key = permissionKey (AP_AgentID p) (CanonicalResourceType (AP_ResourceType p)) (AP_ResourceID p)
        in if gm_get (permissions s) key \<noteq> None then (Inr (), s)
           else let (nid, s1) = NewString s
                in (Inr (), s1\<lparr>permissions := gm_put key (fresh_permission nid (env_now s) p) (permissions s1)\<rparr>))"

definition RevokeAgentPermission :: "string \<Rightarrow> string \<Rightarrow> string \<Rightarrow> MemoryStore \<Rightarrow> unit res \<times> MemoryStore" where
  "RevokeAgentPermission agentID typ resourceID s =
     (if gm_get (agents s) agentID = None then (Inl ErrNotFound, s)
      else (Inr (), s\<lparr>permissions := gm_del (permissionKey agentID (CanonicalResourceType typ) resourceID) (permissions s)\<rparr>))"

definition cmp_permission :: "AgentPermission \<Rightarrow> AgentPermission \<Rightarrow> int" where
  "cmp_permission a b =
     (if AP_ResourceType a \<noteq> AP_ResourceType b then str_cmp (AP_ResourceType a) (AP_ResourceType b)
      else str_cmp (AP_ResourceID a) (AP_ResourceID b))"

definition ListAgentPermissions :: "string \<Rightarrow> MemoryStore \<Rightarrow> AgentPermission list res" where
  "ListAgentPermissions agentID s =
     (if gm_get (agents s) agentID = None then Inl ErrNotFound
      else Inr (sort_by cmp_permission (filter (\<lambda>p. AP_AgentID p = agentID) (gm_vals (permissions s)))))"

definition ListPermissionsByResource :: "string \<Rightarrow> string \<Rightarrow> MemoryStore \<Rightarrow> AgentPermission list" where
  "ListPermissionsByResource typ resourceID s =
     sort_by (cmp_on AP_AgentID)
       (filter (\<lambda>p. AP_ResourceType p = CanonicalResourceType typ \<and> AP_ResourceID p = resourceID) (gm_vals (permissions s)))"

definition put_permission :: "string \<Rightarrow> AgentPermission \<Rightarrow> MemoryStore \<Rightarrow> MemoryStore" where
  "put_permission agentID perm s =
     (let (nid, s1) = NewString s; created = fresh_permission nid (env_now s) (perm\<lparr>AP_AgentID := agentID\<rparr>)
      in s1\<lparr>permissions := gm_put (permissionKey agentID (AP_ResourceType created) (AP_ResourceID created)) created (permissions s1)\<rparr>)"

definition SetAgentPermissions :: "string \<Rightarrow> AgentPermission list \<Rightarrow> MemoryStore \<Rightarrow> unit res \<times> MemoryStore" where
  "SetAgentPermissions agentID perms s =
     (case gm_get (agents s) agentID of None \<Rightarrow> (Inl ErrNotFound, s)
      | Some a \<Rightarrow>
          let s1 = s\<lparr>permissions := gm_delete_if (\<lambda>p. AP_AgentID p = agentID) (permissions s)\<rparr>;
              s2 = fold (put_permission agentID) perms s1
          in (Inr (), enqueueAgentOutboxLocked KubernetesOpUpsertAgent a s2))"

definition AgentHasPermission :: "string \<Rightarrow> string \<Rightarrow> string \<Rightarrow> MemoryStore \<Rightarrow> bool res" where
  "AgentHasPermission agentID typ resourceID s =
     (if gm_get (agents s) agentID = None then Inl ErrNotFound
      else Inr (gm_get (permissions s) (permissionKey agentID (CanonicalResourceType typ) resourceID) \<noteq> None))"

section \<open>The audit log\<close>

definition RecordAudit :: "AuditEntry \<Rightarrow> MemoryStore \<Rightarrow> MemoryStore" where
  "RecordAudit entry s =
     (let (nid, s1) = NewString s;
          created = entry\<lparr>AE_ID := nid, AE_Metadata := (if AE_Metadata entry = [] then ''{}'' else AE_Metadata entry),
                          AE_Timestamp := (if AE_Timestamp entry = 0 then env_now s else AE_Timestamp entry)\<rparr>
      in s1\<lparr>auditLog := gm_put nid created (auditLog s1)\<rparr>)"

definition cmp_audit :: "AuditEntry \<Rightarrow> AuditEntry \<Rightarrow> int" where
  "cmp_audit a b =
     (if AE_Timestamp a \<noteq> AE_Timestamp b then (if AE_Timestamp b < AE_Timestamp a then -1 else 1)
      else str_cmp (AE_ID a) (AE_ID b))"

definition ListAudit :: "string \<Rightarrow> int \<Rightarrow> MemoryStore \<Rightarrow> AuditEntry list" where
  "ListAudit squadID limit0 s =
     (let limit = (if limit0 \<le> 0 then 100 else limit0)
      in take (nat limit) (sort_by cmp_audit (filter (\<lambda>e. squadID = [] \<or> AE_SquadID e = squadID) (gm_vals (auditLog s)))))"

definition DeleteAuditByActionBefore :: "string \<Rightarrow> instant \<Rightarrow> MemoryStore \<Rightarrow> nat \<times> MemoryStore" where
  "DeleteAuditByActionBefore action cutoff s =
     (let old = (\<lambda>e. AE_Action e = action \<and> AE_Timestamp e < cutoff)
      in (length (filter old (gm_vals (auditLog s))), s\<lparr>auditLog := gm_delete_if old (auditLog s)\<rparr>))"

text \<open>Recording an entry is the row the drain of a pending entry writes when the method names no resource.\<close>

lemma RecordAudit_drain: "RecordAudit entry s = record_audit [] entry s"
  by (simp add: RecordAudit_def record_audit_def audit_row_def Let_def split_def NewString_def)

end
