(* ===== verification/Registry_Laws.thy ===== *)
theory Registry_Laws
  imports Registry_Store
begin

text \<open>
  What the registry guarantees over arbitrary runs: models keep their provider, names stay unique, the index
  of user model grants and the keys of agent permissions describe exactly the rows, and deletion cascades.
\<close>

section \<open>Keys built from identifiers\<close>

text \<open>What the code relies on of \<^verbatim>\<open>uuid.NewString\<close>: identifiers differ, are not empty and contain neither of the
  separators of the composed keys.\<close>

definition uuid_shape :: "(nat \<Rightarrow> string) \<Rightarrow> bool" where
  "uuid_shape u \<longleftrightarrow> inj u \<and> (\<forall>n. u n \<noteq> [] \<and> CHR ''|'' \<notin> set (u n) \<and> CHR '':'' \<notin> set (u n))"

lemma grantPairKey_inj:
  "CHR ''|'' \<notin> set u \<Longrightarrow> CHR ''|'' \<notin> set u' \<Longrightarrow> grantPairKey u m = grantPairKey u' m' \<longleftrightarrow> u = u' \<and> m = m'"
  using split_at_first [of "CHR ''|''" u u' m m'] by (auto simp: grantPairKey_def)

lemma permissionKey_inj:
  assumes "CHR '':'' \<notin> set a" and "CHR '':'' \<notin> set a'" and "CHR '':'' \<notin> set t" and "CHR '':'' \<notin> set t'"
  shows "permissionKey a t r = permissionKey a' t' r' \<longleftrightarrow> a = a' \<and> t = t' \<and> r = r'"
  using split_at_first [OF assms(1,2), of "t @ '':'' @ r" "t' @ '':'' @ r'"] split_at_first [OF assms(3,4), of r r']
  by (auto simp: permissionKey_def)

section \<open>The invariant\<close>

definition same_provider :: "AIProvider \<Rightarrow> AIProvider \<Rightarrow> bool" where
  "same_provider a b \<longleftrightarrow> EqualFold (Prov_Name a) (Prov_Name b)"

definition same_model :: "AIModel \<Rightarrow> AIModel \<Rightarrow> bool" where
  "same_model a b \<longleftrightarrow> Mod_ProviderID a = Mod_ProviderID b \<and> Mod_ModelName a = Mod_ModelName b"

definition accounts_ok :: "MemoryStore \<Rightarrow> bool" where
  "accounts_ok s \<longleftrightarrow> uuid_shape (env_uuid s) \<and> (\<forall>k. gm_get (users s) k \<noteq> None \<longrightarrow> issued s k) \<and>
     (\<forall>k. gm_get (agents s) k \<noteq> None \<longrightarrow> issued s k)"

definition catalogue_ok :: "MemoryStore \<Rightarrow> bool" where
  "catalogue_ok s \<longleftrightarrow> gm_wf (aiProviders s) \<and> gm_wf (aiModels s) \<and>
     (\<forall>k p. gm_get (aiProviders s) k = Some p \<longrightarrow> Prov_ID p = k) \<and>
     (\<forall>k m. gm_get (aiModels s) k = Some m \<longrightarrow> Mod_ID m = k \<and> gm_get (aiProviders s) (Mod_ProviderID m) \<noteq> None) \<and>
     unique_by same_provider (gm_get (aiProviders s)) \<and> unique_by same_model (gm_get (aiModels s))"

definition pair_of :: "UserModelGrant \<Rightarrow> string" where
  "pair_of g = grantPairKey (UMG_GranteeUserID g) (UMG_AIModelID g)"

definition model_grants_ok :: "MemoryStore \<Rightarrow> bool" where
  "model_grants_ok s \<longleftrightarrow> gm_wf (userModelGrants s) \<and>
     (\<forall>k g. gm_get (userModelGrants s) k = Some g \<longrightarrow> UMG_ID g = k \<and> issued s k \<and> issued s (UMG_GranteeUserID g) \<and>
        gm_get (users s) (UMG_GranteeUserID g) \<noteq> None \<and> gm_get (aiModels s) (UMG_AIModelID g) \<noteq> None \<and> gm_get (grantPair s) (pair_of g) = Some k) \<and>
     (\<forall>key k. gm_get (grantPair s) key = Some k \<longrightarrow> (\<exists>g. gm_get (userModelGrants s) k = Some g \<and> pair_of g = key))"

definition perm_key :: "AgentPermission \<Rightarrow> string" where
  "perm_key p = permissionKey (AP_AgentID p) (AP_ResourceType p) (AP_ResourceID p)"

definition permissions_ok :: "MemoryStore \<Rightarrow> bool" where
  "permissions_ok s \<longleftrightarrow> gm_wf (permissions s) \<and>
     (\<forall>k p. gm_get (permissions s) k = Some p \<longrightarrow> perm_key p = k \<and> AP_ResourceType p \<noteq> ResAPI \<and>
        CHR '':'' \<notin> set (AP_AgentID p) \<and> CHR '':'' \<notin> set (AP_ResourceType p))"

definition resources_ok :: "MemoryStore \<Rightarrow> bool" where
  "resources_ok s \<longleftrightarrow> gm_wf (resources s) \<and>
     (\<forall>k r. gm_get (resources s) k = Some r \<longrightarrow> Res_ID r = k \<and> Res_Type r \<noteq> ResAPI)"

definition registry_inv :: "MemoryStore \<Rightarrow> bool" where
  "registry_inv s \<longleftrightarrow> accounts_ok s \<and> catalogue_ok s \<and> model_grants_ok s \<and> permissions_ok s \<and> resources_ok s"

lemmas registry_parts = accounts_ok_def catalogue_ok_def model_grants_ok_def permissions_ok_def resources_ok_def

lemma catalogue_okD:
  assumes "catalogue_ok s"
  shows "gm_wf (aiProviders s)" and "gm_wf (aiModels s)" and "gm_get (aiProviders s) k = Some p \<Longrightarrow> Prov_ID p = k"
    and "gm_get (aiModels s) k = Some m \<Longrightarrow> Mod_ID m = k"
    and "gm_get (aiModels s) k = Some m \<Longrightarrow> gm_get (aiProviders s) (Mod_ProviderID m) \<noteq> None"
    and "unique_by same_provider (gm_get (aiProviders s))" and "unique_by same_model (gm_get (aiModels s))"
  using assms unfolding catalogue_ok_def by blast+

lemma model_grants_okD:
  assumes "model_grants_ok s"
  shows "gm_wf (userModelGrants s)" and "gm_get (userModelGrants s) k = Some g \<Longrightarrow> UMG_ID g = k"
    and "gm_get (userModelGrants s) k = Some g \<Longrightarrow> issued s k"
    and "gm_get (userModelGrants s) k = Some g \<Longrightarrow> issued s (UMG_GranteeUserID g)"
    and "gm_get (userModelGrants s) k = Some g \<Longrightarrow> gm_get (aiModels s) (UMG_AIModelID g) \<noteq> None"
    and "gm_get (userModelGrants s) k = Some g \<Longrightarrow> gm_get (grantPair s) (pair_of g) = Some k"
    and "gm_get (grantPair s) key = Some k \<Longrightarrow> \<exists>g. gm_get (userModelGrants s) k = Some g \<and> pair_of g = key"
    and "gm_get (userModelGrants s) k = Some g \<Longrightarrow> gm_get (users s) (UMG_GranteeUserID g) \<noteq> None"
  using assms unfolding model_grants_ok_def by blast+

text \<open>An identifier that was drawn has the shape of one.\<close>

lemma issued_shape: "uuid_shape (env_uuid s) \<Longrightarrow> issued s k \<Longrightarrow> k \<noteq> [] \<and> CHR ''|'' \<notin> set k \<and> CHR '':'' \<notin> set k"
  by (auto simp: uuid_shape_def issued_def)

lemma pair_of_inj:
  assumes "uuid_shape (env_uuid s)" and "issued s (UMG_GranteeUserID g)" and "issued s u"
  shows "pair_of g = grantPairKey u m \<longleftrightarrow> UMG_GranteeUserID g = u \<and> UMG_AIModelID g = m"
  using issued_shape [OF assms(1,2)] issued_shape [OF assms(1,3)] by (simp add: pair_of_def grantPairKey_inj)

lemma fresh_umg:
  assumes "accounts_ok s" and "model_grants_ok s" and "env_ctr s \<le> n"
  shows "gm_get (userModelGrants s) (env_uuid s n) = None"
  using not_issued_next [of s n] assms model_grants_okD(3) [OF assms(2)]
  by (cases "gm_get (userModelGrants s) (env_uuid s n)") (auto simp: accounts_ok_def uuid_shape_def)

text \<open>Each part reads a few fields only.\<close>

lemma accounts_frame:
  assumes "accounts_ok s" and "\<And>k. gm_get (users t) k \<noteq> None \<Longrightarrow> gm_get (users s) k \<noteq> None \<or> issued t k"
    and "\<And>k. gm_get (agents t) k \<noteq> None \<Longrightarrow> gm_get (agents s) k \<noteq> None \<or> issued t k"
    and "env_uuid t = env_uuid s" and "env_ctr s \<le> env_ctr t"
  shows "accounts_ok t"
  using assms issued_mono [of s _ t] unfolding accounts_ok_def by metis

lemma registry_frame:
  assumes "registry_inv s" and "\<And>k. gm_get (users t) k \<noteq> None \<Longrightarrow> gm_get (users s) k \<noteq> None \<or> issued t k"
    and "\<And>k. gm_get (agents t) k \<noteq> None \<Longrightarrow> gm_get (agents s) k \<noteq> None \<or> issued t k"
    and "aiProviders t = aiProviders s" and "aiModels t = aiModels s" and "userModelGrants t = userModelGrants s"
    and "grantPair t = grantPair s" and "resources t = resources s" and "permissions t = permissions s"
    and "env_uuid t = env_uuid s" and "env_ctr s \<le> env_ctr t" and "\<And>k. gm_get (users s) k \<noteq> None \<Longrightarrow> gm_get (users t) k \<noteq> None"
  shows "registry_inv t"
proof -
  have "accounts_ok t" using accounts_frame [of s t] assms by (simp add: registry_inv_def)
  moreover have "model_grants_ok t" using assms issued_mono [of s _ t]
    by (auto simp: registry_inv_def model_grants_ok_def)
  ultimately show ?thesis using assms by (simp add: registry_inv_def registry_parts)
qed

lemma registry_drain [simp]: "registry_inv s \<Longrightarrow> registry_inv (drainPendingAuditsLocked r s)"
  by (erule registry_frame) simp_all

lemma registry_enqueue [simp]: "registry_inv s \<Longrightarrow> registry_inv (enqueueAgentOutboxLocked op a s)"
  by (erule registry_frame) (simp_all add: enqueueAgentOutboxLocked_def Let_def)

lemma registry_draw [simp]: "registry_inv s \<Longrightarrow> registry_inv (s\<lparr>env_ctr := Suc (env_ctr s)\<rparr>)"
  by (erule registry_frame) simp_all

section \<open>Writes to one map\<close>

lemma put_provider:
  assumes "registry_inv s" and "Prov_ID p = k"
    and "\<And>k' p'. gm_get (aiProviders s) k' = Some p' \<Longrightarrow> k' \<noteq> k \<Longrightarrow> \<not> EqualFold (Prov_Name p') (Prov_Name p)"
  shows "registry_inv (s\<lparr>aiProviders := gm_put k p (aiProviders s)\<rparr>)"
proof -
  have "unique_by same_provider ((gm_get (aiProviders s))(k \<mapsto> p))"
    using assms by (intro unique_by_put) (auto simp: registry_inv_def catalogue_ok_def same_provider_def EqualFold_sym)
  then have "catalogue_ok (s\<lparr>aiProviders := gm_put k p (aiProviders s)\<rparr>)"
    using assms(1,2) by (auto simp: registry_inv_def catalogue_ok_def gm_put_fun)
  then show ?thesis using assms(1) by (simp add: registry_inv_def accounts_ok_def model_grants_ok_def permissions_ok_def
      resources_ok_def issued_def)
qed

lemma put_model:
  assumes "registry_inv s" and "Mod_ID m = k" and "gm_get (aiProviders s) (Mod_ProviderID m) \<noteq> None"
    and "\<And>k' m'. gm_get (aiModels s) k' = Some m' \<Longrightarrow> k' \<noteq> k \<Longrightarrow> \<not> same_model m' m"
  shows "registry_inv (s\<lparr>aiModels := gm_put k m (aiModels s)\<rparr>)"
proof -
  have "unique_by same_model ((gm_get (aiModels s))(k \<mapsto> m))"
    using assms by (intro unique_by_put) (auto simp: registry_inv_def catalogue_ok_def same_model_def)
  then have "catalogue_ok (s\<lparr>aiModels := gm_put k m (aiModels s)\<rparr>)"
    using assms(1-3) by (auto simp: registry_inv_def catalogue_ok_def gm_put_fun)
  moreover have "model_grants_ok (s\<lparr>aiModels := gm_put k m (aiModels s)\<rparr>)"
    using assms(1) by (simp add: registry_inv_def model_grants_ok_def issued_def)
  ultimately show ?thesis using assms(1) by (simp add: registry_inv_def accounts_ok_def permissions_ok_def resources_ok_def issued_def)
qed

text \<open>A write that keeps the provider and the model name of a row.\<close>

lemma touch_model:
  assumes "registry_inv s" and "gm_get (aiModels s) k = Some old" and "Mod_ID m = Mod_ID old"
    and "Mod_ProviderID m = Mod_ProviderID old" and "Mod_ModelName m = Mod_ModelName old"
  shows "registry_inv (s\<lparr>aiModels := gm_put k m (aiModels s)\<rparr>)"
proof (rule put_model [OF assms(1)])
  have cat: "catalogue_ok s" using assms(1) by (simp add: registry_inv_def)
  show "Mod_ID m = k" using catalogue_okD(4) [OF cat assms(2)] assms(3) by simp
  show "gm_get (aiProviders s) (Mod_ProviderID m) \<noteq> None" using catalogue_okD(5) [OF cat assms(2)] assms(4) by simp
  show "\<not> same_model m' m" if "gm_get (aiModels s) k' = Some m'" and "k' \<noteq> k" for k' m'
    using catalogue_okD(7) [OF cat] that assms(2,4,5) by (auto simp: unique_by_def same_model_def)
qed

lemma put_resource:
  assumes "registry_inv s" and "Res_ID r = k" and "Res_Type r \<noteq> ResAPI"
  shows "registry_inv (s\<lparr>resources := gm_put k r (resources s)\<rparr>)"
  using assms by (auto simp: registry_inv_def registry_parts issued_def)

lemma put_perm:
  assumes "registry_inv s" and "perm_key p = k" and "AP_ResourceType p \<noteq> ResAPI"
    and "CHR '':'' \<notin> set (AP_AgentID p)" and "CHR '':'' \<notin> set (AP_ResourceType p)"
  shows "registry_inv (s\<lparr>permissions := gm_put k p (permissions s)\<rparr>)"
  using assms by (auto simp: registry_inv_def registry_parts issued_def)

lemma shrink_permissions:
  assumes "registry_inv s" and "gm_wf ps" and "\<And>k p. gm_get ps k = Some p \<Longrightarrow> gm_get (permissions s) k = Some p"
  shows "registry_inv (s\<lparr>permissions := ps\<rparr>)"
proof -
  have "permissions_ok s" using assms(1) by (simp add: registry_inv_def)
  then have "permissions_ok (s\<lparr>permissions := ps\<rparr>)"
    using assms(2,3) unfolding permissions_ok_def by simp blast
  then show ?thesis using assms(1) by (simp add: registry_inv_def accounts_ok_def catalogue_ok_def model_grants_ok_def
      resources_ok_def issued_def)
qed

lemma drop_permissions:
  assumes "registry_inv s" shows "registry_inv (s\<lparr>permissions := gm_delete_if Q (permissions s)\<rparr>)"
proof (rule shrink_permissions [OF assms])
  have wf: "gm_wf (permissions s)" using assms by (simp add: registry_inv_def permissions_ok_def)
  then show "gm_wf (gm_delete_if Q (permissions s))" by simp
  show "gm_get (permissions s) k = Some p" if "gm_get (gm_delete_if Q (permissions s)) k = Some p" for k p
    using that wf by (auto simp: gm_get_delete_if split: option.splits if_splits)
qed

lemma del_resource: "registry_inv s \<Longrightarrow> registry_inv (s\<lparr>resources := gm_del k (resources s)\<rparr>)"
  by (auto simp: registry_inv_def registry_parts issued_def)

lemma del_provider:
  assumes "registry_inv s" and "\<not> list_ex (\<lambda>m. Mod_ProviderID m = k) (gm_vals (aiModels s))"
  shows "registry_inv (s\<lparr>aiProviders := gm_del k (aiProviders s)\<rparr>)"
proof -
  have "unique_by same_provider ((gm_get (aiProviders s))(k := None))"
    using assms(1) by (intro unique_by_del) (simp add: registry_inv_def catalogue_ok_def)
  moreover have "Mod_ProviderID m \<noteq> k" if "gm_get (aiModels s) k' = Some m" for k' m
    using assms(2) gm_get_vals [OF that] by (auto simp: list_ex_iff)
  ultimately have "catalogue_ok (s\<lparr>aiProviders := gm_del k (aiProviders s)\<rparr>)"
    using assms(1) by (auto simp: registry_inv_def catalogue_ok_def gm_del_fun)
  then show ?thesis using assms(1) by (simp add: registry_inv_def accounts_ok_def model_grants_ok_def permissions_ok_def
      resources_ok_def issued_def)
qed

text \<open>The index of user model grants.\<close>

lemma model_grants_frame:
  assumes "registry_inv s" and "model_grants_ok (s\<lparr>env_ctr := n, userModelGrants := gs, grantPair := ps\<rparr>)" and "env_ctr s \<le> n"
  shows "registry_inv (s\<lparr>env_ctr := n, userModelGrants := gs, grantPair := ps\<rparr>)"
proof -
  have "accounts_ok (s\<lparr>env_ctr := n, userModelGrants := gs, grantPair := ps\<rparr>)"
    using accounts_frame [of s "s\<lparr>env_ctr := n, userModelGrants := gs, grantPair := ps\<rparr>"] assms(1,3) by (simp add: registry_inv_def)
  then show ?thesis using assms by (simp add: registry_inv_def catalogue_ok_def permissions_ok_def resources_ok_def)
qed

lemma get_fold_del: "gm_get (fold (\<lambda>g. gm_del (f g)) gs m) k = (if k \<in> f ` set gs then None else gm_get m k)"
  by (induction gs arbitrary: m) auto

lemma grant_inv:
  assumes inv: "registry_inv s" shows "registry_inv (snd (GrantModelToUser g s))"
proof -
  define key where "key = grantPairKey (UMG_GranteeUserID g) (UMG_AIModelID g)"
  define nid where "nid = env_uuid s (env_ctr s)"
  define created where "created = g\<lparr>UMG_ID := nid, UMG_CreatedAt := env_now s\<rparr>"
  define gid where "gid = (case gm_get (grantPair s) key of None \<Rightarrow> [] | Some i \<Rightarrow> i)"
  define t where "t = s\<lparr>env_ctr := Suc (env_ctr s), userModelGrants := gm_put nid created (userModelGrants s),
      grantPair := gm_put key nid (grantPair s)\<rparr>"
  have parts: "accounts_ok s" "model_grants_ok s" using inv by (simp_all add: registry_inv_def)
  show ?thesis
  proof (cases "gm_get (users s) (UMG_GranteeUserID g) = None \<or> gm_get (aiModels s) (UMG_AIModelID g) = None \<or>
                gm_get (userModelGrants s) gid \<noteq> None")
    case True
    then have "snd (GrantModelToUser g s) = s"
      unfolding GrantModelToUser_def gid_def key_def by (auto simp: Let_def)
    then show ?thesis using inv by simp
  next
    case False
    then have eq: "snd (GrantModelToUser g s) = drainPendingAuditsLocked nid t"
      unfolding GrantModelToUser_def gid_def key_def t_def created_def nid_def by (auto simp: Let_def NewString_def)
    note D = model_grants_okD [OF parts(2)]
    have free: "gm_get (grantPair s) key = None"
      using False D(7) [of key] by (cases "gm_get (grantPair s) key") (auto simp: gid_def)
    have user: "issued s (UMG_GranteeUserID g)" using parts(1) False by (simp add: accounts_ok_def)
    have pc: "pair_of created = key" by (simp add: pair_of_def created_def key_def)
    have fresh: "gm_get (userModelGrants s) nid = None" unfolding nid_def by (rule fresh_umg [OF parts]) simp
    have "model_grants_ok t"
      unfolding model_grants_ok_def
    proof (intro conjI allI impI)
      show "gm_wf (userModelGrants t)" using D(1) by (simp add: t_def)
      fix k v assume get: "gm_get (userModelGrants t) k = Some v"
      have mono: "issued s x \<Longrightarrow> issued t x" for x by (rule issued_mono [of s]) (simp_all add: t_def)
      have iss: "issued t nid" unfolding issued_def by (rule exI [of _ "env_ctr s"]) (simp add: t_def nid_def)
      have old: "gm_get (userModelGrants s) k = Some v \<and> k \<noteq> nid" if "k \<noteq> nid" using get that by (simp add: t_def)
      show "UMG_ID v = k" using get D(2) by (cases "k = nid") (auto simp: t_def created_def)
      show "issued t k" using iss old D(3) mono by (cases "k = nid") auto
      show "issued t (UMG_GranteeUserID v)"
        using get user old D(4) mono by (cases "k = nid") (auto simp: t_def created_def)
      show "gm_get (users t) (UMG_GranteeUserID v) \<noteq> None"
        using get False old D(8) by (cases "k = nid") (auto simp: t_def created_def)
      show "gm_get (aiModels t) (UMG_AIModelID v) \<noteq> None"
        using get False old D(5) by (cases "k = nid") (auto simp: t_def created_def)
      show "gm_get (grantPair t) (pair_of v) = Some k"
        using get pc old D(6) [of k v] free by (cases "k = nid") (auto simp: t_def)
    next
      fix key' k assume get: "gm_get (grantPair t) key' = Some k"
      show "\<exists>v. gm_get (userModelGrants t) k = Some v \<and> pair_of v = key'"
        using get pc D(7) [of key' k] fresh by (cases "key' = key") (auto simp: t_def)
    qed
    then show ?thesis unfolding eq t_def by (intro registry_drain model_grants_frame [OF inv]) simp_all
  qed
qed

lemma revoke_inv:
  assumes inv: "registry_inv s" shows "registry_inv (snd (RevokeModelFromUser u m s))"
proof (cases "gm_get (grantPair s) (grantPairKey u m)")
  case (Some gid)
  let ?t = "s\<lparr>env_ctr := env_ctr s, userModelGrants := gm_del gid (userModelGrants s), grantPair := gm_del (grantPairKey u m) (grantPair s)\<rparr>"
  have ok: "model_grants_ok s" using inv by (simp add: registry_inv_def)
  note D = model_grants_okD [OF ok]
  obtain g where g: "gm_get (userModelGrants s) gid = Some g" "pair_of g = grantPairKey u m" using D(7) [OF Some] by blast
  have other: "pair_of v \<noteq> grantPairKey u m" if "gm_get (userModelGrants s) k = Some v" and "k \<noteq> gid" for k v
    using D(6) [OF that(1)] Some that(2) by auto
  have only: "key = grantPairKey u m" if "gm_get (grantPair s) key = Some gid" for key
    using D(7) [OF that] g by auto
  have "model_grants_ok ?t"
    using ok other only unfolding model_grants_ok_def by (auto simp: issued_def)
  from model_grants_frame [OF inv this] show ?thesis
    by (simp add: RevokeModelFromUser_def Some)
qed (use inv in \<open>simp add: RevokeModelFromUser_def\<close>)

text \<open>Deleting a model takes its grants and exactly their index entries.\<close>

lemma delete_model_inv:
  assumes inv: "registry_inv s"
  shows "registry_inv (drop_model_grants mid (s\<lparr>aiModels := gm_del mid (aiModels s)\<rparr>))" (is "registry_inv ?t")
proof -
  have ok: "model_grants_ok s" and cat: "catalogue_ok s" using inv by (simp_all add: registry_inv_def)
  note D = model_grants_okD [OF ok]
  let ?gone = "filter (\<lambda>g. UMG_AIModelID g = mid) (gm_vals (userModelGrants s))"
  have umg: "gm_get (userModelGrants ?t) k = Some v \<longleftrightarrow> gm_get (userModelGrants s) k = Some v \<and> UMG_AIModelID v \<noteq> mid" for k v
    using D(1) by (auto simp: drop_model_grants_def gm_get_delete_if split: option.splits)
  have pair: "gm_get (grantPair ?t) key = (if key \<in> pair_of ` set ?gone then None else gm_get (grantPair s) key)" for key
    using get_fold_del [of pair_of ?gone "grantPair s" key] by (simp add: drop_model_grants_def pair_of_def)
  have kept: "pair_of v \<notin> pair_of ` set ?gone" if v: "gm_get (userModelGrants s) k = Some v" and m: "UMG_AIModelID v \<noteq> mid" for k v
  proof
    assume "pair_of v \<in> pair_of ` set ?gone"
    then obtain w k' where w: "UMG_AIModelID w = mid" "pair_of v = pair_of w" "gm_get (userModelGrants s) k' = Some w"
      using gm_vals_iff [OF D(1)] by auto
    then have "k = k'" using D(6) [OF v] D(6) [OF w(3)] by simp
    then show False using v w m by simp
  qed
  have "model_grants_ok ?t"
    unfolding model_grants_ok_def
  proof (intro conjI allI impI)
    show "gm_wf (userModelGrants ?t)" using D(1) by (simp add: drop_model_grants_def)
    fix k v assume "gm_get (userModelGrants ?t) k = Some v"
    then have v: "gm_get (userModelGrants s) k = Some v" "UMG_AIModelID v \<noteq> mid" by (simp_all add: umg)
    show "UMG_ID v = k" using D(2) [OF v(1)] .
    show "issued ?t k" using D(3) [OF v(1)] by (simp add: drop_model_grants_def issued_def)
    show "issued ?t (UMG_GranteeUserID v)" using D(4) [OF v(1)] by (simp add: drop_model_grants_def issued_def)
    show "gm_get (users ?t) (UMG_GranteeUserID v) \<noteq> None" using D(8) [OF v(1)] by (simp add: drop_model_grants_def)
    show "gm_get (aiModels ?t) (UMG_AIModelID v) \<noteq> None" using D(5) [OF v(1)] v(2) by (simp add: drop_model_grants_def)
    show "gm_get (grantPair ?t) (pair_of v) = Some k" using D(6) [OF v(1)] kept [OF v] by (simp add: pair)
  next
    fix key k assume "gm_get (grantPair ?t) key = Some k"
    then have key: "gm_get (grantPair s) key = Some k" "key \<notin> pair_of ` set ?gone" by (auto simp: pair split: if_splits)
    obtain v where v: "gm_get (userModelGrants s) k = Some v" "pair_of v = key" using D(7) [OF key(1)] by blast
    then have "UMG_AIModelID v \<noteq> mid" using key(2) gm_get_vals [OF v(1)] by auto
    then show "\<exists>v. gm_get (userModelGrants ?t) k = Some v \<and> pair_of v = key" using v by (auto simp: umg)
  qed
  moreover have "unique_by same_model ((gm_get (aiModels s))(mid := None))"
    using catalogue_okD(7) [OF cat] by (rule unique_by_del)
  then have "catalogue_ok ?t" using cat by (auto simp: catalogue_ok_def drop_model_grants_def gm_del_fun)
  ultimately show ?thesis using inv
    by (simp add: registry_inv_def accounts_ok_def permissions_ok_def resources_ok_def drop_model_grants_def issued_def)
qed

section \<open>Every operation keeps the invariant\<close>

lemma provider_ops_inv:
  assumes inv: "registry_inv s"
  shows "registry_inv (snd (CreateAIProvider p s))" and "registry_inv (snd (UpdateAIProvider p s))"
    and "registry_inv (snd (DeprecateAIProvider pid s))" and "registry_inv (snd (DeleteAIProvider pid s))"
proof -
  have cat: "catalogue_ok s" using inv by (simp add: registry_inv_def)
  note key = catalogue_okD(3) [OF cat]
  show "registry_inv (snd (CreateAIProvider p s))"
  proof (cases "list_ex (\<lambda>e. EqualFold (Prov_Name e) (Prov_Name p)) (gm_vals (aiProviders s))")
    case False
    then have "\<not> EqualFold (Prov_Name p') (Prov_Name p)" if "gm_get (aiProviders s) k' = Some p'" for k' p'
      using gm_get_vals [OF that] by (auto simp: list_ex_iff)
    then have new: "registry_inv (s\<lparr>env_ctr := Suc (env_ctr s), aiProviders := gm_put k v (aiProviders s)\<rparr>)"
      if "Prov_ID v = k" and "Prov_Name v = Prov_Name p" for k v
      using put_provider [OF registry_draw [OF inv], of v k] that by simp
    show ?thesis using False by (auto simp: CreateAIProvider_def Let_def NewString_def intro!: registry_drain new)
  qed (use inv in \<open>simp add: CreateAIProvider_def\<close>)
  show "registry_inv (snd (UpdateAIProvider p s))"
  proof (cases "gm_get (aiProviders s) (Prov_ID p) = None \<or>
      list_ex (\<lambda>other. Prov_ID other \<noteq> Prov_ID p \<and> EqualFold (Prov_Name other) (Prov_Name p)) (gm_vals (aiProviders s))")
    case False
    then have "\<not> EqualFold (Prov_Name p') (Prov_Name p)" if "gm_get (aiProviders s) k' = Some p'" and "k' \<noteq> Prov_ID p" for k' p'
      using gm_get_vals [OF that(1)] key [OF that(1)] that(2) by (auto simp: list_ex_iff)
    then show ?thesis using False by (auto simp: UpdateAIProvider_def Let_def intro!: registry_drain put_provider [OF inv])
  qed (use inv in \<open>auto simp: UpdateAIProvider_def split: option.split\<close>)
  show "registry_inv (snd (DeprecateAIProvider pid s))"
  proof (cases "gm_get (aiProviders s) pid")
    case (Some p)
    have "\<not> EqualFold (Prov_Name p') (Prov_Name p)" if "gm_get (aiProviders s) k' = Some p'" and "k' \<noteq> pid" for k' p'
      using catalogue_okD(6) [OF cat] that Some by (auto simp: unique_by_def same_provider_def)
    then show ?thesis using Some key [OF Some] by (auto simp: DeprecateAIProvider_def intro!: registry_drain put_provider [OF inv])
  qed (use inv in \<open>simp add: DeprecateAIProvider_def\<close>)
  show "registry_inv (snd (DeleteAIProvider pid s))"
  proof (cases "gm_get (aiProviders s) pid = None \<or> list_ex (\<lambda>model. Mod_ProviderID model = pid) (gm_vals (aiModels s))")
    case False
    then have "registry_inv (s\<lparr>aiProviders := gm_del pid (aiProviders s), permissions := gm_delete_if Q (permissions s)\<rparr>)" for Q
      using drop_permissions [OF del_provider [OF inv], of pid Q] by simp
    then show ?thesis using False by (auto simp: DeleteAIProvider_def)
  qed (use inv in \<open>auto simp: DeleteAIProvider_def split: option.split\<close>)
qed

lemma model_ops_inv:
  assumes inv: "registry_inv s"
  shows "registry_inv (snd (CreateAIModel m s))" and "registry_inv (snd (UpdateAIModel m s))"
    and "registry_inv (snd (DeprecateAIModel mid s))" and "registry_inv (snd (SetAIModelGatewayKeyFingerprint mid f s))"
    and "registry_inv (snd (DeleteAIModel mid s))"
proof -
  have cat: "catalogue_ok s" using inv by (simp add: registry_inv_def)
  note key = catalogue_okD(4) [OF cat]
  show "registry_inv (snd (CreateAIModel m s))"
  proof (cases "gm_get (aiProviders s) (Mod_ProviderID m) = None \<or>
      list_ex (\<lambda>e. Mod_ProviderID e = Mod_ProviderID m \<and> Mod_ModelName e = Mod_ModelName m) (gm_vals (aiModels s))")
    case False
    then have "\<not> same_model m' m" if "gm_get (aiModels s) k' = Some m'" for k' m'
      using gm_get_vals [OF that] by (auto simp: list_ex_iff same_model_def)
    then have new: "registry_inv (s\<lparr>env_ctr := Suc (env_ctr s), aiModels := gm_put k v (aiModels s)\<rparr>)"
      if "Mod_ID v = k" and "Mod_ProviderID v = Mod_ProviderID m" and "Mod_ModelName v = Mod_ModelName m" for k v
      using put_model [OF registry_draw [OF inv], of v k] that False by (simp add: same_model_def)
    show ?thesis using False by (auto simp: CreateAIModel_def Let_def NewString_def intro!: registry_drain new)
  qed (use inv in \<open>auto simp: CreateAIModel_def\<close>)
  show "registry_inv (snd (UpdateAIModel m s))"
  proof (cases "gm_get (aiModels s) (Mod_ID m) = None \<or> gm_get (aiProviders s) (Mod_ProviderID m) = None \<or>
      list_ex (\<lambda>other. Mod_ID other \<noteq> Mod_ID m \<and> Mod_ProviderID other = Mod_ProviderID m \<and> Mod_ModelName other = Mod_ModelName m)
        (gm_vals (aiModels s))")
    case False
    then have "\<not> same_model m' m" if "gm_get (aiModels s) k' = Some m'" and "k' \<noteq> Mod_ID m" for k' m'
      using gm_get_vals [OF that(1)] key [OF that(1)] that(2) by (auto simp: list_ex_iff same_model_def)
    then have "registry_inv (s\<lparr>aiModels := gm_put (Mod_ID m) v (aiModels s)\<rparr>)"
      if "Mod_ID v = Mod_ID m" and "Mod_ProviderID v = Mod_ProviderID m" and "Mod_ModelName v = Mod_ModelName m" for v
      using put_model [OF inv, of v "Mod_ID m"] that False by (simp add: same_model_def)
    then show ?thesis using False by (auto simp: UpdateAIModel_def Let_def)
  qed (use inv in \<open>auto simp: UpdateAIModel_def split: option.split\<close>)
  show "registry_inv (snd (DeprecateAIModel mid s))"
    using inv by (auto simp: DeprecateAIModel_def intro!: registry_drain intro: touch_model split: option.split)
  show "registry_inv (snd (SetAIModelGatewayKeyFingerprint mid f s))"
    using inv by (auto simp: SetAIModelGatewayKeyFingerprint_def intro: touch_model split: option.split)
  show "registry_inv (snd (DeleteAIModel mid s))"
    using inv delete_model_inv [OF inv] by (auto simp: DeleteAIModel_def split: option.split)
qed

lemma resource_ops_inv:
  assumes inv: "registry_inv s"
  shows "registry_inv (snd (CreateResource r s))" and "registry_inv (snd (UpdateResource r s))"
    and "registry_inv (snd (DeprecateResource typ rid s))" and "registry_inv (snd (DeleteResource typ rid s))"
proof -
  have rows: "Res_ID v = k \<and> Res_Type v \<noteq> ResAPI" if "gm_get (resources s) k = Some v" for k v
    using inv that by (simp add: registry_inv_def resources_ok_def)
  have row: "gm_get (resources s) rid = Some v" if "GetResource ty rid s = Inr v" for ty rid v
    using that by (auto simp: GetResource_def split: option.splits if_splits)
  have new: "registry_inv (s\<lparr>env_ctr := Suc (env_ctr s), resources := gm_put k v (resources s)\<rparr>)"
    if "Res_ID v = k" and "Res_Type v = CanonicalResourceType ty" for k v ty
    using put_resource [OF registry_draw [OF inv], of v k] that by (simp add: CanonicalResourceType_def)
  show "registry_inv (snd (CreateResource r s))"
    using inv by (auto simp: CreateResource_def Let_def NewString_def intro!: registry_drain new)
  show "registry_inv (snd (UpdateResource r s))"
  proof (cases "GetResource (Res_Type r) (Res_ID r) s")
    case (Inr v)
    have "registry_inv (s\<lparr>resources := gm_put (Res_ID r) w (resources s)\<rparr>)" if "Res_ID w = Res_ID r" and "Res_Type w = Res_Type v" for w
      using put_resource [OF inv, of w "Res_ID r"] that rows [OF row [OF Inr]] by simp
    then show ?thesis using Inr inv by (simp add: UpdateResource_def Let_def)
  qed (use inv in \<open>simp add: UpdateResource_def\<close>)
  show "registry_inv (snd (DeprecateResource typ rid s))"
  proof (cases "GetResource typ rid s")
    case (Inr v)
    then show ?thesis using rows [OF row [OF Inr]]
      by (auto simp: DeprecateResource_def intro!: registry_drain put_resource [OF inv])
  qed (use inv in \<open>simp add: DeprecateResource_def\<close>)
  show "registry_inv (snd (DeleteResource typ rid s))"
  proof (cases "GetResource typ rid s")
    case (Inr v)
    have "registry_inv (s\<lparr>resources := gm_del rid (resources s), permissions := gm_delete_if Q (permissions s)\<rparr>)" for Q
      using drop_permissions [OF del_resource [OF inv], of Q rid] by simp
    then show ?thesis using Inr by (simp add: DeleteResource_def Let_def)
  qed (use inv in \<open>simp add: DeleteResource_def\<close>)
qed

text \<open>The resource types an API caller can name contain no colon.\<close>

definition plain_type :: "AgentPermission \<Rightarrow> bool" where
  "plain_type p \<longleftrightarrow> CHR '':'' \<notin> set (AP_ResourceType p)"

lemma fresh_permission_fields [simp]:
  "AP_AgentID (fresh_permission nid now p) = AP_AgentID p"
  "AP_ResourceType (fresh_permission nid now p) = CanonicalResourceType (AP_ResourceType p)"
  "AP_ResourceID (fresh_permission nid now p) = AP_ResourceID p"
  by (simp_all add: fresh_permission_def)

lemma fresh_permission_key:
  "perm_key (fresh_permission nid now p) = permissionKey (AP_AgentID p) (CanonicalResourceType (AP_ResourceType p)) (AP_ResourceID p)"
  by (simp add: perm_key_def fresh_permission_def)

lemma put_fresh_permission:
  assumes inv: "registry_inv s" and "gm_get (agents s) (AP_AgentID p) \<noteq> None" and "plain_type p"
  shows "registry_inv (s\<lparr>env_ctr := Suc (env_ctr s),
           permissions := gm_put (perm_key (fresh_permission nid now p)) (fresh_permission nid now p) (permissions s)\<rparr>)"
proof -
  have "issued s (AP_AgentID p)" and "uuid_shape (env_uuid s)"
    using inv assms(2) by (simp_all add: registry_inv_def accounts_ok_def)
  then have "CHR '':'' \<notin> set (AP_AgentID p)" using issued_shape by blast
  then show ?thesis
    using put_perm [OF registry_draw [OF inv], of "fresh_permission nid now p" "perm_key (fresh_permission nid now p)"] assms(3)
    by (simp add: fresh_permission_def plain_type_def CanonicalResourceType_def)
qed

lemma put_permission_inv:
  assumes "registry_inv s" and "gm_get (agents s) a \<noteq> None" and "plain_type p"
  shows "registry_inv (put_permission a p s) \<and> agents (put_permission a p s) = agents s"
  using put_fresh_permission [of s "p\<lparr>AP_AgentID := a\<rparr>" "env_uuid s (env_ctr s)" "env_now s"] assms
  by (simp add: put_permission_def NewString_def Let_def plain_type_def perm_key_def)

lemma fold_put_permission_inv:
  "registry_inv s \<Longrightarrow> gm_get (agents s) a \<noteq> None \<Longrightarrow> list_all plain_type ps \<Longrightarrow> registry_inv (fold (put_permission a) ps s)"
  by (induction ps arbitrary: s) (simp_all add: put_permission_inv)

lemma permission_ops_inv:
  assumes inv: "registry_inv s"
  shows "plain_type p \<Longrightarrow> registry_inv (snd (GrantAgentPermission p s))"
    and "registry_inv (snd (RevokeAgentPermission a typ r s))"
    and "list_all plain_type ps \<Longrightarrow> registry_inv (snd (SetAgentPermissions a ps s))"
proof -
  have wf: "gm_wf (permissions s)" using inv by (simp add: registry_inv_def permissions_ok_def)
  show "registry_inv (snd (GrantAgentPermission p s))" if "plain_type p"
    using inv put_fresh_permission [OF inv _ that, of "env_uuid s (env_ctr s)" "env_now s"]
    by (auto simp: GrantAgentPermission_def Let_def NewString_def fresh_permission_key)
  show "registry_inv (snd (RevokeAgentPermission a typ r s))"
    using inv wf by (auto simp: RevokeAgentPermission_def intro!: shrink_permissions split: if_splits)
  show "registry_inv (snd (SetAgentPermissions a ps s))" if "list_all plain_type ps"
    using inv that drop_permissions [OF inv]
    by (auto simp: SetAgentPermissions_def Let_def intro!: registry_enqueue fold_put_permission_inv split: option.split)
qed

text \<open>New accounts get drawn identifiers.\<close>

lemma UpsertUser_users:
  "gm_get (users (snd (UpsertUser u s))) k \<noteq> None \<Longrightarrow> gm_get (users s) k \<noteq> None \<or> issued (snd (UpsertUser u s)) k"
  by (auto simp: UpsertUser_def Let_def NewString_def issued_def split: option.splits if_splits)

lemma UpsertUser_keeps: "gm_get (users s) k \<noteq> None \<Longrightarrow> gm_get (users (snd (UpsertUser u s))) k \<noteq> None"
  by (auto simp: UpsertUser_def Let_def NewString_def split: option.split)

lemma UpsertUser_frame:
  "aiProviders (snd (UpsertUser u s)) = aiProviders s" "aiModels (snd (UpsertUser u s)) = aiModels s"
  "userModelGrants (snd (UpsertUser u s)) = userModelGrants s" "grantPair (snd (UpsertUser u s)) = grantPair s"
  "resources (snd (UpsertUser u s)) = resources s" "permissions (snd (UpsertUser u s)) = permissions s"
  "agents (snd (UpsertUser u s)) = agents s" "env_uuid (snd (UpsertUser u s)) = env_uuid s"
  "env_ctr s \<le> env_ctr (snd (UpsertUser u s))"
  by (simp_all add: UpsertUser_def Let_def NewString_def split: option.split)

lemma UpsertUser_registry: "registry_inv s \<Longrightarrow> registry_inv (snd (UpsertUser u s))"
  by (erule registry_frame) (use UpsertUser_users [of u s] UpsertUser_keeps [of s _ u] in \<open>simp_all add: UpsertUser_frame\<close>)

text \<open>An agent is created under the next identifier, after which the prompt revision, the outbox event and the pending
  audits are written.\<close>

lemma CreateAgent_shape:
  "snd (CreateAgent a s) = s \<or>
   (\<exists>v ch adj txt r. snd (CreateAgent a s) = drainPendingAuditsLocked r (enqueueAgentOutboxLocked KubernetesOpUpsertAgent v
      ((revise_prompt ch adj txt (s\<lparr>env_ctr := Suc (env_ctr s)\<rparr>))\<lparr>agents := gm_put (env_uuid s (env_ctr s)) v (agents s)\<rparr>)))"
proof (cases "gm_get (squads s) (Agent_SquadID a)")
  case (Some squad)
  then show ?thesis by (simp add: CreateAgent_def Let_def NewString_def) blast
qed (simp add: CreateAgent_def)

lemma CreateAgent_registry:
  assumes inv: "registry_inv s" shows "registry_inv (snd (CreateAgent a s))"
proof -
  have "registry_inv ((revise_prompt ch adj tx (s\<lparr>env_ctr := Suc (env_ctr s)\<rparr>))\<lparr>agents := gm_put (env_uuid s (env_ctr s)) v (agents s)\<rparr>)"
    (is "registry_inv ?t") for ch adj tx v
  proof (rule registry_frame [OF inv])
    have le: "Suc (env_ctr s) \<le> env_ctr ?t" using revise_ctr [of "s\<lparr>env_ctr := Suc (env_ctr s)\<rparr>" ch adj tx] by simp
    show "env_ctr s \<le> env_ctr ?t" using le by linarith
    have "issued ?t (env_uuid s (env_ctr s))" unfolding issued_def using le by (intro exI [of _ "env_ctr s"]) auto
    then show "gm_get (agents s) k \<noteq> None \<or> issued ?t k" if "gm_get (agents ?t) k \<noteq> None" for k
      using that by (auto split: if_splits)
  qed simp_all
  then show ?thesis using CreateAgent_shape [of a s] inv by auto
qed

section \<open>Runs\<close>

text \<open>A store whose registry and accounts are empty.\<close>

definition registry_init :: "MemoryStore \<Rightarrow> bool" where
  "registry_init s \<longleftrightarrow> uuid_shape (env_uuid s) \<and> users s = [] \<and> agents s = [] \<and> aiProviders s = [] \<and> aiModels s = [] \<and>
     userModelGrants s = [] \<and> grantPair s = [] \<and> resources s = [] \<and> permissions s = []"

text \<open>One operation of the registry, a new account, or anything else the store does, which leaves the registry alone and
  only edits users (no method deletes one) and edits or deletes agents.\<close>

inductive registry_step :: "MemoryStore \<Rightarrow> MemoryStore \<Rightarrow> bool" where
  create_provider: "registry_step s (snd (CreateAIProvider p s))"
| update_provider: "registry_step s (snd (UpdateAIProvider p s))"
| deprecate_provider: "registry_step s (snd (DeprecateAIProvider pid s))"
| delete_provider: "registry_step s (snd (DeleteAIProvider pid s))"
| create_model: "registry_step s (snd (CreateAIModel m s))"
| update_model: "registry_step s (snd (UpdateAIModel m s))"
| deprecate_model: "registry_step s (snd (DeprecateAIModel mid s))"
| model_key: "registry_step s (snd (SetAIModelGatewayKeyFingerprint mid f s))"
| delete_model: "registry_step s (snd (DeleteAIModel mid s))"
| grant_model: "registry_step s (snd (GrantModelToUser g s))"
| revoke_model: "registry_step s (snd (RevokeModelFromUser u mid s))"
| create_resource: "registry_step s (snd (CreateResource r s))"
| update_resource: "registry_step s (snd (UpdateResource r s))"
| deprecate_resource: "registry_step s (snd (DeprecateResource ty rid s))"
| delete_resource: "registry_step s (snd (DeleteResource ty rid s))"
| grant_permission: "plain_type perm \<Longrightarrow> registry_step s (snd (GrantAgentPermission perm s))"
| revoke_permission: "registry_step s (snd (RevokeAgentPermission a ty rid s))"
| set_permissions: "list_all plain_type perms \<Longrightarrow> registry_step s (snd (SetAgentPermissions a perms s))"
| upsert_user: "registry_step s (snd (UpsertUser usr s))"
| create_agent: "registry_step s (snd (CreateAgent ag s))"
| elsewhere: "(\<And>k. gm_get (users t) k \<noteq> None \<longleftrightarrow> gm_get (users s) k \<noteq> None) \<Longrightarrow>
    (\<And>k. gm_get (agents t) k \<noteq> None \<Longrightarrow> gm_get (agents s) k \<noteq> None) \<Longrightarrow>
    aiProviders t = aiProviders s \<Longrightarrow> aiModels t = aiModels s \<Longrightarrow> userModelGrants t = userModelGrants s \<Longrightarrow>
    grantPair t = grantPair s \<Longrightarrow> resources t = resources s \<Longrightarrow> permissions t = permissions s \<Longrightarrow>
    env_uuid t = env_uuid s \<Longrightarrow> env_ctr s \<le> env_ctr t \<Longrightarrow> registry_step s t"

lemma registry_init_inv: "registry_init s \<Longrightarrow> registry_inv s"
  by (auto simp: registry_init_def registry_inv_def registry_parts gm_get_def gm_wf_def unique_by_def)

lemma registry_step_inv:
  assumes inv: "registry_inv s" and "registry_step s t" shows "registry_inv t"
  using assms(2)
proof cases
  case elsewhere
  then show ?thesis using registry_frame [OF inv, of t] by blast
qed (use inv in \<open>simp_all add: provider_ops_inv model_ops_inv resource_ops_inv permission_ops_inv grant_inv revoke_inv
  UpsertUser_registry CreateAgent_registry\<close>)

interpretation registry_machine: state_machine registry_init registry_step registry_inv
  by unfold_locales (auto intro: registry_init_inv registry_step_inv)

section \<open>Properties\<close>

text \<open>C30. The model catalogue is consistent. In every store reached from an empty registry, every AI model has its
  provider, every model grant belongs to an existing user and an existing model, no two providers carry the same name up to
  case, no two models of a provider the same model name, and a provider can be deleted exactly when no model uses it.\<close>

theorem model_catalogue_consistent:
  assumes "registry_init s" and "registry_step\<^sup>*\<^sup>* s t"
  shows "(\<forall>k m. GetAIModel k t = Inr m \<longrightarrow> (\<exists>p. GetAIProvider (Mod_ProviderID m) t = Inr p)) \<and>
    (\<forall>g. g \<in> set (gm_vals (userModelGrants t)) \<longrightarrow>
       (\<exists>usr. GetUser (UMG_GranteeUserID g) t = Inr usr) \<and> (\<exists>m. GetAIModel (UMG_AIModelID g) t = Inr m)) \<and>
    (\<forall>k1 k2 p1 p2. GetAIProvider k1 t = Inr p1 \<and> GetAIProvider k2 t = Inr p2 \<and> EqualFold (Prov_Name p1) (Prov_Name p2) \<longrightarrow> k1 = k2) \<and>
    (\<forall>k1 k2 m1 m2. GetAIModel k1 t = Inr m1 \<and> GetAIModel k2 t = Inr m2 \<and> Mod_ProviderID m1 = Mod_ProviderID m2 \<and>
       Mod_ModelName m1 = Mod_ModelName m2 \<longrightarrow> k1 = k2) \<and>
    (\<forall>pid. fst (DeleteAIProvider pid t) = Inr () \<longleftrightarrow>
       (\<exists>p. GetAIProvider pid t = Inr p) \<and> (\<forall>k m. GetAIModel k t = Inr m \<longrightarrow> Mod_ProviderID m \<noteq> pid))"
proof -
  have cat: "catalogue_ok t" and ok: "model_grants_ok t" using registry_machine.reachable_inv [OF assms] by (simp_all add: registry_inv_def)
  note D = model_grants_okD [OF ok]
  have grants: "(\<exists>usr. GetUser (UMG_GranteeUserID g) t = Inr usr) \<and> (\<exists>m. gm_get (aiModels t) (UMG_AIModelID g) = Some m)"
    if "g \<in> set (gm_vals (userModelGrants t))" for g
    using that D(5,8) unfolding gm_vals_iff [OF D(1)] by (auto simp: GetUser_def split: option.split)
  have used: "list_ex (\<lambda>m. Mod_ProviderID m = pid) (gm_vals (aiModels t)) \<longleftrightarrow> (\<exists>k m. gm_get (aiModels t) k = Some m \<and> Mod_ProviderID m = pid)" for pid
    unfolding list_ex_iff using gm_vals_iff [OF catalogue_okD(2) [OF cat]] by blast
  have getm: "GetAIModel k t = Inr m \<longleftrightarrow> gm_get (aiModels t) k = Some m" for k m
    by (simp add: GetAIModel_def split: option.split)
  have getp: "GetAIProvider k t = Inr p \<longleftrightarrow> gm_get (aiProviders t) k = Some p" for k p
    by (simp add: GetAIProvider_def split: option.split)
  have del: "fst (DeleteAIProvider pid t) = Inr () \<longleftrightarrow>
      gm_get (aiProviders t) pid \<noteq> None \<and> \<not> list_ex (\<lambda>m. Mod_ProviderID m = pid) (gm_vals (aiModels t))" for pid
    by (simp add: DeleteAIProvider_def split: option.split)
  show ?thesis
    unfolding getm getp del used
    using grants catalogue_okD(5) [OF cat] catalogue_okD(6,7) [OF cat, unfolded unique_by_def same_provider_def same_model_def]
    by (intro conjI) (blast | metis option.exhaust_sel option.distinct(1))+
qed

definition holds_model :: "string \<Rightarrow> string \<Rightarrow> MemoryStore \<Rightarrow> UserModelGrant list" where
  "holds_model u m s = filter (\<lambda>g. UMG_AIModelID g = m) (ListUserModelGrants u s)"

lemma holds_model_iff:
  assumes "registry_inv t" and "issued t u"
  shows "g \<in> set (holds_model u m t) \<longleftrightarrow>
    (\<exists>k. gm_get (grantPair t) (grantPairKey u m) = Some k \<and> gm_get (userModelGrants t) k = Some g)"
proof -
  have ok: "model_grants_ok t" and shape: "uuid_shape (env_uuid t)"
    using assms(1) by (simp_all add: registry_inv_def accounts_ok_def)
  note D = model_grants_okD [OF ok]
  have "g \<in> set (holds_model u m t) \<longleftrightarrow>
      (\<exists>k. gm_get (userModelGrants t) k = Some g \<and> UMG_GranteeUserID g = u \<and> UMG_AIModelID g = m)"
    using gm_vals_iff [OF D(1)] by (auto simp: holds_model_def ListUserModelGrants_def sortUserModelGrants_def)
  also have "\<dots> \<longleftrightarrow> (\<exists>k. gm_get (userModelGrants t) k = Some g \<and> pair_of g = grantPairKey u m)"
    using pair_of_inj [OF shape D(4) assms(2)] by blast
  also have "\<dots> \<longleftrightarrow> (\<exists>k. gm_get (grantPair t) (grantPairKey u m) = Some k \<and> gm_get (userModelGrants t) k = Some g)"
    using D(6,7) by (metis option.inject)
  finally show ?thesis .
qed

lemma distinct_vals: "gm_wf m \<Longrightarrow> (\<And>k v. gm_get m k = Some v \<Longrightarrow> f v = k) \<Longrightarrow> distinct (gm_vals m)"
proof (induction m)
  case (Cons p m)
  have "f v = k" if "gm_get m k = Some v" for k v
  proof -
    have "(k, v) \<in> set m" using that by (simp add: gm_get_def map_of_SomeD)
    then have "k \<in> fst ` set m" by force
    moreover have "fst p \<notin> fst ` set m" using Cons.prems(1) by (simp add: gm_wf_def)
    ultimately have "k \<noteq> fst p" by metis
    then show ?thesis using Cons.prems(2) [of k v] that by (simp add: gm_get_def)
  qed
  then have "distinct (gm_vals m)" using Cons by (simp add: gm_wf_def)
  moreover have "snd p \<notin> set (gm_vals m)"
  proof
    assume "snd p \<in> set (gm_vals m)"
    then obtain k where k: "(k, snd p) \<in> set m" by (auto simp: gm_vals_def)
    then have "gm_get (p # m) k = Some (snd p)" and "k \<noteq> fst p"
      using Cons.prems(1) by (auto simp: gm_get_def gm_wf_def)
    moreover have "gm_get (p # m) (fst p) = Some (snd p)" by (simp add: gm_get_def)
    ultimately show False using Cons.prems(2) by blast
  qed
  ultimately show ?case by (simp add: gm_vals_def)
qed (simp add: gm_vals_def)

lemma holds_model_le:
  assumes "registry_inv t" and "issued t u" shows "length (holds_model u m t) \<le> 1"
proof -
  have "distinct (gm_vals (userModelGrants t))"
    using assms(1) distinct_vals [of "userModelGrants t" UMG_ID] by (simp add: registry_inv_def model_grants_ok_def)
  then have "distinct (holds_model u m t)"
    by (simp add: holds_model_def ListUserModelGrants_def sortUserModelGrants_def mset_eq_imp_distinct_iff [OF mset_sort_by])
  moreover have "x = y" if "x \<in> set (holds_model u m t)" and "y \<in> set (holds_model u m t)" for x y
    using that holds_model_iff [OF assms] by auto
  then have "card (set (holds_model u m t)) \<le> Suc 0" by (subst card_le_Suc0_iff_eq) auto
  ultimately show ?thesis by (simp add: distinct_card)
qed

lemma grant_when_free:
  assumes inv: "registry_inv t" and user: "gm_get (users t) (UMG_GranteeUserID g) \<noteq> None"
    and model: "gm_get (aiModels t) (UMG_AIModelID g) \<noteq> None"
    and free: "gm_get (grantPair t) (grantPairKey (UMG_GranteeUserID g) (UMG_AIModelID g)) = None"
  shows "\<exists>new t'. GrantModelToUser g t = (Inr new, t') \<and> holds_model (UMG_GranteeUserID g) (UMG_AIModelID g) t' = [new]"
proof -
  let ?u = "UMG_GranteeUserID g" and ?m = "UMG_AIModelID g" and ?nid = "env_uuid t (env_ctr t)"
  let ?new = "g\<lparr>UMG_ID := ?nid, UMG_CreatedAt := env_now t\<rparr>"
  have iss: "issued t ?u" and acc: "accounts_ok t" and ok: "model_grants_ok t"
    using inv user by (auto simp: registry_inv_def accounts_ok_def)
  have "\<not> issued t []" using issued_shape acc by (auto simp: accounts_ok_def)
  then have "gm_get (userModelGrants t) [] = None" using model_grants_okD(3) [OF ok] by (cases "gm_get (userModelGrants t) []") auto
  then obtain t' where t': "GrantModelToUser g t = (Inr ?new, t')"
    and pair: "gm_get (grantPair t') (grantPairKey ?u ?m) = Some ?nid" and row: "gm_get (userModelGrants t') ?nid = Some ?new"
    and ids: "env_uuid t' = env_uuid t" "env_ctr t \<le> env_ctr t'"
    using user model free by (simp add: GrantModelToUser_def Let_def NewString_def)
  have inv': "registry_inv t'" using grant_inv [OF inv, of g] t' by simp
  have iss': "issued t' ?u" using issued_mono [OF iss ids] .
  have "set (holds_model ?u ?m t') = {?new}" using holds_model_iff [OF inv' iss', of _ ?m] pair row by auto
  moreover have "length (holds_model ?u ?m t') \<le> 1" by (rule holds_model_le [OF inv' iss'])
  ultimately have "holds_model ?u ?m t' = [?new]" by (cases "holds_model ?u ?m t'") auto
  with t' show ?thesis by blast
qed

lemma revoke_when_held:
  assumes inv: "registry_inv t" and iss: "issued t u" and held: "gm_get (grantPair t) (grantPairKey u m) = Some k"
  shows "\<exists>t'. RevokeModelFromUser u m t = (Inr (), t') \<and>
    set (gm_vals (userModelGrants t')) = set (gm_vals (userModelGrants t)) - set (holds_model u m t)"
proof -
  have ok: "model_grants_ok t" using inv by (simp add: registry_inv_def)
  note D = model_grants_okD [OF ok]
  obtain g where g: "gm_get (userModelGrants t) k = Some g" using D(7) [OF held] by blast
  have "set (holds_model u m t) = {g}" using holds_model_iff [OF inv iss, of _ m] held g by auto
  moreover have "v \<in> set (gm_vals (gm_del k (userModelGrants t))) \<longleftrightarrow> v \<in> set (gm_vals (userModelGrants t)) \<and> v \<noteq> g" for v
    unfolding gm.vals_del [OF D(1)] gm_vals_iff [OF D(1)] by (metis D(2) g option.inject)
  ultimately show ?thesis using held by (auto simp: RevokeModelFromUser_def)
qed

text \<open>Model grants are exact. In every reachable store a user holds at most one grant of a model; granting
  conflicts exactly when one is held, revoking succeeds exactly when one is held and then takes that grant and no other,
  and deleting a model takes exactly the grants of that model.\<close>

theorem model_grants_exact:
  assumes "registry_init s" and "registry_step\<^sup>*\<^sup>* s t" and "GetUser u t = Inr usr" and "GetAIModel m t = Inr mdl"
  shows "length (holds_model u m t) \<le> 1 \<and>
    (\<forall>g. UMG_GranteeUserID g = u \<and> UMG_AIModelID g = m \<longrightarrow>
       (if holds_model u m t = [] then \<exists>new t'. GrantModelToUser g t = (Inr new, t') \<and> holds_model u m t' = [new]
        else GrantModelToUser g t = (Inl ErrConflict, t))) \<and>
    (if holds_model u m t = [] then RevokeModelFromUser u m t = (Inl ErrNotFound, t)
     else \<exists>t'. RevokeModelFromUser u m t = (Inr (), t') \<and>
       set (gm_vals (userModelGrants t')) = set (gm_vals (userModelGrants t)) - set (holds_model u m t)) \<and>
    (\<forall>t'. DeleteAIModel m t = (Inr (), t') \<longrightarrow>
       set (gm_vals (userModelGrants t')) = {g \<in> set (gm_vals (userModelGrants t)). UMG_AIModelID g \<noteq> m})"
proof -
  have inv: "registry_inv t" using registry_machine.reachable_inv [OF assms(1,2)] .
  have user: "gm_get (users t) u = Some usr" and model: "gm_get (aiModels t) m = Some mdl"
    using assms(3,4) by (auto simp: GetUser_def GetAIModel_def split: option.splits)
  have iss: "issued t u" using inv user by (simp add: registry_inv_def accounts_ok_def)
  have ok: "model_grants_ok t" and acc: "accounts_ok t" using inv by (simp_all add: registry_inv_def)
  note D = model_grants_okD [OF ok]
  have none: "holds_model u m t = [] \<longleftrightarrow> gm_get (grantPair t) (grantPairKey u m) = None"
    using holds_model_iff [OF inv iss, of _ m] D(7) [of "grantPairKey u m"]
    by (metis all_not_in_conv list.set_intros(1) neq_Nil_conv not_None_eq set_empty)
  have grant: "if holds_model u m t = [] then \<exists>new t'. GrantModelToUser g t = (Inr new, t') \<and> holds_model u m t' = [new]
        else GrantModelToUser g t = (Inl ErrConflict, t)" if g: "UMG_GranteeUserID g = u" "UMG_AIModelID g = m" for g
  proof (cases "gm_get (grantPair t) (grantPairKey u m)")
    case None
    then show ?thesis using grant_when_free [OF inv, of g] user model g none by auto
  next
    case (Some k)
    then show ?thesis using D(7) [OF Some] none user model g by (auto simp: GrantModelToUser_def)
  qed
  have revoke: "if holds_model u m t = [] then RevokeModelFromUser u m t = (Inl ErrNotFound, t)
     else \<exists>t'. RevokeModelFromUser u m t = (Inr (), t') \<and>
       set (gm_vals (userModelGrants t')) = set (gm_vals (userModelGrants t)) - set (holds_model u m t)"
    using none revoke_when_held [OF inv iss, of m] by (auto simp: RevokeModelFromUser_def)
  have "set (gm_vals (userModelGrants t')) = {g \<in> set (gm_vals (userModelGrants t)). UMG_AIModelID g \<noteq> m}"
    if "DeleteAIModel m t = (Inr (), t')" for t'
    using that model by (auto simp: DeleteAIModel_def drop_model_grants_def split: if_splits)
  with holds_model_le [OF inv iss] grant revoke show ?thesis by blast
qed

definition perm_on :: "string \<Rightarrow> string \<Rightarrow> string \<Rightarrow> AgentPermission \<Rightarrow> bool" where
  "perm_on a typ r p \<longleftrightarrow> AP_AgentID p = a \<and> AP_ResourceType p = CanonicalResourceType typ \<and> AP_ResourceID p = r"

lemma permission_lookup:
  assumes inv: "registry_inv t" and a: "gm_get (agents t) a \<noteq> None" and plain: "CHR '':'' \<notin> set typ"
  shows "gm_get (permissions t) (permissionKey a (CanonicalResourceType typ) r) = Some p \<longleftrightarrow>
    p \<in> set (gm_vals (permissions t)) \<and> perm_on a typ r p"
proof -
  have ok: "permissions_ok t" and "issued t a" and "uuid_shape (env_uuid t)"
    using inv a by (auto simp: registry_inv_def accounts_ok_def)
  then have colon: "CHR '':'' \<notin> set a" using issued_shape by blast
  have canon: "CHR '':'' \<notin> set (CanonicalResourceType typ)" using plain by (simp add: CanonicalResourceType_def)
  have "perm_key p = permissionKey a (CanonicalResourceType typ) r \<longleftrightarrow> perm_on a typ r p" if "gm_get (permissions t) k = Some p" for k
    using ok that colon canon permissionKey_inj [of "AP_AgentID p" a "AP_ResourceType p" "CanonicalResourceType typ"]
    by (auto simp: permissions_ok_def perm_key_def perm_on_def)
  moreover have "gm_get (permissions t) k = Some p \<Longrightarrow> perm_key p = k" for k using ok by (simp add: permissions_ok_def)
  moreover have "gm_wf (permissions t)" using ok by (simp add: permissions_ok_def)
  ultimately show ?thesis using gm_vals_iff by metis
qed

text \<open>The views of agent permissions agree. In every reachable store, for an agent that exists and a
  resource type without a colon, the permission check, the agent's list and the resource's list say the same, each
  grant is listed once, and deleting a resource leaves no permission on it and every other permission in place.\<close>

theorem permission_views_agree:
  assumes "registry_init s" and "registry_step\<^sup>*\<^sup>* s t" and "GetAgent a t = Inr agent" and "CHR '':'' \<notin> set typ"
  shows "\<exists>b ps. AgentHasPermission a typ r t = Inr b \<and> ListAgentPermissions a t = Inr ps \<and> distinct ps \<and>
    (b \<longleftrightarrow> list_ex (perm_on a typ r) ps) \<and> (b \<longleftrightarrow> list_ex (perm_on a typ r) (ListPermissionsByResource typ r t)) \<and>
    (\<forall>u. DeleteResource typ r t = (Inr (), u) \<longrightarrow> AgentHasPermission a typ r u = Inr False \<and>
       (\<forall>typ' r'. CHR '':'' \<notin> set typ' \<and> (CanonicalResourceType typ', r') \<noteq> (CanonicalResourceType typ, r) \<longrightarrow>
          AgentHasPermission a typ' r' u = AgentHasPermission a typ' r' t))"
proof -
  have inv: "registry_inv t" using registry_machine.reachable_inv [OF assms(1,2)] .
  have ag: "gm_get (agents t) a \<noteq> None" using assms(3) by (simp add: GetAgent_def split: option.splits)
  have wf: "gm_wf (permissions t)" and key: "\<And>k p. gm_get (permissions t) k = Some p \<Longrightarrow> perm_key p = k"
    using inv by (simp_all add: registry_inv_def permissions_ok_def)
  let ?b = "gm_get (permissions t) (permissionKey a (CanonicalResourceType typ) r) \<noteq> None"
  let ?ps = "sort_by cmp_permission (filter (\<lambda>p. AP_AgentID p = a) (gm_vals (permissions t)))"
  have b: "?b \<longleftrightarrow> (\<exists>p \<in> set (gm_vals (permissions t)). perm_on a typ r p)"
    using permission_lookup [OF inv ag assms(4), of r] by (metis not_None_eq)
  have "distinct ?ps" using distinct_vals [OF wf key] by (simp add: mset_eq_imp_distinct_iff [OF mset_sort_by])
  moreover have "?b \<longleftrightarrow> list_ex (perm_on a typ r) ?ps"
    unfolding b by (auto simp: list_ex_iff perm_on_def)
  moreover have "?b \<longleftrightarrow> list_ex (perm_on a typ r) (ListPermissionsByResource typ r t)"
    unfolding b by (auto simp: list_ex_iff perm_on_def ListPermissionsByResource_def)
  moreover have "AgentHasPermission a typ r u = Inr False \<and>
       (\<forall>typ' r'. CHR '':'' \<notin> set typ' \<and> (CanonicalResourceType typ', r') \<noteq> (CanonicalResourceType typ, r) \<longrightarrow>
          AgentHasPermission a typ' r' u = AgentHasPermission a typ' r' t)" if del: "DeleteResource typ r t = (Inr (), u)" for u
  proof -
    let ?gone = "\<lambda>p. AP_ResourceType p = CanonicalResourceType typ \<and> AP_ResourceID p = r"
    have u: "gm_get (permissions u) k = (case gm_get (permissions t) k of None \<Rightarrow> None | Some p \<Rightarrow> if ?gone p then None else Some p)"
      and agu: "agents u = agents t" for k
      using del gm_get_delete_if [OF wf, of ?gone k] by (auto simp: DeleteResource_def Let_def split: sum.splits)
    have has: "AgentHasPermission a ty' r' v = Inr (gm_get (permissions v) (permissionKey a (CanonicalResourceType ty') r') \<noteq> None)"
      if "agents v = agents t" for ty' r' v using that ag by (simp add: AgentHasPermission_def)
    have row: "AP_ResourceType p = CanonicalResourceType ty' \<and> AP_ResourceID p = r'"
      if "gm_get (permissions t) (permissionKey a (CanonicalResourceType ty') r') = Some p" and "CHR '':'' \<notin> set ty'" for ty' r' p
      using permission_lookup [OF inv ag that(2)] that(1) by (simp add: perm_on_def)
    have "AgentHasPermission a typ r u = Inr False"
      using has [OF agu] row [OF _ assms(4)] by (auto simp: u split: option.split)
    moreover have "AgentHasPermission a ty' r' u = AgentHasPermission a ty' r' t"
      if "CHR '':'' \<notin> set ty'" and "(CanonicalResourceType ty', r') \<noteq> (CanonicalResourceType typ, r)" for ty' r'
      unfolding has [OF agu] has [OF refl] u using row [OF _ that(1)] that(2)
      by (cases "gm_get (permissions t) (permissionKey a (CanonicalResourceType ty') r')") auto
    ultimately show ?thesis by blast
  qed
  ultimately show ?thesis using ag by (auto simp: AgentHasPermission_def ListAgentPermissions_def)
qed

text \<open>A repeated grant is a no-op: when the agent already holds a permission on the resource, granting again
  reports success and changes nothing: the constraints of the first grant stay in force.\<close>

lemma GrantAgentPermission_keeps_first:
  assumes "AgentHasPermission (AP_AgentID p) (AP_ResourceType p) (AP_ResourceID p) s = Inr True"
  shows "GrantAgentPermission p s = (Inr (), s)"
  using assms by (auto simp: AgentHasPermission_def GrantAgentPermission_def split: if_splits)

text \<open>The conflict check of a new resource compares the type as given, before the legacy name is translated.\<close>

lemma duplicate_rest_resource:
  assumes "gm_get (resources s) k = Some old" and "Res_Type old = ResRest"
    and "\<And>k v. gm_get (resources s) k = Some v \<Longrightarrow> Res_Type v \<noteq> ResAPI" and "gm_wf (resources s)"
    and "Res_Type r = ResAPI" and "Res_Name r = Res_Name old" and "k \<noteq> env_uuid s (env_ctr s)"
  shows "\<exists>new t. CreateResource r s = (Inr new, t) \<and> gm_get (resources t) k = Some old \<and>
    gm_get (resources t) (Res_ID new) = Some new \<and> Res_ID new \<noteq> k \<and> Res_Type new = Res_Type old \<and> Res_Name new = Res_Name old"
proof -
  have "\<not> list_ex (\<lambda>e. Res_Type e = Res_Type r \<and> EqualFold (Res_Name e) (Res_Name r)) (gm_vals (resources s))"
    using assms(3,5) gm_vals_iff [OF assms(4)] by (auto simp: list_ex_iff)
  then show ?thesis using assms
    by (simp add: CreateResource_def Let_def NewString_def CanonicalResourceType_def)
qed

section \<open>A run\<close>

definition demo_registry0 :: MemoryStore where
  "demo_registry0 = demo_store\<lparr>squads := [(''q'', Squad_zero)]\<rparr>"

definition demo_registry :: MemoryStore where
  "demo_registry =
     (let s1 = snd (UpsertUser (User_zero\<lparr>User_Email := ''a@b''\<rparr>) demo_registry0);
          s2 = snd (CreateAIProvider (AIProvider_zero\<lparr>Prov_Name := ''Acme''\<rparr>) s1);
          s3 = snd (CreateAIModel (AIModel_zero\<lparr>Mod_ProviderID := demo_uuid 1, Mod_ModelName := ''m1''\<rparr>) s2);
          s4 = snd (GrantModelToUser (UserModelGrant_zero\<lparr>UMG_GranteeUserID := demo_uuid 0, UMG_AIModelID := demo_uuid 2\<rparr>) s3);
          s5 = snd (CreateAgent (Agent_zero\<lparr>Agent_SquadID := ''q'', Agent_Name := ''Bea'', Agent_WorkspacePVCName := ''w''\<rparr>) s4);
          s6 = snd (CreateResource (RegistryResource_zero\<lparr>Res_Type := ''api'', Res_Name := ''jira''\<rparr>) s5)
      in snd (GrantAgentPermission (AgentPermission_zero\<lparr>AP_AgentID := demo_uuid 4, AP_ResourceType := ''api'',
                AP_ResourceID := demo_uuid 6\<rparr>) s6))"

lemma demo_registry_init: "registry_init demo_registry0"
  by (auto simp: registry_init_def demo_registry0_def demo_store_def NewMemoryStore_def uuid_shape_def demo_uuid_def)

lemmas registry_after = registry_step.upsert_user [THEN rtranclp.rtrancl_into_rtrancl [of registry_step, rotated]]
  registry_step.create_provider [THEN rtranclp.rtrancl_into_rtrancl [of registry_step, rotated]]
  registry_step.create_model [THEN rtranclp.rtrancl_into_rtrancl [of registry_step, rotated]]
  registry_step.grant_model [THEN rtranclp.rtrancl_into_rtrancl [of registry_step, rotated]]
  registry_step.create_agent [THEN rtranclp.rtrancl_into_rtrancl [of registry_step, rotated]]
  registry_step.create_resource [THEN rtranclp.rtrancl_into_rtrancl [of registry_step, rotated]]
  registry_step.grant_permission [THEN rtranclp.rtrancl_into_rtrancl [of registry_step, rotated]]

lemma demo_registry_run: "registry_step\<^sup>*\<^sup>* demo_registry0 demo_registry"
  unfolding demo_registry_def Let_def
  by (intro registry_after rtranclp.rtrancl_refl) (simp add: plain_type_def)

lemma demo_registry_evals:
  "case GetAIModel (demo_uuid 2) demo_registry of Inr m \<Rightarrow> Mod_ProviderID m = demo_uuid 1 | _ \<Rightarrow> False"
  "\<not> isl (GetUser (demo_uuid 0) demo_registry)"
  "\<not> isl (GetAgent (demo_uuid 4) demo_registry)"
  "AgentHasPermission (demo_uuid 4) ''rest'' (demo_uuid 6) demo_registry = Inr True"
  "\<not> isl (fst (DeleteResource ''rest'' (demo_uuid 6) demo_registry))"
  "length (holds_model (demo_uuid 0) (demo_uuid 2) demo_registry) = 1"
  by code_simp+

theorem model_catalogue_consistent_witness:
  "\<exists>m p. GetAIModel (demo_uuid 2) demo_registry = Inr m \<and> GetAIProvider (Mod_ProviderID m) demo_registry = Inr p"
proof -
  obtain m where m: "GetAIModel (demo_uuid 2) demo_registry = Inr m" using demo_registry_evals(1) by (auto split: sum.splits)
  from conjunct1 [OF model_catalogue_consistent [OF demo_registry_init demo_registry_run], rule_format, OF m] m show ?thesis by blast
qed

theorem model_grants_exact_witness:
  "RevokeModelFromUser (demo_uuid 0) (demo_uuid 2) demo_registry \<noteq> (Inl ErrNotFound, demo_registry) \<and>
   (\<exists>t'. RevokeModelFromUser (demo_uuid 0) (demo_uuid 2) demo_registry = (Inr (), t'))"
proof -
  obtain u where u: "GetUser (demo_uuid 0) demo_registry = Inr u" using demo_registry_evals(2) by (metis isl_def sum.exhaust)
  obtain m where m: "GetAIModel (demo_uuid 2) demo_registry = Inr m" using demo_registry_evals(1) by (auto split: sum.splits)
  have ne: "holds_model (demo_uuid 0) (demo_uuid 2) demo_registry \<noteq> []" using demo_registry_evals(6) by auto
  note exact = model_grants_exact [OF demo_registry_init demo_registry_run u m, unfolded if_not_P [OF ne]]
  then obtain t' where "RevokeModelFromUser (demo_uuid 0) (demo_uuid 2) demo_registry = (Inr (), t')" by blast
  then show ?thesis by simp
qed

theorem permission_views_agree_witness:
  "\<exists>u. DeleteResource ''rest'' (demo_uuid 6) demo_registry = (Inr (), u) \<and>
     AgentHasPermission (demo_uuid 4) ''rest'' (demo_uuid 6) u = Inr False"
proof -
  obtain a where a: "GetAgent (demo_uuid 4) demo_registry = Inr a" using demo_registry_evals(3) by (metis isl_def sum.exhaust)
  obtain u where u: "DeleteResource ''rest'' (demo_uuid 6) demo_registry = (Inr (), u)"
    using result_ok [OF demo_registry_evals(5)] by auto
  have "CHR '':'' \<notin> set ''rest''" by simp
  from permission_views_agree [OF demo_registry_init demo_registry_run a this, of "demo_uuid 6"] u show ?thesis by blast
qed

end
