(* ===== verification/Inbox_Store.thy ===== *)
theory Inbox_Store
  imports Registry_Store Go_Json
begin

text \<open>
  The owner-facing side of \<^verbatim>\<open>storage/memory.go\<close>: inbox messages with their attachments, notifications and mute
  lists, the stale-task sweep, prompt templates, image uploads and drift reports. The decoder of message payloads
  (\<^verbatim>\<open>json.Unmarshal\<close> from bytes) is the argument \<open>decode\<close> of the sweep.
\<close>

section \<open>Inbox messages\<close>

definition CreateInboxMessage :: "InboxMessage \<Rightarrow> MemoryStore \<Rightarrow> InboxMessage res \<times> MemoryStore" where
  "CreateInboxMessage msg s =
     (if gm_get (users s) (Inb_UserID msg) = None then (Inl ErrNotFound, s)
      else if Inb_SquadID msg \<noteq> [] \<and> gm_get (squads s) (Inb_SquadID msg) = None then (Inl ErrNotFound, s)
      else let (nid, s1) = NewString s;
               created = msg\<lparr>Inb_ID := nid, Inb_Kind := (if Inb_Kind msg = [] then InboxActionRequired else Inb_Kind msg),
                             Inb_CreatedAt := env_now s\<rparr>
           in (Inr created, drainPendingAuditsLocked nid (s1\<lparr>inbox := gm_put nid created (inbox s1)\<rparr>)))"

definition inbox_of :: "string \<Rightarrow> bool \<Rightarrow> MemoryStore \<Rightarrow> InboxMessage list" where
  "inbox_of userID unreadOnly s =
     sort_by (\<lambda>a b. cmp_key Inb_CreatedAt b a)
       (filter (\<lambda>msg. Inb_UserID msg = userID \<and> \<not> (unreadOnly \<and> Inb_ReadAt msg \<noteq> None)) (gm_vals (inbox s)))"

definition ListInboxMessages :: "string \<Rightarrow> bool \<Rightarrow> int \<Rightarrow> MemoryStore \<Rightarrow> InboxMessage list" where
  "ListInboxMessages userID unreadOnly limit0 s =
     (let limit = (if limit0 \<le> 0 then 100 else limit0) in take (nat limit) (inbox_of userID unreadOnly s))"

definition ListInboxPage :: "string \<Rightarrow> bool \<Rightarrow> int \<Rightarrow> int \<Rightarrow> MemoryStore \<Rightarrow> InboxMessage list \<times> nat" where
  "ListInboxPage userID unreadOnly limit0 offset0 s =
     (let limit = (if limit0 \<le> 0 then 100 else limit0);
          offset1 = (if offset0 < 0 then 0 else offset0);
          all = inbox_of userID unreadOnly s; total = length all;
          offset = (if int total < offset1 then int total else offset1)
      in (take (nat limit) (drop (nat offset) all), total))"

definition MarkInboxMessageRead :: "string \<Rightarrow> string \<Rightarrow> MemoryStore \<Rightarrow> InboxMessage res \<times> MemoryStore" where
  "MarkInboxMessageRead userID mid s =
     (case gm_get (inbox s) mid of None \<Rightarrow> (Inl ErrNotFound, s)
      | Some msg \<Rightarrow>
          if Inb_UserID msg \<noteq> userID then (Inl ErrNotFound, s)
          else let msg' = (if Inb_ReadAt msg = None then msg\<lparr>Inb_ReadAt := Some (env_now s)\<rparr> else msg)
               in (Inr msg', drainPendingAuditsLocked mid (s\<lparr>inbox := gm_put mid msg' (inbox s)\<rparr>)))"

definition GetInboxMessage :: "string \<Rightarrow> MemoryStore \<Rightarrow> InboxMessage res" where
  "GetInboxMessage mid s = (case gm_get (inbox s) mid of None \<Rightarrow> Inl ErrNotFound | Some msg \<Rightarrow> Inr msg)"

definition DeleteInboxMessage :: "string \<Rightarrow> string \<Rightarrow> MemoryStore \<Rightarrow> unit res \<times> MemoryStore" where
  "DeleteInboxMessage mid userID s =
     (case gm_get (inbox s) mid of None \<Rightarrow> (Inl ErrNotFound, s)
      | Some msg \<Rightarrow>
          if userID \<noteq> [] \<and> Inb_UserID msg \<noteq> userID then (Inl ErrNotFound, s)
          else (Inr (), s\<lparr>inbox := gm_del mid (inbox s),
                          inboxAttachments := gm_delete_if (\<lambda>att. Att_MessageID att = mid) (inboxAttachments s)\<rparr>))"

definition CreateInboxAttachment :: "InboxAttachment \<Rightarrow> MemoryStore \<Rightarrow> InboxAttachment res \<times> MemoryStore" where
  "CreateInboxAttachment a s =
     (if gm_get (inbox s) (Att_MessageID a) = None then (Inl ErrNotFound, s)
      else let (aid, s1) = (if Att_ID a = [] then NewString s else (Att_ID a, s));
               created = a\<lparr>Att_ID := aid, Att_CreatedAt := env_now s\<rparr>
           in (Inr created, s1\<lparr>inboxAttachments := gm_put aid created (inboxAttachments s1)\<rparr>))"

definition GetInboxAttachment :: "string \<Rightarrow> MemoryStore \<Rightarrow> InboxAttachment res" where
  "GetInboxAttachment aid s = (case gm_get (inboxAttachments s) aid of None \<Rightarrow> Inl ErrNotFound | Some a \<Rightarrow> Inr a)"

text \<open>The result map has one slice per message that has attachments; the bytes are left out.\<close>

definition ListInboxAttachmentMeta :: "string list \<Rightarrow> MemoryStore \<Rightarrow> InboxAttachment list gomap" where
  "ListInboxAttachmentMeta messageIDs s =
     gm_map (sort_by (cmp_key Att_CreatedAt))
       (fold (\<lambda>att out. gm_put (Att_MessageID att)
                ((case gm_get out (Att_MessageID att) of None \<Rightarrow> [] | Some xs \<Rightarrow> xs) @ [att\<lparr>Att_Data := []\<rparr>]) out)
          (filter (\<lambda>att. Att_MessageID att \<in> set messageIDs) (gm_vals (inboxAttachments s))) [])"

section \<open>Notifications\<close>

definition CreateNotification :: "Notification \<Rightarrow> MemoryStore \<Rightarrow> Notification res \<times> MemoryStore" where
  "CreateNotification n s =
     (if gm_get (users s) (Ntf_UserID n) = None then (Inl ErrNotFound, s)
      else if Ntf_SquadID n \<noteq> [] \<and> gm_get (squads s) (Ntf_SquadID n) = None then (Inl ErrNotFound, s)
      else let (nid, s1) = NewString s;
               created = n\<lparr>Ntf_ID := nid, Ntf_Severity := (if Ntf_Severity n = [] then NotificationWarning else Ntf_Severity n),
                           Ntf_CreatedAt := env_now s\<rparr>
           in (Inr created, s1\<lparr>notifications := gm_put nid created (notifications s1)\<rparr>))"

definition ListNotifications :: "string \<Rightarrow> bool \<Rightarrow> int \<Rightarrow> MemoryStore \<Rightarrow> Notification list" where
  "ListNotifications userID unreadOnly limit0 s =
     (let limit = (if limit0 \<le> 0 then 100 else limit0)
      in take (nat limit) (sort_by (\<lambda>a b. cmp_key Ntf_CreatedAt b a)
           (filter (\<lambda>n. Ntf_UserID n = userID \<and> \<not> (unreadOnly \<and> Ntf_ReadAt n \<noteq> None)) (gm_vals (notifications s)))))"

definition HasRecentNotificationForTask :: "string \<Rightarrow> string \<Rightarrow> instant \<Rightarrow> MemoryStore \<Rightarrow> bool" where
  "HasRecentNotificationForTask taskID ty since s =
     (if taskID = [] then False
      else list_ex (\<lambda>n. Ntf_TaskID n = taskID \<and> Ntf_Type n = ty \<and> \<not> Ntf_CreatedAt n < since) (gm_vals (notifications s)))"

text \<open>\<^verbatim>\<open>json.Unmarshal\<close> of a payload into a struct with the one field \<^verbatim>\<open>task_id\<close>; \<open>None\<close> is an error.\<close>

definition payload_task_id :: "(string \<Rightarrow> RawMessage) \<Rightarrow> string \<Rightarrow> string option" where
  "payload_task_id decode payload =
     (case decode payload of RawEmpty \<Rightarrow> None | RawInvalid \<Rightarrow> None
      | Raw v \<Rightarrow> Option.bind (un_struct v) (st_string ''task_id''))"

definition taskThreadActivitySinceLocked :: "(string \<Rightarrow> RawMessage) \<Rightarrow> string \<Rightarrow> instant \<Rightarrow> MemoryStore \<Rightarrow> bool" where
  "taskThreadActivitySinceLocked decode taskID cutoff s =
     list_ex (\<lambda>msg. \<not> Msg_CreatedAt msg < cutoff \<and> payload_task_id decode (Msg_Payload msg) = Some taskID) (gm_vals (messages s))"

definition taskExecutionActivitySinceLocked :: "string \<Rightarrow> instant \<Rightarrow> MemoryStore \<Rightarrow> bool" where
  "taskExecutionActivitySinceLocked taskID cutoff s =
     list_ex (\<lambda>e. TE_TaskID e = taskID \<and> \<not> TE_UpdatedAt e < cutoff) (gm_vals (taskExecs s))"

definition ListStaleInProgressTasks :: "(string \<Rightarrow> RawMessage) \<Rightarrow> instant \<Rightarrow> MemoryStore \<Rightarrow> Task list" where
  "ListStaleInProgressTasks decode cutoff s =
     sort_by (cmp_key Task_UpdatedAt)
       (filter (\<lambda>t. \<not> (Task_Status t \<noteq> TaskInProgress \<or> \<not> Task_UpdatedAt t < cutoff) \<and>
                    \<not> (taskThreadActivitySinceLocked decode (Task_ID t) cutoff s \<or>
                       taskExecutionActivitySinceLocked (Task_ID t) cutoff s)) (gm_vals (tasks s)))"

definition MarkNotificationRead :: "string \<Rightarrow> string \<Rightarrow> MemoryStore \<Rightarrow> Notification res \<times> MemoryStore" where
  "MarkNotificationRead userID nid s =
     (case gm_get (notifications s) nid of None \<Rightarrow> (Inl ErrNotFound, s)
      | Some n \<Rightarrow>
          if Ntf_UserID n \<noteq> userID then (Inl ErrNotFound, s)
          else let n' = (if Ntf_ReadAt n = None then n\<lparr>Ntf_ReadAt := Some (env_now s)\<rparr> else n)
               in (Inr n', s\<lparr>notifications := gm_put nid n' (notifications s)\<rparr>))"

definition MarkAllNotificationsRead :: "string \<Rightarrow> MemoryStore \<Rightarrow> nat \<times> MemoryStore" where
  "MarkAllNotificationsRead userID s =
     (let unread = (\<lambda>n. Ntf_UserID n = userID \<and> Ntf_ReadAt n = None)
      in (length (filter unread (gm_vals (notifications s))),
          s\<lparr>notifications := gm_map (\<lambda>n. if unread n then n\<lparr>Ntf_ReadAt := Some (env_now s)\<rparr> else n) (notifications s)\<rparr>))"

definition DeleteReadNotificationsBefore :: "instant \<Rightarrow> MemoryStore \<Rightarrow> nat \<times> MemoryStore" where
  "DeleteReadNotificationsBefore cutoff s =
     (let old = (\<lambda>n. Ntf_ReadAt n \<noteq> None \<and> Ntf_CreatedAt n < cutoff)
      in (length (filter old (gm_vals (notifications s))), s\<lparr>notifications := gm_delete_if old (notifications s)\<rparr>))"

definition GetNotificationPreferences :: "string \<Rightarrow> MemoryStore \<Rightarrow> string list res" where
  "GetNotificationPreferences userID s =
     (if gm_get (users s) userID = None then Inl ErrNotFound
      else Inr (case gm_get (notifPrefs s) userID of None \<Rightarrow> [] | Some muted \<Rightarrow> muted))"

definition SetNotificationPreferences :: "string \<Rightarrow> string list \<Rightarrow> MemoryStore \<Rightarrow> string list res \<times> MemoryStore" where
  "SetNotificationPreferences userID muted s =
     (if gm_get (users s) userID = None then (Inl ErrNotFound, s)
      else (Inr muted, s\<lparr>notifPrefs := gm_put userID muted (notifPrefs s)\<rparr>))"

section \<open>Prompt templates\<close>

definition CreatePromptTemplate :: "PromptTemplate \<Rightarrow> MemoryStore \<Rightarrow> PromptTemplate res \<times> MemoryStore" where
  "CreatePromptTemplate t s =
     (if list_ex (\<lambda>e. EqualFold (PT_Name e) (PT_Name t)) (gm_vals (promptTemplates s)) then (Inl ErrConflict, s)
      else let now = env_now s; (nid, s1) = NewString s;
               created = t\<lparr>PT_ID := nid, PT_CreatedAt := now, PT_UpdatedAt := now\<rparr>
           in (Inr created, s1\<lparr>promptTemplates := gm_put nid created (promptTemplates s1)\<rparr>))"

definition ListPromptTemplates :: "MemoryStore \<Rightarrow> PromptTemplate list" where
  "ListPromptTemplates s = sort_by (cmp_on (\<lambda>t. ToLower (PT_Name t))) (gm_vals (promptTemplates s))"

definition GetPromptTemplate :: "string \<Rightarrow> MemoryStore \<Rightarrow> PromptTemplate res" where
  "GetPromptTemplate tid s = (case gm_get (promptTemplates s) tid of None \<Rightarrow> Inl ErrNotFound | Some t \<Rightarrow> Inr t)"

definition UpdatePromptTemplate :: "PromptTemplate \<Rightarrow> MemoryStore \<Rightarrow> PromptTemplate res \<times> MemoryStore" where
  "UpdatePromptTemplate t s =
     (case gm_get (promptTemplates s) (PT_ID t) of None \<Rightarrow> (Inl ErrNotFound, s)
      | Some existing \<Rightarrow>
          if list_ex (\<lambda>other. PT_ID other \<noteq> PT_ID t \<and> EqualFold (PT_Name other) (PT_Name t)) (gm_vals (promptTemplates s))
          then (Inl ErrConflict, s)
          else let updated = t\<lparr>PT_CreatedBy := PT_CreatedBy existing, PT_CreatedAt := PT_CreatedAt existing, PT_UpdatedAt := env_now s\<rparr>
               in (Inr updated, s\<lparr>promptTemplates := gm_put (PT_ID t) updated (promptTemplates s)\<rparr>))"

definition DeletePromptTemplate :: "string \<Rightarrow> MemoryStore \<Rightarrow> unit res \<times> MemoryStore" where
  "DeletePromptTemplate tid s =
     (case gm_get (promptTemplates s) tid of None \<Rightarrow> (Inl ErrNotFound, s)
      | Some t \<Rightarrow> (Inr (), s\<lparr>promptTemplates := gm_del tid (promptTemplates s)\<rparr>))"

fun bulk_delete :: "string list \<Rightarrow> PromptTemplate gomap \<Rightarrow> nat \<Rightarrow> nat \<times> PromptTemplate gomap" where
  "bulk_delete [] m n = (n, m)"
| "bulk_delete (i # ids) m n =
     (case gm_get m i of None \<Rightarrow> bulk_delete ids m n | Some t \<Rightarrow> bulk_delete ids (gm_del i m) (Suc n))"

definition BulkDeletePromptTemplates :: "string list \<Rightarrow> MemoryStore \<Rightarrow> nat res \<times> MemoryStore" where
  "BulkDeletePromptTemplates ids s =
     (if ids = [] then (Inl ErrInvalidInput, s)
      else let (n, m) = bulk_delete ids (promptTemplates s) 0 in (Inr n, s\<lparr>promptTemplates := m\<rparr>))"

section \<open>Uploads and drift reports\<close>

definition CreateUpload :: "Upload option \<Rightarrow> MemoryStore \<Rightarrow> Upload res \<times> MemoryStore" where
  "CreateUpload up s =
     (case up of None \<Rightarrow> (Inl ErrInvalidInput, s)
      | Some u \<Rightarrow>
          if Upl_SquadID u = [] then (Inl ErrInvalidInput, s)
          else let (uid, s1) = (if Upl_ID u = [] then NewString s else (Upl_ID u, s));
                   created = u\<lparr>Upl_ID := uid, Upl_CreatedAt := (if Upl_CreatedAt u = 0 then env_now s else Upl_CreatedAt u)\<rparr>
               in (Inr created, s1\<lparr>uploads := gm_put uid created (uploads s1)\<rparr>))"

definition GetUpload :: "string \<Rightarrow> MemoryStore \<Rightarrow> Upload res" where
  "GetUpload uid s = (case gm_get (uploads s) uid of None \<Rightarrow> Inl ErrNotFound | Some u \<Rightarrow> Inr u)"

definition CreateDriftReport :: "DriftReport \<Rightarrow> MemoryStore \<Rightarrow> DriftReport \<times> MemoryStore" where
  "CreateDriftReport r s =
     (let (did, s1) = (if DR_ID r = [] then NewString s else (DR_ID r, s));
          created = r\<lparr>DR_ID := did, DR_CheckedAt := env_now s\<rparr>
      in (created, s1\<lparr>driftReports := driftReports s1 @ [created]\<rparr>))"

definition CountDriftReports :: "string \<Rightarrow> instant \<Rightarrow> bool \<Rightarrow> MemoryStore \<Rightarrow> nat" where
  "CountDriftReports resourceID since driftedOnly s =
     length (filter (\<lambda>r. DR_ResourceID r = resourceID \<and> \<not> DR_CheckedAt r < since \<and> \<not> (driftedOnly \<and> DR_InSync r)) (driftReports s))"

end
