(* ===== verification/Inbox_Laws.thy ===== *)
theory Inbox_Laws
  imports Inbox_Store
begin

text \<open>
  Inbox paging shows every message once, unread notifications survive until their owner reads them, and the bulk
  delete of templates agrees with deleting them one by one.
\<close>

section \<open>Pages\<close>

interpretation newest_first: total_cmp "\<lambda>a b. cmp_key f b a" for f
  by unfold_locales (auto simp: cmp_key_def split: if_splits)

lemma concat_pages:
  "0 < n \<Longrightarrow> length xs \<le> k * n \<Longrightarrow> concat (map (\<lambda>i. take n (drop (i * n) xs)) [0..<k]) = xs"
proof (induction k arbitrary: xs)
  case (Suc k)
  have "map (\<lambda>i. take n (drop (i * n) xs)) [0..<Suc k] = take n xs # map (\<lambda>i. take n (drop (i * n) (drop n xs))) [0..<k]"
  proof -
    have "[0..<Suc k] = 0 # map Suc [0..<k]" by (simp add: map_Suc_upt upt_conv_Cons del: upt_Suc)
    then show ?thesis by (simp add: add.commute del: upt_Suc)
  qed
  then show ?case using Suc.IH [of "drop n xs"] Suc.prems by simp
qed simp

lemma ListInboxPage_nat:
  "0 < limit \<Longrightarrow> ListInboxPage u un limit (int i * limit) s =
     (take (nat limit) (drop (i * nat limit) (inbox_of u un s)), length (inbox_of u un s))"
proof -
  assume pos: "0 < limit"
  then have off: "nat (int i * limit) = i * nat limit" by (simp add: nat_mult_distrib)
  show ?thesis
  proof (cases "int (length (inbox_of u un s)) < int i * limit")
    case True
    then have "length (inbox_of u un s) \<le> i * nat limit" using off by linarith
    then show ?thesis using True pos by (simp add: ListInboxPage_def Let_def)
  next
    case False
    then show ?thesis using pos off by (simp add: ListInboxPage_def Let_def mult_less_0_iff)
  qed
qed

text \<open>Paging shows every inbox message once. With a positive page size the pages laid side by side are exactly
  the user's messages (or unread messages), each once, newest first, and every page reports their number.\<close>

theorem inbox_pages_cover:
  assumes "0 < limit" and "int (snd (ListInboxPage u un limit 0 s)) \<le> int n * limit"
  defines "pages \<equiv> concat (map (\<lambda>i. fst (ListInboxPage u un limit (int i * limit) s)) [0..<n])"
  shows "mset pages = filter_mset (\<lambda>m. Inb_UserID m = u \<and> (un \<longrightarrow> Inb_ReadAt m = None)) (mset (gm_vals (inbox s))) \<and>
    sorted_wrt (\<lambda>a b. Inb_CreatedAt b \<le> Inb_CreatedAt a) pages \<and>
    (\<forall>i. snd (ListInboxPage u un limit (int i * limit) s) = length pages)"
proof -
  let ?all = "inbox_of u un s"
  have "int (length ?all) \<le> int n * limit"
    using assms(1,2) ListInboxPage_nat [of limit u un 0 s] by simp
  then have "length ?all \<le> n * nat limit" 
    using assms(1) by (metis int_nat_eq less_le_not_le linorder_linear of_nat_le_iff of_nat_mult)
  then have pages: "pages = ?all"
    unfolding pages_def using concat_pages [of "nat limit" ?all n] assms(1) by (simp add: ListInboxPage_nat)
  have ms: "mset ?all = filter_mset (\<lambda>m. Inb_UserID m = u \<and> (un \<longrightarrow> Inb_ReadAt m = None)) (mset (gm_vals (inbox s)))"
    by (simp add: inbox_of_def)
  have "sorted_wrt (\<lambda>a b. Inb_CreatedAt b \<le> Inb_CreatedAt a) ?all"
    unfolding inbox_of_def
    by (rule sorted_wrt_mono_rel [OF _ newest_first.sorted_sort_by]) (auto simp: cmp_key_def split: if_splits)
  then show ?thesis using pages ms ListInboxPage_nat [OF assms(1)] by simp
qed

section \<open>Notifications\<close>

text \<open>What can happen while user \<open>u\<close> reads nothing: new notifications, reads by other users, the retention sweep with any
  cutoff, and anything that leaves the notifications alone.\<close>

inductive bell_step :: "string \<Rightarrow> MemoryStore \<Rightarrow> MemoryStore \<Rightarrow> bool" for u where
  post: "bell_step u s (snd (CreateNotification n s))"
| read_other: "v \<noteq> u \<Longrightarrow> bell_step u s (snd (MarkNotificationRead v k s))"
| read_all_other: "v \<noteq> u \<Longrightarrow> bell_step u s (snd (MarkAllNotificationsRead v s))"
| purge: "bell_step u s (snd (DeleteReadNotificationsBefore cutoff s))"
| elsewhere: "notifications t = notifications s \<Longrightarrow> env_uuid t = env_uuid s \<Longrightarrow> env_ctr s \<le> env_ctr t \<Longrightarrow> bell_step u s t"

definition bell_inv :: "string \<Rightarrow> Notification \<Rightarrow> MemoryStore \<Rightarrow> bool" where
  "bell_inv k n s \<longleftrightarrow> inj (env_uuid s) \<and> gm_wf (notifications s) \<and> issued s k \<and> gm_get (notifications s) k = Some n"

lemma bell_step_inv:
  assumes "bell_step u s t" and inv: "bell_inv k n s" and n: "Ntf_UserID n = u" "Ntf_ReadAt n = None"
  shows "bell_inv k n t"
  using assms(1)
proof cases
  case (post m)
  have "k \<noteq> env_uuid s (env_ctr s)" using inv not_issued_next [of s "env_ctr s"] by (auto simp: bell_inv_def)
  moreover have "issued (s\<lparr>env_ctr := Suc (env_ctr s), notifications := N\<rparr>) k" for N
    using inv issued_mono [of s k "s\<lparr>env_ctr := Suc (env_ctr s), notifications := N\<rparr>"] by (simp add: bell_inv_def)
  ultimately show ?thesis using inv unfolding post bell_inv_def by (auto simp: CreateNotification_def Let_def NewString_def)
next
  case (read_other v k')
  then show ?thesis using inv n by (auto simp: bell_inv_def MarkNotificationRead_def Let_def issued_def split: option.split)
next
  case (read_all_other v)
  then show ?thesis using inv n by (simp add: bell_inv_def MarkAllNotificationsRead_def Let_def issued_def)
next
  case (purge cutoff)
  then show ?thesis using inv n by (simp add: bell_inv_def DeleteReadNotificationsBefore_def Let_def issued_def gm_get_delete_if)
next
  case elsewhere
  then show ?thesis using inv issued_mono [of s k t] by (simp add: bell_inv_def)
qed

text \<open>Unread notifications survive. Whatever the store does while the owner reads nothing, retention sweeps
  included, an unread notification keeps its row unchanged and stays in the owner's unread list.\<close>

theorem unread_notification_survives:
  assumes "inj (env_uuid s)" and "gm_wf (notifications s)" and "issued s k" and "gm_get (notifications s) k = Some n"
    and "Ntf_ReadAt n = None" and "(bell_step (Ntf_UserID n))\<^sup>*\<^sup>* s t"
    and "0 < limit" and "int (length (notifications t)) \<le> limit"
  shows "gm_get (notifications t) k = Some n \<and> n \<in> set (ListNotifications (Ntf_UserID n) True limit t)"
proof -
  have "bell_inv k n t"
    using assms(6)
    by (induction rule: rtranclp_induct) (use assms(1-5) bell_step_inv in \<open>auto simp: bell_inv_def\<close>)
  then have get: "gm_get (notifications t) k = Some n" by (simp add: bell_inv_def)
  let ?l = "sort_by (\<lambda>a b. cmp_key Ntf_CreatedAt b a)
      (filter (\<lambda>m. Ntf_UserID m = Ntf_UserID n \<and> Ntf_ReadAt m = None) (gm_vals (notifications t)))"
  have "length ?l \<le> length (notifications t)" by (simp add: gm_vals_def)
  then have "take (nat limit) ?l = ?l" using assms(7,8) by simp
  moreover have "n \<in> set ?l" using gm_get_vals [OF get] assms(5) by simp
  ultimately show ?thesis using get assms(7) by (simp add: ListNotifications_def Let_def)
qed

section \<open>Templates\<close>

text \<open>The batch counts each existing template once, however often its id is given, and deletes exactly the named ones.\<close>

lemma bulk_delete_spec:
  "gm_wf m \<Longrightarrow> bulk_delete ids m n = (n', m') \<Longrightarrow>
   n' = n + card {i \<in> set ids. gm_get m i \<noteq> None} \<and> (\<forall>i. gm_get m' i = (if i \<in> set ids then None else gm_get m i))"
proof (induction ids arbitrary: m n)
  case (Cons i ids)
  show ?case
  proof (cases "gm_get m i")
    case None
    then have "{j \<in> set (i # ids). gm_get m j \<noteq> None} = {j \<in> set ids. gm_get m j \<noteq> None}" by auto
    then show ?thesis using Cons.IH [of m n] Cons.prems None by auto
  next
    case (Some t)
    let ?rest = "{j \<in> set ids. gm_get (gm_del i m) j \<noteq> None}"
    have "{j \<in> set (i # ids). gm_get m j \<noteq> None} = insert i ?rest" using Some by auto
    moreover have "card (insert i ?rest) = Suc (card ?rest)" by (rule card_insert_disjoint) simp_all
    ultimately have "card {j \<in> set (i # ids). gm_get m j \<noteq> None} = Suc (card ?rest)" by simp
    then show ?thesis using Cons.IH [of "gm_del i m" "Suc n"] Cons.prems Some by auto
  qed
qed simp

section \<open>A run\<close>

definition demo_inbox :: MemoryStore where
  "demo_inbox =
     (let s0 = demo_store\<lparr>users := [(''u1'', User_zero), (''u2'', User_zero)]\<rparr>;
          put = (\<lambda>u s. snd (CreateInboxMessage (InboxMessage_zero\<lparr>Inb_UserID := u\<rparr>) s))
      in snd (CreateNotification (Notification_zero\<lparr>Ntf_UserID := ''u1''\<rparr>) (put ''u1'' (put ''u2'' (put ''u1'' (put ''u1'' s0))))))"

lemma post_uuid:
  "env_uuid (snd (CreateInboxMessage m s)) = env_uuid s" "env_uuid (snd (CreateNotification n s)) = env_uuid s"
  by (simp_all add: CreateInboxMessage_def CreateNotification_def Let_def NewString_def)

theorem inbox_pages_cover_witness:
  "length (concat (map (\<lambda>i. fst (ListInboxPage ''u1'' False 2 (int i * 2) demo_inbox)) [0..<2])) = 3 \<and>
   snd (ListInboxPage ''u1'' False 2 (int 1 * 2) demo_inbox) = 3"
proof -
  have n: "snd (ListInboxPage ''u1'' False 2 0 demo_inbox) = 3" and e: "snd (ListInboxPage ''u1'' False 2 (int 1 * 2) demo_inbox) = 3"
    by code_simp+
  have "int (snd (ListInboxPage ''u1'' False 2 0 demo_inbox)) \<le> int 2 * 2" using n by simp
  from inbox_pages_cover [OF _ this] e show ?thesis by (metis zero_less_numeral)
qed

theorem unread_notification_survives_witness:
  "\<exists>n. gm_get (notifications (snd (DeleteReadNotificationsBefore 5000 demo_inbox))) (demo_uuid 4) = Some n \<and>
     Ntf_UserID n = ''u1'' \<and> n \<in> set (ListNotifications (Ntf_UserID n) True 10 (snd (DeleteReadNotificationsBefore 5000 demo_inbox)))"
proof -
  have e: "case gm_get (notifications demo_inbox) (demo_uuid 4) of Some n \<Rightarrow> Ntf_UserID n = ''u1'' \<and> Ntf_ReadAt n = None | _ \<Rightarrow> False"
    "length (notifications (snd (DeleteReadNotificationsBefore 5000 demo_inbox))) = 1"
    by code_simp+
  obtain n where n: "gm_get (notifications demo_inbox) (demo_uuid 4) = Some n" "Ntf_UserID n = ''u1''" "Ntf_ReadAt n = None"
    using e(1) by (auto split: option.splits)
  have env: "env_uuid demo_inbox = demo_uuid"
    by (simp add: demo_inbox_def demo_store_def NewMemoryStore_def Let_def post_uuid)
  have ctr: "env_ctr demo_inbox = 5" and wf: "gm_wf (notifications demo_inbox)" by code_simp+
  have iss: "issued demo_inbox (demo_uuid 4)" unfolding issued_def env ctr by (rule exI [of _ 4]) simp
  have inj: "inj (env_uuid demo_inbox)" using env by simp
  have run: "(bell_step (Ntf_UserID n))\<^sup>*\<^sup>* demo_inbox (snd (DeleteReadNotificationsBefore 5000 demo_inbox))"
    by (intro r_into_rtranclp bell_step.purge)
  have len: "int (length (notifications (snd (DeleteReadNotificationsBefore 5000 demo_inbox)))) \<le> 10" using e(2) by simp
  from unread_notification_survives [OF inj wf iss n(1,3) run _ len] n(2) show ?thesis by auto
qed

end
