(* ===== verification/Confirm_Store.thy ===== *)
theory Confirm_Store
  imports Inbox_Store
begin

text \<open>
  The guarded tables of \<^verbatim>\<open>storage/memory_confirmations.go\<close> and \<^verbatim>\<open>storage/memory_grant_requests.go\<close>: pending
  confirmations, standing grants and grant requests. A transition names the state it expects and conflicts when the
  row has left it.
\<close>

section \<open>Filters and updates\<close>

record ConfirmationFilter =
  CF_State :: string
  CF_RequestedBy :: string
  CF_ResourceID :: string

record ConfirmationUpdate =
  CU_State :: string
  CU_InboxMessageID :: "string option"
  CU_ApprovedAt :: "instant option"
  CU_ConsumedAt :: "instant option"
  CU_DeniedReason :: string

record StandingGrantFilter =
  SGF_OwnerUserID :: string
  SGF_IncludeRevoked :: bool

record GrantRequestFilter =
  GRF_State :: string
  GRF_RequesterUserID :: string
  GRF_OwnerUserID :: string

record GrantRequestUpdate =
  GRU_State :: string
  GRU_ApprovedByOwnerAt :: "instant option"
  GRU_ApprovedByAdminAt :: "instant option"
  GRU_DeniedReason :: string

definition ConfirmationUpdate_to :: "string \<Rightarrow> ConfirmationUpdate" where
  "ConfirmationUpdate_to st = \<lparr>CU_State = st, CU_InboxMessageID = None, CU_ApprovedAt = None, CU_ConsumedAt = None, CU_DeniedReason = []\<rparr>"

definition GrantRequestUpdate_to :: "string \<Rightarrow> GrantRequestUpdate" where
  "GrantRequestUpdate_to st = \<lparr>GRU_State = st, GRU_ApprovedByOwnerAt = None, GRU_ApprovedByAdminAt = None, GRU_DeniedReason = []\<rparr>"

text \<open>Newest first, then the larger identifier, as the three list functions sort.\<close>

definition cmp_newest :: "('a \<Rightarrow> instant) \<Rightarrow> ('a \<Rightarrow> string) \<Rightarrow> 'a \<Rightarrow> 'a \<Rightarrow> int" where
  "cmp_newest at k a b = (if at a = at b then str_cmp (k b) (k a) else cmp_key at b a)"

section \<open>Pending confirmations\<close>

definition CreatePendingConfirmation :: "PendingConfirmation \<Rightarrow> MemoryStore \<Rightarrow> PendingConfirmation \<times> MemoryStore" where
  "CreatePendingConfirmation c s =
     (let (nid, s1) = NewString s; now = env_now s;
          created = c\<lparr>PC_ID := nid, PC_State := (if PC_State c = [] then ConfirmationPending else PC_State c),
                      PC_CreatedAt := now, PC_UpdatedAt := now\<rparr>
      in (created, s1\<lparr>pendingConfirms := gm_put nid created (pendingConfirms s1)\<rparr>))"

definition GetPendingConfirmation :: "string \<Rightarrow> MemoryStore \<Rightarrow> PendingConfirmation res" where
  "GetPendingConfirmation cid s = (case gm_get (pendingConfirms s) cid of None \<Rightarrow> Inl ErrNotFound | Some c \<Rightarrow> Inr c)"

definition ListPendingConfirmations :: "ConfirmationFilter \<Rightarrow> MemoryStore \<Rightarrow> PendingConfirmation list" where
  "ListPendingConfirmations f s =
     sort_by (cmp_newest PC_CreatedAt PC_ID)
       (filter (\<lambda>c. \<not> (CF_State f \<noteq> [] \<and> PC_State c \<noteq> CF_State f) \<and> \<not> (CF_RequestedBy f \<noteq> [] \<and> PC_RequestedBy c \<noteq> CF_RequestedBy f) \<and>
                    \<not> (CF_ResourceID f \<noteq> [] \<and> PC_ResourceID c \<noteq> CF_ResourceID f)) (gm_vals (pendingConfirms s)))"

definition apply_confirmation_update :: "ConfirmationUpdate \<Rightarrow> instant \<Rightarrow> PendingConfirmation \<Rightarrow> PendingConfirmation" where
  "apply_confirmation_update up now c =
     c\<lparr>PC_State := CU_State up,
       PC_InboxMessageID := (case CU_InboxMessageID up of None \<Rightarrow> PC_InboxMessageID c | Some i \<Rightarrow> i),
       PC_ApprovedAt := (case CU_ApprovedAt up of None \<Rightarrow> PC_ApprovedAt c | Some t \<Rightarrow> Some t),
       PC_ConsumedAt := (case CU_ConsumedAt up of None \<Rightarrow> PC_ConsumedAt c | Some t \<Rightarrow> Some t),
       PC_DeniedReason := (if CU_DeniedReason up \<noteq> [] then CU_DeniedReason up else PC_DeniedReason c),
       PC_UpdatedAt := now\<rparr>"

definition UpdateConfirmationState ::
  "string \<Rightarrow> string \<Rightarrow> ConfirmationUpdate \<Rightarrow> MemoryStore \<Rightarrow> PendingConfirmation res \<times> MemoryStore" where
  "UpdateConfirmationState cid expectedFrom up s =
     (case gm_get (pendingConfirms s) cid of None \<Rightarrow> (Inl ErrNotFound, s)
      | Some c \<Rightarrow>
          if PC_State c \<noteq> expectedFrom then (Inl ErrConflict, s)
          else let c' = apply_confirmation_update up (env_now s) c
               in (Inr c', s\<lparr>pendingConfirms := gm_put cid c' (pendingConfirms s)\<rparr>))"

section \<open>Standing grants\<close>

definition standing_for :: "string \<Rightarrow> string \<Rightarrow> string \<Rightarrow> StandingGrant \<Rightarrow> bool" where
  "standing_for resourceID agentID tool g \<longleftrightarrow> SG_ResourceID g = resourceID \<and> SG_AgentID g = agentID \<and> SG_Tool g = tool"

definition FindLiveStandingGrant :: "string \<Rightarrow> string \<Rightarrow> string \<Rightarrow> instant \<Rightarrow> MemoryStore \<Rightarrow> StandingGrant res" where
  "FindLiveStandingGrant resourceID agentID tool now s =
     (case find (\<lambda>g. SG_RevokedAt g = None \<and> standing_for resourceID agentID tool g \<and> now < SG_ExpiresAt g) (gm_vals (standingGrants s)) of
        None \<Rightarrow> Inl ErrNotFound | Some g \<Rightarrow> Inr g)"

definition UpsertStandingGrant :: "StandingGrant \<Rightarrow> MemoryStore \<Rightarrow> StandingGrant \<times> MemoryStore" where
  "UpsertStandingGrant g s =
     (case find (\<lambda>(k, e). SG_RevokedAt e = None \<and> standing_for (SG_ResourceID g) (SG_AgentID g) (SG_Tool g) e) (standingGrants s) of
        Some (k, existing) \<Rightarrow>
          let existing' = existing\<lparr>SG_ExpiresAt := SG_ExpiresAt g, SG_CreatedBy := SG_CreatedBy g\<rparr>
          in (existing', s\<lparr>standingGrants := gm_put k existing' (standingGrants s)\<rparr>)
      | None \<Rightarrow>
          let (nid, s1) = NewString s; created = g\<lparr>SG_ID := nid, SG_CreatedAt := env_now s\<rparr>
          in (created, s1\<lparr>standingGrants := gm_put nid created (standingGrants s1)\<rparr>))"

definition GetStandingGrant :: "string \<Rightarrow> MemoryStore \<Rightarrow> StandingGrant res" where
  "GetStandingGrant gid s = (case gm_get (standingGrants s) gid of None \<Rightarrow> Inl ErrNotFound | Some g \<Rightarrow> Inr g)"

definition owned_resource :: "string \<Rightarrow> string \<Rightarrow> MemoryStore \<Rightarrow> bool" where
  "owned_resource resourceID owner s =
     (case gm_get (resources s) resourceID of None \<Rightarrow> False | Some r \<Rightarrow> Res_OwnerUserID r = owner)"

definition ListStandingGrants :: "StandingGrantFilter \<Rightarrow> MemoryStore \<Rightarrow> StandingGrant list" where
  "ListStandingGrants f s =
     sort_by (cmp_newest SG_CreatedAt SG_ID)
       (filter (\<lambda>g. \<not> (SG_RevokedAt g \<noteq> None \<and> \<not> SGF_IncludeRevoked f) \<and>
                    (SGF_OwnerUserID f \<noteq> [] \<longrightarrow> owned_resource (SG_ResourceID g) (SGF_OwnerUserID f) s)) (gm_vals (standingGrants s)))"

definition RevokeStandingGrant :: "string \<Rightarrow> instant \<Rightarrow> MemoryStore \<Rightarrow> StandingGrant res \<times> MemoryStore" where
  "RevokeStandingGrant gid at s =
     (case gm_get (standingGrants s) gid of None \<Rightarrow> (Inl ErrNotFound, s)
      | Some g \<Rightarrow>
          if SG_RevokedAt g \<noteq> None then (Inl ErrNotFound, s)
          else let g' = g\<lparr>SG_RevokedAt := Some at\<rparr>
               in (Inr g', s\<lparr>standingGrants := gm_put gid g' (standingGrants s)\<rparr>))"

section \<open>Grant requests\<close>

definition CreateGrantRequest :: "GrantRequest \<Rightarrow> MemoryStore \<Rightarrow> GrantRequest \<times> MemoryStore" where
  "CreateGrantRequest r s =
     (let (nid, s1) = NewString s; now = env_now s;
          created = r\<lparr>GR_ID := nid, GR_State := (if GR_State r = [] then GrantRequestPendingOwner else GR_State r),
                      GR_RequestedScope := (if GR_RequestedScope r = [] then ''{}'' else GR_RequestedScope r),
                      GR_CreatedAt := now, GR_UpdatedAt := now\<rparr>
      in (created, s1\<lparr>grantRequests := gm_put nid created (grantRequests s1)\<rparr>))"

definition GetGrantRequest :: "string \<Rightarrow> MemoryStore \<Rightarrow> GrantRequest res" where
  "GetGrantRequest rid s = (case gm_get (grantRequests s) rid of None \<Rightarrow> Inl ErrNotFound | Some r \<Rightarrow> Inr r)"

definition ListGrantRequests :: "GrantRequestFilter \<Rightarrow> MemoryStore \<Rightarrow> GrantRequest list" where
  "ListGrantRequests f s =
     sort_by (cmp_newest GR_CreatedAt GR_ID)
       (filter (\<lambda>r. \<not> (GRF_State f \<noteq> [] \<and> GR_State r \<noteq> GRF_State f) \<and>
                    \<not> (GRF_RequesterUserID f \<noteq> [] \<and> GR_RequesterUserID r \<noteq> GRF_RequesterUserID f) \<and>
                    (GRF_OwnerUserID f \<noteq> [] \<longrightarrow> owned_resource (GR_ResourceID r) (GRF_OwnerUserID f) s)) (gm_vals (grantRequests s)))"

definition apply_grant_update :: "GrantRequestUpdate \<Rightarrow> instant \<Rightarrow> GrantRequest \<Rightarrow> GrantRequest" where
  "apply_grant_update up now r =
     r\<lparr>GR_State := GRU_State up,
       GR_ApprovedByOwnerAt := (case GRU_ApprovedByOwnerAt up of None \<Rightarrow> GR_ApprovedByOwnerAt r | Some t \<Rightarrow> Some t),
       GR_ApprovedByAdminAt := (case GRU_ApprovedByAdminAt up of None \<Rightarrow> GR_ApprovedByAdminAt r | Some t \<Rightarrow> Some t),
       GR_DeniedReason := (if GRU_DeniedReason up \<noteq> [] then GRU_DeniedReason up else GR_DeniedReason r),
       GR_UpdatedAt := now\<rparr>"

definition UpdateGrantRequestState ::
  "string \<Rightarrow> string \<Rightarrow> GrantRequestUpdate \<Rightarrow> MemoryStore \<Rightarrow> GrantRequest res \<times> MemoryStore" where
  "UpdateGrantRequestState rid expectedFrom up s =
     (case gm_get (grantRequests s) rid of None \<Rightarrow> (Inl ErrNotFound, s)
      | Some r \<Rightarrow>
          if GR_State r \<noteq> expectedFrom then (Inl ErrConflict, s)
          else let r' = apply_grant_update up (env_now s) r
               in (Inr r', s\<lparr>grantRequests := gm_put rid r' (grantRequests s)\<rparr>))"

section \<open>The guarded transition\<close>

text \<open>Both tables promise the same of a transition: it succeeds exactly from the expected state, moves that row to the
  requested state and touches no other. The services rely on this promise alone.\<close>

locale guarded_table =
  fixes rows :: "MemoryStore \<Rightarrow> 'r gomap" and state :: "'r \<Rightarrow> string"
    and target :: "'u \<Rightarrow> string" and edit :: "'u \<Rightarrow> instant \<Rightarrow> 'r \<Rightarrow> 'r"
    and upd :: "string \<Rightarrow> string \<Rightarrow> 'u \<Rightarrow> MemoryStore \<Rightarrow> 'r res \<times> MemoryStore"
  assumes edit_state: "state (edit u now r) = target u"
    and upd_missing: "gm_get (rows s) k = None \<Longrightarrow> upd k from u s = (Inl ErrNotFound, s)"
    and upd_conflict: "gm_get (rows s) k = Some r \<Longrightarrow> state r \<noteq> from \<Longrightarrow> upd k from u s = (Inl ErrConflict, s)"
    and upd_ok: "gm_get (rows s) k = Some r \<Longrightarrow> state r = from \<Longrightarrow>
      fst (upd k from u s) = Inr (edit u (env_now s) r) \<and> rows (snd (upd k from u s)) = gm_put k (edit u (env_now s) r) (rows s)"
begin

lemma upd_Inr:
  assumes "upd k from u s = (Inr r', t)"
  shows "\<exists>r. gm_get (rows s) k = Some r \<and> state r = from \<and> r' = edit u (env_now s) r \<and> state r' = target u \<and>
    rows t = gm_put k r' (rows s)"
proof (cases "gm_get (rows s) k")
  case None
  then show ?thesis using upd_missing assms by force
next
  case (Some r)
  have st: "state r = from" using upd_conflict [OF Some] assms by force
  then show ?thesis using upd_ok [OF Some st, of u] assms Some edit_state by auto
qed

text \<open>Of two transitions of one row that expect the same state, and lead out of it, the second conflicts.\<close>

lemma second_decision_conflicts:
  assumes "upd k from u s = (Inr r', t)" and "target u \<noteq> from"
  shows "upd k from u' t = (Inl ErrConflict, t)"
proof -
  obtain r where "state r' = target u" and "rows t = gm_put k r' (rows s)" using upd_Inr [OF assms(1)] by blast
  then show ?thesis using upd_conflict [of t k r' "from" u'] assms(2) by simp
qed

text \<open>A transition that returns to the expected state does not exclude a second one.\<close>

lemma same_state_repeats:
  assumes "upd k from u s = (Inr r', t)" and "target u = from"
  shows "\<exists>r'' t'. upd k from u' t = (Inr r'', t')"
proof -
  have "state r' = from" and "gm_get (rows t) k = Some r'" using upd_Inr [OF assms(1)] assms(2) by auto
  then show ?thesis using upd_ok [of t k r' "from" u'] by (metis prod.collapse)
qed

lemma upd_others: "gm_get (rows (snd (upd k from u s))) k' = gm_get (rows s) k'" if "k' \<noteq> k"
  using that upd_missing [of s k "from" u] upd_conflict [of s k _ "from" u] upd_ok [of s k _ "from" u]
  by (cases "gm_get (rows s) k") (auto, metis gm.get_put snd_conv)

end

interpretation confirms: guarded_table pendingConfirms PC_State CU_State apply_confirmation_update UpdateConfirmationState
  by unfold_locales (simp_all add: UpdateConfirmationState_def apply_confirmation_update_def Let_def)

interpretation requests: guarded_table grantRequests GR_State GRU_State apply_grant_update UpdateGrantRequestState
  by unfold_locales (simp_all add: UpdateGrantRequestState_def apply_grant_update_def Let_def)

end
