(* ===== verification/Go_Fmt.thy ===== *)
theory Go_Fmt
  imports Go_Strings
begin

text \<open>
  Text the services write: \<^verbatim>\<open>json.Marshal\<close> of strings and of maps from strings to strings, \<^verbatim>\<open>time.RFC3339\<close> for UTC
  instants, and the index functions of \<^verbatim>\<open>strings\<close> that the grant linter uses. Strings are UTF-8 bytes; bytes above
  127 are copied as they stand.
\<close>

section \<open>JSON text\<close>

definition json_char :: "char \<Rightarrow> string" where
  "json_char c =
     (if c = CHR 0x22 then [CHR 0x5C, CHR 0x22]
      else if c = CHR 0x5C then [CHR 0x5C, CHR 0x5C]
      else if c = CHR 0x0A then [CHR 0x5C, CHR ''n'']
      else if c = CHR 0x0D then [CHR 0x5C, CHR ''r'']
      else if c = CHR 0x09 then [CHR 0x5C, CHR ''t'']
      else if c = CHR 0x08 then [CHR 0x5C, CHR ''b'']
      else if c = CHR 0x0C then [CHR 0x5C, CHR ''f'']
      else if byte_of c < 32 \<or> c = CHR ''<'' \<or> c = CHR ''>'' \<or> c = CHR ''&''
      then [CHR 0x5C, CHR ''u'', CHR ''0'', CHR ''0'', hex_digit (byte_of c div 16), hex_digit (byte_of c mod 16)]
      else [c])"

definition json_string :: "string \<Rightarrow> string" where
  "json_string s = CHR 0x22 # concat (map json_char s) @ [CHR 0x22]"

text \<open>Keys are written in increasing order; a map literal has no repeated key.\<close>

definition json_map :: "(string \<times> string) list \<Rightarrow> string" where
  "json_map kvs =
     ''{'' @ join_with '','' (map (\<lambda>(k, v). json_string k @ '':'' @ json_string v) (sort_by (\<lambda>a b. str_cmp (fst a) (fst b)) kvs)) @ ''}''"

section \<open>Dates\<close>

text \<open>The civil date of a number of days since 1 January of year 1, by the usual computation in eras of 400 years that
  start in March.\<close>

definition civil_date :: "int \<Rightarrow> int \<times> int \<times> int" where
  "civil_date days =
     (let z = days + 306; era = z div 146097; doe = z mod 146097;
          yoe = (doe - doe div 1460 + doe div 36524 - doe div 146096) div 365;
          doy = doe - (365 * yoe + yoe div 4 - yoe div 100);
          mp = (5 * doy + 2) div 153; d = doy - (153 * mp + 2) div 5 + 1;
          m = (if mp < 10 then mp + 3 else mp - 9);
          y = yoe + era * 400 + (if m \<le> 2 then 1 else 0)
      in (y, m, d))"

definition pad :: "nat \<Rightarrow> int \<Rightarrow> string" where
  "pad w n = (let t = nat_digits (nat n) in replicate (w - length t) (CHR ''0'') @ t)"

definition rfc3339 :: "instant \<Rightarrow> string" where
  "rfc3339 t =
     (let secs = t div second; days = secs div 86400; sod = secs mod 86400; (y, m, d) = civil_date days
      in pad 4 y @ ''-'' @ pad 2 m @ ''-'' @ pad 2 d @ ''T'' @
         pad 2 (sod div 3600) @ '':'' @ pad 2 (sod mod 3600 div 60) @ '':'' @ pad 2 (sod mod 60) @ ''Z'')"

section \<open>Searching\<close>

fun IndexAny :: "string \<Rightarrow> string \<Rightarrow> nat option" where
  "IndexAny [] chars = None"
| "IndexAny (c # s) chars = (if c \<in> set chars then Some 0 else map_option Suc (IndexAny s chars))"

fun LastIndex_char :: "string \<Rightarrow> char \<Rightarrow> nat option" where
  "LastIndex_char [] c = None"
| "LastIndex_char (x # s) c =
     (case LastIndex_char s c of Some i \<Rightarrow> Some (Suc i) | None \<Rightarrow> if x = c then Some 0 else None)"

text \<open>Examples of the formats.\<close>

lemma rfc3339_examples:
  "rfc3339 0 = ''0001-01-01T00:00:00Z''"
  "rfc3339 (63897724800 * second) = ''2025-11-03T00:00:00Z''"
  by code_simp+

lemma json_map_example: "json_map [(''b'', ''x''), (''a'', ''y'')] = ''{\"a\":\"y\",\"b\":\"x\"}''"
  by code_simp

end
