(* ===== verification/Confirm_Flow.thy ===== *)
theory Confirm_Flow
  imports Confirm_Store Go_Fmt
begin

text \<open>
  The confirmation workflow of \<^verbatim>\<open>control-plane/internal/httpapi/confirmations.go\<close>. A service is the sequence of store
  calls the code makes; each store call is atomic, the service is not. \<open>consumeApprovedOnce\<close> and \<open>consumeStanding\<close> take the
  row that was read before and the store as it is when they run, so that two of them can be interleaved the way two
  requests can. The clock is \<open>env_now\<close> (the injectable one is nil in production).
\<close>

section \<open>Results and errors\<close>

datatype conf_error =
    errConfirmationNotFound
  | errConfirmationForbidden
  | errConfirmationConflict
  | errConfirmationNoOwner
  | ConfirmationStore store_error

type_synonym 'a conf_res = "conf_error + 'a"

record ConfirmationCheckResult =
  CCR_Mode :: string
  CCR_ConfirmationID :: string
  CCR_MatchedStandingGrantID :: string

record ConfirmationConsumeResult =
  CR_Allowed :: bool
  CR_Mode :: string
  CR_Reason :: string
  CR_MatchedStandingGrantID :: string

definition confirmationOnceTTL :: duration where "confirmationOnceTTL = 15 * minute"
definition standingGrantDefaultExpiry :: duration where "standingGrantDefaultExpiry = 90 * 24 * hour"
definition argsHashDisplayLen :: nat where "argsHashDisplayLen = 12"

definition consume_refused :: "string \<Rightarrow> ConfirmationConsumeResult" where
  "consume_refused reason = \<lparr>CR_Allowed = False, CR_Mode = [], CR_Reason = reason, CR_MatchedStandingGrantID = []\<rparr>"

definition consume_allowed :: "string \<Rightarrow> string \<Rightarrow> ConfirmationConsumeResult" where
  "consume_allowed mode gid = \<lparr>CR_Allowed = True, CR_Mode = mode, CR_Reason = [], CR_MatchedStandingGrantID = gid\<rparr>"

definition confirmationTime :: "MemoryStore \<Rightarrow> instant" where
  "confirmationTime s = env_now s"

definition mapConfirmationStoreErr :: "store_error \<Rightarrow> conf_error" where
  "mapConfirmationStoreErr e =
     (if e = ErrNotFound then errConfirmationNotFound else if e = ErrConflict then errConfirmationConflict else ConfirmationStore e)"

text \<open>The two load sites keep the not-found error and pass every other store error through.\<close>

definition conf_load_err :: "store_error \<Rightarrow> conf_error" where
  "conf_load_err e = (if e = ErrNotFound then errConfirmationNotFound else ConfirmationStore e)"

definition shortArgsHash :: "string \<Rightarrow> string" where
  "shortArgsHash h =
     (if length h \<le> argsHashDisplayLen then h
      else take argsHashDisplayLen h @ [char_of (226 :: nat), char_of (128 :: nat), char_of (166 :: nat)])"

definition requireConfirmationAuthority :: "User option \<Rightarrow> RegistryResource \<Rightarrow> bool" where
  "requireConfirmationAuthority caller resource =
     (case caller of None \<Rightarrow> False
      | Some u \<Rightarrow> User_ID u = Res_OwnerUserID resource \<or> User_Role u = RolePlatformAdmin)"

definition auditConfirmation ::
  "string \<Rightarrow> string \<Rightarrow> string \<Rightarrow> string \<Rightarrow> (string \<times> string) list \<Rightarrow> MemoryStore \<Rightarrow> MemoryStore" where
  "auditConfirmation actorType actorID action resourceID metadata s =
     RecordAudit \<lparr>AE_ID = [], AE_ActorType = actorType, AE_ActorID = actorID, AE_ActorDisplay = [], AE_Action = action,
       AE_ResourceType = ''tool_resource'', AE_ResourceID = resourceID, AE_SquadID = [], AE_Metadata = json_map metadata,
       AE_Timestamp = 0\<rparr> s"

definition loadConfirmationAndResource :: "string \<Rightarrow> MemoryStore \<Rightarrow> (PendingConfirmation \<times> RegistryResource) conf_res" where
  "loadConfirmationAndResource confID s =
     (case GetPendingConfirmation confID s of Inl e \<Rightarrow> Inl (conf_load_err e)
      | Inr conf \<Rightarrow>
          (case GetResourceByID (PC_ResourceID conf) s of Inl e \<Rightarrow> Inl (conf_load_err e)
           | Inr resource \<Rightarrow> Inr (conf, resource)))"

section \<open>The check\<close>

definition confirmation_message :: "string \<Rightarrow> string \<Rightarrow> string \<Rightarrow> RegistryResource \<Rightarrow> instant \<Rightarrow> InboxMessage" where
  "confirmation_message agentID tool argsHash resource createdAt =
     InboxMessage_zero\<lparr>Inb_UserID := Res_OwnerUserID resource, Inb_Kind := InboxActionRequired,
       Inb_Message := ''Confirmation required: '' @ tool @ '' on '' @ Res_Name resource,
       Inb_Subject := ''Approve '' @ tool @ '' on '' @ Res_Name resource @ ''?'',
       Inb_Body := ''Agent '' @ agentID @ '' wants to run '' @ tool @ '' on resource '' @ Res_Name resource @ '' (args '' @
         shortArgsHash argsHash @ ''). Created '' @ rfc3339 createdAt @
         ''. Actions: deny, approve once (single call, 15-min TTL), approve this and future (standing grant).''\<rparr>"

definition open_confirmation :: "string \<Rightarrow> string \<Rightarrow> string \<Rightarrow> RegistryResource \<Rightarrow> MemoryStore \<Rightarrow> ConfirmationCheckResult \<times> MemoryStore" where
  "open_confirmation agentID tool argsHash resource s =
     (let (created, s1) = CreatePendingConfirmation (PendingConfirmation_zero\<lparr>PC_ResourceID := Res_ID resource, PC_AgentID := agentID,
              PC_Tool := tool, PC_ArgsHash := argsHash, PC_State := ConfirmationPending, PC_RequestedBy := Res_OwnerUserID resource\<rparr>) s;
          (msg, s2) = CreateInboxMessage (confirmation_message agentID tool argsHash resource (PC_CreatedAt created)) s1;
          s3 = (case msg of Inl e \<Rightarrow> s2
                | Inr m \<Rightarrow> snd (UpdateConfirmationState (PC_ID created) ConfirmationPending
                    ((ConfirmationUpdate_to ConfirmationPending)\<lparr>CU_InboxMessageID := Some (Inb_ID m)\<rparr>) s2))
      in (\<lparr>CCR_Mode = ''pending'', CCR_ConfirmationID = PC_ID created, CCR_MatchedStandingGrantID = []\<rparr>, s3))"

definition requestConfirmation ::
  "string \<Rightarrow> string \<Rightarrow> string \<Rightarrow> string \<Rightarrow> MemoryStore \<Rightarrow> ConfirmationCheckResult conf_res \<times> MemoryStore" where
  "requestConfirmation resourceID agentID tool argsHash s =
     (case GetResourceByID resourceID s of Inl e \<Rightarrow> (Inl (conf_load_err e), s)
      | Inr resource \<Rightarrow>
          case GetAgent agentID s of Inl e \<Rightarrow> (Inl (conf_load_err e), s)
          | Inr _ \<Rightarrow>
              case FindLiveStandingGrant resourceID agentID tool (confirmationTime s) s of
                Inr grant \<Rightarrow>
                  (Inr \<lparr>CCR_Mode = ''auto'', CCR_ConfirmationID = [], CCR_MatchedStandingGrantID = SG_ID grant\<rparr>,
                   auditConfirmation ''user'' (Res_OwnerUserID resource) ''confirmation.standing_match'' resourceID
                     [(''agent_id'', agentID), (''tool'', tool), (''matched_standing_grant'', SG_ID grant)] s)
              | Inl e \<Rightarrow>
                  if e \<noteq> ErrNotFound then (Inl (ConfirmationStore e), s)
                  else if TrimSpace (Res_OwnerUserID resource) = [] then (Inl errConfirmationNoOwner, s)
                  else let (r, s') = open_confirmation agentID tool argsHash resource s in (Inr r, s'))"

section \<open>The decisions\<close>

text \<open>The guards the three decisions share: the row and its resource, the caller's authority, the pending state.\<close>

definition decide :: "User option \<Rightarrow> string \<Rightarrow> MemoryStore \<Rightarrow> (PendingConfirmation \<times> RegistryResource) conf_res" where
  "decide caller confID s =
     (case loadConfirmationAndResource confID s of Inl e \<Rightarrow> Inl e
      | Inr (conf, resource) \<Rightarrow>
          if \<not> requireConfirmationAuthority caller resource then Inl errConfirmationForbidden
          else if PC_State conf \<noteq> ConfirmationPending then Inl errConfirmationConflict
          else Inr (conf, resource))"

definition caller_id :: "User option \<Rightarrow> string" where
  "caller_id caller = (case caller of None \<Rightarrow> [] | Some u \<Rightarrow> User_ID u)"

definition approveConfirmationOnce :: "User option \<Rightarrow> string \<Rightarrow> MemoryStore \<Rightarrow> PendingConfirmation conf_res \<times> MemoryStore" where
  "approveConfirmationOnce caller confID s =
     (case decide caller confID s of Inl e \<Rightarrow> (Inl e, s)
      | Inr (conf, resource) \<Rightarrow>
          let now = confirmationTime s
          in case UpdateConfirmationState (PC_ID conf) ConfirmationPending
                 ((ConfirmationUpdate_to ConfirmationApprovedOnce)\<lparr>CU_ApprovedAt := Some now\<rparr>) s of
               (Inl e, s1) \<Rightarrow> (Inl (mapConfirmationStoreErr e), s1)
             | (Inr updated, s1) \<Rightarrow>
                 (Inr updated, auditConfirmation ''user'' (caller_id caller) ''confirmation.approve_once'' (Res_ID resource)
                    [(''confirmation_id'', PC_ID conf), (''agent_id'', PC_AgentID conf), (''tool'', PC_Tool conf)] s1))"

definition approveConfirmationStanding ::
  "User option \<Rightarrow> string \<Rightarrow> instant option \<Rightarrow> MemoryStore \<Rightarrow> (PendingConfirmation \<times> StandingGrant) conf_res \<times> MemoryStore" where
  "approveConfirmationStanding caller confID expiry s =
     (case decide caller confID s of Inl e \<Rightarrow> (Inl e, s)
      | Inr (conf, resource) \<Rightarrow>
          let now = confirmationTime s
          in case UpdateConfirmationState (PC_ID conf) ConfirmationPending
                 ((ConfirmationUpdate_to ConfirmationApprovedStanding)\<lparr>CU_ApprovedAt := Some now\<rparr>) s of
               (Inl e, s1) \<Rightarrow> (Inl (mapConfirmationStoreErr e), s1)
             | (Inr updated, s1) \<Rightarrow>
                 let expiresAt = (case expiry of None \<Rightarrow> now + standingGrantDefaultExpiry | Some t \<Rightarrow> t);
                     (grant, s2) = UpsertStandingGrant (StandingGrant_zero\<lparr>SG_ResourceID := Res_ID resource, SG_AgentID := PC_AgentID conf,
                         SG_Tool := PC_Tool conf, SG_ExpiresAt := expiresAt, SG_CreatedBy := caller_id caller\<rparr>) s1
                 in (Inr (updated, grant), auditConfirmation ''user'' (caller_id caller) ''confirmation.approve_standing'' (Res_ID resource)
                       [(''confirmation_id'', PC_ID conf), (''agent_id'', PC_AgentID conf), (''tool'', PC_Tool conf),
                        (''standing_grant_id'', SG_ID grant), (''expires_at'', rfc3339 expiresAt)] s2))"

definition denied_message :: "PendingConfirmation \<Rightarrow> RegistryResource \<Rightarrow> string \<Rightarrow> InboxMessage" where
  "denied_message conf resource reason =
     InboxMessage_zero\<lparr>Inb_UserID := PC_RequestedBy conf, Inb_Kind := ''confirmation_denied'', Inb_Message := ''Confirmation denied'',
       Inb_Subject := ''Denied: '' @ PC_Tool conf @ '' on '' @ Res_Name resource,
       Inb_Body := ''You denied confirmation '' @ PC_ID conf @ '' for agent '' @ PC_AgentID conf @ '' running '' @ PC_Tool conf @
         '' (args '' @ shortArgsHash (PC_ArgsHash conf) @ ''): '' @ reason\<rparr>"

definition denyConfirmation :: "User option \<Rightarrow> string \<Rightarrow> string \<Rightarrow> MemoryStore \<Rightarrow> PendingConfirmation conf_res \<times> MemoryStore" where
  "denyConfirmation caller confID reason0 s =
     (case decide caller confID s of Inl e \<Rightarrow> (Inl e, s)
      | Inr (conf, resource) \<Rightarrow>
          let reason = (if TrimSpace reason0 = [] then ''denied'' else reason0)
          in case UpdateConfirmationState (PC_ID conf) ConfirmationPending
                 ((ConfirmationUpdate_to ConfirmationDenied)\<lparr>CU_DeniedReason := reason\<rparr>) s of
               (Inl e, s1) \<Rightarrow> (Inl (mapConfirmationStoreErr e), s1)
             | (Inr updated, s1) \<Rightarrow>
                 let s2 = auditConfirmation ''user'' (caller_id caller) ''confirmation.deny'' (Res_ID resource)
                            [(''confirmation_id'', PC_ID conf), (''agent_id'', PC_AgentID conf), (''tool'', PC_Tool conf), (''reason'', reason)] s1
                 in (Inr updated, snd (CreateInboxMessage (denied_message conf resource reason) s2)))"

section \<open>The release\<close>

definition consumeApprovedOnce ::
  "PendingConfirmation \<Rightarrow> instant \<Rightarrow> MemoryStore \<Rightarrow> ConfirmationConsumeResult conf_res \<times> MemoryStore" where
  "consumeApprovedOnce conf now s =
     (if PC_ConsumedAt conf \<noteq> None then (Inr (consume_refused ''denied_replayed''), s)
      else if (case PC_ApprovedAt conf of None \<Rightarrow> True | Some t \<Rightarrow> confirmationOnceTTL < now - t)
      then (Inr (consume_refused ''approval_expired''),
            snd (UpdateConfirmationState (PC_ID conf) ConfirmationApprovedOnce (ConfirmationUpdate_to ConfirmationExpired) s))
      else case UpdateConfirmationState (PC_ID conf) ConfirmationApprovedOnce
                  ((ConfirmationUpdate_to ConfirmationApprovedOnce)\<lparr>CU_ConsumedAt := Some now\<rparr>) s of
             (Inl e, s1) \<Rightarrow> (if e = ErrConflict then Inr (consume_refused ''denied_replayed'') else Inl (ConfirmationStore e), s1)
           | (Inr _, s1) \<Rightarrow> (Inr (consume_allowed ''once'' []), s1))"

definition consumeStanding ::
  "PendingConfirmation \<Rightarrow> instant \<Rightarrow> MemoryStore \<Rightarrow> ConfirmationConsumeResult conf_res \<times> MemoryStore" where
  "consumeStanding conf now s =
     (case FindLiveStandingGrant (PC_ResourceID conf) (PC_AgentID conf) (PC_Tool conf) now s of
        Inl e \<Rightarrow> (if e = ErrNotFound then Inr (consume_refused ''standing_grant_not_live'') else Inl (ConfirmationStore e), s)
      | Inr grant \<Rightarrow>
          (Inr (consume_allowed ''standing'' (SG_ID grant)),
           auditConfirmation ''system'' [] ''confirmation.standing_match'' (PC_ResourceID conf)
             [(''confirmation_id'', PC_ID conf), (''agent_id'', PC_AgentID conf), (''tool'', PC_Tool conf),
              (''matched_standing_grant'', SG_ID grant)] s))"

definition consumeConfirmation :: "string \<Rightarrow> string \<Rightarrow> MemoryStore \<Rightarrow> ConfirmationConsumeResult conf_res \<times> MemoryStore" where
  "consumeConfirmation confID argsHash s =
     (case GetPendingConfirmation confID s of Inl e \<Rightarrow> (Inl (conf_load_err e), s)
      | Inr conf \<Rightarrow>
          if PC_ArgsHash conf \<noteq> argsHash then (Inr (consume_refused ''args_hash_mismatch''), s)
          else if PC_State conf = ConfirmationApprovedOnce then consumeApprovedOnce conf (confirmationTime s) s
          else if PC_State conf = ConfirmationApprovedStanding then consumeStanding conf (confirmationTime s) s
          else if PC_State conf = ConfirmationDenied
          then (Inr (consume_refused (if PC_DeniedReason conf \<noteq> [] then ''denied_by_owner: '' @ PC_DeniedReason conf else ''denied_by_owner'')), s)
          else if PC_State conf = ConfirmationExpired then (Inr (consume_refused ''confirmation_expired''), s)
          else (Inr (consume_refused ''confirmation_pending''), s))"

section \<open>Revoking a standing grant\<close>

datatype revoke_status = RevokeOK StandingGrant | RevokeNotFound | RevokeForbidden | RevokeInternal

definition revokeStandingGrantHandler :: "User \<Rightarrow> string \<Rightarrow> MemoryStore \<Rightarrow> revoke_status \<times> MemoryStore" where
  "revokeStandingGrantHandler caller grantID s =
     (case GetStandingGrant grantID s of Inl e \<Rightarrow> (if e = ErrNotFound then RevokeNotFound else RevokeInternal, s)
      | Inr grant \<Rightarrow>
          case GetResourceByID (SG_ResourceID grant) s of Inl e \<Rightarrow> (RevokeNotFound, s)
          | Inr resource \<Rightarrow>
              if \<not> requireConfirmationAuthority (Some caller) resource then (RevokeForbidden, s)
              else case RevokeStandingGrant grantID (confirmationTime s) s of
                     (Inl e, s1) \<Rightarrow> (if e = ErrNotFound then RevokeNotFound else RevokeInternal, s1)
                   | (Inr revoked, s1) \<Rightarrow>
                       (RevokeOK revoked, auditConfirmation ''user'' (User_ID caller) ''standing_grant.revoke'' (SG_ResourceID grant)
                          [(''standing_grant_id'', grantID), (''agent_id'', SG_AgentID grant), (''tool'', SG_Tool grant)] s1))"

end
