(* ===== verification/Confirm_Api.thy ===== *)
theory Confirm_Api
  imports Confirm_Flow
begin

text \<open>
  The HTTP handlers over the confirmation workflow (\<^verbatim>\<open>control-plane/internal/httpapi/confirmations.go\<close>). A request body is
  \<open>None\<close> when \<^verbatim>\<open>decodeJSON\<close> rejects it; the caller is the authenticated user.
\<close>

datatype 'a conf_reply = ConfOK 'a | ConfError int string string

definition writeConfirmationError :: "conf_error \<Rightarrow> 'a conf_reply" where
  "writeConfirmationError e =
     (case e of
        errConfirmationNotFound \<Rightarrow> ConfError 404 ''not_found'' ''confirmation not found''
      | errConfirmationForbidden \<Rightarrow> ConfError 403 ''forbidden'' ''confirmation: caller lacks authority''
      | errConfirmationConflict \<Rightarrow> ConfError 409 ''invalid_transition'' ''confirmation: invalid state transition''
      | errConfirmationNoOwner \<Rightarrow> ConfError 400 ''no_owner'' ''confirmation: resource has no owner to decide''
      | ConfirmationStore _ \<Rightarrow> ConfError 500 ''internal'' ''confirmation request failed'')"

definition conf_respond :: "'a conf_res \<Rightarrow> 'a conf_reply" where
  "conf_respond r = (case r of Inl e \<Rightarrow> writeConfirmationError e | Inr v \<Rightarrow> ConfOK v)"

definition bad_json :: "'a conf_reply" where
  "bad_json = ConfError 400 ''bad_request'' ''invalid JSON body''"

definition confirmationCheckHandler ::
  "(string \<times> string \<times> string \<times> string) option \<Rightarrow> MemoryStore \<Rightarrow> ConfirmationCheckResult conf_reply \<times> MemoryStore" where
  "confirmationCheckHandler body s =
     (case body of None \<Rightarrow> (bad_json, s)
      | Some (resourceID, agentID, tool, argsHash) \<Rightarrow>
          if TrimSpace resourceID = [] \<or> TrimSpace agentID = [] \<or> TrimSpace tool = [] \<or> TrimSpace argsHash = []
          then (ConfError 400 ''bad_request'' ''resource_id, agent_id, tool and args_hash are required'', s)
          else let (r, s') = requestConfirmation resourceID agentID tool argsHash s in (conf_respond r, s'))"

definition confirmationConsumeHandler ::
  "(string \<times> string) option \<Rightarrow> MemoryStore \<Rightarrow> ConfirmationConsumeResult conf_reply \<times> MemoryStore" where
  "confirmationConsumeHandler body s =
     (case body of None \<Rightarrow> (bad_json, s)
      | Some (cid, argsHash) \<Rightarrow>
          if TrimSpace cid = [] \<or> TrimSpace argsHash = [] then (ConfError 400 ''bad_request'' ''id and args_hash are required'', s)
          else let (r, s') = consumeConfirmation cid argsHash s in (conf_respond r, s'))"

definition listConfirmationsHandler :: "User \<Rightarrow> string \<Rightarrow> bool \<Rightarrow> MemoryStore \<Rightarrow> PendingConfirmation list" where
  "listConfirmationsHandler caller state mine s =
     ListPendingConfirmations
       \<lparr>CF_State = state, CF_RequestedBy = (if mine \<or> User_Role caller \<noteq> RolePlatformAdmin then User_ID caller else []), CF_ResourceID = []\<rparr> s"

definition approveConfirmationOnceHandler :: "User \<Rightarrow> string \<Rightarrow> MemoryStore \<Rightarrow> PendingConfirmation conf_reply \<times> MemoryStore" where
  "approveConfirmationOnceHandler caller confID s = (let (r, s') = approveConfirmationOnce (Some caller) confID s in (conf_respond r, s'))"

text \<open>The bodies of these two are optional: absent, unreadable, or a value.\<close>

datatype 'a opt_body = NoBody | BadBody | Body 'a

definition approveConfirmationStandingHandler ::
  "User \<Rightarrow> string \<Rightarrow> instant option opt_body \<Rightarrow> MemoryStore \<Rightarrow> (PendingConfirmation \<times> StandingGrant) conf_reply \<times> MemoryStore" where
  "approveConfirmationStandingHandler caller confID body s =
     (if body = BadBody then (bad_json, s)
      else let (r, s') = approveConfirmationStanding (Some caller) confID (case body of Body e \<Rightarrow> e | _ \<Rightarrow> None) s in (conf_respond r, s'))"

definition denyConfirmationHandler :: "User \<Rightarrow> string \<Rightarrow> string opt_body \<Rightarrow> MemoryStore \<Rightarrow> PendingConfirmation conf_reply \<times> MemoryStore" where
  "denyConfirmationHandler caller confID body s =
     (if body = BadBody then (bad_json, s)
      else let (r, s') = denyConfirmation (Some caller) confID (case body of Body reason \<Rightarrow> reason | _ \<Rightarrow> []) s in (conf_respond r, s'))"

definition listStandingGrantsHandler :: "User \<Rightarrow> MemoryStore \<Rightarrow> StandingGrant list" where
  "listStandingGrantsHandler caller s =
     ListStandingGrants \<lparr>SGF_OwnerUserID = (if User_Role caller \<noteq> RolePlatformAdmin then User_ID caller else []), SGF_IncludeRevoked = False\<rparr> s"

end
