(* ===== verification/Gateway_Auth.thy ===== *)
theory Gateway_Auth
  imports Go_Json Go_Fmt
begin

text \<open>
  How the tool gateway knows its caller: the policy cache (\<^verbatim>\<open>tool-gateway/internal/policy/client.go\<close>), the credential
  check (\<^verbatim>\<open>internal/auth/agent.go\<close>) and the credentials of git requests (\<^verbatim>\<open>gitProxyCredentials\<close>), over Go's
  \<^verbatim>\<open>encoding/base64\<close>. The control plane's answers and \<^verbatim>\<open>sha256\<close> are parameters.
\<close>

section \<open>Base 64\<close>

definition b64_alphabet :: string where
  "b64_alphabet = ''ABCDEFGHIJKLMNOPQRSTUVWXYZabcdefghijklmnopqrstuvwxyz0123456789+/''"

fun sextets :: "nat list \<Rightarrow> nat list" where
  "sextets [] = []"
| "sextets [a] = [a div 4, (a mod 4) * 16]"
| "sextets [a, b] = [a div 4, (a mod 4) * 16 + b div 16, (b mod 16) * 4]"
| "sextets (a # b # c # r) = [a div 4, (a mod 4) * 16 + b div 16, (b mod 16) * 4 + c div 64, c mod 64] @ sextets r"

definition RawStdEncode :: "string \<Rightarrow> string" where
  "RawStdEncode s = map (\<lambda>i. b64_alphabet ! i) (sextets (map byte_of s))"

definition StdEncode :: "string \<Rightarrow> string" where
  "StdEncode s = RawStdEncode s @ replicate ((3 - length s mod 3) mod 3) CHR ''=''"

fun index_of :: "char \<Rightarrow> string \<Rightarrow> nat option" where
  "index_of c [] = None"
| "index_of c (x # xs) = (if x = c then Some 0 else map_option Suc (index_of c xs))"

definition b64_val :: "char \<Rightarrow> nat option" where
  "b64_val c = index_of c b64_alphabet"

fun b64_quads :: "string \<Rightarrow> nat list option" where
  "b64_quads [] = Some []"
| "b64_quads (a # b # c # d # r) =
     (case (b64_val a, b64_val b) of
        (Some va, Some vb) \<Rightarrow>
          if c = CHR ''='' then (if d = CHR ''='' \<and> r = [] then Some [va * 4 + vb div 16] else None)
          else (case b64_val c of None \<Rightarrow> None
            | Some vc \<Rightarrow>
                if d = CHR ''='' then (if r = [] then Some [va * 4 + vb div 16, (vb mod 16) * 16 + vc div 4] else None)
                else (case (b64_val d, b64_quads r) of
                        (Some vd, Some bs) \<Rightarrow> Some ([va * 4 + vb div 16, (vb mod 16) * 16 + vc div 4, (vc mod 4) * 64 + vd] @ bs)
                      | _ \<Rightarrow> None))
      | _ \<Rightarrow> None)"
| "b64_quads _ = None"

definition StdDecode :: "string \<Rightarrow> string option" where
  "StdDecode s = map_option (map char_of) (b64_quads (filter (\<lambda>c. c \<notin> {CHR 0x0D, CHR 0x0A}) s))"

section \<open>Grants and snapshots\<close>

record Grant =
  G_ResourceID :: string
  G_ResourceType :: string
  G_Config :: RawMessage
  G_Constraints :: RawMessage
  G_Ceiling :: RawMessage
  G_RiskTier :: string
  G_EgressClass :: string

record Snapshot =
  SN_AgentID :: string
  SN_CredentialHash :: string
  SN_Grants :: "Grant list"
  SN_FetchedAt :: instant

section \<open>The policy cache\<close>

text \<open>What a request to the policy endpoint ends in: the URL or the request cannot be built, the control plane does not
  answer, or it answers with a status, an ETag and a body, \<open>None\<close> when the body cannot be read or decoded.\<close>

datatype policy_answer = BadRequestURL | NoAnswer | Answer int string "Snapshot option"

datatype auth_error = ErrMissingAgentID | ErrMissingToken | ErrBadCredential | ErrPolicyUnavailable

record cache_entry =
  EN_Snapshot :: Snapshot
  EN_ETag :: string
  EN_Fetched :: instant

record policy_client =
  PL_TTL :: instant
  PL_Entries :: "cache_entry gomap"
  PL_Reachable :: bool

definition NewClient :: "instant \<Rightarrow> policy_client" where
  "NewClient ttl = \<lparr>PL_TTL = ttl, PL_Entries = [], PL_Reachable = False\<rparr>"

text \<open>The endpoint gets the agent and the \<^verbatim>\<open>If-None-Match\<close> header; \<open>later\<close> is the time its answer is stored.\<close>

definition fetch ::
  "(string \<Rightarrow> string \<Rightarrow> policy_answer) \<Rightarrow> instant \<Rightarrow> string \<Rightarrow> cache_entry option \<Rightarrow> policy_client \<Rightarrow>
   (auth_error + Snapshot) \<times> policy_client" where
  "fetch endpoint later agentID cached c =
     (case endpoint agentID (case cached of None \<Rightarrow> [] | Some e \<Rightarrow> EN_ETag e) of
        BadRequestURL \<Rightarrow> (Inl ErrPolicyUnavailable, c)
      | NoAnswer \<Rightarrow> (Inl ErrPolicyUnavailable, c\<lparr>PL_Reachable := False\<rparr>)
      | Answer status etag body \<Rightarrow>
          let c = c\<lparr>PL_Reachable := True\<rparr>
          in if status = 200 then
               (case body of None \<Rightarrow> (Inl ErrPolicyUnavailable, c)
                | Some snap \<Rightarrow>
                    if SN_AgentID snap = [] then (Inl ErrPolicyUnavailable, c)
                    else let snap = snap\<lparr>SN_FetchedAt := later\<rparr>
                         in (Inr snap, c\<lparr>PL_Entries := gm_put agentID \<lparr>EN_Snapshot = snap, EN_ETag = etag, EN_Fetched = later\<rparr> (PL_Entries c)\<rparr>))
             else if status = 304 then
               (case cached of None \<Rightarrow> (Inl ErrPolicyUnavailable, c)
                | Some e \<Rightarrow> (Inr (EN_Snapshot e), c\<lparr>PL_Entries := gm_put agentID (e\<lparr>EN_Fetched := later\<rparr>) (PL_Entries c)\<rparr>))
             else (Inl ErrPolicyUnavailable, c))"

definition Get ::
  "(string \<Rightarrow> string \<Rightarrow> policy_answer) \<Rightarrow> instant \<Rightarrow> instant \<Rightarrow> string \<Rightarrow> policy_client \<Rightarrow> (auth_error + Snapshot) \<times> policy_client" where
  "Get endpoint now later agentID c =
     (case gm_get (PL_Entries c) agentID of
        Some e \<Rightarrow> if now - EN_Fetched e < PL_TTL c then (Inr (EN_Snapshot e), c) else fetch endpoint later agentID (Some e) c
      | None \<Rightarrow> fetch endpoint later agentID None c)"

definition Probe :: "(string \<Rightarrow> string \<Rightarrow> policy_answer) \<Rightarrow> instant \<Rightarrow> instant \<Rightarrow> string \<Rightarrow> policy_client \<Rightarrow> policy_client" where
  "Probe endpoint now later agentID c = snd (Get endpoint now later agentID c)"

section \<open>Authentication\<close>

definition HashCredential :: "(string \<Rightarrow> string) \<Rightarrow> string \<Rightarrow> string" where
  "HashCredential sha token = RawStdEncode (sha token)"

definition MatchesCredential :: "(string \<Rightarrow> string) \<Rightarrow> string \<Rightarrow> Snapshot \<Rightarrow> bool" where
  "MatchesCredential sha token snap =
     (if token = [] \<or> SN_CredentialHash snap = [] then False else HashCredential sha token = SN_CredentialHash snap)"

definition BearerToken :: "string \<Rightarrow> string" where
  "BearerToken authorization =
     (if length authorization \<le> 7 \<or> \<not> EqualFold (take 7 authorization) ''Bearer '' then [] else TrimSpace (drop 7 authorization))"

record AgentPrincipal =
  PR_AgentID :: string
  PR_Snapshot :: Snapshot

definition Middleware ::
  "(string \<Rightarrow> string) \<Rightarrow> (string \<Rightarrow> 'c \<Rightarrow> (auth_error + Snapshot) \<times> 'c) \<Rightarrow> string \<Rightarrow> string \<Rightarrow> 'c \<Rightarrow> (auth_error + AgentPrincipal) \<times> 'c" where
  "Middleware sha lookup agentID0 authorization c =
     (let agentID = TrimSpace agentID0; token = BearerToken authorization
      in if agentID = [] then (Inl ErrMissingAgentID, c)
         else if token = [] then (Inl ErrMissingToken, c)
         else case lookup agentID c of
                (Inl e, c') \<Rightarrow> (Inl e, c')
              | (Inr snap, c') \<Rightarrow>
                  (if SN_AgentID snap \<noteq> agentID then Inl ErrPolicyUnavailable
                   else if \<not> MatchesCredential sha token snap then Inl ErrBadCredential
                   else Inr \<lparr>PR_AgentID = agentID, PR_Snapshot = snap\<rparr>, c'))"

section \<open>Credentials of git requests\<close>

definition BasicAuth :: "string \<Rightarrow> (string \<times> string) option" where
  "BasicAuth authorization =
     (if length authorization < 6 \<or> \<not> EqualFold (take 6 authorization) ''Basic '' then None
      else case StdDecode (drop 6 authorization) of None \<Rightarrow> None
           | Some cs \<Rightarrow> (case Index cs '':'' of None \<Rightarrow> None | Some i \<Rightarrow> Some (take i cs, drop (Suc i) cs)))"

definition gitProxyCredentials :: "string \<Rightarrow> string \<Rightarrow> string \<times> string" where
  "gitProxyCredentials agentHeader authorization =
     (if TrimSpace agentHeader \<noteq> [] then (TrimSpace agentHeader, authorization)
      else case BasicAuth authorization of None \<Rightarrow> ([], [])
           | Some (user, pass) \<Rightarrow>
               let user = TrimSpace user in if user = [] \<or> pass = [] then ([], []) else (user, ''Bearer '' @ pass))"

end
