(* ===== verification/Gateway_Gate.thy ===== *)
theory Gateway_Gate
  imports Gateway_Auth
begin

text \<open>
  The tool gateway's confirmation gate: which calls a grant gates (\<^verbatim>\<open>tool-gateway/internal/policy/confirmation.go\<close>), the
  argument hash and the client of the control plane (\<^verbatim>\<open>internal/confirmation/client.go\<close>) and the gate itself
  (\<^verbatim>\<open>internal/httpapi/confirmationgate.go\<close>). The control plane is a parameter: what a POST to it answers and does to the
  world \<open>'w\<close>.
\<close>

section \<open>Gated calls\<close>

record confirmationRule =
  FR_RequireConfirmation :: "bool option"
  FR_RequiresConfirmation :: "bool option"

record confirmationFlagLayer =
  FL_RequireConfirmation :: "bool option"
  FL_RequiresConfirmation :: "bool option"
  FL_PerTool :: "confirmationRule gomap"

definition un_rule :: "json \<Rightarrow> confirmationRule option" where
  "un_rule v =
     (case un_struct v of None \<Rightarrow> None
      | Some kvs \<Rightarrow>
          (case (st_bool_ptr ''require_confirmation'' kvs, st_bool_ptr ''requires_confirmation'' kvs) of
             (Some a, Some b) \<Rightarrow> Some \<lparr>FR_RequireConfirmation = a, FR_RequiresConfirmation = b\<rparr> | _ \<Rightarrow> None))"

fun put_rules :: "(string \<times> json) list \<Rightarrow> confirmationRule gomap \<Rightarrow> confirmationRule gomap option" where
  "put_rules [] m = Some m"
| "put_rules ((k, v) # kvs) m = (case un_rule v of None \<Rightarrow> None | Some r \<Rightarrow> put_rules kvs (gm_put k r m))"

definition un_rules :: "confirmationRule gomap \<Rightarrow> json \<Rightarrow> confirmationRule gomap option" where
  "un_rules m v = (case v of JNull \<Rightarrow> Some [] | JObj kvs \<Rightarrow> put_rules kvs m | _ \<Rightarrow> None)"

definition un_flag_layer :: "RawMessage \<Rightarrow> confirmationFlagLayer option" where
  "un_flag_layer raw =
     (case raw_struct raw of None \<Rightarrow> None
      | Some kvs \<Rightarrow>
          (case (st_bool_ptr ''require_confirmation'' kvs, st_bool_ptr ''requires_confirmation'' kvs,
                 set_field un_rules [] (field_values ''per_tool'' kvs)) of
             (Some a, Some b, Some m) \<Rightarrow> Some \<lparr>FL_RequireConfirmation = a, FL_RequiresConfirmation = b, FL_PerTool = m\<rparr>
           | _ \<Rightarrow> None))"

definition orTrue :: "bool option \<Rightarrow> bool" where
  "orTrue p = (p = Some True)"

definition gated :: "confirmationFlagLayer \<Rightarrow> string \<Rightarrow> bool" where
  "gated l tool =
     (if orTrue (FL_RequireConfirmation l) \<or> orTrue (FL_RequiresConfirmation l) then True
      else case gm_get (FL_PerTool l) tool of
             Some rule \<Rightarrow> orTrue (FR_RequireConfirmation rule) \<or> orTrue (FR_RequiresConfirmation rule)
           | None \<Rightarrow> False)"

definition ConfirmationRequired :: "Grant \<Rightarrow> string \<Rightarrow> bool" where
  "ConfirmationRequired g tool =
     list_ex (\<lambda>raw. if raw = RawEmpty then False else case un_flag_layer raw of None \<Rightarrow> False | Some layer \<Rightarrow> gated layer tool)
       [G_Config g, G_Ceiling g]"

section \<open>The argument hash\<close>

text \<open>Lengths are 32-bit, most significant byte first.\<close>

definition PutUint32 :: "nat \<Rightarrow> string" where
  "PutUint32 n = map (\<lambda>i. char_of (n div 256 ^ i mod 256)) [3, 2, 1, 0]"

definition writeField :: "string \<Rightarrow> string" where
  "writeField b = PutUint32 (length b mod 2 ^ 32) @ b"

definition hex_encode :: "string \<Rightarrow> string" where
  "hex_encode s = concat (map (\<lambda>c. [hex_digit (byte_of c div 16), hex_digit (byte_of c mod 16)]) s)"

definition args_frame :: "string \<Rightarrow> string \<Rightarrow> string \<Rightarrow> string" where
  "args_frame resourceID operation payload = writeField resourceID @ writeField operation @ writeField payload"

definition ArgsHash :: "(string \<Rightarrow> string) \<Rightarrow> string \<Rightarrow> string \<Rightarrow> string \<Rightarrow> string" where
  "ArgsHash sha resourceID operation payload = hex_encode (sha (args_frame resourceID operation payload))"

section \<open>The client of the control plane\<close>

record CheckResult =
  CK_Mode :: string
  CK_ConfirmationID :: string
  CK_MatchedStandingGrantID :: string

record ConsumeResult =
  CS_Allowed :: bool
  CS_Mode :: string
  CS_Reason :: string
  CS_MatchedStandingGrantID :: string

text \<open>A POST fails with a text, or ends in a status and a body: the text of the read or decode error, or the value.\<close>

datatype 'a post_result = PostFailed string | PostAnswer int "string + 'a"

record 'w confirmation_api =
  API_check :: "string \<Rightarrow> string \<Rightarrow> string \<Rightarrow> string \<Rightarrow> 'w \<Rightarrow> CheckResult post_result \<times> 'w"
  API_consume :: "string \<Rightarrow> string \<Rightarrow> 'w \<Rightarrow> ConsumeResult post_result \<times> 'w"

definition unavailable :: "string \<Rightarrow> string" where
  "unavailable t = ''confirmation_unavailable: '' @ t"

definition post :: "'a post_result \<Rightarrow> string + 'a" where
  "post r =
     (case r of PostFailed t \<Rightarrow> Inl (unavailable t)
      | PostAnswer status body \<Rightarrow>
          if status \<noteq> 200 then Inl (unavailable (''CP returned status '' @ Itoa status))
          else case body of Inl t \<Rightarrow> Inl (unavailable t) | Inr v \<Rightarrow> Inr v)"

definition Client_Check ::
  "'w confirmation_api \<Rightarrow> string \<Rightarrow> string \<Rightarrow> string \<Rightarrow> string \<Rightarrow> 'w \<Rightarrow> (string + CheckResult) \<times> 'w" where
  "Client_Check api resourceID agentID tool argsHash w =
     (let (r, w') = API_check api resourceID agentID tool argsHash w
      in (case post r of Inl e \<Rightarrow> Inl e
          | Inr out \<Rightarrow>
              if CK_Mode out \<noteq> ''auto'' \<and> CK_Mode out \<noteq> ''pending'' then Inl (unavailable (''unexpected check mode '' @ Quote (CK_Mode out)))
              else if CK_Mode out = ''pending'' \<and> CK_ConfirmationID out = [] then Inl (unavailable ''pending check without confirmation_id'')
              else Inr out, w'))"

definition Client_Consume :: "'w confirmation_api \<Rightarrow> string \<Rightarrow> string \<Rightarrow> 'w \<Rightarrow> (string + ConsumeResult) \<times> 'w" where
  "Client_Consume api cid argsHash w = (let (r, w') = API_consume api cid argsHash w in (post r, w'))"

section \<open>The server's state\<close>

text \<open>Audit events without their time and latency. The log of driver calls is what reached a driver: the name it is
  registered under, whether the context carries the confirmation marker, and the request.\<close>

record Event =
  EV_RequestID :: string
  EV_AgentID :: string
  EV_Resource :: string
  EV_Operation :: string
  EV_Decision :: string
  EV_StatusCode :: int
  EV_Detail :: string

record drv_Request =
  DR_Agent :: AgentPrincipal
  DR_Resource :: string
  DR_Operation :: string
  DR_Payload :: string
  DR_Grant :: "Grant option"
  DR_Path :: string
  DR_ConfirmationID :: string

record usage_Report =
  UR_AgentID :: string
  UR_ResourceID :: string
  UR_ResourceType :: string
  UR_Count :: int

record 'w gateway =
  GW_Policy :: policy_client
  GW_Audit :: "Event list"
  GW_Usage :: "usage_Report list"
  GW_Calls :: "(string \<times> bool \<times> drv_Request) list"
  GW_World :: 'w

datatype 'b reply = ReplyError int string string | ReplyMap int "(string \<times> string) list" | ReplyPending string | ReplyBody int 'b
  | ReplyStreamed

datatype 'b gate = Proceed bool | Stop "'b reply"

definition DecisionAllow :: string where "DecisionAllow = ''allow''"
definition DecisionDeny :: string where "DecisionDeny = ''deny''"
definition DecisionError :: string where "DecisionError = ''error''"

definition Emit :: "Event \<Rightarrow> 'w gateway \<Rightarrow> 'w gateway" where
  "Emit e g = g\<lparr>GW_Audit := GW_Audit g @ [e]\<rparr>"

section \<open>The gate\<close>

definition ConfirmationIDHeader :: string where "ConfirmationIDHeader = ''X-Skquad-Confirmation-Id''"

definition pendingConfirmationHint :: string where
  "pendingConfirmationHint = ''owner approval required; retry with header '' @ ConfirmationIDHeader @ '' after approval''"

definition gate_detail :: "string \<Rightarrow> string \<Rightarrow> string \<Rightarrow> string \<Rightarrow> (string \<times> string) list" where
  "gate_detail outcome confirmationID standingID reason =
     [(''gate'', outcome)] @ (if confirmationID \<noteq> [] then [(''confirmation_id'', confirmationID)] else []) @
     (if standingID \<noteq> [] then [(''standing_grant_id'', standingID)] else []) @ (if reason \<noteq> [] then [(''reason'', reason)] else [])"

definition gateAudit ::
  "string \<Rightarrow> string \<Rightarrow> string \<Rightarrow> string \<Rightarrow> string \<Rightarrow> int \<Rightarrow> string \<Rightarrow> string \<Rightarrow> string \<Rightarrow> 'w gateway \<Rightarrow> 'w gateway" where
  "gateAudit reqID agentID resourceID operation outcome code confirmationID standingID reason g =
     Emit \<lparr>EV_RequestID = reqID, EV_AgentID = agentID, EV_Resource = resourceID, EV_Operation = operation,
       EV_Decision = (if outcome = ''pending'' \<or> outcome = ''denied'' \<or> outcome = ''unavailable'' then DecisionDeny else DecisionAllow),
       EV_StatusCode = code, EV_Detail = json_map (gate_detail outcome confirmationID standingID reason)\<rparr> g"

definition confirmationDenialCode :: "string \<Rightarrow> string" where
  "confirmationDenialCode reason =
     (let code = (case Index reason '':'' of Some i \<Rightarrow> TrimSpace (take i reason) | None \<Rightarrow> reason)
      in if code \<in> set [''denied_replayed'', ''args_hash_mismatch'', ''approval_expired'', ''standing_grant_not_live'', ''denied_by_owner'',
                        ''confirmation_expired'', ''confirmation_pending''] then code
         else TrimSpace reason)"

definition gate_unavailable :: "'b gate" where
  "gate_unavailable = Stop (ReplyError 503 ''confirmation_unavailable'' ''confirmation service unreachable; failing closed'')"

definition confirmationGate ::
  "(string \<Rightarrow> string) \<Rightarrow> 'w confirmation_api option \<Rightarrow> string \<Rightarrow> string \<Rightarrow> string \<Rightarrow> Grant \<Rightarrow> string \<Rightarrow> string \<Rightarrow> string \<Rightarrow> 'w gateway \<Rightarrow>
   'b gate \<times> 'w gateway" where
  "confirmationGate sha client header reqID agentID grant operation tool payload g =
     (if \<not> ConfirmationRequired grant tool then (Proceed False, g)
      else
        let resourceID = G_ResourceID grant; argsHash = ArgsHash sha resourceID operation payload; confID = TrimSpace header;
            audit = gateAudit reqID agentID resourceID operation
        in case client of
             None \<Rightarrow> (gate_unavailable, audit ''unavailable'' 503 [] [] ''confirmation client not configured'' g)
           | Some api \<Rightarrow>
               if confID \<noteq> [] then
                 (case Client_Consume api confID argsHash (GW_World g) of (r, w) \<Rightarrow>
                  let g = g\<lparr>GW_World := w\<rparr>
                  in case r of
                       Inl e \<Rightarrow> (gate_unavailable, audit ''unavailable'' 503 confID [] (''consume: '' @ e) g)
                     | Inr res \<Rightarrow>
                         if \<not> CS_Allowed res then
                           (let reason = (if CS_Reason res = [] then ''denied_by_owner'' else CS_Reason res)
                            in (Stop (ReplyMap 403 [(''error'', ''confirmation_denied''), (''reason'', confirmationDenialCode reason), (''message'', reason)]),
                                audit ''denied'' 403 confID (CS_MatchedStandingGrantID res) reason g))
                         else (Proceed True, audit (if CS_Mode res = [] then ''once'' else CS_Mode res) 200 confID (CS_MatchedStandingGrantID res) [] g))
               else
                 (case Client_Check api resourceID agentID tool argsHash (GW_World g) of (r, w) \<Rightarrow>
                  let g = g\<lparr>GW_World := w\<rparr>
                  in case r of
                       Inl e \<Rightarrow> (gate_unavailable, audit ''unavailable'' 503 [] [] (''check: '' @ e) g)
                     | Inr res \<Rightarrow>
                         if CK_Mode res = ''auto'' then (Proceed True, audit ''auto'' 200 [] (CK_MatchedStandingGrantID res) [] g)
                         else if CK_Mode res = ''pending'' then
                           (Stop (ReplyMap 202 [(''error'', ''pending_confirmation''), (''confirmation_id'', CK_ConfirmationID res),
                                                (''hint'', pendingConfirmationHint)]),
                            audit ''pending'' 202 (CK_ConfirmationID res) [] [] g)
                         else (gate_unavailable, audit ''unavailable'' 503 [] [] (''unknown mode '' @ CK_Mode res) g)))"

end
