(* ===== verification/Gateway_Serve.thy ===== *)
theory Gateway_Serve
  imports Gateway_Gate
begin

text \<open>
  The request pipeline of the tool gateway (\<^verbatim>\<open>tool-gateway/internal/httpapi\<close>: \<^verbatim>\<open>server.go\<close>, \<^verbatim>\<open>sshroute.go\<close>,
  \<^verbatim>\<open>mcpenumerate.go\<close>): kill switch, authentication, body cap, grant lookup, confirmation gate, driver dispatch, audit and
  usage. The steps the handlers repeat are defined once, each taking the rest of the handler as its continuation. Drivers,
  the enumerator and the network boundary are parameters; a driver may change the world. Random request identifiers and
  clock readings come with the request.
\<close>

section \<open>Collaborators and requests\<close>

text \<open>A driver fails with a typed denial, the bare \<^verbatim>\<open>ErrDenied\<close>, or another error, kept by its text.\<close>

datatype drv_error = Denied string | ErrDenied | DrvError string

type_synonym ('w, 'b) driver = "bool \<Rightarrow> drv_Request \<Rightarrow> 'w \<Rightarrow> (drv_error + int \<times> 'b) \<times> 'w"

record StreamResult =
  SR_Repo :: string
  SR_Service :: string
  SR_StatusCode :: int
  SR_RefsAdvanced :: "string list"
  SR_RefsRejected :: "string list"

text \<open>A streaming driver succeeds with a result, or fails with an optional result; then it may have begun to write.\<close>

datatype stream_answer = StreamOK StreamResult | StreamFailed "StreamResult option" drv_error bool

type_synonym 'w stream_driver = "bool \<Rightarrow> drv_Request \<Rightarrow> 'w \<Rightarrow> stream_answer \<times> 'w"

record ('w, 'b) deps =
  D_Sha :: "string \<Rightarrow> string"
  D_Endpoint :: "string \<Rightarrow> string \<Rightarrow> policy_answer"
  D_PolicyClient :: bool
  D_Fence :: bool
  D_Verifier :: string
  D_Enabled :: "bool option"
  D_Drivers :: "string \<Rightarrow> ('w, 'b) driver option"
  D_StreamDrivers :: "string \<Rightarrow> 'w stream_driver option"
  D_MaxBodyBytes :: int
  D_InternalToken :: string
  D_Confirmation :: "'w confirmation_api option"
  D_Usage :: bool
  D_Enumerate :: "string \<Rightarrow> string \<Rightarrow> bool \<Rightarrow> string + nat \<times> string \<times> 'b"

text \<open>A body: its bytes, the JSON value in them, and the length of the text of its \<^verbatim>\<open>arguments\<close> member.\<close>

record req_body =
  BO_Bytes :: string
  BO_Json :: RawMessage
  BO_ArgsBytes :: nat

record http_request =
  RQ_ID :: string
  RQ_Now :: instant
  RQ_Later :: instant
  RQ_AgentHeader :: string
  RQ_Authorization :: string
  RQ_Confirmation :: string
  RQ_InternalToken :: string
  RQ_ResourceID :: string
  RQ_Trailing :: string
  RQ_Body :: "req_body option"

section \<open>Audit\<close>

text \<open>What a handler's \<^verbatim>\<open>emit\<close> closure holds: the request, agent, resource, operation, and how it renders a detail.\<close>

record emit_ctx =
  CX_RequestID :: string
  CX_AgentID :: string
  CX_Resource :: string
  CX_Operation :: string
  CX_Render :: "string \<Rightarrow> string"

definition emit :: "emit_ctx \<Rightarrow> string \<Rightarrow> int \<Rightarrow> string \<Rightarrow> 'w gateway \<Rightarrow> 'w gateway" where
  "emit cx decision code detail g =
     Emit \<lparr>EV_RequestID = CX_RequestID cx, EV_AgentID = CX_AgentID cx, EV_Resource = CX_Resource cx, EV_Operation = CX_Operation cx,
       EV_Decision = decision, EV_StatusCode = code, EV_Detail = CX_Render cx detail\<rparr> g"

definition refuse :: "emit_ctx \<Rightarrow> string \<Rightarrow> int \<Rightarrow> string \<Rightarrow> string \<Rightarrow> string \<Rightarrow> 'w gateway \<Rightarrow> 'b reply \<times> 'w gateway" where
  "refuse cx decision code detail kind message g = (ReplyError code kind message, emit cx decision code detail g)"

definition open_ctx :: "http_request \<Rightarrow> string \<Rightarrow> string \<Rightarrow> emit_ctx" where
  "open_ctx rq resource operation =
     \<lparr>CX_RequestID = RQ_ID rq, CX_AgentID = [], CX_Resource = resource, CX_Operation = operation, CX_Render = (\<lambda>d. d)\<rparr>"

text \<open>A JSON object of encoded values, by key.\<close>

definition json_fields :: "(string \<times> string) list \<Rightarrow> string" where
  "json_fields kvs =
     ''{'' @ join_with '','' (map (\<lambda>(k, v). json_string k @ '':'' @ v) (sort_by (\<lambda>a b. str_cmp (fst a) (fst b)) kvs)) @ ''}''"

definition mcp_detail :: "string \<Rightarrow> nat \<Rightarrow> string \<Rightarrow> string" where
  "mcp_detail toolName argsBytes detail =
     (let payload = (if toolName \<noteq> [] then [(''tool'', json_string toolName)] else []) @
                    (if argsBytes > 0 then [(''args_bytes'', nat_digits argsBytes)] else []) @
                    (if detail \<noteq> [] then [(''reason'', json_string detail)] else [])
      in if payload = [] then [] else json_fields payload)"

definition json_strings :: "string list \<Rightarrow> string" where
  "json_strings xs = ''['' @ join_with '','' (map json_string xs) @ '']''"

definition gitAuditDetail :: "StreamResult option \<Rightarrow> string \<Rightarrow> string" where
  "gitAuditDetail result reason =
     (let payload = (if reason \<noteq> [] then [(''reason'', json_string reason)] else []) @
        (case result of None \<Rightarrow> []
         | Some r \<Rightarrow> (if SR_Repo r \<noteq> [] then [(''repo'', json_string (SR_Repo r))] else []) @
             (if SR_Service r \<noteq> [] then [(''service'', json_string (SR_Service r))] else []) @
             (if SR_RefsAdvanced r \<noteq> [] then [(''refs_advanced'', json_strings (SR_RefsAdvanced r))] else []) @
             (if SR_RefsRejected r \<noteq> [] then [(''refs_rejected'', json_strings (SR_RefsRejected r))] else []))
      in if payload = [] then [] else json_fields payload)"

section \<open>The shared steps\<close>

definition bad_resource_id :: "string \<Rightarrow> bool" where
  "bad_resource_id rid \<longleftrightarrow> rid = [] \<or> IndexAny rid [CHR ''/'', CHR 0x5C] \<noteq> None \<or> rid = ''.'' \<or> rid = ''..''"

definition kill_switch ::
  "('w, 'b) deps \<Rightarrow> emit_ctx \<Rightarrow> ('w gateway \<Rightarrow> 'b reply \<times> 'w gateway) \<Rightarrow> 'w gateway \<Rightarrow> 'b reply \<times> 'w gateway" where
  "kill_switch d cx k g =
     (if D_Enabled d = Some False
      then refuse cx DecisionDeny 503 ''kill_switch'' ''gateway_disabled'' ''tool gateway is disabled by kill switch'' g else k g)"

definition auth_text :: "auth_error \<Rightarrow> string" where
  "auth_text e =
     (case e of ErrMissingAgentID \<Rightarrow> ''missing agent id'' | ErrMissingToken \<Rightarrow> ''missing bearer token''
      | ErrBadCredential \<Rightarrow> ''missing or invalid agent credential'' | ErrPolicyUnavailable \<Rightarrow> ''policy_unavailable'')"

definition authn ::
  "('w, 'b) deps \<Rightarrow> http_request \<Rightarrow> string \<Rightarrow> string \<Rightarrow> emit_ctx \<Rightarrow>
   (AgentPrincipal \<Rightarrow> emit_ctx \<Rightarrow> 'w gateway \<Rightarrow> 'b reply \<times> 'w gateway) \<Rightarrow> 'w gateway \<Rightarrow> 'b reply \<times> 'w gateway" where
  "authn d rq agentID authorization cx k g =
     (case Middleware (D_Sha d) (Get (D_Endpoint d) (RQ_Now rq) (RQ_Later rq)) agentID authorization (GW_Policy g) of (r, pc) \<Rightarrow>
      let g = g\<lparr>GW_Policy := pc\<rparr>
      in case r of
           Inl e \<Rightarrow>
             if e = ErrPolicyUnavailable
             then refuse cx DecisionDeny 502 ''policy_unavailable'' ''policy_unavailable'' ''policy could not be resolved; failing closed'' g
             else refuse cx DecisionDeny 401 (auth_text e) ''unauthorized'' (auth_text e) g
         | Inr caller \<Rightarrow> k caller (cx\<lparr>CX_AgentID := PR_AgentID caller\<rparr>) g)"

definition read_body ::
  "('w, 'b) deps \<Rightarrow> http_request \<Rightarrow> emit_ctx \<Rightarrow> (req_body \<Rightarrow> 'w gateway \<Rightarrow> 'b reply \<times> 'w gateway) \<Rightarrow> 'w gateway \<Rightarrow> 'b reply \<times> 'w gateway" where
  "read_body d rq cx k g =
     (case RQ_Body rq of
        None \<Rightarrow> refuse cx DecisionError 400 ''body read error'' ''bad_request'' ''failed reading request body'' g
      | Some body \<Rightarrow>
          if int (length (BO_Bytes body)) > D_MaxBodyBytes d
          then refuse cx DecisionDeny 413 ''payload too large'' ''payload_too_large'' ''request body exceeds limit'' g
          else k body g)"

definition find_grant :: "string \<Rightarrow> string \<Rightarrow> Snapshot \<Rightarrow> Grant option" where
  "find_grant kind rid snap = find (\<lambda>g. G_ResourceType g = kind \<and> G_ResourceID g = rid) (SN_Grants snap)"

definition reportUsage :: "('w, 'b) deps \<Rightarrow> string \<Rightarrow> Grant \<Rightarrow> 'w gateway \<Rightarrow> 'w gateway" where
  "reportUsage d agentID grant g =
     (if \<not> D_Usage d \<or> G_ResourceID grant = [] then g
      else g\<lparr>GW_Usage := GW_Usage g @ [\<lparr>UR_AgentID = agentID, UR_ResourceID = G_ResourceID grant, UR_ResourceType = G_ResourceType grant,
                                            UR_Count = 1\<rparr>]\<rparr>)"

definition call_driver ::
  "('w, 'b) driver \<Rightarrow> string \<Rightarrow> bool \<Rightarrow> drv_Request \<Rightarrow> 'w gateway \<Rightarrow> (drv_error + int \<times> 'b) \<times> 'w gateway" where
  "call_driver drv name satisfied req g =
     (let (r, w) = drv satisfied req (GW_World g) in (r, g\<lparr>GW_World := w, GW_Calls := GW_Calls g @ [(name, satisfied, req)]\<rparr>))"

definition driver_request :: "http_request \<Rightarrow> AgentPrincipal \<Rightarrow> string \<Rightarrow> string \<Rightarrow> Grant \<Rightarrow> drv_Request" where
  "driver_request rq caller operation payload grant =
     \<lparr>DR_Agent = caller, DR_Resource = G_ResourceID grant, DR_Operation = operation, DR_Payload = payload, DR_Grant = Some grant,
      DR_Path = [], DR_ConfirmationID = TrimSpace (RQ_Confirmation rq)\<rparr>"

text \<open>Dispatch to a buffered driver, and what follows: the handler's own treatment of a failure, or the allow event and
  the usage report.\<close>

definition dispatch ::
  "('w, 'b) deps \<Rightarrow> emit_ctx \<Rightarrow> string \<Rightarrow> bool \<Rightarrow> drv_Request \<Rightarrow> Grant \<Rightarrow>
   (drv_error \<Rightarrow> 'w gateway \<Rightarrow> 'b reply \<times> 'w gateway) \<Rightarrow> 'w gateway \<Rightarrow> 'b reply \<times> 'w gateway" where
  "dispatch d cx name satisfied req grant failed g =
     (case D_Drivers d name of
        None \<Rightarrow> refuse cx DecisionError 404 (''no '' @ name @ '' driver'') ''not_found'' (''no '' @ name @ '' driver registered'') g
      | Some drv \<Rightarrow>
          (case call_driver drv name satisfied req g of
             (Inl e, g1) \<Rightarrow> failed e g1
           | (Inr (status, body), g1) \<Rightarrow>
               let code = (if status = 0 then 200 else status)
               in (ReplyBody code body, reportUsage d (CX_AgentID cx) grant (emit cx DecisionAllow code [] g1))))"

definition err_text :: "drv_error \<Rightarrow> string" where
  "err_text e = (case e of Denied reason \<Rightarrow> ''denied: '' @ reason | ErrDenied \<Rightarrow> ''denied'' | DrvError t \<Rightarrow> t)"

definition governed_failure ::
  "emit_ctx \<Rightarrow> string \<Rightarrow> string \<Rightarrow> string \<Rightarrow> drv_error \<Rightarrow> 'w gateway \<Rightarrow> 'b reply \<times> 'w gateway" where
  "governed_failure cx badRequest kind message e g =
     (case e of
        Denied reason \<Rightarrow> refuse cx DecisionDeny 403 reason ''denied'' reason g
      | ErrDenied \<Rightarrow> refuse cx DecisionDeny 403 ''denied'' ''denied'' ''blocked by policy'' g
      | DrvError t \<Rightarrow>
          if HasPrefix t ''bad_request'' then refuse cx DecisionDeny 400 ''bad_request'' ''bad_request'' badRequest g
          else refuse cx DecisionError 502 t kind message g)"

definition gate_then ::
  "('w, 'b) deps \<Rightarrow> http_request \<Rightarrow> emit_ctx \<Rightarrow> Grant \<Rightarrow> string \<Rightarrow> string \<Rightarrow> (bool \<Rightarrow> 'w gateway \<Rightarrow> 'b reply \<times> 'w gateway) \<Rightarrow>
   'w gateway \<Rightarrow> 'b reply \<times> 'w gateway" where
  "gate_then d rq cx grant tool payload k g =
     (case confirmationGate (D_Sha d) (D_Confirmation d) (RQ_Confirmation rq) (RQ_ID rq) (CX_AgentID cx) grant (CX_Operation cx) tool payload g of
        (Stop reply, g1) \<Rightarrow> (reply, g1)
      | (Proceed satisfied, g1) \<Rightarrow> k satisfied g1)"

section \<open>The handlers\<close>

definition handleEcho :: "('w, 'b) deps \<Rightarrow> http_request \<Rightarrow> 'w gateway \<Rightarrow> 'b reply \<times> 'w gateway" where
  "handleEcho d rq =
     (let cx = open_ctx rq ''echo'' ''echo''
      in kill_switch d cx
        (authn d rq (RQ_AgentHeader rq) (RQ_Authorization rq) cx (\<lambda>caller cx.
         read_body d rq cx (\<lambda>body g.
           case D_Drivers d ''echo'' of
             None \<Rightarrow> refuse cx DecisionError 404 ''no driver'' ''not_found'' ''no driver registered'' g
           | Some drv \<Rightarrow>
               (case call_driver drv ''echo'' False \<lparr>DR_Agent = caller, DR_Resource = ''echo'', DR_Operation = ''echo'', DR_Payload = BO_Bytes body,
                       DR_Grant = None, DR_Path = [], DR_ConfirmationID = []\<rparr> g of
                  (Inl e, g1) \<Rightarrow> refuse cx DecisionError 502 (err_text e) ''driver_error'' ''driver failed'' g1
                | (Inr (status, out), g1) \<Rightarrow>
                    let code = (if status = 0 then 200 else status) in (ReplyBody code out, emit cx DecisionAllow code [] g1))))))"

definition handleWebFetch :: "('w, 'b) deps \<Rightarrow> http_request \<Rightarrow> 'w gateway \<Rightarrow> 'b reply \<times> 'w gateway" where
  "handleWebFetch d rq =
     (let cx = open_ctx rq ''web'' ''fetch''
      in kill_switch d cx
        (authn d rq (RQ_AgentHeader rq) (RQ_Authorization rq) cx (\<lambda>caller cx.
         read_body d rq cx (\<lambda>body g.
           case find (\<lambda>g. G_ResourceType g = ''web'') (SN_Grants (PR_Snapshot caller)) of
             None \<Rightarrow> refuse (cx\<lparr>CX_Resource := ''web:none''\<rparr>) DecisionDeny 403 ''no_web_grant'' ''no_grant'' ''agent has no grant to a web resource'' g
           | Some grant \<Rightarrow>
               let cx = cx\<lparr>CX_Resource := G_ResourceID grant\<rparr>
               in gate_then d rq cx grant ''fetch'' (BO_Bytes body) (\<lambda>satisfied.
                    dispatch d cx ''web'' satisfied (driver_request rq caller ''fetch'' (BO_Bytes body) grant) grant
                      (governed_failure cx ''invalid fetch request'' ''fetch_failed'' ''fetch failed (blocked by network policy or unreachable target)'')) g))))"

definition handleRestCall :: "('w, 'b) deps \<Rightarrow> http_request \<Rightarrow> 'w gateway \<Rightarrow> 'b reply \<times> 'w gateway" where
  "handleRestCall d rq g0 =
     (let resourceID = TrimSpace (RQ_ResourceID rq); cx = open_ctx rq (''rest:'' @ resourceID) ''rest_call''
      in if bad_resource_id resourceID then refuse cx DecisionDeny 400 ''bad_resource_id'' ''bad_request'' ''invalid resource id'' g0
         else kill_switch d cx
          (authn d rq (RQ_AgentHeader rq) (RQ_Authorization rq) cx (\<lambda>caller cx.
           read_body d rq cx (\<lambda>body g.
             case find_grant ''rest'' resourceID (PR_Snapshot caller) of
               None \<Rightarrow> refuse cx DecisionDeny 403 ''no_rest_grant'' ''no_grant'' ''agent has no grant to this rest resource'' g
             | Some grant \<Rightarrow>
                 gate_then d rq cx grant ''rest_call'' (BO_Bytes body) (\<lambda>satisfied.
                   dispatch d cx ''rest'' satisfied (driver_request rq caller ''rest_call'' (BO_Bytes body) grant) grant
                     (governed_failure cx ''invalid rest request'' ''rest_failed'' ''rest call failed (blocked by policy or unreachable target)'')) g))) g0)"

definition grantRequestsBrowserDriver :: "Grant \<Rightarrow> bool" where
  "grantRequestsBrowserDriver grant =
     list_ex (\<lambda>raw. if raw = RawEmpty then False
        else case raw_struct raw of None \<Rightarrow> False
             | Some kvs \<Rightarrow> (case st_string ''driver'' kvs of None \<Rightarrow> False | Some s \<Rightarrow> EqualFold (TrimSpace s) ''browser''))
       [G_Config grant, G_Ceiling grant]"

text \<open>\<^verbatim>\<open>json.Unmarshal\<close> of a body into a struct; an empty body is an error.\<close>

definition body_struct :: "req_body \<Rightarrow> (string \<times> json) list option" where
  "body_struct body = (case BO_Json body of Raw v \<Rightarrow> un_struct v | _ \<Rightarrow> None)"

definition body_tool :: "req_body \<Rightarrow> string option" where
  "body_tool body = (case body_struct body of None \<Rightarrow> None | Some kvs \<Rightarrow> st_string ''tool'' kvs)"

definition mcp_failure :: "emit_ctx \<Rightarrow> drv_error \<Rightarrow> 'w gateway \<Rightarrow> 'b reply \<times> 'w gateway" where
  "mcp_failure cx e g =
     (case e of
        Denied reason \<Rightarrow> refuse cx DecisionDeny (if reason = ''args_too_large'' then 413 else 403) reason ''denied'' reason g
      | ErrDenied \<Rightarrow> refuse cx DecisionDeny 403 ''denied'' ''denied'' ''blocked by policy'' g
      | DrvError t \<Rightarrow>
          if HasPrefix t ''bad_request'' then refuse cx DecisionDeny 400 ''bad_request'' ''bad_request'' ''invalid mcp call request'' g
          else refuse cx DecisionError 502 ''mcp_failed'' ''mcp_failed'' ''mcp call failed (blocked by policy or unreachable target)'' g)"

definition handleMCPCall :: "('w, 'b) deps \<Rightarrow> http_request \<Rightarrow> 'w gateway \<Rightarrow> 'b reply \<times> 'w gateway" where
  "handleMCPCall d rq g0 =
     (let resourceID = TrimSpace (RQ_ResourceID rq); cx = (open_ctx rq (''mcp:'' @ resourceID) ''mcp_call'')\<lparr>CX_Render := mcp_detail [] 0\<rparr>
      in if bad_resource_id resourceID then refuse cx DecisionDeny 400 ''bad_resource_id'' ''bad_request'' ''invalid resource id'' g0
         else kill_switch d cx
          (authn d rq (RQ_AgentHeader rq) (RQ_Authorization rq) cx (\<lambda>caller cx.
           read_body d rq cx (\<lambda>body g.
             let toolName = (case body_tool body of None \<Rightarrow> [] | Some t \<Rightarrow> t);
                 cx = (case body_tool body of None \<Rightarrow> cx | Some t \<Rightarrow> cx\<lparr>CX_Render := mcp_detail t (BO_ArgsBytes body)\<rparr>)
             in case find_grant ''mcp'' resourceID (PR_Snapshot caller) of
                  None \<Rightarrow> refuse cx DecisionDeny 403 ''no_mcp_grant'' ''no_grant'' ''agent has no grant to this mcp resource'' g
                | Some grant \<Rightarrow>
                    gate_then d rq cx grant (if toolName = [] then ''mcp_call'' else toolName) (BO_Bytes body) (\<lambda>satisfied.
                      dispatch d cx (if grantRequestsBrowserDriver grant then ''browser'' else ''mcp'') satisfied
                        (driver_request rq caller ''mcp_call'' (BO_Bytes body) grant) grant (mcp_failure cx)) g))) g0)"

definition sshToolFamily :: "string list" where
  "sshToolFamily = [''ssh_exec'', ''ssh_session_open'', ''ssh_session_send'', ''ssh_session_events'', ''ssh_session_close'', ''ssh_apply'',
     ''ssh_apply_status'']"

definition ssh_failure :: "emit_ctx \<Rightarrow> drv_error \<Rightarrow> 'w gateway \<Rightarrow> 'b reply \<times> 'w gateway" where
  "ssh_failure cx e g =
     (case e of
        Denied reason \<Rightarrow>
          if HasPrefix reason ''confirmation_required:'' \<and> TrimPrefix reason ''confirmation_required:'' \<noteq> []
          then (let confID = TrimPrefix reason ''confirmation_required:''
                in (ReplyPending confID, emit cx DecisionDeny 202 (''pending_confirmation:'' @ confID) g))
          else refuse cx DecisionDeny 403 reason ''denied'' reason g
      | ErrDenied \<Rightarrow> refuse cx DecisionDeny 403 ''denied'' ''denied'' ''blocked by policy'' g
      | DrvError t \<Rightarrow> refuse cx DecisionError 502 t ''ssh_failed'' ''ssh call failed (blocked by policy or unreachable target)'' g)"

definition handleSSHCall :: "('w, 'b) deps \<Rightarrow> http_request \<Rightarrow> 'w gateway \<Rightarrow> 'b reply \<times> 'w gateway" where
  "handleSSHCall d rq g0 =
     (let resourceID = TrimSpace (RQ_ResourceID rq); cx = open_ctx rq (''ssh:'' @ resourceID) ''ssh_call''
      in if bad_resource_id resourceID then refuse cx DecisionDeny 400 ''bad_resource_id'' ''bad_request'' ''invalid resource id'' g0
         else kill_switch d cx
          (authn d rq (RQ_AgentHeader rq) (RQ_Authorization rq) cx (\<lambda>caller cx.
           read_body d rq cx (\<lambda>body g.
             case body_tool body of
               None \<Rightarrow> refuse cx DecisionDeny 400 ''unknown_ssh_tool'' ''bad_request'' ''body must be JSON with a known ssh tool name'' g
             | Some tool \<Rightarrow>
                 if tool \<notin> set sshToolFamily
                 then refuse cx DecisionDeny 400 ''unknown_ssh_tool'' ''bad_request'' ''body must be JSON with a known ssh tool name'' g
                 else
                   let cx = cx\<lparr>CX_Operation := tool\<rparr>
                   in case find_grant ''ssh'' resourceID (PR_Snapshot caller) of
                        None \<Rightarrow> refuse cx DecisionDeny 403 ''no_ssh_grant'' ''no_grant'' ''agent has no grant to this ssh resource'' g
                      | Some grant \<Rightarrow>
                          dispatch d cx ''ssh'' False (driver_request rq caller tool (BO_Bytes body) grant) grant (ssh_failure cx) g))) g0)"

definition git_operation :: "StreamResult option \<Rightarrow> string" where
  "git_operation result =
     (case result of None \<Rightarrow> ''git''
      | Some r \<Rightarrow> if SR_Service r = ''git-receive-pack'' then ''git_push'' else if SR_Service r \<noteq> [] then ''git_fetch'' else ''git'')"

definition git_finish ::
  "('w, 'b) deps \<Rightarrow> emit_ctx \<Rightarrow> Grant \<Rightarrow> stream_answer \<Rightarrow> 'w gateway \<Rightarrow> 'b reply \<times> 'w gateway" where
  "git_finish d cx grant ans g =
     (case ans of
        StreamOK r \<Rightarrow>
          (ReplyStreamed, reportUsage d (CX_AgentID cx) grant
             (emit (cx\<lparr>CX_Operation := git_operation (Some r)\<rparr>) DecisionAllow (SR_StatusCode r) (gitAuditDetail (Some r) []) g))
      | StreamFailed result e wrote \<Rightarrow>
          let cx = cx\<lparr>CX_Operation := git_operation result\<rparr>
          in case e of
               Denied reason \<Rightarrow> refuse cx DecisionDeny 403 (gitAuditDetail result reason) ''denied'' reason g
             | _ \<Rightarrow>
                 if HasPrefix (err_text e) ''bad_request'' then refuse cx DecisionDeny 400 ''bad_request'' ''bad_request'' ''invalid git request'' g
                 else (if wrote then ReplyStreamed else ReplyError 502 ''git_failed'' ''git proxy failed (blocked by policy or unreachable target)'',
                       emit cx DecisionError 502 (gitAuditDetail result ''stream_failed'') g))"

definition handleGitProxy :: "('w, 'b) deps \<Rightarrow> http_request \<Rightarrow> 'w gateway \<Rightarrow> 'b reply \<times> 'w gateway" where
  "handleGitProxy d rq g0 =
     (let resourceID = TrimSpace (RQ_ResourceID rq); cx = open_ctx rq (''git:'' @ resourceID) ''git'';
          (gitAgentID, gitAuthHeader) = gitProxyCredentials (RQ_AgentHeader rq) (RQ_Authorization rq)
      in if bad_resource_id resourceID then refuse cx DecisionDeny 400 ''bad_resource_id'' ''bad_request'' ''invalid resource id'' g0
         else kill_switch d cx
          (authn d rq gitAgentID gitAuthHeader cx (\<lambda>caller cx g.
             case find_grant ''git'' resourceID (PR_Snapshot caller) of
               None \<Rightarrow> refuse cx DecisionDeny 403 ''no_git_grant'' ''no_grant'' ''agent has no grant to this git resource'' g
             | Some grant \<Rightarrow>
                 gate_then d rq cx grant ''git'' (RQ_Trailing rq) (\<lambda>satisfied g.
                   case D_StreamDrivers d ''git'' of
                     None \<Rightarrow> refuse cx DecisionError 404 ''no git driver'' ''not_found'' ''no git driver registered'' g
                   | Some drv \<Rightarrow>
                       let req = \<lparr>DR_Agent = caller, DR_Resource = G_ResourceID grant, DR_Operation = ''git'', DR_Payload = [],
                                  DR_Grant = Some grant, DR_Path = RQ_Trailing rq, DR_ConfirmationID = []\<rparr>;
                           (ans, w) = drv satisfied req (GW_World g)
                       in git_finish d cx grant ans (g\<lparr>GW_World := w, GW_Calls := GW_Calls g @ [(''git'', satisfied, req)]\<rparr>)) g)) g0)"

section \<open>The control plane's endpoint\<close>

definition classifyEnumerateFailure :: "string \<Rightarrow> string \<times> string" where
  "classifyEnumerateFailure msg =
     (if HasPrefix msg ''bad_request'' then (''bad_request'', ''invalid enumerate request'')
      else if Contains msg ''denied redirect'' then (''redirect_denied'', ''upstream attempted a cross-host redirect (refused)'')
      else if Contains msg ''ssrf_guard'' then (''egress_denied'', ''upstream blocked by network egress policy'')
      else (''mcp_enumerate_failed'', ''could not enumerate upstream MCP server (unreachable or handshake failed)''))"

record mcpEnumerateRequest =
  ER_ResourceID :: string
  ER_URL :: string
  ER_Kind :: string
  ER_Token :: string
  ER_AllowPrivate :: bool

text \<open>Repeated \<^verbatim>\<open>auth\<close> members fill the same nested struct; \<^verbatim>\<open>null\<close> leaves it.\<close>

definition un_auth :: "string \<times> string \<Rightarrow> json \<Rightarrow> (string \<times> string) option" where
  "un_auth acc v =
     (case un_struct v of None \<Rightarrow> None
      | Some kvs \<Rightarrow>
          (case (set_field (\<lambda>a v. if v = JNull then Some a else un_string v) (fst acc) (field_values ''kind'' kvs),
                 set_field (\<lambda>a v. if v = JNull then Some a else un_string v) (snd acc) (field_values ''token'' kvs)) of
             (Some k, Some t) \<Rightarrow> Some (k, t) | _ \<Rightarrow> None))"

definition un_enumerate :: "req_body \<Rightarrow> mcpEnumerateRequest option" where
  "un_enumerate body =
     (case body_struct body of None \<Rightarrow> None
      | Some kvs \<Rightarrow>
          (case (st_string ''resource_id'' kvs, st_string ''url'' kvs, set_field un_auth ([], []) (field_values ''auth'' kvs), st_bool ''allow_private'' kvs) of
             (Some r, Some u, Some (k, t), Some p) \<Rightarrow>
               Some \<lparr>ER_ResourceID = r, ER_URL = u, ER_Kind = k, ER_Token = t, ER_AllowPrivate = p\<rparr>
           | _ \<Rightarrow> None))"

definition internal_token :: "http_request \<Rightarrow> string" where
  "internal_token rq =
     (let actual = TrimSpace (RQ_InternalToken rq)
      in if actual = [] then TrimSpace (TrimPrefix (RQ_Authorization rq) ''Bearer '') else actual)"

definition handleMCPEnumerate :: "('w, 'b) deps \<Rightarrow> http_request \<Rightarrow> 'w gateway \<Rightarrow> 'b reply \<times> 'w gateway" where
  "handleMCPEnumerate d rq g0 =
     (let cx = open_ctx rq ''mcp'' ''mcp_enumerate''; expected = TrimSpace (D_InternalToken d)
      in kill_switch d cx (\<lambda>g.
           if expected = [] then refuse cx DecisionDeny 503 ''internal_unconfigured'' ''internal_unconfigured'' ''internal endpoint token is not configured'' g
           else if internal_token rq = [] \<or> internal_token rq \<noteq> expected
           then refuse cx DecisionDeny 401 ''internal_token_invalid'' ''unauthorized'' ''internal token is missing or invalid'' g
           else read_body d rq cx (\<lambda>body g.
             case un_enumerate body of
               None \<Rightarrow> refuse cx DecisionDeny 400 ''bad_json'' ''bad_request'' ''invalid enumerate request body'' g
             | Some er \<Rightarrow>
                 let rid = TrimSpace (ER_ResourceID er); cx = cx\<lparr>CX_Resource := ''mcp:'' @ rid\<rparr>
                 in if bad_resource_id rid then refuse cx DecisionDeny 400 ''bad_resource_id'' ''bad_request'' ''invalid resource id'' g
                    else if \<not> EqualFold (TrimSpace (ER_Kind er)) ''bearer''
                    then refuse cx DecisionDeny 400 ''unsupported_auth_kind'' ''bad_request'' ''auth.kind must be bearer'' g
                    else if TrimSpace (ER_Token er) = [] then refuse cx DecisionDeny 400 ''missing_credential'' ''bad_request'' ''auth.token is required'' g
                    else (case D_Enumerate d (ER_URL er) (ER_Token er) (ER_AllowPrivate er) of
                            Inl e \<Rightarrow> (case classifyEnumerateFailure e of (kind, msg) \<Rightarrow> refuse cx DecisionError 502 kind kind msg g)
                          | Inr (n, hash, out) \<Rightarrow>
                              (ReplyBody 200 out, emit cx DecisionAllow 200 (''tools='' @ nat_digits n @ '' hash='' @ hash) g))) g) g0)"

section \<open>Health and routing\<close>

definition bool_text :: "bool \<Rightarrow> string" where
  "bool_text b = (if b then ''true'' else ''false'')"

definition handleReadyz :: "('w, 'b) deps \<Rightarrow> 'w gateway \<Rightarrow> 'b reply" where
  "handleReadyz d g =
     (let cpReachable = (D_PolicyClient d \<and> PL_Reachable (GW_Policy g));
          status = [(''cp_policy_reachable'', bool_text cpReachable), (''fence_applied'', bool_text (D_Fence d)), (''verifier'', D_Verifier d)]
      in if cpReachable \<and> D_Fence d then ReplyMap 200 (status @ [(''reason'', ''ready'')])
         else ReplyMap 503 (status @ [(''reason'', join_with ''; ''
                ((if \<not> cpReachable then [''control-plane policy path not yet reachable''] else []) @
                 (if \<not> D_Fence d then [''network boundary fence not confirmed''] else [])))]))"

datatype route = Healthz | Readyz | Echo | WebFetch | RestCall | MCPCall | SSHCall | MCPEnumerate | GitProxy

definition ServeHTTP :: "('w, 'b) deps \<Rightarrow> route \<Rightarrow> http_request \<Rightarrow> 'w gateway \<Rightarrow> 'b reply \<times> 'w gateway" where
  "ServeHTTP d route rq g =
     (case route of
        Healthz \<Rightarrow> (ReplyMap 200 [(''status'', ''ok'')], g)
      | Readyz \<Rightarrow> (handleReadyz d g, g)
      | Echo \<Rightarrow> handleEcho d rq g
      | WebFetch \<Rightarrow> handleWebFetch d rq g
      | RestCall \<Rightarrow> handleRestCall d rq g
      | MCPCall \<Rightarrow> handleMCPCall d rq g
      | SSHCall \<Rightarrow> handleSSHCall d rq g
      | MCPEnumerate \<Rightarrow> handleMCPEnumerate d rq g
      | GitProxy \<Rightarrow> handleGitProxy d rq g)"

end
