(* ===== verification/Gateway_Serve_Laws.thy ===== *)
theory Gateway_Serve_Laws
  imports Gateway_Laws
begin

text \<open>
  What a request to the gateway can bring about: which driver calls, which audit events, which usage reports. One rule
  per step of the pipeline, and each handler is the composition of its steps.
\<close>

section \<open>Outcomes\<close>

fun reply_code :: "'b reply \<Rightarrow> int option" where
  "reply_code (ReplyError n k m) = Some n"
| "reply_code (ReplyMap n kvs) = Some n"
| "reply_code (ReplyPending c) = Some 202"
| "reply_code (ReplyBody n b) = Some n"
| "reply_code ReplyStreamed = None"

fun is_body :: "'b reply \<Rightarrow> bool" where
  "is_body (ReplyBody n b) = True"
| "is_body _ = False"

type_synonym call = "string \<times> bool \<times> drv_Request"

definition billed :: "call \<Rightarrow> usage_Report \<Rightarrow> bool" where
  "billed c u \<longleftrightarrow> (case c of (name, satisfied, req) \<Rightarrow>
     (\<exists>grant. DR_Grant req = Some grant \<and> u = \<lparr>UR_AgentID = PR_AgentID (DR_Agent req), UR_ResourceID = G_ResourceID grant,
        UR_ResourceType = G_ResourceType grant, UR_Count = 1\<rparr>))"

text \<open>The calls, events and reports a request adds. The last event is the one of the whole request: its status is the
  status of the reply, it allows exactly when the reply is a driver's answer, it allows only if a driver ran, and only then
  is there a report, for that call. A reply the git driver has streamed has no status of its own: there a driver ran, and
  the event follows from that driver's answer (\<open>settled\<close> below).\<close>

definition adds :: "'w gateway \<Rightarrow> 'w gateway \<Rightarrow> call list \<Rightarrow> Event list \<Rightarrow> usage_Report list \<Rightarrow> bool" where
  "adds g g' cs es us \<longleftrightarrow> GW_Calls g' = GW_Calls g @ cs \<and> GW_Audit g' = GW_Audit g @ es \<and> GW_Usage g' = GW_Usage g @ us"

definition coherent :: "string \<Rightarrow> 'b reply \<Rightarrow> call list \<Rightarrow> Event list \<Rightarrow> usage_Report list \<Rightarrow> bool" where
  "coherent rid r cs es us \<longleftrightarrow> es \<noteq> [] \<and> length es \<le> 2 \<and> list_all (\<lambda>e. EV_RequestID e = rid) es \<and>
     (reply_code r \<noteq> None \<longrightarrow> reply_code r = Some (EV_StatusCode (last es)) \<and> (is_body r \<longleftrightarrow> EV_Decision (last es) = DecisionAllow)) \<and>
     (EV_Decision (last es) = DecisionAllow \<or> reply_code r = None \<longrightarrow> cs \<noteq> []) \<and> length cs \<le> 1 \<and>
     (us \<noteq> [] \<longrightarrow> EV_Decision (last es) = DecisionAllow \<and> (\<exists>c u. cs = [c] \<and> us = [u] \<and> billed c u))"

text \<open>\<open>Q\<close> relates a call to the reply, the decision and status of the last event, and the reports.\<close>

definition outcome :: "string \<Rightarrow> (call \<Rightarrow> 'b reply \<Rightarrow> string \<Rightarrow> int \<Rightarrow> usage_Report list \<Rightarrow> bool) \<Rightarrow> 'w gateway \<Rightarrow> 'b reply \<times> 'w gateway \<Rightarrow> bool" where
  "outcome rid Q g res \<longleftrightarrow> (\<exists>cs es us. adds g (snd res) cs es us \<and>
     list_all (\<lambda>c. Q c (fst res) (EV_Decision (last es)) (EV_StatusCode (last es)) us) cs \<and> coherent rid (fst res) cs es us)"

definition refusing :: "(call \<Rightarrow> 'b reply \<Rightarrow> string \<Rightarrow> int \<Rightarrow> usage_Report list \<Rightarrow> bool) \<Rightarrow> call \<Rightarrow> bool" where
  "refusing Q c \<longleftrightarrow> (\<forall>r dec code. dec \<noteq> DecisionAllow \<longrightarrow> \<not> is_body r \<longrightarrow> reply_code r = Some code \<longrightarrow> Q c r dec code [])"

lemma decisions [simp]: "DecisionAllow \<noteq> DecisionDeny" "DecisionDeny \<noteq> DecisionAllow" "DecisionAllow \<noteq> DecisionError" "DecisionError \<noteq> DecisionAllow"
  by (simp_all add: DecisionAllow_def DecisionDeny_def DecisionError_def)

text \<open>A state inside a request: at most the gate's event so far.\<close>

definition inside :: "string \<Rightarrow> call list \<Rightarrow> 'w gateway \<Rightarrow> 'w gateway \<Rightarrow> bool" where
  "inside rid cs g g1 \<longleftrightarrow> (\<exists>es. adds g g1 cs es [] \<and> length es \<le> 1 \<and> list_all (\<lambda>e. EV_RequestID e = rid) es) \<and> length cs \<le> 1"

lemma inside_refl: "inside rid [] g g"
  by (simp add: inside_def adds_def)

lemma inside_clean: "adds g g1 [] [] [] \<Longrightarrow> inside rid [] g g1"
  by (auto simp: inside_def)

lemma inside_policy: "inside rid cs g g1 \<Longrightarrow> inside rid cs g (g1\<lparr>GW_Policy := pc\<rparr>)"
  by (simp add: inside_def adds_def)

lemma outcome_emit:
  assumes "inside rid cs g g1" and rid: "CX_RequestID cx = rid" and "list_all (\<lambda>c. Q c r dec code []) cs" and "reply_code r \<noteq> None \<Longrightarrow> reply_code r = Some code"
    and "reply_code r \<noteq> None \<Longrightarrow> \<not> is_body r" and "dec \<noteq> DecisionAllow" and "reply_code r = None \<Longrightarrow> cs \<noteq> []"
  shows "outcome rid Q g (r, emit cx dec code detail g1)"
proof -
  obtain es where es: "adds g g1 cs es []" "length es \<le> 1" "list_all (\<lambda>e. EV_RequestID e = rid) es" "length cs \<le> 1"
    using assms(1) by (auto simp: inside_def)
  let ?e = "\<lparr>EV_RequestID = CX_RequestID cx, EV_AgentID = CX_AgentID cx, EV_Resource = CX_Resource cx, EV_Operation = CX_Operation cx,
       EV_Decision = dec, EV_StatusCode = code, EV_Detail = CX_Render cx detail\<rparr>"
  have "adds g (emit cx dec code detail g1) cs (es @ [?e]) []" using es(1) by (simp add: adds_def emit_def Emit_def)
  moreover have "coherent rid r cs (es @ [?e]) []" using es rid assms(4-7) by (auto simp: coherent_def)
  moreover have "list_all (\<lambda>c. Q c r (EV_Decision (last (es @ [?e]))) (EV_StatusCode (last (es @ [?e]))) []) cs" using assms(3) by simp
  ultimately show ?thesis unfolding outcome_def fst_conv snd_conv by blast
qed

lemma outcome_refuse:
  assumes "inside rid cs g g1" and "CX_RequestID cx = rid" and "list_all (refusing Q) cs" and "dec \<noteq> DecisionAllow"
  shows "outcome rid Q g (refuse cx dec code detail kind msg g1)"
  unfolding refuse_def using assms by (intro outcome_emit) (auto simp: refusing_def list_all_iff)

lemma outcome_allow:
  assumes "inside rid [(name, satisfied, req)] g g1" and rid: "CX_RequestID cx = rid" and "Q (name, satisfied, req) r DecisionAllow code us"
    and "reply_code r \<noteq> None \<Longrightarrow> reply_code r = Some code \<and> is_body r"
    and "us = [] \<or> (\<exists>u. us = [u] \<and> billed (name, satisfied, req) u)"
    and "g2 = (emit cx DecisionAllow code detail g1)\<lparr>GW_Usage := GW_Usage g1 @ us\<rparr>"
  shows "outcome rid Q g (r, g2)"
proof -
  obtain es where es: "adds g g1 [(name, satisfied, req)] es []" "length es \<le> 1" "list_all (\<lambda>e. EV_RequestID e = rid) es"
    using assms(1) by (auto simp: inside_def)
  let ?e = "\<lparr>EV_RequestID = CX_RequestID cx, EV_AgentID = CX_AgentID cx, EV_Resource = CX_Resource cx, EV_Operation = CX_Operation cx,
       EV_Decision = DecisionAllow, EV_StatusCode = code, EV_Detail = CX_Render cx detail\<rparr>"
  have "adds g g2 [(name, satisfied, req)] (es @ [?e]) us" using es(1) unfolding assms(6) by (simp add: adds_def emit_def Emit_def)
  moreover have "coherent rid r [(name, satisfied, req)] (es @ [?e]) us" using es rid assms(4,5) by (auto simp: coherent_def)
  moreover have "list_all (\<lambda>c. Q c r (EV_Decision (last (es @ [?e]))) (EV_StatusCode (last (es @ [?e]))) us) [(name, satisfied, req)]"
    using assms(3) by simp
  ultimately show ?thesis unfolding outcome_def fst_conv snd_conv by blast
qed

section \<open>A rule per step\<close>

lemma kill_switch_rule:
  assumes "CX_RequestID cx = rid" and "D_Enabled d \<noteq> Some False \<Longrightarrow> outcome rid Q g (k g)"
  shows "outcome rid Q g (kill_switch d cx k g)"
  unfolding kill_switch_def using assms by (auto intro!: outcome_refuse inside_refl)

text \<open>Who the caller is: the identity and token the request carries, and the snapshot they were checked against.\<close>

definition authentic :: "('w, 'b) deps \<Rightarrow> http_request \<Rightarrow> string \<Rightarrow> string \<Rightarrow> policy_client \<Rightarrow> AgentPrincipal \<Rightarrow> bool" where
  "authentic d rq agentID authorization pc caller \<longleftrightarrow>
     PR_AgentID caller = TrimSpace agentID \<and> PR_AgentID caller \<noteq> [] \<and>
     fst (Get (D_Endpoint d) (RQ_Now rq) (RQ_Later rq) (PR_AgentID caller) pc) = Inr (PR_Snapshot caller) \<and>
     SN_AgentID (PR_Snapshot caller) = PR_AgentID caller \<and> BearerToken authorization \<noteq> [] \<and>
     SN_CredentialHash (PR_Snapshot caller) = HashCredential (D_Sha d) (BearerToken authorization) \<and> SN_CredentialHash (PR_Snapshot caller) \<noteq> []"

lemma Middleware_Inr:
  assumes "Middleware sha lookup agentID authorization c = (Inr caller, c')"
  shows "PR_AgentID caller = TrimSpace agentID" "PR_AgentID caller \<noteq> []" "lookup (PR_AgentID caller) c = (Inr (PR_Snapshot caller), c')"
    "SN_AgentID (PR_Snapshot caller) = PR_AgentID caller" "MatchesCredential sha (BearerToken authorization) (PR_Snapshot caller)"
    "BearerToken authorization \<noteq> []"
  using assms by (auto simp: Middleware_def Let_def split: if_splits sum.splits prod.splits)

lemma authn_rule:
  fixes d :: "('w, 'b) deps"
  assumes rid: "CX_RequestID cx = rid" and k: "\<And>caller pc. authentic d rq agentID authorization (GW_Policy g) caller \<Longrightarrow>
      outcome rid Q g (k caller (cx\<lparr>CX_AgentID := PR_AgentID caller\<rparr>) (g\<lparr>GW_Policy := pc\<rparr>))"
  shows "outcome rid Q g (authn d rq agentID authorization cx k g)"
proof -
  obtain r pc where m: "Middleware (D_Sha d) (Get (D_Endpoint d) (RQ_Now rq) (RQ_Later rq)) agentID authorization (GW_Policy g) = (r, pc)" by force
  show ?thesis
  proof (cases r)
    case (Inl e)
    have "outcome rid Q g (refuse cx DecisionDeny c t kd ms (g\<lparr>GW_Policy := pc\<rparr>) :: 'b reply \<times> 'w gateway)" for c t kd ms
      by (rule outcome_refuse [OF inside_policy [OF inside_refl] rid]) simp_all
    then show ?thesis using m Inl by (simp add: authn_def Let_def)
  next
    case (Inr caller)
    note M = Middleware_Inr [OF m [unfolded Inr]]
    have "authentic d rq agentID authorization (GW_Policy g) caller"
      using M unfolding authentic_def by (auto simp: MatchesCredential_def split: if_splits)
    from k [OF this, of pc] show ?thesis using m Inr by (simp add: authn_def Let_def)
  qed
qed

lemma read_body_rule:
  assumes "adds g g1 [] [] []" and "CX_RequestID cx = rid"
    and "\<And>body. RQ_Body rq = Some body \<Longrightarrow> int (length (BO_Bytes body)) \<le> D_MaxBodyBytes d \<Longrightarrow> outcome rid Q g (k body g1)"
  shows "outcome rid Q g (read_body d rq cx k g1)"
  unfolding read_body_def using assms by (auto split: option.split intro!: outcome_refuse [OF inside_clean])

text \<open>What the control plane has said to a gated call: a confirmation was consumed for this argument hash, or a standing
  grant covers the call.\<close>

definition released :: "(string \<Rightarrow> string) \<Rightarrow> 'w confirmation_api option \<Rightarrow> string \<Rightarrow> string \<Rightarrow> Grant \<Rightarrow> string \<Rightarrow> string \<Rightarrow> string \<Rightarrow> 'w \<Rightarrow> bool" where
  "released sha client header agentID grant operation tool payload w \<longleftrightarrow>
     (\<exists>api. client = Some api \<and>
       (if TrimSpace header \<noteq> []
        then \<exists>out w'. API_consume api (TrimSpace header) (ArgsHash sha (G_ResourceID grant) operation payload) w = (PostAnswer 200 (Inr out), w') \<and> CS_Allowed out
        else \<exists>out w'. API_check api (G_ResourceID grant) agentID tool (ArgsHash sha (G_ResourceID grant) operation payload) w =
               (PostAnswer 200 (Inr out), w') \<and> CK_Mode out = ''auto''))"

definition passes_gate :: "('w, 'b) deps \<Rightarrow> http_request \<Rightarrow> string \<Rightarrow> Grant \<Rightarrow> string \<Rightarrow> string \<Rightarrow> string \<Rightarrow> 'w \<Rightarrow> bool \<Rightarrow> bool" where
  "passes_gate d rq agentID grant operation tool payload w satisfied \<longleftrightarrow>
     (satisfied \<longleftrightarrow> ConfirmationRequired grant tool) \<and>
     (ConfirmationRequired grant tool \<longrightarrow> released (D_Sha d) (D_Confirmation d) (RQ_Confirmation rq) agentID grant operation tool payload w)"

lemma post_Inr: "post r = Inr v \<longleftrightarrow> r = PostAnswer 200 (Inr v)"
  by (auto simp: post_def split: post_result.splits sum.splits)

lemma gateAudit_adds:
  "\<exists>e. GW_Audit (gateAudit rid a res op out code c st rs g) = GW_Audit g @ [e] \<and> EV_RequestID e = rid \<and> EV_StatusCode e = code \<and>
     (EV_Decision e = DecisionAllow \<longleftrightarrow> out \<notin> {''pending'', ''denied'', ''unavailable''})"
  "GW_Calls (gateAudit rid a res op out code c st rs g) = GW_Calls g" "GW_Usage (gateAudit rid a res op out code c st rs g) = GW_Usage g"
  by (simp_all add: gateAudit_def Emit_def)


lemma outcome_stop:
  assumes "adds g g1 [] [] []" and "reply_code r = Some code" and "\<not> is_body r" and "out \<in> {''pending'', ''denied'', ''unavailable''}"
  shows "outcome rid Q g (r, gateAudit rid a res op out code c st rs (g1\<lparr>GW_World := w\<rparr>))"
proof -
  obtain e where e: "GW_Audit (gateAudit rid a res op out code c st rs (g1\<lparr>GW_World := w\<rparr>)) = GW_Audit g1 @ [e]" "EV_RequestID e = rid"
    "EV_StatusCode e = code" "EV_Decision e \<noteq> DecisionAllow"
    using gateAudit_adds(1) [of rid a res op out code c st rs "g1\<lparr>GW_World := w\<rparr>"] assms(4) by auto
  then have "adds g (gateAudit rid a res op out code c st rs (g1\<lparr>GW_World := w\<rparr>)) [] [e] []"
    using assms(1) gateAudit_adds(2,3) [of rid a res op out code c st rs "g1\<lparr>GW_World := w\<rparr>"] by (simp add: adds_def)
  moreover have "coherent rid r [] [e] []" using e assms(2,3) by (simp add: coherent_def)
  ultimately show ?thesis unfolding outcome_def fst_conv snd_conv by (intro exI) auto
qed

lemma gateAudit_inside:
  assumes "adds g g1 [] [] []"
  shows "inside rid [] g (gateAudit rid a res op out code c st rs (g1\<lparr>GW_World := w\<rparr>))"
proof -
  obtain e where "GW_Audit (gateAudit rid a res op out code c st rs (g1\<lparr>GW_World := w\<rparr>)) = GW_Audit g1 @ [e]" "EV_RequestID e = rid"
    using gateAudit_adds(1) [of rid a res op out code c st rs "g1\<lparr>GW_World := w\<rparr>"] by auto
  then have "adds g (gateAudit rid a res op out code c st rs (g1\<lparr>GW_World := w\<rparr>)) [] [e] []"
    using assms gateAudit_adds(2,3) [of rid a res op out code c st rs "g1\<lparr>GW_World := w\<rparr>"] by (simp add: adds_def)
  then show ?thesis using \<open>EV_RequestID e = rid\<close> unfolding inside_def by (intro conjI exI) auto
qed

text \<open>The world after the gate: the control plane was asked once, if the grant requires a confirmation.\<close>

definition gate_world :: "('w, 'b) deps \<Rightarrow> http_request \<Rightarrow> string \<Rightarrow> Grant \<Rightarrow> string \<Rightarrow> string \<Rightarrow> string \<Rightarrow> 'w \<Rightarrow> 'w" where
  "gate_world d rq agentID grant operation tool payload w =
     (let argsHash = ArgsHash (D_Sha d) (G_ResourceID grant) operation payload; confID = TrimSpace (RQ_Confirmation rq)
      in if \<not> ConfirmationRequired grant tool then w
         else case D_Confirmation d of None \<Rightarrow> w
              | Some api \<Rightarrow> if confID \<noteq> [] then snd (API_consume api confID argsHash w) else snd (API_check api (G_ResourceID grant) agentID tool argsHash w))"

lemma gateAudit_world [simp]: "GW_World (gateAudit rid a res op out code c st rs g) = GW_World g"
  by (simp add: gateAudit_def Emit_def)

lemma confirmationGate_world:
  "GW_World (snd (confirmationGate (D_Sha d) (D_Confirmation d) (RQ_Confirmation rq) rid agentID grant operation tool payload g1 :: 'r gate \<times> 'w gateway)) =
     gate_world d rq agentID grant operation tool payload (GW_World g1)"
  by (simp add: confirmationGate_def gate_world_def Client_Consume_def Client_Check_def Let_def split: option.split prod.split sum.split)

text \<open>The gate stops the request with one event, or lets it pass.\<close>

lemma gate_cases [consumes 1, case_names open_ stopped passed]:
  assumes "confirmationGate sha client header rid agentID grant operation tool payload g1 = (gt, g2)"
  obtains "\<not> ConfirmationRequired grant tool" "gt = Proceed False" "g2 = g1"
  | r out code c st rs w where "ConfirmationRequired grant tool" "gt = Stop r" "reply_code r = Some code" "\<not> is_body r"
      "out \<in> {''pending'', ''denied'', ''unavailable''}"
      "g2 = gateAudit rid agentID (G_ResourceID grant) operation out code c st rs (g1\<lparr>GW_World := w\<rparr>)"
  | out code c st rs w where "ConfirmationRequired grant tool" "gt = Proceed True"
      "released sha client header agentID grant operation tool payload (GW_World g1)"
      "g2 = gateAudit rid agentID (G_ResourceID grant) operation out code c st rs (g1\<lparr>GW_World := w\<rparr>)"
proof -
  let ?h = "ArgsHash sha (G_ResourceID grant) operation payload"
  let ?A = "gateAudit rid agentID (G_ResourceID grant) operation"
  have un: "reply_code (ReplyError 503 ''confirmation_unavailable'' ''confirmation service unreachable; failing closed'') = Some 503" by simp
  have same: "g1 = g1\<lparr>GW_World := GW_World g1\<rparr>" by simp
  show thesis
  proof (cases "ConfirmationRequired grant tool")
    case False
    then show thesis using assms that(1) by (simp add: confirmationGate_def)
  next
    case req: True
    show thesis
    proof (cases client)
      case None
      have A: "gt = Stop (ReplyError 503 ''confirmation_unavailable'' ''confirmation service unreachable; failing closed'')"
        and B: "g2 = ?A ''unavailable'' 503 [] [] ''confirmation client not configured'' (g1\<lparr>GW_World := GW_World g1\<rparr>)"
        using assms req None by (simp_all add: confirmationGate_def gate_unavailable_def)
      show thesis by (rule that(2) [OF req A un _ _ B]) simp_all
    next
      case (Some api)
      show thesis
      proof (cases "TrimSpace header \<noteq> []")
        case True
        obtain p w where p: "API_consume api (TrimSpace header) ?h (GW_World g1) = (p, w)" by force
        show thesis
        proof (cases "post p")
          case (Inl e)
          then show thesis using assms req Some True p that(2) [OF req _ un, of "''unavailable''" _ _ _ w]
            by (auto simp: confirmationGate_def gate_unavailable_def Client_Consume_def Let_def)
        next
          case (Inr out)
          show thesis
          proof (cases "CS_Allowed out")
            case True
            have "released sha client header agentID grant operation tool payload (GW_World g1)"
              using Some \<open>TrimSpace header \<noteq> []\<close> p Inr True unfolding released_def post_Inr by auto
            then show thesis using assms req Some \<open>TrimSpace header \<noteq> []\<close> p Inr True that(3) [OF req]
              by (auto simp: confirmationGate_def Client_Consume_def Let_def)
          next
            case False
            let ?rs = "if CS_Reason out = [] then ''denied_by_owner'' else CS_Reason out"
            have A: "gt = Stop (ReplyMap 403 [(''error'', ''confirmation_denied''), (''reason'', confirmationDenialCode ?rs), (''message'', ?rs)])"
              and B: "g2 = ?A ''denied'' 403 (TrimSpace header) (CS_MatchedStandingGrantID out) ?rs (g1\<lparr>GW_World := w\<rparr>)"
              using False assms req Some \<open>TrimSpace header \<noteq> []\<close> p Inr by (auto simp: confirmationGate_def Client_Consume_def Let_def)
            show thesis by (rule that(2) [OF req A _ _ _ B]) simp_all
          qed
        qed
      next
        case False
        obtain p w where p: "API_check api (G_ResourceID grant) agentID tool ?h (GW_World g1) = (p, w)" by force
        obtain r where r: "Client_Check api (G_ResourceID grant) agentID tool ?h (GW_World g1) = (r, w)"
          using p by (simp add: Client_Check_def)
        show thesis
        proof (cases r)
          case (Inl e)
          then show thesis using assms req Some False r that(2) [OF req _ un, of "''unavailable''" _ _ _ w]
            by (auto simp: confirmationGate_def gate_unavailable_def Let_def)
        next
          case (Inr out)
          have po: "p = PostAnswer 200 (Inr out)"
            using r p Inr by (auto simp: Client_Check_def post_Inr split: sum.splits if_splits)
          consider "CK_Mode out = ''auto''" | "CK_Mode out = ''pending''" | "CK_Mode out \<noteq> ''auto''" "CK_Mode out \<noteq> ''pending''" by blast
          then show thesis
          proof cases
            case 1
            have "released sha client header agentID grant operation tool payload (GW_World g1)"
              using Some False p po 1 unfolding released_def by auto
            then show thesis using assms req Some False r Inr 1 that(3) [OF req] by (auto simp: confirmationGate_def Let_def)
          next
            case 2
            have A: "gt = Stop (ReplyMap 202 [(''error'', ''pending_confirmation''), (''confirmation_id'', CK_ConfirmationID out),
                (''hint'', pendingConfirmationHint)])"
              and B: "g2 = ?A ''pending'' 202 (CK_ConfirmationID out) [] [] (g1\<lparr>GW_World := w\<rparr>)"
              using 2 assms req Some False r Inr by (auto simp: confirmationGate_def Let_def)
            show thesis by (rule that(2) [OF req A _ _ _ B]) simp_all
          next
            case 3
            then show thesis using assms req Some False r Inr that(2) [OF req _ un, of "''unavailable''" _ _ _ w]
              by (auto simp: confirmationGate_def gate_unavailable_def Let_def)
          qed
        qed
      qed
    qed
  qed
qed

lemma gate_rule:
  assumes clean: "adds g g1 [] [] []"
    and k: "\<And>satisfied g2. passes_gate d rq (CX_AgentID cx) grant (CX_Operation cx) tool payload (GW_World g1) satisfied \<Longrightarrow>
      inside (RQ_ID rq) [] g g2 \<Longrightarrow> GW_World g2 = gate_world d rq (CX_AgentID cx) grant (CX_Operation cx) tool payload (GW_World g1) \<Longrightarrow>
      outcome (RQ_ID rq) Q g (k satisfied g2)"
  shows "outcome (RQ_ID rq) Q g (gate_then d rq cx grant tool payload k g1)"
proof -
  obtain gt g2 where e: "confirmationGate (D_Sha d) (D_Confirmation d) (RQ_Confirmation rq) (RQ_ID rq) (CX_AgentID cx) grant (CX_Operation cx)
      tool payload g1 = (gt :: 'b gate, g2)" by force
  have w: "GW_World g2 = gate_world d rq (CX_AgentID cx) grant (CX_Operation cx) tool payload (GW_World g1)"
    using confirmationGate_world [where 'r = 'b, of d rq "RQ_ID rq" "CX_AgentID cx" grant "CX_Operation cx" tool payload g1] e by simp
  from e show ?thesis
  proof (cases rule: gate_cases)
    case open_
    then have "passes_gate d rq (CX_AgentID cx) grant (CX_Operation cx) tool payload (GW_World g1) False" by (simp add: passes_gate_def)
    from k [OF this inside_clean [OF clean]] show ?thesis using e w open_ by (simp add: gate_then_def)
  next
    case (stopped r out code c st rs w)
    show ?thesis using e stopped outcome_stop [OF clean stopped(3,4,5)] by (simp add: gate_then_def)
  next
    case (passed out code c st rs w)
    then have "passes_gate d rq (CX_AgentID cx) grant (CX_Operation cx) tool payload (GW_World g1) True" by (simp add: passes_gate_def)
    from k [OF this gateAudit_inside [OF clean]] show ?thesis using e w passed by (simp add: gate_then_def)
  qed
qed

text \<open>After the driver has been called.\<close>

lemma inside_call:
  "inside rid [] g g1 \<Longrightarrow> inside rid [c] g (g1\<lparr>GW_World := w, GW_Calls := GW_Calls g1 @ [c]\<rparr>)"
  by (auto simp: inside_def adds_def)

text \<open>The report of an answered call.\<close>

definition reports :: "('w, 'b) deps \<Rightarrow> drv_Request \<Rightarrow> usage_Report list" where
  "reports d req = (case DR_Grant req of None \<Rightarrow> []
     | Some grant \<Rightarrow> if \<not> D_Usage d \<or> G_ResourceID grant = [] then []
         else [\<lparr>UR_AgentID = PR_AgentID (DR_Agent req), UR_ResourceID = G_ResourceID grant, UR_ResourceType = G_ResourceType grant, UR_Count = 1\<rparr>])"

lemma reports_billed: "reports d req = [] \<or> (\<exists>u. reports d req = [u] \<and> billed (name, satisfied, req) u)"
  by (auto simp: reports_def billed_def split: option.split)

lemma reportUsage_reports:
  assumes "DR_Grant req = Some grant" and "PR_AgentID (DR_Agent req) = a"
  shows "reportUsage d a grant (emit cx dec code detail g) = (emit cx dec code detail g)\<lparr>GW_Usage := GW_Usage g @ reports d req\<rparr>"
  using assms by (auto simp: reportUsage_def reports_def emit_def Emit_def)

lemma dispatch_rule:
  assumes ins: "inside rid [] g g1" and rid: "CX_RequestID cx = rid" and grant: "DR_Grant req = Some grant"
    and agent: "PR_AgentID (DR_Agent req) = CX_AgentID cx"
    and answered: "\<And>drv status b. D_Drivers d name = Some drv \<Longrightarrow> fst (drv satisfied req (GW_World g1)) = Inr (status, b) \<Longrightarrow>
      Q (name, satisfied, req) (ReplyBody (if status = 0 then 200 else status) b) DecisionAllow (if status = 0 then 200 else status) (reports d req)"
    and failed: "\<And>drv e g2. D_Drivers d name = Some drv \<Longrightarrow> fst (drv satisfied req (GW_World g1)) = Inl e \<Longrightarrow>
      inside rid [(name, satisfied, req)] g g2 \<Longrightarrow> outcome rid Q g (failed e g2)"
  shows "outcome rid Q g (dispatch d cx name satisfied req grant failed g1)"
proof (cases "D_Drivers d name")
  case None
  then show ?thesis unfolding dispatch_def using ins rid by (auto intro: outcome_refuse)
next
  case (Some drv)
  obtain r w where r: "drv satisfied req (GW_World g1) = (r, w)" by force
  let ?g2 = "g1\<lparr>GW_World := w, GW_Calls := GW_Calls g1 @ [(name, satisfied, req)]\<rparr>"
  have ins2: "inside rid [(name, satisfied, req)] g ?g2" using inside_call [OF ins] .
  show ?thesis
  proof (cases r)
    case (Inl e)
    then show ?thesis using Some r failed [OF Some _ ins2] by (simp add: dispatch_def call_driver_def)
  next
    case (Inr sb)
    obtain st b where sb: "sb = (st, b)" by force
    let ?code = "if st = 0 then 200 else st"
    have Q: "Q (name, satisfied, req) (ReplyBody ?code b) DecisionAllow ?code (reports d req)" using answered [OF Some] r Inr sb by simp
    have "outcome rid Q g (ReplyBody ?code b, reportUsage d (CX_AgentID cx) grant (emit cx DecisionAllow ?code [] ?g2))"
      by (rule outcome_allow [where Q = Q, OF ins2 rid Q _ reports_billed reportUsage_reports [OF grant agent]]) simp
    then show ?thesis using Some r Inr sb by (simp add: dispatch_def call_driver_def Let_def)
  qed
qed

lemma governed_failure_rule:
  "inside rid [c] g g2 \<Longrightarrow> CX_RequestID cx = rid \<Longrightarrow> refusing Q c \<Longrightarrow> outcome rid Q g (governed_failure cx bad kind msg e g2)"
  unfolding governed_failure_def by (auto split: drv_error.split intro!: outcome_refuse)

lemma mcp_failure_rule:
  "inside rid [c] g g2 \<Longrightarrow> CX_RequestID cx = rid \<Longrightarrow> refusing Q c \<Longrightarrow> outcome rid Q g (mcp_failure cx e g2)"
  unfolding mcp_failure_def by (auto split: drv_error.split intro!: outcome_refuse)

lemma ssh_failure_rule:
  "inside rid [c] g g2 \<Longrightarrow> CX_RequestID cx = rid \<Longrightarrow> refusing Q c \<Longrightarrow> outcome rid Q g (ssh_failure cx e g2)"
  unfolding ssh_failure_def Let_def by (auto simp: refusing_def split: drv_error.split intro!: outcome_refuse outcome_emit)

text \<open>How a git call ends. A stream that completes is allowed with the status the driver relayed; one that is denied or
  malformed is answered by an envelope; any other failure is audited as 502, also when bytes with another status are
  already on the wire, and only then is there no envelope.\<close>

definition git_settled :: "('w, 'b) deps \<Rightarrow> drv_Request \<Rightarrow> stream_answer \<Rightarrow> 'b reply \<Rightarrow> string \<Rightarrow> int \<Rightarrow> usage_Report list \<Rightarrow> bool" where
  "git_settled d req ans r dec code us \<longleftrightarrow>
     (case ans of
        StreamOK s \<Rightarrow> r = ReplyStreamed \<and> dec = DecisionAllow \<and> code = SR_StatusCode s \<and> us = reports d req
      | StreamFailed result e wrote \<Rightarrow> us = [] \<and>
          (if \<exists>reason. e = Denied reason then dec = DecisionDeny \<and> code = 403 \<and> reply_code r = Some 403
           else if HasPrefix (err_text e) ''bad_request'' then dec = DecisionDeny \<and> code = 400 \<and> reply_code r = Some 400
           else dec = DecisionError \<and> code = 502 \<and> (if wrote then r = ReplyStreamed else reply_code r = Some 502)))"

lemma git_finish_rule:
  fixes d :: "('w, 'b) deps" and Q :: "call \<Rightarrow> 'b reply \<Rightarrow> string \<Rightarrow> int \<Rightarrow> usage_Report list \<Rightarrow> bool"
  assumes ins: "inside rid [(name, satisfied, req)] g g2" and rid: "CX_RequestID cx = rid" and grant: "DR_Grant req = Some grant"
    and agent: "PR_AgentID (DR_Agent req) = CX_AgentID cx"
    and Q: "\<And>r dec code us. git_settled d req ans r dec code us \<Longrightarrow> Q (name, satisfied, req) r dec code us"
  shows "outcome rid Q g (git_finish d cx grant ans g2)"
proof (cases ans)
  case (StreamOK s)
  let ?cx = "cx\<lparr>CX_Operation := git_operation (Some s)\<rparr>"
  have q: "Q (name, satisfied, req) ReplyStreamed DecisionAllow (SR_StatusCode s) (reports d req)"
    using StreamOK by (intro Q) (simp add: git_settled_def)
  have "outcome rid Q g (ReplyStreamed, reportUsage d (CX_AgentID cx) grant
      (emit ?cx DecisionAllow (SR_StatusCode s) (gitAuditDetail (Some s) []) g2))"
    by (rule outcome_allow [where Q = Q, OF ins _ q _ reports_billed reportUsage_reports [OF grant agent]]) (simp_all add: rid)
  then show ?thesis using StreamOK by (simp add: git_finish_def)
next
  case (StreamFailed result e wrote)
  have q: "Q (name, satisfied, req) r dec code []" if "git_settled d req (StreamFailed result e wrote) r dec code []" for r dec code
    using Q StreamFailed that by blast
  show ?thesis
    unfolding git_finish_def StreamFailed stream_answer.case Let_def refuse_def
    using rid ins by (auto split: drv_error.split intro!: outcome_emit q simp: git_settled_def)
qed

section \<open>What a driver call rests on\<close>

definition identity :: "route \<Rightarrow> http_request \<Rightarrow> string \<times> string" where
  "identity route rq = (if route = GitProxy then gitProxyCredentials (RQ_AgentHeader rq) (RQ_Authorization rq) else (RQ_AgentHeader rq, RQ_Authorization rq))"

fun kind_of :: "route \<Rightarrow> string" where
  "kind_of WebFetch = ''web''"
| "kind_of RestCall = ''rest''"
| "kind_of MCPCall = ''mcp''"
| "kind_of SSHCall = ''ssh''"
| "kind_of GitProxy = ''git''"
| "kind_of _ = []"

text \<open>The tool the gate asks about, and the bytes it binds: for git the path, otherwise the body.\<close>

definition gate_tool :: "route \<Rightarrow> http_request \<Rightarrow> string" where
  "gate_tool route rq =
     (case route of WebFetch \<Rightarrow> ''fetch'' | RestCall \<Rightarrow> ''rest_call'' | GitProxy \<Rightarrow> ''git''
      | MCPCall \<Rightarrow> (case RQ_Body rq of None \<Rightarrow> ''mcp_call''
          | Some body \<Rightarrow> (case body_tool body of None \<Rightarrow> ''mcp_call'' | Some t \<Rightarrow> if t = [] then ''mcp_call'' else t))
      | _ \<Rightarrow> [])"

definition gate_payload :: "route \<Rightarrow> http_request \<Rightarrow> string" where
  "gate_payload route rq = (if route = GitProxy then RQ_Trailing rq else case RQ_Body rq of None \<Rightarrow> [] | Some body \<Rightarrow> BO_Bytes body)"

text \<open>The grant a call is made under: on the web route the first web grant of the snapshot (that route addresses no
  resource), otherwise the first one of the route's kind for the resource the path names.\<close>

definition picked :: "route \<Rightarrow> http_request \<Rightarrow> Snapshot \<Rightarrow> Grant \<Rightarrow> bool" where
  "picked route rq snap grant \<longleftrightarrow>
     (if route = WebFetch then find (\<lambda>g. G_ResourceType g = ''web'') (SN_Grants snap) = Some grant
      else find (\<lambda>g. G_ResourceType g = kind_of route \<and> G_ResourceID g = TrimSpace (RQ_ResourceID rq)) (SN_Grants snap) = Some grant)"

text \<open>What stands between the grant and the driver: the confirmation gate, except on the ssh route, which only checks the
  tool name and hands the confirmation id to the driver (\<^verbatim>\<open>sshroute.go\<close>: the ssh driver has a gate of its own).\<close>

definition granted :: "('w, 'b) deps \<Rightarrow> route \<Rightarrow> http_request \<Rightarrow> 'w \<Rightarrow> bool \<Rightarrow> drv_Request \<Rightarrow> Grant \<Rightarrow> bool" where
  "granted d route rq w satisfied req grant \<longleftrightarrow>
     DR_Grant req = Some grant \<and> picked route rq (PR_Snapshot (DR_Agent req)) grant \<and> DR_Resource req = G_ResourceID grant \<and>
     (if route = SSHCall then \<not> satisfied \<and> DR_Operation req \<in> set sshToolFamily \<and> DR_ConfirmationID req = TrimSpace (RQ_Confirmation rq)
      else passes_gate d rq (PR_AgentID (DR_Agent req)) grant (DR_Operation req) (gate_tool route rq) (gate_payload route rq) w satisfied)"

definition call_ok :: "('w, 'b) deps \<Rightarrow> route \<Rightarrow> http_request \<Rightarrow> 'w gateway \<Rightarrow> call \<Rightarrow> bool" where
  "call_ok d route rq g c \<longleftrightarrow> (case c of (name, satisfied, req) \<Rightarrow>
     D_Enabled d \<noteq> Some False \<and> authentic d rq (fst (identity route rq)) (snd (identity route rq)) (GW_Policy g) (DR_Agent req) \<and>
     (route \<noteq> GitProxy \<longrightarrow> (\<exists>body. RQ_Body rq = Some body \<and> DR_Payload req = BO_Bytes body \<and> int (length (BO_Bytes body)) \<le> D_MaxBodyBytes d)) \<and>
     (if route = Echo then name = ''echo'' \<and> DR_Grant req = None \<and> \<not> satisfied
      else \<exists>grant. granted d route rq (GW_World g) satisfied req grant))"

text \<open>How a call ends: the world the driver was called in, its answer there, and what the gateway makes of it.\<close>

definition call_world :: "('w, 'b) deps \<Rightarrow> route \<Rightarrow> http_request \<Rightarrow> drv_Request \<Rightarrow> 'w \<Rightarrow> 'w" where
  "call_world d route rq req w =
     (if route = SSHCall then w
      else case DR_Grant req of None \<Rightarrow> w
           | Some grant \<Rightarrow> gate_world d rq (PR_AgentID (DR_Agent req)) grant (DR_Operation req) (gate_tool route rq) (gate_payload route rq) w)"

definition settled :: "('w, 'b) deps \<Rightarrow> route \<Rightarrow> http_request \<Rightarrow> 'w gateway \<Rightarrow> call \<Rightarrow> 'b reply \<Rightarrow> string \<Rightarrow> int \<Rightarrow> usage_Report list \<Rightarrow> bool" where
  "settled d route rq g c r dec code us \<longleftrightarrow> (case c of (name, satisfied, req) \<Rightarrow>
     if route = GitProxy
     then \<exists>drv. D_StreamDrivers d ''git'' = Some drv \<and>
            git_settled d req (fst (drv satisfied req (call_world d route rq req (GW_World g)))) r dec code us
     else \<exists>drv. D_Drivers d name = Some drv \<and>
            (case fst (drv satisfied req (call_world d route rq req (GW_World g))) of
               Inl e \<Rightarrow> dec \<noteq> DecisionAllow \<and> \<not> is_body r \<and> us = []
             | Inr (status, out) \<Rightarrow> dec = DecisionAllow \<and> code = (if status = 0 then 200 else status) \<and> r = ReplyBody code out \<and> us = reports d req))"

definition call_done :: "('w, 'b) deps \<Rightarrow> route \<Rightarrow> http_request \<Rightarrow> 'w gateway \<Rightarrow> call \<Rightarrow> 'b reply \<Rightarrow> string \<Rightarrow> int \<Rightarrow> usage_Report list \<Rightarrow> bool" where
  "call_done d route rq g c r dec code us \<longleftrightarrow> call_ok d route rq g c \<and> settled d route rq g c r dec code us"

lemma refusing_done:
  assumes "call_ok d route rq g (name, satisfied, req)" and "route \<noteq> GitProxy" and "D_Drivers d name = Some drv"
    and "fst (drv satisfied req (call_world d route rq req (GW_World g))) = Inl e"
  shows "refusing (call_done d route rq g) (name, satisfied, req)"
  using assms by (auto simp: refusing_def call_done_def settled_def)

lemma answered_done:
  assumes "call_ok d route rq g (name, satisfied, req)" and "route \<noteq> GitProxy" and "D_Drivers d name = Some drv"
    and "fst (drv satisfied req (call_world d route rq req (GW_World g))) = Inr (status, b)"
  shows "call_done d route rq g (name, satisfied, req) (ReplyBody (if status = 0 then 200 else status) b) DecisionAllow
    (if status = 0 then 200 else status) (reports d req)"
  using assms by (auto simp: call_done_def settled_def)

lemma clean_policy [simp]: "adds g (g\<lparr>GW_Policy := pc\<rparr>) [] [] []"
  by (simp add: adds_def)

lemma ctx_simps [simp]:
  "CX_RequestID (open_ctx rq res op) = RQ_ID rq" "CX_Operation (open_ctx rq res op) = op"
  by (simp_all add: open_ctx_def)

lemma driver_request_simps [simp]:
  "DR_Agent (driver_request rq caller op p grant) = caller" "DR_Resource (driver_request rq caller op p grant) = G_ResourceID grant"
  "DR_Operation (driver_request rq caller op p grant) = op" "DR_Payload (driver_request rq caller op p grant) = p"
  "DR_Grant (driver_request rq caller op p grant) = Some grant"
  by (simp_all add: driver_request_def)

section \<open>The handlers\<close>

lemma echo_outcome: "outcome (RQ_ID rq) (call_done d Echo rq g) g (handleEcho d rq g)"
proof -
  have "outcome (RQ_ID rq) (call_done d Echo rq g) g
      (case D_Drivers d ''echo'' of
             None \<Rightarrow> refuse cx DecisionError 404 ''no driver'' ''not_found'' ''no driver registered'' g1
           | Some drv \<Rightarrow>
               (case call_driver drv ''echo'' False \<lparr>DR_Agent = caller, DR_Resource = ''echo'', DR_Operation = ''echo'', DR_Payload = BO_Bytes body,
                       DR_Grant = None, DR_Path = [], DR_ConfirmationID = []\<rparr> g1 of
                  (Inl e, g2) \<Rightarrow> refuse cx DecisionError 502 (err_text e) ''driver_error'' ''driver failed'' g2
                | (Inr (status, out), g2) \<Rightarrow>
                    let code = (if status = 0 then 200 else status) in (ReplyBody code out, emit cx DecisionAllow code [] g2)))"
    if en: "D_Enabled d \<noteq> Some False" and au: "authentic d rq (RQ_AgentHeader rq) (RQ_Authorization rq) (GW_Policy g) caller"
      and bd: "RQ_Body rq = Some body" "int (length (BO_Bytes body)) \<le> D_MaxBodyBytes d" and cl: "adds g g1 [] [] []" and world: "GW_World g1 = GW_World g" and cx: "CX_RequestID cx = RQ_ID rq"
    for caller body g1 cx
  proof (cases "D_Drivers d ''echo''")
    case None
    then show ?thesis using cx cl by (auto intro!: outcome_refuse inside_clean)
  next
    case (Some drv)
    let ?req = "\<lparr>DR_Agent = caller, DR_Resource = ''echo'', DR_Operation = ''echo'', DR_Payload = BO_Bytes body,
                       DR_Grant = None, DR_Path = [], DR_ConfirmationID = []\<rparr>"
    obtain r w where r: "drv False ?req (GW_World g1) = (r, w)" by force
    let ?g2 = "g1\<lparr>GW_World := w, GW_Calls := GW_Calls g1 @ [(''echo'', False, ?req)]\<rparr>"
    have ins: "inside (RQ_ID rq) [(''echo'', False, ?req)] g ?g2" using inside_call [OF inside_clean [OF cl]] .
    have ok: "call_ok d Echo rq g (''echo'', False, ?req)" using en au bd by (auto simp: call_ok_def identity_def)
    have w: "call_world d Echo rq ?req (GW_World g) = GW_World g1" using world by (simp add: call_world_def)
    show ?thesis
    proof (cases r)
      case (Inl e)
      have "refusing (call_done d Echo rq g) (''echo'', False, ?req)" by (rule refusing_done [OF ok _ Some]) (simp_all add: w r Inl)
      then show ?thesis using Some r Inl by (auto simp: call_driver_def intro!: outcome_refuse [OF ins cx])
    next
      case (Inr sb)
      obtain st b where sb: "sb = (st, b)" by force
      have rep: "reports d ?req = []" by (simp add: reports_def)
      have dn: "call_done d Echo rq g (''echo'', False, ?req) (ReplyBody (if st = 0 then 200 else st) b) DecisionAllow (if st = 0 then 200 else st) []"
        unfolding rep [symmetric] by (rule answered_done [OF ok _ Some]) (simp_all add: w r Inr sb)
      have "outcome (RQ_ID rq) (call_done d Echo rq g) g (ReplyBody (if st = 0 then 200 else st) b, emit cx DecisionAllow (if st = 0 then 200 else st) [] ?g2)"
        by (rule outcome_allow [where us = "[]" and Q = "call_done d Echo rq g", OF ins cx dn]) (simp_all add: emit_def Emit_def)
      then show ?thesis using Some r Inr sb by (simp add: call_driver_def Let_def)
    qed
  qed
  then show ?thesis unfolding handleEcho_def Let_def
    by (intro kill_switch_rule authn_rule read_body_rule) simp_all
qed

lemma done_dispatch:
  assumes ok: "call_ok d route rq g (name, satisfied, req)" and ng: "route \<noteq> GitProxy" and ins: "inside (RQ_ID rq) [] g g1"
    and w: "call_world d route rq req (GW_World g) = GW_World g1" and cx: "CX_RequestID cx = RQ_ID rq" "PR_AgentID (DR_Agent req) = CX_AgentID cx"
    and grant: "DR_Grant req = Some grant"
    and failed: "\<And>e g2. inside (RQ_ID rq) [(name, satisfied, req)] g g2 \<Longrightarrow> refusing (call_done d route rq g) (name, satisfied, req) \<Longrightarrow>
      outcome (RQ_ID rq) (call_done d route rq g) g (failed e g2)"
  shows "outcome (RQ_ID rq) (call_done d route rq g) g (dispatch d cx name satisfied req grant failed g1)"
proof (rule dispatch_rule [OF ins cx(1) grant cx(2)])
  show "call_done d route rq g (name, satisfied, req) (ReplyBody (if status = 0 then 200 else status) b) DecisionAllow
      (if status = 0 then 200 else status) (reports d req)"
    if "D_Drivers d name = Some drv" and "fst (drv satisfied req (GW_World g1)) = Inr (status, b)" for drv status b
    using answered_done [OF ok ng that(1)] that(2) w by simp
  show "outcome (RQ_ID rq) (call_done d route rq g) g (failed e g2)"
    if "D_Drivers d name = Some drv" and "fst (drv satisfied req (GW_World g1)) = Inl e" and "inside (RQ_ID rq) [(name, satisfied, req)] g g2"
    for drv e g2
    using failed [OF that(3)] refusing_done [OF ok ng that(1)] that(2) w by simp
qed

lemma gated_dispatch:
  assumes cx: "CX_RequestID cx = RQ_ID rq" "CX_AgentID cx = PR_AgentID caller" "CX_Operation cx = op"
    and en: "D_Enabled d \<noteq> Some False" and au: "authentic d rq (RQ_AgentHeader rq) (RQ_Authorization rq) (GW_Policy g) caller"
    and bd: "RQ_Body rq = Some body" "int (length (BO_Bytes body)) \<le> D_MaxBodyBytes d"
    and gr: "picked route rq (PR_Snapshot caller) grant"
    and route: "route \<in> {WebFetch, RestCall, MCPCall}" and tool: "tool = gate_tool route rq"
    and failed: "\<And>c e g2. inside (RQ_ID rq) [c] g g2 \<Longrightarrow> refusing (call_done d route rq g) c \<Longrightarrow> outcome (RQ_ID rq) (call_done d route rq g) g (failed e g2)"
  shows "outcome (RQ_ID rq) (call_done d route rq g) g (gate_then d rq cx grant tool (BO_Bytes body) (\<lambda>satisfied.
    dispatch d cx name satisfied (driver_request rq caller op (BO_Bytes body) grant) grant failed) (g\<lparr>GW_Policy := pc\<rparr>))"
proof (rule gate_rule [OF clean_policy])
  fix satisfied g2
  let ?req = "driver_request rq caller op (BO_Bytes body) grant"
  assume ins: "inside (RQ_ID rq) [] g g2"
    and w: "GW_World g2 = gate_world d rq (CX_AgentID cx) grant (CX_Operation cx) tool (BO_Bytes body) (GW_World (g\<lparr>GW_Policy := pc\<rparr>))"
    and "passes_gate d rq (CX_AgentID cx) grant (CX_Operation cx) tool (BO_Bytes body) (GW_World (g\<lparr>GW_Policy := pc\<rparr>)) satisfied"
  then have ok: "call_ok d route rq g (name, satisfied, ?req)"
    using cx en au bd gr route tool by (auto simp: call_ok_def identity_def granted_def gate_payload_def)
  have w: "call_world d route rq ?req (GW_World g) = GW_World g2" using w cx bd route tool by (auto simp: call_world_def gate_payload_def)
  have ng: "route \<noteq> GitProxy" using route by auto
  show "outcome (RQ_ID rq) (call_done d route rq g) g
      (dispatch d cx name satisfied (driver_request rq caller op (BO_Bytes body) grant) grant failed g2)"
    by (rule done_dispatch [OF ok ng ins w]) (use cx failed in simp_all)
qed

lemma web_outcome: "outcome (RQ_ID rq) (call_done d WebFetch rq g) g (handleWebFetch d rq g)"
  unfolding handleWebFetch_def Let_def
  by (intro kill_switch_rule authn_rule read_body_rule)
    (auto split: option.split simp: picked_def find_grant_def gate_tool_def intro!: outcome_refuse inside_clean gated_dispatch governed_failure_rule)

lemma rest_outcome: "outcome (RQ_ID rq) (call_done d RestCall rq g) g (handleRestCall d rq g)"
proof (cases "bad_resource_id (TrimSpace (RQ_ResourceID rq))")
  case True
  then show ?thesis unfolding handleRestCall_def Let_def by (auto intro!: outcome_refuse inside_refl)
next
  case False
  then show ?thesis unfolding handleRestCall_def Let_def if_not_P [OF False]
    by (intro kill_switch_rule authn_rule read_body_rule)
      (auto split: option.split simp: picked_def find_grant_def gate_tool_def intro!: outcome_refuse inside_clean gated_dispatch governed_failure_rule)
qed

lemma mcp_outcome: "outcome (RQ_ID rq) (call_done d MCPCall rq g) g (handleMCPCall d rq g)"
proof (cases "bad_resource_id (TrimSpace (RQ_ResourceID rq))")
  case True
  then show ?thesis unfolding handleMCPCall_def Let_def by (auto intro!: outcome_refuse inside_refl)
next
  case False
  show ?thesis unfolding handleMCPCall_def Let_def if_not_P [OF False]
    by (intro kill_switch_rule authn_rule read_body_rule)
      (auto split: option.split simp: picked_def find_grant_def gate_tool_def intro!: outcome_refuse inside_clean gated_dispatch mcp_failure_rule)
qed

lemma ssh_outcome: "outcome (RQ_ID rq) (call_done d SSHCall rq g) g (handleSSHCall d rq g)"
proof (cases "bad_resource_id (TrimSpace (RQ_ResourceID rq))")
  case True
  then show ?thesis unfolding handleSSHCall_def Let_def by (auto intro!: outcome_refuse inside_refl)
next
  case False
  have "outcome (RQ_ID rq) (call_done d SSHCall rq g) g
      (dispatch d cx ''ssh'' False (driver_request rq caller tool (BO_Bytes body) grant) grant (ssh_failure cx) (g\<lparr>GW_Policy := pc\<rparr>))"
    if "D_Enabled d \<noteq> Some False" and "authentic d rq (RQ_AgentHeader rq) (RQ_Authorization rq) (GW_Policy g) caller"
      and "RQ_Body rq = Some body" and "int (length (BO_Bytes body)) \<le> D_MaxBodyBytes d"
      and "find_grant ''ssh'' (TrimSpace (RQ_ResourceID rq)) (PR_Snapshot caller) = Some grant"
      and cx: "CX_RequestID cx = RQ_ID rq" "CX_AgentID cx = PR_AgentID caller" and tool: "tool \<in> set sshToolFamily" for caller body grant pc cx tool
  proof -
    let ?req = "driver_request rq caller tool (BO_Bytes body) grant"
    have ok: "call_ok d SSHCall rq g (''ssh'', False, ?req)"
      using that(1-5) tool by (auto simp: call_ok_def identity_def granted_def picked_def find_grant_def driver_request_def)
    have w: "call_world d SSHCall rq ?req (GW_World g) = GW_World (g\<lparr>GW_Policy := pc\<rparr>)" by (simp add: call_world_def)
    show ?thesis by (rule done_dispatch [OF ok _ inside_clean [OF clean_policy] w]) (use cx in \<open>simp_all add: ssh_failure_rule\<close>)
  qed
  then show ?thesis unfolding handleSSHCall_def Let_def if_not_P [OF False]
    by (intro kill_switch_rule authn_rule read_body_rule)
      (auto split: option.split simp: Let_def intro!: outcome_refuse inside_clean)
qed

lemma git_outcome: "outcome (RQ_ID rq) (call_done d GitProxy rq g) g (handleGitProxy d rq g)"
proof -
  obtain ga gh where cred: "gitProxyCredentials (RQ_AgentHeader rq) (RQ_Authorization rq) = (ga, gh)" by force
  show ?thesis
  proof (cases "bad_resource_id (TrimSpace (RQ_ResourceID rq))")
    case True
    then show ?thesis unfolding handleGitProxy_def Let_def cred by (auto intro!: outcome_refuse inside_refl)
  next
    case False
    let ?req = "\<lambda>caller grant. \<lparr>DR_Agent = caller, DR_Resource = G_ResourceID grant, DR_Operation = ''git'', DR_Payload = [],
                                  DR_Grant = Some grant, DR_Path = RQ_Trailing rq, DR_ConfirmationID = []\<rparr>"
    have "outcome (RQ_ID rq) (call_done d GitProxy rq g) g
        (case drv satisfied (?req caller grant) (GW_World g2) of (ans, w) \<Rightarrow>
           git_finish d cx grant ans (g2\<lparr>GW_World := w, GW_Calls := GW_Calls g2 @ [(''git'', satisfied, ?req caller grant)]\<rparr>))"
      if "D_Enabled d \<noteq> Some False" and "authentic d rq ga gh (GW_Policy g) caller"
        and fg: "find_grant ''git'' (TrimSpace (RQ_ResourceID rq)) (PR_Snapshot caller) = Some grant"
        and pg: "passes_gate d rq (PR_AgentID caller) grant ''git'' ''git'' (RQ_Trailing rq) (GW_World g) satisfied"
        and ins: "inside (RQ_ID rq) [] g g2" and cx: "CX_RequestID cx = RQ_ID rq" "CX_AgentID cx = PR_AgentID caller"
        and w: "GW_World g2 = gate_world d rq (PR_AgentID caller) grant ''git'' ''git'' (RQ_Trailing rq) (GW_World g)"
        and drv: "D_StreamDrivers d ''git'' = Some drv"
      for caller grant satisfied g2 cx drv
    proof -
      have ok: "call_ok d GitProxy rq g (''git'', satisfied, ?req caller grant)"
        using that(1,2) fg pg by (auto simp: call_ok_def identity_def granted_def picked_def find_grant_def cred gate_tool_def gate_payload_def)
      have cw: "call_world d GitProxy rq (?req caller grant) (GW_World g) = GW_World g2" using w by (simp add: call_world_def gate_tool_def gate_payload_def)
      obtain ans w' where ans: "drv satisfied (?req caller grant) (GW_World g2) = (ans, w')" by force
      have "call_done d GitProxy rq g (''git'', satisfied, ?req caller grant) r dec code us" if "git_settled d (?req caller grant) ans r dec code us" for r dec code us
        using ok drv cw ans that by (simp add: call_done_def settled_def)
      then show ?thesis unfolding ans prod.case using cx by (intro git_finish_rule [OF inside_call [OF ins]]) auto
    qed
    then show ?thesis unfolding handleGitProxy_def Let_def cred prod.case if_not_P [OF False]
      by (intro kill_switch_rule authn_rule)
        (auto split: option.split intro!: outcome_refuse inside_clean gate_rule)
  qed
qed

definition agent_route :: "route \<Rightarrow> bool" where
  "agent_route route \<longleftrightarrow> route \<in> {Echo, WebFetch, RestCall, MCPCall, SSHCall, GitProxy}"

lemma serve_outcome: "agent_route route \<Longrightarrow> outcome (RQ_ID rq) (call_done d route rq g) g (ServeHTTP d route rq g)"
  by (auto simp: agent_route_def ServeHTTP_def echo_outcome web_outcome rest_outcome mcp_outcome ssh_outcome git_outcome)

lemma other_routes_call_nothing: "\<not> agent_route route \<Longrightarrow> GW_Calls (snd (ServeHTTP d route rq g)) = GW_Calls g"
  by (cases route) (auto simp: agent_route_def ServeHTTP_def handleMCPEnumerate_def kill_switch_def read_body_def refuse_def emit_def Emit_def Let_def
      split: option.split sum.split prod.split)

section \<open>Properties of a request\<close>



text \<open>A sample request to a gated REST resource, under a standing grant or with a confirmation.\<close>

definition demo_deps :: "'w confirmation_api \<Rightarrow> ('w, unit) deps" where
  "demo_deps api = \<lparr>D_Sha = (\<lambda>s. s), D_Endpoint = demo_endpoint, D_PolicyClient = True, D_Fence = True, D_Verifier = ''k8s'', D_Enabled = Some True,
     D_Drivers = (\<lambda>n. if n = ''rest'' then Some (\<lambda>sat req w. (Inr (0, ()), w)) else None), D_StreamDrivers = (\<lambda>n. None), D_MaxBodyBytes = 100,
     D_InternalToken = [], D_Confirmation = Some api, D_Usage = True, D_Enumerate = (\<lambda>u t p. Inl [])\<rparr>"

definition demo_rq :: "string \<Rightarrow> http_request" where
  "demo_rq cid = \<lparr>RQ_ID = ''q1'', RQ_Now = 5, RQ_Later = 6, RQ_AgentHeader = ''a'', RQ_Authorization = ''Bearer tok'', RQ_Confirmation = cid,
     RQ_InternalToken = [], RQ_ResourceID = ''r'', RQ_Trailing = [], RQ_Body = Some \<lparr>BO_Bytes = ''x'', BO_Json = RawInvalid, BO_ArgsBytes = 0\<rparr>\<rparr>"

definition demo_gw :: "'w \<Rightarrow> 'w gateway" where
  "demo_gw w = \<lparr>GW_Policy = NewClient 10, GW_Audit = [], GW_Usage = [], GW_Calls = [], GW_World = w\<rparr>"

definition demo_auto :: "unit confirmation_api" where
  "demo_auto = \<lparr>API_check = (\<lambda>rid a t h w. (PostAnswer 200 (Inr \<lparr>CK_Mode = ''auto'', CK_ConfirmationID = [], CK_MatchedStandingGrantID = ''sg''\<rparr>), w)),
     API_consume = (\<lambda>c h w. (PostFailed [], w))\<rparr>"

definition demo_grant :: Grant where
  "demo_grant = hd (SN_Grants demo_snapshot)"

definition demo_caller :: AgentPrincipal where
  "demo_caller = \<lparr>PR_AgentID = ''a'', PR_Snapshot = demo_snapshot\<lparr>SN_FetchedAt := 6\<rparr>\<rparr>"

definition demo_cached :: policy_client where
  "demo_cached = snd (Get demo_endpoint 5 6 ''a'' (NewClient 10))"

lemma demo_authn: "Middleware (\<lambda>s. s) (Get demo_endpoint 5 6) ''a'' ''Bearer tok'' (NewClient 10) = (Inr demo_caller, demo_cached)"
  by code_simp

lemma demo_grant_facts: "find_grant ''rest'' ''r'' (PR_Snapshot demo_caller) = Some demo_grant" "ConfirmationRequired demo_grant ''rest_call''"
  "TrimSpace ''r'' = ''r''" "\<not> bad_resource_id ''r''" "G_ResourceID demo_grant = ''r''"
  by code_simp+

lemma demo_serve:
  assumes "confirmationGate (\<lambda>s. s) (Some api) cid ''q1'' ''a'' demo_grant ''rest_call'' ''rest_call'' ''x'' ((demo_gw w)\<lparr>GW_Policy := demo_cached\<rparr>) =
    (Proceed True :: unit gate, g2)"
  shows "GW_Calls (snd (ServeHTTP (demo_deps api) RestCall (demo_rq cid) (demo_gw w))) =
      GW_Calls g2 @ [(''rest'', True, driver_request (demo_rq cid) demo_caller ''rest_call'' ''x'' demo_grant)]"
    and "length (GW_Audit (snd (ServeHTTP (demo_deps api) RestCall (demo_rq cid) (demo_gw w)))) = Suc (length (GW_Audit g2))"
  using assms
  by (simp_all add: ServeHTTP_def handleRestCall_def kill_switch_def authn_def read_body_def gate_then_def dispatch_def call_driver_def
      demo_deps_def demo_rq_def demo_gw_def demo_authn demo_grant_facts open_ctx_def Let_def demo_caller_def [THEN arg_cong [where f = PR_AgentID]]
      reportUsage_def emit_def Emit_def)

lemma demo_auto_gate:
  "\<exists>g2. confirmationGate (\<lambda>s. s) (Some demo_auto) [] ''q1'' ''a'' demo_grant ''rest_call'' ''rest_call'' ''x'' ((demo_gw ())\<lparr>GW_Policy := demo_cached\<rparr>) =
     (Proceed True :: unit gate, g2) \<and> GW_Calls g2 = [] \<and> length (GW_Audit g2) = 1"
  by (simp add: confirmationGate_def demo_grant_facts Client_Check_def demo_auto_def post_def demo_gw_def gateAudit_def Emit_def TrimSpace_def)

lemma demo_serves:
  "length (GW_Calls (snd (ServeHTTP (demo_deps demo_auto) RestCall (demo_rq []) (demo_gw ())))) = 1"
  "length (GW_Audit (snd (ServeHTTP (demo_deps demo_auto) RestCall (demo_rq []) (demo_gw ())))) = 2"
  using demo_auto_gate demo_serve [where api = demo_auto and w = "()" and cid = "[]"] by auto



end
