(* ===== verification/Confirm_Laws.thy ===== *)
theory Confirm_Laws
  imports Confirm_Flow
begin

text \<open>
  What the confirmation workflow guarantees: a release follows an authorised decision on exactly the arguments that
  were asked for, an approval once releases one call when requests do not overlap, a revoked standing grant releases
  nothing; and what it does not: two overlapping consumes of one approval are both released.
\<close>

section \<open>Frames\<close>

lemma audit_frame [simp]:
  "pendingConfirms (auditConfirmation ty a act r md s) = pendingConfirms s"
  "standingGrants (auditConfirmation ty a act r md s) = standingGrants s"
  "resources (auditConfirmation ty a act r md s) = resources s"
  "agents (auditConfirmation ty a act r md s) = agents s"
  "env_uuid (auditConfirmation ty a act r md s) = env_uuid s"
  "env_now (auditConfirmation ty a act r md s) = env_now s"
  "env_ctr (auditConfirmation ty a act r md s) = Suc (env_ctr s)"
  by (simp_all add: auditConfirmation_def RecordAudit_def NewString_def Let_def)

lemma inbox_frame [simp]:
  "pendingConfirms (snd (CreateInboxMessage m s)) = pendingConfirms s"
  "standingGrants (snd (CreateInboxMessage m s)) = standingGrants s"
  "resources (snd (CreateInboxMessage m s)) = resources s"
  "agents (snd (CreateInboxMessage m s)) = agents s"
  "env_uuid (snd (CreateInboxMessage m s)) = env_uuid s"
  "env_now (snd (CreateInboxMessage m s)) = env_now s"
  "env_ctr s \<le> env_ctr (snd (CreateInboxMessage m s))"
  by (simp_all add: CreateInboxMessage_def NewString_def Let_def)

lemma update_frame [simp]:
  "standingGrants (snd (UpdateConfirmationState k f u s)) = standingGrants s"
  "resources (snd (UpdateConfirmationState k f u s)) = resources s"
  "agents (snd (UpdateConfirmationState k f u s)) = agents s"
  "env_uuid (snd (UpdateConfirmationState k f u s)) = env_uuid s"
  "env_now (snd (UpdateConfirmationState k f u s)) = env_now s"
  "env_ctr (snd (UpdateConfirmationState k f u s)) = env_ctr s"
  by (simp_all add: UpdateConfirmationState_def Let_def split: option.split)

lemma upsert_frame [simp]:
  "pendingConfirms (snd (UpsertStandingGrant g s)) = pendingConfirms s"
  "env_uuid (snd (UpsertStandingGrant g s)) = env_uuid s"
  "env_now (snd (UpsertStandingGrant g s)) = env_now s"
  "env_ctr s \<le> env_ctr (snd (UpsertStandingGrant g s))"
  by (simp_all add: UpsertStandingGrant_def NewString_def Let_def split: option.split)

lemma revoke_frame [simp]:
  "pendingConfirms (snd (RevokeStandingGrant g at s)) = pendingConfirms s"
  "env_uuid (snd (RevokeStandingGrant g at s)) = env_uuid s"
  "env_ctr (snd (RevokeStandingGrant g at s)) = env_ctr s"
  by (simp_all add: RevokeStandingGrant_def Let_def split: option.split)

lemma revoke_handler_store:
  "snd (revokeStandingGrantHandler usr gid s) = s \<or>
   (\<exists>act r md. snd (revokeStandingGrantHandler usr gid s) =
      auditConfirmation ''user'' (User_ID usr) act r md (snd (RevokeStandingGrant gid (env_now s) s)))"
proof -
  have "fst (RevokeStandingGrant gid (env_now s) s) = Inl e \<Longrightarrow> snd (RevokeStandingGrant gid (env_now s) s) = s" for e
    by (auto simp: RevokeStandingGrant_def Let_def split: option.splits)
  then show ?thesis
    by (cases "RevokeStandingGrant gid (env_now s) s"; cases "fst (RevokeStandingGrant gid (env_now s) s)")
      (auto simp: revokeStandingGrantHandler_def confirmationTime_def split: sum.split)
qed

section \<open>What each service does to the rows\<close>

text \<open>Opening a confirmation adds one pending row under the next identifier.\<close>

definition fresh_confirmation :: "string \<Rightarrow> string \<Rightarrow> string \<Rightarrow> RegistryResource \<Rightarrow> string \<Rightarrow> PendingConfirmation \<Rightarrow> bool" where
  "fresh_confirmation agentID tool argsHash resource nid c \<longleftrightarrow>
     PC_ID c = nid \<and> PC_ResourceID c = Res_ID resource \<and> PC_AgentID c = agentID \<and> PC_Tool c = tool \<and> PC_ArgsHash c = argsHash \<and>
     PC_State c = ConfirmationPending \<and> PC_ConsumedAt c = None"

lemma open_confirmation_rows:
  assumes "open_confirmation agentID tool argsHash resource s = (r, t)"
  shows "CCR_Mode r = ''pending''" and "CCR_ConfirmationID r = env_uuid s (env_ctr s)"
    and "\<exists>c. fresh_confirmation agentID tool argsHash resource (env_uuid s (env_ctr s)) c \<and>
      (\<forall>k. gm_get (pendingConfirms t) k = (if k = env_uuid s (env_ctr s) then Some c else gm_get (pendingConfirms s) k))"
    and "gm_wf (pendingConfirms s) \<Longrightarrow> gm_wf (pendingConfirms t)"
    and "standingGrants t = standingGrants s" and "env_uuid t = env_uuid s" and "env_ctr s < env_ctr t"
proof -
  let ?nid = "env_uuid s (env_ctr s)"
  obtain created s1 where c: "CreatePendingConfirmation (PendingConfirmation_zero\<lparr>PC_ResourceID := Res_ID resource, PC_AgentID := agentID,
      PC_Tool := tool, PC_ArgsHash := argsHash, PC_State := ConfirmationPending, PC_RequestedBy := Res_OwnerUserID resource\<rparr>) s = (created, s1)"
    by fastforce
  then have f: "fresh_confirmation agentID tool argsHash resource ?nid created"
    and s1: "pendingConfirms s1 = gm_put ?nid created (pendingConfirms s)" "standingGrants s1 = standingGrants s"
      "env_uuid s1 = env_uuid s" "env_ctr s1 = Suc (env_ctr s)"
    by (auto simp: CreatePendingConfirmation_def Let_def NewString_def fresh_confirmation_def PendingConfirmation_zero_def)
  have id: "PC_ID created = ?nid" using f by (simp add: fresh_confirmation_def)
  define s2 where "s2 = snd (CreateInboxMessage (confirmation_message agentID tool argsHash resource (PC_CreatedAt created)) s1)"
  have s2: "pendingConfirms s2 = pendingConfirms s1" "standingGrants s2 = standingGrants s1" "env_uuid s2 = env_uuid s1"
    "env_ctr s1 \<le> env_ctr s2" by (simp_all add: s2_def)
  have r: "r = \<lparr>CCR_Mode = ''pending'', CCR_ConfirmationID = ?nid, CCR_MatchedStandingGrantID = []\<rparr>"
    using assms c by (simp add: open_confirmation_def Let_def id split: prod.splits)
  obtain i where t: "t = s2 \<or> t = snd (UpdateConfirmationState ?nid ConfirmationPending
      ((ConfirmationUpdate_to ConfirmationPending)\<lparr>CU_InboxMessageID := Some i\<rparr>) s2)"
    using assms c by (auto simp: open_confirmation_def s2_def Let_def id split: prod.splits sum.splits)
  define up where "up = (ConfirmationUpdate_to ConfirmationPending)\<lparr>CU_InboxMessageID := Some i\<rparr>"
  have up: "CU_State up = ConfirmationPending" "CU_ConsumedAt up = None" by (simp_all add: up_def ConfirmationUpdate_to_def)
  note t = t [folded up_def]
  have get2: "gm_get (pendingConfirms s2) ?nid = Some created" using s2 s1 by simp
  have upd: "\<exists>c'. pendingConfirms (snd (UpdateConfirmationState ?nid ConfirmationPending up s2)) = gm_put ?nid c' (pendingConfirms s2) \<and>
      fresh_confirmation agentID tool argsHash resource ?nid c'"
    using get2 f up by (auto simp: UpdateConfirmationState_def Let_def fresh_confirmation_def apply_confirmation_update_def)
  show "CCR_Mode r = ''pending''" and "CCR_ConfirmationID r = ?nid" using r by simp_all
  show "\<exists>c. fresh_confirmation agentID tool argsHash resource ?nid c \<and>
      (\<forall>k. gm_get (pendingConfirms t) k = (if k = ?nid then Some c else gm_get (pendingConfirms s) k))"
    using t f upd s2(1) s1(1) by (elim disjE) auto
  show "gm_wf (pendingConfirms s) \<Longrightarrow> gm_wf (pendingConfirms t)" using t upd s2(1) s1(1) by auto
  show "standingGrants t = standingGrants s" and "env_uuid t = env_uuid s" and "env_ctr s < env_ctr t"
    using t s2 s1 by auto
qed

text \<open>A decision that goes through: the caller had the authority, the row was pending, and only that row changed.\<close>

lemma decide_Inr:
  assumes "decide caller cid s = Inr (conf, resource)"
  shows "gm_get (pendingConfirms s) cid = Some conf" and "gm_get (resources s) (PC_ResourceID conf) = Some resource"
    and "\<exists>u. caller = Some u \<and> requireConfirmationAuthority (Some u) resource" and "PC_State conf = ConfirmationPending"
  using assms
  by (auto simp: decide_def loadConfirmationAndResource_def GetPendingConfirmation_def GetResourceByID_def
      requireConfirmationAuthority_def split: option.splits if_splits)

lemma update_pending:
  assumes "gm_get (pendingConfirms s) cid = Some conf" and "PC_State conf = st"
  shows "UpdateConfirmationState cid st up s =
    (Inr (apply_confirmation_update up (env_now s) conf),
     s\<lparr>pendingConfirms := gm_put cid (apply_confirmation_update up (env_now s) conf) (pendingConfirms s)\<rparr>)"
  using assms by (simp add: UpdateConfirmationState_def Let_def)

definition same_call :: "PendingConfirmation \<Rightarrow> PendingConfirmation \<Rightarrow> bool" where
  "same_call a b \<longleftrightarrow> PC_ID a = PC_ID b \<and> PC_ResourceID a = PC_ResourceID b \<and> PC_AgentID a = PC_AgentID b \<and>
     PC_Tool a = PC_Tool b \<and> PC_ArgsHash a = PC_ArgsHash b"

lemma same_call_update [simp]: "same_call (apply_confirmation_update up now c) c"
  by (simp add: same_call_def apply_confirmation_update_def)

text \<open>The effect of a service on the rows and the identifiers: one row is written, nothing else of the two.\<close>

definition writes_row :: "MemoryStore \<Rightarrow> string \<Rightarrow> PendingConfirmation \<Rightarrow> MemoryStore \<Rightarrow> bool" where
  "writes_row s cid c t \<longleftrightarrow> gm_get (pendingConfirms t) = (gm_get (pendingConfirms s))(cid \<mapsto> c) \<and>
     (gm_wf (pendingConfirms s) \<longrightarrow> gm_wf (pendingConfirms t)) \<and> env_uuid t = env_uuid s \<and> env_ctr s \<le> env_ctr t"

definition keeps_rows :: "MemoryStore \<Rightarrow> MemoryStore \<Rightarrow> bool" where
  "keeps_rows s t \<longleftrightarrow> pendingConfirms t = pendingConfirms s \<and> env_uuid t = env_uuid s \<and> env_ctr s \<le> env_ctr t"

lemma approve_once_effect:
  assumes "approveConfirmationOnce caller cid s = (res, t)" and key: "\<And>c. gm_get (pendingConfirms s) cid = Some c \<Longrightarrow> PC_ID c = cid"
  shows "case res of Inl e \<Rightarrow> t = s
    | Inr c \<Rightarrow> \<exists>conf resource. decide caller cid s = Inr (conf, resource) \<and> writes_row s cid c t \<and> same_call c conf \<and>
        PC_State c = ConfirmationApprovedOnce \<and> PC_ApprovedAt c = Some (env_now s) \<and> PC_ConsumedAt c = PC_ConsumedAt conf"
proof (cases "decide caller cid s")
  case (Inr cr)
  obtain conf resource where cr: "cr = (conf, resource)" by force
  note D = decide_Inr [OF Inr [unfolded cr]]
  have "PC_ID conf = cid" using key D(1) by blast
  then show ?thesis using assms(1) Inr cr update_pending [OF D(1,4)]
    by (auto simp: approveConfirmationOnce_def Let_def confirmationTime_def ConfirmationUpdate_to_def writes_row_def gm_put_fun
        apply_confirmation_update_def same_call_def)
qed (use assms in \<open>auto simp: approveConfirmationOnce_def\<close>)

lemma approve_standing_effect:
  assumes "approveConfirmationStanding caller cid expiry s = (res, t)" and key: "\<And>c. gm_get (pendingConfirms s) cid = Some c \<Longrightarrow> PC_ID c = cid"
  shows "case res of Inl e \<Rightarrow> t = s
    | Inr (c, g) \<Rightarrow> \<exists>conf resource. decide caller cid s = Inr (conf, resource) \<and> writes_row s cid c t \<and> same_call c conf \<and>
        PC_State c = ConfirmationApprovedStanding \<and> PC_ApprovedAt c = Some (env_now s) \<and> PC_ConsumedAt c = PC_ConsumedAt conf"
proof (cases "decide caller cid s")
  case (Inr cr)
  obtain conf resource where cr: "cr = (conf, resource)" by force
  note D = decide_Inr [OF Inr [unfolded cr]]
  have id: "PC_ID conf = cid" using key D(1) by blast
  let ?up = "(ConfirmationUpdate_to ConfirmationApprovedStanding)\<lparr>CU_ApprovedAt := Some (env_now s)\<rparr>"
  let ?c = "apply_confirmation_update ?up (env_now s) conf"
  let ?s1 = "s\<lparr>pendingConfirms := gm_put cid ?c (pendingConfirms s)\<rparr>"
  define g where "g = StandingGrant_zero\<lparr>SG_ResourceID := Res_ID resource, SG_AgentID := PC_AgentID conf, SG_Tool := PC_Tool conf,
    SG_ExpiresAt := (case expiry of None \<Rightarrow> env_now s + standingGrantDefaultExpiry | Some t \<Rightarrow> t), SG_CreatedBy := caller_id caller\<rparr>"
  obtain gr s2 where u: "UpsertStandingGrant g ?s1 = (gr, s2)" by fastforce
  have g: "res = Inr (?c, gr)" and t: "pendingConfirms t = pendingConfirms s2" "env_uuid t = env_uuid s2" "env_ctr s2 \<le> env_ctr t"
    using assms(1) Inr cr update_pending [OF D(1,4), of ?up] id u
    by (auto simp: approveConfirmationStanding_def Let_def confirmationTime_def g_def)
  have s2: "s2 = snd (UpsertStandingGrant g ?s1)" using u by simp
  have "writes_row s cid ?c t"
    using upsert_frame(4) [of ?s1 g] t by (auto simp: writes_row_def gm_put_fun s2)
  then show ?thesis using g Inr cr by (simp add: ConfirmationUpdate_to_def apply_confirmation_update_def same_call_def)
qed (use assms in \<open>auto simp: approveConfirmationStanding_def\<close>)

lemma deny_effect:
  assumes "denyConfirmation caller cid reason s = (res, t)" and key: "\<And>c. gm_get (pendingConfirms s) cid = Some c \<Longrightarrow> PC_ID c = cid"
  shows "keeps_rows s t \<or> (\<exists>c conf. gm_get (pendingConfirms s) cid = Some conf \<and> writes_row s cid c t \<and> same_call c conf \<and>
    PC_State conf = ConfirmationPending \<and> PC_State c = ConfirmationDenied \<and> PC_ConsumedAt c = PC_ConsumedAt conf)"
proof (cases "decide caller cid s")
  case (Inr cr)
  obtain conf resource where cr: "cr = (conf, resource)" by force
  note D = decide_Inr [OF Inr [unfolded cr]]
  have id: "PC_ID conf = cid" using key D(1) by blast
  obtain rsn where rsn: "rsn = (if TrimSpace reason = [] then ''denied'' else reason)" by simp
  let ?c = "apply_confirmation_update ((ConfirmationUpdate_to ConfirmationDenied)\<lparr>CU_DeniedReason := rsn\<rparr>) (env_now s) conf"
  let ?s1 = "s\<lparr>pendingConfirms := gm_put cid ?c (pendingConfirms s)\<rparr>"
  obtain ty a act r md m where t: "t = snd (CreateInboxMessage m (auditConfirmation ty a act r md ?s1))"
    using assms(1) Inr cr update_pending [OF D(1,4)] id rsn by (auto simp: denyConfirmation_def Let_def)
  have "writes_row s cid ?c t"
    using inbox_frame(7) [of "auditConfirmation ty a act r md ?s1" m] by (simp add: t writes_row_def gm_put_fun)
  moreover have "PC_State ?c = ConfirmationDenied" and "PC_ConsumedAt ?c = PC_ConsumedAt conf"
    by (simp_all add: ConfirmationUpdate_to_def apply_confirmation_update_def)
  ultimately show ?thesis using D(1,4) same_call_update by blast
qed (use assms in \<open>auto simp: denyConfirmation_def keeps_rows_def\<close>)

text \<open>A consume by the service: it releases once, or it releases under a live standing grant, or it refuses.\<close>

definition once_release :: "string \<Rightarrow> string \<Rightarrow> MemoryStore \<Rightarrow> bool" where
  "once_release cid argsHash s \<longleftrightarrow> (\<exists>c at. gm_get (pendingConfirms s) cid = Some c \<and> PC_ArgsHash c = argsHash \<and>
     PC_State c = ConfirmationApprovedOnce \<and> PC_ConsumedAt c = None \<and> PC_ApprovedAt c = Some at \<and> env_now s - at \<le> confirmationOnceTTL)"

definition standing_release :: "string \<Rightarrow> string \<Rightarrow> MemoryStore \<Rightarrow> bool" where
  "standing_release cid argsHash s \<longleftrightarrow> (\<exists>c g. gm_get (pendingConfirms s) cid = Some c \<and> PC_ArgsHash c = argsHash \<and>
     PC_State c = ConfirmationApprovedStanding \<and>
     FindLiveStandingGrant (PC_ResourceID c) (PC_AgentID c) (PC_Tool c) (env_now s) s = Inr g)"

lemma consume_effect:
  assumes "consumeConfirmation cid argsHash s = (res, t)" and key: "\<And>c. gm_get (pendingConfirms s) cid = Some c \<Longrightarrow> PC_ID c = cid"
  shows "(\<exists>r. res = Inr r \<and> CR_Allowed r \<and> CR_Mode r = ''once'') \<longleftrightarrow> once_release cid argsHash s"
    and "(\<exists>r. res = Inr r \<and> CR_Allowed r \<and> CR_Mode r \<noteq> ''once'') \<longleftrightarrow> standing_release cid argsHash s"
    and "once_release cid argsHash s \<Longrightarrow> \<exists>c conf. gm_get (pendingConfirms s) cid = Some conf \<and> writes_row s cid c t \<and> same_call c conf \<and>
      PC_State c = ConfirmationApprovedOnce \<and> PC_ApprovedAt c = PC_ApprovedAt conf \<and> PC_ConsumedAt c = Some (env_now s)"
    and "\<not> once_release cid argsHash s \<Longrightarrow> keeps_rows s t \<or>
      (\<exists>c conf. gm_get (pendingConfirms s) cid = Some conf \<and> writes_row s cid c t \<and> same_call c conf \<and>
       PC_State conf = ConfirmationApprovedOnce \<and> PC_State c = ConfirmationExpired \<and> PC_ConsumedAt c = PC_ConsumedAt conf)"
proof -
  have *: "((\<exists>r. res = Inr r \<and> CR_Allowed r \<and> CR_Mode r = ''once'') \<longleftrightarrow> once_release cid argsHash s) \<and>
    ((\<exists>r. res = Inr r \<and> CR_Allowed r \<and> CR_Mode r \<noteq> ''once'') \<longleftrightarrow> standing_release cid argsHash s) \<and>
    (once_release cid argsHash s \<longrightarrow> (\<exists>c conf. gm_get (pendingConfirms s) cid = Some conf \<and> writes_row s cid c t \<and> same_call c conf \<and>
      PC_State c = ConfirmationApprovedOnce \<and> PC_ApprovedAt c = PC_ApprovedAt conf \<and> PC_ConsumedAt c = Some (env_now s))) \<and>
    (\<not> once_release cid argsHash s \<longrightarrow> keeps_rows s t \<or>
      (\<exists>c conf. gm_get (pendingConfirms s) cid = Some conf \<and> writes_row s cid c t \<and> same_call c conf \<and>
       PC_State conf = ConfirmationApprovedOnce \<and> PC_State c = ConfirmationExpired \<and> PC_ConsumedAt c = PC_ConsumedAt conf))"
  proof (cases "gm_get (pendingConfirms s) cid")
    case None
    then show ?thesis using assms(1)
      by (auto simp: consumeConfirmation_def GetPendingConfirmation_def once_release_def standing_release_def keeps_rows_def)
  next
    case (Some conf)
    have id: "PC_ID conf = cid" using key Some by blast
    show ?thesis
    proof (cases "PC_ArgsHash conf = argsHash \<and> PC_State conf = ConfirmationApprovedOnce")
      case True
      note U = update_pending [OF Some conjunct2 [OF True]]
      show ?thesis
        using assms(1) Some True id U
        by (auto simp: consumeConfirmation_def GetPendingConfirmation_def consumeApprovedOnce_def once_release_def standing_release_def
            keeps_rows_def confirmationTime_def consume_allowed_def consume_refused_def writes_row_def gm_put_fun same_call_def
            ConfirmationUpdate_to_def apply_confirmation_update_def split: option.splits if_splits)
    next
      case False
      then show ?thesis
        using assms(1) Some id
        by (auto simp: consumeConfirmation_def GetPendingConfirmation_def consumeStanding_def once_release_def standing_release_def
            keeps_rows_def confirmationTime_def consume_allowed_def consume_refused_def split: if_splits sum.splits)
    qed
  qed
  show "(\<exists>r. res = Inr r \<and> CR_Allowed r \<and> CR_Mode r = ''once'') \<longleftrightarrow> once_release cid argsHash s" using * by blast
  show "(\<exists>r. res = Inr r \<and> CR_Allowed r \<and> CR_Mode r \<noteq> ''once'') \<longleftrightarrow> standing_release cid argsHash s" using * by blast
  show "\<exists>c conf. gm_get (pendingConfirms s) cid = Some conf \<and> writes_row s cid c t \<and> same_call c conf \<and>
      PC_State c = ConfirmationApprovedOnce \<and> PC_ApprovedAt c = PC_ApprovedAt conf \<and> PC_ConsumedAt c = Some (env_now s)"
    if "once_release cid argsHash s" using * that by blast
  show "keeps_rows s t \<or> (\<exists>c conf. gm_get (pendingConfirms s) cid = Some conf \<and> writes_row s cid c t \<and> same_call c conf \<and>
       PC_State conf = ConfirmationApprovedOnce \<and> PC_State c = ConfirmationExpired \<and> PC_ConsumedAt c = PC_ConsumedAt conf)"
    if "\<not> once_release cid argsHash s" using * that by blast
qed

section \<open>Runs with their history\<close>

text \<open>Beside the store, a run remembers what was asked (identifier, agent, tool, argument hash), which decisions approved
  (identifier, decider, resource as it was then, time) and which single calls were released. Services are atomic in
  these runs; overlapping consumes are treated below.\<close>

record conf_history =
  H_Asked :: "(string \<times> string \<times> string \<times> string) list"
  H_Approved :: "(string \<times> User \<times> RegistryResource \<times> instant) list"
  H_Released :: "string list"

definition note_ask :: "string \<Rightarrow> string \<Rightarrow> string \<Rightarrow> ConfirmationCheckResult conf_res \<Rightarrow> conf_history \<Rightarrow> conf_history" where
  "note_ask a tool ah res h =
     (case res of Inl e \<Rightarrow> h
      | Inr r \<Rightarrow> if CCR_Mode r = ''pending'' then h\<lparr>H_Asked := (CCR_ConfirmationID r, a, tool, ah) # H_Asked h\<rparr> else h)"

definition note_approval :: "User option \<Rightarrow> string \<Rightarrow> MemoryStore \<Rightarrow> 'a conf_res \<Rightarrow> conf_history \<Rightarrow> conf_history" where
  "note_approval caller cid s res h =
     (case (res, decide caller cid s, caller) of
        (Inr x, Inr (conf, resource), Some u) \<Rightarrow> h\<lparr>H_Approved := (cid, u, resource, env_now s) # H_Approved h\<rparr>
      | _ \<Rightarrow> h)"

definition note_release :: "string \<Rightarrow> ConfirmationConsumeResult conf_res \<Rightarrow> conf_history \<Rightarrow> conf_history" where
  "note_release cid res h =
     (case res of Inr r \<Rightarrow> if CR_Allowed r \<and> CR_Mode r = ''once'' then h\<lparr>H_Released := cid # H_Released h\<rparr> else h | Inl e \<Rightarrow> h)"

inductive conf_step :: "MemoryStore \<times> conf_history \<Rightarrow> MemoryStore \<times> conf_history \<Rightarrow> bool" where
  ask: "requestConfirmation rid a tool ah s = (r1, t) \<Longrightarrow> conf_step (s, h) (t, note_ask a tool ah r1 h)"
| approve_once: "approveConfirmationOnce caller cid s = (r2, t) \<Longrightarrow> conf_step (s, h) (t, note_approval caller cid s r2 h)"
| approve_standing: "approveConfirmationStanding caller cid expiry s = (r3, t) \<Longrightarrow> conf_step (s, h) (t, note_approval caller cid s r3 h)"
| deny: "denyConfirmation caller cid reason s = (r4, t) \<Longrightarrow> conf_step (s, h) (t, h)"
| consume: "consumeConfirmation cid ah s = (r5, t) \<Longrightarrow> conf_step (s, h) (t, note_release cid r5 h)"
| revoke: "revokeStandingGrantHandler usr gid s = (r6, t) \<Longrightarrow> conf_step (s, h) (t, h)"
| elsewhere: "pendingConfirms t = pendingConfirms s \<Longrightarrow> standingGrants t = standingGrants s \<Longrightarrow> env_uuid t = env_uuid s \<Longrightarrow>
    env_ctr s \<le> env_ctr t \<Longrightarrow> conf_step (s, h) (t, h)"

definition conf_init :: "MemoryStore \<times> conf_history \<Rightarrow> bool" where
  "conf_init sh \<longleftrightarrow> inj (env_uuid (fst sh)) \<and> pendingConfirms (fst sh) = [] \<and> standingGrants (fst sh) = [] \<and>
     H_Asked (snd sh) = [] \<and> H_Approved (snd sh) = [] \<and> H_Released (snd sh) = []"

definition row_ok :: "MemoryStore \<Rightarrow> conf_history \<Rightarrow> string \<Rightarrow> PendingConfirmation \<Rightarrow> bool" where
  "row_ok s h cid c \<longleftrightarrow> PC_ID c = cid \<and> issued s cid \<and> (cid, PC_AgentID c, PC_Tool c, PC_ArgsHash c) \<in> set (H_Asked h) \<and>
     (PC_State c = ConfirmationPending \<longrightarrow> PC_ConsumedAt c = None) \<and>
     (PC_State c = ConfirmationApprovedOnce \<or> PC_State c = ConfirmationApprovedStanding \<longrightarrow>
        (\<exists>u r at. PC_ApprovedAt c = Some at \<and> (cid, u, r, at) \<in> set (H_Approved h))) \<and>
     (cid \<in> set (H_Released h) \<longrightarrow> PC_ConsumedAt c \<noteq> None)"

definition history_ok :: "conf_history \<Rightarrow> bool" where
  "history_ok h \<longleftrightarrow> (\<forall>(cid, u, r, at) \<in> set (H_Approved h). requireConfirmationAuthority (Some u) r) \<and> distinct (H_Released h)"

definition conf_inv :: "MemoryStore \<times> conf_history \<Rightarrow> bool" where
  "conf_inv sh \<longleftrightarrow> (case sh of (s, h) \<Rightarrow> inj (env_uuid s) \<and> gm_wf (pendingConfirms s) \<and> history_ok h \<and>
     (\<forall>cid c. gm_get (pendingConfirms s) cid = Some c \<longrightarrow> row_ok s h cid c) \<and>
     (\<forall>cid \<in> set (H_Released h). gm_get (pendingConfirms s) cid \<noteq> None))"

lemma row_ok_mono:
  assumes "row_ok s h cid c" and "env_uuid t = env_uuid s" and "env_ctr s \<le> env_ctr t"
    and "set (H_Asked h) \<subseteq> set (H_Asked h')" and "set (H_Approved h) \<subseteq> set (H_Approved h')"
    and "cid \<in> set (H_Released h') \<Longrightarrow> cid \<in> set (H_Released h)"
  shows "row_ok t h' cid c"
  using assms issued_mono [of s cid t] unfolding row_ok_def by (meson subsetD)

lemma conf_inv_keep:
  assumes "conf_inv (s, h)" and "keeps_rows s t" shows "conf_inv (t, h)"
  using assms row_ok_mono [of s h _ _ t h] by (auto simp: conf_inv_def keeps_rows_def)

lemma conf_inv_write:
  assumes inv: "conf_inv (s, h)" and w: "writes_row s cid c t" and row: "row_ok t h' cid c" and "history_ok h'"
    and asked: "set (H_Asked h) \<subseteq> set (H_Asked h')" and appr: "set (H_Approved h) \<subseteq> set (H_Approved h')"
    and rel: "\<And>k. k \<noteq> cid \<Longrightarrow> k \<in> set (H_Released h') \<Longrightarrow> k \<in> set (H_Released h)"
  shows "conf_inv (t, h')"
proof -
  have w': "gm_get (pendingConfirms t) = (gm_get (pendingConfirms s))(cid \<mapsto> c)" "gm_wf (pendingConfirms t)"
    "env_uuid t = env_uuid s" "env_ctr s \<le> env_ctr t"
    using w inv by (auto simp: writes_row_def conf_inv_def)
  have "row_ok t h' k v" if "gm_get (pendingConfirms t) k = Some v" for k v
  proof (cases "k = cid")
    case False
    then have "row_ok s h k v" using that w'(1) inv by (simp add: conf_inv_def)
    then show ?thesis using row_ok_mono [OF _ w'(3,4) asked appr] rel False by blast
  qed (use that w'(1) row in simp)
  moreover have "gm_get (pendingConfirms t) k \<noteq> None" if "k \<in> set (H_Released h')" for k
    using that rel inv w'(1) by (cases "k = cid") (auto simp: conf_inv_def)
  ultimately show ?thesis using w' inv assms(4) by (auto simp: conf_inv_def)
qed

lemma conf_invD:
  assumes "conf_inv (s, h)"
  shows "gm_get (pendingConfirms s) cid = Some c \<Longrightarrow> row_ok s h cid c" and "gm_get (pendingConfirms s) cid = Some c \<Longrightarrow> PC_ID c = cid"
    and "history_ok h" and "inj (env_uuid s)"
  using assms by (auto simp: conf_inv_def row_ok_def)

text \<open>Rewriting a row of the same call keeps the row invariant when the new state asks for no new evidence.\<close>

lemma row_ok_rewrite:
  assumes "row_ok s h cid conf" and w: "writes_row s cid c t" and same: "same_call c conf"
    and "set (H_Asked h) \<subseteq> set (H_Asked h')" and "cid \<in> set (H_Released h') \<Longrightarrow> PC_ConsumedAt c \<noteq> None"
    and "PC_State c = ConfirmationPending \<Longrightarrow> PC_ConsumedAt c = None"
    and "PC_State c = ConfirmationApprovedOnce \<or> PC_State c = ConfirmationApprovedStanding \<Longrightarrow>
        \<exists>u r at. PC_ApprovedAt c = Some at \<and> (cid, u, r, at) \<in> set (H_Approved h')"
  shows "row_ok t h' cid c"
proof -
  have "issued t cid" using assms(1) w issued_mono [of s cid t] by (simp add: row_ok_def writes_row_def)
  then show ?thesis using assms by (auto simp: row_ok_def same_call_def)
qed

lemma ask_inv:
  assumes inv: "conf_inv (s, h)" and r: "requestConfirmation rid a tool ah s = (res, t)"
  shows "conf_inv (t, note_ask a tool ah res h)"
proof (cases "\<exists>rr resource. res = Inr rr \<and> open_confirmation a tool ah resource s = (rr, t)")
  case True
  then obtain rr resource where rr: "res = Inr rr" "open_confirmation a tool ah resource s = (rr, t)" by blast
  note O = open_confirmation_rows [OF rr(2)]
  let ?nid = "env_uuid s (env_ctr s)"
  let ?h = "h\<lparr>H_Asked := (?nid, a, tool, ah) # H_Asked h\<rparr>"
  have h: "note_ask a tool ah res h = ?h" using rr(1) O(1,2) by (simp add: note_ask_def)
  obtain c where c: "fresh_confirmation a tool ah resource ?nid c"
    "\<And>k. gm_get (pendingConfirms t) k = (if k = ?nid then Some c else gm_get (pendingConfirms s) k)"
    using O(3) by blast
  have w: "writes_row s ?nid c t" using c(2) O(4,6,7) by (auto simp: writes_row_def)
  have "\<not> issued s ?nid" using not_issued_next [OF conf_invD(4) [OF inv]] by simp
  moreover have "issued s k" if "k \<in> set (H_Released h)" for k
    using that inv by (auto simp: conf_inv_def row_ok_def)
  ultimately have "?nid \<notin> set (H_Released ?h)" by auto
  moreover have "issued t ?nid" unfolding issued_def using O(6,7) by (intro exI [of _ "env_ctr s"]) simp
  ultimately have "row_ok t ?h ?nid c" using c(1) by (simp add: row_ok_def fresh_confirmation_def)
  from conf_inv_write [OF inv w this] show ?thesis using conf_invD(3) [OF inv] unfolding h by (auto simp: history_ok_def)
next
  case False
  then have "keeps_rows s t \<and> note_ask a tool ah res h = h"
    using r by (auto simp: requestConfirmation_def keeps_rows_def note_ask_def split: sum.splits if_splits prod.splits)
  then show ?thesis using conf_inv_keep [OF inv] by simp
qed

lemma approval_inv:
  assumes inv: "conf_inv (s, h)" and d: "decide caller cid s = Inr (conf, resource)" and w: "writes_row s cid c t" and "same_call c conf"
    and "PC_State c \<noteq> ConfirmationPending" and "PC_ApprovedAt c = Some (env_now s)" and "PC_ConsumedAt c = PC_ConsumedAt conf"
  shows "conf_inv (t, note_approval caller cid s (Inr x) h)"
proof -
  note D = decide_Inr [OF d]
  obtain u where u: "caller = Some u" "requireConfirmationAuthority (Some u) resource" using D(3) by blast
  let ?h = "h\<lparr>H_Approved := (cid, u, resource, env_now s) # H_Approved h\<rparr>"
  have h: "note_approval caller cid s (Inr x) h = ?h" using d u by (simp add: note_approval_def)
  have row: "row_ok s h cid conf" using conf_invD(1) [OF inv D(1)] .
  have "row_ok t ?h cid c" by (rule row_ok_rewrite [OF row w assms(4)]) (use assms(5-7) row in \<open>auto simp: row_ok_def\<close>)
  from conf_inv_write [OF inv w this] show ?thesis
    using conf_invD(3) [OF inv] u(2) unfolding h by (auto simp: history_ok_def)
qed

lemma conf_step_inv: "conf_step sh sh' \<Longrightarrow> conf_inv sh \<Longrightarrow> conf_inv sh'"
proof (induction rule: conf_step.induct)
  case (ask rid a tool ah s r1 t h)
  then show ?case using ask_inv by blast
next
  case (approve_once caller cid s r2 t h)
  note E = approve_once_effect [OF approve_once(1) conf_invD(2) [OF approve_once(2)]]
  show ?case
  proof (cases r2)
    case (Inl e)
    then show ?thesis using E approve_once(2) by (simp add: note_approval_def)
  next
    case (Inr c)
    then show ?thesis using E approval_inv [OF approve_once(2)] by fastforce
  qed
next
  case (approve_standing caller cid expiry s r3 t h)
  note E = approve_standing_effect [OF approve_standing(1) conf_invD(2) [OF approve_standing(2)]]
  show ?case
  proof (cases r3)
    case (Inl e)
    then show ?thesis using E approve_standing(2) by (simp add: note_approval_def)
  next
    case (Inr cg)
    then show ?thesis using E approval_inv [OF approve_standing(2)] by (cases cg) fastforce
  qed
next
  case (deny caller cid reason s r4 t h)
  consider "keeps_rows s t" | c conf where "gm_get (pendingConfirms s) cid = Some conf" "writes_row s cid c t" "same_call c conf"
    "PC_State c = ConfirmationDenied" "PC_ConsumedAt c = PC_ConsumedAt conf"
    using deny_effect [OF deny(1) conf_invD(2) [OF deny(2)]] by blast
  then show ?case
  proof cases
    case 2
    have "row_ok t h cid c"
      by (rule row_ok_rewrite [OF conf_invD(1) [OF deny(2) 2(1)] 2(2,3)]) (use 2 conf_invD(1) [OF deny(2) 2(1)] in \<open>auto simp: row_ok_def\<close>)
    from conf_inv_write [OF deny(2) 2(2) this] show ?thesis using conf_invD(3) [OF deny(2)] by simp
  qed (use conf_inv_keep deny(2) in blast)
next
  case (consume cid ah s r5 t h)
  note E = consume_effect [OF consume(1) conf_invD(2) [OF consume(2)]]
  show ?case
  proof (cases "once_release cid ah s")
    case True
    then obtain c conf where w: "gm_get (pendingConfirms s) cid = Some conf" "writes_row s cid c t" "same_call c conf"
      "PC_State c = ConfirmationApprovedOnce" "PC_ApprovedAt c = PC_ApprovedAt conf" "PC_ConsumedAt c = Some (env_now s)"
      using E(3) by blast
    have row: "row_ok s h cid conf" using conf_invD(1) [OF consume(2) w(1)] .
    have conf: "PC_State conf = ConfirmationApprovedOnce" "PC_ConsumedAt conf = None"
      using True w(1) by (auto simp: once_release_def)
    have h: "note_release cid r5 h = h\<lparr>H_Released := cid # H_Released h\<rparr>" using True E(1) by (auto simp: note_release_def)
    have "cid \<notin> set (H_Released h)" using row conf by (auto simp: row_ok_def)
    then have "history_ok (note_release cid r5 h)" using conf_invD(3) [OF consume(2)] by (simp add: h history_ok_def)
    moreover have "row_ok t (note_release cid r5 h) cid c"
      by (rule row_ok_rewrite [OF row w(2,3)]) (use w row conf in \<open>auto simp: h row_ok_def\<close>)
    ultimately show ?thesis by (intro conf_inv_write [OF consume(2) w(2)]) (auto simp: h)
  next
    case False
    have h: "note_release cid r5 h = h" using False E(1) by (auto simp: note_release_def split: sum.split)
    consider "keeps_rows s t" | c conf where "gm_get (pendingConfirms s) cid = Some conf" "writes_row s cid c t" "same_call c conf"
      "PC_State c = ConfirmationExpired" "PC_ConsumedAt c = PC_ConsumedAt conf"
      using E(4) False by blast
    then show ?thesis
    proof cases
      case 2
      have "row_ok t h cid c"
        by (rule row_ok_rewrite [OF conf_invD(1) [OF consume(2) 2(1)] 2(2,3)]) (use 2 conf_invD(1) [OF consume(2) 2(1)] in \<open>auto simp: row_ok_def\<close>)
      from conf_inv_write [OF consume(2) 2(2) this] show ?thesis using conf_invD(3) [OF consume(2)] by (simp add: h)
    qed (use conf_inv_keep consume(2) h in auto)
  qed
next
  case (revoke usr gid s r6 t h)
  have "keeps_rows s t" using revoke_handler_store [of usr gid s] revoke(1) by (auto simp: keeps_rows_def)
  then show ?case using conf_inv_keep revoke(2) by blast
next
  case (elsewhere t s h)
  then show ?case using conf_inv_keep [of s h t] by (simp add: keeps_rows_def)
qed

lemma conf_init_inv: "conf_init sh \<Longrightarrow> conf_inv sh"
  by (auto simp: conf_init_def conf_inv_def history_ok_def gm_get_def gm_wf_def split: prod.split)

interpretation conf_machine: state_machine conf_init conf_step conf_inv
  by unfold_locales (blast intro: conf_init_inv conf_step_inv)+

section \<open>Standing grants\<close>

text \<open>At most one live row per resource, agent and tool, over the same runs.\<close>

definition same_standing :: "StandingGrant \<Rightarrow> StandingGrant \<Rightarrow> bool" where
  "same_standing a b \<longleftrightarrow> SG_RevokedAt a = None \<and> SG_RevokedAt b = None \<and> standing_for (SG_ResourceID a) (SG_AgentID a) (SG_Tool a) b"

definition standing_ok :: "(string \<Rightarrow> bool) \<Rightarrow> StandingGrant gomap \<Rightarrow> bool" where
  "standing_ok drawn gs \<longleftrightarrow> gm_wf gs \<and> (\<forall>k. gm_get gs k \<noteq> None \<longrightarrow> drawn k) \<and> unique_by same_standing (gm_get gs)"

definition standing_inv :: "MemoryStore \<times> conf_history \<Rightarrow> bool" where
  "standing_inv sh \<longleftrightarrow> inj (env_uuid (fst sh)) \<and> standing_ok (issued (fst sh)) (standingGrants (fst sh))"

lemma issued_standing [simp]: "issued (s\<lparr>standingGrants := gs\<rparr>) = issued s"
  by (rule ext) (simp add: issued_def)

lemma standing_frame:
  assumes "standing_inv (s, h)" and "standingGrants t = standingGrants s" and "env_uuid t = env_uuid s" and "env_ctr s \<le> env_ctr t"
  shows "standing_inv (t, h')"
proof -
  have "issued t k" if "issued s k" for k by (rule issued_mono [OF that assms(3,4)])
  then show ?thesis using assms by (simp add: standing_inv_def standing_ok_def)
qed

lemma standing_put:
  assumes "standing_ok drawn gs" and "drawn k" and "\<And>k' g'. gm_get gs k' = Some g' \<Longrightarrow> k' \<noteq> k \<Longrightarrow> \<not> same_standing g' g"
  shows "standing_ok drawn (gm_put k g gs)"
proof -
  have "unique_by same_standing ((gm_get gs)(k \<mapsto> g))"
    using assms by (intro unique_by_put) (auto simp: standing_ok_def same_standing_def standing_for_def)
  then show ?thesis using assms(1,2) by (simp add: standing_ok_def gm_put_fun)
qed

lemma upsert_standing_inv:
  assumes inv: "standing_inv (s, h)" shows "standing_inv (snd (UpsertStandingGrant g s), h)"
proof (cases "find (\<lambda>(k, e). SG_RevokedAt e = None \<and> standing_for (SG_ResourceID g) (SG_AgentID g) (SG_Tool g) e) (standingGrants s)")
  case None
  let ?nid = "env_uuid s (env_ctr s)" and ?s1 = "s\<lparr>env_ctr := Suc (env_ctr s)\<rparr>"
  let ?g = "g\<lparr>SG_ID := ?nid, SG_CreatedAt := env_now s\<rparr>"
  have none: "\<not> same_standing e ?g" if "gm_get (standingGrants s) k = Some e" for k e
    using None map_of_SomeD [OF that [unfolded gm_get_def]] by (fastforce simp: find_None_iff same_standing_def standing_for_def)
  have "standing_inv (?s1, h)" by (rule standing_frame [OF inv]) simp_all
  moreover have "issued ?s1 ?nid" by (auto simp: issued_def)
  ultimately have "standing_ok (issued ?s1) (gm_put ?nid ?g (standingGrants s))"
    using none by (intro standing_put) (auto simp: standing_inv_def)
  then show ?thesis using None inv by (simp add: UpsertStandingGrant_def NewString_def Let_def standing_inv_def)
next
  case (Some p)
  obtain k e where p: "p = (k, e)" by force
  have "(k, e) \<in> set (standingGrants s)" and e: "SG_RevokedAt e = None"
    using Some p by (auto simp: find_Some_iff dest: nth_mem)
  then have get: "gm_get (standingGrants s) k = Some e" using inv by (simp add: standing_inv_def standing_ok_def gm_get_def gm_wf_def)
  let ?e = "e\<lparr>SG_ExpiresAt := SG_ExpiresAt g, SG_CreatedBy := SG_CreatedBy g\<rparr>"
  have "unique_by same_standing ((gm_get (standingGrants s))(k \<mapsto> ?e))"
    using inv get by (intro unique_by_touch [where M = "gm_get (standingGrants s)" and k = k and old = e]) (auto simp: standing_inv_def standing_ok_def same_standing_def standing_for_def)
  then have "standing_inv (s\<lparr>standingGrants := gm_put k ?e (standingGrants s)\<rparr>, h)"
    using inv get by (simp add: standing_inv_def standing_ok_def gm_put_fun)
  then show ?thesis using Some p by (simp add: UpsertStandingGrant_def Let_def)
qed

lemma revoke_standing_inv:
  assumes inv: "standing_inv (s, h)" shows "standing_inv (snd (RevokeStandingGrant gid at s), h)"
proof (cases "gm_get (standingGrants s) gid")
  case (Some g)
  have "standing_ok (issued s) (gm_put gid (g\<lparr>SG_RevokedAt := Some at\<rparr>) (standingGrants s))"
    using inv Some by (intro standing_put) (auto simp: standing_inv_def standing_ok_def same_standing_def)
  then show ?thesis using Some inv by (simp add: RevokeStandingGrant_def Let_def standing_inv_def)
qed (use inv in \<open>simp add: RevokeStandingGrant_def\<close>)

lemma approve_standing_store:
  "snd (approveConfirmationStanding caller cid expiry s) = s \<or>
   (\<exists>ty a act r md g k up. snd (approveConfirmationStanding caller cid expiry s) =
      auditConfirmation ty a act r md (snd (UpsertStandingGrant g (snd (UpdateConfirmationState k ConfirmationPending up s)))))"
proof (cases "decide caller cid s")
  case (Inr cr)
  obtain conf resource where cr: "cr = (conf, resource)" by force
  define expiresAt where "expiresAt = (case expiry of None \<Rightarrow> env_now s + standingGrantDefaultExpiry | Some t \<Rightarrow> t)"
  define up where "up = (ConfirmationUpdate_to ConfirmationApprovedStanding)\<lparr>CU_ApprovedAt := Some (env_now s)\<rparr>"
  define g where "g = StandingGrant_zero\<lparr>SG_ResourceID := Res_ID resource, SG_AgentID := PC_AgentID conf, SG_Tool := PC_Tool conf,
    SG_ExpiresAt := expiresAt, SG_CreatedBy := caller_id caller\<rparr>"
  obtain x s1 where x: "UpdateConfirmationState (PC_ID conf) ConfirmationPending up s = (x, s1)" by force
  obtain gr s2 where u: "UpsertStandingGrant g s1 = (gr, s2)" by force
  show ?thesis
  proof (cases x)
    case (Inl e)
    then have "s1 = s" using x by (auto simp: UpdateConfirmationState_def Let_def split: option.splits if_splits)
    then have "snd (approveConfirmationStanding caller cid expiry s) = s"
      using Inr cr x Inl by (simp add: approveConfirmationStanding_def Let_def confirmationTime_def up_def)
    then show ?thesis ..
  next
    case (Inr c)
    then have "\<exists>md. snd (approveConfirmationStanding caller cid expiry s) =
        auditConfirmation ''user'' (caller_id caller) ''confirmation.approve_standing'' (Res_ID resource) md s2"
      using \<open>decide caller cid s = Inr cr\<close> cr x u
      by (simp add: approveConfirmationStanding_def Let_def confirmationTime_def up_def g_def expiresAt_def) blast
    then show ?thesis using x u by (metis snd_conv)
  qed
qed (simp add: approveConfirmationStanding_def)

lemma conf_step_standing: "conf_step sh sh' \<Longrightarrow> standing_inv sh \<Longrightarrow> standing_inv sh'"
proof (induction rule: conf_step.induct)
  case (ask rid a tool ah s r1 t h)
  have "standingGrants t = standingGrants s \<and> env_uuid t = env_uuid s \<and> env_ctr s \<le> env_ctr t"
  proof (cases "\<exists>rr resource. open_confirmation a tool ah resource s = (rr, t)")
    case True
    then obtain rr resource where "open_confirmation a tool ah resource s = (rr, t)" by blast
    from open_confirmation_rows(5-7) [OF this] show ?thesis by simp
  next
    case False
    then show ?thesis using ask(1) by (auto simp: requestConfirmation_def split: sum.splits if_splits prod.splits)
  qed
  then show ?case using standing_frame [OF ask(2)] by blast
next
  case (approve_once caller cid s r2 t h)
  have "standingGrants t = standingGrants s \<and> env_uuid t = env_uuid s \<and> env_ctr s \<le> env_ctr t"
    using approve_once(1) update_frame by (auto simp: approveConfirmationOnce_def Let_def UpdateConfirmationState_def split: sum.splits prod.splits option.splits if_splits)
  then show ?case using standing_frame [OF approve_once(2)] by blast
next
  case (approve_standing caller cid expiry s r3 t h)
  consider "t = s" | g k up ty a act r md where
    "t = auditConfirmation ty a act r md (snd (UpsertStandingGrant g (snd (UpdateConfirmationState k ConfirmationPending up s))))"
    using approve_standing_store [of caller cid expiry s] approve_standing(1) by auto
  then show ?case
  proof cases
    case 2
    have "standing_inv (snd (UpdateConfirmationState k ConfirmationPending up s), h)"
      by (rule standing_frame [OF approve_standing(2)]) simp_all
    from upsert_standing_inv [OF this, of g] show ?thesis by (rule standing_frame) (simp_all add: 2)
  qed (use standing_frame [OF approve_standing(2)] in simp)
next
  case (deny caller cid reason s r4 t h)
  have "standingGrants t = standingGrants s \<and> env_uuid t = env_uuid s \<and> env_ctr s \<le> env_ctr t"
  proof -
    have *: "standingGrants x = standingGrants s \<and> env_uuid x = env_uuid s \<and> env_ctr s \<le> env_ctr x"
      if "x = snd (CreateInboxMessage m (auditConfirmation ty a act r md y))" "standingGrants y = standingGrants s" "env_uuid y = env_uuid s"
        "env_ctr y = env_ctr s" for x m ty a act r md y
      using that inbox_frame(7) [of "auditConfirmation ty a act r md y" m] by simp
    show ?thesis using deny(1) *
      by (auto simp: denyConfirmation_def Let_def UpdateConfirmationState_def split: sum.splits prod.splits option.splits if_splits)
  qed
  then show ?case using standing_frame [OF deny(2)] by blast
next
  case (consume cid ah s r5 t h)
  have "standingGrants t = standingGrants s \<and> env_uuid t = env_uuid s \<and> env_ctr s \<le> env_ctr t"
    using consume(1)
    by (auto simp: consumeConfirmation_def consumeApprovedOnce_def consumeStanding_def Let_def UpdateConfirmationState_def
        split: sum.splits prod.splits option.splits if_splits)
  then show ?case using standing_frame [OF consume(2)] by blast
next
  case (revoke usr gid s r6 t h)
  consider "t = s" | act r md where "t = auditConfirmation ''user'' (User_ID usr) act r md (snd (RevokeStandingGrant gid (env_now s) s))"
    using revoke_handler_store [of usr gid s] revoke(1) by auto
  then show ?case
  proof cases
    case 2
    show ?thesis by (rule standing_frame [OF revoke_standing_inv [OF revoke(2)]]) (simp_all add: 2)
  qed (use revoke(2) in simp)
next
  case (elsewhere t s h)
  then show ?case using standing_frame by blast
qed

lemma conf_init_standing: "conf_init sh \<Longrightarrow> standing_inv sh"
  by (auto simp: conf_init_def standing_inv_def standing_ok_def gm_get_def gm_wf_def unique_by_def)

interpretation standing_machine: state_machine conf_init conf_step standing_inv
  by unfold_locales (blast intro: conf_step_standing conf_init_standing)+

section \<open>The states of a confirmation\<close>

definition conf_reaches :: "string \<Rightarrow> string \<Rightarrow> bool" where
  "conf_reaches a b \<longleftrightarrow> a = b \<or>
     (a = ConfirmationPending \<and> b \<in> {ConfirmationApprovedOnce, ConfirmationApprovedStanding, ConfirmationDenied, ConfirmationExpired}) \<or>
     (a = ConfirmationApprovedOnce \<and> b = ConfirmationExpired)"

lemma conf_reaches_trans: "conf_reaches a b \<Longrightarrow> conf_reaches b c \<Longrightarrow> conf_reaches a c"
  by (auto simp: conf_reaches_def)

lemma same_call_trans: "same_call a b \<Longrightarrow> same_call b c \<Longrightarrow> same_call a c"
  by (simp add: same_call_def)

definition advances :: "MemoryStore \<Rightarrow> MemoryStore \<Rightarrow> bool" where
  "advances s t \<longleftrightarrow> (\<forall>cid c. gm_get (pendingConfirms s) cid = Some c \<longrightarrow>
     (\<exists>c'. gm_get (pendingConfirms t) cid = Some c' \<and> same_call c' c \<and> conf_reaches (PC_State c) (PC_State c')))"

lemma advances_keep: "keeps_rows s t \<Longrightarrow> advances s t"
  by (auto simp: advances_def keeps_rows_def same_call_def conf_reaches_def)

lemma advances_write:
  "writes_row s cid c t \<Longrightarrow> gm_get (pendingConfirms s) cid = Some conf \<Longrightarrow> same_call c conf \<Longrightarrow>
   conf_reaches (PC_State conf) (PC_State c) \<Longrightarrow> advances s t"
  by (auto simp: advances_def writes_row_def same_call_def conf_reaches_def)

lemma advances_trans:
  assumes "advances s t" and "advances t u"
  shows "advances s u"
  unfolding advances_def
proof (intro allI impI)
  fix cid c assume "gm_get (pendingConfirms s) cid = Some c"
  then obtain c1 where 1: "gm_get (pendingConfirms t) cid = Some c1" "same_call c1 c" "conf_reaches (PC_State c) (PC_State c1)"
    using assms(1) unfolding advances_def by blast
  then obtain c2 where "gm_get (pendingConfirms u) cid = Some c2" "same_call c2 c1" "conf_reaches (PC_State c1) (PC_State c2)"
    using assms(2) unfolding advances_def by blast
  with 1 show "\<exists>c'. gm_get (pendingConfirms u) cid = Some c' \<and> same_call c' c \<and> conf_reaches (PC_State c) (PC_State c')"
    using same_call_trans conf_reaches_trans by blast
qed

lemma conf_step_advances: "conf_step sh sh' \<Longrightarrow> conf_inv sh \<Longrightarrow> advances (fst sh) (fst sh')"
proof (induction rule: conf_step.induct)
  case (ask rid a tool ah s r1 t h)
  show ?case
  proof (cases "\<exists>rr resource. open_confirmation a tool ah resource s = (rr, t)")
    case True
    then obtain rr resource where o: "open_confirmation a tool ah resource s = (rr, t)" by blast
    have "\<not> issued s (env_uuid s (env_ctr s))" using not_issued_next [OF conf_invD(4) [OF ask(2)]] by simp
    then have "gm_get (pendingConfirms s) (env_uuid s (env_ctr s)) = None"
      using conf_invD(1) [OF ask(2)] by (cases "gm_get (pendingConfirms s) (env_uuid s (env_ctr s))") (auto simp: row_ok_def)
    then show ?thesis using open_confirmation_rows(3) [OF o] by (auto simp: advances_def same_call_def conf_reaches_def)
  next
    case False
    then have "keeps_rows s t"
      using ask(1) by (auto simp: requestConfirmation_def keeps_rows_def split: sum.splits if_splits prod.splits)
    then show ?thesis by (simp add: advances_keep)
  qed
next
  case (approve_once caller cid s r2 t h)
  note E = approve_once_effect [OF approve_once(1) conf_invD(2) [OF approve_once(2)]]
  show ?case
  proof (cases r2)
    case (Inr c)
    then obtain conf resource where "decide caller cid s = Inr (conf, resource)" "writes_row s cid c t" "same_call c conf"
      "PC_State c = ConfirmationApprovedOnce" using E by auto
    then show ?thesis using decide_Inr(1,4) [of caller cid s conf resource] by (auto simp: conf_reaches_def intro: advances_write)
  qed (use E in \<open>auto simp: advances_def same_call_def conf_reaches_def\<close>)
next
  case (approve_standing caller cid expiry s r3 t h)
  note E = approve_standing_effect [OF approve_standing(1) conf_invD(2) [OF approve_standing(2)]]
  show ?case
  proof (cases r3)
    case (Inr cg)
    obtain c g where cg: "cg = (c, g)" by force
    then obtain conf resource where "decide caller cid s = Inr (conf, resource)" "writes_row s cid c t" "same_call c conf"
      "PC_State c = ConfirmationApprovedStanding" using E Inr by auto
    then show ?thesis using decide_Inr(1,4) [of caller cid s conf resource] by (auto simp: conf_reaches_def intro: advances_write)
  qed (use E in \<open>auto simp: advances_def same_call_def conf_reaches_def\<close>)
next
  case (deny caller cid reason s r4 t h)
  then show ?case using deny_effect [OF deny(1) conf_invD(2) [OF deny(2)]] advances_keep
    by (auto simp: conf_reaches_def intro: advances_write)
next
  case (consume cid ah s r5 t h)
  note E = consume_effect [OF consume(1) conf_invD(2) [OF consume(2)]]
  show ?case
  proof (cases "once_release cid ah s")
    case True
    then obtain c conf where w: "gm_get (pendingConfirms s) cid = Some conf" "writes_row s cid c t" "same_call c conf"
      "PC_State c = ConfirmationApprovedOnce" using E(3) by blast
    moreover have "PC_State conf = ConfirmationApprovedOnce" using True w(1) by (auto simp: once_release_def)
    ultimately show ?thesis by (auto simp: conf_reaches_def intro: advances_write)
  next
    case False
    then show ?thesis using E(4) advances_keep by (auto simp: conf_reaches_def intro: advances_write)
  qed
next
  case (revoke usr gid s r6 t h)
  then show ?case using revoke_handler_store [of usr gid s] by (auto simp: keeps_rows_def intro!: advances_keep)
next
  case (elsewhere t s h)
  then show ?case by (simp add: advances_keep keeps_rows_def)
qed

section \<open>Properties\<close>

text \<open>C31. A confirmation only moves forward. Over every run, from a reachable store, a confirmation row is never
  lost, stays bound to its resource, agent, tool and argument hash, and its state follows the documented machine:
  pending may be approved or denied, an approval once may expire, and everything else is final.\<close>

theorem confirmation_only_advances:
  assumes "conf_init i" and "conf_step\<^sup>*\<^sup>* i (s, h)" and "conf_step\<^sup>*\<^sup>* (s, h) (t, h')" and "GetPendingConfirmation cid s = Inr c"
  shows "\<exists>c'. GetPendingConfirmation cid t = Inr c' \<and> same_call c' c \<and> conf_reaches (PC_State c) (PC_State c')"
proof -
  have inv: "conf_inv (s, h)" using conf_machine.reachable_inv [OF assms(1,2)] .
  have "conf_inv sh \<and> advances s (fst sh)" if "conf_step\<^sup>*\<^sup>* (s, h) sh" for sh
    using that
  proof (induction rule: rtranclp_induct)
    case base
    show ?case using inv advances_keep [of s s] by (simp add: keeps_rows_def)
  next
    case (step y z)
    have "advances s (fst z)" using step.IH conf_step_advances [OF step.hyps(2)] advances_trans by blast
    then show ?case using step conf_step_inv by blast
  qed
  then have "advances s t" using assms(3) by fastforce
  moreover have "gm_get (pendingConfirms s) cid = Some c" using assms(4) by (auto simp: GetPendingConfirmation_def split: option.splits)
  ultimately obtain c' where "gm_get (pendingConfirms t) cid = Some c'" "same_call c' c" "conf_reaches (PC_State c) (PC_State c')"
    unfolding advances_def by blast
  then show ?thesis by (simp add: GetPendingConfirmation_def)
qed

text \<open>What a release rests on.\<close>

lemma release_justified:
  assumes "conf_init i" and "conf_step\<^sup>*\<^sup>* i (s, h)" and "consumeConfirmation cid ah s = (Inr r, t)" and "CR_Allowed r"
  shows "\<exists>c u res at. GetPendingConfirmation cid s = Inr c \<and> (cid, PC_AgentID c, PC_Tool c, ah) \<in> set (H_Asked h) \<and>
    (cid, u, res, at) \<in> set (H_Approved h) \<and> requireConfirmationAuthority (Some u) res \<and>
    (if CR_Mode r = ''once'' then env_now s - at \<le> 15 * minute \<and> cid \<notin> set (H_Released h)
     else \<exists>g \<in> set (gm_vals (standingGrants s)). SG_RevokedAt g = None \<and> env_now s < SG_ExpiresAt g \<and>
            standing_for (PC_ResourceID c) (PC_AgentID c) (PC_Tool c) g)"
proof -
  have inv: "conf_inv (s, h)" using conf_machine.reachable_inv [OF assms(1,2)] .
  note E = consume_effect [OF assms(3) conf_invD(2) [OF inv]]
  consider c at where "CR_Mode r = ''once''" "gm_get (pendingConfirms s) cid = Some c" "PC_ArgsHash c = ah" "PC_State c = ConfirmationApprovedOnce"
      "PC_ConsumedAt c = None" "PC_ApprovedAt c = Some at" "env_now s - at \<le> confirmationOnceTTL"
    | c g where "CR_Mode r \<noteq> ''once''" "gm_get (pendingConfirms s) cid = Some c" "PC_ArgsHash c = ah" "PC_State c = ConfirmationApprovedStanding"
      "FindLiveStandingGrant (PC_ResourceID c) (PC_AgentID c) (PC_Tool c) (env_now s) s = Inr g"
    using E(1,2) assms(4) by (cases "CR_Mode r = ''once''") (auto simp: once_release_def standing_release_def)
  then show ?thesis
  proof cases
    case 1
    have row: "row_ok s h cid c" using conf_invD(1) [OF inv 1(2)] .
    then obtain u res where "(cid, u, res, at) \<in> set (H_Approved h)" using 1(4,6) by (auto simp: row_ok_def)
    moreover from this have "requireConfirmationAuthority (Some u) res" using conf_invD(3) [OF inv] by (auto simp: history_ok_def)
    moreover have "env_now s - at \<le> 15 * minute" "cid \<notin> set (H_Released h)"
      using 1 row by (simp_all add: row_ok_def confirmationOnceTTL_def)
    moreover have "GetPendingConfirmation cid s = Inr c" "(cid, PC_AgentID c, PC_Tool c, ah) \<in> set (H_Asked h)"
      using 1 row by (auto simp: row_ok_def GetPendingConfirmation_def)
    ultimately show ?thesis unfolding if_P [OF 1(1)] by blast
  next
    case 2
    have row: "row_ok s h cid c" using conf_invD(1) [OF inv 2(2)] .
    then obtain u res at where "(cid, u, res, at) \<in> set (H_Approved h)" using 2(4) by (auto simp: row_ok_def)
    moreover have "\<exists>g \<in> set (gm_vals (standingGrants s)). SG_RevokedAt g = None \<and> env_now s < SG_ExpiresAt g \<and>
            standing_for (PC_ResourceID c) (PC_AgentID c) (PC_Tool c) g"
      using 2(5) by (auto simp: FindLiveStandingGrant_def find_Some_iff split: option.splits dest: nth_mem)
    moreover have "requireConfirmationAuthority (Some u) res"
      using calculation(1) conf_invD(3) [OF inv] by (auto simp: history_ok_def)
    moreover have "GetPendingConfirmation cid s = Inr c" "(cid, PC_AgentID c, PC_Tool c, ah) \<in> set (H_Asked h)"
      using 2 row by (auto simp: row_ok_def GetPendingConfirmation_def)
    ultimately show ?thesis unfolding if_not_P [OF 2(1)] by blast
  qed
qed

text \<open>C3. A release is justified. When requests are served one at a time, a consume that answers allowed does so for
  the argument hash the agent asked with, after a decision by the owner of the resource or a platform admin; a single
  release comes at most fifteen minutes after that decision and only once, a standing one under a grant that is neither
  revoked nor expired.\<close>

theorem confirmation_release_justified:
  assumes "conf_init i" and "conf_step\<^sup>*\<^sup>* i (s, h)" and "consumeConfirmation cid ah s = (Inr r, t)" and "CR_Allowed r"
  shows "\<exists>c u res at. GetPendingConfirmation cid s = Inr c \<and> (cid, PC_AgentID c, PC_Tool c, ah) \<in> set (H_Asked h) \<and>
    (cid, u, res, at) \<in> set (H_Approved h) \<and> requireConfirmationAuthority (Some u) res \<and>
    (if CR_Mode r = ''once'' then env_now s - at \<le> 15 * minute \<and> cid \<notin> set (H_Released h)
     else \<exists>g \<in> set (gm_vals (standingGrants s)). SG_RevokedAt g = None \<and> env_now s < SG_ExpiresAt g \<and>
            standing_for (PC_ResourceID c) (PC_AgentID c) (PC_Tool c) g)"
  by (rule release_justified [OF assms])

text \<open>Overlapping consumes are both released. When two requests read an unconsumed approval before either
  writes, both are told that the call is allowed, although the approval is for a single call; a consume that reads
  after the first one wrote is refused as a replay.\<close>

theorem overlapping_consumes_both_release:
  assumes "GetPendingConfirmation cid s = Inr conf" and "PC_ID conf = cid" and "PC_State conf = ConfirmationApprovedOnce"
    and "PC_ConsumedAt conf = None" and "PC_ApprovedAt conf = Some at"
    and "now1 - at \<le> confirmationOnceTTL" and "now2 - at \<le> confirmationOnceTTL"
    and "consumeApprovedOnce conf now1 s = (r1, s1)" and "consumeApprovedOnce conf now2 s1 = (r2, s2)"
  shows "r1 = Inr (consume_allowed ''once'' []) \<and> r2 = Inr (consume_allowed ''once'' []) \<and>
    fst (consumeConfirmation cid (PC_ArgsHash conf) s1) = Inr (consume_refused ''denied_replayed'')"
proof -
  have get: "gm_get (pendingConfirms s) cid = Some conf"
    using assms(1) by (auto simp: GetPendingConfirmation_def split: option.splits)
  let ?up = "\<lambda>now. (ConfirmationUpdate_to ConfirmationApprovedOnce)\<lparr>CU_ConsumedAt := Some now\<rparr>"
  let ?c = "apply_confirmation_update (?up now1) (env_now s) conf"
  have one: "r1 = Inr (consume_allowed ''once'' [])" "s1 = s\<lparr>pendingConfirms := gm_put cid ?c (pendingConfirms s)\<rparr>"
    using assms(2-6,8) update_pending [OF get assms(3), of "?up now1"] by (auto simp: consumeApprovedOnce_def)
  have get1: "gm_get (pendingConfirms s1) cid = Some ?c" using one(2) by simp
  have st1: "PC_State ?c = ConfirmationApprovedOnce" "PC_ConsumedAt ?c = Some now1" "PC_ArgsHash ?c = PC_ArgsHash conf"
    by (simp_all add: apply_confirmation_update_def ConfirmationUpdate_to_def)
  have "r2 = Inr (consume_allowed ''once'' [])"
    using assms(2-5,7,9) update_pending [OF get1 st1(1), of "?up now2"] by (auto simp: consumeApprovedOnce_def)
  moreover have "fst (consumeConfirmation cid (PC_ArgsHash conf) s1) = Inr (consume_refused ''denied_replayed'')"
    using get1 st1 by (simp add: consumeConfirmation_def GetPendingConfirmation_def consumeApprovedOnce_def)
  ultimately show ?thesis using one(1) by blast
qed

lemma revoke_ok_effect:
  assumes "revokeStandingGrantHandler usr gid s = (RevokeOK g, t)"
  shows "\<exists>old. gm_get (standingGrants s) gid = Some old \<and> SG_RevokedAt old = None \<and> g = old\<lparr>SG_RevokedAt := Some (env_now s)\<rparr> \<and>
    (\<exists>res. GetResourceByID (SG_ResourceID g) s = Inr res \<and> requireConfirmationAuthority (Some usr) res) \<and>
    standingGrants t = gm_put gid g (standingGrants s)"
proof -
  obtain old where old: "gm_get (standingGrants s) gid = Some old"
    using assms by (cases "gm_get (standingGrants s) gid") (auto simp: revokeStandingGrantHandler_def GetStandingGrant_def split: if_splits)
  obtain res where res: "GetResourceByID (SG_ResourceID old) s = Inr res"
    using assms old by (cases "GetResourceByID (SG_ResourceID old) s") (auto simp: revokeStandingGrantHandler_def GetStandingGrant_def)
  have auth: "requireConfirmationAuthority (Some usr) res"
    using assms old res by (cases "requireConfirmationAuthority (Some usr) res") (auto simp: revokeStandingGrantHandler_def GetStandingGrant_def)
  have live: "SG_RevokedAt old = None"
    using assms old res auth by (cases "SG_RevokedAt old") (auto simp: revokeStandingGrantHandler_def GetStandingGrant_def RevokeStandingGrant_def split: if_splits)
  have "g = old\<lparr>SG_RevokedAt := Some (env_now s)\<rparr> \<and> standingGrants t = gm_put gid (old\<lparr>SG_RevokedAt := Some (env_now s)\<rparr>) (standingGrants s)"
    using assms old res auth live
    by (auto simp: revokeStandingGrantHandler_def GetStandingGrant_def RevokeStandingGrant_def Let_def confirmationTime_def)
  then show ?thesis using old res auth live by auto
qed

text \<open>C32. Revocation is immediate. Once an authorised caller has revoked a standing grant, no live grant for its
  resource, agent and tool is left: the check no longer answers auto and every confirmation that was approved for the
  future is refused, until a new standing approval.\<close>

theorem revoked_standing_releases_nothing:
  assumes "conf_init i" and "conf_step\<^sup>*\<^sup>* i (s, h)" and "revokeStandingGrantHandler usr gid s = (RevokeOK g, t)"
  shows "(\<exists>res. GetResourceByID (SG_ResourceID g) s = Inr res \<and> requireConfirmationAuthority (Some usr) res) \<and>
    (\<forall>now. FindLiveStandingGrant (SG_ResourceID g) (SG_AgentID g) (SG_Tool g) now t = Inl ErrNotFound) \<and>
    (\<forall>ah r t'. requestConfirmation (SG_ResourceID g) (SG_AgentID g) (SG_Tool g) ah t = (Inr r, t') \<longrightarrow> CCR_Mode r \<noteq> ''auto'') \<and>
    (\<forall>cid c. GetPendingConfirmation cid t = Inr c \<and> PC_State c = ConfirmationApprovedStanding \<and>
       standing_for (PC_ResourceID c) (PC_AgentID c) (PC_Tool c) g \<longrightarrow>
       fst (consumeConfirmation cid (PC_ArgsHash c) t) = Inr (consume_refused ''standing_grant_not_live''))"
proof -
  have inv: "standing_inv (s, h)" using standing_machine.reachable_inv [OF assms(1,2)] .
  obtain old where old: "gm_get (standingGrants s) gid = Some old" "SG_RevokedAt old = None" "g = old\<lparr>SG_RevokedAt := Some (env_now s)\<rparr>"
    and auth: "\<exists>res. GetResourceByID (SG_ResourceID g) s = Inr res \<and> requireConfirmationAuthority (Some usr) res"
    and t: "standingGrants t = gm_put gid g (standingGrants s)"
    using revoke_ok_effect [OF assms(3)] by blast
  have gone: "\<not> (SG_RevokedAt v = None \<and> standing_for (SG_ResourceID g) (SG_AgentID g) (SG_Tool g) v)"
    if v: "v \<in> set (gm_vals (standingGrants t))" for v
  proof -
    have "gm_wf (standingGrants t)" using inv unfolding t standing_inv_def standing_ok_def by simp
    then obtain k where k: "gm_get (standingGrants t) k = Some v" using v by (auto simp: gm_vals_iff)
    show ?thesis
    proof (cases "k = gid")
      case False
      then have "gm_get (standingGrants s) k = Some v" using k t by simp
      then have "\<not> same_standing old v"
        using inv old(1) False unfolding standing_inv_def standing_ok_def unique_by_def fst_conv by blast
      then show ?thesis using old by (auto simp: same_standing_def)
    qed (use k t old in auto)
  qed
  have none: "FindLiveStandingGrant (SG_ResourceID g) (SG_AgentID g) (SG_Tool g) now t = Inl ErrNotFound" for now
  proof -
    have "find (\<lambda>v. SG_RevokedAt v = None \<and> now < SG_ExpiresAt v \<and> standing_for (SG_ResourceID g) (SG_AgentID g) (SG_Tool g) v)
        (gm_vals (standingGrants t)) = None" using gone by (auto simp: find_None_iff)
    then show ?thesis by (simp add: FindLiveStandingGrant_def conj_ac)
  qed
  have "CCR_Mode r \<noteq> ''auto''" if "requestConfirmation (SG_ResourceID g) (SG_AgentID g) (SG_Tool g) ah t = (Inr r, t')" for ah r t'
    using that none by (auto simp: requestConfirmation_def open_confirmation_def Let_def split: sum.splits if_splits prod.splits)
  moreover have "fst (consumeConfirmation cid (PC_ArgsHash c) t) = Inr (consume_refused ''standing_grant_not_live'')"
    if "GetPendingConfirmation cid t = Inr c" and "PC_State c = ConfirmationApprovedStanding"
      and "standing_for (PC_ResourceID c) (PC_AgentID c) (PC_Tool c) g" for cid c
    using that none by (simp add: consumeConfirmation_def consumeStanding_def standing_for_def)
  ultimately show ?thesis using auth none by blast
qed

section \<open>A sample run\<close>

text \<open>An agent asks, the owner of the resource approves once or for the future.\<close>

definition demo_owner :: User where
  "demo_owner = User_zero\<lparr>User_ID := ''o''\<rparr>"

definition demo_conf0 :: MemoryStore where
  "demo_conf0 = demo_store\<lparr>users := [(''o'', demo_owner)], agents := [(''a'', Agent_zero\<lparr>Agent_ID := ''a''\<rparr>)],
     resources := [(''r'', RegistryResource_zero\<lparr>Res_ID := ''r'', Res_Name := ''db'', Res_OwnerUserID := ''o''\<rparr>)]\<rparr>"

definition demo_h0 :: conf_history where
  "demo_h0 = \<lparr>H_Asked = [], H_Approved = [], H_Released = []\<rparr>"

definition demo_asked :: MemoryStore where
  "demo_asked = snd (requestConfirmation ''r'' ''a'' ''query'' ''h1'' demo_conf0)"

definition demo_once :: MemoryStore where
  "demo_once = snd (approveConfirmationOnce (Some demo_owner) (demo_uuid 0) demo_asked)"

definition demo_future :: MemoryStore where
  "demo_future = snd (approveConfirmationStanding (Some demo_owner) (demo_uuid 0) None demo_asked)"

definition demo_h1 :: conf_history where
  "demo_h1 = note_ask ''a'' ''query'' ''h1'' (fst (requestConfirmation ''r'' ''a'' ''query'' ''h1'' demo_conf0)) demo_h0"

definition demo_h2 :: conf_history where
  "demo_h2 = note_approval (Some demo_owner) (demo_uuid 0) demo_asked (fst (approveConfirmationOnce (Some demo_owner) (demo_uuid 0) demo_asked)) demo_h1"

definition demo_h3 :: conf_history where
  "demo_h3 = note_approval (Some demo_owner) (demo_uuid 0) demo_asked (fst (approveConfirmationStanding (Some demo_owner) (demo_uuid 0) None demo_asked)) demo_h1"

lemma demo_conf_init: "conf_init (demo_conf0, demo_h0)"
  by (simp add: conf_init_def demo_conf0_def demo_store_def NewMemoryStore_def demo_h0_def)

lemma demo_ask_step: "conf_step\<^sup>*\<^sup>* (demo_conf0, demo_h0) (demo_asked, demo_h1)"
  unfolding demo_asked_def demo_h1_def by (intro r_into_rtranclp conf_step.ask) simp

lemma demo_once_step: "conf_step\<^sup>*\<^sup>* (demo_asked, demo_h1) (demo_once, demo_h2)"
  unfolding demo_once_def demo_h2_def by (intro r_into_rtranclp conf_step.approve_once) simp

lemma demo_future_step: "conf_step\<^sup>*\<^sup>* (demo_asked, demo_h1) (demo_future, demo_h3)"
  unfolding demo_future_def demo_h3_def by (intro r_into_rtranclp conf_step.approve_standing) simp

lemma demo_conf_evals:
  "case GetPendingConfirmation (demo_uuid 0) demo_asked of Inr c \<Rightarrow> PC_State c = ''pending'' \<and> PC_Tool c = ''query'' | _ \<Rightarrow> False"
  "case GetPendingConfirmation (demo_uuid 0) demo_once of Inr c \<Rightarrow> PC_State c = ''approved_once'' \<and> PC_ID c = demo_uuid 0 \<and>
     PC_ConsumedAt c = None \<and> PC_ApprovedAt c = Some 1000 \<and> PC_ArgsHash c = ''h1'' | _ \<Rightarrow> False"
  "case fst (consumeConfirmation (demo_uuid 0) ''h1'' demo_once) of Inr r \<Rightarrow> CR_Allowed r \<and> CR_Mode r = ''once'' | _ \<Rightarrow> False"
  "case fst (revokeStandingGrantHandler demo_owner (demo_uuid 2) demo_future) of RevokeOK g \<Rightarrow> SG_Tool g = ''query'' | _ \<Rightarrow> False"
  by code_simp+

theorem confirmation_only_advances_witness:
  "\<exists>c c'. GetPendingConfirmation (demo_uuid 0) demo_asked = Inr c \<and> GetPendingConfirmation (demo_uuid 0) demo_once = Inr c' \<and>
     same_call c' c \<and> conf_reaches (PC_State c) (PC_State c')"
proof -
  obtain c where "GetPendingConfirmation (demo_uuid 0) demo_asked = Inr c" using demo_conf_evals(1) by (auto split: sum.splits)
  then show ?thesis using confirmation_only_advances [OF demo_conf_init demo_ask_step demo_once_step] by blast
qed

theorem confirmation_release_justified_witness:
  "\<exists>c u res at. GetPendingConfirmation (demo_uuid 0) demo_once = Inr c \<and> (demo_uuid 0, u, res, at) \<in> set (H_Approved demo_h2) \<and>
     requireConfirmationAuthority (Some u) res"
proof -
  obtain r where r: "fst (consumeConfirmation (demo_uuid 0) ''h1'' demo_once) = Inr r" "CR_Allowed r"
    using demo_conf_evals(3) by (auto split: sum.splits)
  then have "consumeConfirmation (demo_uuid 0) ''h1'' demo_once = (Inr r, snd (consumeConfirmation (demo_uuid 0) ''h1'' demo_once))"
    by (metis prod.collapse)
  from confirmation_release_justified [OF demo_conf_init rtranclp_trans [OF demo_ask_step demo_once_step] this r(2)]
  show ?thesis by blast
qed

theorem overlapping_consumes_both_release_witness:
  "\<exists>conf s1. GetPendingConfirmation (demo_uuid 0) demo_once = Inr conf \<and>
     consumeApprovedOnce conf 1000 demo_once = (Inr (consume_allowed ''once'' []), s1) \<and>
     fst (consumeApprovedOnce conf 1001 s1) = Inr (consume_allowed ''once'' [])"
proof -
  obtain c where c: "GetPendingConfirmation (demo_uuid 0) demo_once = Inr c" "PC_State c = ''approved_once''" "PC_ID c = demo_uuid 0"
    "PC_ConsumedAt c = None" "PC_ApprovedAt c = Some 1000"
    using demo_conf_evals(2) by (auto split: sum.splits)
  obtain r1 s1 r2 s2 where "consumeApprovedOnce c 1000 demo_once = (r1, s1)" "consumeApprovedOnce c 1001 s1 = (r2, s2)" by fastforce
  with overlapping_consumes_both_release [OF c(1,3) _ c(4,5) _ _ this] c(2) show ?thesis
    using c(1) by (simp add: ConfirmationApprovedOnce_def confirmationOnceTTL_def)
qed

theorem revoked_standing_releases_nothing_witness:
  "\<exists>g t. revokeStandingGrantHandler demo_owner (demo_uuid 2) demo_future = (RevokeOK g, t) \<and>
     FindLiveStandingGrant (SG_ResourceID g) (SG_AgentID g) (SG_Tool g) 1000 t = Inl ErrNotFound"
proof -
  obtain g where "fst (revokeStandingGrantHandler demo_owner (demo_uuid 2) demo_future) = RevokeOK g"
    using demo_conf_evals(4) by (auto split: revoke_status.splits)
  then have "revokeStandingGrantHandler demo_owner (demo_uuid 2) demo_future =
      (RevokeOK g, snd (revokeStandingGrantHandler demo_owner (demo_uuid 2) demo_future))" by (metis prod.collapse)
  with revoked_standing_releases_nothing [OF demo_conf_init rtranclp_trans [OF demo_ask_step demo_future_step] this]
  show ?thesis by blast
qed

end
