(* ===== verification/Gateway_Compose.thy ===== *)
theory Gateway_Compose
  imports Gateway_Serve_Laws Confirm_Api Confirm_Laws Gateway_Policy
begin

text \<open>
  The gateway and the control plane together: the gate's client talks to the confirmation handlers of the memory store,
  so that what the gate lets through can be traced to a decision of the owner.
\<close>

section \<open>The wire\<close>

definition wire :: "('a \<Rightarrow> 'b) \<Rightarrow> 'a conf_reply \<Rightarrow> 'b post_result" where
  "wire conv reply = (case reply of ConfOK v \<Rightarrow> PostAnswer 200 (Inr (conv v)) | ConfError code kind msg \<Rightarrow> PostAnswer code (Inl msg))"

definition check_wire :: "ConfirmationCheckResult \<Rightarrow> CheckResult" where
  "check_wire r = \<lparr>CK_Mode = CCR_Mode r, CK_ConfirmationID = CCR_ConfirmationID r, CK_MatchedStandingGrantID = CCR_MatchedStandingGrantID r\<rparr>"

definition consume_wire :: "ConfirmationConsumeResult \<Rightarrow> ConsumeResult" where
  "consume_wire r = \<lparr>CS_Allowed = CR_Allowed r, CS_Mode = CR_Mode r, CS_Reason = CR_Reason r,
     CS_MatchedStandingGrantID = CR_MatchedStandingGrantID r\<rparr>"

definition control_plane :: "MemoryStore confirmation_api" where
  "control_plane =
     \<lparr>API_check = (\<lambda>rid a tool ah s. let (r, s') = confirmationCheckHandler (Some (rid, a, tool, ah)) s in (wire check_wire r, s')),
      API_consume = (\<lambda>cid ah s. let (r, s') = confirmationConsumeHandler (Some (cid, ah)) s in (wire consume_wire r, s'))\<rparr>"

lemma conf_error_not_200: "writeConfirmationError e = ConfError code kind msg \<Longrightarrow> code \<noteq> 200"
  by (auto simp: writeConfirmationError_def split: conf_error.splits)

lemma consume_answer:
  assumes "API_consume control_plane cid ah s = (PostAnswer 200 (Inr out), s')" and "CS_Allowed out"
  shows "\<exists>r. consumeConfirmation cid ah s = (Inr r, s') \<and> CR_Allowed r"
  using assms
  by (auto simp: control_plane_def confirmationConsumeHandler_def wire_def conf_respond_def writeConfirmationError_def consume_wire_def
      split: if_splits prod.splits sum.splits conf_reply.splits conf_error.splits)

lemma check_answer:
  assumes "API_check control_plane rid a tool ah s = (PostAnswer 200 (Inr out), s')" and "CK_Mode out = ''auto''"
  shows "\<exists>r. requestConfirmation rid a tool ah s = (Inr r, s') \<and> CCR_Mode r = ''auto''"
  using assms
  by (auto simp: control_plane_def confirmationCheckHandler_def wire_def conf_respond_def writeConfirmationError_def check_wire_def
      split: if_splits prod.splits sum.splits conf_reply.splits conf_error.splits)

lemma auto_needs_live_grant:
  assumes "requestConfirmation rid a tool ah s = (Inr r, s')" and "CCR_Mode r = ''auto''"
  shows "\<exists>sg. FindLiveStandingGrant rid a tool (env_now s) s = Inr sg"
  using assms by (auto simp: requestConfirmation_def open_confirmation_def confirmationTime_def Let_def split: sum.splits if_splits prod.splits)

section \<open>Gated calls are approved\<close>


section \<open>A sample run\<close>

definition demo_hash :: string where
  "demo_hash = ''000000017200000009726573745f63616c6c0000000178''"

definition demo_world1 :: MemoryStore where
  "demo_world1 = snd (requestConfirmation ''r'' ''a'' ''rest_call'' demo_hash demo_conf0)"

definition demo_world2 :: MemoryStore where
  "demo_world2 = snd (approveConfirmationOnce (Some demo_owner) (demo_uuid 0) demo_world1)"

definition demo_hist1 :: conf_history where
  "demo_hist1 = note_ask ''a'' ''rest_call'' demo_hash (fst (requestConfirmation ''r'' ''a'' ''rest_call'' demo_hash demo_conf0)) demo_h0"

definition demo_hist2 :: conf_history where
  "demo_hist2 = note_approval (Some demo_owner) (demo_uuid 0) demo_world1 (fst (approveConfirmationOnce (Some demo_owner) (demo_uuid 0) demo_world1)) demo_hist1"

lemma demo_world_run: "conf_step\<^sup>*\<^sup>* (demo_conf0, demo_h0) (demo_world2, demo_hist2)"
proof -
  have "conf_step (demo_conf0, demo_h0) (demo_world1, demo_hist1)" unfolding demo_world1_def demo_hist1_def by (intro conf_step.ask) simp
  moreover have "conf_step (demo_world1, demo_hist1) (demo_world2, demo_hist2)"
    unfolding demo_world2_def demo_hist2_def by (intro conf_step.approve_once) simp
  ultimately show ?thesis by (meson converse_rtranclp_into_rtranclp r_into_rtranclp)
qed

abbreviation demo_call :: "unit reply \<times> MemoryStore gateway" where
  "demo_call \<equiv> ServeHTTP (demo_deps control_plane) RestCall (demo_rq (demo_uuid 0)) (demo_gw demo_world2)"

lemma demo_hash_value: "ArgsHash (\<lambda>s. s) ''r'' ''rest_call'' ''x'' = demo_hash"
  by (simp add: demo_hash_def ArgsHash_def args_frame_def writeField_def PutUint32_def hex_encode_def hex_digit_def byte_of_def char_of_def bit_0)

lemma demo_consume:
  "case consumeConfirmation (demo_uuid 0) demo_hash demo_world2 of (Inr r, s) \<Rightarrow> CR_Allowed r | _ \<Rightarrow> False"
  "TrimSpace (demo_uuid 0) = demo_uuid 0" "demo_uuid 0 \<noteq> []" "TrimSpace demo_hash \<noteq> []"
  by code_simp+

lemma demo_gate:
  "\<exists>g2. confirmationGate (\<lambda>s. s) (Some control_plane) (demo_uuid 0) ''q1'' ''a'' demo_grant ''rest_call'' ''rest_call'' ''x''
     ((demo_gw demo_world2)\<lparr>GW_Policy := demo_cached\<rparr>) = (Proceed True :: unit gate, g2) \<and> GW_Calls g2 = []"
proof -
  obtain r s where "consumeConfirmation (demo_uuid 0) demo_hash demo_world2 = (Inr r, s)" "CR_Allowed r"
    using demo_consume(1) by (auto split: prod.splits sum.splits)
  then show ?thesis
    using demo_consume(2,3,4) demo_grant_facts(2,5)
    by (auto simp: confirmationGate_def Client_Consume_def control_plane_def confirmationConsumeHandler_def wire_def conf_respond_def post_def
        consume_wire_def demo_gw_def gateAudit_def Emit_def demo_hash_value)
qed

lemma demo_call_calls: "GW_Calls (snd demo_call) = [(''rest'', True, driver_request (demo_rq (demo_uuid 0)) demo_caller ''rest_call'' ''x'' demo_grant)]"
  using demo_gate demo_serve(1) [where api = control_plane and w = demo_world2 and cid = "demo_uuid 0"] by auto


section \<open>Two gaps of the gate\<close>

text \<open>A confirmation is not bound to the agent that asked for it: neither the argument hash nor the consume request names
  the agent, so the confirmation opened by one agent releases the same call of another agent that has a grant.\<close>

lemma consume_ignores_the_agent:
  "released sha client header a1 grant operation tool payload w \<Longrightarrow> TrimSpace header \<noteq> [] \<Longrightarrow> released sha client header a2 grant operation tool payload w"
  by (simp add: released_def)

text \<open>The gate looks a tool up under the name in the body, the MCP driver under the trimmed name and only under the older
  spelling of the flag. A per-tool \<^verbatim>\<open>require_confirmation\<close> is passed by without confirmation by a space before the name.\<close>

definition padded_grant :: Grant where
  "padded_grant = \<lparr>G_ResourceID = ''r'', G_ResourceType = ''mcp'', G_Config = Raw (JObj [(''url'', JStr ''https://m'')]), G_Constraints = RawEmpty,
     G_Ceiling = Raw (JObj [(''tools_allow'', JArr [JStr ''drop'']), (''per_tool'', JObj [(''drop'', JObj [(''require_confirmation'', JBool True)])])]),
     G_RiskTier = [], G_EgressClass = []\<rparr>"

lemma padded_tool_escapes_gate:
  "ConfirmationRequired padded_grant ''drop''" "\<not> ConfirmationRequired padded_grant '' drop''"
  "case mcp_EffectivePolicy (G_Config padded_grant) (G_Ceiling padded_grant) (G_Constraints padded_grant) (G_EgressClass padded_grant) of
     Inl e \<Rightarrow> False | Inr p \<Rightarrow> toolAllowed p (TrimSpace '' drop'') \<and> \<not> requiresConfirmation p (TrimSpace '' drop'')"
  by code_simp+

end
