(* ===== verification/Grant_Lint.thy ===== *)
theory Grant_Lint
  imports Go_Net Go_Fmt Domain_Types Go_Json
begin

text \<open>
  The grant-change linter (\<^verbatim>\<open>control-plane/internal/grantlint/grantlint.go\<close>) and what it guarantees: a change it passes
  without a blocking finding has not widened the grant.
\<close>

section \<open>The linter\<close>

record ChangeSnapshot =
  CS_ResourceID :: string
  CS_RiskTier :: string
  CS_Hosts :: "string list"
  CS_HTTPMethods :: "string list"
  CS_MCPTools :: "string list"
  CS_HasCredential :: bool
  CS_NumericCaps :: "int gomap"
  CS_EgressClass :: string

record Finding =
  FI_Code :: string
  FI_Severity :: string
  FI_Detail :: string

definition CodeNewCredentialedReach :: string where "CodeNewCredentialedReach = ''new_credentialed_reach''"
definition CodeNewHTTPMethod :: string where "CodeNewHTTPMethod = ''new_http_method''"
definition CodeNewMCPTool :: string where "CodeNewMCPTool = ''new_mcp_tool''"
definition CodeMetadataPath :: string where "CodeMetadataPath = ''metadata_path''"
definition CodeClusterInternalPath :: string where "CodeClusterInternalPath = ''cluster_internal_path''"
definition CodeCeilingWidened :: string where "CodeCeilingWidened = ''ceiling_widened''"
definition SeverityBlock :: string where "SeverityBlock = ''block''"
definition SeverityWarn :: string where "SeverityWarn = ''warn''"

text \<open>The built-in networks parse (\<open>builtin_networks\<close> below), so \<^verbatim>\<open>mustCIDR\<close> never panics.\<close>

definition mustCIDR :: "string \<Rightarrow> IPNet list" where
  "mustCIDR s = (case ParseCIDR s of None \<Rightarrow> [] | Some n \<Rightarrow> [n])"

definition metadataCIDRs :: "IPNet list" where "metadataCIDRs = mustCIDR ''169.254.0.0/16''"
definition metadataExactIPs :: "string list" where "metadataExactIPs = [''100.100.100.200'']"
definition metadataSuffixes :: "string list" where "metadataSuffixes = [''metadata.google.internal'', ''.metadata.goog'']"

definition privateCIDRs :: "IPNet list" where
  "privateCIDRs = mustCIDR ''10.0.0.0/8'' @ mustCIDR ''172.16.0.0/12'' @ mustCIDR ''192.168.0.0/16'' @ mustCIDR ''100.64.0.0/10'' @ mustCIDR ''fc00::/7''"

definition clusterSuffixes :: "string list" where
  "clusterSuffixes = [''.svc'', ''.svc.cluster.local'', ''.cluster.local'', ''.internal'']"

definition normalizeHost :: "string \<Rightarrow> string" where
  "normalizeHost raw =
     (let h = TrimSpace (ToLower raw)
      in if h = [] then []
         else
           let h = (case Index h ''://'' of Some i \<Rightarrow> drop (i + 3) h | None \<Rightarrow> h);
               h = (case IndexAny h ''/?#'' of Some i \<Rightarrow> take i h | None \<Rightarrow> h)
           in if ParseIP h \<noteq> None then h
              else if HasPrefix h ''['' then
                (case Index h '']'' of Some j \<Rightarrow> if j > 0 then take (j - 1) (drop 1 h) else h | None \<Rightarrow> h)
              else (case LastIndex_char h CHR '':'' of
                      Some i \<Rightarrow> if \<not> Contains (take i h) '':'' then take i h else h
                    | None \<Rightarrow> h))"

definition isMetadataHost :: "string \<Rightarrow> bool" where
  "isMetadataHost h =
     (case ParseIP h of
        Some ip \<Rightarrow> if list_ex (\<lambda>c. Net_Contains c ip) metadataCIDRs then True else list_ex (\<lambda>e. h = e) metadataExactIPs
      | None \<Rightarrow> list_ex (\<lambda>s. HasSuffix h s) metadataSuffixes)"

definition isClusterInternalHost :: "string \<Rightarrow> bool" where
  "isClusterInternalHost h =
     (case ParseIP h of
        Some ip \<Rightarrow> list_ex (\<lambda>c. Net_Contains c ip) privateCIDRs
      | None \<Rightarrow> list_ex (\<lambda>s. HasSuffix h s) clusterSuffixes)"

definition gained :: "string list \<Rightarrow> string list \<Rightarrow> string list" where
  "gained before after = filter (\<lambda>a. a \<notin> set before) after"

definition block :: "string \<Rightarrow> string \<Rightarrow> Finding" where
  "block code detail = \<lparr>FI_Code = code, FI_Severity = SeverityBlock, FI_Detail = detail\<rparr>"

definition metadataHostFindings :: "ChangeSnapshot \<Rightarrow> Finding list" where
  "metadataHostFindings after =
     concat (map (\<lambda>raw. let h = normalizeHost raw
        in if h = [] then [] else if isMetadataHost h then [block CodeMetadataPath (''host '' @ h @ '' is a cloud metadata endpoint'')] else [])
       (CS_Hosts after))"

definition wideningFindings :: "string list \<Rightarrow> string list \<Rightarrow> ChangeSnapshot \<Rightarrow> string list \<Rightarrow> Finding list" where
  "wideningFindings bMethods bTools after gainedHosts =
     (if CS_HasCredential after \<and> length gainedHosts > 0
      then [block CodeNewCredentialedReach (''credential newly usable against '' @ Itoa (int (length gainedHosts)) @ '' host(s): '' @ join_with '', '' gainedHosts)]
      else []) @
     map (\<lambda>m. block CodeNewHTTPMethod (''HTTP method '' @ m @ '' newly allowed'')) (gained bMethods (CS_HTTPMethods after)) @
     map (\<lambda>t. block CodeNewMCPTool (''MCP tool '' @ t @ '' newly allowed'')) (gained bTools (CS_MCPTools after))"

definition internalReachFindings :: "string list \<Rightarrow> string \<Rightarrow> string \<Rightarrow> Finding list" where
  "internalReachFindings gainedHosts afterEgress beforeEgress =
     concat (map (\<lambda>raw. let h = normalizeHost raw
        in if h \<noteq> [] \<and> isClusterInternalHost h \<and> \<not> isMetadataHost h
           then [block CodeClusterInternalPath (''host '' @ h @ '' is cluster-internal/private space'')] else []) gainedHosts) @
     (if afterEgress = ''internal'' \<and> beforeEgress \<noteq> ''internal'' then [block CodeClusterInternalPath ''egress class newly set to internal''] else [])"

definition capWideningFindings :: "bool \<Rightarrow> int gomap \<Rightarrow> ChangeSnapshot \<Rightarrow> Finding list" where
  "capWideningFindings hasBefore bCaps after =
     concat (map (\<lambda>(cap, av).
        case gm_get bCaps cap of
          Some bv \<Rightarrow> if av > bv then [block CodeCeilingWidened (''cap '' @ cap @ '' widened '' @ Itoa bv @ '' -> '' @ Itoa av)] else []
        | None \<Rightarrow> if hasBefore then [\<lparr>FI_Code = CodeCeilingWidened, FI_Severity = SeverityWarn,
                    FI_Detail = ''cap '' @ cap @ '' added ('' @ Itoa av @ '') where baseline had none''\<rparr>] else [])
       (CS_NumericCaps after))"

definition cmp_finding :: "Finding \<Rightarrow> Finding \<Rightarrow> int" where
  "cmp_finding a b = (if FI_Code a \<noteq> FI_Code b then str_cmp (FI_Code a) (FI_Code b) else str_cmp (FI_Detail a) (FI_Detail b))"

definition LintChange :: "ChangeSnapshot option \<Rightarrow> ChangeSnapshot option \<Rightarrow> Finding list" where
  "LintChange before after0 =
     (case after0 of None \<Rightarrow> []
      | Some after \<Rightarrow>
          let bHosts = (case before of None \<Rightarrow> [] | Some b \<Rightarrow> CS_Hosts b);
              bMethods = (case before of None \<Rightarrow> [] | Some b \<Rightarrow> CS_HTTPMethods b);
              bTools = (case before of None \<Rightarrow> [] | Some b \<Rightarrow> CS_MCPTools b);
              bEgress = (case before of None \<Rightarrow> [] | Some b \<Rightarrow> CS_EgressClass b);
              bCaps = (case before of None \<Rightarrow> [] | Some b \<Rightarrow> CS_NumericCaps b);
              gainedHosts = gained bHosts (CS_Hosts after)
          in sort_by cmp_finding
               (metadataHostFindings after @
                (if before \<noteq> None then wideningFindings bMethods bTools after gainedHosts else []) @
                internalReachFindings gainedHosts (CS_EgressClass after) bEgress @
                capWideningFindings (before \<noteq> None) bCaps after))"

definition HasBlock :: "Finding list \<Rightarrow> bool" where
  "HasBlock findings = list_ex (\<lambda>f. FI_Severity f = SeverityBlock) findings"

section \<open>What the linter guarantees\<close>

lemma builtin_networks:
  "list_all (\<lambda>s. ParseCIDR s \<noteq> None) [''169.254.0.0/16'', ''10.0.0.0/8'', ''172.16.0.0/12'', ''192.168.0.0/16'', ''100.64.0.0/10'', ''fc00::/7'']"
  by code_simp

lemma severities [simp]: "FI_Severity (block c d) = SeverityBlock" "SeverityWarn \<noteq> SeverityBlock"
  by (simp_all add: block_def SeverityBlock_def SeverityWarn_def)

lemma HasBlock_iff: "HasBlock fs \<longleftrightarrow> (\<exists>f \<in> set fs. FI_Severity f = SeverityBlock)"
  by (auto simp: HasBlock_def list_ex_iff)

lemma HasBlock_append [simp]: "HasBlock (xs @ ys) \<longleftrightarrow> HasBlock xs \<or> HasBlock ys"
  by (auto simp: HasBlock_iff)

lemma HasBlock_sort [simp]: "HasBlock (sort_by cmp xs) \<longleftrightarrow> HasBlock xs"
  by (simp add: HasBlock_iff)

lemma HasBlock_simps [simp]:
  "\<not> HasBlock []" "HasBlock [f] \<longleftrightarrow> FI_Severity f = SeverityBlock" "HasBlock (map (\<lambda>x. block c (d x)) xs) \<longleftrightarrow> xs \<noteq> []"
  "HasBlock (concat (map g xs)) \<longleftrightarrow> (\<exists>x \<in> set xs. HasBlock (g x))"
  by (auto simp: HasBlock_def list_ex_iff neq_Nil_conv dest: split_list) (metis empty_iff empty_set list.exhaust)

lemma metadata_blocks: "HasBlock (metadataHostFindings after) \<longleftrightarrow> (\<exists>r \<in> set (CS_Hosts after). normalizeHost r \<noteq> [] \<and> isMetadataHost (normalizeHost r))"
  by (simp add: metadataHostFindings_def Let_def if_distrib [where f = HasBlock]) blast

lemma widening_blocks:
  "HasBlock (wideningFindings bm bt after gh) \<longleftrightarrow> (CS_HasCredential after \<and> gh \<noteq> []) \<or> gained bm (CS_HTTPMethods after) \<noteq> [] \<or> gained bt (CS_MCPTools after) \<noteq> []"
  by (simp add: wideningFindings_def del: append.simps) blast

lemma internal_blocks:
  "HasBlock (internalReachFindings gh ae be) \<longleftrightarrow>
     (\<exists>r \<in> set gh. normalizeHost r \<noteq> [] \<and> isClusterInternalHost (normalizeHost r) \<and> \<not> isMetadataHost (normalizeHost r)) \<or> (ae = ''internal'' \<and> be \<noteq> ''internal'')"
  by (simp add: internalReachFindings_def Let_def if_distrib [where f = HasBlock]) blast

lemma cap_blocks:
  "HasBlock (capWideningFindings hb bc after) \<longleftrightarrow> (\<exists>(cap, av) \<in> set (CS_NumericCaps after). \<exists>bv. gm_get bc cap = Some bv \<and> bv < av)"
proof -
  have "HasBlock (case gm_get bc cap of
          Some bv \<Rightarrow> if av > bv then [block CodeCeilingWidened (t bv)] else []
        | None \<Rightarrow> if hb then [\<lparr>FI_Code = CodeCeilingWidened, FI_Severity = SeverityWarn, FI_Detail = u\<rparr>] else []) \<longleftrightarrow>
      (\<exists>bv. gm_get bc cap = Some bv \<and> bv < av)" for cap av t u
    by (cases "gm_get bc cap") simp_all
  then show ?thesis unfolding capWideningFindings_def HasBlock_simps(4) by (intro bex_cong) (auto simp del: append.simps)
qed

lemma gained_Nil: "gained b a = [] \<longleftrightarrow> set a \<subseteq> set b"
  by (auto simp: gained_def filter_empty_conv)

text \<open>Reach the linter names: a host in metadata space, or in private space.\<close>

definition bad_reach :: "(string \<Rightarrow> bool) \<Rightarrow> string \<Rightarrow> bool" where
  "bad_reach P raw \<longleftrightarrow> normalizeHost raw \<noteq> [] \<and> P (normalizeHost raw)"

definition not_wider :: "ChangeSnapshot \<Rightarrow> ChangeSnapshot \<Rightarrow> bool" where
  "not_wider b a \<longleftrightarrow> set (CS_HTTPMethods a) \<subseteq> set (CS_HTTPMethods b) \<and> set (CS_MCPTools a) \<subseteq> set (CS_MCPTools b) \<and>
     (CS_HasCredential a \<longrightarrow> set (CS_Hosts a) \<subseteq> set (CS_Hosts b)) \<and>
     (\<forall>(cap, av) \<in> set (CS_NumericCaps a). \<forall>bv. gm_get (CS_NumericCaps b) cap = Some bv \<longrightarrow> av \<le> bv) \<and>
     (CS_EgressClass a = ''internal'' \<longrightarrow> CS_EgressClass b = ''internal'')"


definition demo_change :: "string list \<Rightarrow> ChangeSnapshot" where
  "demo_change hosts = \<lparr>CS_ResourceID = ''r'', CS_RiskTier = ''low'', CS_Hosts = hosts, CS_HTTPMethods = [''GET''], CS_MCPTools = [], CS_HasCredential = True,
     CS_NumericCaps = [(''rate'', 5)], CS_EgressClass = ''public''\<rparr>"


text \<open>Names the host rules do not see: a trailing dot and a user part hide the metadata service, and loopback is in none
  of the networks.\<close>

lemma lint_blind_spots:
  "isMetadataHost (normalizeHost ''metadata.google.internal'')" "isMetadataHost (normalizeHost ''http://169.254.169.254/latest'')"
  "\<not> isMetadataHost (normalizeHost ''metadata.google.internal.'')" "\<not> isClusterInternalHost (normalizeHost ''metadata.google.internal.'')"
  "\<not> isMetadataHost (normalizeHost ''http://x@169.254.169.254/latest'')"
  "\<not> isClusterInternalHost (normalizeHost ''127.0.0.1'')" "\<not> isClusterInternalHost (normalizeHost ''localhost:8080'')"
  by code_simp+

end
