(* ===== verification/Grant_Flow.thy ===== *)
theory Grant_Flow
  imports Grant_Lint Confirm_Store Squad_Store
begin

text \<open>
  The grant-request workflow of \<^verbatim>\<open>control-plane/internal/httpapi/grant_requests.go\<close>: routing by owner, tier and linter
  findings, the two approvals, denial, and the materialised permission. The linter is injected, as in the code (\<open>None\<close> when
  it is not wired); \<open>js\<close> reads the JSON text of a ceiling or scope.
\<close>

section \<open>The change to lint\<close>

record grantScopeFields =
  GS_Hosts :: "string list option"
  GS_HTTPMethods :: "string list option"
  GS_MCPTools :: "string list option"
  GS_HasCredential :: "bool option"
  GS_NumericCaps :: "int gomap option"

text \<open>The unmarshal error is ignored: a member that does not decode leaves its field, and the others are still read.\<close>

definition best_strings :: "string list option \<Rightarrow> json \<Rightarrow> string list option" where
  "best_strings old v = (case v of JNull \<Rightarrow> None | JArr xs \<Rightarrow> Some (map elem_string xs) | _ \<Rightarrow> old)"

definition best_bool :: "bool option \<Rightarrow> json \<Rightarrow> bool option" where
  "best_bool old v = (case v of JNull \<Rightarrow> None | JBool b \<Rightarrow> Some b | _ \<Rightarrow> (case old of None \<Rightarrow> Some False | Some b \<Rightarrow> Some b))"

definition best_int :: "json \<Rightarrow> int" where
  "best_int v = (case un_int v of None \<Rightarrow> 0 | Some n \<Rightarrow> n)"

definition best_caps :: "int gomap option \<Rightarrow> json \<Rightarrow> int gomap option" where
  "best_caps old v =
     (case v of JNull \<Rightarrow> None
      | JObj kvs \<Rightarrow> Some (fold (\<lambda>(k, x) m. gm_put k (best_int x) m) kvs (case old of None \<Rightarrow> [] | Some m \<Rightarrow> m))
      | _ \<Rightarrow> old)"

definition scope_fields :: "RawMessage \<Rightarrow> grantScopeFields" where
  "scope_fields raw =
     (let kvs = (case raw of Raw v \<Rightarrow> (case un_struct v of None \<Rightarrow> [] | Some kvs \<Rightarrow> kvs) | _ \<Rightarrow> [])
      in \<lparr>GS_Hosts = foldl best_strings None (field_values ''hosts'' kvs),
          GS_HTTPMethods = foldl best_strings None (field_values ''http_methods'' kvs),
          GS_MCPTools = foldl best_strings None (field_values ''mcp_tools'' kvs),
          GS_HasCredential = foldl best_bool None (field_values ''has_credential'' kvs),
          GS_NumericCaps = foldl best_caps None (field_values ''numeric_caps'' kvs)\<rparr>)"

definition over :: "'a option \<Rightarrow> 'a option \<Rightarrow> 'a \<Rightarrow> 'a" where
  "over requested ceiling nil = (case requested of Some x \<Rightarrow> x | None \<Rightarrow> (case ceiling of Some x \<Rightarrow> x | None \<Rightarrow> nil))"

definition grantSnapshotFor :: "(string \<Rightarrow> RawMessage) \<Rightarrow> RegistryResource \<Rightarrow> string \<Rightarrow> ChangeSnapshot" where
  "grantSnapshotFor js resource scope =
     (let ceiling = scope_fields (js (Res_PolicyCeiling resource)); requested = scope_fields (js scope)
      in \<lparr>CS_ResourceID = Res_ID resource, CS_RiskTier = Res_RiskTier resource,
          CS_Hosts = over (GS_Hosts requested) (GS_Hosts ceiling) [],
          CS_HTTPMethods = over (GS_HTTPMethods requested) (GS_HTTPMethods ceiling) [],
          CS_MCPTools = over (GS_MCPTools requested) (GS_MCPTools ceiling) [],
          CS_HasCredential = (GS_HasCredential requested = Some True \<or> TrimSpace (Res_AuthRef resource) \<noteq> []),
          CS_NumericCaps = over (GS_NumericCaps requested) (GS_NumericCaps ceiling) [],
          CS_EgressClass = Res_EgressClass resource\<rparr>)"

type_synonym GrantLinter = "ChangeSnapshot option \<Rightarrow> ChangeSnapshot option \<Rightarrow> Finding list"

record grant_env =
  GE_Linter :: "GrantLinter option"
  GE_Json :: "string \<Rightarrow> RawMessage"

definition lintGrant :: "grant_env \<Rightarrow> RegistryResource \<Rightarrow> string \<Rightarrow> GrantLintFinding list" where
  "lintGrant ge resource scope =
     (case GE_Linter ge of None \<Rightarrow> []
      | Some linter \<Rightarrow>
          map (\<lambda>f. \<lparr>GLF_Code = FI_Code f, GLF_Severity = FI_Severity f, GLF_Detail = FI_Detail f\<rparr>)
            (linter None (Some (grantSnapshotFor (GE_Json ge) resource scope))))"

section \<open>Inbox messages\<close>

definition notifyInboxUser :: "string \<Rightarrow> string \<Rightarrow> string \<Rightarrow> string \<Rightarrow> MemoryStore \<Rightarrow> MemoryStore" where
  "notifyInboxUser userID kind subject body s =
     (if userID = [] then s
      else snd (CreateInboxMessage (InboxMessage_zero\<lparr>Inb_UserID := userID, Inb_Kind := kind, Inb_Message := subject, Inb_Subject := subject, Inb_Body := body\<rparr>) s))"

definition notifyPlatformAdmins :: "string \<Rightarrow> string \<Rightarrow> string \<Rightarrow> MemoryStore \<Rightarrow> MemoryStore" where
  "notifyPlatformAdmins kind subject body s =
     fold (\<lambda>u. if User_Role u = RolePlatformAdmin then notifyInboxUser (User_ID u) kind subject body else (\<lambda>t. t)) (ListUsers s) s"

definition findingsSummaryForMessage :: "GrantLintFinding list \<Rightarrow> string" where
  "findingsSummaryForMessage findings =
     (if findings = [] then []
      else '' Linter findings '' @ [char_of (226 :: nat), char_of (128 :: nat), char_of (148 :: nat)] @ '' '' @
        join_with ''; '' (map (\<lambda>f. ''['' @ ToUpper (GLF_Severity f) @ ''] '' @ GLF_Code f @ '': '' @ GLF_Detail f) findings))"

definition notifyGrantPending :: "GrantRequest \<Rightarrow> RegistryResource \<Rightarrow> MemoryStore \<Rightarrow> MemoryStore" where
  "notifyGrantPending req resource s =
     (let findingNote = findingsSummaryForMessage (GR_Findings req)
      in if GR_State req = GrantRequestPendingOwner then
           notifyInboxUser (Res_OwnerUserID resource) InboxActionRequired ''Grant request awaiting your review''
             (''User '' @ GR_RequesterUserID req @ '' requested access for agent '' @ GR_AgentID req @ '' to resource '' @ Res_Name resource @
              '' ('' @ GR_Tier req @ '' tier).'' @ findingNote) s
         else if GR_State req = GrantRequestPendingAdmin then
           notifyPlatformAdmins InboxActionRequired ''Grant request awaiting admin co-sign''
             (''Grant request '' @ GR_ID req @ '' for resource '' @ Res_Name resource @ '' ('' @ GR_Tier req @ '' tier) needs a platform admin decision.'' @
              findingNote) s
         else s)"

definition notifyGrantOutcome :: "GrantRequest \<Rightarrow> string \<Rightarrow> string \<Rightarrow> string \<Rightarrow> MemoryStore \<Rightarrow> MemoryStore" where
  "notifyGrantOutcome req kind subject body s = notifyInboxUser (GR_RequesterUserID req) kind subject body s"

section \<open>The services\<close>

datatype grant_error = errGrantRequestNotFound | errGrantRequestForbidden | errGrantTransitionInvalid | GrantStore store_error

type_synonym 'a grant_res = "grant_error + 'a"

definition grant_load_err :: "store_error \<Rightarrow> grant_error" where
  "grant_load_err e = (if e = ErrNotFound then errGrantRequestNotFound else GrantStore e)"

definition mapGrantStoreErr :: "store_error \<Rightarrow> grant_error" where
  "mapGrantStoreErr e =
     (if e = ErrNotFound then errGrantRequestNotFound else if e = ErrConflict then errGrantTransitionInvalid else GrantStore e)"

definition materializeGrant :: "string \<Rightarrow> RegistryResource \<Rightarrow> string \<Rightarrow> string \<Rightarrow> MemoryStore \<Rightarrow> unit res \<times> MemoryStore" where
  "materializeGrant agentID resource grantedBy scope s =
     GrantAgentPermission (AgentPermission_zero\<lparr>AP_AgentID := agentID, AP_ResourceType := Res_Type resource, AP_ResourceID := Res_ID resource,
       AP_GrantedBy := grantedBy, AP_Constraints := (if scope = [] then ''{}'' else scope)\<rparr>) s"

definition loadGrantRequestAndResource :: "string \<Rightarrow> MemoryStore \<Rightarrow> (GrantRequest \<times> RegistryResource) grant_res" where
  "loadGrantRequestAndResource requestID s =
     (case GetGrantRequest requestID s of Inl e \<Rightarrow> Inl (grant_load_err e)
      | Inr req \<Rightarrow>
          (case GetResourceByID (GR_ResourceID req) s of Inl e \<Rightarrow> Inl (grant_load_err e)
           | Inr resource \<Rightarrow> Inr (req, resource)))"

text \<open>\<open>Inr None\<close> is the automatic approval, for which no request exists.\<close>

definition createGrantRequest ::
  "grant_env \<Rightarrow> User \<Rightarrow> string \<Rightarrow> string \<Rightarrow> string \<Rightarrow> instant option \<Rightarrow> MemoryStore \<Rightarrow> GrantRequest option grant_res \<times> MemoryStore" where
  "createGrantRequest ge caller resourceID agentID scope expiry s =
     (case GetResourceByID resourceID s of Inl e \<Rightarrow> (Inl (grant_load_err e), s)
      | Inr resource \<Rightarrow>
          case GetAgent agentID s of Inl e \<Rightarrow> (Inl (grant_load_err e), s)
          | Inr _ \<Rightarrow>
              let tier = (if Res_RiskTier resource = [] then ''low'' else Res_RiskTier resource);
                  findings = lintGrant ge resource scope;
                  hasBlock = FindingsHaveBlock findings;
                  byo = (Res_OwnerUserID resource \<noteq> [] \<and> User_ID caller = Res_OwnerUserID resource)
              in if byo \<and> tier \<noteq> ''high'' \<and> \<not> hasBlock then
                   (case materializeGrant agentID resource (User_ID caller) scope s of
                      (Inl e, s1) \<Rightarrow> (Inl (GrantStore e), s1)
                    | (Inr _, s1) \<Rightarrow> (Inr None, s1))
                 else
                   let (created, s1) = CreateGrantRequest (GrantRequest_zero\<lparr>GR_ResourceID := Res_ID resource, GR_AgentID := agentID,
                         GR_RequesterUserID := User_ID caller, GR_Tier := tier,
                         GR_State := (if Res_OwnerUserID resource = [] then GrantRequestPendingAdmin else GrantRequestPendingOwner),
                         GR_RequestedScope := scope, GR_Findings := findings, GR_Expiry := expiry\<rparr>) s
                   in (Inr (Some created), notifyGrantPending created resource s1))"

definition owner_or_admin :: "User \<Rightarrow> RegistryResource \<Rightarrow> bool" where
  "owner_or_admin caller resource \<longleftrightarrow> User_ID caller = Res_OwnerUserID resource \<or> User_Role caller = RolePlatformAdmin"

text \<open>What both approvals end with: the permission, then the message to the requester.\<close>

definition finish_approval :: "GrantRequest \<Rightarrow> GrantRequest \<Rightarrow> RegistryResource \<Rightarrow> string \<Rightarrow> MemoryStore \<Rightarrow> GrantRequest grant_res \<times> MemoryStore" where
  "finish_approval req updated resource by s =
     (case materializeGrant (GR_AgentID req) resource (GR_RequesterUserID req) (GR_RequestedScope req) s of
        (Inl e, s1) \<Rightarrow> (Inl (GrantStore e), s1)
      | (Inr _, s1) \<Rightarrow>
          (Inr updated, notifyGrantOutcome updated ''grant_approved'' ''Grant request approved''
             (''Your grant request '' @ GR_ID updated @ '' for resource '' @ Res_Name resource @ '' (agent '' @ GR_AgentID req @ '') was approved '' @ by) s1))"

definition approveGrantOwner :: "User \<Rightarrow> string \<Rightarrow> MemoryStore \<Rightarrow> GrantRequest grant_res \<times> MemoryStore" where
  "approveGrantOwner caller requestID s =
     (case loadGrantRequestAndResource requestID s of Inl e \<Rightarrow> (Inl e, s)
      | Inr (req, resource) \<Rightarrow>
          if \<not> owner_or_admin caller resource then (Inl errGrantRequestForbidden, s)
          else if GR_State req \<noteq> GrantRequestPendingOwner then (Inl errGrantTransitionInvalid, s)
          else
            let now = env_now s
            in if GR_Tier req = ''high'' then
                 (case UpdateGrantRequestState (GR_ID req) GrantRequestPendingOwner
                         ((GrantRequestUpdate_to GrantRequestPendingAdmin)\<lparr>GRU_ApprovedByOwnerAt := Some now\<rparr>) s of
                    (Inl e, s1) \<Rightarrow> (Inl (mapGrantStoreErr e), s1)
                  | (Inr updated, s1) \<Rightarrow> (Inr updated, notifyGrantPending updated resource s1))
               else
                 (case UpdateGrantRequestState (GR_ID req) GrantRequestPendingOwner
                         ((GrantRequestUpdate_to GrantRequestApproved)\<lparr>GRU_ApprovedByOwnerAt := Some now\<rparr>) s of
                    (Inl e, s1) \<Rightarrow> (Inl (mapGrantStoreErr e), s1)
                  | (Inr updated, s1) \<Rightarrow> finish_approval req updated resource ''by the resource owner.'' s1))"

definition approveGrantAdmin :: "User \<Rightarrow> string \<Rightarrow> MemoryStore \<Rightarrow> GrantRequest grant_res \<times> MemoryStore" where
  "approveGrantAdmin caller requestID s =
     (if User_Role caller \<noteq> RolePlatformAdmin then (Inl errGrantRequestForbidden, s)
      else
        case loadGrantRequestAndResource requestID s of Inl e \<Rightarrow> (Inl e, s)
        | Inr (req, resource) \<Rightarrow>
            if GR_State req \<noteq> GrantRequestPendingAdmin then (Inl errGrantTransitionInvalid, s)
            else
              (case UpdateGrantRequestState (GR_ID req) GrantRequestPendingAdmin
                      ((GrantRequestUpdate_to GrantRequestApproved)\<lparr>GRU_ApprovedByAdminAt := Some (env_now s)\<rparr>) s of
                 (Inl e, s1) \<Rightarrow> (Inl (mapGrantStoreErr e), s1)
               | (Inr updated, s1) \<Rightarrow> finish_approval req updated resource ''with admin co-sign.'' s1))"

definition denyGrant :: "User \<Rightarrow> string \<Rightarrow> string \<Rightarrow> MemoryStore \<Rightarrow> GrantRequest grant_res \<times> MemoryStore" where
  "denyGrant caller requestID reason0 s =
     (case loadGrantRequestAndResource requestID s of Inl e \<Rightarrow> (Inl e, s)
      | Inr (req, resource) \<Rightarrow>
          if GR_State req \<noteq> GrantRequestPendingOwner \<and> GR_State req \<noteq> GrantRequestPendingAdmin then (Inl errGrantTransitionInvalid, s)
          else if GR_State req = GrantRequestPendingOwner \<and> \<not> owner_or_admin caller resource then (Inl errGrantRequestForbidden, s)
          else if GR_State req = GrantRequestPendingAdmin \<and> User_Role caller \<noteq> RolePlatformAdmin then (Inl errGrantRequestForbidden, s)
          else
            let reason = (if TrimSpace reason0 = [] then ''denied'' else reason0)
            in case UpdateGrantRequestState (GR_ID req) (GR_State req) ((GrantRequestUpdate_to GrantRequestDenied)\<lparr>GRU_DeniedReason := reason\<rparr>) s of
                 (Inl e, s1) \<Rightarrow> (Inl (mapGrantStoreErr e), s1)
               | (Inr updated, s1) \<Rightarrow>
                   (Inr updated, notifyGrantOutcome updated ''grant_denied'' ''Grant request denied''
                      (''Your grant request '' @ GR_ID updated @ '' for resource '' @ Res_Name resource @ '' (agent '' @ GR_AgentID req @ '') was denied: '' @ reason) s1))"

section \<open>The handlers\<close>

datatype 'a grant_reply = GrantOK int 'a | GrantErr int string string

definition writeGrantError :: "grant_error \<Rightarrow> 'a grant_reply" where
  "writeGrantError e =
     (case e of
        errGrantRequestNotFound \<Rightarrow> GrantErr 404 ''not_found'' ''grant request not found''
      | errGrantRequestForbidden \<Rightarrow> GrantErr 403 ''forbidden'' ''grant request: caller lacks authority''
      | errGrantTransitionInvalid \<Rightarrow> GrantErr 409 ''invalid_transition'' ''grant request: invalid state transition''
      | GrantStore _ \<Rightarrow> GrantErr 500 ''internal'' ''grant request failed'')"

definition grant_respond :: "'a grant_res \<Rightarrow> 'a grant_reply" where
  "grant_respond r = (case r of Inl e \<Rightarrow> writeGrantError e | Inr v \<Rightarrow> GrantOK 200 v)"

definition createGrantRequestHandler ::
  "grant_env \<Rightarrow> User \<Rightarrow> (string \<times> string \<times> string \<times> instant option) option \<Rightarrow> MemoryStore \<Rightarrow> GrantRequest option grant_reply \<times> MemoryStore" where
  "createGrantRequestHandler ge caller body s =
     (case body of None \<Rightarrow> (GrantErr 400 ''bad_request'' ''invalid JSON body'', s)
      | Some (resourceID, agentID, scope, expiry) \<Rightarrow>
          if TrimSpace resourceID = [] then (GrantErr 400 ''bad_request'' ''resource_id is required'', s)
          else if TrimSpace agentID = [] then (GrantErr 400 ''bad_request'' ''agent_id is required (squad-wide grants are not materialized in v1)'', s)
          else (case createGrantRequest ge caller resourceID agentID scope expiry s of
                  (Inl e, s1) \<Rightarrow> (writeGrantError e, s1)
                | (Inr None, s1) \<Rightarrow> (GrantOK 200 None, s1)
                | (Inr (Some created), s1) \<Rightarrow> (GrantOK 201 (Some created), s1)))"

definition approveGrantOwnerHandler :: "User \<Rightarrow> string \<Rightarrow> MemoryStore \<Rightarrow> GrantRequest grant_reply \<times> MemoryStore" where
  "approveGrantOwnerHandler caller requestID s = (let (r, s1) = approveGrantOwner caller requestID s in (grant_respond r, s1))"

definition approveGrantAdminHandler :: "User \<Rightarrow> string \<Rightarrow> MemoryStore \<Rightarrow> GrantRequest grant_reply \<times> MemoryStore" where
  "approveGrantAdminHandler caller requestID s = (let (r, s1) = approveGrantAdmin caller requestID s in (grant_respond r, s1))"

definition denyGrantHandler :: "User \<Rightarrow> string \<Rightarrow> string option \<Rightarrow> MemoryStore \<Rightarrow> GrantRequest grant_reply \<times> MemoryStore" where
  "denyGrantHandler caller requestID body s =
     (case body of None \<Rightarrow> (GrantErr 400 ''bad_request'' ''invalid JSON body'', s)
      | Some reason \<Rightarrow> let (r, s1) = denyGrant caller requestID reason s in (grant_respond r, s1))"

definition listGrantRequestsHandler :: "User \<Rightarrow> string \<Rightarrow> string \<Rightarrow> MemoryStore \<Rightarrow> GrantRequest list grant_reply" where
  "listGrantRequestsHandler caller state mine s =
     (let admin = (User_Role caller = RolePlatformAdmin); list = (\<lambda>req own. GrantOK 200 (ListGrantRequests \<lparr>GRF_State = state, GRF_RequesterUserID = req, GRF_OwnerUserID = own\<rparr> s))
      in if mine = [] then list (if \<not> admin then User_ID caller else []) []
         else if mine = ''owner'' then list [] (User_ID caller)
         else if mine = ''admin'' then (if \<not> admin then GrantErr 403 ''forbidden'' ''platform admin role is required'' else list [] [])
         else GrantErr 400 ''bad_request'' ''mine must be owner or admin'')"

end
