(* ===== verification/Grant_Laws.thy ===== *)
theory Grant_Laws
  imports Grant_Flow
begin

text \<open>
  What the grant-request workflow guarantees over every run: a request only moves forward, an approved request has behind it
  the decisions its tier asks for, and an approval that is reported leaves the permission in place.
\<close>

section \<open>Frames\<close>

definition keeps_reqs :: "MemoryStore \<Rightarrow> MemoryStore \<Rightarrow> bool" where
  "keeps_reqs s t \<longleftrightarrow> grantRequests t = grantRequests s \<and> env_uuid t = env_uuid s \<and> env_ctr s \<le> env_ctr t"

lemma keeps_reqs_refl [simp]: "keeps_reqs s s"
  by (simp add: keeps_reqs_def)

lemma keeps_trans: "keeps_reqs s t \<Longrightarrow> keeps_reqs t u \<Longrightarrow> keeps_reqs s u"
  by (auto simp: keeps_reqs_def)

lemma notify_keeps [simp]: "keeps_reqs s (notifyInboxUser u k sb b s)" "permissions (notifyInboxUser u k sb b s) = permissions s"
  by (simp_all add: keeps_reqs_def notifyInboxUser_def CreateInboxMessage_def NewString_def Let_def)

lemma admins_keep: "keeps_reqs s (notifyPlatformAdmins k sb b s) \<and> permissions (notifyPlatformAdmins k sb b s) = permissions s"
proof -
  have "keeps_reqs t (fold (\<lambda>u. if User_Role u = RolePlatformAdmin then notifyInboxUser (User_ID u) k sb b else (\<lambda>t. t)) us t) \<and>
      permissions (fold (\<lambda>u. if User_Role u = RolePlatformAdmin then notifyInboxUser (User_ID u) k sb b else (\<lambda>t. t)) us t) = permissions t" for us t
  proof (induction us arbitrary: t)
    case (Cons u us)
    show ?case using Cons [of "notifyInboxUser (User_ID u) k sb b t"] Cons [of t] keeps_trans [OF notify_keeps(1)] by auto
  qed simp
  then show ?thesis unfolding notifyPlatformAdmins_def by blast
qed

lemma pending_keeps [simp]: "keeps_reqs s (notifyGrantPending r res s)" "permissions (notifyGrantPending r res s) = permissions s"
  using admins_keep by (simp_all add: notifyGrantPending_def Let_def)

lemma outcome_keeps [simp]: "keeps_reqs s (notifyGrantOutcome r k sb b s)" "permissions (notifyGrantOutcome r k sb b s) = permissions s"
  by (simp_all add: notifyGrantOutcome_def)

lemma materialize_keeps [simp]: "keeps_reqs s (snd (materializeGrant a res by scope s))"
  by (simp add: keeps_reqs_def materializeGrant_def GrantAgentPermission_def NewString_def Let_def)

section \<open>What a service writes\<close>

definition touches :: "MemoryStore \<Rightarrow> string \<Rightarrow> GrantRequest \<Rightarrow> MemoryStore \<Rightarrow> bool" where
  "touches s rid r t \<longleftrightarrow> grantRequests t = gm_put rid r (grantRequests s) \<and> env_uuid t = env_uuid s \<and> env_ctr s \<le> env_ctr t"

lemma touches_keeps: "touches s rid r t \<Longrightarrow> keeps_reqs t u \<Longrightarrow> touches s rid r u"
  by (auto simp: touches_def keeps_reqs_def)

definition same_request :: "GrantRequest \<Rightarrow> GrantRequest \<Rightarrow> bool" where
  "same_request a b \<longleftrightarrow> GR_ID a = GR_ID b \<and> GR_ResourceID a = GR_ResourceID b \<and> GR_AgentID a = GR_AgentID b \<and>
     GR_RequesterUserID a = GR_RequesterUserID b \<and> GR_Tier a = GR_Tier b \<and> GR_RequestedScope a = GR_RequestedScope b \<and> GR_CreatedAt a = GR_CreatedAt b"

lemma same_request_update [simp]: "same_request (apply_grant_update up now r) r"
  by (simp add: same_request_def apply_grant_update_def)

lemma update_touches:
  assumes "gm_get (grantRequests s) rid = Some r" and "GR_State r = st"
  shows "\<exists>r' t. UpdateGrantRequestState rid st up s = (Inr r', t) \<and> r' = apply_grant_update up (env_now s) r \<and> touches s rid r' t \<and> GR_State r' = GRU_State up"
  using assms by (simp add: UpdateGrantRequestState_def touches_def apply_grant_update_def Let_def)

lemma load_Inr:
  "loadGrantRequestAndResource rid s = Inr (req, res) \<longleftrightarrow> gm_get (grantRequests s) rid = Some req \<and> GetResourceByID (GR_ResourceID req) s = Inr res"
  by (auto simp: loadGrantRequestAndResource_def GetGrantRequest_def split: option.splits sum.splits)

lemma finish_keeps: "keeps_reqs s (snd (finish_approval req upd res by s))"
proof -
  obtain r s1 where m: "materializeGrant (GR_AgentID req) res (GR_RequesterUserID req) (GR_RequestedScope req) s = (r, s1)" by force
  then have "keeps_reqs s s1" using materialize_keeps by (metis snd_conv)
  then show ?thesis using m keeps_trans [OF _ outcome_keeps(1)] by (auto simp: finish_approval_def split: sum.split)
qed

text \<open>The decisions a store accepts from a caller, and the row they lead to.\<close>

definition may_own :: "User \<Rightarrow> string \<Rightarrow> MemoryStore \<Rightarrow> RegistryResource option" where
  "may_own u rid s = (case loadGrantRequestAndResource rid s of Inl e \<Rightarrow> None
     | Inr (req, res) \<Rightarrow> if owner_or_admin u res \<and> GR_State req = GrantRequestPendingOwner then Some res else None)"

definition may_admin :: "User \<Rightarrow> string \<Rightarrow> MemoryStore \<Rightarrow> bool" where
  "may_admin u rid s \<longleftrightarrow> User_Role u = RolePlatformAdmin \<and>
     (case loadGrantRequestAndResource rid s of Inl e \<Rightarrow> False | Inr (req, res) \<Rightarrow> GR_State req = GrantRequestPendingAdmin)"

lemma approve_owner_effect:
  assumes "approveGrantOwner u rid s = (r, t)" and "\<And>k q. gm_get (grantRequests s) k = Some q \<Longrightarrow> GR_ID q = k"
  shows "case may_own u rid s of None \<Rightarrow> t = s
    | Some res \<Rightarrow> (\<exists>req req'. gm_get (grantRequests s) rid = Some req \<and> GR_State req = GrantRequestPendingOwner \<and> owner_or_admin u res \<and>
        touches s rid req' t \<and> same_request req' req \<and>
        GR_State req' = (if GR_Tier req = ''high'' then GrantRequestPendingAdmin else GrantRequestApproved))"
proof (cases "may_own u rid s")
  case None
  then show ?thesis using assms(1) by (auto simp: may_own_def approveGrantOwner_def split: sum.splits if_splits)
next
  case (Some res)
  then obtain req where l: "loadGrantRequestAndResource rid s = Inr (req, res)" "owner_or_admin u res" "GR_State req = GrantRequestPendingOwner"
    by (auto simp: may_own_def split: sum.splits if_splits)
  have g: "gm_get (grantRequests s) rid = Some req" using l(1) load_Inr by blast
  have id: "GR_ID req = rid" using assms(2) g by blast
  let ?up = "\<lambda>st. (GrantRequestUpdate_to st)\<lparr>GRU_ApprovedByOwnerAt := Some (env_now s)\<rparr>"
  let ?st = "if GR_Tier req = ''high'' then GrantRequestPendingAdmin else GrantRequestApproved"
  obtain req' s1 where u: "UpdateGrantRequestState rid GrantRequestPendingOwner (?up ?st) s = (Inr req', s1)" "touches s rid req' s1" "GR_State req' = ?st"
    and r': "req' = apply_grant_update (?up ?st) (env_now s) req"
    using update_touches [OF g l(3), of "?up ?st"] by (auto simp: GrantRequestUpdate_to_def)
  have "touches s rid req' t"
    using assms(1) l id u finish_keeps [of s1 req req' res "''by the resource owner.''"] pending_keeps(1) [of s1 req' res]
    by (auto simp: approveGrantOwner_def Let_def split: if_splits intro: touches_keeps)
  then show ?thesis using Some g l u(3) r' by auto
qed

lemma approve_admin_effect:
  assumes "approveGrantAdmin u rid s = (r, t)" and "\<And>k q. gm_get (grantRequests s) k = Some q \<Longrightarrow> GR_ID q = k"
  shows "if may_admin u rid s
    then \<exists>req req'. gm_get (grantRequests s) rid = Some req \<and> GR_State req = GrantRequestPendingAdmin \<and>
        touches s rid req' t \<and> same_request req' req \<and> GR_State req' = GrantRequestApproved
    else t = s"
proof (cases "may_admin u rid s")
  case False
  then show ?thesis using assms(1) by (auto simp: may_admin_def approveGrantAdmin_def split: sum.splits if_splits)
next
  case True
  then obtain req res where l: "loadGrantRequestAndResource rid s = Inr (req, res)" "GR_State req = GrantRequestPendingAdmin" "User_Role u = RolePlatformAdmin"
    by (auto simp: may_admin_def split: sum.splits)
  have g: "gm_get (grantRequests s) rid = Some req" using l(1) load_Inr by blast
  have id: "GR_ID req = rid" using assms(2) g by blast
  let ?up = "(GrantRequestUpdate_to GrantRequestApproved)\<lparr>GRU_ApprovedByAdminAt := Some (env_now s)\<rparr>"
  obtain req' s1 where u: "UpdateGrantRequestState rid GrantRequestPendingAdmin ?up s = (Inr req', s1)" "touches s rid req' s1" "GR_State req' = GrantRequestApproved"
    and r': "req' = apply_grant_update ?up (env_now s) req"
    using update_touches [OF g l(2), of ?up] by (auto simp: GrantRequestUpdate_to_def)
  have "touches s rid req' t"
    using assms(1) l id u finish_keeps [of s1 req req' res "''with admin co-sign.''"]
    by (auto simp: approveGrantAdmin_def intro: touches_keeps)
  then show ?thesis using True g l u(3) r' by auto
qed

lemma deny_grant_effect:
  assumes "denyGrant u rid reason s = (r, t)" and "\<And>k q. gm_get (grantRequests s) k = Some q \<Longrightarrow> GR_ID q = k"
  shows "t = s \<or> (\<exists>req req'. gm_get (grantRequests s) rid = Some req \<and> GR_State req \<in> {GrantRequestPendingOwner, GrantRequestPendingAdmin} \<and>
        touches s rid req' t \<and> same_request req' req \<and> GR_State req' = GrantRequestDenied)"
proof (cases "loadGrantRequestAndResource rid s")
  case (Inl e)
  then show ?thesis using assms(1) by (simp add: denyGrant_def)
next
  case (Inr p)
  obtain req res where p: "p = (req, res)" by force
  have g: "gm_get (grantRequests s) rid = Some req" using Inr p load_Inr by blast
  have id: "GR_ID req = rid" using assms(2) g by blast
  let ?up = "(GrantRequestUpdate_to GrantRequestDenied)\<lparr>GRU_DeniedReason := if TrimSpace reason = [] then ''denied'' else reason\<rparr>"
  obtain req' s1 where u: "UpdateGrantRequestState rid (GR_State req) ?up s = (Inr req', s1)" "touches s rid req' s1" "GR_State req' = GrantRequestDenied"
    and r': "req' = apply_grant_update ?up (env_now s) req"
    using update_touches [OF g refl, of ?up] by (auto simp: GrantRequestUpdate_to_def)
  show ?thesis
  proof (cases "t = s")
    case False
    then have "GR_State req \<in> {GrantRequestPendingOwner, GrantRequestPendingAdmin}" and "touches s rid req' t"
      using assms(1) Inr p id u touches_keeps [OF u(2) outcome_keeps(1)] by (auto simp: denyGrant_def Let_def split: if_splits)
    then show ?thesis using g u(3) r' by auto
  qed simp
qed

lemma create_effect:
  assumes "createGrantRequest ge u rsc a scope ex s = (r, t)"
  shows "(keeps_reqs s t \<and> (\<forall>q. r \<noteq> Inr (Some q))) \<or>
    (\<exists>q res. r = Inr (Some q) \<and> touches s (GR_ID q) q t \<and> GR_ID q = env_uuid s (env_ctr s) \<and> Suc (env_ctr s) \<le> env_ctr t \<and> GetResourceByID rsc s = Inr res \<and>
       GR_State q = (if Res_OwnerUserID res = [] then GrantRequestPendingAdmin else GrantRequestPendingOwner))"
proof (cases "GetResourceByID rsc s")
  case (Inl e)
  then show ?thesis using assms by (simp add: createGrantRequest_def) (metis Inl_Inr_False keeps_reqs_refl)
next
  case res: (Inr res)
  show ?thesis
  proof (cases "GetAgent a s")
    case (Inl e)
    then show ?thesis using assms res by (simp add: createGrantRequest_def) (metis Inl_Inr_False keeps_reqs_refl)
  next
    case (Inr ag)
    let ?tier = "if Res_RiskTier res = [] then ''low'' else Res_RiskTier res"
    show ?thesis
    proof (cases "(Res_OwnerUserID res \<noteq> [] \<and> User_ID u = Res_OwnerUserID res) \<and> ?tier \<noteq> ''high'' \<and> \<not> FindingsHaveBlock (lintGrant ge res scope)")
      case True
      obtain m s1 where m: "materializeGrant a res (User_ID u) scope s = (m, s1)" by force
      have "keeps_reqs s s1" using materialize_keeps [of s a res "User_ID u" scope] m by simp
      then show ?thesis using assms res Inr True m by (cases m) (auto simp: createGrantRequest_def Let_def)
    next
      case False
      let ?st = "if Res_OwnerUserID res = [] then GrantRequestPendingAdmin else GrantRequestPendingOwner"
      let ?q0 = "GrantRequest_zero\<lparr>GR_ResourceID := Res_ID res, GR_AgentID := a, GR_RequesterUserID := User_ID u, GR_Tier := ?tier,
         GR_State := ?st, GR_RequestedScope := scope, GR_Findings := lintGrant ge res scope, GR_Expiry := ex\<rparr>"
      obtain q s1 where q: "CreateGrantRequest ?q0 s = (q, s1)" by force
      have row: "GR_ID q = env_uuid s (env_ctr s)" "GR_State q = ?st" "grantRequests s1 = gm_put (GR_ID q) q (grantRequests s)" "env_uuid s1 = env_uuid s"
        "env_ctr s1 = Suc (env_ctr s)"
        using q by (auto simp: CreateGrantRequest_def NewString_def Let_def)
      have rt: "r = Inr (Some q)" "t = notifyGrantPending q res s1"
        using assms res Inr False q by (auto simp: createGrantRequest_def Let_def)
      have k: "keeps_reqs s1 t" using rt(2) by simp
      have "touches s (GR_ID q) q t" "Suc (env_ctr s) \<le> env_ctr t" using k row by (auto simp: touches_def keeps_reqs_def)
      then show ?thesis using rt row res by blast
    qed
  qed
qed

section \<open>Runs with a history of calls\<close>

text \<open>The history lists every call with what it found when it loaded its rows; nothing of it depends on the outcome of a decision.\<close>

datatype grant_event =
  EvCreate "RegistryResource res" "GrantRequest option grant_res"
| EvOwner User string "(GrantRequest \<times> RegistryResource) grant_res"
| EvAdmin User string "(GrantRequest \<times> RegistryResource) grant_res"

type_synonym grant_run = "MemoryStore \<times> grant_event list"

inductive grant_step :: "grant_run \<Rightarrow> grant_run \<Rightarrow> bool" where
  create: "createGrantRequest ge u rsc a scope ex s = (r1, t) \<Longrightarrow> grant_step (s, h) (t, EvCreate (GetResourceByID rsc s) r1 # h)"
| owner: "approveGrantOwner u rid s = (r2, t) \<Longrightarrow> grant_step (s, h) (t, EvOwner u rid (loadGrantRequestAndResource rid s) # h)"
| admin: "approveGrantAdmin u rid s = (r3, t) \<Longrightarrow> grant_step (s, h) (t, EvAdmin u rid (loadGrantRequestAndResource rid s) # h)"
| deny: "denyGrant u rid reason s = (r4, t) \<Longrightarrow> grant_step (s, h) (t, h)"
| elsewhere: "keeps_reqs s t \<Longrightarrow> grant_step (s, h) (t, h)"

definition grant_init :: "grant_run \<Rightarrow> bool" where
  "grant_init sh \<longleftrightarrow> inj (env_uuid (fst sh)) \<and> grantRequests (fst sh) = [] \<and> snd sh = []"

text \<open>The decisions behind a row.\<close>

definition opened_ownerless :: "grant_event list \<Rightarrow> GrantRequest \<Rightarrow> bool" where
  "opened_ownerless h r \<longleftrightarrow> (\<exists>q res. EvCreate (Inr res) (Inr (Some q)) \<in> set h \<and> same_request q r \<and> Res_OwnerUserID res = [])"

text \<open>The approval at the owner's stage: given while the request was pending at that stage, by the owner the resource had then or
  by a platform admin.\<close>

definition stage_said :: "grant_event list \<Rightarrow> GrantRequest \<Rightarrow> bool" where
  "stage_said h r \<longleftrightarrow> (\<exists>u q res. EvOwner u (GR_ID r) (Inr (q, res)) \<in> set h \<and> same_request q r \<and> GR_State q = GrantRequestPendingOwner \<and>
     (User_ID u = Res_OwnerUserID res \<or> User_Role u = RolePlatformAdmin))"

text \<open>The co-signature of a platform admin. The history has the newest call first: what it rests on stands in the older part.\<close>

definition cosigned :: "grant_event list \<Rightarrow> GrantRequest \<Rightarrow> bool" where
  "cosigned h r \<longleftrightarrow> (\<exists>newer older u q res. h = newer @ EvAdmin u (GR_ID r) (Inr (q, res)) # older \<and> same_request q r \<and>
     GR_State q = GrantRequestPendingAdmin \<and> User_Role u = RolePlatformAdmin \<and> (opened_ownerless older r \<or> stage_said older r))"

definition justified :: "grant_event list \<Rightarrow> GrantRequest \<Rightarrow> bool" where
  "justified h r \<longleftrightarrow>
     (GR_State r = GrantRequestPendingAdmin \<longrightarrow> opened_ownerless h r \<or> stage_said h r) \<and>
     (GR_State r = GrantRequestApproved \<longrightarrow>
        (GR_Tier r \<noteq> ''high'' \<and> stage_said h r) \<or> cosigned h r)"

definition grant_inv :: "grant_run \<Rightarrow> bool" where
  "grant_inv sh \<longleftrightarrow> (case sh of (s, h) \<Rightarrow> inj (env_uuid s) \<and>
     (\<forall>k r. gm_get (grantRequests s) k = Some r \<longrightarrow> GR_ID r = k \<and> issued s k \<and> justified h r))"

lemma same_request_refl [simp]: "same_request r r"
  by (simp add: same_request_def)

lemma same_request_trans: "same_request a b \<Longrightarrow> same_request b c \<Longrightarrow> same_request a c"
  by (simp add: same_request_def)

lemma same_request_sym: "same_request a b \<Longrightarrow> same_request b a"
  by (simp add: same_request_def)

lemma same_request_ID: "same_request a b \<Longrightarrow> GR_ID a = GR_ID b"
  by (simp add: same_request_def)

lemma said_mono:
  "opened_ownerless h r \<Longrightarrow> opened_ownerless (e # h) r" "stage_said h r \<Longrightarrow> stage_said (e # h) r"
  unfolding opened_ownerless_def stage_said_def by (meson list.set_intros(2))+

lemma cosigned_mono: "cosigned h r \<Longrightarrow> cosigned (e # h) r"
  unfolding cosigned_def by (metis append_Cons)

lemma said_same:
  assumes "same_request r r'"
  shows "opened_ownerless h r \<Longrightarrow> opened_ownerless h r'" "stage_said h r \<Longrightarrow> stage_said h r'"
  using assms unfolding opened_ownerless_def stage_said_def same_request_ID [OF assms] by (blast intro: same_request_trans)+

lemma justified_mono: "justified h r \<Longrightarrow> justified (e # h) r"
  unfolding justified_def using said_mono cosigned_mono by blast

lemma grant_invD: "grant_inv (s, h) \<Longrightarrow> gm_get (grantRequests s) k = Some r \<Longrightarrow> GR_ID r = k \<and> issued s k \<and> justified h r"
  by (simp add: grant_inv_def)

lemma inv_keeps: "grant_inv (s, h) \<Longrightarrow> keeps_reqs s t \<Longrightarrow> grant_inv (t, h)"
  unfolding grant_inv_def keeps_reqs_def by (auto intro: issued_mono)

lemma inv_longer: "grant_inv (s, h) \<Longrightarrow> grant_inv (s, e # h)"
  unfolding grant_inv_def by (auto intro: justified_mono)

lemma inv_touches:
  assumes "grant_inv (s, h)" and "touches s rid r t" and "GR_ID r = rid" and "issued t rid" and "justified h r"
  shows "grant_inv (t, h)"
  using assms unfolding grant_inv_def touches_def by (auto intro: issued_mono)

section \<open>Every step keeps the invariant\<close>

lemma create_inv:
  assumes inv: "grant_inv (s, h)" and c: "createGrantRequest ge u rsc a scope ex s = (r, t)"
  shows "grant_inv (t, EvCreate (GetResourceByID rsc s) r # h)"
  using create_effect [OF c]
proof (elim disjE conjE exE)
  assume "keeps_reqs s t"
  then show ?thesis using inv inv_keeps inv_longer by blast
next
  fix q res
  assume q: "r = Inr (Some q)" "touches s (GR_ID q) q t" "GR_ID q = env_uuid s (env_ctr s)" "Suc (env_ctr s) \<le> env_ctr t" "GetResourceByID rsc s = Inr res"
    "GR_State q = (if Res_OwnerUserID res = [] then GrantRequestPendingAdmin else GrantRequestPendingOwner)"
  have "justified (EvCreate (GetResourceByID rsc s) r # h) q"
    unfolding justified_def opened_ownerless_def using q(1,5,6)
    by (auto simp: GrantRequestPendingAdmin_def GrantRequestPendingOwner_def GrantRequestApproved_def intro!: exI [of _ res] exI [of _ q])
  moreover have "issued t (GR_ID q)" unfolding issued_def using q(2,3,4) by (metis Suc_le_lessD touches_def)
  ultimately show ?thesis using inv_touches [OF inv_longer [OF inv] q(2) refl] by blast
qed

lemma decided_inv:
  assumes inv: "grant_inv (s, h)" and g: "gm_get (grantRequests s) rid = Some req" and t: "touches s rid req' t" and same: "same_request req' req"
    and j: "justified h req'"
  shows "grant_inv (t, h)"
proof -
  have "GR_ID req = rid" "issued s rid" using grant_invD [OF inv g] by auto
  then show ?thesis using inv_touches [OF inv t _ _ j] same_request_ID [OF same] t by (auto simp: touches_def intro: issued_mono)
qed

lemma owner_inv:
  assumes inv: "grant_inv (s, h)" and c: "approveGrantOwner u rid s = (r, t)"
  shows "grant_inv (t, EvOwner u rid (loadGrantRequestAndResource rid s) # h)"
proof (cases "may_own u rid s")
  case None
  then show ?thesis using approve_owner_effect [OF c] grant_invD [OF inv] inv_longer [OF inv] by auto
next
  case (Some res)
  let ?e = "EvOwner u rid (loadGrantRequestAndResource rid s)"
  obtain req req' where e: "gm_get (grantRequests s) rid = Some req" "owner_or_admin u res" "touches s rid req' t" "same_request req' req"
    "GR_State req' = (if GR_Tier req = ''high'' then GrantRequestPendingAdmin else GrantRequestApproved)" "GR_State req = GrantRequestPendingOwner"
    using approve_owner_effect [OF c] grant_invD [OF inv] Some by auto
  have l: "loadGrantRequestAndResource rid s = Inr (req, res)"
    using Some e(1) by (auto simp: may_own_def load_Inr split: sum.splits if_splits)
  have "GR_ID req' = rid" using grant_invD [OF inv e(1)] same_request_ID [OF e(4)] by simp
  then have "stage_said (?e # h) req'" unfolding stage_said_def using l e(2,6) same_request_sym [OF e(4)] by (auto simp: owner_or_admin_def)
  moreover have "GR_Tier req' = GR_Tier req" using e(4) by (simp add: same_request_def)
  ultimately have "justified (?e # h) req'"
    using e(5) by (auto simp: justified_def GrantRequestPendingAdmin_def GrantRequestApproved_def split: if_splits)
  then show ?thesis using decided_inv [OF inv_longer [OF inv] e(1,3,4)] by blast
qed

lemma admin_inv:
  assumes inv: "grant_inv (s, h)" and c: "approveGrantAdmin u rid s = (r, t)"
  shows "grant_inv (t, EvAdmin u rid (loadGrantRequestAndResource rid s) # h)"
proof (cases "may_admin u rid s")
  case False
  then show ?thesis using approve_admin_effect [OF c] grant_invD [OF inv] inv_longer [OF inv] by auto
next
  case True
  let ?e = "EvAdmin u rid (loadGrantRequestAndResource rid s)"
  obtain req req' where e: "gm_get (grantRequests s) rid = Some req" "GR_State req = GrantRequestPendingAdmin" "touches s rid req' t"
    "same_request req' req" "GR_State req' = GrantRequestApproved"
    using approve_admin_effect [OF c] grant_invD [OF inv] True by auto
  obtain res where l: "loadGrantRequestAndResource rid s = Inr (req, res)" "User_Role u = RolePlatformAdmin"
    using True e(1) by (auto simp: may_admin_def load_Inr split: sum.splits)
  have "GR_ID req' = rid" using grant_invD [OF inv e(1)] same_request_ID [OF e(4)] by simp
  moreover have "opened_ownerless h req' \<or> stage_said h req'"
    using grant_invD [OF inv e(1)] e(2) said_same [OF same_request_sym [OF e(4)]] unfolding justified_def by blast
  ultimately have "cosigned (?e # h) req'" unfolding cosigned_def using l e(2) same_request_sym [OF e(4)]
    by (intro exI [of _ "[]"] exI [of _ h] exI [of _ u] exI [of _ req] exI [of _ res]) simp
  then have "justified (?e # h) req'" using e(5) by (simp add: justified_def GrantRequestPendingAdmin_def GrantRequestApproved_def)
  then show ?thesis using decided_inv [OF inv_longer [OF inv] e(1,3,4)] by blast
qed

lemma deny_inv:
  assumes inv: "grant_inv (s, h)" and c: "denyGrant u rid reason s = (r, t)"
  shows "grant_inv (t, h)"
proof -
  consider "t = s" | req req' where "gm_get (grantRequests s) rid = Some req" "touches s rid req' t" "same_request req' req"
      "GR_State req' = GrantRequestDenied"
    using deny_grant_effect [OF c] grant_invD [OF inv] by blast
  then show ?thesis
  proof cases
    case 2
    then have "justified h req'" by (simp add: justified_def GrantRequestDenied_def GrantRequestPendingAdmin_def GrantRequestApproved_def)
    then show ?thesis using decided_inv [OF inv 2(1-3)] by blast
  qed (use inv in simp)
qed

lemma grant_step_inv: "grant_step sh sh' \<Longrightarrow> grant_inv sh \<Longrightarrow> grant_inv sh'"
  by (induction rule: grant_step.induct) (blast intro: create_inv owner_inv admin_inv deny_inv inv_keeps)+

lemma grant_init_inv: "grant_init sh \<Longrightarrow> grant_inv sh"
  by (auto simp: grant_init_def grant_inv_def gm_get_def split: prod.split)

interpretation grant_machine: state_machine grant_init grant_step grant_inv
  by unfold_locales (blast intro: grant_init_inv grant_step_inv)+

section \<open>Requests only advance\<close>

definition grant_reaches :: "string \<Rightarrow> string \<Rightarrow> string \<Rightarrow> bool" where
  "grant_reaches tier a b \<longleftrightarrow> a = b \<or>
     (a = GrantRequestPendingOwner \<and> b \<in> {GrantRequestApproved, GrantRequestDenied}) \<or>
     (a = GrantRequestPendingOwner \<and> tier = ''high'' \<and> b = GrantRequestPendingAdmin) \<or>
     (a = GrantRequestPendingAdmin \<and> b \<in> {GrantRequestApproved, GrantRequestDenied})"

lemma grant_reaches_trans: "grant_reaches tier a b \<Longrightarrow> grant_reaches tier b c \<Longrightarrow> grant_reaches tier a c"
  by (auto simp: grant_reaches_def GrantRequestPendingOwner_def GrantRequestPendingAdmin_def GrantRequestApproved_def GrantRequestDenied_def)

definition req_advances :: "MemoryStore \<Rightarrow> MemoryStore \<Rightarrow> bool" where
  "req_advances s t \<longleftrightarrow> (\<forall>k r. gm_get (grantRequests s) k = Some r \<longrightarrow>
     (\<exists>r'. gm_get (grantRequests t) k = Some r' \<and> same_request r r' \<and> grant_reaches (GR_Tier r) (GR_State r) (GR_State r')))"

lemma req_advances_keeps: "keeps_reqs s t \<Longrightarrow> req_advances s t"
  by (auto simp: req_advances_def keeps_reqs_def grant_reaches_def)

lemma req_advances_trans: "req_advances s t \<Longrightarrow> req_advances t u \<Longrightarrow> req_advances s u"
  unfolding req_advances_def same_request_def using grant_reaches_trans by fastforce

lemma req_advances_touches:
  assumes "touches s rid req' t" and "gm_get (grantRequests s) rid = Some req" and "same_request req' req"
    and "grant_reaches (GR_Tier req) (GR_State req) (GR_State req')"
  shows "req_advances s t"
  using assms by (auto simp: req_advances_def touches_def grant_reaches_def intro: same_request_sym)

lemma grant_step_advances: "grant_step sh sh' \<Longrightarrow> grant_inv sh \<Longrightarrow> req_advances (fst sh) (fst sh')"
proof (induction rule: grant_step.induct)
  case (create ge u rsc a scope ex s r1 t h)
  then have "keeps_reqs s t \<or> (\<exists>q. touches s (GR_ID q) q t \<and> GR_ID q = env_uuid s (env_ctr s))"
    using create_effect [OF create(1)] by blast
  moreover have "gm_get (grantRequests s) (env_uuid s (env_ctr s)) = None"
  proof (rule ccontr)
    assume "gm_get (grantRequests s) (env_uuid s (env_ctr s)) \<noteq> None"
    then have "issued s (env_uuid s (env_ctr s))" using grant_invD [OF create(2)] by blast
    then show False using not_issued_next create(2) by (auto simp: grant_inv_def)
  qed
  ultimately show ?case using req_advances_keeps by (auto simp: req_advances_def touches_def grant_reaches_def)
next
  case (owner u rid s r2 t h)
  note eff = approve_owner_effect [OF owner(1)] 
  show ?case
  proof (cases "may_own u rid s")
    case None
    then show ?thesis using eff grant_invD [OF owner(2)] by (auto intro: req_advances_keeps)
  next
    case (Some res)
    then obtain req req' where "touches s rid req' t" "gm_get (grantRequests s) rid = Some req" "same_request req' req" "GR_State req = GrantRequestPendingOwner"
      "GR_State req' = (if GR_Tier req = ''high'' then GrantRequestPendingAdmin else GrantRequestApproved)"
      using eff grant_invD [OF owner(2)] by auto
    then show ?thesis using req_advances_touches [of s rid req' t req] by (auto simp: grant_reaches_def)
  qed
next
  case (admin u rid s r3 t h)
  show ?case
  proof (cases "may_admin u rid s")
    case False
    then show ?thesis using approve_admin_effect [OF admin(1)] grant_invD [OF admin(2)] by (auto intro: req_advances_keeps)
  next
    case True
    then obtain req req' where "touches s rid req' t" "gm_get (grantRequests s) rid = Some req" "same_request req' req" "GR_State req = GrantRequestPendingAdmin"
      "GR_State req' = GrantRequestApproved"
      using approve_admin_effect [OF admin(1)] grant_invD [OF admin(2)] by auto
    then show ?thesis using req_advances_touches [of s rid req' t req] by (auto simp: grant_reaches_def)
  qed
next
  case (deny u rid reason s r4 t h)
  then consider "t = s" | req req' where "touches s rid req' t" "gm_get (grantRequests s) rid = Some req" "same_request req' req"
      "GR_State req \<in> {GrantRequestPendingOwner, GrantRequestPendingAdmin}" "GR_State req' = GrantRequestDenied"
    using deny_grant_effect [OF deny(1)] grant_invD [OF deny(2)] by blast
  then show ?case using req_advances_touches req_advances_keeps by cases (fastforce simp: grant_reaches_def)+
qed (auto intro: req_advances_keeps)

lemma grant_run_advances:
  assumes "grant_step\<^sup>*\<^sup>* sh sh'" and "grant_inv sh"
  shows "grant_inv sh' \<and> req_advances (fst sh) (fst sh')"
  using assms
proof (induction rule: rtranclp_induct)
  case base
  then show ?case by (auto intro: req_advances_keeps)
next
  case (step sh1 sh2)
  then show ?case using grant_step_advances grant_step_inv req_advances_trans by blast
qed

section \<open>The permission behind an approval\<close>

definition in_force :: "MemoryStore \<Rightarrow> MemoryStore \<Rightarrow> string \<Rightarrow> RegistryResource \<Rightarrow> string \<Rightarrow> string \<Rightarrow> bool" where
  "in_force s t a res by scope \<longleftrightarrow> AgentHasPermission a (Res_Type res) (Res_ID res) t = Inr True \<and>
     (let k = permissionKey a (CanonicalResourceType (Res_Type res)) (Res_ID res)
      in case gm_get (permissions s) k of Some p \<Rightarrow> gm_get (permissions t) k = Some p
         | None \<Rightarrow> \<exists>p. gm_get (permissions t) k = Some p \<and> AP_AgentID p = a \<and> AP_ResourceID p = Res_ID res \<and> AP_GrantedBy p = by \<and>
             AP_Constraints p = (if scope = [] then ''{}'' else scope))"

lemma notify_agents [simp]: "agents (notifyInboxUser u k sb b s) = agents s"
  by (simp add: notifyInboxUser_def CreateInboxMessage_def NewString_def Let_def)

lemma materialize_in_force: "materializeGrant a res by scope s = (Inr x, t) \<Longrightarrow> in_force s t a res by scope"
  by (auto simp: materializeGrant_def GrantAgentPermission_def in_force_def AgentHasPermission_def NewString_def fresh_permission_def
      CanonicalResourceType_idem Let_def split: option.splits if_splits)

lemma in_force_frame: "in_force s t a res by scope \<Longrightarrow> permissions s' = permissions s \<Longrightarrow> agents t' = agents t \<Longrightarrow> permissions t' = permissions t \<Longrightarrow>
  in_force s' t' a res by scope"
  by (simp only: in_force_def AgentHasPermission_def)

lemma finish_in_force:
  assumes "finish_approval req upd res by s = (Inr r, t)"
  shows "r = upd \<and> in_force s t (GR_AgentID req) res (GR_RequesterUserID req) (GR_RequestedScope req)"
proof -
  obtain x s1 where m: "materializeGrant (GR_AgentID req) res (GR_RequesterUserID req) (GR_RequestedScope req) s = (Inr x, s1)"
    and t: "r = upd" "\<exists>k sb b. t = notifyGrantOutcome upd k sb b s1"
    using assms by (auto simp: finish_approval_def split: prod.splits sum.splits)
  have "agents t = agents s1" "permissions t = permissions s1" using t(2) outcome_keeps(2) by (auto simp: notifyGrantOutcome_def)
  then show ?thesis using t(1) in_force_frame [OF materialize_in_force [OF m]] by simp
qed

lemma grant_update_frame:
  assumes "UpdateGrantRequestState rid st up s = (Inr r, t)"
  shows "permissions t = permissions s \<and> (\<exists>req. gm_get (grantRequests s) rid = Some req \<and> r = apply_grant_update up (env_now s) req)"
  using assms by (auto simp: UpdateGrantRequestState_def Let_def split: option.splits if_splits)

lemma approved_in_force:
  assumes u: "UpdateGrantRequestState (GR_ID req) st up s = (Inr upd, s1)" and f: "finish_approval req upd res who s1 = (Inr r, t)"
    and req: "gm_get (grantRequests s) (GR_ID req) = Some req"
  shows "GR_ResourceID r = GR_ResourceID req \<and> in_force s t (GR_AgentID r) res (GR_RequesterUserID r) (GR_RequestedScope r)"
proof -
  have "permissions s1 = permissions s" "upd = apply_grant_update up (env_now s) req" using grant_update_frame [OF u] req by auto
  then show ?thesis using finish_in_force [OF f] in_force_frame [OF _ _ refl refl] by (auto simp: apply_grant_update_def)
qed

lemma owner_finishes:
  assumes o: "approveGrantOwner u rid s = (Inr r, t)" "GR_State r = GrantRequestApproved" and l: "loadGrantRequestAndResource rid s = Inr (req, res)"
  shows "\<exists>up upd s1 who. UpdateGrantRequestState (GR_ID req) GrantRequestPendingOwner up s = (Inr upd, s1) \<and> finish_approval req upd res who s1 = (Inr r, t)"
proof (cases "GR_Tier req = ''high''")
  case True
  then obtain up s1 where "UpdateGrantRequestState (GR_ID req) GrantRequestPendingOwner up s = (Inr r, s1)" "GRU_State up = GrantRequestPendingAdmin"
    using o(1) l by (auto simp: approveGrantOwner_def GrantRequestUpdate_to_def Let_def split: if_splits sum.splits prod.splits)
  then have "GR_State r = GrantRequestPendingAdmin" using grant_update_frame by (fastforce simp: apply_grant_update_def)
  then show ?thesis using o(2) by (simp add: GrantRequestPendingAdmin_def GrantRequestApproved_def)
next
  case False
  then show ?thesis using o(1) l by (auto simp: approveGrantOwner_def Let_def split: if_splits sum.splits prod.splits)
qed

text \<open>C36. A reported approval is in force. When a grant request is answered as automatically approved, the caller owns the
  resource, the tier is not high and the linter does not block; when an approval is answered as approved, the request
  has been decided. In each case the agent then holds the permission, with the requested scope or, if it held one before,
  unchanged.\<close>

theorem reported_approval_in_force:
  assumes "\<And>k q. gm_get (grantRequests s) k = Some q \<Longrightarrow> GR_ID q = k"
  shows "(createGrantRequest ge u rsc a scope ex s = (Inr None, t) \<longrightarrow>
      (\<exists>res. GetResourceByID rsc s = Inr res \<and> Res_OwnerUserID res \<noteq> [] \<and> User_ID u = Res_OwnerUserID res \<and> Res_RiskTier res \<noteq> ''high'' \<and>
         \<not> FindingsHaveBlock (lintGrant ge res scope) \<and> in_force s t a res (User_ID u) scope)) \<and>
    (approveGrantOwner u rid s = (Inr r, t) \<and> GR_State r = GrantRequestApproved \<or> approveGrantAdmin u rid s = (Inr r, t) \<longrightarrow>
      (\<exists>res. GetResourceByID (GR_ResourceID r) s = Inr res \<and> in_force s t (GR_AgentID r) res (GR_RequesterUserID r) (GR_RequestedScope r)))"
    (is "?C \<and> (?O \<or> ?A \<longrightarrow> ?G)")
proof -
  have c: ?C
  proof
    assume e: "createGrantRequest ge u rsc a scope ex s = (Inr None, t)"
    then obtain res x where "GetResourceByID rsc s = Inr res" "Res_OwnerUserID res \<noteq> [] \<and> User_ID u = Res_OwnerUserID res" "Res_RiskTier res \<noteq> ''high''"
      "\<not> FindingsHaveBlock (lintGrant ge res scope)" "materializeGrant a res (User_ID u) scope s = (Inr x, t)"
      by (auto simp: createGrantRequest_def Let_def split: sum.splits prod.splits if_splits)
    then show "\<exists>res. GetResourceByID rsc s = Inr res \<and> Res_OwnerUserID res \<noteq> [] \<and> User_ID u = Res_OwnerUserID res \<and> Res_RiskTier res \<noteq> ''high'' \<and>
         \<not> FindingsHaveBlock (lintGrant ge res scope) \<and> in_force s t a res (User_ID u) scope" using materialize_in_force by blast
  qed
  have ?G if O: ?O
  proof -
    obtain req res where l: "loadGrantRequestAndResource rid s = Inr (req, res)"
      using O by (cases "loadGrantRequestAndResource rid s") (auto simp: approveGrantOwner_def)
    then obtain upd s1 up who where "UpdateGrantRequestState (GR_ID req) GrantRequestPendingOwner up s = (Inr upd, s1)" "finish_approval req upd res who s1 = (Inr r, t)"
      using owner_finishes O by blast
    from approved_in_force [OF this] show ?thesis using l assms load_Inr by force
  qed
  moreover have ?G if A: ?A
  proof -
    obtain req res where l: "gm_get (grantRequests s) rid = Some req" "GetResourceByID (GR_ResourceID req) s = Inr res"
      using A load_Inr by (cases "loadGrantRequestAndResource rid s") (auto simp: approveGrantAdmin_def split: if_splits)
    obtain upd s1 up who where "UpdateGrantRequestState (GR_ID req) GrantRequestPendingAdmin up s = (Inr upd, s1)" "finish_approval req upd res who s1 = (Inr r, t)"
      using A l by (auto simp: approveGrantAdmin_def loadGrantRequestAndResource_def GetGrantRequest_def split: if_splits sum.splits prod.splits)
    from approved_in_force [OF this] show ?thesis using l assms [OF l(1)] by auto
  qed
  ultimately show ?thesis using c by blast
qed

section \<open>Properties of runs\<close>

text \<open>C5. An approval has the decisions its tier asks for, in order. Over every run, a request in state approved either is not
  of high tier and was approved at the owner's stage, or was co-signed by a platform admin while it was pending at the admin's
  stage, after an approval at the owner's stage or, alone, where the resource had no owner when the request was opened. A
  request that waits for the admin has the approval of the owner's stage, or its resource had no owner. The owner's stage is
  open to the owner the resource has at that moment and to platform admins, so for a high-tier request the two approvals may
  come from one admin (\<open>one_admin_signs_twice\<close> below).\<close>

theorem approved_request_was_decided:
  assumes "grant_init i" and "grant_step\<^sup>*\<^sup>* i (s, h)" and "GetGrantRequest rid s = Inr r"
  shows "(GR_State r = GrantRequestPendingAdmin \<longrightarrow> opened_ownerless h r \<or> stage_said h r) \<and>
    (GR_State r = GrantRequestApproved \<longrightarrow>
       (GR_Tier r \<noteq> ''high'' \<and> stage_said h r) \<or> cosigned h r)"
proof -
  have "grant_inv (s, h)" using grant_machine.reachable_inv [OF assms(1,2)] .
  moreover have "gm_get (grantRequests s) rid = Some r" using assms(3) by (auto simp: GetGrantRequest_def split: option.splits)
  ultimately show ?thesis using grant_invD by (auto simp: justified_def)
qed

text \<open>C37. A grant request only moves forward. From every reachable store a request is never lost, keeps its resource, agent,
  requester, tier and scope, and its state follows the documented machine: the owner's step comes first and leads to the
  admin's step for high tier only, and approved and denied are final.\<close>

theorem grant_request_only_advances:
  assumes "grant_init i" and "grant_step\<^sup>*\<^sup>* i (s, h)" and "grant_step\<^sup>*\<^sup>* (s, h) (t, h')" and "GetGrantRequest rid s = Inr r"
  shows "\<exists>r'. GetGrantRequest rid t = Inr r' \<and> same_request r r' \<and> grant_reaches (GR_Tier r) (GR_State r) (GR_State r')"
proof -
  have "grant_inv (s, h)" using grant_machine.reachable_inv [OF assms(1,2)] .
  then have "req_advances s t" using grant_run_advances [OF assms(3)] by simp
  then show ?thesis using assms(4) by (fastforce simp: req_advances_def GetGrantRequest_def split: option.splits)
qed

section \<open>A run\<close>

text \<open>A high-tier resource: a request, the owner's approval, the admin's co-signature.\<close>

definition demo_requester :: User where
  "demo_requester = User_zero\<lparr>User_ID := ''q''\<rparr>"

definition demo_res_owner :: User where
  "demo_res_owner = User_zero\<lparr>User_ID := ''o''\<rparr>"

definition demo_admin :: User where
  "demo_admin = User_zero\<lparr>User_ID := ''p'', User_Role := RolePlatformAdmin\<rparr>"

definition demo_grant_store :: "string \<Rightarrow> MemoryStore" where
  "demo_grant_store tier = demo_store\<lparr>agents := [(''a'', Agent_zero\<lparr>Agent_ID := ''a''\<rparr>)],
     resources := [(''r'', RegistryResource_zero\<lparr>Res_ID := ''r'', Res_Type := ''mcp'', Res_Name := ''db'', Res_OwnerUserID := ''o'', Res_RiskTier := tier\<rparr>)]\<rparr>"

definition demo_ge :: grant_env where
  "demo_ge = \<lparr>GE_Linter = None, GE_Json = (\<lambda>_. RawEmpty)\<rparr>"

definition demo_ask :: "string \<Rightarrow> MemoryStore" where
  "demo_ask tier = snd (createGrantRequest demo_ge demo_requester ''r'' ''a'' ''{}'' None (demo_grant_store tier))"

definition demo_owned :: MemoryStore where
  "demo_owned = snd (approveGrantOwner demo_res_owner (demo_uuid 0) (demo_ask ''high''))"

definition demo_signed :: MemoryStore where
  "demo_signed = snd (approveGrantAdmin demo_admin (demo_uuid 0) demo_owned)"

definition demo_gh1 :: "grant_event list" where
  "demo_gh1 = [EvCreate (GetResourceByID ''r'' (demo_grant_store ''high'')) (fst (createGrantRequest demo_ge demo_requester ''r'' ''a'' ''{}'' None (demo_grant_store ''high'')))]"

definition demo_gh3 :: "grant_event list" where
  "demo_gh3 = EvAdmin demo_admin (demo_uuid 0) (loadGrantRequestAndResource (demo_uuid 0) demo_owned) #
     EvOwner demo_res_owner (demo_uuid 0) (loadGrantRequestAndResource (demo_uuid 0) (demo_ask ''high'')) # demo_gh1"

lemma demo_grant_init: "grant_init (demo_grant_store tier, [])"
  by (simp add: grant_init_def demo_grant_store_def demo_store_def NewMemoryStore_def)

lemma demo_ask_run: "grant_step\<^sup>*\<^sup>* (demo_grant_store ''high'', []) (demo_ask ''high'', demo_gh1)"
  unfolding demo_ask_def demo_gh1_def by (intro r_into_rtranclp grant_step.create) simp

lemma demo_signed_run: "grant_step\<^sup>*\<^sup>* (demo_ask ''high'', demo_gh1) (demo_signed, demo_gh3)"
proof -
  have "grant_step (demo_ask ''high'', demo_gh1) (demo_owned, EvOwner demo_res_owner (demo_uuid 0) (loadGrantRequestAndResource (demo_uuid 0) (demo_ask ''high'')) # demo_gh1)"
    unfolding demo_owned_def by (rule grant_step.owner) (rule prod.collapse [symmetric])
  moreover have "grant_step (demo_owned, EvOwner demo_res_owner (demo_uuid 0) (loadGrantRequestAndResource (demo_uuid 0) (demo_ask ''high'')) # demo_gh1) (demo_signed, demo_gh3)"
    unfolding demo_signed_def demo_gh3_def by (rule grant_step.admin) (rule prod.collapse [symmetric])
  ultimately show ?thesis by (meson converse_rtranclp_into_rtranclp r_into_rtranclp)
qed

lemma demo_grant_evals:
  "case GetGrantRequest (demo_uuid 0) (demo_ask ''high'') of Inr r \<Rightarrow> GR_State r = ''pending_owner'' \<and> GR_Tier r = ''high'' | _ \<Rightarrow> False"
  "case GetGrantRequest (demo_uuid 0) demo_signed of Inr r \<Rightarrow> GR_State r = ''approved'' \<and> GR_Tier r = ''high'' | _ \<Rightarrow> False"
  "case fst (approveGrantAdmin demo_admin (demo_uuid 0) demo_owned) of Inr r \<Rightarrow> GR_State r = ''approved'' \<and> GR_ResourceID r = ''r'' | _ \<Rightarrow> False"
  by code_simp+

theorem approved_request_was_decided_witness:
  "\<exists>r. GetGrantRequest (demo_uuid 0) demo_signed = Inr r \<and> GR_Tier r = ''high'' \<and> cosigned demo_gh3 r"
proof -
  obtain r where r: "GetGrantRequest (demo_uuid 0) demo_signed = Inr r" "GR_State r = ''approved''" "GR_Tier r = ''high''"
    using demo_grant_evals(2) by (auto split: sum.splits)
  from approved_request_was_decided [OF demo_grant_init rtranclp_trans [OF demo_ask_run demo_signed_run] r(1)] r
  show ?thesis by (auto simp: GrantRequestApproved_def)
qed

theorem grant_request_only_advances_witness:
  "\<exists>r r'. GetGrantRequest (demo_uuid 0) (demo_ask ''high'') = Inr r \<and> GetGrantRequest (demo_uuid 0) demo_signed = Inr r' \<and>
     same_request r r' \<and> grant_reaches ''high'' (GR_State r) (GR_State r')"
proof -
  obtain r where r: "GetGrantRequest (demo_uuid 0) (demo_ask ''high'') = Inr r" "GR_Tier r = ''high''" using demo_grant_evals(1) by (auto split: sum.splits)
  from grant_request_only_advances [OF demo_grant_init demo_ask_run demo_signed_run r(1)] r show ?thesis by auto
qed

theorem reported_approval_in_force_witness:
  "\<exists>r res. approveGrantAdmin demo_admin (demo_uuid 0) demo_owned = (Inr r, demo_signed) \<and> GetResourceByID ''r'' demo_owned = Inr res \<and>
     in_force demo_owned demo_signed (GR_AgentID r) res (GR_RequesterUserID r) (GR_RequestedScope r)"
proof -
  have keys: "GR_ID q = k" if "gm_get (grantRequests demo_owned) k = Some q" for k q
  proof -
    have "list_all (\<lambda>(k, q). GR_ID q = k) (grantRequests demo_owned)" by code_simp
    then show ?thesis using that by (auto simp: gm_get_def list_all_iff dest: map_of_SomeD)
  qed
  obtain r where r: "approveGrantAdmin demo_admin (demo_uuid 0) demo_owned = (Inr r, demo_signed)" "GR_ResourceID r = ''r''"
    using demo_grant_evals(3) by (auto simp: demo_signed_def split: sum.splits) (metis prod.collapse)
  then show ?thesis using reported_approval_in_force [OF keys, where r = r and t = demo_signed and u = demo_admin and rid = "demo_uuid 0"] by auto
qed

section \<open>Where the workflow falls short\<close>

text \<open>The state is advanced before the permission is written. When the agent has been deleted meanwhile, the approval is answered
  with an error and the request is approved all the same, without a permission and without a way to retry.\<close>

definition demo_gone :: MemoryStore where
  "demo_gone = (demo_ask ''low'')\<lparr>agents := []\<rparr>"

lemma approved_without_permission:
  "(case approveGrantOwner demo_res_owner (demo_uuid 0) demo_gone of
     (r, t) \<Rightarrow> r = Inl (GrantStore ErrNotFound) \<and> permissions t = [] \<and>
       (case GetGrantRequest (demo_uuid 0) t of Inr q \<Rightarrow> GR_State q = GrantRequestApproved | _ \<Rightarrow> False) \<and>
       fst (approveGrantOwner demo_res_owner (demo_uuid 0) t) = Inl errGrantTransitionInvalid)"
  by code_simp

text \<open>The tier is read when the request is opened. A resource raised to high afterwards is still granted on the owner's word alone,
  and one platform admin can give both approvals of a high-tier request.\<close>

definition demo_raised :: MemoryStore where
  "demo_raised = (demo_ask ''low'')\<lparr>resources := resources (demo_grant_store ''high'')\<rparr>"

lemma raised_tier_is_ignored:
  "(case approveGrantOwner demo_res_owner (demo_uuid 0) demo_raised of
     (Inr r, t) \<Rightarrow> GR_State r = GrantRequestApproved \<and> AgentHasPermission ''a'' ''mcp'' ''r'' t = Inr True | _ \<Rightarrow> False)"
  by code_simp

lemma one_admin_signs_twice:
  "(case approveGrantAdmin demo_admin (demo_uuid 0) (snd (approveGrantOwner demo_admin (demo_uuid 0) (demo_ask ''high''))) of
     (Inr r, t) \<Rightarrow> GR_State r = GrantRequestApproved \<and> GR_Tier r = ''high'' | _ \<Rightarrow> False)"
  by code_simp

end
