(* ===== verification/Builtin_Tools.thy ===== *)
theory Builtin_Tools
  imports Registry_Store Go_Json Go_Fmt
begin

text \<open>
  The platform's built-in tools: policy validation (\<^verbatim>\<open>domain/builtin_tools.go\<close>), their rows in the memory store
  (\<^verbatim>\<open>storage/builtin_tools.go\<close>) and the admin handlers (\<^verbatim>\<open>httpapi/builtin_tools_handlers.go\<close>). The reader of JSON text, the
  regular-expression compiler and the compaction of raw JSON are parameters, in the record \<open>tool_env\<close>.
\<close>

section \<open>Policy validation\<close>

definition BoardTools :: "string list" where
  "BoardTools = [''board.create_task'', ''board.assign'', ''board.claim'', ''board.complete'', ''board.block'', ''board.reopen'',
     ''board.request_changes'', ''board.approve'']"

definition SearchProviderNames :: "string list" where
  "SearchProviderNames = [''duckduckgo'', ''brave'', ''perplexity'']"

definition IsBuiltinToolName :: "string \<Rightarrow> bool" where
  "IsBuiltinToolName nm \<longleftrightarrow> nm \<in> set BuiltinToolNames"

definition IsSearchProvider :: "string \<Rightarrow> bool" where
  "IsSearchProvider p \<longleftrightarrow> p \<in> set SearchProviderNames"

text \<open>\<^verbatim>\<open>encoding/json\<close> decodes a number literal, and also a string that holds a valid number, into a \<^verbatim>\<open>json.Number\<close>; \<^verbatim>\<open>Int64\<close> then
  reads it as a decimal integer. A JSON number has no leading zero and no plus sign.\<close>

definition number_literal :: "string \<Rightarrow> bool" where
  "number_literal s = (let ds = (case s of [] \<Rightarrow> [] | c # cs \<Rightarrow> if c = CHR ''-'' then cs else s)
     in ds \<noteq> [] \<and> list_all (\<lambda>c. digit_val c \<noteq> None) ds \<and> (hd ds = CHR ''0'' \<longrightarrow> length ds = 1))"

definition json_number :: "json \<Rightarrow> int option" where
  "json_number v =
     (case v of JNum (Some n) \<Rightarrow> if int64 n then Some n else None
      | JStr t \<Rightarrow> if number_literal t then Atoi t else None
      | _ \<Rightarrow> None)"

definition requirePositiveInt :: "string \<Rightarrow> json \<Rightarrow> string list" where
  "requirePositiveInt key v =
     (case json_number v of None \<Rightarrow> [key @ '' must be an integer'']
      | Some n \<Rightarrow> if n \<le> 0 then [key @ '' must be a positive integer''] else [])"

definition requireBool :: "string \<Rightarrow> json \<Rightarrow> string list" where
  "requireBool key v = (if un_bool v = None then [key @ '' must be a boolean''] else [])"

definition requireRegexList :: "(string \<Rightarrow> string option) \<Rightarrow> string \<Rightarrow> json \<Rightarrow> string list" where
  "requireRegexList compile_rx key v =
     (case un_strings v of (ok, pats) \<Rightarrow>
        if \<not> ok then [key @ '' must be an array of strings'']
        else List.map_filter (\<lambda>p. map_option (\<lambda>e. key @ '' contains invalid regex '' @ Quote p @ '': '' @ e) (compile_rx p)) pats)"

definition requireSearchProvider :: "string \<Rightarrow> json \<Rightarrow> string list" where
  "requireSearchProvider key v =
     (case un_string v of None \<Rightarrow> [key @ '' must be a string'']
      | Some s \<Rightarrow> if IsSearchProvider s then [] else [key @ '' must be one of: duckduckgo, brave, perplexity''])"

text \<open>The switch of \<^verbatim>\<open>ValidateBuiltinPolicy\<close>; \<open>None\<close> is its default branch.\<close>

definition allowed_keys :: "(string \<Rightarrow> string option) \<Rightarrow> string \<Rightarrow> (string \<times> (string \<Rightarrow> json \<Rightarrow> string list)) list option" where
  "allowed_keys compile_rx nm =
     (if nm = ''exec'' then
        Some [(''timeoutSeconds'', requirePositiveInt), (''maxOutputBytes'', requirePositiveInt), (''deniedPatterns'', requireRegexList compile_rx)]
      else if nm = ''web_fetch'' then
        Some [(''timeoutSeconds'', requirePositiveInt), (''maxBytes'', requirePositiveInt), (''allowPrivateNetwork'', requireBool)]
      else if nm = ''web_search'' then
        Some [(''timeoutSeconds'', requirePositiveInt), (''maxResults'', requirePositiveInt), (''provider'', requireSearchProvider)]
      else if nm \<in> {''send_message'', ''send_inbox'', ''notify_owner''} then
        Some [(''timeoutSeconds'', requirePositiveInt), (''maxMessageChars'', requirePositiveInt)]
      else if nm = ''memory_search'' then
        Some [(''timeoutSeconds'', requirePositiveInt), (''maxResults'', requirePositiveInt)]
      else if nm = ''spawn_subagent'' then Some []
      else if nm \<in> {''read'', ''write'', ''edit'', ''apply_patch''} then
        Some [(''timeoutSeconds'', requirePositiveInt), (''maxBytes'', requirePositiveInt)]
      else if nm = ''process'' then
        Some [(''maxSessions'', requirePositiveInt), (''maxLogBytes'', requirePositiveInt)]
      else if nm = BuiltinToolCron then Some [(''maxActiveJobs'', requirePositiveInt)]
      else if nm = ''browser'' then
        Some [(''timeoutSeconds'', requirePositiveInt), (''maxSnapshotChars'', requirePositiveInt), (''maxScreenshotBytes'', requirePositiveInt)]
      else if nm \<in> {''sessions_list'', ''sessions_history'', ''session_status''} then Some []
      else None)"

record tool_env =
  TV_Json :: "string \<Rightarrow> RawMessage"
  TV_Compile :: "string \<Rightarrow> string option"
  TV_Compact :: "string \<Rightarrow> string"

definition check_key :: "string \<Rightarrow> (string \<times> (string \<Rightarrow> json \<Rightarrow> string list)) list \<Rightarrow> string \<times> json \<Rightarrow> string list" where
  "check_key nm allowed kv =
     (case map_of allowed (fst kv) of None \<Rightarrow> [''unknown policy key '' @ Quote (fst kv) @ '' for tool '' @ nm]
      | Some check \<Rightarrow> check (fst kv) (snd kv))"

definition ValidateBuiltinPolicy :: "tool_env \<Rightarrow> string \<Rightarrow> string \<Rightarrow> string list" where
  "ValidateBuiltinPolicy te nm policy =
     (if policy = [] then []
      else case TV_Json te policy of
        Raw (JObj kvs) \<Rightarrow>
          (case allowed_keys (TV_Compile te) nm of None \<Rightarrow> [''unknown built-in tool '' @ Quote nm]
           | Some allowed \<Rightarrow>
               concat (map (check_key nm allowed) (sort_by (\<lambda>a b. str_cmp (fst a) (fst b)) (fold (\<lambda>(k, x). gm_put k x) kvs []))))
      | _ \<Rightarrow> [''policy must be a JSON object''])"

section \<open>The rows of the memory store\<close>

definition ListBuiltinTools :: "MemoryStore \<Rightarrow> BuiltinToolConfig list" where
  "ListBuiltinTools s = List.map_filter (gm_get (builtinTools s)) BuiltinToolNames"

definition GetBuiltinTool :: "string \<Rightarrow> MemoryStore \<Rightarrow> BuiltinToolConfig res" where
  "GetBuiltinTool nm s = (case gm_get (builtinTools s) nm of None \<Rightarrow> Inl ErrNotFound | Some t \<Rightarrow> Inr t)"

definition UpdateBuiltinTool :: "string \<Rightarrow> bool option \<Rightarrow> string \<Rightarrow> string \<Rightarrow> MemoryStore \<Rightarrow> BuiltinToolConfig res \<times> MemoryStore" where
  "UpdateBuiltinTool nm enabled policy updatedBy s =
     (case gm_get (builtinTools s) nm of None \<Rightarrow> (Inl ErrNotFound, s)
      | Some t \<Rightarrow>
          let t' = t\<lparr>BT_Enabled := (case enabled of None \<Rightarrow> BT_Enabled t | Some b \<Rightarrow> b),
                     BT_Policy := (if policy \<noteq> [] then policy else BT_Policy t),
                     BT_UpdatedAt := env_now s, BT_UpdatedBy := updatedBy\<rparr>
          in (Inr t', drainPendingAuditsLocked (BT_Name t') (s\<lparr>builtinTools := gm_put nm t' (builtinTools s)\<rparr>)))"

section \<open>The admin handlers\<close>

datatype 'a api_reply = ApiOK int 'a | ApiErr int string string

definition writeStorageError :: "store_error \<Rightarrow> 'a api_reply" where
  "writeStorageError e =
     (if e = ErrNotFound then ApiErr 404 ''not_found'' ''resource not found''
      else if e = ErrConflict then ApiErr 409 ''conflict'' ''resource already exists''
      else ApiErr 500 ''internal'' ''unexpected storage error'')"

definition admin_required :: "'a api_reply" where
  "admin_required = ApiErr 403 ''forbidden'' ''platform admin role is required''"

record builtinToolAdminView =
  AV_Name :: string
  AV_Enabled :: bool
  AV_Policy :: string
  AV_UpdatedAt :: string
  AV_UpdatedBy :: string

definition normalizePolicy :: "string \<Rightarrow> string" where
  "normalizePolicy p = (if p = [] then ''{}'' else p)"

definition builtinToolAdminViewOf :: "BuiltinToolConfig \<Rightarrow> builtinToolAdminView" where
  "builtinToolAdminViewOf t = \<lparr>AV_Name = BT_Name t, AV_Enabled = BT_Enabled t, AV_Policy = normalizePolicy (BT_Policy t),
     AV_UpdatedAt = rfc3339 (BT_UpdatedAt t), AV_UpdatedBy = BT_UpdatedBy t\<rparr>"

definition listBuiltinToolsAdmin :: "User \<Rightarrow> MemoryStore \<Rightarrow> builtinToolAdminView list api_reply" where
  "listBuiltinToolsAdmin caller s =
     (if User_Role caller \<noteq> RolePlatformAdmin then admin_required
      else ApiOK 200 (map builtinToolAdminViewOf (ListBuiltinTools s)))"

text \<open>The audit metadata: the keys of the map in increasing order, an absent value as null.\<close>

definition patch_metadata :: "tool_env \<Rightarrow> string \<Rightarrow> bool option \<Rightarrow> string \<Rightarrow> string" where
  "patch_metadata te nm enabled policy =
     ''{\"enabled\":'' @ (case enabled of None \<Rightarrow> ''null'' | Some True \<Rightarrow> ''true'' | Some False \<Rightarrow> ''false'') @
     '',\"policy\":'' @ (if policy = [] then ''null'' else TV_Compact te policy) @ '',\"tool\":'' @ json_string nm @ ''}''"

definition patchBuiltinTool :: "tool_env \<Rightarrow> User \<Rightarrow> string \<Rightarrow> (bool option \<times> string) option \<Rightarrow> MemoryStore \<Rightarrow> builtinToolAdminView api_reply \<times> MemoryStore" where
  "patchBuiltinTool te caller nm body s =
     (if User_Role caller \<noteq> RolePlatformAdmin then (admin_required, s)
      else if \<not> IsBuiltinToolName nm then (ApiErr 404 ''not_found'' (''unknown built-in tool: '' @ nm), s)
      else case body of None \<Rightarrow> (ApiErr 400 ''bad_request'' ''invalid JSON body'', s)
      | Some (enabled, policy) \<Rightarrow>
          if enabled = None \<and> policy = [] then (ApiErr 400 ''bad_request'' ''at least one of enabled or policy must be provided'', s)
          else if ValidateBuiltinPolicy te nm policy \<noteq> []
          then (ApiErr 400 ''invalid_policy'' (join_with ''; '' (ValidateBuiltinPolicy te nm policy)), s)
          else
            let entry = NewAuditEntry ''user'' (User_ID caller) ''builtin_tools.update'' ''builtin_tools'' [] [] (patch_metadata te nm enabled policy)
            in case UpdateBuiltinTool nm enabled policy (User_ID caller) (WithPendingAudit [Some entry] s) of
                 (Inl e, s1) \<Rightarrow> (writeStorageError e, s1)
               | (Inr t, s1) \<Rightarrow> (ApiOK 200 (builtinToolAdminViewOf t), s1))"

definition deleteBuiltinTool :: "User \<Rightarrow> string \<Rightarrow> unit api_reply" where
  "deleteBuiltinTool caller nm =
     (if User_Role caller \<noteq> RolePlatformAdmin then admin_required
      else if \<not> IsBuiltinToolName nm then ApiErr 404 ''not_found'' (''unknown built-in tool: '' @ nm)
      else ApiErr 405 ''builtin_undeletable''
        (''built-in tools cannot be deleted; disable '' @ nm @ '' instead via PATCH /api/v1/admin/tools/'' @ nm))"

section \<open>Stored policies are well typed\<close>

inductive tool_step :: "tool_env \<Rightarrow> MemoryStore \<Rightarrow> MemoryStore \<Rightarrow> bool" for te where
  patch: "patchBuiltinTool te caller nm body s = (r, t) \<Longrightarrow> tool_step te s t"
| elsewhere: "builtinTools t = builtinTools s \<Longrightarrow> tool_step te s t"

definition tool_init :: "tool_env \<Rightarrow> MemoryStore \<Rightarrow> bool" where
  "tool_init te s \<longleftrightarrow> TV_Json te ''{}'' = Raw (JObj []) \<and> builtinTools s = seedBuiltinToolsLocked (env_now s)"

definition policy_typed :: "tool_env \<Rightarrow> string \<Rightarrow> string \<Rightarrow> bool" where
  "policy_typed te nm policy \<longleftrightarrow> (if nm \<in> set BoardTools then policy = ''{}'' else ValidateBuiltinPolicy te nm policy = [])"

definition tool_inv :: "tool_env \<Rightarrow> MemoryStore \<Rightarrow> bool" where
  "tool_inv te s \<longleftrightarrow> (\<forall>nm. if IsBuiltinToolName nm
     then \<exists>t. gm_get (builtinTools s) nm = Some t \<and> BT_Name t = nm \<and> BT_Policy t \<noteq> [] \<and> policy_typed te nm (BT_Policy t)
     else gm_get (builtinTools s) nm = None)"

lemma seed_fold:
  "gm_get (fold (\<lambda>nm. gm_put nm (f nm)) nms m) k = (if k \<in> set nms then Some (f k) else gm_get m k)"
  by (induction nms arbitrary: m) auto

lemma seed_get: "gm_get (seedBuiltinToolsLocked now) nm =
  (if IsBuiltinToolName nm then Some \<lparr>BT_Name = nm, BT_Enabled = BuiltinToolDefaultEnabled nm, BT_Policy = ''{}'', BT_UpdatedAt = now, BT_UpdatedBy = []\<rparr> else None)"
  unfolding seedBuiltinToolsLocked_def seed_fold IsBuiltinToolName_def by (simp add: gm_get_def)

text \<open>Every tool but the board's has a branch in the switch.\<close>

lemma tools_covered: "list_all (\<lambda>nm. nm \<in> set BoardTools \<or> allowed_keys rx nm \<noteq> None) BuiltinToolNames"
  by (simp add: BuiltinToolNames_def BoardTools_def allowed_keys_def BuiltinToolCron_def)

lemma empty_policy_typed: "TV_Json te ''{}'' = Raw (JObj []) \<Longrightarrow> IsBuiltinToolName nm \<Longrightarrow> policy_typed te nm ''{}''"
  using tools_covered [of "TV_Compile te"]
  by (auto simp: policy_typed_def ValidateBuiltinPolicy_def IsBuiltinToolName_def list_all_iff split: option.splits)

text \<open>No policy of a board tool is ever accepted.\<close>

lemma boards_uncovered: "list_all (\<lambda>nm. allowed_keys rx nm = None) BoardTools"
  by (simp add: BoardTools_def allowed_keys_def BuiltinToolCron_def)

lemma board_policy_rejected: "nm \<in> set BoardTools \<Longrightarrow> policy \<noteq> [] \<Longrightarrow> ValidateBuiltinPolicy te nm policy \<noteq> []"
  using boards_uncovered [of "TV_Compile te"] by (simp add: ValidateBuiltinPolicy_def list_all_iff split: RawMessage.split json.split)

definition patched_row :: "bool option \<Rightarrow> string \<Rightarrow> string \<Rightarrow> instant \<Rightarrow> BuiltinToolConfig \<Rightarrow> BuiltinToolConfig" where
  "patched_row enabled policy who now t =
     t\<lparr>BT_Enabled := (case enabled of None \<Rightarrow> BT_Enabled t | Some b \<Rightarrow> b), BT_Policy := (if policy \<noteq> [] then policy else BT_Policy t),
       BT_UpdatedAt := now, BT_UpdatedBy := who\<rparr>"

lemma update_tool_effect:
  "builtinTools (snd (UpdateBuiltinTool nm enabled policy who s)) =
     (case gm_get (builtinTools s) nm of None \<Rightarrow> builtinTools s | Some t \<Rightarrow> gm_put nm (patched_row enabled policy who (env_now s) t) (builtinTools s))"
  by (simp add: UpdateBuiltinTool_def patched_row_def Let_def split: option.split)

lemma patch_effect:
  assumes "patchBuiltinTool te caller nm body s = (r, t)"
  shows "builtinTools t = builtinTools s \<or>
    (\<exists>row enabled policy. IsBuiltinToolName nm \<and> gm_get (builtinTools s) nm = Some row \<and> ValidateBuiltinPolicy te nm policy = [] \<and>
      builtinTools t = gm_put nm (patched_row enabled policy (User_ID caller) (env_now s) row) (builtinTools s))"
proof (cases "t = s")
  case False
  then obtain enabled policy es where b: "IsBuiltinToolName nm" "ValidateBuiltinPolicy te nm policy = []"
      "t = snd (UpdateBuiltinTool nm enabled policy (User_ID caller) (WithPendingAudit es s))"
    using assms by (simp add: patchBuiltinTool_def Let_def split: if_splits option.splits prod.splits sum.splits) (metis snd_conv)+
  have "builtinTools (WithPendingAudit es s) = builtinTools s" "env_now (WithPendingAudit es s) = env_now s" by (simp_all add: WithPendingAudit_def)
  then show ?thesis using b by (cases "gm_get (builtinTools s) nm") (auto simp: update_tool_effect)
qed simp

lemma tool_invD:
  "tool_inv te s \<Longrightarrow> gm_get (builtinTools s) nm = Some t \<Longrightarrow> IsBuiltinToolName nm \<and> BT_Name t = nm \<and> BT_Policy t \<noteq> [] \<and> policy_typed te nm (BT_Policy t)"
  unfolding tool_inv_def by (drule spec [of _ nm]) (auto split: if_splits)

lemma tool_inv_put:
  assumes "tool_inv te s" and "IsBuiltinToolName nm" and "BT_Name t = nm" and "BT_Policy t \<noteq> []" and "policy_typed te nm (BT_Policy t)"
    and "builtinTools s' = gm_put nm t (builtinTools s)"
  shows "tool_inv te s'"
  unfolding tool_inv_def
proof
  fix k
  show "if IsBuiltinToolName k then \<exists>t. gm_get (builtinTools s') k = Some t \<and> BT_Name t = k \<and> BT_Policy t \<noteq> [] \<and> policy_typed te k (BT_Policy t)
    else gm_get (builtinTools s') k = None"
    using assms(1) [unfolded tool_inv_def, THEN spec, of k] assms(2-6) by (cases "k = nm") auto
qed

lemma tool_step_inv: "tool_step te s t \<Longrightarrow> tool_inv te s \<Longrightarrow> tool_inv te t"
proof (induction rule: tool_step.induct)
  case (patch caller nm body s r t)
  show ?case
  proof (cases "builtinTools t = builtinTools s")
    case False
    then obtain row enabled policy where e: "IsBuiltinToolName nm" "gm_get (builtinTools s) nm = Some row" "ValidateBuiltinPolicy te nm policy = []"
        "builtinTools t = gm_put nm (patched_row enabled policy (User_ID caller) (env_now s) row) (builtinTools s)"
      using patch_effect [OF patch(1)] by blast
    let ?row = "patched_row enabled policy (User_ID caller) (env_now s) row"
    note old = tool_invD [OF patch(2) e(2)]
    have "policy_typed te nm (BT_Policy ?row)"
      using e(3) old board_policy_rejected [of nm policy te] by (auto simp: policy_typed_def patched_row_def)
    moreover have "BT_Name ?row = nm" "BT_Policy ?row \<noteq> []" using old by (simp_all add: patched_row_def)
    ultimately show ?thesis using tool_inv_put [OF patch(2) e(1) _ _ _ e(4)] by blast
  qed (use patch in \<open>simp add: tool_inv_def\<close>)
qed (simp add: tool_inv_def)

lemma tool_init_inv: "tool_init te s \<Longrightarrow> tool_inv te s"
  using empty_policy_typed by (auto simp: tool_init_def tool_inv_def seed_get)

interpretation tool_machine: state_machine "tool_init te" "tool_step te" "tool_inv te" for te
  by unfold_locales (blast intro: tool_init_inv tool_step_inv)+

text \<open>C38. Stored tool policies are well typed. In every store reached from the seeded rows by the admin's patches, each built-in
  tool has exactly one row, there is no other row, and the row's policy is one the validator accepts for that tool; a tool
  of the board, for which the validator knows no key, still has the empty policy it was seeded with.\<close>

theorem stored_policies_well_typed:
  assumes "tool_init te s" and "(tool_step te)\<^sup>*\<^sup>* s t"
  shows "map BT_Name (ListBuiltinTools t) = BuiltinToolNames \<and>
    (\<forall>nm row. GetBuiltinTool nm t = Inr row \<longrightarrow> IsBuiltinToolName nm \<and> BT_Name row = nm \<and>
       (if nm \<in> set BoardTools then BT_Policy row = ''{}'' else ValidateBuiltinPolicy te nm (BT_Policy row) = []))"
proof -
  have inv: "tool_inv te t" using tool_machine.reachable_inv [OF assms] .
  have "map BT_Name (List.map_filter (gm_get (builtinTools t)) nms) = nms" if "set nms \<subseteq> set BuiltinToolNames" for nms
    using that
  proof (induction nms)
    case (Cons nm nms)
    then obtain row where "gm_get (builtinTools t) nm = Some row" "BT_Name row = nm" using inv [unfolded tool_inv_def, THEN spec, of nm] by (auto simp: IsBuiltinToolName_def)
    then show ?case using Cons by (simp add: List.map_filter_simps)
  qed (simp add: List.map_filter_simps)
  then have "map BT_Name (ListBuiltinTools t) = BuiltinToolNames" unfolding ListBuiltinTools_def by blast
  moreover have "IsBuiltinToolName nm \<and> BT_Name row = nm \<and>
       (if nm \<in> set BoardTools then BT_Policy row = ''{}'' else ValidateBuiltinPolicy te nm (BT_Policy row) = [])"
    if "GetBuiltinTool nm t = Inr row" for nm row
  proof -
    have "gm_get (builtinTools t) nm = Some row" using that by (auto simp: GetBuiltinTool_def split: option.splits)
    then show ?thesis using tool_invD [OF inv] by (simp add: policy_typed_def)
  qed
  ultimately show ?thesis by blast
qed

definition demo_te :: tool_env where
  "demo_te = \<lparr>TV_Json = (\<lambda>p. if p = ''{}'' then Raw (JObj []) else if p = ''cap3'' then Raw (JObj [(''maxActiveJobs'', JNum (Some 3))])
       else if p = ''capText'' then Raw (JObj [(''maxActiveJobs'', JStr ''3'')]) else RawInvalid),
     TV_Compile = (\<lambda>_. None), TV_Compact = (\<lambda>p. p)\<rparr>"

definition demo_root :: User where
  "demo_root = User_zero\<lparr>User_ID := ''p'', User_Role := RolePlatformAdmin\<rparr>"

definition demo_seeded :: MemoryStore where
  "demo_seeded = demo_store\<lparr>builtinTools := seedBuiltinToolsLocked 1000\<rparr>"

definition demo_patched :: MemoryStore where
  "demo_patched = snd (patchBuiltinTool demo_te demo_root ''cron'' (Some (None, ''cap3'')) demo_seeded)"

theorem stored_policies_well_typed_witness:
  "map BT_Name (ListBuiltinTools demo_patched) = BuiltinToolNames \<and>
   (\<exists>row. GetBuiltinTool ''cron'' demo_patched = Inr row \<and> BT_Policy row = ''cap3'' \<and> ValidateBuiltinPolicy demo_te ''cron'' (BT_Policy row) = [])"
proof -
  have i: "tool_init demo_te demo_seeded" by (simp add: tool_init_def demo_seeded_def demo_te_def demo_store_code)
  have r: "(tool_step demo_te)\<^sup>*\<^sup>* demo_seeded demo_patched"
    unfolding demo_patched_def by (rule r_into_rtranclp, rule tool_step.patch, rule prod.collapse [symmetric])
  have "case GetBuiltinTool ''cron'' demo_patched of Inr row \<Rightarrow> BT_Policy row = ''cap3'' | _ \<Rightarrow> False" by code_simp
  then obtain row where row: "GetBuiltinTool ''cron'' demo_patched = Inr row" "BT_Policy row = ''cap3''" by (auto split: sum.splits)
  have "''cron'' \<notin> set BoardTools" by (simp add: BoardTools_def)
  with stored_policies_well_typed [OF i r] row show ?thesis by metis
qed

text \<open>A number in quotation marks passes the check of a positive integer.\<close>

lemma quoted_number_accepted: "ValidateBuiltinPolicy demo_te ''cron'' ''capText'' = []"
  by code_simp

end
