(* ===== verification/Budget_Blocks.thy ===== *)
theory Budget_Blocks
  imports Squad_Store
begin

text \<open>
  Persistence of budget enforcement in the memory store (\<^verbatim>\<open>storage/budget_enforcement.go\<close>, \<^verbatim>\<open>domain/budget_enforcement.go\<close>): the
  per-user block flags of one calendar month, and the markers that let each threshold notification be claimed once.
\<close>

section \<open>Blocks\<close>

definition BudgetSourceUser :: string where "BudgetSourceUser = ''user''"
definition BudgetSourcePlatform :: string where "BudgetSourcePlatform = ''platform''"

definition EffectiveBlocked :: "string \<Rightarrow> BudgetBlock option \<Rightarrow> bool" where
  "EffectiveBlocked period b =
     (case b of None \<Rightarrow> False | Some b \<Rightarrow> BB_Period b = period \<and> (BB_BlockedByUser b \<or> BB_BlockedByPlatform b))"

definition budgetBlockColumn :: "string \<Rightarrow> string + string" where
  "budgetBlockColumn source =
     (if source = BudgetSourceUser then Inr ''blocked_by_user''
      else if source = BudgetSourcePlatform then Inr ''blocked_by_platform''
      else Inl (''unknown budget enforcement source '' @ Quote source))"

definition GetBudgetBlock :: "string \<Rightarrow> MemoryStore \<Rightarrow> BudgetBlock res" where
  "GetBudgetBlock userID s = (case gm_get (budgetBlocks s) userID of None \<Rightarrow> Inl ErrNotFound | Some b \<Rightarrow> Inr b)"

definition updated_block :: "string \<Rightarrow> string \<Rightarrow> bool \<Rightarrow> instant \<Rightarrow> BudgetBlock \<Rightarrow> BudgetBlock" where
  "updated_block period col blocked now b =
     (let b1 = (if BB_Period b \<noteq> period then b\<lparr>BB_BlockedByUser := False, BB_BlockedByPlatform := False, BB_Period := period\<rparr> else b);
          b2 = (if col = ''blocked_by_user'' then b1\<lparr>BB_BlockedByUser := blocked\<rparr>
                else if col = ''blocked_by_platform'' then b1\<lparr>BB_BlockedByPlatform := blocked\<rparr> else b1)
      in b2\<lparr>BB_UpdatedAt := now\<rparr>)"

definition SetBudgetBlock :: "string \<Rightarrow> string \<Rightarrow> string \<Rightarrow> bool \<Rightarrow> MemoryStore \<Rightarrow> (string + bool) \<times> MemoryStore" where
  "SetBudgetBlock userID period source blocked s =
     (case budgetBlockColumn source of Inl e \<Rightarrow> (Inl e, s)
      | Inr col \<Rightarrow>
          let b = (case gm_get (budgetBlocks s) userID of Some b \<Rightarrow> b
                   | None \<Rightarrow> \<lparr>BB_UserID = userID, BB_Period = [], BB_BlockedByUser = False, BB_BlockedByPlatform = False, BB_UpdatedAt = 0\<rparr>);
              b' = updated_block period col blocked (env_now s) b
          in (Inr (BB_BlockedByUser b' \<noteq> BB_BlockedByUser b \<or> BB_BlockedByPlatform b' \<noteq> BB_BlockedByPlatform b),
              s\<lparr>budgetBlocks := gm_put userID b' (budgetBlocks s)\<rparr>))"

text \<open>Clearing a source walks the rows twice: first the flags, then the rows left without one.\<close>

definition block_is_set :: "string \<Rightarrow> BudgetBlock \<Rightarrow> bool" where
  "block_is_set col b \<longleftrightarrow> (col = ''blocked_by_user'' \<and> BB_BlockedByUser b) \<or> (col = ''blocked_by_platform'' \<and> BB_BlockedByPlatform b)"

definition clear_flag :: "string \<Rightarrow> instant \<Rightarrow> BudgetBlock \<Rightarrow> BudgetBlock" where
  "clear_flag col now b =
     (if col = ''blocked_by_user'' then b\<lparr>BB_BlockedByUser := False\<rparr> else b\<lparr>BB_BlockedByPlatform := False\<rparr>)\<lparr>BB_UpdatedAt := now\<rparr>"

definition drop_clear :: "string \<Rightarrow> BudgetBlock gomap \<Rightarrow> BudgetBlock gomap" where
  "drop_clear uid m =
     (case gm_get m uid of None \<Rightarrow> m
      | Some b \<Rightarrow> if \<not> BB_BlockedByUser b \<and> \<not> BB_BlockedByPlatform b then gm_del uid m else m)"

definition ClearBudgetBlocksBySource :: "string \<Rightarrow> MemoryStore \<Rightarrow> (string + string list) \<times> MemoryStore" where
  "ClearBudgetBlocksBySource source s =
     (case budgetBlockColumn source of Inl e \<Rightarrow> (Inl e, s)
      | Inr col \<Rightarrow>
          let ids = map fst (filter (\<lambda>p. block_is_set col (snd p)) (budgetBlocks s));
              m1 = gm_map (\<lambda>b. if block_is_set col b then clear_flag col (env_now s) b else b) (budgetBlocks s)
          in (Inr ids, s\<lparr>budgetBlocks := fold drop_clear ids m1\<rparr>))"

definition IsAgentBudgetBlocked :: "string \<Rightarrow> string \<Rightarrow> MemoryStore \<Rightarrow> bool res" where
  "IsAgentBudgetBlocked agentID period s =
     (case gm_get (agents s) agentID of None \<Rightarrow> Inl ErrNotFound
      | Some a \<Rightarrow>
          (case gm_get (squads s) (Agent_SquadID a) of None \<Rightarrow> Inr False
           | Some q \<Rightarrow> Inr (EffectiveBlocked period (gm_get (budgetBlocks s) (Squad_OwnerID q)))))"

section \<open>Notification markers\<close>

text \<open>\<^verbatim>\<open>itoa\<close> writes into a buffer of eight bytes from its end; \<open>None\<close> is the panic of an index below zero. Negating the least
  64-bit integer leaves it negative.\<close>

function itoa_loop :: "int \<Rightarrow> nat \<Rightarrow> string \<Rightarrow> (nat \<times> string) option" where
  "itoa_loop v i buf =
     (if v \<le> 0 then Some (i, buf)
      else if i = 0 then None
      else itoa_loop (v div 10) (i - 1) (char_of (48 + nat (v mod 10)) # buf))"
  by pat_completeness auto
termination by (relation "measure (\<lambda>(v, i, buf). i)") auto

declare itoa_loop.simps [simp del]

definition itoa :: "int \<Rightarrow> string option" where
  "itoa v =
     (if v = 0 then Some ''0''
      else let neg = (v < 0); w = (if neg then if v = - (2 ^ 63) then v else - v else v)
           in case itoa_loop w 8 [] of None \<Rightarrow> None
              | Some (i, buf) \<Rightarrow> if neg then (if i = 0 then None else Some (CHR ''-'' # buf)) else Some buf)"

definition BudgetNotifyMarker :: "string \<Rightarrow> int \<Rightarrow> string option" where
  "BudgetNotifyMarker source threshold = map_option (\<lambda>t. source @ '':'' @ t) (itoa threshold)"

definition budget_marker_key :: "string \<Rightarrow> string \<Rightarrow> string \<Rightarrow> string" where
  "budget_marker_key userID period marker = userID @ ''|'' @ period @ ''|'' @ marker"

definition ClaimBudgetNotification :: "string \<Rightarrow> string \<Rightarrow> string \<Rightarrow> MemoryStore \<Rightarrow> bool \<times> MemoryStore" where
  "ClaimBudgetNotification userID period marker s =
     (let key = budget_marker_key userID period marker
      in if key \<in> set (budgetNotifyMarkers s) then (False, s)
         else (True, s\<lparr>budgetNotifyMarkers := key # budgetNotifyMarkers s\<rparr>))"

section \<open>Laws of the blocks\<close>

text \<open>The abstract state: for each user and month the set of sources that block the user.\<close>

definition block_flags :: "BudgetBlock \<Rightarrow> string set" where
  "block_flags b = (if BB_BlockedByUser b then {BudgetSourceUser} else {}) \<union> (if BB_BlockedByPlatform b then {BudgetSourcePlatform} else {})"

definition blocked_by :: "MemoryStore \<Rightarrow> string \<Rightarrow> string \<Rightarrow> string set" where
  "blocked_by s u p = (case gm_get (budgetBlocks s) u of None \<Rightarrow> {} | Some b \<Rightarrow> if BB_Period b = p then block_flags b else {})"

definition set_source :: "string \<Rightarrow> bool \<Rightarrow> string set \<Rightarrow> string set" where
  "set_source src blocked S = (if blocked then insert src S else S - {src})"

lemma sources_differ [simp]: "BudgetSourceUser \<noteq> BudgetSourcePlatform" "BudgetSourcePlatform \<noteq> BudgetSourceUser"
  by (simp_all add: BudgetSourceUser_def BudgetSourcePlatform_def)

lemma column_cases:
  assumes "budgetBlockColumn src = Inr col"
  obtains (user) "src = BudgetSourceUser" "col = ''blocked_by_user''" | (platform) "src = BudgetSourcePlatform" "col = ''blocked_by_platform''"
  using assms by (auto simp: budgetBlockColumn_def split: if_splits)

lemma updated_block_flags:
  assumes "budgetBlockColumn src = Inr col"
  shows "block_flags (updated_block p col blocked now b) = set_source src blocked (if BB_Period b = p then block_flags b else {})"
    and "BB_Period (updated_block p col blocked now b) = p"
  using assms by (cases rule: column_cases; simp add: updated_block_def block_flags_def set_source_def; auto)+

lemma set_block_refines:
  assumes "SetBudgetBlock u p src blocked s = (Inr changed, t)"
  shows "blocked_by t v q = (if v = u then if q = p then set_source src blocked (blocked_by s u p) else {} else blocked_by s v q)"
proof -
  obtain col where col: "budgetBlockColumn src = Inr col" using assms by (auto simp: SetBudgetBlock_def split: sum.splits)
  let ?b = "case gm_get (budgetBlocks s) u of Some b \<Rightarrow> b
    | None \<Rightarrow> \<lparr>BB_UserID = u, BB_Period = [], BB_BlockedByUser = False, BB_BlockedByPlatform = False, BB_UpdatedAt = 0\<rparr>"
  have t: "budgetBlocks t = gm_put u (updated_block p col blocked (env_now s) ?b) (budgetBlocks s)"
    using assms col by (auto simp: SetBudgetBlock_def Let_def)
  have old: "(if BB_Period ?b = p then block_flags ?b else {}) = blocked_by s u p"
    by (simp add: blocked_by_def block_flags_def split: option.split)
  show ?thesis
  proof (cases "v = u")
    case True
    then show ?thesis using updated_block_flags [OF col, of p blocked "env_now s" ?b] old by (simp add: blocked_by_def [of t] t)
  next
    case False
    then show ?thesis by (simp add: blocked_by_def t)
  qed
qed

lemma drop_clear_get:
  "gm_get (drop_clear uid m) k =
     (case gm_get m k of None \<Rightarrow> None | Some b \<Rightarrow> if k = uid \<and> block_flags b = {} then None else Some b)"
  by (auto simp: drop_clear_def block_flags_def split: option.splits)

lemma fold_drop_clear_get:
  "gm_get (fold drop_clear ids m) k =
     (case gm_get m k of None \<Rightarrow> None | Some b \<Rightarrow> if k \<in> set ids \<and> block_flags b = {} then None else Some b)"
  by (induction ids arbitrary: m) (auto simp: drop_clear_get split: option.splits)

lemma clear_row:
  assumes "budgetBlockColumn src = Inr col"
  shows "block_flags (if block_is_set col b then clear_flag col now b else b) = block_flags b - {src}" "BB_Period (clear_flag col now b) = BB_Period b"
    "block_is_set col b \<longleftrightarrow> src \<in> block_flags b"
  using assms by (cases rule: column_cases; simp add: block_is_set_def clear_flag_def block_flags_def; auto)+

lemma clear_blocks_refines:
  assumes "ClearBudgetBlocksBySource src s = (Inr ids, t)" and "gm_wf (budgetBlocks s)"
  shows "blocked_by t v q = blocked_by s v q - {src}" and "v \<in> set ids \<longleftrightarrow> (\<exists>p. src \<in> blocked_by s v p)"
proof -
  obtain col where col: "budgetBlockColumn src = Inr col" using assms(1) by (auto simp: ClearBudgetBlocksBySource_def split: sum.splits)
  let ?f = "\<lambda>b. if block_is_set col b then clear_flag col (env_now s) b else b"
  have t: "ids = map fst (filter (\<lambda>p. block_is_set col (snd p)) (budgetBlocks s))" "budgetBlocks t = fold drop_clear ids (gm_map ?f (budgetBlocks s))"
    using assms(1) col by (auto simp: ClearBudgetBlocksBySource_def Let_def)
  have f: "block_flags (?f b) = block_flags b - {src}" "BB_Period (?f b) = BB_Period b" for b using clear_row [OF col] by auto
  show "blocked_by t v q = blocked_by s v q - {src}"
    by (cases "gm_get (budgetBlocks s) v") (simp_all add: blocked_by_def t(2) fold_drop_clear_get f del: if_split)
  have "v \<in> set ids \<longleftrightarrow> (\<exists>b. gm_get (budgetBlocks s) v = Some b \<and> block_is_set col b)"
    using assms(2) by (force simp: t(1) gm_get_def gm_wf_def image_iff dest: map_of_SomeD)
  then show "v \<in> set ids \<longleftrightarrow> (\<exists>p. src \<in> blocked_by s v p)"
    using clear_row(3) [OF col] by (auto simp: blocked_by_def split: option.splits)
qed

text \<open>C39. Budget blocks are sets of sources. On the abstract state that gives each user and month its blocking sources, setting a
  flag changes exactly that source for that month and forgets other months, clearing a source removes it everywhere and
  reports exactly the users it blocked, and an agent is blocked when its squad's owner has a source left. The
  user's own budget and the platform limit never overwrite each other.\<close>

theorem budget_blocks_refine_sources:
  assumes "gm_wf (budgetBlocks s)"
  shows "(SetBudgetBlock u p src blocked s = (Inr changed, t) \<longrightarrow>
      blocked_by t = (\<lambda>v q. if v = u then if q = p then set_source src blocked (blocked_by s u p) else {} else blocked_by s v q)) \<and>
    (ClearBudgetBlocksBySource src s = (Inr ids, t') \<longrightarrow>
      blocked_by t' = (\<lambda>v q. blocked_by s v q - {src}) \<and> set ids = {v. \<exists>p. src \<in> blocked_by s v p}) \<and>
    (GetAgent a s = Inr ag \<and> GetSquad (Agent_SquadID ag) s = Inr sq \<longrightarrow>
      IsAgentBudgetBlocked a p s = Inr (blocked_by s (Squad_OwnerID sq) p \<noteq> {}))"
proof -
  have "IsAgentBudgetBlocked a p s = Inr (blocked_by s (Squad_OwnerID sq) p \<noteq> {})"
    if "GetAgent a s = Inr ag" "GetSquad (Agent_SquadID ag) s = Inr sq"
    using that by (auto simp: IsAgentBudgetBlocked_def GetAgent_def GetSquad_def EffectiveBlocked_def blocked_by_def block_flags_def split: option.splits)
  moreover have "blocked_by t' = (\<lambda>v q. blocked_by s v q - {src}) \<and> set ids = {v. \<exists>p. src \<in> blocked_by s v p}"
    if "ClearBudgetBlocksBySource src s = (Inr ids, t')"
    using clear_blocks_refines [OF that assms] by (intro conjI ext set_eqI) simp_all
  moreover have "blocked_by t = (\<lambda>v q. if v = u then if q = p then set_source src blocked (blocked_by s u p) else {} else blocked_by s v q)"
    if "SetBudgetBlock u p src blocked s = (Inr changed, t)"
    using set_block_refines [OF that] by (intro ext)
  ultimately show ?thesis by blast
qed

definition demo_blocked :: MemoryStore where
  "demo_blocked = snd (SetBudgetBlock ''u'' ''2026-01'' ''platform'' True (snd (SetBudgetBlock ''u'' ''2026-01'' ''user'' True demo_store)))"

definition demo_unblocked :: MemoryStore where
  "demo_unblocked = snd (ClearBudgetBlocksBySource ''platform'' demo_blocked)"

theorem budget_blocks_refine_sources_witness:
  "blocked_by demo_unblocked ''u'' ''2026-01'' = blocked_by demo_blocked ''u'' ''2026-01'' - {''platform''} \<and> blocked_by demo_unblocked ''u'' ''2026-01'' = {''user''}"
proof -
  have w: "gm_wf (budgetBlocks demo_blocked)" unfolding gm_wf_def by code_simp
  have "ClearBudgetBlocksBySource ''platform'' demo_blocked = (Inr [''u''], demo_unblocked)"
    by (auto simp: prod_eq_iff demo_unblocked_def) code_simp
  with budget_blocks_refine_sources [OF w, where src = "''platform''" and ids = "[''u'']" and t' = demo_unblocked]
  have e: "blocked_by demo_unblocked = (\<lambda>v q. blocked_by demo_blocked v q - {''platform''})" by blast
  have "case gm_get (budgetBlocks demo_blocked) ''u'' of Some b \<Rightarrow> BB_Period b = ''2026-01'' \<and> BB_BlockedByUser b \<and> BB_BlockedByPlatform b | None \<Rightarrow> False"
    by code_simp
  then have "blocked_by demo_blocked ''u'' ''2026-01'' = {''user'', ''platform''}"
    by (auto simp: blocked_by_def block_flags_def BudgetSourceUser_def BudgetSourcePlatform_def split: option.splits)
  then show ?thesis using e by auto
qed

section \<open>Laws of the markers\<close>

lemma itoa_loop_digits:
  "0 < v \<Longrightarrow> length (nat_digits (nat v)) \<le> i \<Longrightarrow> itoa_loop v i buf = Some (i - length (nat_digits (nat v)), nat_digits (nat v) @ buf)"
proof (induction v i buf rule: itoa_loop.induct)
  case (1 v i buf)
  show ?case
  proof (cases "v < 10")
    case True
    then have "nat v < 10" by simp
    then have "nat_digits (nat v) = [char_of (48 + nat v)]" by (subst nat_digits.simps) simp
    moreover have "v div 10 = 0" "v mod 10 = v" using True 1(2) by auto
    ultimately show ?thesis using 1(2,3) by (subst itoa_loop.simps) (auto simp: itoa_loop.simps [of 0])
  next
    case False
    have n: "nat v div 10 = nat (v div 10)" "nat v mod 10 = nat (v mod 10)" using 1(2) by (simp_all add: nat_div_distrib nat_mod_distrib)
    have m: "\<not> nat v < 10" using False by simp
    have d: "nat_digits (nat v) = nat_digits (nat (v div 10)) @ [char_of (48 + nat (v mod 10))]"
      by (subst nat_digits.simps) (simp only: m n if_False)
    then have "itoa_loop (v div 10) (i - 1) (char_of (48 + nat (v mod 10)) # buf) =
        Some (i - 1 - length (nat_digits (nat (v div 10))), nat_digits (nat (v div 10)) @ char_of (48 + nat (v mod 10)) # buf)"
      using 1 False by auto
    then show ?thesis using 1(2,3) d by (subst itoa_loop.simps) auto
  qed
qed

lemma nat_digits_bound: "n < 10 ^ k \<Longrightarrow> 0 < k \<Longrightarrow> length (nat_digits n) \<le> k"
proof (induction k arbitrary: n)
  case (Suc k)
  show ?case
  proof (cases "n < 10")
    case True
    then show ?thesis by (subst nat_digits.simps) simp
  next
    case False
    then have "0 < k" using Suc(2) by (cases k) auto
    moreover have "n div 10 < 10 ^ k" using Suc(2) by (simp add: less_mult_imp_div_less mult.commute)
    ultimately have "length (nat_digits (n div 10)) \<le> k" using Suc(1) by blast
    then show ?thesis using False by (subst nat_digits.simps) simp
  qed
qed simp

text \<open>The bounded conversion is decimal. For every integer above -10^7 and below 10^8 the eight-byte buffer suffices and \<^verbatim>\<open>itoa\<close>
  writes the decimal text, so a threshold of at most eight digits is a well-formed marker.\<close>

theorem itoa_is_decimal:
  assumes "- (10 ^ 7) < v" and "v < 10 ^ 8"
  shows "itoa v = Some (Itoa v)"
proof (cases "v = 0")
  case True
  have "nat_digits 0 = ''0''" by code_simp
  then show ?thesis using True by (simp add: itoa_def Itoa_def)
next
  case False
  show ?thesis
  proof (cases "v < 0")
    case True
    have "nat (- v) < 10 ^ 7" using assms(1) by (simp add: nat_less_iff)
    from nat_digits_bound [OF this] have l: "length (nat_digits (nat (- v))) \<le> 7" by simp
    have "v \<noteq> - (2 ^ 63)" using assms(1) by simp
    moreover have "itoa_loop (- v) 8 [] = Some (8 - length (nat_digits (nat (- v))), nat_digits (nat (- v)) @ [])"
      using True l by (intro itoa_loop_digits) simp_all
    moreover have "8 - length (nat_digits (nat (- v))) \<noteq> 0" using l by arith
    ultimately show ?thesis using True False by (simp only: itoa_def Itoa_def Let_def if_True if_False option.case prod.case append_Nil2)
  next
    case nonneg: False
    have "nat v < 10 ^ 8" using assms(2) by (simp add: nat_less_iff)
    from nat_digits_bound [OF this] have "length (nat_digits (nat v)) \<le> 8" by simp
    then have "itoa_loop v 8 [] = Some (8 - length (nat_digits (nat v)), nat_digits (nat v) @ [])"
      using nonneg False by (intro itoa_loop_digits) simp_all
    then show ?thesis using nonneg False by (simp add: itoa_def Itoa_def Let_def)
  qed
qed

theorem itoa_is_decimal_witness: "- (10 ^ 7) < (90 :: int) \<and> (90 :: int) < 10 ^ 8 \<and> itoa 90 = Some (Itoa 90)"
  using itoa_is_decimal [of 90] by simp

primrec claim_all :: "(string \<times> string \<times> string) list \<Rightarrow> MemoryStore \<Rightarrow> bool list \<times> MemoryStore" where
  "claim_all [] s = ([], s)"
| "claim_all (c # cs) s =
     (case ClaimBudgetNotification (fst c) (fst (snd c)) (snd (snd c)) s of (b, s1) \<Rightarrow>
      case claim_all cs s1 of (bs, s2) \<Rightarrow> (b # bs, s2))"

definition plain_claim :: "string \<times> string \<times> string \<Rightarrow> bool" where
  "plain_claim c \<longleftrightarrow> CHR ''|'' \<notin> set (fst c) \<and> CHR ''|'' \<notin> set (fst (snd c))"

definition claim_key :: "string \<times> string \<times> string \<Rightarrow> string" where
  "claim_key c = budget_marker_key (fst c) (fst (snd c)) (snd (snd c))"

lemma claim_key_inj:
  assumes "plain_claim c" and "plain_claim d"
  shows "claim_key c = claim_key d \<longleftrightarrow> c = d"
proof -
  obtain u p m u' p' m' where c: "c = (u, p, m)" "d = (u', p', m')" by (metis prod_cases3)
  then have u: "CHR ''|'' \<notin> set u" "CHR ''|'' \<notin> set u'" and p: "CHR ''|'' \<notin> set p" "CHR ''|'' \<notin> set p'"
    using assms by (auto simp: plain_claim_def)
  show ?thesis
    using split_at_first [OF u, of "p @ ''|'' @ m" "p' @ ''|'' @ m'"] split_at_first [OF p, of m m'] c
    by (auto simp: claim_key_def budget_marker_key_def)
qed

lemma claim_all_results:
  "fst (claim_all cs s) = map (\<lambda>i. claim_key (cs ! i) \<notin> set (budgetNotifyMarkers s) \<union> claim_key ` set (take i cs)) [0..<length cs]"
proof (induction cs arbitrary: s)
  case (Cons c cs)
  let ?s1 = "snd (ClaimBudgetNotification (fst c) (fst (snd c)) (snd (snd c)) s)"
  have b: "fst (ClaimBudgetNotification (fst c) (fst (snd c)) (snd (snd c)) s) \<longleftrightarrow> claim_key c \<notin> set (budgetNotifyMarkers s)"
    and m: "set (budgetNotifyMarkers ?s1) = insert (claim_key c) (set (budgetNotifyMarkers s))"
    by (auto simp: ClaimBudgetNotification_def claim_key_def Let_def)
  have "fst (claim_all (c # cs) s) = (claim_key c \<notin> set (budgetNotifyMarkers s)) # fst (claim_all cs ?s1)"
    using b by (auto split: prod.split)
  then show ?case using Cons.IH [of ?s1] m
    by (auto simp add: upt_conv_Cons map_Suc_upt [symmetric] simp del: upt_Suc claim_all.simps)
qed simp

text \<open>Each budget notification is claimed once. Over every sequence of claims on a store without markers, whose users
  and periods contain no bar, a claim succeeds exactly when the same user, period and threshold has not been claimed
  before, so each threshold notifies a user once per month.\<close>

theorem budget_notification_claimed_once:
  assumes "budgetNotifyMarkers s = []" and "list_all plain_claim cs"
  shows "fst (claim_all cs s) = map (\<lambda>i. cs ! i \<notin> set (take i cs)) [0..<length cs]"
proof -
  have "claim_key (cs ! i) \<notin> claim_key ` set (take i cs) \<longleftrightarrow> cs ! i \<notin> set (take i cs)" if "i < length cs" for i
  proof -
    have "plain_claim (cs ! i)" "\<And>d. d \<in> set (take i cs) \<Longrightarrow> plain_claim d"
      using assms(2) that by (auto simp: list_all_iff dest: in_set_takeD)
    then show ?thesis using claim_key_inj by blast
  qed
  then show ?thesis by (simp add: claim_all_results assms(1))
qed

theorem budget_notification_claimed_once_witness:
  "fst (claim_all [(''u'', ''2026-01'', ''user:80''), (''u'', ''2026-01'', ''user:80''), (''u'', ''2026-02'', ''user:80'')] demo_store) =
     [True, False, True]"
  using budget_notification_claimed_once [of demo_store "[(''u'', ''2026-01'', ''user:80''), (''u'', ''2026-01'', ''user:80''), (''u'', ''2026-02'', ''user:80'')]"]
  by (simp add: plain_claim_def demo_store_code upt_conv_Cons)

end
