(* ===== verification/Schedule_Store.thy ===== *)
theory Schedule_Store
  imports Builtin_Tools Budget_Blocks Task_Store
begin

text \<open>
  Scheduled jobs: schedule specifications and next run times (\<^verbatim>\<open>domain/scheduled_jobs.go\<close>) and the rows of the memory store
  (\<^verbatim>\<open>storage/memory_scheduled_jobs.go\<close>). The reader of timestamps, the time-zone database, the cron package and the JSON
  reader are parameters, in the record \<open>sched_env\<close>.
\<close>

section \<open>Schedules\<close>

definition ScheduleAt :: string where "ScheduleAt = ''at''"
definition ScheduleEvery :: string where "ScheduleEvery = ''every''"
definition ScheduleCron :: string where "ScheduleCron = ''cron''"

definition ScheduleKind_Valid :: "string \<Rightarrow> bool" where
  "ScheduleKind_Valid k \<longleftrightarrow> k = ScheduleAt \<or> k = ScheduleEvery \<or> k = ScheduleCron"

definition MinEverySeconds :: int where "MinEverySeconds = 60"
definition MaxEverySeconds :: int where "MaxEverySeconds = 90 * 24 * 60 * 60"
definition DefaultScheduleTimezone :: string where "DefaultScheduleTimezone = ''UTC''"
definition MaxScheduledMessageChars :: int where "MaxScheduledMessageChars = 10000"

text \<open>\<open>SV_Cron\<close> parses an expression into its next-time function, which takes the zone and an instant; an \<open>Inl\<close> is the text of an
  error, as is \<open>Some\<close> in \<open>SV_Location\<close>. \<open>SV_JsonErr\<close> is the reader's error text.\<close>

record sched_env =
  SV_ParseTime :: "string \<Rightarrow> string + instant"
  SV_Location :: "string \<Rightarrow> string option"
  SV_Cron :: "string \<Rightarrow> string + (string \<Rightarrow> instant \<Rightarrow> instant)"
  SV_Json :: "string \<Rightarrow> RawMessage"
  SV_JsonErr :: "string \<Rightarrow> string"

definition ParseCronExpression :: "sched_env \<Rightarrow> string \<Rightarrow> string + (string \<Rightarrow> instant \<Rightarrow> instant)" where
  "ParseCronExpression se expr =
     (case SV_Cron se (TrimSpace expr) of Inl e \<Rightarrow> Inl (Quote expr @ '' is not a valid 5-field cron expression: '' @ e) | Inr sched \<Rightarrow> Inr sched)"

definition buildAtScheduleSpec :: "sched_env \<Rightarrow> string \<Rightarrow> string + string" where
  "buildAtScheduleSpec se at0 =
     (let at = TrimSpace at0
      in if at = [] then Inl ''schedule.at is required for kind=at''
         else case SV_ParseTime se at of
           Inl e \<Rightarrow> Inl (''schedule.at must be an RFC3339 timestamp (e.g. 2026-10-21T19:30:00+09:30): '' @ e)
         | Inr _ \<Rightarrow> Inr (''{\"at\":'' @ json_string at @ ''}''))"

definition buildEveryScheduleSpec :: "int \<Rightarrow> string + string" where
  "buildEveryScheduleSpec n =
     (if n < MinEverySeconds then Inl (''schedule.interval_seconds must be at least '' @ Itoa MinEverySeconds)
      else if n > MaxEverySeconds then Inl (''schedule.interval_seconds must be at most '' @ Itoa MaxEverySeconds @ '' (90 days)'')
      else Inr (''{\"interval_seconds\":'' @ Itoa n @ ''}''))"

definition buildCronScheduleSpec :: "sched_env \<Rightarrow> string \<Rightarrow> string \<Rightarrow> string + string" where
  "buildCronScheduleSpec se expression0 timezone0 =
     (let expression = TrimSpace expression0
      in if expression = [] then Inl ''schedule.expression is required for kind=cron''
         else case ParseCronExpression se expression of
           Inl e \<Rightarrow> Inl (''schedule.expression: '' @ e)
         | Inr _ \<Rightarrow>
             let timezone = (if TrimSpace timezone0 = [] then DefaultScheduleTimezone else TrimSpace timezone0)
             in case SV_Location se timezone of
                  Some e \<Rightarrow> Inl (''schedule.timezone '' @ Quote timezone @ '' is not a valid IANA timezone: '' @ e)
                | None \<Rightarrow> Inr (''{\"expression\":'' @ json_string expression @ '',\"timezone\":'' @ json_string timezone @ ''}''))"

definition BuildScheduleSpec :: "sched_env \<Rightarrow> string \<Rightarrow> string \<Rightarrow> int \<Rightarrow> string \<Rightarrow> string \<Rightarrow> string + string" where
  "BuildScheduleSpec se kind at intervalSeconds expression timezone =
     (if kind = ScheduleAt then buildAtScheduleSpec se at
      else if kind = ScheduleEvery then buildEveryScheduleSpec intervalSeconds
      else if kind = ScheduleCron then buildCronScheduleSpec se expression timezone
      else Inl (''unknown schedule kind '' @ Quote kind @ '' (want at, every or cron)''))"

text \<open>\<^verbatim>\<open>json.Unmarshal\<close> into one of the specification structs; empty input is an error.\<close>

definition spec_fields :: "sched_env \<Rightarrow> string \<Rightarrow> (string \<times> json) list option" where
  "spec_fields se spec = (case SV_Json se spec of Raw v \<Rightarrow> un_struct v | _ \<Rightarrow> None)"

definition computeAtNextRun :: "sched_env \<Rightarrow> string \<Rightarrow> instant \<Rightarrow> string + instant" where
  "computeAtNextRun se spec after =
     (case Option.bind (spec_fields se spec) (st_string ''at'') of
        None \<Rightarrow> Inl (''invalid at schedule spec: '' @ SV_JsonErr se spec)
      | Some text_at \<Rightarrow>
          (case SV_ParseTime se text_at of
             Inl e \<Rightarrow> Inl (''invalid at timestamp: '' @ e)
           | Inr at \<Rightarrow> if \<not> after < at then Inl ''schedule.at must be in the future'' else Inr at))"

definition computeEveryNextRun :: "sched_env \<Rightarrow> string \<Rightarrow> instant \<Rightarrow> string + instant" where
  "computeEveryNextRun se spec after =
     (case Option.bind (spec_fields se spec) (st_int ''interval_seconds'') of
        None \<Rightarrow> Inl (''invalid every schedule spec: '' @ SV_JsonErr se spec)
      | Some n \<Rightarrow>
          if n < MinEverySeconds \<or> n > MaxEverySeconds
          then Inl (''interval_seconds '' @ Itoa n @ '' out of range ['' @ Itoa MinEverySeconds @ '', '' @ Itoa MaxEverySeconds @ '']'')
          else Inr (after + n * second))"

definition computeCronNextRun :: "sched_env \<Rightarrow> string \<Rightarrow> instant \<Rightarrow> string + instant" where
  "computeCronNextRun se spec after =
     (case Option.bind (spec_fields se spec) (\<lambda>kvs. Option.bind (st_string ''expression'' kvs) (\<lambda>e. map_option (Pair e) (st_string ''timezone'' kvs))) of
        None \<Rightarrow> Inl (''invalid cron schedule spec: '' @ SV_JsonErr se spec)
      | Some (expression, timezone) \<Rightarrow>
          (case ParseCronExpression se expression of Inl e \<Rightarrow> Inl e
           | Inr sched \<Rightarrow>
               let tz = (if TrimSpace timezone = [] then DefaultScheduleTimezone else TrimSpace timezone)
               in case SV_Location se tz of Some e \<Rightarrow> Inl (''invalid timezone '' @ Quote tz @ '': '' @ e) | None \<Rightarrow> Inr (sched tz after)))"

definition ComputeNextRun :: "sched_env \<Rightarrow> string \<Rightarrow> string \<Rightarrow> instant \<Rightarrow> string + instant" where
  "ComputeNextRun se kind spec after =
     (if kind = ScheduleAt then computeAtNextRun se spec after
      else if kind = ScheduleEvery then computeEveryNextRun se spec after
      else if kind = ScheduleCron then computeCronNextRun se spec after
      else Inl (''unknown schedule kind '' @ Quote kind))"

section \<open>The rows\<close>

definition CreateScheduledJob :: "ScheduledJob \<Rightarrow> MemoryStore \<Rightarrow> ScheduledJob \<times> MemoryStore" where
  "CreateScheduledJob job s =
     (let (jid, s1) = (if Job_ID job = [] then NewString s else (Job_ID job, s));
          created = job\<lparr>Job_ID := jid, Job_CreatedAt := (if Job_CreatedAt job = 0 then env_now s else Job_CreatedAt job),
                        Job_CreatedByType := (if Job_CreatedByType job = [] then ''agent'' else Job_CreatedByType job)\<rparr>
      in (created, s1\<lparr>scheduledJobs := gm_put jid created (scheduledJobs s1), scheduledJobOrder := scheduledJobOrder s1 @ [jid]\<rparr>))"

definition GetScheduledJob :: "string \<Rightarrow> MemoryStore \<Rightarrow> ScheduledJob res" where
  "GetScheduledJob jid s = (case gm_get (scheduledJobs s) jid of None \<Rightarrow> Inl ErrNotFound | Some j \<Rightarrow> Inr j)"

definition ListScheduledJobs :: "string \<Rightarrow> MemoryStore \<Rightarrow> ScheduledJob list" where
  "ListScheduledJobs agentID s = filter (\<lambda>j. Job_AgentID j = agentID) (List.map_filter (gm_get (scheduledJobs s)) (scheduledJobOrder s))"

definition DeleteScheduledJob :: "string \<Rightarrow> MemoryStore \<Rightarrow> unit res \<times> MemoryStore" where
  "DeleteScheduledJob jid s =
     (if gm_get (scheduledJobs s) jid = None then (Inl ErrNotFound, s)
      else (Inr (), s\<lparr>scheduledJobs := gm_del jid (scheduledJobs s), scheduledJobOrder := remove1 jid (scheduledJobOrder s)\<rparr>))"

text \<open>The due jobs with their times, in creation order, and the insertion sort of the code: a new entry moves left while it is
  earlier than its neighbour.\<close>

definition due_jobs :: "instant \<Rightarrow> MemoryStore \<Rightarrow> (string \<times> instant) list" where
  "due_jobs now s =
     List.map_filter (\<lambda>jid. case gm_get (scheduledJobs s) jid of None \<Rightarrow> None
       | Some j \<Rightarrow> if \<not> Job_Enabled j \<or> now < Job_NextRunAt j then None else Some (jid, Job_NextRunAt j)) (scheduledJobOrder s)"

definition shift_in :: "string \<times> instant \<Rightarrow> (string \<times> instant) list \<Rightarrow> (string \<times> instant) list" where
  "shift_in d ds =
     (let later = takeWhile (\<lambda>e. snd d < snd e) (rev ds); earlier = dropWhile (\<lambda>e. snd d < snd e) (rev ds)
      in rev earlier @ d # rev later)"

definition earliest_first :: "(string \<times> instant) list \<Rightarrow> (string \<times> instant) list" where
  "earliest_first ds = foldl (\<lambda>acc d. shift_in d acc) [] ds"

definition claimed_job :: "instant \<Rightarrow> duration \<Rightarrow> ScheduledJob \<Rightarrow> ScheduledJob" where
  "claimed_job now net j = j\<lparr>Job_LastRunAt := now, Job_LastRunStatus := ''running'', Job_NextRunAt := now + net\<rparr>"

primrec claim_jobs :: "instant \<Rightarrow> duration \<Rightarrow> (string \<times> instant) list \<Rightarrow> MemoryStore \<Rightarrow> ScheduledJob list \<times> MemoryStore" where
  "claim_jobs now net [] s = ([], s)"
| "claim_jobs now net (d # ds) s =
     (case gm_get (scheduledJobs s) (fst d) of None \<Rightarrow> claim_jobs now net ds s
      | Some j \<Rightarrow>
          let j' = claimed_job now net j; (js, t) = claim_jobs now net ds (s\<lparr>scheduledJobs := gm_put (fst d) j' (scheduledJobs s)\<rparr>)
          in (j' # js, t))"

definition ClaimDueScheduledJobs :: "instant \<Rightarrow> int \<Rightarrow> duration \<Rightarrow> MemoryStore \<Rightarrow> ScheduledJob list \<times> MemoryStore" where
  "ClaimDueScheduledJobs now limit net s =
     (if limit \<le> 0 then ([], s)
      else claim_jobs now net (take (nat limit) (earliest_first (due_jobs now s))) s)"

definition FinishScheduledJobRun :: "string \<Rightarrow> instant \<Rightarrow> instant \<Rightarrow> bool \<Rightarrow> MemoryStore \<Rightarrow> unit res \<times> MemoryStore" where
  "FinishScheduledJobRun jid firedAt nextRunAt enabled s =
     (case gm_get (scheduledJobs s) jid of None \<Rightarrow> (Inl ErrNotFound, s)
      | Some j \<Rightarrow>
          let j' = j\<lparr>Job_LastRunAt := firedAt, Job_LastRunStatus := ''fired'', Job_FailCount := 0, Job_NextRunAt := nextRunAt, Job_Enabled := enabled,
                     Job_DisabledReason := (if enabled then Job_DisabledReason j else ''one-shot job completed'')\<rparr>
          in (Inr (), s\<lparr>scheduledJobs := gm_put jid j' (scheduledJobs s)\<rparr>))"

definition FailScheduledJobRun :: "string \<Rightarrow> instant \<Rightarrow> int \<Rightarrow> string \<Rightarrow> MemoryStore \<Rightarrow> unit res \<times> MemoryStore" where
  "FailScheduledJobRun jid firedAt maxFailures reason s =
     (case gm_get (scheduledJobs s) jid of None \<Rightarrow> (Inl ErrNotFound, s)
      | Some j \<Rightarrow>
          let j1 = j\<lparr>Job_LastRunAt := firedAt, Job_LastRunStatus := ''failed'', Job_FailCount := Job_FailCount j + 1\<rparr>;
              j' = (if maxFailures > 0 \<and> Job_FailCount j1 \<ge> maxFailures then j1\<lparr>Job_Enabled := False, Job_DisabledReason := reason\<rparr> else j1)
          in (Inr (), s\<lparr>scheduledJobs := gm_put jid j' (scheduledJobs s)\<rparr>))"

definition SetScheduledJobEnabled :: "string \<Rightarrow> bool \<Rightarrow> instant \<Rightarrow> MemoryStore \<Rightarrow> ScheduledJob res \<times> MemoryStore" where
  "SetScheduledJobEnabled jid enabled nextRunAt s =
     (case gm_get (scheduledJobs s) jid of None \<Rightarrow> (Inl ErrNotFound, s)
      | Some j \<Rightarrow>
          let j1 = j\<lparr>Job_Enabled := enabled, Job_NextRunAt := (if nextRunAt \<noteq> 0 then nextRunAt else Job_NextRunAt j)\<rparr>;
              j' = (if enabled then j1\<lparr>Job_FailCount := 0, Job_DisabledReason := []\<rparr> else j1)
          in (Inr j', s\<lparr>scheduledJobs := gm_put jid j' (scheduledJobs s)\<rparr>))"

end
