(* ===== verification/Schedule_Flow.thy ===== *)
theory Schedule_Flow
  imports Schedule_Store
begin

text \<open>
  The scheduler and the agent-facing routes of \<^verbatim>\<open>httpapi/scheduled_jobs.go\<close>. A tick claims the due jobs and fires each one
  through the agent-run path: budget check, a task on the board, the agent's busy status. The authenticated agent and
  the decoded request body are inputs of the handlers.
\<close>

section \<open>Runes\<close>

text \<open>\<^verbatim>\<open>trimRunes\<close> (\<^verbatim>\<open>httpapi/server.go\<close>): a text within the limit is returned as it is; otherwise its first runes are encoded again,
  with the replacement character for a byte that is no part of a well-formed sequence.\<close>

function take_runes :: "nat \<Rightarrow> string \<Rightarrow> string" where
  "take_runes n s =
     (if n = 0 \<or> s = [] then []
      else let k = rune_len (map byte_of s)
           in (if k = 1 \<and> byte_of (hd s) > 127 then [char_of (239 :: nat), char_of (191 :: nat), char_of (189 :: nat)] else take k s) @
              take_runes (n - 1) (drop k s))"
  by pat_completeness auto
termination by (relation "measure (\<lambda>(n, s). n)") auto

declare take_runes.simps [simp del]

definition trimRunes :: "string \<Rightarrow> int \<Rightarrow> string" where
  "trimRunes v limit =
     (if limit \<le> 0 then []
      else if int (fst (rune_counts (map byte_of v))) \<le> limit then v
      else take_runes (nat limit) v)"

section \<open>Firing a job\<close>

definition scheduledJobClaimSafetyNet :: duration where "scheduledJobClaimSafetyNet = 5 * minute"
definition maxJobFailures :: int where "maxJobFailures = 5"
definition scheduledJobBatch :: int where "scheduledJobBatch = 50"
definition defaultMaxActiveJobs :: int where "defaultMaxActiveJobs = 10"
definition maxScheduledJobTitle :: int where "maxScheduledJobTitle = 200"
definition maxAgentMemoryContentChars :: int where "maxAgentMemoryContentChars = 4000"
definition budgetStopNotice :: string where "budgetStopNotice = ''budget_blocked''"

definition store_error_text :: "store_error \<Rightarrow> string" where
  "store_error_text e =
     (if e = ErrNotFound then ''storage: not found'' else if e = ErrConflict then ''storage: conflict'' else ''storage: invalid input'')"

definition currentBudgetPeriod :: "instant \<Rightarrow> string" where
  "currentBudgetPeriod now = (let (y, m, d) = civil_date (now div second div 86400) in pad 4 y @ ''-'' @ pad 2 m)"

definition scheduledTaskTitle :: "ScheduledJob \<Rightarrow> string" where
  "scheduledTaskTitle job =
     (let t1 = TrimSpace (Job_Title job);
          t2 = (if t1 = [] then TrimSpace (hd (Split_on (CHR 0x0A) (TrimSpace (Job_Message job)))) else t1);
          t3 = (if t2 = [] then ''Scheduled task'' else t2)
      in trimRunes t3 maxScheduledJobTitle)"

definition scheduledTaskDescription :: "ScheduledJob \<Rightarrow> instant \<Rightarrow> string" where
  "scheduledTaskDescription job firedAt =
     (let body = (if TrimSpace (Job_Message job) = [] then ''(no prompt provided)'' else TrimSpace (Job_Message job));
          origin = [CHR 0x0A, CHR 0x0A] @ ''---'' @ [CHR 0x0A] @ ''Scheduled job '' @ Job_ID job @ '' (kind='' @ Job_ScheduleKind job @ '') fired at '' @ rfc3339 firedAt
      in trimRunes (body @ origin) maxAgentMemoryContentChars)"

text \<open>\<open>None\<close> is success. A board index without its board would be a nil dereference in the code; here it is an error like the others.\<close>

definition deliverScheduledJob :: "ScheduledJob \<Rightarrow> instant \<Rightarrow> MemoryStore \<Rightarrow> string option \<times> MemoryStore" where
  "deliverScheduledJob job firedAt s =
     (if IsAgentBudgetBlocked (Job_AgentID job) (currentBudgetPeriod firedAt) s = Inr True then (Some budgetStopNotice, s)
      else case GetAgent (Job_AgentID job) s of
        Inl e \<Rightarrow> (Some (''agent '' @ Job_AgentID job @ '' unavailable: '' @ store_error_text e), s)
      | Inr agent \<Rightarrow>
          case GetBoard (Job_SquadID job) s of
            Inl e \<Rightarrow> (Some (''board for squad '' @ Job_SquadID job @ '' unavailable: '' @ store_error_text e), s)
          | Inr None \<Rightarrow> (Some ''nil board'', s)
          | Inr (Some board) \<Rightarrow>
              case CreateTask (Task_zero\<lparr>Task_BoardID := Board_ID board, Task_SquadID := Job_SquadID job, Task_Title := scheduledTaskTitle job,
                     Task_Description := scheduledTaskDescription job firedAt, Task_Status := TaskTodo, Task_AssigneeAgentID := Job_AgentID job,
                     Task_CreatedByType := Job_CreatedByType job, Task_CreatedByID := Job_CreatedByID job\<rparr>) s of
                (Inl e, s1) \<Rightarrow> (Some (''materialize scheduled task: '' @ store_error_text e), s1)
              | (Inr _, s1) \<Rightarrow>
                  case SetAgentStatus (Agent_ID agent) AgentBusy s1 of
                    (Inl e, s2) \<Rightarrow> (Some (''mirror agent busy: '' @ store_error_text e), s2)
                  | (Inr _, s2) \<Rightarrow> (None, s2))"

definition record_failure :: "ScheduledJob \<Rightarrow> instant \<Rightarrow> string \<Rightarrow> MemoryStore \<Rightarrow> MemoryStore" where
  "record_failure job firedAt err s =
     snd (FailScheduledJobRun (Job_ID job) firedAt maxJobFailures
            (''auto-disabled after '' @ Itoa maxJobFailures @ '' consecutive failures: '' @ err) s)"

definition fireScheduledJob :: "sched_env \<Rightarrow> ScheduledJob \<Rightarrow> instant \<Rightarrow> MemoryStore \<Rightarrow> bool \<times> MemoryStore" where
  "fireScheduledJob se job firedAt s =
     (case deliverScheduledJob job firedAt s of
        (Some err, s1) \<Rightarrow> (False, record_failure job firedAt err s1)
      | (None, s1) \<Rightarrow>
          if Job_ScheduleKind job = ScheduleAt then
            (case FinishScheduledJobRun (Job_ID job) firedAt (Job_NextRunAt job) False s1 of (Inl e, s2) \<Rightarrow> (False, s2) | (Inr _, s2) \<Rightarrow> (True, s2))
          else
            (case ComputeNextRun se (Job_ScheduleKind job) (Job_ScheduleSpec job) firedAt of
               Inl err \<Rightarrow> (False, record_failure job firedAt err s1)
             | Inr next \<Rightarrow>
                 (case FinishScheduledJobRun (Job_ID job) firedAt next True s1 of (Inl e, s2) \<Rightarrow> (False, s2) | (Inr _, s2) \<Rightarrow> (True, s2))))"

primrec fire_all :: "sched_env \<Rightarrow> ScheduledJob list \<Rightarrow> instant \<Rightarrow> MemoryStore \<Rightarrow> int \<times> MemoryStore" where
  "fire_all se [] now s = (0, s)"
| "fire_all se (j # js) now s =
     (case fireScheduledJob se j now s of (ok, s1) \<Rightarrow> case fire_all se js now s1 of (n, s2) \<Rightarrow> (if ok then n + 1 else n, s2))"

text \<open>The scheduler's context carries no pending audit entries.\<close>

definition TickScheduledJobsOnce :: "sched_env \<Rightarrow> instant \<Rightarrow> MemoryStore \<Rightarrow> int \<times> MemoryStore" where
  "TickScheduledJobsOnce se now s =
     (case ClaimDueScheduledJobs now scheduledJobBatch scheduledJobClaimSafetyNet (WithPendingAudit [] s) of
        (jobs, s1) \<Rightarrow> fire_all se jobs now s1)"

section \<open>The agent's routes\<close>

record scheduledJobScheduleRequest =
  SR_Kind :: string
  SR_At :: string
  SR_IntervalSeconds :: int
  SR_Expression :: string
  SR_Timezone :: string

record createScheduledJobRequest =
  CJ_Title :: string
  CJ_Message :: string
  CJ_Schedule :: scheduledJobScheduleRequest

definition cronToolEnabled :: "MemoryStore \<Rightarrow> 'a api_reply option" where
  "cronToolEnabled s =
     (case GetBuiltinTool BuiltinToolCron s of
        Inl e \<Rightarrow> if e = ErrNotFound then Some (ApiErr 403 ''cron_disabled'' ''the cron built-in tool is not configured'')
                 else Some (writeStorageError e)
      | Inr cfg \<Rightarrow> if \<not> BT_Enabled cfg then Some (ApiErr 403 ''cron_disabled'' ''the cron built-in tool is disabled by platform policy'') else None)"

definition cron_cap :: "sched_env \<Rightarrow> MemoryStore \<Rightarrow> int" where
  "cron_cap se s =
     (case GetBuiltinTool BuiltinToolCron s of Inl e \<Rightarrow> defaultMaxActiveJobs
      | Inr cfg \<Rightarrow>
          if BT_Policy cfg = [] then defaultMaxActiveJobs
          else (case Option.bind (spec_fields se (BT_Policy cfg)) (st_int_ptr ''maxActiveJobs'') of
                  Some (Some n) \<Rightarrow> if n > 0 then n else defaultMaxActiveJobs
                | _ \<Rightarrow> defaultMaxActiveJobs))"

definition active_jobs :: "string \<Rightarrow> MemoryStore \<Rightarrow> int" where
  "active_jobs agentID s = int (length (filter Job_Enabled (ListScheduledJobs agentID s)))"

definition enforceCronJobCap :: "sched_env \<Rightarrow> string \<Rightarrow> MemoryStore \<Rightarrow> string option" where
  "enforceCronJobCap se agentID s =
     (if active_jobs agentID s \<ge> cron_cap se s
      then Some (''agent already has '' @ Itoa (active_jobs agentID s) @ '' active scheduled jobs (maxActiveJobs='' @ Itoa (cron_cap se s) @ ''); cancel or pause one first'')
      else None)"

definition job_audit :: "Agent \<Rightarrow> string \<Rightarrow> string \<Rightarrow> string \<Rightarrow> MemoryStore \<Rightarrow> MemoryStore" where
  "job_audit agent action resourceID squadID s =
     WithPendingAudit [Some (NewAuditEntry ''agent'' (Agent_ID agent) action ''scheduled_job'' resourceID squadID [])] s"

definition createScheduledJob :: "sched_env \<Rightarrow> Agent \<Rightarrow> createScheduledJobRequest option \<Rightarrow> MemoryStore \<Rightarrow> ScheduledJob api_reply \<times> MemoryStore" where
  "createScheduledJob se agent body s =
     (case body of None \<Rightarrow> (ApiErr 400 ''bad_request'' ''invalid JSON body'', s)
      | Some req \<Rightarrow>
          let message = TrimSpace (CJ_Message req)
          in if message = [] then (ApiErr 400 ''bad_request'' ''message is required'', s)
             else if int (length message) > MaxScheduledMessageChars
             then (ApiErr 400 ''bad_request'' (''message exceeds '' @ Itoa MaxScheduledMessageChars @ '' characters''), s)
             else case cronToolEnabled s of Some reply \<Rightarrow> (reply, s)
             | None \<Rightarrow>
                 let sched = CJ_Schedule req; kind = TrimSpace (SR_Kind sched)
                 in case BuildScheduleSpec se kind (SR_At sched) (SR_IntervalSeconds sched) (SR_Expression sched) (SR_Timezone sched) of
                      Inl e \<Rightarrow> (ApiErr 400 ''invalid_schedule'' e, s)
                    | Inr spec \<Rightarrow>
                        case ComputeNextRun se kind spec (env_now s) of
                          Inl e \<Rightarrow> (ApiErr 400 ''invalid_schedule'' e, s)
                        | Inr nextRun \<Rightarrow>
                            case enforceCronJobCap se (Agent_ID agent) s of
                              Some e \<Rightarrow> (ApiErr 409 ''too_many_active_jobs'' e, s)
                            | None \<Rightarrow>
                                let (created, s1) = CreateScheduledJob (ScheduledJob_zero\<lparr>Job_AgentID := Agent_ID agent, Job_SquadID := Agent_SquadID agent,
                                      Job_Title := trimRunes (TrimSpace (CJ_Title req)) maxScheduledJobTitle, Job_Message := message,
                                      Job_ScheduleKind := kind, Job_ScheduleSpec := spec, Job_Enabled := True, Job_NextRunAt := nextRun,
                                      Job_CreatedByType := ''agent'', Job_CreatedByID := Agent_ID agent\<rparr>)
                                      (job_audit agent ''scheduled_job.create'' [] (Agent_SquadID agent) s)
                                in (ApiOK 201 created, s1))"

definition listScheduledJobs :: "Agent \<Rightarrow> MemoryStore \<Rightarrow> ScheduledJob list api_reply" where
  "listScheduledJobs agent s = ApiOK 200 (ListScheduledJobs (Agent_ID agent) s)"

definition loadOwnScheduledJob :: "Agent \<Rightarrow> string \<Rightarrow> MemoryStore \<Rightarrow> 'a api_reply + ScheduledJob" where
  "loadOwnScheduledJob agent jobID s =
     (case GetScheduledJob jobID s of Inl e \<Rightarrow> Inl (writeStorageError e)
      | Inr job \<Rightarrow> if Job_AgentID job \<noteq> Agent_ID agent then Inl (ApiErr 403 ''forbidden'' ''scheduled jobs are scoped to the owning agent'') else Inr job)"

definition getScheduledJob :: "Agent \<Rightarrow> string \<Rightarrow> MemoryStore \<Rightarrow> ScheduledJob api_reply" where
  "getScheduledJob agent jobID s = (case loadOwnScheduledJob agent jobID s of Inl r \<Rightarrow> r | Inr job \<Rightarrow> ApiOK 200 job)"

definition deleteScheduledJob :: "Agent \<Rightarrow> string \<Rightarrow> MemoryStore \<Rightarrow> unit api_reply \<times> MemoryStore" where
  "deleteScheduledJob agent jobID s =
     (case loadOwnScheduledJob agent jobID s of Inl r \<Rightarrow> (r, s)
      | Inr job \<Rightarrow>
          (case DeleteScheduledJob (Job_ID job) (job_audit agent ''scheduled_job.delete'' (Job_ID job) (Job_SquadID job) s) of
             (Inl e, s1) \<Rightarrow> (writeStorageError e, s1) | (Inr _, s1) \<Rightarrow> (ApiOK 204 (), s1)))"

definition pauseScheduledJob :: "Agent \<Rightarrow> string \<Rightarrow> MemoryStore \<Rightarrow> ScheduledJob api_reply \<times> MemoryStore" where
  "pauseScheduledJob agent jobID s =
     (case loadOwnScheduledJob agent jobID s of Inl r \<Rightarrow> (r, s)
      | Inr job \<Rightarrow>
          (case SetScheduledJobEnabled (Job_ID job) False 0 s of (Inl e, s1) \<Rightarrow> (writeStorageError e, s1) | (Inr j, s1) \<Rightarrow> (ApiOK 200 j, s1)))"

definition resumeScheduledJob :: "sched_env \<Rightarrow> Agent \<Rightarrow> string \<Rightarrow> MemoryStore \<Rightarrow> ScheduledJob api_reply \<times> MemoryStore" where
  "resumeScheduledJob se agent jobID s =
     (case loadOwnScheduledJob agent jobID s of Inl r \<Rightarrow> (r, s)
      | Inr job \<Rightarrow>
          case enforceCronJobCap se (Job_AgentID job) s of Some e \<Rightarrow> (ApiErr 409 ''too_many_active_jobs'' e, s)
          | None \<Rightarrow>
              case ComputeNextRun se (Job_ScheduleKind job) (Job_ScheduleSpec job) (env_now s) of
                Inl e \<Rightarrow> (ApiErr 400 ''invalid_schedule'' e, s)
              | Inr nextRun \<Rightarrow>
                  (case SetScheduledJobEnabled (Job_ID job) True nextRun (job_audit agent ''scheduled_job.resume'' (Job_ID job) (Job_SquadID job) s) of
                     (Inl e, s1) \<Rightarrow> (writeStorageError e, s1) | (Inr j, s1) \<Rightarrow> (ApiOK 200 j, s1)))"

end
