(* ===== verification/Schedule_Laws.thy ===== *)
theory Schedule_Laws
  imports Schedule_Flow "HOL-Library.Multiset"
begin

text \<open>
  What the scheduler guarantees over every run of the agents' requests, the ticks and the administrators' changes of the tool
  policies: that the number of active jobs grows only up to the cap in force, the bound on consecutive failures, that a
  one-shot job never fires twice, and exactly which jobs a claim hands out. A tick is one step; what an interleaved request
  can undo is shown at the end.
\<close>

section \<open>The order of a claim\<close>

lemma mset_shift_in: "mset (shift_in d ds) = add_mset d (mset ds)"
proof -
  have "mset (takeWhile P xs) + mset (dropWhile P xs) = mset xs" for P and xs :: "(string \<times> instant) list"
    by (metis mset_append takeWhile_dropWhile_id)
  from this [of "\<lambda>e. snd d < snd e" "rev ds"] show ?thesis by (simp add: shift_in_def Let_def add.commute)
qed

lemma filter_shift_in: "filter (\<lambda>x. snd k = snd x) (shift_in d ds) = filter (\<lambda>x. snd k = snd x) ds @ (if snd k = snd d then [d] else [])"
proof -
  let ?P = "\<lambda>e. snd d < snd e"
  have ds: "ds = rev (dropWhile ?P (rev ds)) @ rev (takeWhile ?P (rev ds))"
    by (metis rev_append rev_rev_ident takeWhile_dropWhile_id)
  have "filter (\<lambda>x. snd k = snd x) (rev (takeWhile ?P (rev ds))) = []" if "snd k = snd d"
    using that by (auto simp: filter_empty_conv dest: set_takeWhileD)
  then show ?thesis by (subst (2) ds) (auto simp: shift_in_def Let_def)
qed

lemma sorted_le_last: "sorted (map f xs) \<Longrightarrow> x \<in> set xs \<Longrightarrow> f x \<le> f (last xs)"
  by (induction xs) auto

lemma sorted_shift_in:
  assumes "sorted (map snd ds)"
  shows "sorted (map snd (shift_in d ds))"
proof -
  let ?P = "\<lambda>e. snd d < snd e"
  let ?l = "rev (takeWhile ?P (rev ds))" and ?e = "rev (dropWhile ?P (rev ds))"
  have "?e @ ?l = ds" by (metis rev_append rev_rev_ident takeWhile_dropWhile_id)
  then have "sorted (map snd (?e @ ?l))" using assms by metis
  then have s: "sorted (map snd ?e)" "sorted (map snd ?l)" by (simp_all only: map_append sorted_append)
  have l: "snd d < snd y" if "y \<in> set ?l" for y using that by (auto dest: set_takeWhileD)
  have e: "snd x \<le> snd d" if x: "x \<in> set ?e" for x
  proof -
    have "dropWhile ?P (rev ds) \<noteq> []" using x by (metis empty_iff empty_set rev_is_Nil_conv)
    from hd_dropWhile [OF this] have "\<not> snd d < snd (last ?e)" by (simp only: last_rev not_False_eq_True)
    then show ?thesis using sorted_le_last [OF s(1) x] by simp
  qed
  have "sorted (map snd (?e @ d # ?l))"
    using s l e by (simp only: map_append list.map sorted_append sorted_simps list.set_map) (force intro: less_imp_le order_trans)
  then show ?thesis by (simp only: shift_in_def Let_def)
qed

lemma earliest_first_sort: "earliest_first ds = sort_key snd ds"
proof (rule properties_for_sort_key [symmetric])
  have step: "mset (foldl (\<lambda>acc d. shift_in d acc) acc ds) = mset acc + mset ds \<and>
      filter (\<lambda>x. snd k = snd x) (foldl (\<lambda>acc d. shift_in d acc) acc ds) = filter (\<lambda>x. snd k = snd x) acc @ filter (\<lambda>x. snd k = snd x) ds \<and>
      (sorted (map snd acc) \<longrightarrow> sorted (map snd (foldl (\<lambda>acc d. shift_in d acc) acc ds)))" for acc ds k
    by (induction ds arbitrary: acc) (auto simp: mset_shift_in filter_shift_in sorted_shift_in)
  show "mset (earliest_first ds) = mset ds" "sorted (map snd (earliest_first ds))" using step [of "[]"] by (auto simp: earliest_first_def)
  show "filter (\<lambda>x. snd k = snd x) (earliest_first ds) = filter (\<lambda>x. snd k = snd x) ds" for k
    using step [of "[]" ds k] by (simp add: earliest_first_def)
qed

section \<open>Frames\<close>

text \<open>A step that leaves the jobs and the tool rows alone, and one that writes one row.\<close>

definition sched_keeps :: "MemoryStore \<Rightarrow> MemoryStore \<Rightarrow> bool" where
  "sched_keeps s t \<longleftrightarrow> scheduledJobs t = scheduledJobs s \<and> scheduledJobOrder t = scheduledJobOrder s \<and> builtinTools t = builtinTools s \<and>
     env_uuid t = env_uuid s \<and> env_ctr s \<le> env_ctr t \<and> env_now t = env_now s"

definition job_put :: "MemoryStore \<Rightarrow> string \<Rightarrow> ScheduledJob \<Rightarrow> MemoryStore \<Rightarrow> bool" where
  "job_put s k j t \<longleftrightarrow> scheduledJobs t = gm_put k j (scheduledJobs s) \<and> scheduledJobOrder t = scheduledJobOrder s \<and> builtinTools t = builtinTools s \<and>
     env_uuid t = env_uuid s \<and> env_ctr s \<le> env_ctr t \<and> env_now t = env_now s"

lemma sched_keeps_refl [simp]: "sched_keeps s s"
  by (simp add: sched_keeps_def)

lemma sched_keeps_pending [simp]: "sched_keeps s (WithPendingAudit es s)" "sched_keeps s (job_audit ag act r q s)"
  by (simp_all add: sched_keeps_def WithPendingAudit_def job_audit_def)

lemma sched_keeps_put: "sched_keeps s t \<Longrightarrow> job_put t k j u \<Longrightarrow> job_put s k j u"
  by (auto simp: sched_keeps_def job_put_def)

lemma create_task_keeps: "sched_keeps s (snd (CreateTask task s))"
  by (simp add: sched_keeps_def CreateTask_def NewString_def Let_def split: option.split)

lemma set_status_keeps: "sched_keeps s (snd (SetAgentStatus a st s))"
  by (simp add: sched_keeps_def SetAgentStatus_def enqueueAgentOutboxLocked_def Let_def split: option.split)

lemma sched_keeps_trans: "sched_keeps s t \<Longrightarrow> sched_keeps t u \<Longrightarrow> sched_keeps s u"
  by (auto simp: sched_keeps_def)

lemma deliver_keeps: "sched_keeps s (snd (deliverScheduledJob j now s))"
proof -
  have "sched_keeps s s2" if "CreateTask tk s = (r1, s1)" "SetAgentStatus a st s1 = (r2, s2)" for tk r1 s1 a st r2 s2
    using that sched_keeps_trans create_task_keeps [of s tk] set_status_keeps [of s1 a st] by (metis snd_conv)
  moreover have "sched_keeps s s1" if "CreateTask tk s = (r1, s1)" for tk r1 s1 using that create_task_keeps [of s tk] by simp
  ultimately show ?thesis
    unfolding deliverScheduledJob_def by (auto split: sum.split option.split prod.split)
qed

section \<open>The effect of firing\<close>

text \<open>The rows a fire can leave: finished, or failed with the reason.\<close>

definition finished_job :: "instant \<Rightarrow> instant \<Rightarrow> bool \<Rightarrow> ScheduledJob \<Rightarrow> ScheduledJob" where
  "finished_job now next enabled j =
     j\<lparr>Job_LastRunAt := now, Job_LastRunStatus := ''fired'', Job_FailCount := 0, Job_NextRunAt := next, Job_Enabled := enabled,
       Job_DisabledReason := (if enabled then Job_DisabledReason j else ''one-shot job completed'')\<rparr>"

definition failed_job :: "instant \<Rightarrow> string \<Rightarrow> ScheduledJob \<Rightarrow> ScheduledJob" where
  "failed_job now reason j =
     (let j1 = j\<lparr>Job_LastRunAt := now, Job_LastRunStatus := ''failed'', Job_FailCount := Job_FailCount j + 1\<rparr>
      in if maxJobFailures \<le> Job_FailCount j1 then j1\<lparr>Job_Enabled := False, Job_DisabledReason := reason\<rparr> else j1)"

lemma finish_effect:
  "gm_get (scheduledJobs s) k = Some j \<Longrightarrow> \<exists>t. FinishScheduledJobRun k now next en s = (Inr (), t) \<and> job_put s k (finished_job now next en j) t"
  by (simp add: FinishScheduledJobRun_def finished_job_def job_put_def Let_def)

lemma failure_effect:
  "gm_get (scheduledJobs s) (Job_ID j) = Some j0 \<Longrightarrow> \<exists>reason. job_put s (Job_ID j) (failed_job now reason j0) (record_failure j now err s)"
  unfolding record_failure_def FailScheduledJobRun_def failed_job_def job_put_def maxJobFailures_def by (simp add: Let_def) blast

lemma fire_effect:
  assumes "fireScheduledJob se j now s = (ok, t)" and "gm_get (scheduledJobs s) (Job_ID j) = Some j0"
  shows "\<exists>j'. job_put s (Job_ID j) j' t \<and>
    (if ok then if Job_ScheduleKind j = ScheduleAt then j' = finished_job now (Job_NextRunAt j) False j0
                else \<exists>next. j' = finished_job now next True j0
     else \<exists>reason. j' = failed_job now reason j0)"
proof -
  obtain r s1 where d: "deliverScheduledJob j now s = (r, s1)" by force
  have k: "sched_keeps s s1" using deliver_keeps [of s j now] d by simp
  then have g: "gm_get (scheduledJobs s1) (Job_ID j) = Some j0" using assms(2) by (simp add: sched_keeps_def)
  note fin = finish_effect [OF g] and fail = failure_effect [OF g] and put = sched_keeps_put [OF k]
  show ?thesis
  proof (cases r)
    case (Some err)
    then show ?thesis using assms(1) d fail [of now err] put by (auto simp: fireScheduledJob_def)
  next
    case None
    show ?thesis
    proof (cases "Job_ScheduleKind j = ScheduleAt")
      case True
      then show ?thesis using assms(1) d None fin [of now "Job_NextRunAt j" False] put by (auto simp: fireScheduledJob_def)
    next
      case False
      show ?thesis
      proof (cases "ComputeNextRun se (Job_ScheduleKind j) (Job_ScheduleSpec j) now")
        case (Inl e)
        then show ?thesis using assms(1) d None False fail [of now e] put by (auto simp: fireScheduledJob_def)
      next
        case (Inr at)
        then show ?thesis using assms(1) d None False fin [of now at True] put by (auto simp: fireScheduledJob_def) blast
      qed
    qed
  qed
qed

section \<open>The invariant of the jobs\<close>

definition at_time :: "sched_env \<Rightarrow> string \<Rightarrow> instant option" where
  "at_time se spec =
     (case Option.bind (spec_fields se spec) (st_string ''at'') of None \<Rightarrow> None
      | Some text_at \<Rightarrow> (case SV_ParseTime se text_at of Inl e \<Rightarrow> None | Inr at \<Rightarrow> Some at))"

lemma computeAt_Inr: "computeAtNextRun se spec after = Inr n \<longleftrightarrow> at_time se spec = Some n \<and> after < n"
  by (auto simp: computeAtNextRun_def at_time_def split: option.splits sum.splits if_splits)

definition same_job :: "ScheduledJob \<Rightarrow> ScheduledJob \<Rightarrow> bool" where
  "same_job i j \<longleftrightarrow> Job_ID j = Job_ID i \<and> Job_AgentID j = Job_AgentID i \<and> Job_SquadID j = Job_SquadID i \<and> Job_Title j = Job_Title i \<and>
     Job_Message j = Job_Message i \<and> Job_ScheduleKind j = Job_ScheduleKind i \<and> Job_ScheduleSpec j = Job_ScheduleSpec i"

text \<open>A row counts its consecutive failures below the limit while it is enabled; a one-shot row is never due before its instant,
  and once fired it is disabled and its instant has passed.\<close>

definition job_ok :: "sched_env \<Rightarrow> instant \<Rightarrow> ScheduledJob \<Rightarrow> bool" where
  "job_ok se now j \<longleftrightarrow> 0 \<le> Job_FailCount j \<and> Job_FailCount j \<le> maxJobFailures \<and> (Job_Enabled j \<longrightarrow> Job_FailCount j < maxJobFailures) \<and>
     (Job_ScheduleKind j = ScheduleAt \<longrightarrow>
        (\<exists>T. at_time se (Job_ScheduleSpec j) = Some T \<and> T \<le> Job_NextRunAt j \<and> (Job_LastRunStatus j = ''fired'' \<longrightarrow> \<not> Job_Enabled j \<and> T \<le> now)))"

definition jobs_ok :: "sched_env \<Rightarrow> MemoryStore \<Rightarrow> bool" where
  "jobs_ok se s \<longleftrightarrow> inj (env_uuid s) \<and> distinct (scheduledJobOrder s) \<and> set (scheduledJobOrder s) = {k. gm_get (scheduledJobs s) k \<noteq> None} \<and>
     (\<forall>k j. gm_get (scheduledJobs s) k = Some j \<longrightarrow> Job_ID j = k \<and> issued s k \<and> job_ok se (env_now s) j)"

definition sched_inv :: "sched_env \<Rightarrow> MemoryStore \<Rightarrow> bool" where
  "sched_inv se s \<longleftrightarrow> jobs_ok se s"

text \<open>What a step does to the number of enabled jobs: it grows only up to the cap in force when the step begins.\<close>

definition within :: "sched_env \<Rightarrow> MemoryStore \<Rightarrow> MemoryStore \<Rightarrow> bool" where
  "within se s t \<longleftrightarrow> jobs_ok se t \<and> (\<forall>a. active_jobs a t \<le> active_jobs a s \<or> active_jobs a t \<le> cron_cap se s)"

definition active_set :: "string \<Rightarrow> MemoryStore \<Rightarrow> string set" where
  "active_set a s = {k \<in> set (scheduledJobOrder s). \<exists>j. gm_get (scheduledJobs s) k = Some j \<and> Job_AgentID j = a \<and> Job_Enabled j}"

lemma length_map_filter_card:
  "distinct ks \<Longrightarrow> length (filter P (List.map_filter g ks)) = card {k \<in> set ks. \<exists>j. g k = Some j \<and> P j}"
proof (induction ks)
  case (Cons k ks)
  let ?S = "{k \<in> set ks. \<exists>j. g k = Some j \<and> P j}"
  have "{x \<in> set (k # ks). \<exists>j. g x = Some j \<and> P j} = (if \<exists>j. g k = Some j \<and> P j then insert k ?S else ?S)" by auto
  then show ?case using Cons by (auto simp: List.map_filter_simps split: option.split)
qed (simp add: List.map_filter_simps)

lemma active_card: "distinct (scheduledJobOrder s) \<Longrightarrow> active_jobs a s = int (card (active_set a s))"
  unfolding active_jobs_def ListScheduledJobs_def active_set_def
  using length_map_filter_card [of "scheduledJobOrder s" "\<lambda>j. Job_AgentID j = a \<and> Job_Enabled j" "gm_get (scheduledJobs s)"]
  by (simp add: conj_commute)

lemma finite_active [simp]: "finite (active_set a s)"
  by (simp add: active_set_def)

lemma active_mono:
  assumes "jobs_ok se s" and "jobs_ok se t" and "active_set a t \<subseteq> active_set a s"
  shows "active_jobs a t \<le> active_jobs a s"
  using assms card_mono [OF finite_active assms(3)] by (simp add: active_card jobs_ok_def)

lemma active_insert:
  assumes "jobs_ok se s" and "jobs_ok se t" and "active_set a t \<subseteq> insert k (active_set a s)"
  shows "active_jobs a t \<le> active_jobs a s + 1"
proof -
  have "card (active_set a t) \<le> card (insert k (active_set a s))" using assms(3) by (intro card_mono) simp_all
  also have "\<dots> \<le> card (active_set a s) + 1" by (simp add: card_insert_if)
  finally show ?thesis using assms(1,2) by (simp add: active_card jobs_ok_def)
qed

section \<open>A tick\<close>

text \<open>What a tick may do to the rows: nothing is added or enabled, a disabled row stays as it is.\<close>

definition row_ages :: "sched_env \<Rightarrow> instant \<Rightarrow> ScheduledJob option \<Rightarrow> ScheduledJob option \<Rightarrow> bool" where
  "row_ages se now x y \<longleftrightarrow>
     (case x of None \<Rightarrow> y = None
      | Some j \<Rightarrow> \<exists>j'. y = Some j' \<and> same_job j j' \<and> (Job_Enabled j' \<longrightarrow> Job_Enabled j) \<and> (\<not> Job_Enabled j \<longrightarrow> j' = j) \<and> (job_ok se now j \<longrightarrow> job_ok se now j'))"

definition ages :: "sched_env \<Rightarrow> MemoryStore \<Rightarrow> MemoryStore \<Rightarrow> bool" where
  "ages se s t \<longleftrightarrow> scheduledJobOrder t = scheduledJobOrder s \<and> builtinTools t = builtinTools s \<and>
     env_uuid t = env_uuid s \<and> env_ctr s \<le> env_ctr t \<and> env_now t = env_now s \<and>
     (\<forall>k. row_ages se (env_now s) (gm_get (scheduledJobs s) k) (gm_get (scheduledJobs t) k))"

lemma same_job_refl [simp]: "same_job j j"
  by (simp add: same_job_def)

lemma row_ages_refl [simp]: "row_ages se now x x"
  by (simp add: row_ages_def split: option.split)

lemma same_job_trans: "same_job i j \<Longrightarrow> same_job j k \<Longrightarrow> same_job i k"
  by (simp add: same_job_def)

lemma row_ages_trans:
  assumes "row_ages se now x y" and "row_ages se now y z"
  shows "row_ages se now x z"
proof (cases x)
  case None
  then show ?thesis using assms by (simp add: row_ages_def)
next
  case (Some j)
  then obtain j1 where j1: "y = Some j1" "same_job j j1" "Job_Enabled j1 \<longrightarrow> Job_Enabled j" "\<not> Job_Enabled j \<longrightarrow> j1 = j" "job_ok se now j \<longrightarrow> job_ok se now j1"
    using assms(1) by (auto simp: row_ages_def)
  from assms(2) j1(1) obtain j2 where j2: "z = Some j2" "same_job j1 j2" "Job_Enabled j2 \<longrightarrow> Job_Enabled j1" "\<not> Job_Enabled j1 \<longrightarrow> j2 = j1"
      "job_ok se now j1 \<longrightarrow> job_ok se now j2"
    by (auto simp: row_ages_def)
  have "same_job j j2" using same_job_trans j1(2) j2(2) by blast
  then show ?thesis unfolding row_ages_def Some option.case using j1(3-5) j2 by blast
qed

lemma ages_keeps: "sched_keeps s t \<Longrightarrow> ages se s t"
  by (simp add: ages_def sched_keeps_def)

lemma ages_put:
  assumes "job_put s k j' t" and "gm_get (scheduledJobs s) k = Some j" and "same_job j j'" and "Job_Enabled j"
    and "job_ok se (env_now s) j \<Longrightarrow> job_ok se (env_now s) j'"
  shows "ages se s t"
  using assms by (simp add: ages_def job_put_def) (simp add: row_ages_def)

lemma ages_trans:
  assumes "ages se s t" and "ages se t u"
  shows "ages se s u"
  using assms unfolding ages_def by (auto intro: row_ages_trans)

lemma ages_None: "ages se s t \<Longrightarrow> gm_get (scheduledJobs s) k = None \<Longrightarrow> gm_get (scheduledJobs t) k = None"
  unfolding ages_def row_ages_def by (elim conjE, drule spec [of _ k], simp)

lemma ages_Some:
  assumes "ages se s t" and "gm_get (scheduledJobs s) k = Some j"
  obtains j' where "gm_get (scheduledJobs t) k = Some j'" "same_job j j'" "Job_Enabled j' \<longrightarrow> Job_Enabled j" "\<not> Job_Enabled j \<longrightarrow> j' = j"
    "job_ok se (env_now s) j \<longrightarrow> job_ok se (env_now s) j'"
proof -
  have "row_ages se (env_now s) (Some j) (gm_get (scheduledJobs t) k)" using assms unfolding ages_def by metis
  then show ?thesis using that unfolding row_ages_def by auto
qed

text \<open>A claimed job as the tick holds it: its row is enabled and agrees with it, and its instant has come.\<close>

definition ready :: "sched_env \<Rightarrow> instant \<Rightarrow> MemoryStore \<Rightarrow> ScheduledJob \<Rightarrow> bool" where
  "ready se now s j \<longleftrightarrow> (\<exists>j0. gm_get (scheduledJobs s) (Job_ID j) = Some j0 \<and> same_job j j0 \<and> Job_Enabled j0 \<and> Job_NextRunAt j0 = Job_NextRunAt j \<and>
     (\<forall>T. Job_ScheduleKind j = ScheduleAt \<and> at_time se (Job_ScheduleSpec j) = Some T \<longrightarrow> T \<le> now))"

lemma finished_ok:
  assumes "job_ok se now j0" and "if Job_ScheduleKind j0 = ScheduleAt then \<not> en \<and> nxt = Job_NextRunAt j0 else en"
    and "\<And>T. Job_ScheduleKind j0 = ScheduleAt \<Longrightarrow> at_time se (Job_ScheduleSpec j0) = Some T \<Longrightarrow> T \<le> now"
  shows "job_ok se now (finished_job now nxt en j0)"
  using assms by (auto simp: job_ok_def finished_job_def maxJobFailures_def split: if_splits)

lemma failed_ok: "job_ok se now j0 \<Longrightarrow> Job_Enabled j0 \<Longrightarrow> job_ok se now (failed_job now reason j0)"
  by (auto simp: job_ok_def failed_job_def maxJobFailures_def Let_def)

lemma outcome_same [simp]: "same_job j (finished_job now nxt en j)" "same_job j (failed_job now reason j)" "same_job j (claimed_job now net j)"
  by (simp_all add: same_job_def finished_job_def failed_job_def claimed_job_def Let_def)

lemma fire_ages:
  assumes "fireScheduledJob se j now s = (ok, t)" and r: "ready se now s j" and now: "now = env_now s"
  shows "\<exists>j'. job_put s (Job_ID j) j' t \<and> ages se s t"
proof -
  obtain j0 where j0: "gm_get (scheduledJobs s) (Job_ID j) = Some j0" "same_job j j0" "Job_Enabled j0" "Job_NextRunAt j0 = Job_NextRunAt j"
      "\<forall>T. Job_ScheduleKind j = ScheduleAt \<and> at_time se (Job_ScheduleSpec j) = Some T \<longrightarrow> T \<le> now"
    using r by (auto simp: ready_def)
  have kind: "Job_ScheduleKind j0 = Job_ScheduleKind j" "Job_ScheduleSpec j0 = Job_ScheduleSpec j" using j0(2) by (simp_all add: same_job_def)
  obtain j' where j': "job_put s (Job_ID j) j' t"
    and o: "if ok then if Job_ScheduleKind j = ScheduleAt then j' = finished_job now (Job_NextRunAt j) False j0
                else \<exists>nxt. j' = finished_job now nxt True j0
     else \<exists>reason. j' = failed_job now reason j0"
    using fire_effect [OF assms(1) j0(1)] by blast
  have "same_job j0 j'" using o by (auto split: if_splits)
  moreover have "job_ok se now j'" if okj: "job_ok se now j0"
    using o finished_ok [OF okj] failed_ok [OF okj j0(3)] j0(4,5) kind by (auto split: if_splits)
  ultimately show ?thesis using ages_put [OF j' j0(1) _ j0(3)] j' now by blast
qed

lemma fire_all_ages:
  assumes "fire_all se js now s = (n, t)" and "distinct (map Job_ID js)" and "\<forall>j \<in> set js. ready se now s j" and "now = env_now s"
  shows "ages se s t"
  using assms
proof (induction js arbitrary: s n)
  case Nil
  then show ?case by (simp add: ages_keeps)
next
  case (Cons j js)
  obtain ok s1 n1 where f: "fireScheduledJob se j now s = (ok, s1)" "fire_all se js now s1 = (n1, t)"
    using Cons.prems(1) by (auto split: prod.splits)
  obtain j' where a: "job_put s (Job_ID j) j' s1" "ages se s s1" using fire_ages [OF f(1)] Cons.prems(3,4) by auto
  have "ready se now s1 i" if "i \<in> set js" for i
  proof -
    have "Job_ID i \<noteq> Job_ID j" using that Cons.prems(2) by simp (metis image_eqI)
    moreover have "ready se now s i" using that Cons.prems(3) by simp
    ultimately show ?thesis using a(1) by (auto simp: ready_def job_put_def)
  qed
  moreover have "now = env_now s1" using a(1) Cons.prems(4) by (simp add: job_put_def)
  ultimately have "ages se s1 t" using Cons.IH [OF f(2)] Cons.prems(2) by simp
  then show ?case using ages_trans [OF a(2)] by blast
qed

section \<open>A claim\<close>

lemma in_map_filter: "x \<in> set (List.map_filter f ks) \<longleftrightarrow> (\<exists>k \<in> set ks. f k = Some x)"
  by (induction ks) (auto simp: List.map_filter_simps split: option.split)

lemma due_iff:
  "(k, at) \<in> set (due_jobs now s) \<longleftrightarrow> k \<in> set (scheduledJobOrder s) \<and>
     (\<exists>j. gm_get (scheduledJobs s) k = Some j \<and> Job_Enabled j \<and> Job_NextRunAt j \<le> now \<and> at = Job_NextRunAt j)"
  unfolding due_jobs_def in_map_filter by (auto split: option.splits if_splits intro!: bexI [of _ k])

lemma due_keys: "map fst (due_jobs now s) = filter (\<lambda>k. case gm_get (scheduledJobs s) k of None \<Rightarrow> False | Some j \<Rightarrow> Job_Enabled j \<and> Job_NextRunAt j \<le> now) (scheduledJobOrder s)"
proof -
  have "map fst (List.map_filter (\<lambda>k. case g k of None \<Rightarrow> None | Some j \<Rightarrow> if \<not> Job_Enabled j \<or> now < Job_NextRunAt j then None else Some (k, Job_NextRunAt j)) ks) =
      filter (\<lambda>k. case g k of None \<Rightarrow> False | Some j \<Rightarrow> Job_Enabled j \<and> Job_NextRunAt j \<le> now) ks" for g and ks :: "string list"
    by (induction ks) (auto simp: List.map_filter_simps split: option.split)
  then show ?thesis by (simp add: due_jobs_def)
qed

lemma distinct_due: "distinct (scheduledJobOrder s) \<Longrightarrow> distinct (map fst (due_jobs now s))"
  by (simp add: due_keys)

lemma claim_jobs_effect:
  assumes "claim_jobs now net ds s = (js, t)" and "distinct (map fst ds)" and "\<forall>d \<in> set ds. gm_get (scheduledJobs s) (fst d) \<noteq> None"
  shows "map Some js = map (\<lambda>d. map_option (claimed_job now net) (gm_get (scheduledJobs s) (fst d))) ds \<and>
    (\<forall>k. gm_get (scheduledJobs t) k =
       (if k \<in> fst ` set ds then map_option (claimed_job now net) (gm_get (scheduledJobs s) k) else gm_get (scheduledJobs s) k)) \<and>
    scheduledJobOrder t = scheduledJobOrder s \<and> builtinTools t = builtinTools s \<and> env_uuid t = env_uuid s \<and> env_ctr t = env_ctr s \<and> env_now t = env_now s"
  using assms
proof (induction ds arbitrary: s js)
  case (Cons d ds)
  obtain j where j: "gm_get (scheduledJobs s) (fst d) = Some j" using Cons.prems(3) by auto
  let ?s = "s\<lparr>scheduledJobs := gm_put (fst d) (claimed_job now net j) (scheduledJobs s)\<rparr>"
  obtain js' where c: "claim_jobs now net ds ?s = (js', t)" and js: "js = claimed_job now net j # js'"
    using Cons.prems(1) j by (auto simp: Let_def split: prod.splits)
  have nd: "fst d \<notin> fst ` set ds" and dd: "distinct (map fst ds)" using Cons.prems(2) by auto
  have other: "gm_get (scheduledJobs ?s) (fst e) = gm_get (scheduledJobs s) (fst e)" if "e \<in> set ds" for e
    using nd that by simp (metis image_eqI)
  have "\<forall>d \<in> set ds. gm_get (scheduledJobs ?s) (fst d) \<noteq> None" using other Cons.prems(3) by simp
  note IH = Cons.IH [OF c dd this]
  have "map Some js' = map (\<lambda>d. map_option (claimed_job now net) (gm_get (scheduledJobs s) (fst d))) ds"
    using IH other by simp
  then have "map Some js = map (\<lambda>d. map_option (claimed_job now net) (gm_get (scheduledJobs s) (fst d))) (d # ds)" using js j by simp
  moreover have "gm_get (scheduledJobs t) k = (if k \<in> fst ` set (d # ds) then map_option (claimed_job now net) (gm_get (scheduledJobs s) k) else gm_get (scheduledJobs s) k)" for k
  proof -
    have "gm_get (scheduledJobs t) k = (if k \<in> fst ` set ds then map_option (claimed_job now net) (gm_get (scheduledJobs ?s) k) else gm_get (scheduledJobs ?s) k)"
      using IH by blast
    then show ?thesis using j nd by (cases "k = fst d") simp_all
  qed
  moreover have "scheduledJobOrder t = scheduledJobOrder s" "builtinTools t = builtinTools s" "env_uuid t = env_uuid s" "env_ctr t = env_ctr s" "env_now t = env_now s"
    using IH by simp_all
  ultimately show ?case by blast
qed simp

definition job_keys :: "MemoryStore \<Rightarrow> bool" where
  "job_keys s \<longleftrightarrow> distinct (scheduledJobOrder s) \<and> (\<forall>k j. gm_get (scheduledJobs s) k = Some j \<longrightarrow> Job_ID j = k)"

lemma jobs_ok_keys: "jobs_ok se s \<Longrightarrow> job_keys s"
  by (simp add: jobs_ok_def job_keys_def)

lemma claim_due:
  assumes ok: "job_keys s" and lim: "0 < limit" and c: "ClaimDueScheduledJobs now limit net s = (js, t)"
  defines "ds \<equiv> take (nat limit) (sort_key snd (due_jobs now s))"
  shows "distinct (map fst ds) \<and> (\<forall>d \<in> set ds. \<exists>j. gm_get (scheduledJobs s) (fst d) = Some j \<and> Job_Enabled j \<and> Job_NextRunAt j \<le> now \<and> Job_ID j = fst d) \<and>
    map Some js = map (\<lambda>d. map_option (claimed_job now net) (gm_get (scheduledJobs s) (fst d))) ds \<and>
    (\<forall>k. gm_get (scheduledJobs t) k =
       (if k \<in> fst ` set ds then map_option (claimed_job now net) (gm_get (scheduledJobs s) k) else gm_get (scheduledJobs s) k)) \<and>
    scheduledJobOrder t = scheduledJobOrder s \<and> builtinTools t = builtinTools s \<and> env_uuid t = env_uuid s \<and> env_ctr t = env_ctr s \<and> env_now t = env_now s"
proof -
  have c': "claim_jobs now net ds s = (js, t)" using c lim by (simp add: ClaimDueScheduledJobs_def ds_def earliest_first_sort)
  have "distinct (map fst (due_jobs now s))" using ok distinct_due by (simp add: job_keys_def)
  moreover have "mset (map fst (sort_key snd (due_jobs now s))) = mset (map fst (due_jobs now s))" by simp
  ultimately have "distinct (map fst (sort_key snd (due_jobs now s)))" by (metis mset_eq_imp_distinct_iff)
  then have d: "distinct (map fst ds)" by (simp add: ds_def take_map [symmetric])
  have m: "\<exists>j. gm_get (scheduledJobs s) (fst d) = Some j \<and> Job_Enabled j \<and> Job_NextRunAt j \<le> now \<and> Job_ID j = fst d" if "d \<in> set ds" for d
  proof -
    have "(fst d, snd d) \<in> set (due_jobs now s)" using that by (auto simp: ds_def dest: in_set_takeD)
    then obtain j where "gm_get (scheduledJobs s) (fst d) = Some j" "Job_Enabled j" "Job_NextRunAt j \<le> now" using due_iff by blast
    then show ?thesis using ok by (auto simp: job_keys_def)
  qed
  then have "\<forall>d \<in> set ds. gm_get (scheduledJobs s) (fst d) \<noteq> None" by force
  from claim_jobs_effect [OF c' d this] show ?thesis using d m by blast
qed

lemma claim_ids:
  assumes "job_keys s" and "0 < limit" and "ClaimDueScheduledJobs now limit net s = (js, t)"
  shows "map Job_ID js = map fst (take (nat limit) (sort_key snd (due_jobs now s)))"
proof -
  let ?ds = "take (nat limit) (sort_key snd (due_jobs now s))"
  note C = claim_due [OF assms]
  have "map (map_option Job_ID) (map Some js) = map (map_option Job_ID) (map (\<lambda>d. map_option (claimed_job now net) (gm_get (scheduledJobs s) (fst d))) ?ds)"
    using C by simp
  moreover have "map_option Job_ID (map_option (claimed_job now net) (gm_get (scheduledJobs s) (fst d))) = Some (fst d)" if "d \<in> set ?ds" for d
    using C that by (fastforce simp: claimed_job_def)
  ultimately have "map Some (map Job_ID js) = map Some (map fst ?ds)" by (simp add: comp_def)
  then show ?thesis by (metis (no_types) inj_Some list.inj_map_strong option.inject)
qed

section \<open>Every step keeps the invariant\<close>

text \<open>The steps: an agent's request, a tick as a whole, and anything else that leaves the jobs alone. The last one may rewrite the
  rows of the built-in tools, and so the cap, as an administrator's patch does.\<close>

inductive sched_step :: "sched_env \<Rightarrow> MemoryStore \<Rightarrow> MemoryStore \<Rightarrow> bool" for se where
  create: "createScheduledJob se ag body s = (r1, t) \<Longrightarrow> sched_step se s t"
| delete: "deleteScheduledJob ag jid s = (r2, t) \<Longrightarrow> sched_step se s t"
| pause: "pauseScheduledJob ag jid s = (r3, t) \<Longrightarrow> sched_step se s t"
| resume: "resumeScheduledJob se ag jid s = (r4, t) \<Longrightarrow> sched_step se s t"
| tick: "TickScheduledJobsOnce se (env_now s) s = (n, t) \<Longrightarrow> sched_step se s t"
| elsewhere: "scheduledJobs t = scheduledJobs s \<Longrightarrow> scheduledJobOrder t = scheduledJobOrder s \<Longrightarrow>
    env_uuid t = env_uuid s \<Longrightarrow> env_ctr s \<le> env_ctr t \<Longrightarrow> env_now s \<le> env_now t \<Longrightarrow> sched_step se s t"

definition sched_init :: "MemoryStore \<Rightarrow> bool" where
  "sched_init s \<longleftrightarrow> inj (env_uuid s) \<and> scheduledJobs s = [] \<and> scheduledJobOrder s = []"

lemma jobs_okD: "jobs_ok se s \<Longrightarrow> gm_get (scheduledJobs s) k = Some j \<Longrightarrow> Job_ID j = k \<and> issued s k \<and> job_ok se (env_now s) j"
  by (simp add: jobs_ok_def)

lemma jobs_ok_keeps: "jobs_ok se s \<Longrightarrow> sched_keeps s t \<Longrightarrow> jobs_ok se t"
  unfolding jobs_ok_def sched_keeps_def by (auto intro: issued_mono)

lemma ages_within:
  assumes ok: "jobs_ok se s" and a: "ages se s t"
  shows "within se s t"
proof -
  have rows: "Job_ID j = k \<and> issued t k \<and> job_ok se (env_now t) j" if g: "gm_get (scheduledJobs t) k = Some j" for k j
  proof (cases "gm_get (scheduledJobs s) k")
    case None
    then show ?thesis using g ages_None [OF a] by simp
  next
    case (Some j0)
    from ages_Some [OF a Some] obtain j' where j': "gm_get (scheduledJobs t) k = Some j'" "same_job j0 j'" "job_ok se (env_now s) j0 \<longrightarrow> job_ok se (env_now s) j'" by metis
    then have "j' = j" using g by simp
    then show ?thesis using j' jobs_okD [OF ok Some] a by (auto simp: same_job_def ages_def intro: issued_mono)
  qed
  have dom: "gm_get (scheduledJobs t) k = None \<longleftrightarrow> gm_get (scheduledJobs s) k = None" for k
    using ages_None [OF a, of k] ages_Some [OF a, of k] by (metis option.exhaust option.distinct(1))
  have "set (scheduledJobOrder t) = {k. gm_get (scheduledJobs t) k \<noteq> None}" "distinct (scheduledJobOrder t)" "inj (env_uuid t)"
    using ok a dom by (simp_all add: jobs_ok_def ages_def)
  then have ok': "jobs_ok se t" using rows unfolding jobs_ok_def by blast
  have "active_set b t \<subseteq> active_set b s" for b
  proof
    fix k assume "k \<in> active_set b t"
    then obtain j where j: "k \<in> set (scheduledJobOrder t)" "gm_get (scheduledJobs t) k = Some j" "Job_AgentID j = b" "Job_Enabled j" by (auto simp: active_set_def)
    then obtain j0 where j0: "gm_get (scheduledJobs s) k = Some j0" using dom [of k] by auto
    from ages_Some [OF a j0] j(2) have "same_job j0 j" "Job_Enabled j \<longrightarrow> Job_Enabled j0" by (metis option.inject)+
    then show "k \<in> active_set b s" using j j0 a by (auto simp: active_set_def same_job_def ages_def)
  qed
  from active_mono [OF ok ok' this] show ?thesis using ok' by (simp add: within_def)
qed

text \<open>A row written by a request: the cap must have room when the row becomes enabled.\<close>

lemma row_within:
  assumes ok: "jobs_ok se s" and p: "job_put s k j' t" and g: "gm_get (scheduledJobs s) k = Some j" and same: "same_job j j'"
    and ok': "job_ok se (env_now s) j'" and room: "Job_Enabled j' \<longrightarrow> active_jobs (Job_AgentID j) s < cron_cap se s"
  shows "within se s t"
proof -
  have k: "Job_ID j = k" "issued s k" "k \<in> set (scheduledJobOrder s)" using jobs_okD [OF ok g] ok g by (auto simp: jobs_ok_def)
  have okt: "jobs_ok se t"
    using ok p k same ok' unfolding jobs_ok_def job_put_def by (auto simp: same_job_def intro: issued_mono)
  have "active_jobs a t \<le> active_jobs a s \<or> active_jobs a t \<le> cron_cap se s" for a
  proof (cases "a = Job_AgentID j \<and> Job_Enabled j'")
    case True
    have "active_set a t \<subseteq> insert k (active_set a s)" using p by (auto simp: active_set_def job_put_def)
    from active_insert [OF ok okt this] show ?thesis using True room by simp
  next
    case False
    then have "active_set a t \<subseteq> active_set a s" using p same by (auto simp: active_set_def job_put_def same_job_def split: if_splits)
    from active_mono [OF ok okt this] show ?thesis by simp
  qed
  then show ?thesis using okt by (simp add: within_def)
qed

lemma own_job: "loadOwnScheduledJob ag jid s = Inr j \<Longrightarrow> gm_get (scheduledJobs s) jid = Some j \<and> Job_AgentID j = Agent_ID ag"
  by (auto simp: loadOwnScheduledJob_def GetScheduledJob_def split: option.splits if_splits)

lemma create_within:
  assumes ok: "jobs_ok se s" and c: "createScheduledJob se ag body s = (r, t)"
  shows "within se s t"
proof (cases "t = s")
  case False
  obtain title msg kind spec nxt where cap: "enforceCronJobCap se (Agent_ID ag) s = None"
    and nx: "ComputeNextRun se kind spec (env_now s) = Inr nxt"
    and t: "t = snd (CreateScheduledJob (ScheduledJob_zero\<lparr>Job_AgentID := Agent_ID ag, Job_SquadID := Agent_SquadID ag, Job_Title := title, Job_Message := msg,
        Job_ScheduleKind := kind, Job_ScheduleSpec := spec, Job_Enabled := True, Job_NextRunAt := nxt,
        Job_CreatedByType := ''agent'', Job_CreatedByID := Agent_ID ag\<rparr>) (job_audit ag ''scheduled_job.create'' [] (Agent_SquadID ag) s))"
    using c False unfolding createScheduledJob_def Let_def
    by (auto split: option.splits if_splits sum.splits prod.splits) (metis snd_conv)
  let ?k = "env_uuid s (env_ctr s)"
  define j where "j = fst (CreateScheduledJob (ScheduledJob_zero\<lparr>Job_AgentID := Agent_ID ag, Job_SquadID := Agent_SquadID ag, Job_Title := title, Job_Message := msg,
        Job_ScheduleKind := kind, Job_ScheduleSpec := spec, Job_Enabled := True, Job_NextRunAt := nxt,
        Job_CreatedByType := ''agent'', Job_CreatedByID := Agent_ID ag\<rparr>) (job_audit ag ''scheduled_job.create'' [] (Agent_SquadID ag) s))"
  note defs = CreateScheduledJob_def NewString_def job_audit_def WithPendingAudit_def ScheduledJob_zero_def Let_def
  have j: "Job_ID j = ?k" "Job_AgentID j = Agent_ID ag" "Job_FailCount j = 0" "Job_ScheduleKind j = kind" "Job_ScheduleSpec j = spec"
      "Job_NextRunAt j = nxt" "Job_LastRunStatus j = []"
    by (simp_all add: j_def defs)
  have tt: "scheduledJobs t = gm_put ?k j (scheduledJobs s)" "scheduledJobOrder t = scheduledJobOrder s @ [?k]" "builtinTools t = builtinTools s"
      "env_uuid t = env_uuid s" "env_ctr t = Suc (env_ctr s)" "env_now t = env_now s"
    by (simp_all add: t j_def defs)
  have fresh: "gm_get (scheduledJobs s) ?k = None"
    using jobs_okD [OF ok] not_issued_next [of s "env_ctr s"] ok by (metis jobs_ok_def option.exhaust order_refl)
  have "job_ok se (env_now t) j"
    using nx j tt(6) by (auto simp: job_ok_def maxJobFailures_def ComputeNextRun_def computeAt_Inr)
  moreover have "issued t ?k" unfolding issued_def using tt(4,5) by auto
  moreover have "issued t k" if "issued s k" for k using issued_mono [OF that] tt(4,5) by simp
  ultimately have okt: "jobs_ok se t" using ok fresh j(1) tt unfolding jobs_ok_def by (auto split: if_splits)
  have "active_jobs a t \<le> active_jobs a s \<or> active_jobs a t \<le> cron_cap se s" for a
  proof (cases "a = Agent_ID ag")
    case True
    have "active_set a t \<subseteq> insert ?k (active_set a s)" using tt by (auto simp: active_set_def split: if_splits)
    from active_insert [OF ok okt this] show ?thesis using cap True by (simp add: enforceCronJobCap_def split: if_splits)
  next
    case False
    then have "active_set a t \<subseteq> active_set a s" using tt j by (auto simp: active_set_def split: if_splits)
    from active_mono [OF ok okt this] show ?thesis by simp
  qed
  then show ?thesis using okt by (simp add: within_def)
qed (use ok in \<open>simp add: within_def\<close>)

lemma delete_within:
  assumes ok: "jobs_ok se s" and c: "deleteScheduledJob ag jid s = (r, t)"
  shows "within se s t"
proof (cases "loadOwnScheduledJob ag jid s :: unit api_reply + ScheduledJob")
  case (Inl e)
  then show ?thesis using ok c by (simp add: within_def deleteScheduledJob_def)
next
  case (Inr j)
  have g: "gm_get (scheduledJobs s) jid = Some j" "Job_ID j = jid" using own_job [OF Inr] jobs_okD [OF ok] by auto
  have tt: "scheduledJobs t = gm_del jid (scheduledJobs s)" "scheduledJobOrder t = remove1 jid (scheduledJobOrder s)" "builtinTools t = builtinTools s"
      "env_uuid t = env_uuid s" "env_ctr t = env_ctr s" "env_now t = env_now s"
    using c Inr g by (auto simp: deleteScheduledJob_def DeleteScheduledJob_def job_audit_def WithPendingAudit_def)
  have "issued t k = issued s k" for k using tt by (simp add: issued_def)
  then have okt: "jobs_ok se t" using ok tt unfolding jobs_ok_def by (auto simp: set_remove1_eq)
  have "active_set a t \<subseteq> active_set a s" for a using tt by (auto simp: active_set_def dest: notin_set_remove1 split: if_splits)
  from active_mono [OF ok okt this] show ?thesis using okt by (simp add: within_def)
qed

lemma set_enabled_put:
  "gm_get (scheduledJobs s) jid = Some j \<Longrightarrow> \<exists>j' t. SetScheduledJobEnabled jid en nxt s = (Inr j', t) \<and> job_put s jid j' t \<and> same_job j j' \<and> Job_Enabled j' = en \<and>
     Job_NextRunAt j' = (if nxt \<noteq> 0 then nxt else Job_NextRunAt j) \<and> Job_FailCount j' = (if en then 0 else Job_FailCount j) \<and> Job_LastRunStatus j' = Job_LastRunStatus j"
  by (simp add: SetScheduledJobEnabled_def job_put_def same_job_def Let_def)

lemma pause_within:
  assumes ok: "jobs_ok se s" and c: "pauseScheduledJob ag jid s = (r, t)"
  shows "within se s t"
proof (cases "loadOwnScheduledJob ag jid s :: ScheduledJob api_reply + ScheduledJob")
  case (Inl e)
  then show ?thesis using ok c by (simp add: within_def pauseScheduledJob_def)
next
  case (Inr j)
  have g: "gm_get (scheduledJobs s) jid = Some j" using own_job [OF Inr] by simp
  note row = jobs_okD [OF ok g]
  obtain j' where j': "job_put s jid j' t" "same_job j j'" "\<not> Job_Enabled j'" "Job_NextRunAt j' = Job_NextRunAt j" "Job_FailCount j' = Job_FailCount j"
      "Job_LastRunStatus j' = Job_LastRunStatus j"
    using set_enabled_put [OF g, of False 0] c Inr row by (auto simp: pauseScheduledJob_def)
  have "job_ok se (env_now s) j'" using row j' by (auto simp: job_ok_def same_job_def)
  then show ?thesis using row_within [OF ok j'(1) g j'(2)] j'(3) by blast
qed

lemma resume_within:
  assumes ok: "jobs_ok se s" and c: "resumeScheduledJob se ag jid s = (r, t)"
  shows "within se s t"
proof (cases "loadOwnScheduledJob ag jid s :: ScheduledJob api_reply + ScheduledJob")
  case (Inl e)
  then show ?thesis using ok c by (simp add: within_def resumeScheduledJob_def)
next
  case (Inr j)
  have g: "gm_get (scheduledJobs s) jid = Some j" using own_job [OF Inr] by simp
  note row = jobs_okD [OF ok g]
  show ?thesis
  proof (cases "t = s")
    case False
    obtain nxt where cap: "enforceCronJobCap se (Job_AgentID j) s = None" and nx: "ComputeNextRun se (Job_ScheduleKind j) (Job_ScheduleSpec j) (env_now s) = Inr nxt"
      using c Inr False by (auto simp: resumeScheduledJob_def split: option.splits sum.splits)
    let ?s = "job_audit ag ''scheduled_job.resume'' (Job_ID j) (Job_SquadID j) s"
    have g': "gm_get (scheduledJobs ?s) jid = Some j" using g by (simp add: job_audit_def WithPendingAudit_def)
    obtain j' where j'': "job_put ?s jid j' t" and j': "same_job j j'" "Job_NextRunAt j' = (if nxt \<noteq> 0 then nxt else Job_NextRunAt j)" "Job_FailCount j' = 0"
        "Job_LastRunStatus j' = Job_LastRunStatus j"
      using set_enabled_put [OF g', of True nxt] c Inr row cap nx by (auto simp: resumeScheduledJob_def)
    have p: "job_put s jid j' t" using sched_keeps_put [OF _ j''] by simp
    have "job_ok se (env_now s) j'"
      using row j' nx by (auto simp: job_ok_def same_job_def maxJobFailures_def ComputeNextRun_def computeAt_Inr split: if_splits)
    then show ?thesis using row_within [OF ok p g j'(1)] cap by (simp add: enforceCronJobCap_def split: if_splits)
  qed (use ok in \<open>simp add: within_def\<close>)
qed

lemma tick_ages:
  assumes ok: "jobs_ok se s" and c: "TickScheduledJobsOnce se (env_now s) s = (n, t)"
  shows "ages se s t"
proof -
  let ?s = "WithPendingAudit [] s" and ?now = "env_now s"
  have ok': "jobs_ok se ?s" using jobs_ok_keeps [OF ok sched_keeps_pending(1)] .
  obtain js s1 where cl: "ClaimDueScheduledJobs ?now scheduledJobBatch scheduledJobClaimSafetyNet ?s = (js, s1)" and f: "fire_all se js ?now s1 = (n, t)"
    using c by (auto simp: TickScheduledJobsOnce_def split: prod.splits)
  have lim: "0 < scheduledJobBatch" by (simp add: scheduledJobBatch_def)
  let ?ds = "take (nat scheduledJobBatch) (sort_key snd (due_jobs ?now ?s))"
  note C = claim_due [OF jobs_ok_keys [OF ok'] lim cl] and ids = claim_ids [OF jobs_ok_keys [OF ok'] lim cl]
  have same: "scheduledJobs ?s = scheduledJobs s" "env_now ?s = ?now" by (simp_all add: WithPendingAudit_def)
  have due: "\<exists>j. gm_get (scheduledJobs s) k = Some j \<and> Job_Enabled j \<and> Job_NextRunAt j \<le> ?now \<and> Job_ID j = k" if "k \<in> fst ` set ?ds" for k
    using C that same(1) by auto
  have claimed_ok: "job_ok se ?now (claimed_job ?now scheduledJobClaimSafetyNet j)" if "job_ok se ?now j" "Job_Enabled j" "Job_NextRunAt j \<le> ?now" for j
    using that by (auto simp: job_ok_def claimed_job_def scheduledJobClaimSafetyNet_def)
  have "row_ages se ?now (gm_get (scheduledJobs s) k) (gm_get (scheduledJobs s1) k)" for k
  proof (cases "k \<in> fst ` set ?ds")
    case True
    then obtain j where j: "gm_get (scheduledJobs s) k = Some j" "Job_Enabled j" "Job_NextRunAt j \<le> ?now" using due by blast
    have "gm_get (scheduledJobs s1) k = Some (claimed_job ?now scheduledJobClaimSafetyNet j)" using C True j(1) same(1) by auto
    moreover have "Job_Enabled (claimed_job ?now scheduledJobClaimSafetyNet j) = Job_Enabled j" by (simp add: claimed_job_def)
    ultimately show ?thesis using j claimed_ok [of j] by (simp add: row_ages_def)
  next
    case False
    then have "gm_get (scheduledJobs s1) k = gm_get (scheduledJobs s) k" using C same(1) by auto
    then show ?thesis by simp
  qed
  then have a1: "ages se s s1" using C by (simp add: ages_def WithPendingAudit_def)
  have "ready se ?now s1 i" if i: "i \<in> set js" for i
  proof -
    have "Some i \<in> set (map Some js)" using i by simp
    then obtain d where d: "d \<in> set ?ds" "Some i = map_option (claimed_job ?now scheduledJobClaimSafetyNet) (gm_get (scheduledJobs s) (fst d))"
      using C same(1) by auto
    then obtain j where j: "gm_get (scheduledJobs s) (fst d) = Some j" "Job_Enabled j" "Job_NextRunAt j \<le> ?now" "Job_ID j = fst d" using due by blast
    have i': "i = claimed_job ?now scheduledJobClaimSafetyNet j" using d(2) j(1) by simp
    have "gm_get (scheduledJobs s1) (Job_ID i) = Some i" using C d(1) j(1,4) i' same(1) by (auto simp: claimed_job_def)
    moreover have "Job_Enabled i" "Job_ScheduleKind i = Job_ScheduleKind j" "Job_ScheduleSpec i = Job_ScheduleSpec j" using i' j(2) by (simp_all add: claimed_job_def)
    moreover have "T \<le> ?now" if "Job_ScheduleKind j = ScheduleAt" "at_time se (Job_ScheduleSpec j) = Some T" for T
      using jobs_okD [OF ok j(1)] that j(3) by (auto simp: job_ok_def)
    ultimately show ?thesis by (auto simp: ready_def)
  qed
  moreover have "distinct (map Job_ID js)" using ids C by simp
  moreover have "?now = env_now s1" using a1 by (simp add: ages_def)
  ultimately have "ages se s1 t" using fire_all_ages [OF f] by blast
  then show ?thesis using ages_trans [OF a1] by blast
qed

lemma sched_step_within: "sched_step se s t \<Longrightarrow> jobs_ok se s \<Longrightarrow> within se s t"
proof (induction rule: sched_step.induct)
  case (tick s n t)
  then show ?case using ages_within [OF tick(2)] tick_ages [OF tick(2,1)] by blast
next
  case (elsewhere t s)
  have "job_ok se (env_now t) j" if "job_ok se (env_now s) j" for j using that elsewhere(5) by (auto simp: job_ok_def)
  moreover have "active_jobs a t = active_jobs a s" for a using elsewhere by (simp add: active_jobs_def ListScheduledJobs_def)
  moreover have "issued t k" if "issued s k" for k using issued_mono [OF that] elsewhere by simp
  ultimately show ?case using elsewhere by (auto simp: within_def jobs_ok_def)
qed (blast intro: create_within delete_within pause_within resume_within)+

lemma sched_step_inv: "sched_step se s t \<Longrightarrow> sched_inv se s \<Longrightarrow> sched_inv se t"
  using sched_step_within by (simp add: sched_inv_def within_def)

lemma sched_init_inv: "sched_init s \<Longrightarrow> sched_inv se s"
  by (simp add: sched_init_def sched_inv_def jobs_ok_def gm_get_def)

lemma cap_positive: "0 < cron_cap se s"
  by (auto simp: cron_cap_def defaultMaxActiveJobs_def split: sum.split option.split)

interpretation sched_machine: state_machine sched_init "sched_step se" "sched_inv se" for se
  by unfold_locales (blast intro: sched_init_inv sched_step_inv)+

text \<open>So the number of enabled jobs stays below a cap that was in force at some moment of the run.\<close>

lemma active_under_some_cap:
  assumes "sched_init s" and "(sched_step se)\<^sup>*\<^sup>* s t"
  shows "\<exists>u. (sched_step se)\<^sup>*\<^sup>* s u \<and> (sched_step se)\<^sup>*\<^sup>* u t \<and> active_jobs a t \<le> cron_cap se u"
  using assms(2)
proof (induction rule: rtranclp_induct)
  case base
  have "active_jobs a s = 0" using assms(1) by (simp add: sched_init_def active_jobs_def ListScheduledJobs_def List.map_filter_simps)
  then show ?case using cap_positive [of se s] by auto
next
  case (step t v)
  have "jobs_ok se t" using sched_machine.reachable_inv [OF assms(1) step(1)] by (simp add: sched_inv_def)
  then have "active_jobs a v \<le> active_jobs a t \<or> active_jobs a v \<le> cron_cap se t" using sched_step_within [OF step(2)] by (simp add: within_def)
  then show ?case
  proof
    assume le: "active_jobs a v \<le> active_jobs a t"
    from step.IH obtain u where "(sched_step se)\<^sup>*\<^sup>* s u" "(sched_step se)\<^sup>*\<^sup>* u t" "active_jobs a t \<le> cron_cap se u" by blast
    then show ?thesis using le step(2) by (meson order_trans rtranclp.rtrancl_into_rtrancl)
  qed (use step(1,2) in blast)
qed

section \<open>One-shot jobs\<close>

definition spent :: "string \<Rightarrow> ScheduledJob \<Rightarrow> MemoryStore \<Rightarrow> bool" where
  "spent k j s \<longleftrightarrow> issued s k \<and> (gm_get (scheduledJobs s) k = None \<or> gm_get (scheduledJobs s) k = Some j)"

lemma spent_mono: "spent k j s \<Longrightarrow> env_uuid t = env_uuid s \<Longrightarrow> env_ctr s \<le> env_ctr t \<Longrightarrow>
  gm_get (scheduledJobs t) k = gm_get (scheduledJobs s) k \<or> gm_get (scheduledJobs t) k = None \<Longrightarrow> spent k j t"
  unfolding spent_def using issued_mono by metis

lemma create_other:
  assumes "createScheduledJob se ag body s = (r, t)" and "inj (env_uuid s)" and "issued s k"
  shows "gm_get (scheduledJobs t) k = gm_get (scheduledJobs s) k \<and> env_uuid t = env_uuid s \<and> env_ctr s \<le> env_ctr t"
proof -
  have "k \<noteq> env_uuid s (env_ctr s)" using assms(2,3) not_issued_next by blast
  moreover have "Job_ID ScheduledJob_zero = []" by (simp add: ScheduledJob_zero_def)
  ultimately show ?thesis using assms(1)
    by (auto simp: createScheduledJob_def CreateScheduledJob_def NewString_def job_audit_def WithPendingAudit_def Let_def split: option.splits if_splits sum.splits)
qed

lemma spent_step:
  assumes "sched_step se s t" and "sched_inv se s" and "spent k j s" and fired: "Job_ScheduleKind j = ScheduleAt" "Job_LastRunStatus j = ''fired''"
  shows "spent k j t"
  using assms(1-3)
proof (induction rule: sched_step.induct)
  case (create ag body s r1 t)
  have "inj (env_uuid s)" using create(2) by (simp add: sched_inv_def jobs_ok_def)
  then show ?case using create_other [OF create(1)] create(3) spent_mono [OF create(3)] by (auto simp: spent_def)
next
  case (delete ag jid s r2 t)
  then show ?case
    by (intro spent_mono [OF delete(3)])
      (auto simp: deleteScheduledJob_def DeleteScheduledJob_def job_audit_def WithPendingAudit_def split: sum.splits if_splits)
next
  case (pause ag jid s r3 t)
  have ok: "jobs_ok se s" using pause(2) by (simp add: sched_inv_def)
  have "\<not> Job_Enabled j" if "gm_get (scheduledJobs s) k = Some j" using jobs_okD [OF ok that] fired by (auto simp: job_ok_def)
  then have "gm_get (scheduledJobs t) k = gm_get (scheduledJobs s) k \<and> env_uuid t = env_uuid s \<and> env_ctr s \<le> env_ctr t"
    using pause(1,3) by (auto simp: pauseScheduledJob_def SetScheduledJobEnabled_def spent_def Let_def split: sum.splits option.splits)
  then show ?case using spent_mono [OF pause(3)] by blast
next
  case (resume ag jid s r4 t)
  show ?case
  proof (cases "gm_get (scheduledJobs s) k")
    case (Some j0)
    have ok: "jobs_ok se s" using resume(2) by (simp add: sched_inv_def)
    have j0: "j0 = j" using resume(3) Some by (simp add: spent_def)
    have "Job_ID j = k" and refuse: "ComputeNextRun se (Job_ScheduleKind j) (Job_ScheduleSpec j) (env_now s) \<noteq> Inr x" for x
      using jobs_okD [OF ok, of k j] Some j0 fired by (auto simp: job_ok_def ComputeNextRun_def computeAt_Inr)
    have "gm_get (scheduledJobs t) k = gm_get (scheduledJobs s) k \<and> env_uuid t = env_uuid s \<and> env_ctr s \<le> env_ctr t"
    proof (cases "loadOwnScheduledJob ag jid s :: ScheduledJob api_reply + ScheduledJob")
      case (Inl e)
      then show ?thesis using resume(1) by (simp add: resumeScheduledJob_def)
    next
      case (Inr i)
      then have i: "gm_get (scheduledJobs s) jid = Some i" "Job_ID i = jid" using own_job [OF Inr] jobs_okD [OF ok] by auto
      show ?thesis
      proof (cases "jid = k")
        case True
        then have "i = j" using i Some j0 by simp
        then show ?thesis using resume(1) Inr refuse by (cases "ComputeNextRun se (Job_ScheduleKind j) (Job_ScheduleSpec j) (env_now s)")
          (auto simp: resumeScheduledJob_def split: option.splits)
      next
        case False
        then show ?thesis using resume(1) Inr i
          by (auto simp: resumeScheduledJob_def SetScheduledJobEnabled_def job_audit_def WithPendingAudit_def Let_def split: sum.splits option.splits)
      qed
    qed
    then show ?thesis using spent_mono [OF resume(3)] by blast
  next
    case None
    have "gm_get (scheduledJobs t) k = None \<and> env_uuid t = env_uuid s \<and> env_ctr s \<le> env_ctr t"
      using resume(1) None
      by (auto simp: resumeScheduledJob_def SetScheduledJobEnabled_def job_audit_def WithPendingAudit_def Let_def split: sum.splits option.splits)
    then show ?thesis using spent_mono [OF resume(3)] by blast
  qed
next
  case (tick s n t)
  have ok: "jobs_ok se s" using tick(2) by (simp add: sched_inv_def)
  note a = tick_ages [OF ok tick(1)]
  have "gm_get (scheduledJobs t) k = gm_get (scheduledJobs s) k"
  proof (cases "gm_get (scheduledJobs s) k")
    case (Some j0)
    then have "j0 = j" using tick(3) by (simp add: spent_def)
    then have "\<not> Job_Enabled j0" using jobs_okD [OF ok Some] fired by (auto simp: job_ok_def)
    then show ?thesis using ages_Some [OF a Some] Some by metis
  qed (use ages_None [OF a] in simp)
  then show ?case using spent_mono [OF tick(3)] a by (auto simp: ages_def)
next
  case (elsewhere t s)
  then show ?case using spent_mono by auto
qed

section \<open>Properties\<close>

text \<open>C17. The scheduler keeps its limits. Over every run of the agents' requests, whole ticks and changes of the tools' policies by
  administrators: the number of an agent's enabled jobs is at most a cap that was in force at some moment of the run, and a
  further step lets it grow only up to the cap in force then (lowering the cap disables no job); an enabled job has fewer than
  five consecutive failures, and no job has more than five. A tick is one step here. In the code its claim and its finish are
  separate calls, and a pause in between is undone, by which an agent can exceed the cap (\<open>interleaved_tick_exceeds_cap\<close>
  below).\<close>

theorem scheduler_keeps_limits:
  assumes "sched_init s" and "(sched_step se)\<^sup>*\<^sup>* s t"
  shows "(\<exists>u. (sched_step se)\<^sup>*\<^sup>* s u \<and> (sched_step se)\<^sup>*\<^sup>* u t \<and> active_jobs a t \<le> cron_cap se u) \<and>
    (\<forall>v. sched_step se t v \<longrightarrow> active_jobs a v \<le> active_jobs a t \<or> active_jobs a v \<le> cron_cap se t) \<and>
    (\<forall>jid j. GetScheduledJob jid t = Inr j \<longrightarrow> 0 \<le> Job_FailCount j \<and> Job_FailCount j \<le> 5 \<and> (Job_Enabled j \<longrightarrow> Job_FailCount j < 5))"
proof -
  have ok: "jobs_ok se t" using sched_machine.reachable_inv [OF assms] by (simp add: sched_inv_def)
  then have "job_ok se (env_now t) j" if "GetScheduledJob jid t = Inr j" for jid j
    using that by (auto simp: jobs_ok_def GetScheduledJob_def split: option.splits)
  then show ?thesis using active_under_some_cap [OF assms] sched_step_within [OF _ ok] by (simp add: within_def job_ok_def maxJobFailures_def)
qed

text \<open>C18. A one-shot job fires once. When a job of kind at has been fired, then over every further run its row stays exactly as it
  is, disabled, until it is deleted: no tick claims it, and resuming it is refused because its instant has passed.\<close>

theorem one_shot_fires_once:
  assumes "sched_init i" and "(sched_step se)\<^sup>*\<^sup>* i s" and "GetScheduledJob jid s = Inr j" and "Job_ScheduleKind j = ScheduleAt"
    and "Job_LastRunStatus j = ''fired''" and "(sched_step se)\<^sup>*\<^sup>* s t"
  shows "\<not> Job_Enabled j \<and> (GetScheduledJob jid t = Inr j \<or> GetScheduledJob jid t = Inl ErrNotFound)"
proof -
  have inv: "sched_inv se s" using sched_machine.reachable_inv [OF assms(1,2)] .
  have g: "gm_get (scheduledJobs s) jid = Some j" using assms(3) by (auto simp: GetScheduledJob_def split: option.splits)
  then have row: "issued s jid" "job_ok se (env_now s) j" using inv by (auto simp: sched_inv_def jobs_ok_def)
  have "spent jid j t \<and> sched_inv se t" using assms(6)
  proof (induction rule: rtranclp_induct)
    case base
    then show ?case using g row(1) inv by (simp add: spent_def)
  next
    case (step t u)
    then show ?case using spent_step [OF step(2)] sched_step_inv [OF step(2)] assms(4,5) by blast
  qed
  then show ?thesis using row(2) assms(4,5) by (auto simp: spent_def GetScheduledJob_def job_ok_def)
qed

text \<open>C40. A claim hands out exactly the due jobs. In every reachable store a claim with a positive limit returns, earliest first and
  in creation order among equals, the first of the enabled jobs whose time has come, up to the limit; their rows are marked
  running and pushed past the safety net, all others are unchanged, and a next claim on the resulting store before the
  safety net ends returns none of them.\<close>

theorem claim_hands_out_due_jobs:
  assumes "sched_init i" and "(sched_step se)\<^sup>*\<^sup>* i s" and "0 < limit" and "ClaimDueScheduledJobs now limit net s = (js, t)"
  shows "map Job_ID js = take (nat limit) (map fst (sort_key snd (due_jobs now s))) \<and>
    (\<forall>k. GetScheduledJob k t = (if k \<in> Job_ID ` set js then map_sum id (claimed_job now net) (GetScheduledJob k s) else GetScheduledJob k s)) \<and>
    (\<forall>now' limit' net' js' t'. now' < now + net \<and> ClaimDueScheduledJobs now' limit' net' t = (js', t') \<longrightarrow> Job_ID ` set js \<inter> Job_ID ` set js' = {})"
proof -
  have ok: "job_keys s" using sched_machine.reachable_inv [OF assms(1,2)] jobs_ok_keys by (auto simp: sched_inv_def)
  let ?ds = "take (nat limit) (sort_key snd (due_jobs now s))"
  note C = claim_due [OF ok assms(3,4)]
  have ids: "map Job_ID js = map fst ?ds" using claim_ids [OF ok assms(3,4)] .
  have keys: "Job_ID ` set js = fst ` set ?ds" using arg_cong [OF ids, of set] by simp
  have rows: "gm_get (scheduledJobs t) k = (if k \<in> Job_ID ` set js then map_option (claimed_job now net) (gm_get (scheduledJobs s) k) else gm_get (scheduledJobs s) k)" for k
    using C keys by simp
  then have get: "GetScheduledJob k t = (if k \<in> Job_ID ` set js then map_sum id (claimed_job now net) (GetScheduledJob k s) else GetScheduledJob k s)" for k
    by (simp add: GetScheduledJob_def split: option.split)
  have okt: "job_keys t" using ok C rows by (auto simp: job_keys_def claimed_job_def split: if_splits)
  have dis: "Job_ID ` set js \<inter> Job_ID ` set js' = {}" if e: "now' < now + net" "ClaimDueScheduledJobs now' limit' net' t = (js', t')" for now' limit' net' js' t'
  proof (cases "0 < limit'")
    case True
    have late: "k \<notin> Job_ID ` set js" if k: "k \<in> Job_ID ` set js'" for k
    proof
      assume "k \<in> Job_ID ` set js"
      then have n: "Job_NextRunAt j = now + net" if "gm_get (scheduledJobs t) k = Some j" for j
        using rows [of k] that by (cases "gm_get (scheduledJobs s) k") (auto simp: claimed_job_def)
      have "k \<in> fst ` set (take (nat limit') (sort_key snd (due_jobs now' t)))"
        using k arg_cong [OF claim_ids [OF okt True e(2)], of set] by simp
      then obtain j' where "gm_get (scheduledJobs t) k = Some j'" "Job_NextRunAt j' \<le> now'" using claim_due [OF okt True e(2)] by auto
      then show False using n e(1) by fastforce
    qed
    then show ?thesis by blast
  qed (use e(2) in \<open>simp add: ClaimDueScheduledJobs_def\<close>)
  have "map Job_ID js = take (nat limit) (map fst (sort_key snd (due_jobs now s)))" using ids by (simp add: take_map)
  with get dis show ?thesis by blast
qed

section \<open>A run\<close>

definition demo_se :: sched_env where
  "demo_se = \<lparr>SV_ParseTime = (\<lambda>x. if x = ''T'' then Inr 2000 else Inl ''bad''), SV_Location = (\<lambda>_. None), SV_Cron = (\<lambda>_. Inl ''none''),
     SV_Json = (\<lambda>p. if p = ''{\"at\":\"T\"}'' then Raw (JObj [(''at'', JStr ''T'')])
        else if p = ''{\"interval_seconds\":60}'' then Raw (JObj [(''interval_seconds'', JNum (Some 60))])
        else if p = ''capOne'' then Raw (JObj [(''maxActiveJobs'', JNum (Some 1))])
        else if p = ''capText'' then Raw (JObj [(''maxActiveJobs'', JStr ''3'')]) else Raw (JObj [])),
     SV_JsonErr = (\<lambda>_. ''bad'')\<rparr>"

definition demo_worker :: Agent where
  "demo_worker = Agent_zero\<lparr>Agent_ID := ''a'', Agent_SquadID := ''q''\<rparr>"

definition demo_office :: MemoryStore where
  "demo_office = demo_store\<lparr>agents := [(''a'', demo_worker)], squads := [(''q'', Squad_zero\<lparr>Squad_ID := ''q'', Squad_OwnerID := ''o''\<rparr>)],
     boards := [(''b'', \<lparr>Board_ID = ''b'', Board_SquadID = ''q'', Board_CreatedAt = 0\<rparr>)], boardsBySquad := [(''q'', ''b'')],
     builtinTools := [(''cron'', \<lparr>BT_Name = ''cron'', BT_Enabled = True, BT_Policy = ''{}'', BT_UpdatedAt = 0, BT_UpdatedBy = []\<rparr>)]\<rparr>"

definition demo_request :: "string \<Rightarrow> createScheduledJobRequest" where
  "demo_request kind = \<lparr>CJ_Title = [], CJ_Message = ''ping'',
     CJ_Schedule = \<lparr>SR_Kind = kind, SR_At = ''T'', SR_IntervalSeconds = 60, SR_Expression = [], SR_Timezone = []\<rparr>\<rparr>"

definition demo_booked :: MemoryStore where
  "demo_booked = snd (createScheduledJob demo_se demo_worker (Some (demo_request ''at'')) demo_office)"

definition demo_later :: MemoryStore where
  "demo_later = demo_booked\<lparr>env_now := 3000\<rparr>"

definition demo_fired :: MemoryStore where
  "demo_fired = snd (TickScheduledJobsOnce demo_se 3000 demo_later)"

lemma demo_sched_init: "sched_init demo_office"
  by (simp add: sched_init_def demo_office_def demo_store_code)

lemma demo_later_run: "(sched_step demo_se)\<^sup>*\<^sup>* demo_office demo_later"
proof -
  have "sched_step demo_se demo_office demo_booked" unfolding demo_booked_def by (rule sched_step.create, rule prod.collapse [symmetric])
  moreover have "env_now demo_booked \<le> 3000" by code_simp
  then have "sched_step demo_se demo_booked demo_later" unfolding demo_later_def by (intro sched_step.elsewhere) simp_all
  ultimately show ?thesis by (meson converse_rtranclp_into_rtranclp r_into_rtranclp)
qed

lemma demo_fired_run: "(sched_step demo_se)\<^sup>*\<^sup>* demo_later demo_fired"
proof -
  have "env_now demo_later = 3000" by (simp add: demo_later_def)
  then have "TickScheduledJobsOnce demo_se (env_now demo_later) demo_later = (fst (TickScheduledJobsOnce demo_se 3000 demo_later), demo_fired)"
    by (simp add: demo_fired_def)
  then show ?thesis by (blast intro: r_into_rtranclp sched_step.tick)
qed

lemma demo_sched_evals:
  "case GetScheduledJob (demo_uuid 0) demo_later of Inr j \<Rightarrow> Job_Enabled j \<and> Job_NextRunAt j = 2000 | _ \<Rightarrow> False"
  "case GetScheduledJob (demo_uuid 0) demo_fired of Inr j \<Rightarrow> Job_LastRunStatus j = ''fired'' \<and> Job_ScheduleKind j = ''at'' | _ \<Rightarrow> False"
  "map (\<lambda>p. Task_AssigneeAgentID (snd p)) (tasks demo_fired) = [''a'']"
  "map fst (sort_key snd (due_jobs 3000 demo_later)) = [demo_uuid 0]"
  by code_simp+

theorem scheduler_keeps_limits_witness:
  "(\<exists>u. (sched_step demo_se)\<^sup>*\<^sup>* demo_office u \<and> (sched_step demo_se)\<^sup>*\<^sup>* u demo_fired \<and> active_jobs ''a'' demo_fired \<le> cron_cap demo_se u) \<and>
   (\<exists>j. GetScheduledJob (demo_uuid 0) demo_fired = Inr j \<and> 0 \<le> Job_FailCount j \<and> Job_FailCount j \<le> 5)"
proof -
  obtain j where "GetScheduledJob (demo_uuid 0) demo_fired = Inr j" using demo_sched_evals(2) by (auto split: sum.splits)
  with scheduler_keeps_limits [OF demo_sched_init rtranclp_trans [OF demo_later_run demo_fired_run], of "''a''"] show ?thesis by blast
qed

theorem one_shot_fires_once_witness:
  "\<exists>j. GetScheduledJob (demo_uuid 0) demo_fired = Inr j \<and> \<not> Job_Enabled j \<and>
     (GetScheduledJob (demo_uuid 0) (snd (TickScheduledJobsOnce demo_se (env_now demo_fired) demo_fired)) = Inr j \<or>
      GetScheduledJob (demo_uuid 0) (snd (TickScheduledJobsOnce demo_se (env_now demo_fired) demo_fired)) = Inl ErrNotFound)"
proof -
  obtain j where j: "GetScheduledJob (demo_uuid 0) demo_fired = Inr j" "Job_LastRunStatus j = ''fired''" "Job_ScheduleKind j = ScheduleAt"
    using demo_sched_evals(2) by (auto simp: ScheduleAt_def split: sum.splits)
  have "(sched_step demo_se)\<^sup>*\<^sup>* demo_fired (snd (TickScheduledJobsOnce demo_se (env_now demo_fired) demo_fired))"
    by (rule r_into_rtranclp, rule sched_step.tick, rule prod.collapse [symmetric])
  from one_shot_fires_once [OF demo_sched_init rtranclp_trans [OF demo_later_run demo_fired_run] j(1,3,2) this] j(1) show ?thesis by blast
qed

theorem claim_hands_out_due_jobs_witness:
  "map Job_ID (fst (ClaimDueScheduledJobs 3000 50 300 demo_later)) = [demo_uuid 0]"
proof -
  have "ClaimDueScheduledJobs 3000 50 300 demo_later = (fst (ClaimDueScheduledJobs 3000 50 300 demo_later), snd (ClaimDueScheduledJobs 3000 50 300 demo_later))" by simp
  from claim_hands_out_due_jobs [OF demo_sched_init demo_later_run _ this] demo_sched_evals(4) show ?thesis by simp
qed

section \<open>Where the scheduler falls short\<close>

text \<open>Claim and finish are separate calls. A job that its agent pauses in between is enabled again by the finish.\<close>

definition demo_every :: MemoryStore where
  "demo_every = snd (createScheduledJob demo_se demo_worker (Some (demo_request ''every'')) demo_office)"

lemma pause_is_lost:
  "(case ClaimDueScheduledJobs 60000002000 50 300000000000 demo_every of (js, s1) \<Rightarrow>
     case pauseScheduledJob demo_worker (demo_uuid 0) s1 of (r, s2) \<Rightarrow>
     case fire_all demo_se js 60000002000 s2 of (n, s3) \<Rightarrow>
       n = 1 \<and> active_jobs ''a'' s2 = 0 \<and> active_jobs ''a'' s3 = 1)"
  by code_simp

text \<open>With a cap of one: while the tick holds the claimed job its agent pauses it and creates another; the finish then enables the first
  one again, and two jobs are enabled.\<close>

definition demo_capped :: MemoryStore where
  "demo_capped = demo_every\<lparr>builtinTools := [(''cron'', \<lparr>BT_Name = ''cron'', BT_Enabled = True, BT_Policy = ''capOne'', BT_UpdatedAt = 0, BT_UpdatedBy = []\<rparr>)]\<rparr>"

lemma interleaved_tick_exceeds_cap:
  "(case ClaimDueScheduledJobs 60000002000 50 300000000000 demo_capped of (js, s1) \<Rightarrow>
     case pauseScheduledJob demo_worker (demo_uuid 0) s1 of (r, s2) \<Rightarrow>
     case createScheduledJob demo_se demo_worker (Some (demo_request ''every'')) s2 of (r', s3) \<Rightarrow>
     case fire_all demo_se js 60000002000 s3 of (n, s4) \<Rightarrow> active_jobs ''a'' s4 = 2 \<and> cron_cap demo_se s4 = 1)"
  by code_simp

text \<open>No method of the store drains the audit entry that the create, delete and resume handlers attach, so no such entry is ever
  written.\<close>

lemma job_requests_unaudited:
  "auditLog (snd (createScheduledJob se ag body s)) = auditLog s" "auditLog (snd (deleteScheduledJob ag jid s)) = auditLog s"
  "auditLog (snd (resumeScheduledJob se ag jid s)) = auditLog s"
  by (auto simp: createScheduledJob_def CreateScheduledJob_def deleteScheduledJob_def DeleteScheduledJob_def resumeScheduledJob_def SetScheduledJobEnabled_def
      NewString_def job_audit_def WithPendingAudit_def Let_def split: option.split sum.split)

text \<open>Resuming does not look at the tool's switch: with the cron tool disabled a paused job can be enabled again.\<close>

definition demo_disabled :: MemoryStore where
  "demo_disabled = (snd (pauseScheduledJob demo_worker (demo_uuid 0) demo_every))\<lparr>builtinTools :=
     [(''cron'', \<lparr>BT_Name = ''cron'', BT_Enabled = False, BT_Policy = ''{}'', BT_UpdatedAt = 0, BT_UpdatedBy = []\<rparr>)]\<rparr>"

lemma disabled_tool_resumes:
  "case fst (resumeScheduledJob demo_se demo_worker (demo_uuid 0) demo_disabled) of ApiOK c j \<Rightarrow> Job_Enabled j | _ \<Rightarrow> False"
  by code_simp

text \<open>A cap given as a number in quotation marks passes the validation of the policy, and is then ignored.\<close>

lemma quoted_cap_ignored:
  "cron_cap demo_se (demo_office\<lparr>builtinTools := [(''cron'', \<lparr>BT_Name = ''cron'', BT_Enabled = True, BT_Policy = ''capText'', BT_UpdatedAt = 0, BT_UpdatedBy = []\<rparr>)]\<rparr>) = 10"
  by code_simp

text \<open>A prompt of up to 10000 bytes is accepted, but what the agent gets is cut to 4000 runes, the origin line first.\<close>

lemma take_runes_ascii: "list_all (\<lambda>c. byte_of c < 128) s \<Longrightarrow> take_runes n s = take n s"
proof (induction n arbitrary: s)
  case 0
  then show ?case by (subst take_runes.simps) simp
next
  case (Suc n)
  show ?case
  proof (cases s)
    case (Cons c cs)
    have "rune_len (map byte_of s) = 1"
      using Suc.prems Cons by (auto simp: rune_len_def seq2_ok_def seq3_ok_def seq4_ok_def split: list.split)
    then show ?thesis using Suc Cons by (subst take_runes.simps) simp
  qed (subst take_runes.simps, simp)
qed

lemma rune_counts_ascii: "list_all (\<lambda>c. byte_of c < 128) s \<Longrightarrow> fst (rune_counts (map byte_of s)) = length s"
proof (induction s)
  case (Cons c cs)
  have "rune_len (map byte_of (c # cs)) = 1"
    using Cons.prems by (auto simp: rune_len_def seq2_ok_def seq3_ok_def seq4_ok_def split: list.split)
  then show ?case using Cons by (simp add: case_prod_beta)
qed simp

lemma long_prompt_is_cut:
  assumes "TrimSpace (Job_Message j) = Job_Message j" and "4000 \<le> length (Job_Message j)" and "list_all (\<lambda>c. byte_of c < 128) (Job_Message j)"
    and "list_all (\<lambda>c. byte_of c < 128) (Job_ID j @ Job_ScheduleKind j @ rfc3339 now)"
  shows "scheduledTaskDescription j now = take 4000 (Job_Message j)"
proof -
  let ?o = "[CHR 0x0A, CHR 0x0A] @ ''---'' @ [CHR 0x0A] @ ''Scheduled job '' @ Job_ID j @ '' (kind='' @ Job_ScheduleKind j @ '') fired at '' @ rfc3339 now"
  have "list_all (\<lambda>c. byte_of c < 128) ?o" using assms(4) by (simp add: byte_of_def)
  then have a: "list_all (\<lambda>c. byte_of c < 128) (Job_Message j @ ?o)" using assms(3) by simp
  have "Job_Message j \<noteq> []" using assms(2) by auto
  then have "scheduledTaskDescription j now = trimRunes (Job_Message j @ ?o) 4000"
    using assms(1) by (simp add: scheduledTaskDescription_def maxAgentMemoryContentChars_def Let_def)
  also have "\<dots> = take_runes 4000 (Job_Message j @ ?o)"
    using rune_counts_ascii [OF a] assms(2) by (simp add: trimRunes_def)
  finally show ?thesis using take_runes_ascii [OF a] assms(2) by simp
qed

end
