(* ===== verification/Build_Govern.thy ===== *)
theory Build_Govern
  imports Glob Gateway_Auth
begin

text \<open>
  The build service's governance: caller identity (\<^verbatim>\<open>build-service/internal/authn\<close>), the policy lookup
  (\<^verbatim>\<open>internal/cppolicy\<close>), matching of revisions (\<^verbatim>\<open>internal/gitcheck\<close>) and the chain of checks every build request passes
  (\<^verbatim>\<open>internal/govern\<close>). \<^verbatim>\<open>net/url.Parse\<close>, \<^verbatim>\<open>sha256\<close>, the control plane's answer, the refs of a repository and the number of active
  jobs are parameters.
\<close>

section \<open>Principals\<close>

record Principal =
  P_ID :: string
  P_AgentID :: string
  P_TokenSHA256 :: string
  P_ReposAllow :: "string list"
  P_DestinationsAllow :: "string list"
  P_Active :: bool

definition HashToken :: "(string \<Rightarrow> string) \<Rightarrow> string \<Rightarrow> string" where
  "HashToken sha token = RawStdEncode (sha token)"

text \<open>The checks of \<^verbatim>\<open>LoadStore\<close> on the decoded file: at least one principal, each with an identifier and a token hash, and no
  identifier twice.\<close>

fun principals_error :: "Principal list \<Rightarrow> string list \<Rightarrow> string option" where
  "principals_error [] seen = None"
| "principals_error (p # ps) seen =
     (if P_ID p = [] \<or> P_TokenSHA256 p = [] then Some ''principals: every entry needs id and token_b64sha256''
      else if P_ID p \<in> set seen then Some (''principals: duplicate id '' @ Quote (P_ID p))
      else principals_error ps (P_ID p # seen))"

definition LoadStore :: "Principal list \<Rightarrow> string + Principal list" where
  "LoadStore ps =
     (if ps = [] then Inl ''principals file contains no principals''
      else case principals_error ps [] of Some e \<Rightarrow> Inl e | None \<Rightarrow> Inr ps)"

definition Authenticate :: "(string \<Rightarrow> string) \<Rightarrow> Principal list \<Rightarrow> string \<Rightarrow> Principal option" where
  "Authenticate sha ps token =
     (if token = [] then None
      else fold (\<lambda>p m. if HashToken sha token = P_TokenSHA256 p \<and> P_Active p then Some p else m) ps None)"

section \<open>The policy lookup\<close>

record cp_grant =
  CG_ResourceID :: string
  CG_ResourceType :: string
  CG_Constraints :: RawMessage
  CG_Ceiling :: RawMessage

record cp_snapshot =
  CN_AgentID :: string
  CN_Grants :: "cp_grant list"
  CN_cachedAt :: instant

datatype cp_error = PolicyUnavailable | BadLayer

definition repos_layer :: "RawMessage \<Rightarrow> string list option option" where
  "repos_layer raw =
     (if raw = RawEmpty then Some None
      else case raw_struct raw of None \<Rightarrow> None | Some kvs \<Rightarrow> st_slice ''repos_allow'' kvs)"

fun git_globs :: "cp_grant list \<Rightarrow> string list option" where
  "git_globs [] = Some []"
| "git_globs (g # gs) =
     (if CG_ResourceType g \<noteq> ''git'' then git_globs gs
      else case repos_layer (CG_Ceiling g) of None \<Rightarrow> None
      | Some ceiling \<Rightarrow>
          (case repos_layer (CG_Constraints g) of None \<Rightarrow> None
           | Some cons \<Rightarrow>
               map_option (\<lambda>rest. (case cons of Some l \<Rightarrow> l | None \<Rightarrow> nil_slice ceiling) @ rest) (git_globs gs)))"

text \<open>\<^verbatim>\<open>get\<close>: a fresh cached snapshot, or the control plane's answer to a new request. The answer is \<open>None\<close> when the request
  cannot be built or sent, the status is not 200 or the body cannot be read or decoded.\<close>

definition cp_get :: "duration \<Rightarrow> instant \<Rightarrow> cp_snapshot option \<Rightarrow> string \<Rightarrow> cp_snapshot gomap \<Rightarrow> (cp_error + cp_snapshot) \<times> cp_snapshot gomap" where
  "cp_get ttl now answer agentID entries =
     (case Option.bind (gm_get entries agentID) (\<lambda>s. if now - CN_cachedAt s < ttl then Some s else None) of
        Some s \<Rightarrow> (Inr s, entries)
      | None \<Rightarrow>
          (case answer of None \<Rightarrow> (Inl PolicyUnavailable, entries)
           | Some snap \<Rightarrow>
               if CN_AgentID snap \<noteq> agentID then (Inl PolicyUnavailable, entries)
               else let snap = snap\<lparr>CN_cachedAt := now\<rparr> in (Inr snap, gm_put agentID snap entries)))"

definition GitReposAllow :: "duration \<Rightarrow> instant \<Rightarrow> cp_snapshot option \<Rightarrow> string \<Rightarrow> cp_snapshot gomap \<Rightarrow> (cp_error + string list) \<times> cp_snapshot gomap" where
  "GitReposAllow ttl now answer agentID entries =
     (case cp_get ttl now answer agentID entries of
        (Inl e, entries) \<Rightarrow> (Inl e, entries)
      | (Inr snap, entries) \<Rightarrow> (case git_globs (CN_Grants snap) of None \<Rightarrow> Inl BadLayer | Some gs \<Rightarrow> Inr gs, entries))"

section \<open>Revisions\<close>

definition isFullSHA :: "string \<Rightarrow> bool" where
  "isFullSHA s \<longleftrightarrow> length s = 40 \<and> list_all (\<lambda>c. c \<in> set ''0123456789abcdef'') s"

definition MatchRevision :: "string gomap \<Rightarrow> string \<Rightarrow> string option" where
  "MatchRevision refs revision =
     (if revision = [] then None
      else if gm_get refs revision \<noteq> None then Some revision
      else if gm_get refs (''refs/heads/'' @ revision) \<noteq> None then Some (''refs/heads/'' @ revision)
      else if gm_get refs (''refs/tags/'' @ revision) \<noteq> None then Some (''refs/tags/'' @ revision)
      else if isFullSHA revision then map_option fst (find (\<lambda>(nm, sha). sha = revision) refs)
      else None)"

section \<open>Requests and their parts\<close>

record build_request =
  RQ_Repo :: string
  RQ_Revision :: string
  RQ_Dockerfile :: string
  RQ_Destination :: string
  RQ_BuildArgs :: "string gomap"

record Decision =
  DC_Allowed :: bool
  DC_Code :: string
  DC_Reason :: string
  DC_Repo :: string
  DC_RefMatch :: string

definition deny :: "string \<Rightarrow> string \<Rightarrow> Decision" where
  "deny code reason = \<lparr>DC_Allowed = False, DC_Code = code, DC_Reason = reason, DC_Repo = [], DC_RefMatch = []\<rparr>"

text \<open>The character classes of the package's regular expressions. They are anchored at both ends and contain only ASCII.\<close>

definition lower_alnum :: "char \<Rightarrow> bool" where
  "lower_alnum c \<longleftrightarrow> c \<in> set ''abcdefghijklmnopqrstuvwxyz0123456789''"

definition alnum :: "char \<Rightarrow> bool" where
  "alnum c \<longleftrightarrow> lower_alnum c \<or> c \<in> set ''ABCDEFGHIJKLMNOPQRSTUVWXYZ''"

definition revisionRefRE :: "string \<Rightarrow> bool" where
  "revisionRefRE s \<longleftrightarrow> s \<noteq> [] \<and> alnum (hd s) \<and> list_all (\<lambda>c. alnum c \<or> c \<in> set ''._/-'') (tl s) \<and> length s \<le> 128"

definition fullSHA40 :: "string \<Rightarrow> bool" where
  "fullSHA40 s \<longleftrightarrow> length s = 40 \<and> list_all (\<lambda>c. c \<in> set ''0123456789abcdef'') s"

definition tagRE :: "string \<Rightarrow> bool" where
  "tagRE s \<longleftrightarrow> s \<noteq> [] \<and> lower_alnum (hd s) \<and> list_all (\<lambda>c. lower_alnum c \<or> c \<in> set ''._-'') (tl s) \<and> length s \<le> 128"

definition destRepoRE :: "string \<Rightarrow> bool" where
  "destRepoRE s \<longleftrightarrow> s \<noteq> [] \<and> lower_alnum (hd s) \<and> list_all (\<lambda>c. lower_alnum c \<or> c \<in> set ''._/-'') (tl s)"

definition buildArgKeyRE :: "string \<Rightarrow> bool" where
  "buildArgKeyRE s \<longleftrightarrow> s \<noteq> [] \<and> (alnum (hd s) \<and> hd s \<notin> set ''0123456789'' \<or> hd s = CHR ''_'') \<and>
     list_all (\<lambda>c. alnum c \<or> c = CHR ''_'') (tl s)"

definition Trim_slash :: "string \<Rightarrow> string" where
  "Trim_slash s = TrimRight_slash (dropWhile (\<lambda>c. c = CHR ''/'') s)"

record url_parts =
  U_Scheme :: string
  U_Hostname :: string
  U_HasUser :: bool
  U_Path :: string

definition finish_repo :: "string \<Rightarrow> string \<Rightarrow> string + string" where
  "finish_repo host path0 =
     (let path = TrimSuffix path0 ''.git''
      in if path = [] \<or> CHR ''/'' \<notin> set path then Inl ''repo path must be at least org/repo''
         else if Contains path ''..'' then Inl (''repo path must not contain '' @ [CHR 0x27] @ ''..'' @ [CHR 0x27])
         else Inr (host @ ''/'' @ path))"

definition CanonicalRepo :: "(string \<Rightarrow> url_parts option) \<Rightarrow> string \<Rightarrow> string + string" where
  "CanonicalRepo url_parse raw0 =
     (let raw = TrimSpace raw0
      in if raw = [] then Inl ''empty repo''
         else if \<not> Contains raw ''://'' then
           (case Index raw ''@'' of None \<Rightarrow> Inl ''unrecognized repo form''
            | Some at \<Rightarrow>
                let rest = drop (at + 1) raw
                in case Index rest '':'' of None \<Rightarrow> Inl ''unrecognized repo form''
                   | Some colon \<Rightarrow>
                       if colon = 0 then Inl ''unrecognized repo form''
                       else finish_repo (ToLower (take colon rest)) (Trim_slash (TrimSuffix (drop (colon + 1) rest) ''/'')))
         else case url_parse raw of None \<Rightarrow> Inl ''unparseable repo url''
         | Some u \<Rightarrow>
             if U_Scheme u \<noteq> ''https'' \<and> U_Scheme u \<noteq> ''http'' \<and> U_Scheme u \<noteq> ''ssh'' then Inl (''scheme '' @ Quote (U_Scheme u) @ '' not allowed'')
             else if ToLower (U_Hostname u) = [] then Inl ''missing host''
             else if U_HasUser u \<and> U_Scheme u \<noteq> ''ssh'' then Inl ''credentials in URL are not allowed''
             else finish_repo (ToLower (U_Hostname u)) (Trim_slash (U_Path u)))"

definition splitDestination :: "string \<Rightarrow> string + string \<times> string" where
  "splitDestination dest =
     (if dest = [] \<or> CHR '' '' \<in> set dest \<or> CHR 0x09 \<in> set dest then Inl ''destination must be non-empty without whitespace''
      else case Index dest ''/'' of None \<Rightarrow> Inl ''destination must include registry and repository path''
      | Some firstSlash \<Rightarrow>
          let registry = take firstSlash dest
          in if CHR ''.'' \<notin> set registry \<and> CHR '':'' \<notin> set registry \<and> registry \<noteq> ''localhost'' then Inl ''destination must start with a registry host''
             else case LastIndex_char dest CHR '':'' of None \<Rightarrow> Inl ''destination must include an explicit :tag''
             | Some lastColon \<Rightarrow>
                 if lastColon \<le> firstSlash then Inl ''destination must include an explicit :tag''
                 else if \<not> destRepoRE (take lastColon dest) then Inl ''destination repository path must be lowercase [a-z0-9._/-]''
                 else Inr (take lastColon dest, drop (lastColon + 1) dest))"

fun build_args_error :: "string gomap \<Rightarrow> string option" where
  "build_args_error [] = None"
| "build_args_error ((k, v) # r) =
     (if \<not> buildArgKeyRE k then Some (''invalid build arg key '' @ Quote k)
      else if length v > 512 \<or> CHR 0x0A \<in> set v \<or> CHR 0x0D \<in> set v \<or> CHR 0x00 \<in> set v
      then Some (''build arg '' @ Quote k @ '' value too long or contains newlines'')
      else build_args_error r)"

definition validateBuildArgs :: "string gomap \<Rightarrow> string option" where
  "validateBuildArgs args = (if length args > 20 then Some ''at most 20 build args'' else build_args_error args)"

definition containsDotDot :: "string \<Rightarrow> bool" where
  "containsDotDot p \<longleftrightarrow> list_ex (\<lambda>seg. seg = ''..'') (Split_on CHR ''/'' p)"

definition hostAllowed :: "string \<Rightarrow> string list \<Rightarrow> bool" where
  "hostAllowed host allow \<longleftrightarrow> list_ex (\<lambda>a. EqualFold (TrimSpace a) host) allow"

definition prefixAllowed :: "string \<Rightarrow> string list \<Rightarrow> bool" where
  "prefixAllowed destRepo allow \<longleftrightarrow> list_ex (\<lambda>p. HasPrefix destRepo p) allow"

definition build_starSegment :: "string \<Rightarrow> string \<Rightarrow> bool" where
  "build_starSegment pattern seg =
     (if \<not> Contains pattern ''*'' then pattern = seg
      else let (p0, p1) = star_parts pattern
           in if \<not> HasPrefix seg p0 \<or> \<not> HasSuffix seg p1 then False
              else length p0 + length p1 \<le> length seg)"

definition build_globMatch :: "string \<Rightarrow> string \<Rightarrow> bool" where
  "build_globMatch pattern0 candidate =
     (let pattern = TrimSpace pattern0
      in if pattern = candidate then True
         else if HasSuffix pattern ''**'' then
           (let pre = TrimSuffix pattern ''**''
            in if \<not> HasPrefix candidate pre then False else TrimPrefix candidate pre \<noteq> [])
         else if Contains pattern ''*'' then
           (let psegs = Split_on CHR ''/'' pattern; csegs = Split_on CHR ''/'' candidate
            in if length psegs \<noteq> length csegs then False else list_all2 build_starSegment psegs csegs)
         else False)"

definition anyGlob :: "string list \<Rightarrow> string \<Rightarrow> bool" where
  "anyGlob patterns candidate \<longleftrightarrow> list_ex (\<lambda>p. build_globMatch p candidate) patterns"

section \<open>The chain of checks\<close>

record govern_deps =
  GD_Policy :: bool
  GD_PolicyTTL :: duration
  GD_Prober :: bool
  GD_Active :: bool
  GD_GitHostsAllow :: "string list"
  GD_DestinationsAllow :: "string list"
  GD_MaxConcurrentPerPrincipal :: int
  GD_MaxPerHourPerPrincipal :: int

text \<open>What the collaborators answer while one request is served: the control plane's policy, the refs of a repository by URL,
  and the number of a principal's active builds; \<open>None\<close> is an error.\<close>

record govern_answers =
  GA_Policy :: "cp_snapshot option"
  GA_Refs :: "string \<Rightarrow> string gomap option"
  GA_Active :: "string \<Rightarrow> int option"

record Validator =
  V_submits :: "instant list gomap"
  V_entries :: "cp_snapshot gomap"

definition NewValidator :: Validator where
  "NewValidator = \<lparr>V_submits = [], V_entries = []\<rparr>"

definition allowRate :: "int \<Rightarrow> instant \<Rightarrow> string \<Rightarrow> instant list gomap \<Rightarrow> bool \<times> instant list gomap" where
  "allowRate maxPerHour now who submits =
     (let kept = filter (\<lambda>t. now - t < hour) (case gm_get submits who of None \<Rightarrow> [] | Some ts \<Rightarrow> ts)
      in if int (length kept) \<ge> maxPerHour then (False, gm_put who kept submits)
         else (True, gm_put who (kept @ [now]) submits))"

text \<open>Check 5: the revision is well formed and, when a prober is wired and it is not a commit hash, one of the repository's
  refs. The result is the matched ref.\<close>

definition check_revision :: "govern_deps \<Rightarrow> govern_answers \<Rightarrow> string \<Rightarrow> string \<Rightarrow> Decision + string" where
  "check_revision d a canon revision =
     (if revision = [] \<or> \<not> (revisionRefRE revision \<or> fullSHA40 revision)
      then Inl (deny ''invalid_revision'' ''revision must be a branch/tag name or a full 40-hex commit sha'')
      else if GD_Prober d \<and> \<not> fullSHA40 revision then
        (case GA_Refs a (''https://'' @ canon @ ''.git'') of None \<Rightarrow> Inl (deny ''revision_check_failed'' ''revision existence probe failed'')
         | Some refs \<Rightarrow>
             (case MatchRevision refs revision of
                None \<Rightarrow> Inl (deny ''revision_not_found'' (''revision '' @ Quote revision @ '' not found in '' @ canon))
              | Some ref \<Rightarrow> Inr ref))
      else Inr [])"

text \<open>Check 6: the dockerfile is a relative path without traversal.\<close>

definition bad_dockerfile :: "string \<Rightarrow> bool" where
  "bad_dockerfile f \<longleftrightarrow> f = [] \<or> HasPrefix f ''/'' \<or> containsDotDot f \<or> CHR 0x00 \<in> set f"

text \<open>Check 7: the destination lies under a global and under one of the principal's prefixes and has a fixed tag.\<close>

definition check_destination :: "govern_deps \<Rightarrow> Principal \<Rightarrow> string \<Rightarrow> Decision option" where
  "check_destination d p destination =
     (case splitDestination destination of Inl e \<Rightarrow> Some (deny ''invalid_destination'' e)
      | Inr (destRepo, tag) \<Rightarrow>
          if tag = ''latest'' then Some (deny ''tag_forbidden'' ([CHR 0x27] @ ''latest'' @ [CHR 0x27] @ '' tag is forbidden for agent builds''))
          else if \<not> tagRE tag then Some (deny ''tag_forbidden'' ''tag must match ^[a-z0-9][a-z0-9._-]{0,127}$'')
          else if \<not> prefixAllowed destRepo (GD_DestinationsAllow d) then Some (deny ''destination_not_allowed'' ''destination outside global allowlist'')
          else if P_DestinationsAllow p = [] \<or> \<not> prefixAllowed destRepo (P_DestinationsAllow p)
          then Some (deny ''destination_not_allowed'' ''destination outside principal allowlist'')
          else None)"

text \<open>Checks 2 to 4: the host floor, the principal's repositories and the agent's git grants.\<close>

definition check_repo :: "govern_deps \<Rightarrow> govern_answers \<Rightarrow> instant \<Rightarrow> Principal \<Rightarrow> string \<Rightarrow> cp_snapshot gomap \<Rightarrow> Decision option \<times> cp_snapshot gomap" where
  "check_repo d a now p canon entries =
     (let host = take (the (Index canon ''/'')) canon
      in if \<not> hostAllowed host (GD_GitHostsAllow d)
         then (Some (deny ''git_host_not_allowed'' (''git host '' @ Quote host @ '' is not in git_hosts_allow'')), entries)
         else if P_ReposAllow p = [] then (Some (deny ''repo_not_allowed'' ''principal has no repos_allow''), entries)
         else if \<not> anyGlob (P_ReposAllow p) canon
         then (Some (deny ''repo_not_allowed'' (''repo '' @ Quote canon @ '' not in principal allowlist'')), entries)
         else if \<not> GD_Policy d then (None, entries)
         else if P_AgentID p = [] then (Some (deny ''outside_grant_scope'' ''principal has no agent_id for grant-scope check''), entries)
         else case GitReposAllow (GD_PolicyTTL d) now (GA_Policy a) (P_AgentID p) entries of
                (Inl e, entries) \<Rightarrow>
                  (Some (deny ''policy_unavailable''
                     (if e = PolicyUnavailable then ''control-plane policy unavailable (fail-closed)'' else ''policy check failed'')), entries)
              | (Inr globs, entries) \<Rightarrow>
                  (if \<not> anyGlob globs canon then Some (deny ''outside_grant_scope'' (''repo '' @ Quote canon @ '' outside agent git grant scope'')) else None,
                   entries))"

text \<open>Check 9, first part: the quota on concurrent builds, counted by the runner.\<close>

definition check_concurrent :: "govern_deps \<Rightarrow> govern_answers \<Rightarrow> Principal \<Rightarrow> Decision option" where
  "check_concurrent d a p =
     (if \<not> GD_Active d then None
      else case GA_Active a (P_ID p) of None \<Rightarrow> Some (deny ''quota_concurrent'' ''could not count active builds (fail-closed)'')
      | Some n \<Rightarrow>
          if n \<ge> GD_MaxConcurrentPerPrincipal d
          then Some (deny ''quota_concurrent'' (Itoa n @ '' active builds (max '' @ Itoa (GD_MaxConcurrentPerPrincipal d) @ '')'')) else None)"

definition Validate ::
  "(string \<Rightarrow> url_parts option) \<Rightarrow> govern_deps \<Rightarrow> govern_answers \<Rightarrow> instant \<Rightarrow> Principal option \<Rightarrow> build_request \<Rightarrow> Validator \<Rightarrow> Decision \<times> Validator" where
  "Validate url_parse d a now caller req v =
     (case caller of None \<Rightarrow> (deny ''repo_not_allowed'' ''no principal'', v)
      | Some p \<Rightarrow>
     (case CanonicalRepo url_parse (RQ_Repo req) of Inl e \<Rightarrow> (deny ''invalid_repo'' e, v)
      | Inr canon \<Rightarrow>
     (case check_repo d a now p canon (V_entries v) of
        (Some dec, entries) \<Rightarrow> (dec, v\<lparr>V_entries := entries\<rparr>)
      | (None, entries) \<Rightarrow>
          let v = v\<lparr>V_entries := entries\<rparr>
          in case check_revision d a canon (RQ_Revision req) of Inl dec \<Rightarrow> (dec, v)
             | Inr ref \<Rightarrow>
          if bad_dockerfile (RQ_Dockerfile req)
          then (deny ''invalid_dockerfile'' (''dockerfile must be a relative path without '' @ [CHR 0x27] @ ''..'' @ [CHR 0x27] @ '' segments''), v)
          else case check_destination d p (RQ_Destination req) of Some dec \<Rightarrow> (dec, v)
          | None \<Rightarrow>
          (case validateBuildArgs (RQ_BuildArgs req) of Some e \<Rightarrow> (deny ''invalid_build_args'' e, v)
           | None \<Rightarrow>
          (case check_concurrent d a p of Some dec \<Rightarrow> (dec, v)
           | None \<Rightarrow>
          (case allowRate (GD_MaxPerHourPerPrincipal d) now (P_ID p) (V_submits v) of
             (False, submits) \<Rightarrow>
               (deny ''quota_rate'' (''hourly build quota exceeded (max '' @ Itoa (GD_MaxPerHourPerPrincipal d) @ '')''), v\<lparr>V_submits := submits\<rparr>)
           | (True, submits) \<Rightarrow>
               (\<lparr>DC_Allowed = True, DC_Code = [], DC_Reason = [], DC_Repo = canon, DC_RefMatch = ref\<rparr>, v\<lparr>V_submits := submits\<rparr>)))))))"

end
