(* ===== verification/Build_Runner.thy ===== *)
theory Build_Runner
  imports Prompt_Tokens Go_Json Go_Fmt Glob
begin

text \<open>
  The build service's jobs (\<^verbatim>\<open>build-service/internal/runner/runner.go\<close>): the kaniko job rendered for an accepted build, the
  status read back from a job and its pods, and the digest in a termination message. Of Kubernetes' job and pod types
  the records hold the fields the code writes or reads. The readers of JSON text, timestamps and quantities are parameters.
\<close>

section \<open>Specifications and labels\<close>

record build_spec =
  SP_ID :: string
  SP_Principal :: string
  SP_Repo :: string
  SP_Revision :: string
  SP_Dockerfile :: string
  SP_Destination :: string
  SP_BuildArgs :: "string gomap"

record build_status =
  ST_ID :: string
  ST_Principal :: string
  ST_Repo :: string
  ST_Revision :: string
  ST_Destination :: string
  ST_State :: string
  ST_Digest :: string
  ST_Message :: string
  ST_SubmittedAt :: instant
  ST_FinishedAt :: instant

definition StateQueued :: string where "StateQueued = ''queued''"
definition StateRunning :: string where "StateRunning = ''running''"
definition StateSucceeded :: string where "StateSucceeded = ''succeeded''"
definition StateFailed :: string where "StateFailed = ''failed''"

definition LabelComponent :: string where "LabelComponent = ''skquad.io/component''"
definition LabelBuildID :: string where "LabelBuildID = ''skquad.io/build-id''"
definition LabelPrincipal :: string where "LabelPrincipal = ''skquad.io/principal''"
definition AnnotationRequest :: string where "AnnotationRequest = ''skquad.io/build-request''"
definition AnnotationRevision :: string where "AnnotationRevision = ''skquad.io/revision''"
definition AnnotationSubmitted :: string where "AnnotationSubmitted = ''skquad.io/submitted-at''"

definition BuildIDPattern :: "string \<Rightarrow> bool" where
  "BuildIDPattern s \<longleftrightarrow> 8 \<le> length s \<and> length s \<le> 32 \<and> list_all (\<lambda>c. c \<in> set ''abcdefghijklmnopqrstuvwxyz0123456789'') s"

definition JobName :: "string \<Rightarrow> string" where
  "JobName i = ''build-'' @ i"

definition label_char :: "char \<Rightarrow> bool" where
  "label_char c \<longleftrightarrow> c \<in> set ''abcdefghijklmnopqrstuvwxyz0123456789-._''"

text \<open>The loop over the runes of a label: a rune outside the alphabet becomes one dash, whatever its length.\<close>

function label_runes :: "string \<Rightarrow> string" where
  "label_runes [] = []"
| "label_runes (c # cs) = (if label_char c then c else CHR ''-'') # label_runes (drop (rune_len (map byte_of (c # cs))) (c # cs))"
  by pat_completeness auto
termination
proof (relation "measure length")
  fix c :: char and cs
  have "length (c # cs) - rune_len (map byte_of (c # cs)) < length (c # cs)"
    using rune_len_pos [of "map byte_of (c # cs)"] by (intro diff_less) simp_all
  then show "(drop (rune_len (map byte_of (c # cs))) (c # cs), c # cs) \<in> measure length"
    unfolding in_measure length_drop .
qed simp

definition Trim_label :: "string \<Rightarrow> string" where
  "Trim_label s = rev (dropWhile (\<lambda>c. c \<in> set ''-._'') (rev (dropWhile (\<lambda>c. c \<in> set ''-._'') s)))"

definition sanitizeLabel :: "string \<Rightarrow> string" where
  "sanitizeLabel s =
     (let out = Trim_label (label_runes (ToLower s));
          out = (if length out > 63 then Trim_label (take 63 out) else out)
      in if out = [] then ''unknown'' else out)"

section \<open>The kaniko job\<close>

record job_config =
  CF_Namespace :: string
  CF_KanikoImage :: string
  CF_KanikoServiceAccount :: string
  CF_RegistrySecret :: string
  CF_ActiveDeadlineSeconds :: int
  CF_TTLSecondsAfterFinished :: int
  CF_CPURequest :: string
  CF_MemoryRequest :: string

record kube_job =
  KJ_Name :: string
  KJ_Namespace :: string
  KJ_Labels :: "string gomap"
  KJ_Annotations :: "string gomap"
  KJ_CreationTimestamp :: instant
  KJ_BackoffLimit :: int
  KJ_ActiveDeadlineSeconds :: int
  KJ_TTLSecondsAfterFinished :: int
  KJ_PodLabels :: "string gomap"
  KJ_ServiceAccountName :: string
  KJ_AutomountServiceAccountToken :: bool
  KJ_Image :: string
  KJ_Args :: "string list"
  KJ_Privileged :: bool
  KJ_AllowPrivilegeEscalation :: bool
  KJ_RunAsNonRoot :: bool
  KJ_Requests :: "string gomap"
  KJ_SecretVolume :: string
  KJ_SecretMount :: "string \<times> bool"
  KJ_Conditions :: "(string \<times> string \<times> instant) list"
  KJ_Active :: int

definition int32_of :: "int \<Rightarrow> int" where
  "int32_of n = (n + 2 ^ 31) mod 2 ^ 32 - 2 ^ 31"

definition kaniko_args :: "build_spec \<Rightarrow> string list" where
  "kaniko_args spec =
     [''--git=repo=https://'' @ SP_Repo spec @ ''.git,revision='' @ SP_Revision spec,
      ''--dockerfile='' @ SP_Dockerfile spec,
      ''--destination='' @ SP_Destination spec,
      ''--termination-log-path=/dev/termination-log''] @
     map (\<lambda>(k, v). ''--build-arg='' @ k @ ''='' @ v) (SP_BuildArgs spec)"

definition job_labels :: "build_spec \<Rightarrow> string gomap" where
  "job_labels spec = [(LabelComponent, ''build-service''), (LabelBuildID, SP_ID spec), (LabelPrincipal, sanitizeLabel (SP_Principal spec))]"

definition kanikoDockerMount :: "string \<times> bool" where
  "kanikoDockerMount = (''/kaniko/.docker'', True)"

definition BuildJob :: "(string \<Rightarrow> bool) \<Rightarrow> instant \<Rightarrow> build_spec \<Rightarrow> job_config \<Rightarrow> string + kube_job" where
  "BuildJob quantity now spec cfg =
     (if \<not> BuildIDPattern (SP_ID spec) then Inl (''invalid build id '' @ Quote (SP_ID spec))
      else if CF_CPURequest cfg \<noteq> [] \<and> \<not> quantity (CF_CPURequest cfg)
      then Inl (''job.cpu_request: invalid quantity '' @ Quote (CF_CPURequest cfg))
      else if CF_MemoryRequest cfg \<noteq> [] \<and> \<not> quantity (CF_MemoryRequest cfg)
      then Inl (''job.memory_request: invalid quantity '' @ Quote (CF_MemoryRequest cfg))
      else Inr \<lparr>KJ_Name = JobName (SP_ID spec), KJ_Namespace = CF_Namespace cfg, KJ_Labels = job_labels spec,
        KJ_Annotations =
          [(AnnotationRequest, json_map [(''repo'', SP_Repo spec), (''revision'', SP_Revision spec), (''dockerfile'', SP_Dockerfile spec),
              (''destination'', SP_Destination spec)]),
           (AnnotationRevision, SP_Revision spec), (AnnotationSubmitted, rfc3339 now)],
        KJ_CreationTimestamp = 0, KJ_BackoffLimit = 0, KJ_ActiveDeadlineSeconds = CF_ActiveDeadlineSeconds cfg,
        KJ_TTLSecondsAfterFinished = int32_of (CF_TTLSecondsAfterFinished cfg), KJ_PodLabels = job_labels spec,
        KJ_ServiceAccountName = CF_KanikoServiceAccount cfg, KJ_AutomountServiceAccountToken = False, KJ_Image = CF_KanikoImage cfg,
        KJ_Args = kaniko_args spec, KJ_Privileged = False, KJ_AllowPrivilegeEscalation = False, KJ_RunAsNonRoot = False,
        KJ_Requests = (if CF_CPURequest cfg \<noteq> [] then [(''cpu'', CF_CPURequest cfg)] else []) @
          (if CF_MemoryRequest cfg \<noteq> [] then [(''memory'', CF_MemoryRequest cfg)] else []),
        KJ_SecretVolume = CF_RegistrySecret cfg, KJ_SecretMount = kanikoDockerMount, KJ_Conditions = [], KJ_Active = 0\<rparr>)"

section \<open>Digests\<close>

definition isHex :: "string \<Rightarrow> bool" where
  "isHex s \<longleftrightarrow> s \<noteq> [] \<and> list_all (\<lambda>c. c \<in> set ''0123456789abcdef'') s"

lemma Index_length: "Index s m = Some j \<Longrightarrow> j + length m \<le> length s"
  by (auto dest: Index_Some)

definition digest_marker :: string where "digest_marker = ''sha256:''"

function findDigest :: "string \<Rightarrow> string" where
  "findDigest s =
     (case Index s digest_marker of None \<Rightarrow> []
      | Some j \<Rightarrow>
          let tail = drop (j + length digest_marker) s
          in if length tail \<ge> 64 \<and> isHex (take 64 tail) then digest_marker @ take 64 tail else findDigest tail)"
  by pat_completeness auto
termination
  by (relation "measure length") (auto dest: Index_length simp: digest_marker_def)

declare findDigest.simps [simp del]

definition ExtractDigest :: "(string \<Rightarrow> RawMessage) \<Rightarrow> string \<Rightarrow> string" where
  "ExtractDigest read_json msg0 =
     (let msg = TrimSpace msg0
      in if msg = [] then []
         else let imageID = (case raw_struct (read_json msg) of None \<Rightarrow> [] | Some kvs \<Rightarrow> (case st_string ''imageID'' kvs of None \<Rightarrow> [] | Some i \<Rightarrow> i))
              in if imageID \<noteq> [] \<and> findDigest imageID \<noteq> [] then findDigest imageID else findDigest msg)"

definition firstLine :: "string \<Rightarrow> string" where
  "firstLine s = takeWhile (\<lambda>c. c \<noteq> CHR 0x0A) s"

section \<open>Reading a job back\<close>

definition hasCondition :: "kube_job \<Rightarrow> string \<Rightarrow> string \<Rightarrow> bool" where
  "hasCondition job t want \<longleftrightarrow> list_ex (\<lambda>(ty, status, at). ty = t \<and> status = want) (KJ_Conditions job)"

definition jobComplete :: "kube_job \<Rightarrow> bool" where "jobComplete job \<longleftrightarrow> hasCondition job ''Complete'' ''True''"
definition jobFailed :: "kube_job \<Rightarrow> bool" where "jobFailed job \<longleftrightarrow> hasCondition job ''Failed'' ''True''"

definition conditionTime :: "kube_job \<Rightarrow> string \<Rightarrow> instant" where
  "conditionTime job t = (case find (\<lambda>(ty, status, at). ty = t) (KJ_Conditions job) of None \<Rightarrow> 0 | Some (ty, status, at) \<Rightarrow> at)"

record container_status =
  CT_Name :: string
  CT_Terminated :: "(string \<times> int) option"

definition un_string_map :: "RawMessage \<Rightarrow> string gomap option" where
  "un_string_map raw =
     (case raw of Raw JNull \<Rightarrow> Some []
      | Raw (JObj kvs) \<Rightarrow> if list_all (\<lambda>(k, x). stringy x) kvs then Some (fold (\<lambda>(k, x). gm_put k (elem_string x)) kvs []) else None
      | _ \<Rightarrow> None)"

definition map_value :: "string gomap \<Rightarrow> string \<Rightarrow> string" where
  "map_value m k = (case gm_get m k of None \<Rightarrow> [] | Some v \<Rightarrow> v)"

definition note_container :: "(string \<Rightarrow> RawMessage) \<Rightarrow> container_status \<Rightarrow> build_status \<Rightarrow> build_status" where
  "note_container read_json cs st =
     (case CT_Terminated cs of None \<Rightarrow> st
      | Some (msg, code) \<Rightarrow>
          if CT_Name cs \<noteq> ''kaniko'' then st
          else let d = ExtractDigest read_json msg;
                   st = (if d \<noteq> [] then st\<lparr>ST_Digest := d\<rparr> else st)
               in if code \<noteq> 0 \<and> ST_State st = StateFailed then st\<lparr>ST_Message := firstLine msg\<rparr> else st)"

definition job_state :: "kube_job \<Rightarrow> build_status \<Rightarrow> build_status" where
  "job_state job st =
     (if jobComplete job then st\<lparr>ST_State := StateSucceeded, ST_FinishedAt := conditionTime job ''Complete''\<rparr>
      else if jobFailed job then
        st\<lparr>ST_State := StateFailed, ST_FinishedAt := conditionTime job ''Failed'', ST_Message := ''build job failed (see kaniko pod logs)''\<rparr>
      else if KJ_Active job > 0 then st\<lparr>ST_State := StateRunning\<rparr>
      else st)"

definition StatusFromJob :: "(string \<Rightarrow> RawMessage) \<Rightarrow> (string \<Rightarrow> instant option) \<Rightarrow> kube_job option \<Rightarrow> container_status list list \<Rightarrow> build_status" where
  "StatusFromJob read_json parse_time j pods =
     (let st = \<lparr>ST_ID = [], ST_Principal = [], ST_Repo = [], ST_Revision = [], ST_Destination = [], ST_State = StateQueued, ST_Digest = [],
                ST_Message = [], ST_SubmittedAt = 0, ST_FinishedAt = 0\<rparr>
      in case j of None \<Rightarrow> st
         | Some job \<Rightarrow>
             let st = st\<lparr>ST_ID := map_value (KJ_Labels job) LabelBuildID, ST_Principal := map_value (KJ_Labels job) LabelPrincipal,
                         ST_Revision := map_value (KJ_Annotations job) AnnotationRevision\<rparr>;
                 st = (case un_string_map (read_json (map_value (KJ_Annotations job) AnnotationRequest)) of None \<Rightarrow> st
                       | Some req \<Rightarrow> st\<lparr>ST_Repo := map_value req ''repo'', ST_Destination := map_value req ''destination''\<rparr>);
                 st = st\<lparr>ST_SubmittedAt := (case parse_time (map_value (KJ_Annotations job) AnnotationSubmitted) of Some t \<Rightarrow> t | None \<Rightarrow> KJ_CreationTimestamp job)\<rparr>
             in fold (note_container read_json) (concat pods) (job_state job st))"

section \<open>What the digest is\<close>

text \<open>Two occurrences of the marker do not overlap.\<close>

lemma marker_letters: "k < length digest_marker \<Longrightarrow> digest_marker ! k = digest_marker ! 0 \<Longrightarrow> k = 0"
  by (auto simp: digest_marker_def less_Suc_eq)

lemma marker_apart:
  assumes "l @ digest_marker @ r = l' @ digest_marker @ r'" and "length l < length l'"
  shows "length l + length digest_marker \<le> length l'"
proof (rule ccontr)
  let ?k = "length l' - length l"
  assume "\<not> ?thesis"
  then have k: "0 < ?k" "?k < length digest_marker" using assms(2) by auto
  have "(l @ digest_marker @ r) ! length l' = digest_marker ! ?k" using k(2) assms(2) by (simp add: nth_append)
  moreover have "(l' @ digest_marker @ r') ! length l' = digest_marker ! 0" by (simp add: nth_append digest_marker_def)
  ultimately have "digest_marker ! ?k = digest_marker ! 0" using assms(1) by simp
  then show False using marker_letters k by (metis gr_implies_not0)
qed

definition digest_at :: "string \<Rightarrow> string \<Rightarrow> string \<Rightarrow> bool" where
  "digest_at s l h \<longleftrightarrow> (\<exists>r. s = l @ digest_marker @ h @ r) \<and> length h = 64 \<and> isHex h"

lemma append_tail: "a @ b = c @ d \<Longrightarrow> length a \<le> length c \<Longrightarrow> \<exists>e. c = a @ e \<and> b = e @ d"
  by (force simp: append_eq_append_conv2)

lemma digest_shift:
  assumes s: "s = l0 @ digest_marker @ r0" and least: "\<And>l' r'. s = l' @ digest_marker @ r' \<Longrightarrow> length l0 \<le> length l'"
    and no: "\<not> (length r0 \<ge> 64 \<and> isHex (take 64 r0))"
  shows "digest_at s l h \<longleftrightarrow> (\<exists>l1. l = l0 @ digest_marker @ l1 \<and> digest_at r0 l1 h)"
proof
  assume d: "digest_at s l h"
  then obtain r where r: "s = l @ digest_marker @ h @ r" "length h = 64" "isHex h" by (auto simp: digest_at_def)
  have "length l0 \<noteq> length l"
  proof
    assume "length l0 = length l"
    then have "r0 = h @ r" using s r(1) by simp
    then show False using no r(2,3) by simp
  qed
  then have "length l0 < length l" using least [OF r(1)] by simp
  then have "length l0 + length digest_marker \<le> length l" using marker_apart s r(1) by metis
  moreover have "(l0 @ digest_marker) @ r0 = l @ digest_marker @ h @ r" using s r(1) by simp
  ultimately obtain l1 where l: "l = l0 @ digest_marker @ l1" "r0 = l1 @ digest_marker @ h @ r"
    using append_tail [of "l0 @ digest_marker" r0 l] by auto
  then show "\<exists>l1. l = l0 @ digest_marker @ l1 \<and> digest_at r0 l1 h" using l r(2,3) unfolding digest_at_def by blast
next
  assume "\<exists>l1. l = l0 @ digest_marker @ l1 \<and> digest_at r0 l1 h"
  then show "digest_at s l h" using s unfolding digest_at_def by (metis append_assoc)
qed

lemma findDigest_spec:
  "(findDigest s = [] \<longrightarrow> (\<forall>l h. \<not> digest_at s l h)) \<and>
   (findDigest s \<noteq> [] \<longrightarrow> (\<exists>l h. digest_at s l h \<and> findDigest s = digest_marker @ h \<and> (\<forall>l' h'. digest_at s l' h' \<longrightarrow> length l \<le> length l')))"
proof (induction s rule: findDigest.induct)
  case (1 s)
  show ?case
  proof (cases "Index s digest_marker")
    case None
    then have "\<not> digest_at s l h" for l h using Index_None by (auto simp: digest_at_def)
    then show ?thesis using None by (simp add: findDigest.simps [of s])
  next
    case (Some j)
    from Index_Some [OF Some] obtain l0 r0 where s: "s = l0 @ digest_marker @ r0" "length l0 = j"
      and least: "\<And>l' r'. s = l' @ digest_marker @ r' \<Longrightarrow> j \<le> length l'" by blast
    have tl: "drop (j + length digest_marker) s = r0" using s by simp
    show ?thesis
    proof (cases "length r0 \<ge> 64 \<and> isHex (take 64 r0)")
      case True
      then have f: "findDigest s = digest_marker @ take 64 r0" using Some tl by (simp add: findDigest.simps [of s])
      have "digest_at s l0 (take 64 r0)" unfolding digest_at_def using True s(1) by (auto intro!: exI [of _ "drop 64 r0"])
      moreover have "length l0 \<le> length l'" if "digest_at s l' h'" for l' h' using that least s(2) by (auto simp: digest_at_def)
      moreover have "findDigest s \<noteq> []" using f by (simp add: digest_marker_def)
      ultimately show ?thesis using f by blast
    next
      case False
      then have f: "findDigest s = findDigest r0" using Some tl by (auto simp add: findDigest.simps [of s])
      have IH: "(findDigest r0 = [] \<longrightarrow> (\<forall>l h. \<not> digest_at r0 l h)) \<and>
         (findDigest r0 \<noteq> [] \<longrightarrow> (\<exists>l h. digest_at r0 l h \<and> findDigest r0 = digest_marker @ h \<and> (\<forall>l' h'. digest_at r0 l' h' \<longrightarrow> length l \<le> length l')))"
        using 1 [OF Some] False unfolding tl Let_def by blast
      have shift: "digest_at s l h \<longleftrightarrow> (\<exists>l1. l = l0 @ digest_marker @ l1 \<and> digest_at r0 l1 h)" for l h
        using digest_shift [OF s(1)] least s(2) False by blast
      show ?thesis
      proof (cases "findDigest r0 = []")
        case True
        then show ?thesis using IH f shift by metis
      next
        case nonempty: False
        then obtain l h where d: "digest_at r0 l h" "findDigest r0 = digest_marker @ h" "\<And>l' h'. digest_at r0 l' h' \<Longrightarrow> length l \<le> length l'"
          using IH by blast
        have "digest_at s (l0 @ digest_marker @ l) h" using shift d(1) by blast
        moreover have "length (l0 @ digest_marker @ l) \<le> length l'" if "digest_at s l' h'" for l' h' using that shift d(3) by fastforce
        ultimately show ?thesis using nonempty f d(2) by metis
      qed
    qed
  qed
qed

text \<open>The digest of a build is the first one in the message. The search, which has no bound of its own, ends; it returns
  nothing exactly when no marker is followed by 64 hexadecimal digits, and otherwise the leftmost such digest.\<close>

theorem digest_is_leftmost:
  "(findDigest s = [] \<longleftrightarrow> (\<forall>l h. \<not> digest_at s l h)) \<and>
   (findDigest s \<noteq> [] \<longrightarrow> (\<exists>l h. digest_at s l h \<and> findDigest s = ''sha256:'' @ h \<and> (\<forall>l' h'. digest_at s l' h' \<longrightarrow> length l \<le> length l')))"
  using findDigest_spec [of s] unfolding digest_marker_def by blast

theorem digest_is_leftmost_witness:
  "findDigest (''sha256:beef sha256:'' @ replicate 64 CHR ''a'') \<noteq> [] \<and>
   (\<exists>l h. digest_at (''sha256:beef sha256:'' @ replicate 64 CHR ''a'') l h)"
proof -
  have "findDigest (''sha256:beef sha256:'' @ replicate 64 CHR ''a'') \<noteq> []" by code_simp
  then show ?thesis using digest_is_leftmost [of "''sha256:beef sha256:'' @ replicate 64 CHR ''a''"] by blast
qed

text \<open>The status of a job that was just created reads back the request, with the principal's label in place of its
  identifier.\<close>

lemma status_of_new_job:
  assumes "BuildJob quantity now spec cfg = Inr job"
    and "\<And>kvs. distinct (map fst kvs) \<Longrightarrow> \<exists>m. un_string_map (read_json (json_map kvs)) = Some m \<and> gm_get m = gm_get kvs"
    and "parse_time (rfc3339 now) = Some at"
  shows "StatusFromJob read_json parse_time (Some job) [] =
    \<lparr>ST_ID = SP_ID spec, ST_Principal = sanitizeLabel (SP_Principal spec), ST_Repo = SP_Repo spec, ST_Revision = SP_Revision spec,
     ST_Destination = SP_Destination spec, ST_State = StateQueued, ST_Digest = [], ST_Message = [], ST_SubmittedAt = at, ST_FinishedAt = 0\<rparr>"
proof -
  let ?kvs = "[(''repo'', SP_Repo spec), (''revision'', SP_Revision spec), (''dockerfile'', SP_Dockerfile spec), (''destination'', SP_Destination spec)]"
  obtain m where m: "un_string_map (read_json (json_map ?kvs)) = Some m" "gm_get m = gm_get ?kvs" using assms(2) [of ?kvs] by auto
  then have "map_value m ''repo'' = SP_Repo spec" "map_value m ''destination'' = SP_Destination spec" by (auto simp: map_value_def gm_get_def)
  then show ?thesis using assms(1,3) m(1)
    by (auto simp: BuildJob_def StatusFromJob_def job_state_def jobComplete_def jobFailed_def hasCondition_def job_labels_def map_value_def gm_get_def
        LabelComponent_def LabelBuildID_def LabelPrincipal_def AnnotationRequest_def AnnotationRevision_def AnnotationSubmitted_def split: if_splits)
qed

text \<open>Different principals can have the same label: identifiers that differ only in case, in characters outside the label
  alphabet, or beyond the sixty-third character.\<close>

lemma labels_collide: "sanitizeLabel ''Ops'' = sanitizeLabel ''ops''" "sanitizeLabel ''a/b'' = sanitizeLabel ''a:b''"
  by code_simp+

end
