(* ===== verification/Build_Server.thy ===== *)
theory Build_Server
  imports Build_Govern Build_Runner
begin

text \<open>
  The build service's HTTP API (\<^verbatim>\<open>build-service/internal/httpapi/server.go\<close>) over the governance chain and the runner, and what holds
  over every sequence of requests: which builds reach the runner, and how many. What the runner, the random source
  and the body reader answer while one request is served is in the record \<open>build_world\<close>.
\<close>

section \<open>State and requests\<close>

text \<open>One constructor per call of \<^verbatim>\<open>Audit.Emit\<close>, with the fields of the event: an allowed build with its principal, identifier,
  repository, revision and destination; a refusal with principal, code and destination; a final result with principal,
  identifier, state, digest and destination; an unauthenticated request with its path.\<close>

datatype build_event =
    BuildAllow string string string string string
  | BuildDeny string string string
  | BuildResult string string string string string
  | BuildUnauthenticated string

record build_server =
  BS_Validator :: Validator
  BS_Audit :: "build_event list"
  BS_auditedFinal :: "string list"

definition NewBuildServer :: build_server where
  "NewBuildServer = \<lparr>BS_Validator = NewValidator, BS_Audit = [], BS_auditedFinal = []\<rparr>"

record build_world =
  BW_Now :: instant
  BW_Answers :: govern_answers
  BW_NewID :: "string option"
  BW_Create :: "build_spec \<Rightarrow> bool"
  BW_Get :: "string \<Rightarrow> build_status option"
  BW_List :: "string \<Rightarrow> build_status list option"

datatype build_reply = BRHealth | BRCreated string string string string string | BRStatus build_status | BRList "build_status list" | BRErr int string string

text \<open>The body of a submission: the request, or the reason why it could not be read or decoded.\<close>

datatype build_call = CallHealth | CallSubmit "string + build_request" | CallList | CallGet string

section \<open>The handlers\<close>

definition emit_build :: "build_event \<Rightarrow> build_server \<Rightarrow> build_server" where
  "emit_build e s = s\<lparr>BS_Audit := BS_Audit s @ [e]\<rparr>"

definition statusForCode :: "string \<Rightarrow> int" where
  "statusForCode code =
     (if code \<in> {''invalid_repo'', ''invalid_revision'', ''invalid_dockerfile'', ''invalid_destination'', ''invalid_build_args'', ''revision_not_found''} then 400
      else if code \<in> {''policy_unavailable'', ''revision_check_failed''} then 502
      else 403)"

definition denied :: "Principal option \<Rightarrow> string \<Rightarrow> string \<Rightarrow> string \<Rightarrow> build_server \<Rightarrow> build_reply \<times> build_server" where
  "denied caller destination code reason s =
     (BRErr (statusForCode code) code reason,
      emit_build (BuildDeny (case caller of None \<Rightarrow> ''<anonymous>'' | Some p \<Rightarrow> P_ID p) code destination) s)"

text \<open>The reply, the server and the specification handed to the runner and accepted by it, if any.\<close>

definition handleSubmit ::
  "(string \<Rightarrow> url_parts option) \<Rightarrow> govern_deps \<Rightarrow> build_world \<Rightarrow> Principal \<Rightarrow> string + build_request \<Rightarrow> build_server \<Rightarrow>
   build_reply \<times> build_server \<times> build_spec option" where
  "handleSubmit url_parse d w p body s =
     (case body of Inl reason \<Rightarrow> (case denied (Some p) [] ''invalid_build_args'' reason s of (r, s) \<Rightarrow> (r, s, None))
      | Inr req \<Rightarrow>
          (case Validate url_parse d (BW_Answers w) (BW_Now w) (Some p) req (BS_Validator s) of (dec, v) \<Rightarrow>
           let s = s\<lparr>BS_Validator := v\<rparr>
           in if \<not> DC_Allowed dec then (case denied (Some p) (RQ_Destination req) (DC_Code dec) (DC_Reason dec) s of (r, s) \<Rightarrow> (r, s, None))
              else case BW_NewID w of
                None \<Rightarrow> (case denied (Some p) (RQ_Destination req) ''internal_error'' ''id generation failed'' s of (r, s) \<Rightarrow> (r, s, None))
              | Some i \<Rightarrow>
                  let spec = \<lparr>SP_ID = i, SP_Principal = P_ID p, SP_Repo = DC_Repo dec, SP_Revision = RQ_Revision req,
                        SP_Dockerfile = RQ_Dockerfile req, SP_Destination = RQ_Destination req, SP_BuildArgs = RQ_BuildArgs req\<rparr>
                  in if \<not> BW_Create w spec
                     then (case denied (Some p) (RQ_Destination req) ''runner_error'' ''failed to create build job'' s of (r, s) \<Rightarrow> (r, s, None))
                     else (BRCreated i StateQueued (DC_Repo dec) (RQ_Revision req) (RQ_Destination req),
                           emit_build (BuildAllow (P_ID p) i (DC_Repo dec) (RQ_Revision req) (RQ_Destination req)) s, Some spec)))"

definition authnLabel :: "Principal option \<Rightarrow> string" where
  "authnLabel p = (case p of None \<Rightarrow> [] | Some p \<Rightarrow> sanitizeLabel (P_ID p))"

definition markAudited :: "string \<Rightarrow> build_server \<Rightarrow> bool \<times> build_server" where
  "markAudited i s = (if i \<in> set (BS_auditedFinal s) then (False, s) else (True, s\<lparr>BS_auditedFinal := i # BS_auditedFinal s\<rparr>))"

definition handleGet :: "build_world \<Rightarrow> Principal \<Rightarrow> string \<Rightarrow> build_server \<Rightarrow> build_reply \<times> build_server" where
  "handleGet w p i s =
     (if \<not> BuildIDPattern i then (BRErr 400 ''invalid_build_id'' [], s)
      else case BW_Get w i of None \<Rightarrow> (BRErr 404 ''build_not_found'' [], s)
      | Some st \<Rightarrow>
          if ST_Principal st \<noteq> authnLabel (Some p) then (BRErr 404 ''build_not_found'' [], s)
          else if ST_State st = StateSucceeded \<or> ST_State st = StateFailed then
            (case markAudited i s of (fresh, s) \<Rightarrow>
               (BRStatus st, if fresh then emit_build (BuildResult (P_ID p) i (ST_State st) (ST_Digest st) (ST_Destination st)) s else s))
          else (BRStatus st, s))"

definition handleList :: "build_world \<Rightarrow> Principal \<Rightarrow> build_server \<Rightarrow> build_reply \<times> build_server" where
  "handleList w p s = (case BW_List w (P_ID p) of None \<Rightarrow> (BRErr 502 ''runner_unavailable'' [], s) | Some items \<Rightarrow> (BRList items, s))"

definition bearerToken :: "string \<Rightarrow> string" where
  "bearerToken authorization =
     (if length authorization \<le> 7 \<or> \<not> EqualFold (take 7 authorization) ''Bearer '' then [] else TrimSpace (drop 7 authorization))"

definition call_path :: "build_call \<Rightarrow> string" where
  "call_path c = (case c of CallHealth \<Rightarrow> ''/healthz'' | CallSubmit b \<Rightarrow> ''/api/v1/builds'' | CallList \<Rightarrow> ''/api/v1/builds'' | CallGet i \<Rightarrow> ''/api/v1/builds/'' @ i)"

definition BuildHandler ::
  "(string \<Rightarrow> string) \<Rightarrow> (string \<Rightarrow> url_parts option) \<Rightarrow> Principal list \<Rightarrow> govern_deps \<Rightarrow> build_world \<Rightarrow> string \<Rightarrow> build_call \<Rightarrow> build_server \<Rightarrow>
   build_reply \<times> build_server \<times> build_spec option" where
  "BuildHandler sha url_parse store d w authorization c s =
     (if c = CallHealth then (BRHealth, s, None)
      else case Authenticate sha store (bearerToken authorization) of
        None \<Rightarrow> (BRErr 401 ''unauthenticated'' [], emit_build (BuildUnauthenticated (call_path c)) s, None)
      | Some p \<Rightarrow>
          (case c of
             CallSubmit body \<Rightarrow> handleSubmit url_parse d w p body s
           | CallList \<Rightarrow> (case handleList w p s of (r, s) \<Rightarrow> (r, s, None))
           | CallGet i \<Rightarrow> (case handleGet w p i s of (r, s) \<Rightarrow> (r, s, None))
           | CallHealth \<Rightarrow> (BRHealth, s, None)))"

end
