(* ===== verification/Build_Laws.thy ===== *)
theory Build_Laws
  imports Build_Server
begin

text \<open>
  Laws of the build service: which builds reach the runner over every sequence of requests, and at what rate.
\<close>

section \<open>Runs\<close>

text \<open>The history of a run: the clock, the specifications the runner accepted with the instants of their requests, and what the
  control plane answered at which instant.\<close>

record build_history =
  BH_Now :: instant
  BH_Created :: "(instant \<times> build_spec) list"
  BH_Answers :: "(instant \<times> cp_snapshot) list"

definition note_build :: "build_world \<Rightarrow> build_spec option \<Rightarrow> build_history \<Rightarrow> build_history" where
  "note_build w sp h =
     \<lparr>BH_Now = BW_Now w,
      BH_Created = BH_Created h @ (case sp of None \<Rightarrow> [] | Some spec \<Rightarrow> [(BW_Now w, spec)]),
      BH_Answers = BH_Answers h @ (case GA_Policy (BW_Answers w) of None \<Rightarrow> [] | Some sn \<Rightarrow> [(BW_Now w, sn)])\<rparr>"

inductive build_step ::
  "(string \<Rightarrow> string) \<Rightarrow> (string \<Rightarrow> url_parts option) \<Rightarrow> Principal list \<Rightarrow> govern_deps \<Rightarrow> build_server \<times> build_history \<Rightarrow> build_server \<times> build_history \<Rightarrow> bool"
  for sha url_parse store d where
  request: "BuildHandler sha url_parse store d w authorization c s = (r, s', sp) \<Longrightarrow> BH_Now h \<le> BW_Now w \<Longrightarrow>
     build_step sha url_parse store d (s, h) (s', note_build w sp h)"

definition build_init :: "build_server \<times> build_history \<Rightarrow> bool" where
  "build_init x \<longleftrightarrow> fst x = NewBuildServer \<and> BH_Created (snd x) = [] \<and> BH_Answers (snd x) = []"

section \<open>What an allowed request has passed\<close>

definition in_scope :: "duration \<Rightarrow> (instant \<times> cp_snapshot) list \<Rightarrow> instant \<Rightarrow> string \<Rightarrow> string \<Rightarrow> bool" where
  "in_scope ttl answers t agentID repo \<longleftrightarrow> agentID \<noteq> [] \<and>
     (\<exists>(u, snap) \<in> set answers. CN_AgentID snap = agentID \<and> u \<le> t \<and> (u = t \<or> t - u < ttl) \<and>
        (\<exists>globs. git_globs (CN_Grants snap) = Some globs \<and> anyGlob globs repo))"

definition under_floor :: "string list \<Rightarrow> string \<Rightarrow> bool" where
  "under_floor hosts repo \<longleftrightarrow> (\<exists>host rest. repo = host @ ''/'' @ rest \<and> CHR ''/'' \<notin> set host \<and> hostAllowed host hosts)"

definition pushable :: "govern_deps \<Rightarrow> Principal \<Rightarrow> string \<Rightarrow> bool" where
  "pushable d p destination \<longleftrightarrow> (\<exists>destRepo tag. destination = destRepo @ '':'' @ tag \<and> tagRE tag \<and> tag \<noteq> ''latest'' \<and>
     prefixAllowed destRepo (GD_DestinationsAllow d) \<and> prefixAllowed destRepo (P_DestinationsAllow p))"

definition governed :: "govern_deps \<Rightarrow> (instant \<times> cp_snapshot) list \<Rightarrow> instant \<Rightarrow> Principal \<Rightarrow> build_spec \<Rightarrow> bool" where
  "governed d answers t p spec \<longleftrightarrow>
     under_floor (GD_GitHostsAllow d) (SP_Repo spec) \<and> anyGlob (P_ReposAllow p) (SP_Repo spec) \<and>
     (GD_Policy d \<longrightarrow> in_scope (GD_PolicyTTL d) answers t (P_AgentID p) (SP_Repo spec)) \<and>
     (revisionRefRE (SP_Revision spec) \<or> fullSHA40 (SP_Revision spec)) \<and> \<not> bad_dockerfile (SP_Dockerfile spec) \<and>
     pushable d p (SP_Destination spec) \<and> validateBuildArgs (SP_BuildArgs spec) = None"

lemma finish_repo_slash: "finish_repo host path = Inr canon \<Longrightarrow> \<exists>rest. canon = host @ ''/'' @ rest"
  by (auto simp: finish_repo_def Let_def split: if_splits)

lemma CanonicalRepo_slash: "CanonicalRepo url_parse raw = Inr canon \<Longrightarrow> CHR ''/'' \<in> set canon"
  by (auto simp: CanonicalRepo_def Let_def dest!: finish_repo_slash split: if_splits option.splits)

lemma first_slash:
  assumes "CHR ''/'' \<in> set s"
  shows "\<exists>rest. s = take (the (Index s ''/'')) s @ ''/'' @ rest \<and> CHR ''/'' \<notin> set (take (the (Index s ''/'')) s)"
proof -
  from assms have "Index s ''/'' \<noteq> None" unfolding Index_None by (auto dest: split_list)
  then obtain i where i: "Index s ''/'' = Some i" by blast
  from Index_Some [OF i] obtain l r where s: "s = l @ ''/'' @ r" "length l = i" and least: "\<And>l' r'. s = l' @ ''/'' @ r' \<Longrightarrow> i \<le> length l'" by blast
  have "CHR ''/'' \<notin> set l"
  proof
    assume "CHR ''/'' \<in> set l"
    then obtain a b where "l = a @ CHR ''/'' # b" by (auto dest: split_list)
    then show False using least [of a "b @ ''/'' @ r"] s by simp
  qed
  then show ?thesis using s i by simp
qed

lemma LastIndex_split: "LastIndex_char s c = Some i \<Longrightarrow> s = take i s @ [c] @ drop (i + 1) s"
  by (induction s arbitrary: i) (auto split: option.splits if_splits)

lemma splitDestination_parts: "splitDestination dest = Inr (destRepo, tag) \<Longrightarrow> dest = destRepo @ '':'' @ tag"
  using LastIndex_split [of dest "CHR '':''"] by (auto simp: splitDestination_def Let_def split: if_splits option.splits)

lemma check_destination_ok:
  assumes "check_destination d p dest = None"
  shows "pushable d p dest"
proof -
  obtain destRepo tag where split: "splitDestination dest = Inr (destRepo, tag)"
    and ok: "tag \<noteq> ''latest''" "tagRE tag" "prefixAllowed destRepo (GD_DestinationsAllow d)" "prefixAllowed destRepo (P_DestinationsAllow p)"
    using assms by (auto simp: check_destination_def split: sum.splits if_splits prod.splits)
  then show ?thesis using splitDestination_parts [OF split] unfolding pushable_def by blast
qed

lemma check_revision_ok: "check_revision d a canon revision = Inr ref \<Longrightarrow> revisionRefRE revision \<or> fullSHA40 revision"
  by (auto simp: check_revision_def split: if_splits)

text \<open>The outcome of one validation: what it leaves in the window and the cache, and what an allowed request has passed.\<close>

lemma check_repo_entries:
  "snd (check_repo d a now p canon entries) \<in> {entries, snd (cp_get (GD_PolicyTTL d) now (GA_Policy a) (P_AgentID p) entries)}"
  by (auto simp: check_repo_def GitReposAllow_def Let_def split: sum.split prod.split option.split)

lemma check_repo_passed:
  assumes "check_repo d a now p canon entries = (None, entries')"
  shows "hostAllowed (take (the (Index canon ''/'')) canon) (GD_GitHostsAllow d) \<and> anyGlob (P_ReposAllow p) canon \<and>
    (GD_Policy d \<longrightarrow> P_AgentID p \<noteq> [] \<and> (\<exists>snap globs. fst (cp_get (GD_PolicyTTL d) now (GA_Policy a) (P_AgentID p) entries) = Inr snap \<and>
       git_globs (CN_Grants snap) = Some globs \<and> anyGlob globs canon))"
  using assms by (auto simp: check_repo_def GitReposAllow_def Let_def split: if_splits sum.splits prod.splits option.splits)

lemma deny_denies [simp]: "\<not> DC_Allowed (deny c r)"
  by (simp add: deny_def)

lemma check_repo_denies: "check_repo d a now p canon entries = (Some dec, entries') \<Longrightarrow> \<not> DC_Allowed dec"
  by (auto simp: check_repo_def Let_def split: if_splits sum.splits prod.splits)

lemma check_revision_denies: "check_revision d a canon revision = Inl dec \<Longrightarrow> \<not> DC_Allowed dec"
  by (auto simp: check_revision_def split: if_splits option.splits)

lemma check_destination_denies: "check_destination d p dest = Some dec \<Longrightarrow> \<not> DC_Allowed dec"
  by (auto simp: check_destination_def split: if_splits sum.splits prod.splits)

lemma check_concurrent_denies: "check_concurrent d a p = Some dec \<Longrightarrow> \<not> DC_Allowed dec"
  by (auto simp: check_concurrent_def split: if_splits option.splits)

lemmas check_denies = check_repo_denies check_revision_denies check_destination_denies check_concurrent_denies

lemma Validate_frame:
  assumes "Validate url_parse d a now (Some p) req v = (dec, v')"
  shows "V_entries v' \<in> {V_entries v, snd (cp_get (GD_PolicyTTL d) now (GA_Policy a) (P_AgentID p) (V_entries v))} \<and>
    (V_submits v' = V_submits v \<and> \<not> DC_Allowed dec \<or>
     allowRate (GD_MaxPerHourPerPrincipal d) now (P_ID p) (V_submits v) = (DC_Allowed dec, V_submits v'))"
proof (cases "CanonicalRepo url_parse (RQ_Repo req)")
  case (Inr canon)
  obtain r es where c: "check_repo d a now p canon (V_entries v) = (r, es)" by force
  have "es \<in> {V_entries v, snd (cp_get (GD_PolicyTTL d) now (GA_Policy a) (P_AgentID p) (V_entries v))}"
    using check_repo_entries [of d a now p canon "V_entries v"] c by simp
  then show ?thesis using assms Inr c
    by (auto simp: Validate_def Let_def dest: check_denies split: option.splits sum.splits if_splits prod.splits bool.splits)
qed (use assms in \<open>auto simp: Validate_def\<close>)

lemma Validate_passed:
  assumes "Validate url_parse d a now (Some p) req v = (dec, v')" and "DC_Allowed dec"
  shows "\<exists>canon es. CanonicalRepo url_parse (RQ_Repo req) = Inr canon \<and> DC_Repo dec = canon \<and>
    check_repo d a now p canon (V_entries v) = (None, es) \<and> (\<exists>ref. check_revision d a canon (RQ_Revision req) = Inr ref) \<and>
    \<not> bad_dockerfile (RQ_Dockerfile req) \<and> check_destination d p (RQ_Destination req) = None \<and> validateBuildArgs (RQ_BuildArgs req) = None"
  using assms by (auto simp: Validate_def Let_def dest: check_denies split: option.splits sum.splits if_splits prod.splits bool.splits)

section \<open>Invariants\<close>

definition submits_of :: "Validator \<Rightarrow> string \<Rightarrow> instant list" where
  "submits_of v who = (case gm_get (V_submits v) who of None \<Rightarrow> [] | Some ts \<Rightarrow> ts)"

definition created_by :: "string \<Rightarrow> build_history \<Rightarrow> instant list" where
  "created_by who h = map fst (filter (\<lambda>(t, spec). SP_Principal spec = who) (BH_Created h))"

text \<open>The window remembers at least the accepted builds: at the current and at every later instant, at most as many builds of the
  last hour were created as it holds submissions.\<close>

definition window_ok :: "int \<Rightarrow> Validator \<Rightarrow> build_history \<Rightarrow> string \<Rightarrow> bool" where
  "window_ok maxPerHour v h who \<longleftrightarrow> (\<forall>t \<in> set (created_by who h). t \<le> BH_Now h) \<and>
     (\<forall>n \<ge> BH_Now h. length (filter (\<lambda>t. n - t < hour) (created_by who h)) \<le> length (filter (\<lambda>t. n - t < hour) (submits_of v who))) \<and>
     (\<forall>u. int (length (filter (\<lambda>t. u - hour < t \<and> t \<le> u) (created_by who h))) \<le> max 0 maxPerHour)"

definition policies_ok :: "Validator \<Rightarrow> build_history \<Rightarrow> bool" where
  "policies_ok v h \<longleftrightarrow> (\<forall>agent snap. gm_get (V_entries v) agent = Some snap \<longrightarrow> CN_AgentID snap = agent \<and> CN_cachedAt snap \<le> BH_Now h \<and>
     (\<exists>sn. (CN_cachedAt snap, sn) \<in> set (BH_Answers h) \<and> snap = sn\<lparr>CN_cachedAt := CN_cachedAt snap\<rparr>))"

definition created_ok :: "Principal list \<Rightarrow> govern_deps \<Rightarrow> build_history \<Rightarrow> bool" where
  "created_ok store d h \<longleftrightarrow> (\<forall>(t, spec) \<in> set (BH_Created h). \<exists>p \<in> set store. P_Active p \<and> P_ID p = SP_Principal spec \<and> governed d (BH_Answers h) t p spec)"

definition build_inv :: "Principal list \<Rightarrow> govern_deps \<Rightarrow> build_server \<times> build_history \<Rightarrow> bool" where
  "build_inv store d x \<longleftrightarrow> (case x of (s, h) \<Rightarrow>
     (\<forall>who. window_ok (GD_MaxPerHourPerPrincipal d) (BS_Validator s) h who) \<and> policies_ok (BS_Validator s) h \<and> created_ok store d h)"

lemma Authenticate_active: "Authenticate sha store token = Some p \<Longrightarrow> p \<in> set store \<and> P_Active p"
proof -
  have "fold (\<lambda>p m. if HashToken sha token = P_TokenSHA256 p \<and> P_Active p then Some p else m) ps m = Some p \<Longrightarrow>
    m = Some p \<or> p \<in> set ps \<and> P_Active p" for ps m
    by (induction ps arbitrary: m) (auto split: if_splits)
  then show "Authenticate sha store token = Some p \<Longrightarrow> p \<in> set store \<and> P_Active p"
    by (fastforce simp: Authenticate_def split: if_splits)
qed

text \<open>A request that creates nothing and asks no validator leaves the invariants alone; time may pass.\<close>

lemma window_later:
  assumes "window_ok m v h who" and "V_submits v' = V_submits v" and "BH_Now h \<le> BW_Now w"
  shows "window_ok m v' (note_build w None h) who"
proof -
  have "created_by who (note_build w None h) = created_by who h" by (simp add: created_by_def note_build_def)
  then show ?thesis using assms by (fastforce simp: window_ok_def note_build_def submits_of_def)
qed

lemma gm_get_put: "gm_get (gm_put k v m) j = (if j = k then Some v else gm_get m j)"
  by (simp add: gm_get_def map_of_gm_put)

lemma created_by_note:
  "created_by who (note_build w sp h) = created_by who h @ (case sp of None \<Rightarrow> [] | Some spec \<Rightarrow> if SP_Principal spec = who then [BW_Now w] else [])"
  by (auto simp: created_by_def note_build_def split: option.split)

lemma BH_Now_note [simp]: "BH_Now (note_build w sp h) = BW_Now w"
  by (simp add: note_build_def)

lemma allowRate_rows:
  assumes "allowRate m now me subs = (ok, subs')"
  defines "kept \<equiv> filter (\<lambda>t. now - t < hour) (case gm_get subs me of None \<Rightarrow> [] | Some ts \<Rightarrow> ts)"
  shows "gm_get subs' who = (if who = me then Some (if ok then kept @ [now] else kept) else gm_get subs who)" "ok \<Longrightarrow> int (length kept) < m"
  using assms by (auto simp: allowRate_def Let_def gm_get_put split: if_splits)

lemma filter_length_mono: "(\<And>x. x \<in> set xs \<Longrightarrow> P x \<Longrightarrow> Q x) \<Longrightarrow> length (filter P xs) \<le> length (filter Q xs)"
  by (induction xs) auto

lemma window_rate:
  assumes inv: "window_ok m v h who" and now: "BH_Now h \<le> BW_Now w"
    and rate: "allowRate m (BW_Now w) me (V_submits v) = (ok, V_submits v')"
    and sp: "\<And>spec. sp = Some spec \<Longrightarrow> ok \<and> SP_Principal spec = me"
  shows "window_ok m v' (note_build w sp h) who"
proof (cases "who = me")
  case False
  then have "submits_of v' who = submits_of v who" using allowRate_rows(1) [OF rate] by (simp add: submits_of_def)
  moreover have "created_by who (note_build w sp h) = created_by who h" using sp False by (auto simp: created_by_note split: option.split)
  ultimately show ?thesis using inv now by (fastforce simp: window_ok_def)
next
  case me: True
  let ?now = "BW_Now w"
  let ?cr = "created_by who h" and ?kept = "filter (\<lambda>t. BW_Now w - t < hour) (submits_of v who)"
  have subs: "submits_of v' who = (if ok then ?kept @ [?now] else ?kept)" and room: "ok \<Longrightarrow> int (length ?kept) < m"
    using allowRate_rows [OF rate] me by (auto simp: submits_of_def)
  have past: "\<forall>t \<in> set ?cr. t \<le> ?now" using inv now by (fastforce simp: window_ok_def)
  have later: "filter (\<lambda>t. n - t < hour) ?kept = filter (\<lambda>t. n - t < hour) (submits_of v who)" if "?now \<le> n" for n
    using that by (auto simp: filter_filter intro: filter_cong)
  have held: "length (filter (\<lambda>t. n - t < hour) ?cr) \<le> length (filter (\<lambda>t. n - t < hour) (submits_of v who))" if "?now \<le> n" for n
    using inv now that by (simp add: window_ok_def)
  have bound: "int (length (filter (\<lambda>t. u - hour < t \<and> t \<le> u) ?cr)) \<le> max 0 m" for u using inv by (simp add: window_ok_def)
  show ?thesis
  proof (cases sp)
    case None
    then have "created_by who (note_build w sp h) = ?cr" by (simp add: created_by_note)
    then show ?thesis using past held bound later by (auto simp: window_ok_def subs intro: le_SucI)
  next
    case (Some spec)
    then have ok: ok "created_by who (note_build w sp h) = ?cr @ [?now]" using sp me by (auto simp: created_by_note)
    have "int (length (filter (\<lambda>t. u - hour < t \<and> t \<le> u) (?cr @ [?now]))) \<le> max 0 m" for u
    proof (cases "?now \<le> u")
      case True
      then have "length (filter (\<lambda>t. u - hour < t \<and> t \<le> u) ?cr) \<le> length (filter (\<lambda>t. ?now - t < hour) ?cr)" by (intro filter_length_mono) auto
      also have "\<dots> \<le> length ?kept" using held [of ?now] by simp
      finally show ?thesis using room [OF ok(1)] by auto
    qed (use bound [of u] in auto)
    then show ?thesis using past held later ok by (auto simp: window_ok_def subs)
  qed
qed

lemma answers_note:
  "set (BH_Answers (note_build w sp h)) = set (BH_Answers h) \<union> (case GA_Policy (BW_Answers w) of None \<Rightarrow> {} | Some sn \<Rightarrow> {(BW_Now w, sn)})"
  by (simp add: note_build_def split: option.split)

lemma policies_get:
  assumes "policies_ok v h" and "BH_Now h \<le> BW_Now w"
    and "V_entries v' \<in> {V_entries v, snd (cp_get ttl (BW_Now w) (GA_Policy (BW_Answers w)) agent (V_entries v))}"
  shows "policies_ok v' (note_build w sp h)"
  using assms by (fastforce simp: policies_ok_def answers_note cp_get_def Let_def gm_get_put split: option.splits if_splits bind_splits)

lemma cp_get_sent:
  assumes "policies_ok v h" and "BH_Now h \<le> BW_Now w"
    and "fst (cp_get ttl (BW_Now w) (GA_Policy (BW_Answers w)) agent (V_entries v)) = Inr snap"
  shows "\<exists>(u, sn) \<in> set (BH_Answers (note_build w sp h)). CN_AgentID sn = agent \<and> u \<le> BW_Now w \<and> (u = BW_Now w \<or> BW_Now w - u < ttl) \<and>
    CN_Grants sn = CN_Grants snap"
proof (cases "Option.bind (gm_get (V_entries v) agent) (\<lambda>s. if BW_Now w - CN_cachedAt s < ttl then Some s else None)")
  case None
  then show ?thesis using assms(3) by (auto simp: cp_get_def answers_note Let_def split: option.splits if_splits)
next
  case (Some s)
  then have s: "gm_get (V_entries v) agent = Some s" "BW_Now w - CN_cachedAt s < ttl" "snap = s"
    using assms(3) by (auto simp: cp_get_def bind_eq_Some_conv split: if_splits)
  then obtain sn where sn: "(CN_cachedAt s, sn) \<in> set (BH_Answers h)" "s = sn\<lparr>CN_cachedAt := CN_cachedAt s\<rparr>" "CN_AgentID s = agent" "CN_cachedAt s \<le> BH_Now h"
    using assms(1) unfolding policies_ok_def by blast
  then have "CN_AgentID sn = agent" "CN_Grants sn = CN_Grants s" by (metis cp_snapshot.select_convs cp_snapshot.surjective cp_snapshot.update_convs(3))+
  then show ?thesis using sn s assms(2) by (intro bexI [of _ "(CN_cachedAt s, sn)"]) (auto simp: answers_note)
qed

lemma governed_mono: "governed d as t p spec \<Longrightarrow> set as \<subseteq> set bs \<Longrightarrow> governed d bs t p spec"
  by (fastforce simp: governed_def in_scope_def)

definition spec_of :: "Principal \<Rightarrow> Decision \<Rightarrow> build_request \<Rightarrow> build_spec \<Rightarrow> bool" where
  "spec_of p dec req spec \<longleftrightarrow> DC_Allowed dec \<and> SP_Principal spec = P_ID p \<and> SP_Repo spec = DC_Repo dec \<and> SP_Revision spec = RQ_Revision req \<and>
     SP_Dockerfile spec = RQ_Dockerfile req \<and> SP_Destination spec = RQ_Destination req \<and> SP_BuildArgs spec = RQ_BuildArgs req"

lemma handleSubmit_cases:
  assumes "handleSubmit url_parse d w p body s = (r, s', sp)"
  shows "sp = None \<and> BS_Validator s' = BS_Validator s \<or>
    (\<exists>req dec. Validate url_parse d (BW_Answers w) (BW_Now w) (Some p) req (BS_Validator s) = (dec, BS_Validator s') \<and>
       (\<forall>spec. sp = Some spec \<longrightarrow> spec_of p dec req spec))"
proof (cases body)
  case (Inr req)
  obtain dec v where v: "Validate url_parse d (BW_Answers w) (BW_Now w) (Some p) req (BS_Validator s) = (dec, v)" by force
  moreover have "BS_Validator s' = v" "sp = Some spec \<Longrightarrow> spec_of p dec req spec" for spec
    using assms Inr v by (auto simp: spec_of_def handleSubmit_def denied_def emit_build_def Let_def split: if_splits option.splits)
  ultimately show ?thesis by blast
qed (use assms in \<open>auto simp: handleSubmit_def denied_def emit_build_def\<close>)

lemma BuildHandler_cases:
  assumes "BuildHandler sha url_parse store d w authorization c s = (r, s', sp)"
  shows "sp = None \<and> BS_Validator s' = BS_Validator s \<or>
    (\<exists>p body. p \<in> set store \<and> P_Active p \<and> handleSubmit url_parse d w p body s = (r, s', sp))"
  using assms Authenticate_active
  by (fastforce simp: BuildHandler_def handleList_def handleGet_def markAudited_def emit_build_def split: if_splits option.splits build_call.splits prod.splits)

text \<open>What the runner accepted was governed.\<close>

lemma accepted_governed:
  assumes "Validate url_parse d (BW_Answers w) (BW_Now w) (Some p) req v = (dec, v')"
    and "policies_ok v h" and "BH_Now h \<le> BW_Now w"
    and "spec_of p dec req spec"
  shows "governed d (BH_Answers (note_build w sp h)) (BW_Now w) p spec"
proof -
  from Validate_passed [OF assms(1)] assms(4) obtain canon es ref where c: "CanonicalRepo url_parse (RQ_Repo req) = Inr canon" "DC_Repo dec = canon"
    "check_repo d (BW_Answers w) (BW_Now w) p canon (V_entries v) = (None, es)" "check_revision d (BW_Answers w) canon (RQ_Revision req) = Inr ref"
    "\<not> bad_dockerfile (RQ_Dockerfile req)" "check_destination d p (RQ_Destination req) = None" "validateBuildArgs (RQ_BuildArgs req) = None" by (auto simp: spec_of_def)
  note repo = check_repo_passed [OF c(3)]
  have "under_floor (GD_GitHostsAllow d) canon"
    using first_slash [OF CanonicalRepo_slash [OF c(1)]] repo unfolding under_floor_def by blast
  moreover have "in_scope (GD_PolicyTTL d) (BH_Answers (note_build w sp h)) (BW_Now w) (P_AgentID p) canon" if pol: "GD_Policy d"
  proof -
    obtain snap globs where g: "P_AgentID p \<noteq> []" "git_globs (CN_Grants snap) = Some globs" "anyGlob globs canon"
      "fst (cp_get (GD_PolicyTTL d) (BW_Now w) (GA_Policy (BW_Answers w)) (P_AgentID p) (V_entries v)) = Inr snap"
      using repo pol by blast
    from cp_get_sent [OF assms(2,3) g(4), of sp] g(1-3) show ?thesis unfolding in_scope_def by force
  qed
  ultimately show ?thesis
    using repo c check_revision_ok [OF c(4)] check_destination_ok [OF c(6)] assms(4) by (simp add: governed_def spec_of_def)
qed

lemma BuildHandler_validates:
  assumes "BuildHandler sha url_parse store d w authorization c s = (r, s', sp)"
  shows "sp = None \<and> BS_Validator s' = BS_Validator s \<or>
    (\<exists>p req dec. p \<in> set store \<and> P_Active p \<and> Validate url_parse d (BW_Answers w) (BW_Now w) (Some p) req (BS_Validator s) = (dec, BS_Validator s') \<and>
       (\<forall>spec. sp = Some spec \<longrightarrow> spec_of p dec req spec))"
  using BuildHandler_cases [OF assms]
proof (elim disjE exE conjE)
  fix p body
  assume "p \<in> set store" "P_Active p" "handleSubmit url_parse d w p body s = (r, s', sp)"
  then show ?thesis using handleSubmit_cases [of url_parse d w p body s r s' sp] by blast
qed blast

lemma created_ok_note:
  assumes "created_ok store d h"
    and "\<And>spec. sp = Some spec \<Longrightarrow> \<exists>p \<in> set store. P_Active p \<and> P_ID p = SP_Principal spec \<and> governed d (BH_Answers (note_build w sp h)) (BW_Now w) p spec"
  shows "created_ok store d (note_build w sp h)"
  unfolding created_ok_def
proof (safe)
  fix t spec
  assume "(t, spec) \<in> set (BH_Created (note_build w sp h))"
  then consider "(t, spec) \<in> set (BH_Created h)" | "t = BW_Now w" "sp = Some spec" by (auto simp: note_build_def split: option.splits)
  then show "\<exists>p \<in> set store. P_Active p \<and> P_ID p = SP_Principal spec \<and> governed d (BH_Answers (note_build w sp h)) t p spec"
  proof cases
    case 1
    then show ?thesis using assms(1) governed_mono [of d "BH_Answers h" t _ spec "BH_Answers (note_build w sp h)"]
      unfolding created_ok_def answers_note by fastforce
  qed (use assms(2) in blast)
qed

lemma build_step_inv:
  assumes "build_inv store d x" and "build_step sha url_parse store d x y"
  shows "build_inv store d y"
  using assms(2)
proof (cases rule: build_step.cases)
  case 1: (request w authorization c s r s' sp h)
  have inv: "window_ok (GD_MaxPerHourPerPrincipal d) (BS_Validator s) h who" "policies_ok (BS_Validator s) h" "created_ok store d h" for who
    using assms(1) 1(1) by (auto simp: build_inv_def)
  from BuildHandler_validates [OF 1(3)] consider "sp = None" "BS_Validator s' = BS_Validator s"
    | p req dec where "p \<in> set store" "P_Active p" "Validate url_parse d (BW_Answers w) (BW_Now w) (Some p) req (BS_Validator s) = (dec, BS_Validator s')"
      "\<forall>spec. sp = Some spec \<longrightarrow> spec_of p dec req spec" by blast
  then show ?thesis
  proof cases
    case a: 1
    then show ?thesis using 1 inv window_later [OF inv(1), of "BS_Validator s'" w] policies_get [OF inv(2), of w "BS_Validator s'" undefined undefined None]
      created_ok_note [OF inv(3), of None w] by (auto simp: build_inv_def)
  next
    case b: 2
    note fr = Validate_frame [OF b(3)]
    have win: "window_ok (GD_MaxPerHourPerPrincipal d) (BS_Validator s') (note_build w sp h) who" for who
    proof (cases sp)
      case None
      then show ?thesis using fr window_later [OF inv(1) _ 1(4)] window_rate [OF inv(1) 1(4)] by (metis option.distinct(1))
    next
      case (Some spec)
      then have "DC_Allowed dec" "SP_Principal spec = P_ID p" using b(4) by (auto simp: spec_of_def)
      then show ?thesis using fr Some window_rate [OF inv(1) 1(4), of "P_ID p" "DC_Allowed dec" "BS_Validator s'" sp who] by auto
    qed
    have "governed d (BH_Answers (note_build w sp h)) (BW_Now w) p spec" if "sp = Some spec" for spec
      using accepted_governed [OF b(3) inv(2) 1(4)] b(4) that by blast
    then have "created_ok store d (note_build w sp h)" using b(1,2,4) by (intro created_ok_note [OF inv(3)]) (auto simp: spec_of_def)
    moreover have "policies_ok (BS_Validator s') (note_build w sp h)" using policies_get [OF inv(2) 1(4)] fr by blast
    ultimately show ?thesis using win 1(2) by (auto simp: build_inv_def)
  qed
qed

lemma build_init_inv: "build_init x \<Longrightarrow> build_inv store d x"
  by (auto simp: build_init_def build_inv_def window_ok_def policies_ok_def created_ok_def created_by_def NewBuildServer_def NewValidator_def gm_get_def)

interpretation build_machine: state_machine build_init "build_step sha url_parse store d" "build_inv store d" for sha url_parse store d
  by unfold_locales (blast intro: build_init_inv build_step_inv)+

section \<open>Properties\<close>


text \<open>C16. The hourly quota holds. Over every sequence of requests with a clock that does not go back, in every window of one hour a
  principal gets at most the configured number of builds accepted.\<close>

theorem build_rate_bounded:
  assumes "build_init x" and "(build_step sha url_parse store d)\<^sup>*\<^sup>* x (s, h)"
  shows "int (length (filter (\<lambda>(t, spec). SP_Principal spec = who \<and> u - hour < t \<and> t \<le> u) (BH_Created h))) \<le> max 0 (GD_MaxPerHourPerPrincipal d)"
proof -
  have "length (filter (\<lambda>(t, spec). SP_Principal spec = who \<and> u - hour < t \<and> t \<le> u) xs) =
    length (filter (\<lambda>t. u - hour < t \<and> t \<le> u) (map fst (filter (\<lambda>(t, spec). SP_Principal spec = who) xs)))" for xs :: "(instant \<times> build_spec) list"
    by (induction xs) auto
  then show ?thesis using build_machine.reachable_inv [OF assms] by (simp add: build_inv_def window_ok_def created_by_def)
qed

section \<open>A run\<close>

definition demo_sha :: "string \<Rightarrow> string" where "demo_sha x = x"
definition demo_url :: "string \<Rightarrow> url_parts option" where
  "demo_url r = (if r = ''https://git.io/org/app,revision=v0'' then Some \<lparr>U_Scheme = ''https'', U_Hostname = ''git.io'', U_HasUser = False, U_Path = ''/org/app,revision=v0''\<rparr> else None)"

definition demo_builder :: Principal where
  "demo_builder = \<lparr>P_ID = ''ops'', P_AgentID = ''a'', P_TokenSHA256 = HashToken demo_sha ''tok'', P_ReposAllow = [''git.io/org/**''],
     P_DestinationsAllow = [''reg.io/ops/''], P_Active = True\<rparr>"

definition demo_build_deps :: govern_deps where
  "demo_build_deps = \<lparr>GD_Policy = False, GD_PolicyTTL = 0, GD_Prober = False, GD_Active = False, GD_GitHostsAllow = [''git.io''], GD_DestinationsAllow = [''reg.io/''],
     GD_MaxConcurrentPerPrincipal = 2, GD_MaxPerHourPerPrincipal = 1\<rparr>"

definition demo_build_world :: "instant \<Rightarrow> build_world" where
  "demo_build_world now = \<lparr>BW_Now = now, BW_Answers = \<lparr>GA_Policy = None, GA_Refs = (\<lambda>_. None), GA_Active = (\<lambda>_. None)\<rparr>, BW_NewID = Some ''abcd1234'',
     BW_Create = (\<lambda>_. True), BW_Get = (\<lambda>_. None), BW_List = (\<lambda>_. None)\<rparr>"

definition demo_build :: "string \<Rightarrow> build_request" where
  "demo_build repo = \<lparr>RQ_Repo = repo, RQ_Revision = ''main'', RQ_Dockerfile = ''Dockerfile'', RQ_Destination = ''reg.io/ops/app:v1'', RQ_BuildArgs = []\<rparr>"

definition demo_submit :: "string \<Rightarrow> build_reply \<times> build_server \<times> build_spec option" where
  "demo_submit repo = BuildHandler demo_sha demo_url [demo_builder] demo_build_deps (demo_build_world 5) ''Bearer tok'' (CallSubmit (Inr (demo_build repo))) NewBuildServer"

definition demo_spec :: build_spec where
  "demo_spec = \<lparr>SP_ID = ''abcd1234'', SP_Principal = ''ops'', SP_Repo = ''git.io/org/app'', SP_Revision = ''main'', SP_Dockerfile = ''Dockerfile'',
     SP_Destination = ''reg.io/ops/app:v1'', SP_BuildArgs = []\<rparr>"

definition demo_start :: build_history where "demo_start = \<lparr>BH_Now = 0, BH_Created = [], BH_Answers = []\<rparr>"

lemma demo_spec_created: "snd (snd (demo_submit ''git@git.io:org/app.git'')) = Some demo_spec"
  by code_simp

lemma demo_build_run:
  "(build_step demo_sha demo_url [demo_builder] demo_build_deps)\<^sup>*\<^sup>* (NewBuildServer, demo_start)
     (fst (snd (demo_submit ''git@git.io:org/app.git'')), note_build (demo_build_world 5) (Some demo_spec) demo_start)"
proof -
  have "BuildHandler demo_sha demo_url [demo_builder] demo_build_deps (demo_build_world 5) ''Bearer tok'' (CallSubmit (Inr (demo_build ''git@git.io:org/app.git'')))
      NewBuildServer = (fst (demo_submit ''git@git.io:org/app.git''), fst (snd (demo_submit ''git@git.io:org/app.git'')), Some demo_spec)"
    using demo_spec_created unfolding demo_submit_def by (metis prod.collapse)
  then show ?thesis by (intro r_into_rtranclp build_step.request) (auto simp: demo_start_def demo_build_world_def)
qed

lemma demo_build_init: "build_init (NewBuildServer, demo_start)"
  by (simp add: build_init_def demo_start_def)


theorem build_rate_bounded_witness:
  "length (filter (\<lambda>(t, spec). SP_Principal spec = ''ops'' \<and> 5 - hour < t \<and> t \<le> 5) (BH_Created (note_build (demo_build_world 5) (Some demo_spec) demo_start))) \<le> 1"
  using build_rate_bounded [OF demo_build_init demo_build_run, of "''ops''" 5] by (simp add: demo_build_deps_def)

section \<open>Where the governance falls short\<close>

text \<open>The check for dots looks at the path only. In the scp-like form everything before the colon is the host, slashes included, so the
  dots can stand there, and the canonical name leaves the directory the allowlist names.\<close>

lemma scp_host_hides_dots:
  "CanonicalRepo demo_url ''x@git.io/org/..:evil/app'' = Inr ''git.io/org/../evil/app''"
  "map_option SP_Repo (snd (snd (demo_submit ''x@git.io/org/..:evil/app''))) = Some ''git.io/org/../evil/app''"
  by code_simp+

text \<open>The repository path may hold commas, which separate the options of the git flag of the job.\<close>

lemma repo_path_adds_git_options:
  "map_option (hd \<circ> kaniko_args) (snd (snd (demo_submit ''https://git.io/org/app,revision=v0''))) =
     Some ''--git=repo=https://git.io/org/app,revision=v0.git,revision=main''"
  by code_simp

lemma destRepoRE_colon:
  assumes "destRepoRE s"
  shows "CHR '':'' \<notin> set s"
proof
  have no: "\<not> lower_alnum CHR '':''" "CHR '':'' \<notin> set ''._/-''" by (simp_all add: lower_alnum_def)
  have s: "s \<noteq> []" "lower_alnum (hd s)" "\<And>c. c \<in> set (tl s) \<Longrightarrow> lower_alnum c \<or> c \<in> set ''._/-''"
    using assms unfolding destRepoRE_def list_all_iff by blast+
  assume "CHR '':'' \<in> set s"
  then have "CHR '':'' = hd s \<or> CHR '':'' \<in> set (tl s)" using s(1) by (cases s) auto
  then show False using no s(2,3) by metis
qed

lemma splitDestination_slash:
  "splitDestination dest = Inr (destRepo, tag) \<Longrightarrow> \<exists>i j. Index dest ''/'' = Some i \<and> i < j \<and> destRepo = take j dest \<and> destRepoRE destRepo"
  by (auto simp: splitDestination_def Let_def split: if_splits option.splits intro: not_le_imp_less)

text \<open>No destination names a registry with a port: the colon makes it one, and the pattern of the repository rejects it.\<close>

lemma registry_port_rejected:
  assumes "CHR ''/'' \<notin> set registry"
  shows "splitDestination (registry @ '':'' @ port @ ''/'' @ rest) \<noteq> Inr (destRepo, tag)"
proof
  let ?d = "registry @ '':'' @ port @ ''/'' @ rest"
  assume e: "splitDestination ?d = Inr (destRepo, tag)"
  then obtain i j where i: "Index ?d ''/'' = Some i" "i < j" "destRepo = take j ?d" "destRepoRE destRepo"
    using splitDestination_slash by blast
  from Index_Some [OF i(1)] obtain l r where l: "?d = l @ ''/'' @ r" "length l = i" by blast
  have "\<not> length l \<le> length registry"
  proof
    assume "length l \<le> length registry"
    then have "?d ! length l \<noteq> CHR ''/''" using assms by (cases "length l < length registry") (auto simp: nth_append dest: nth_mem)
    moreover have "?d ! length l = CHR ''/''" unfolding l(1) by simp
    ultimately show False by simp
  qed
  then have "CHR '':'' \<in> set destRepo" using i(2,3) l(2) by (cases "j - length registry") auto
  then show False using i(4) destRepoRE_colon by blast
qed

text \<open>Two principals whose identifiers have the same label see each other's builds.\<close>

lemma label_twin_reads_build:
  "fst (handleGet ((demo_build_world 5)\<lparr>BW_Get := (\<lambda>_. Some (StatusFromJob (\<lambda>_. RawInvalid) (\<lambda>_. None)
      (case BuildJob (\<lambda>_. True) 5 demo_spec \<lparr>CF_Namespace = ''b'', CF_KanikoImage = [], CF_KanikoServiceAccount = [], CF_RegistrySecret = [],
         CF_ActiveDeadlineSeconds = 1, CF_TTLSecondsAfterFinished = 1, CF_CPURequest = [], CF_MemoryRequest = []\<rparr> of Inr j \<Rightarrow> Some j | Inl _ \<Rightarrow> None) []))\<rparr>)
     (demo_builder\<lparr>P_ID := ''OPS''\<rparr>) ''abcd1234'' NewBuildServer) =
   BRStatus \<lparr>ST_ID = ''abcd1234'', ST_Principal = ''ops'', ST_Repo = [], ST_Revision = ''main'', ST_Destination = [], ST_State = StateQueued, ST_Digest = [],
     ST_Message = [], ST_SubmittedAt = 0, ST_FinishedAt = 0\<rparr>"
  by code_simp

end
