(* ===== verification/Spec2Isabelle.thy ===== *)
theory Spec2Isabelle
  imports Task_Laws Message_Laws Outbox Task_Deps Names Board_Policy Squad_Laws Egress_Rest
    Registry_Laws Inbox_Laws Confirm_Api Gateway_Compose Grant_Laws Schedule_Laws
    Build_Laws Prompt_Compose
begin

text \<open>
  Verification of skquad: the Go services that let teams of language-model agents work on a task board, talk to
  each other and reach the outside world only through governed tools.

  \<^bold>\<open>The program.\<close> The control plane (\<^verbatim>\<open>src/control-plane\<close>) keeps users, squads, agents, a task board per squad, the
  agents' message queues, grants on registered resources, and an outbox of changes for Kubernetes. Its HTTP handlers
  call one \<^verbatim>\<open>Store\<close> interface; \<^verbatim>\<open>storage/memory.go\<close> is the executable implementation of it. Workers poll the store
  for tasks and messages, an operator applies the outbox, and every outbound call of an agent goes through the tool
  gateway (\<^verbatim>\<open>src/tool-gateway\<close>), which folds the resource's policy ceiling with the grant's constraints and dials through
  the SSRF guard of \<^verbatim>\<open>src/shared/netguard\<close>. The control plane checks, when a grant is made, that its constraints stay
  within the ceiling (\<^verbatim>\<open>egresspolicy\<close>).

  \<^bold>\<open>How the code is modelled.\<close> A struct is a record with its fields prefixed, a string enum a constant string, an error a
  value of a sum or option type. A Go map is an association list with at most one entry per key (\<open>gomap\<close>); a loop over a
  map follows the order of the list, so a theorem about an unordered loop quantifies over all stores. Locked methods
  are atomic: a store method is a function from the store to a result and a new store. Clocks, generated identifiers and
  resolvers are arguments. Integers that the code bounds or adds are unbounded integers with the JSON reader's 64-bit
  test written out; addresses are byte words. Strings are byte strings, and the case and space functions act on ASCII.

  \<^bold>\<open>Theories.\<close>

  \<^item> \<^verbatim>\<open>Go_Prelude\<close>, \<^verbatim>\<open>Go_Strings\<close>, \<^verbatim>\<open>Go_Json\<close>, \<^verbatim>\<open>Go_Net\<close>: the Go language and library as the code uses it: maps (with the locale
    \<open>keyed_store\<close>), sorting, strings, \<^verbatim>\<open>encoding/json\<close> decoding into maps and structs, IP addresses and CIDR blocks.
  \<^item> \<^verbatim>\<open>Domain_Types\<close> (\<^verbatim>\<open>domain/types.go\<close>), \<^verbatim>\<open>Prompt_Tokens\<close> (\<^verbatim>\<open>promptcompo/tokens.go\<close>), \<^verbatim>\<open>Store_State\<close> (the \<^verbatim>\<open>MemoryStore\<close> record, audit and
    prompt-revision draining, outbox enqueueing).
  \<^item> \<^verbatim>\<open>Task_Store\<close> and \<^verbatim>\<open>Task_Laws\<close>: task rows and fenced executions. One live execution per agent over every run in which
    heartbeats come on unexpired leases (and the run that breaks it otherwise), what a claim hands out and when it succeeds,
    fencing, finality of completion (over runs with any heartbeats), the reopen cap, exactly which attempts and tasks the reaper
    touches, reordering, task numbers.
  \<^item> \<^verbatim>\<open>Task_Deps\<close> (\<^verbatim>\<open>memory_task_dependencies.go\<close>): the bounded breadth-first cycle check against reachability, acyclicity up to
    its bound, and the cycle it lets in beyond it.
  \<^item> \<^verbatim>\<open>Message_Store\<close> and \<^verbatim>\<open>Message_Laws\<close>: the message queue. Final states, with the one exception the delegation handler
    makes through \<open>UpdateMessagePayload\<close>, exact retry counts, delivery, replay, the consult-timeout sweep, inbox counters.
  \<^item> \<^verbatim>\<open>Outbox\<close>: leases on Kubernetes events are ordered batches and exclusive while they last.
  \<^item> \<^verbatim>\<open>Squad_Store\<close> and \<^verbatim>\<open>Squad_Laws\<close>: users, squads, agents, identities. Name uniqueness and resolving references over every
    run, deletion cascades, credential rotation.
  \<^item> \<^verbatim>\<open>Board_Policy\<close> (\<^verbatim>\<open>domain/board_policy.go\<close>) and \<^verbatim>\<open>Names\<close> (\<^verbatim>\<open>k8sname\<close>, \<^verbatim>\<open>httpapi/naming.go\<close>): policy resolution; legal, unique
    and free Kubernetes names, and termination of the namespace search with a name or after all its candidates.
  \<^item> \<^verbatim>\<open>Glob\<close>: the four pattern matchers of the egress plane (an iterative loop, a coverage check, a split-and-scan, a compiled
    regular expression with its cache) against one reference semantics.
  \<^item> \<^verbatim>\<open>Net_Guard\<close> (\<^verbatim>\<open>shared/netguard\<close>): the address floor as numeric ranges; a dial reaches only a checked literal address.
  \<^item> \<^verbatim>\<open>Egress_Shape\<close>, \<^verbatim>\<open>Egress_Grant\<close> (\<^verbatim>\<open>egresspolicy\<close>) and \<^verbatim>\<open>Gateway_Policy\<close> (\<^verbatim>\<open>tool-gateway/internal/drivers\<close>): both sides of the
    grant contract; \<^verbatim>\<open>Egress_Laws\<close> and \<^verbatim>\<open>Egress_Rest\<close> relate them through the locale \<open>pattern_coverage\<close>, interpreted on the MCP,
    SSH and REST matchers: an accepted grant refines the resource's own policy, for MCP and SSH under the condition that
    no JSON key is repeated and no allow pattern has surrounding white space. Where the code does not keep the contract (patterns
    with white space, an empty SSH command list, wildcard paths) the escalation is a theorem as well.

  \<^item> \<^verbatim>\<open>Registry_Store\<close> and \<^verbatim>\<open>Registry_Laws\<close>: access grants, providers, models and model grants, tool resources, agent permissions,
    the audit log. A consistent model catalogue and model grants over every run, exact model grants, agreement of the permission views.
  \<^item> \<^verbatim>\<open>Inbox_Store\<close> and \<^verbatim>\<open>Inbox_Laws\<close>: inbox, notifications, prompt templates, uploads, drift reports. Pages cover the inbox, an
    unread notification survives every sweep.
  \<^item> \<^verbatim>\<open>Go_Fmt\<close> (RFC 3339 times, JSON text), \<^verbatim>\<open>Confirm_Store\<close> (\<^verbatim>\<open>memory_confirmations.go\<close>, \<^verbatim>\<open>memory_grant_requests.go\<close>),
    \<^verbatim>\<open>Confirm_Flow\<close> and \<^verbatim>\<open>Confirm_Api\<close> (\<^verbatim>\<open>httpapi/confirmations.go\<close>): confirmations of gated calls. \<^verbatim>\<open>Confirm_Laws\<close> runs the workflow as
    a step relation with a history of asks and approvals: rows only advance, a release is justified by a decision, a
    revocation takes effect at once, and two overlapping consumes of one approval are both released.
  \<^item> \<^verbatim>\<open>Gateway_Auth\<close> (\<^verbatim>\<open>policy/client.go\<close>, \<^verbatim>\<open>auth/agent.go\<close>), \<^verbatim>\<open>Gateway_Gate\<close> (\<^verbatim>\<open>policy/confirmation.go\<close>, \<^verbatim>\<open>confirmation/client.go\<close>,
    \<^verbatim>\<open>httpapi/confirmationgate.go\<close>) and \<^verbatim>\<open>Gateway_Serve\<close> (\<^verbatim>\<open>httpapi/server.go\<close>, \<^verbatim>\<open>sshroute.go\<close>, \<^verbatim>\<open>mcpenumerate.go\<close>): every route of the tool
    gateway, from the kill switch to the audit event. \<^verbatim>\<open>Gateway_Laws\<close>: over lookups one after the other the policy cache serves the last
    snapshot sent, vouched for within the TTL; the argument hash binds every field, git credentials survive the Basic scheme.
    \<^verbatim>\<open>Gateway_Serve_Laws\<close>: what stands behind a driver call on each route (echo needs no grant, web names no resource, ssh leaves
    the confirmation to its driver, the others are granted and, where asked for, confirmed), and that the audit event and the
    usage report of every request follow from what the driver answered. \<^verbatim>\<open>Gateway_Compose\<close> connects
    the gate's client to the control plane's workflow: a gated call was approved there.
  \<^item> \<^verbatim>\<open>Grant_Lint\<close> (\<^verbatim>\<open>grantlint\<close>) and \<^verbatim>\<open>Grant_Flow\<close> (\<^verbatim>\<open>httpapi/grant_requests.go\<close>): the linter and the approval of agent permissions, with
    \<^verbatim>\<open>Grant_Laws\<close> on the effect of every decision and the order of the approvals (the owner's stage is open to platform admins).
  \<^item> \<^verbatim>\<open>Builtin_Tools\<close> (\<^verbatim>\<open>domain/builtin_tools.go\<close>, \<^verbatim>\<open>storage/builtin_tools.go\<close>, \<^verbatim>\<open>httpapi/builtin_tools_handlers.go\<close>): policies of the platform's
    built-in tools; over every sequence of patches the stored policies are ones the validator accepts.
  \<^item> \<^verbatim>\<open>Budget_Blocks\<close> (\<^verbatim>\<open>domain/budget_enforcement.go\<close> and the memory part of \<^verbatim>\<open>storage/budget_enforcement.go\<close>): the block flags refine
    a set of blocking sources per user and month; each notification marker is claimed once.
  \<^item> \<^verbatim>\<open>Schedule_Store\<close> (\<^verbatim>\<open>domain/scheduled_jobs.go\<close>, \<^verbatim>\<open>memory_scheduled_jobs.go\<close>) and \<^verbatim>\<open>Schedule_Flow\<close> (\<^verbatim>\<open>httpapi/scheduled_jobs.go\<close>): the agents'
    scheduled prompts. A fire checks the budget blocks and creates a task on the board. \<^verbatim>\<open>Schedule_Laws\<close>: the cap on active jobs, while
    administrators change it, the bound on failures, one-shot jobs, which jobs a claim hands out. Readers of JSON, timestamps, time zones and cron expressions
    are parameters. In the state machine a tick is one step; \<open>pause_is_lost\<close> and
    \<open>interleaved_tick_exceeds_cap\<close> show what an interleaved request can do.
  \<^item> \<^verbatim>\<open>Prompt_Compose\<close> (\<^verbatim>\<open>promptcompo/promptcompo.go\<close>, \<^verbatim>\<open>sanitize.go\<close>): template variables, tiers, caps. The user-editable tiers cannot open or
    close a block, and a composed prompt is within its caps; the platform tier can hold delimiters from a squad's name.
  \<^item> \<^verbatim>\<open>Build_Govern\<close> (\<^verbatim>\<open>build-service/internal/authn\<close>, \<^verbatim>\<open>cppolicy\<close>, \<^verbatim>\<open>gitcheck\<close>, \<^verbatim>\<open>govern\<close>), \<^verbatim>\<open>Build_Runner\<close> (\<^verbatim>\<open>runner/runner.go\<close>) and \<^verbatim>\<open>Build_Server\<close>
    (\<^verbatim>\<open>httpapi/server.go\<close>): the build service. \<^verbatim>\<open>Build_Laws\<close>: the builds that reach the runner are governed and within the hourly
    quota, with four ways in which the checks fall short. \<^verbatim>\<open>Build_Runner\<close> shows that the digest search finds the leftmost digest.

  \<^bold>\<open>Bounds.\<close> The cycle check runs at most 32 levels and the namespace search at most 998 candidates, as in the code; all other
  loops are over finite lists or have a termination proof. No definition uses fuel that the code does not have.

  \<^bold>\<open>Not modelled.\<close> The Postgres store (its behaviour is SQL), the HTTP handlers other than those of confirmations, grant
  requests, built-in tools and scheduled jobs, the web search proxy, login and sessions, budget amounts, prices and the
  verdicts on them (floating point), the Kubernetes writers and the operator (state of an API server), transports and clients of
  the drivers (parameters of the gateway's pipeline), embeddings and search, the terminal service and the browser proxy, the build
  service's Kubernetes and git clients, and the Python and TypeScript parts. Of the
  memory store the agent memories (floating-point similarity) and MCP drift rows are not modelled. Concurrency inside a
  locked method and cancellation of contexts are not modelled; times and latencies of gateway audit events are left out.
\<close>

end
